(* ===== verification/Prelude.thy ===== *)
theory Prelude
  imports Complex_Main "HOL-Library.Sublist"
begin

text \<open>
  Shared vocabulary of the development.

  Fallible code returns a value of \<^typ>\<open>'e + 'a\<close>: \<^term>\<open>Inl e\<close> is a raised error and
  \<^term>\<open>Inr a\<close> a result.  Tables of the database are lists of records; this theory has the
  three operations every repository uses on them (select the first row, update the rows that
  satisfy a WHERE clause, insert) with the facts that carry the component proofs.  It also has
  the character classes of the regular expressions in the sources, JavaScript's decimal
  printing of integers, and the execution of a sequence of commands.
\<close>

named_theorems db_simps \<open>rewriting facts for the table operations\<close>
named_theorems machine_simps \<open>unfolding of the commands of the state machines\<close>
named_theorems machine_quantifiers \<open>quantifiers over the commands of a machine\<close>
named_theorems guard_simps \<open>unfolding of validation guards\<close>

type_synonym time = int \<comment> \<open>milliseconds since the epoch, as Date.getTime returns them\<close>

section \<open>JavaScript numbers and dates\<close>

text \<open>A number of the language: a finite value, NaN or an infinity.  Finite doubles are rationals;
  no operation modelled here rounds.\<close>

datatype js_number = Num rat | NaN | PosInf | NegInf

fun isInteger :: "js_number \<Rightarrow> bool" where
  "isInteger (Num r) \<longleftrightarrow> r = of_int \<lfloor>r\<rfloor>"
| "isInteger _ \<longleftrightarrow> False"

fun js_less :: "js_number \<Rightarrow> js_number \<Rightarrow> bool" where
  "js_less (Num a) (Num b) \<longleftrightarrow> a < b"
| "js_less (Num a) PosInf \<longleftrightarrow> True"
| "js_less NegInf (Num b) \<longleftrightarrow> True"
| "js_less NegInf PosInf \<longleftrightarrow> True"
| "js_less _ _ \<longleftrightarrow> False"

definition num :: "int \<Rightarrow> js_number" where
  "num i = Num (of_int i)"

lemma isInteger_iff: "isInteger n \<longleftrightarrow> (\<exists>i. n = num i)"
  by (cases n) (auto simp: num_def)

lemma isInteger_num [simp]: "isInteger (num i)"
  by (simp add: num_def)

lemma num_eq_iff [simp]: "num i = num j \<longleftrightarrow> i = j"
  by (simp add: num_def)

lemma js_less_num [simp]: "js_less (num i) (num j) \<longleftrightarrow> i < j"
  by (simp add: num_def)

text \<open>The time value of a Date: None is an invalid date, whose getTime is NaN.  A comparison
  with NaN is false.\<close>

type_synonym date = "time option"

fun date_le :: "date \<Rightarrow> date \<Rightarrow> bool" where
  "date_le (Some a) (Some b) \<longleftrightarrow> a \<le> b"
| "date_le _ _ \<longleftrightarrow> False"

fun truthy :: "string option \<Rightarrow> bool" where
  "truthy None \<longleftrightarrow> False"
| "truthy (Some s) \<longleftrightarrow> s \<noteq> []"

lemma truthy_iff: "truthy x \<longleftrightarrow> (\<exists>s. x = Some s \<and> s \<noteq> [])"
  by (cases x) auto

section \<open>Results\<close>

fun bind_result :: "'e + 'a \<Rightarrow> ('a \<Rightarrow> 'e + 'b) \<Rightarrow> 'e + 'b" where
  "bind_result (Inl e) f = Inl e"
| "bind_result (Inr a) f = f a"

fun map_error :: "('e \<Rightarrow> 'f) \<Rightarrow> 'e + 'a \<Rightarrow> 'f + 'a" where
  "map_error h (Inl e) = Inl (h e)"
| "map_error h (Inr a) = Inr a"

definition require :: "bool \<Rightarrow> 'e \<Rightarrow> 'e + unit" where
  "require b e = (if b then Inr () else Inl e)"

lemma bind_result_eq_Inr [simp]:
  "bind_result m f = Inr b \<longleftrightarrow> (\<exists>a. m = Inr a \<and> f a = Inr b)"
  by (cases m) auto

lemma bind_result_eq_Inl:
  "bind_result m f = Inl e \<longleftrightarrow> m = Inl e \<or> (\<exists>a. m = Inr a \<and> f a = Inl e)"
  by (cases m) auto

lemma bind_result_assoc:
  "bind_result (bind_result m f) g = bind_result m (\<lambda>a. bind_result (f a) g)"
  by (cases m) auto

lemma bind_result_cong [fundef_cong]:
  assumes "m = m'" "\<And>a. m' = Inr a \<Longrightarrow> f a = f' a"
  shows "bind_result m f = bind_result m' f'"
  using assms by (cases m') auto

lemma map_error_eq_Inr [simp]: "map_error h m = Inr a \<longleftrightarrow> m = Inr a"
  by (cases m) auto

lemma map_error_eq_Inl: "map_error h m = Inl e \<longleftrightarrow> (\<exists>e'. m = Inl e' \<and> e = h e')"
  by (cases m) auto

lemma result_cases:
  assumes "\<not> isl m"
  obtains a where "m = Inr a"
  using assms by (cases m) auto

lemma require_eq [simp]:
  "require b e = Inr u \<longleftrightarrow> b"
  "require b e = Inl e' \<longleftrightarrow> \<not> b \<and> e' = e"
  by (auto simp: require_def)

section \<open>Sequences of commands\<close>

text \<open>Runs the commands one after the other and stops at the first error.\<close>

fun run_all :: "('c \<Rightarrow> 's \<Rightarrow> 'e + 's) \<Rightarrow> 'c list \<Rightarrow> 's \<Rightarrow> 'e + 's" where
  "run_all run [] s = Inr s"
| "run_all run (c # cs) s = bind_result (run c s) (run_all run cs)"

lemma run_all_append:
  "run_all run (cs @ ds) s = bind_result (run_all run cs s) (run_all run ds)"
  by (induction cs arbitrary: s) (auto simp: bind_result_assoc cong: bind_result_cong)

lemma run_all_snoc:
  "run_all run (cs @ [c]) s = bind_result (run_all run cs s) (run c)"
proof -
  have "bind_result m (run_all run [c]) = bind_result m (run c)" for m
    by (cases m) (auto split: sum.splits simp: bind_result_eq_Inl, metis bind_result.elims run_all.simps(1))
  thus ?thesis by (simp add: run_all_append)
qed

lemma run_all_invariant:
  assumes step: "\<And>c s s'. P s \<Longrightarrow> run c s = Inr s' \<Longrightarrow> P s'"
    and "P s" "run_all run cs s = Inr s'"
  shows "P s'"
  using assms(2,3) by (induction cs arbitrary: s) (auto intro: step)

section \<open>Tables\<close>

definition select_where :: "('r \<Rightarrow> bool) \<Rightarrow> 'r list \<Rightarrow> 'r option" where
  "select_where P t = find P t"

definition update_where :: "('r \<Rightarrow> bool) \<Rightarrow> ('r \<Rightarrow> 'r) \<Rightarrow> 'r list \<Rightarrow> 'r list" where
  "update_where P f t = map (\<lambda>r. if P r then f r else r) t"

lemma update_where_simps [simp]:
  "update_where P f [] = []"
  "update_where P f (r # t) = (if P r then f r else r) # update_where P f t"
  by (simp_all add: update_where_def)

lemma length_update_where [simp]: "length (update_where P f t) = length t"
  by (simp add: update_where_def)

lemma update_where_append [simp]:
  "update_where P f (t @ u) = update_where P f t @ update_where P f u"
  by (simp add: update_where_def)

lemma set_update_where:
  "set (update_where P f t) = {f r |r. r \<in> set t \<and> P r} \<union> {r \<in> set t. \<not> P r}"
  by (auto simp: update_where_def)

lemma in_update_whereE:
  assumes "r \<in> set (update_where P f t)"
  obtains (same) "r \<in> set t" "\<not> P r" | (changed) q where "q \<in> set t" "P q" "r = f q"
  using assms by (auto simp: set_update_where)

lemma update_where_none:
  assumes "\<And>r. r \<in> set t \<Longrightarrow> \<not> P r"
  shows "update_where P f t = t"
  using assms by (induction t) auto

lemma update_where_cong:
  assumes "\<And>r. r \<in> set t \<Longrightarrow> P r = Q r"
  shows "update_where P f t = update_where Q f t"
  using assms by (induction t) auto

lemma map_update_where:
  assumes "\<And>r. P r \<Longrightarrow> g (f r) = g r"
  shows "map g (update_where P f t) = map g t"
  using assms by (induction t) auto

lemma select_where_simps [simp]:
  "select_where P [] = None"
  "select_where P (r # t) = (if P r then Some r else select_where P t)"
  by (simp_all add: select_where_def)

lemma select_where_SomeD:
  assumes "select_where P t = Some r"
  shows "r \<in> set t" "P r"
  using assms by (induction t) (auto split: if_splits)

lemma select_where_None_iff:
  "select_where P t = None \<longleftrightarrow> (\<forall>r \<in> set t. \<not> P r)"
  by (induction t) auto

lemma select_where_append:
  "select_where P (t @ u) =
     (case select_where P t of Some r \<Rightarrow> Some r | None \<Rightarrow> select_where P u)"
  by (induction t) auto

lemma distinct_map_key_eq:
  assumes "distinct (map key t)" "r \<in> set t" "q \<in> set t" "key r = key q"
  shows "r = q"
  using assms by (meson distinct_map inj_onD)

lemma select_where_unique:
  assumes "distinct (map key t)" "r \<in> set t" "P r" "\<And>q. q \<in> set t \<Longrightarrow> P q \<Longrightarrow> key q = key r"
  shows "select_where P t = Some r"
proof (cases "select_where P t")
  case None
  thus ?thesis using assms(2,3) by (induction t) (auto split: if_splits)
next
  case (Some q)
  hence "q \<in> set t" "P q" by (auto dest: select_where_SomeD)
  thus ?thesis using Some assms distinct_map_key_eq by metis
qed

lemma select_where_update_where:
  assumes "\<And>r. P r \<Longrightarrow> Q (f r) = Q r"
  shows "select_where Q (update_where P f t) =
    (case select_where Q t of None \<Rightarrow> None | Some r \<Rightarrow> Some (if P r then f r else r))"
  using assms by (induction t) auto

lemma select_where_cong:
  assumes "\<And>r. r \<in> set t \<Longrightarrow> P r = Q r"
  shows "select_where P t = select_where Q t"
  using assms by (induction t) auto

lemmas table_simps = select_where_append update_where_append select_where_None_iff
declare table_simps [db_simps]

section \<open>Strings\<close>

definition code :: "char \<Rightarrow> nat" where
  "code c = of_char c"

definition is_lower :: "char \<Rightarrow> bool" where
  "is_lower c \<longleftrightarrow> 97 \<le> code c \<and> code c \<le> 122"

definition is_upper :: "char \<Rightarrow> bool" where
  "is_upper c \<longleftrightarrow> 65 \<le> code c \<and> code c \<le> 90"

definition is_digit :: "char \<Rightarrow> bool" where
  "is_digit c \<longleftrightarrow> 48 \<le> code c \<and> code c \<le> 57"

definition is_hex :: "char \<Rightarrow> bool" where
  "is_hex c \<longleftrightarrow> is_digit c \<or> (97 \<le> code c \<and> code c \<le> 102)"

text \<open>The equations by which codes and hexadecimal digits are evaluated, on the bits of a character.\<close>

lemma code_Char [code]:
  "code (Char b0 b1 b2 b3 b4 b5 b6 b7) = (if b0 then 1 else 0) + (if b1 then 2 else 0) + (if b2 then 4 else 0)
     + (if b3 then 8 else 0) + (if b4 then 16 else 0) + (if b5 then 32 else 0) + (if b6 then 64 else 0) + (if b7 then 128 else 0)"
  by (simp add: code_def)

lemma is_hex_Char [code]:
  "is_hex (Char b0 b1 b2 b3 b4 b5 b6 b7) \<longleftrightarrow> \<not> b7 \<and> b5 \<and>
     (if b6 then \<not> b4 \<and> \<not> b3 \<and> (b0 \<or> b1 \<or> b2) \<and> \<not> (b0 \<and> b1 \<and> b2) else b4 \<and> \<not> (b3 \<and> (b1 \<or> b2)))"
  unfolding is_hex_def is_digit_def code_Char by auto

text \<open>A pattern of the shape \<^verbatim>\<open>^[first][rest]{lo,hi}$\<close>.\<close>

fun matches_head :: "(char \<Rightarrow> bool) \<Rightarrow> (char \<Rightarrow> bool) \<Rightarrow> nat \<Rightarrow> nat \<Rightarrow> string \<Rightarrow> bool" where
  "matches_head first rest lo hi [] = False"
| "matches_head first rest lo hi (c # cs) \<longleftrightarrow>
     first c \<and> list_all rest cs \<and> lo \<le> length cs \<and> length cs \<le> hi"

text \<open>A pattern of the shape \<^verbatim>\<open>^[cls]{lo,hi}$\<close>.\<close>

definition matches_all :: "(char \<Rightarrow> bool) \<Rightarrow> nat \<Rightarrow> nat \<Rightarrow> string \<Rightarrow> bool" where
  "matches_all cls lo hi s \<longleftrightarrow> list_all cls s \<and> lo \<le> length s \<and> length s \<le> hi"

text \<open>The pattern \<^verbatim>\<open>^[0-9a-f]{64}$\<close> of a SHA-256 digest.\<close>

definition is_digest :: "string \<Rightarrow> bool" where
  "is_digest s \<longleftrightarrow> matches_all is_hex 64 64 s"

lemma matches_head_length:
  assumes "matches_head first rest lo hi s"
  shows "lo < length s" "length s \<le> Suc hi"
  using assms by (cases s; simp)+

lemma matches_head_chars:
  assumes "matches_head first rest lo hi s" "c \<in> set s"
  shows "first c \<or> rest c"
  using assms by (cases s) (auto simp: list_all_iff)

definition digit_char :: "nat \<Rightarrow> char" where
  "digit_char d = (if d = 0 then CHR ''0'' else if d = 1 then CHR ''1'' else if d = 2 then CHR ''2''
     else if d = 3 then CHR ''3'' else if d = 4 then CHR ''4'' else if d = 5 then CHR ''5''
     else if d = 6 then CHR ''6'' else if d = 7 then CHR ''7'' else if d = 8 then CHR ''8''
     else CHR ''9'')"

fun nat_to_string :: "nat \<Rightarrow> string" where
  "nat_to_string n =
     (if n < 10 then [digit_char n] else nat_to_string (n div 10) @ [digit_char (n mod 10)])"

declare nat_to_string.simps [simp del]

text \<open>The equation by which it is evaluated: the digits by division of integers.\<close>

fun digits_of :: "int \<Rightarrow> string" where
  "digits_of i = (if i < 10 then [digit_char (nat i)] else digits_of (i div 10) @ [digit_char (nat (i mod 10))])"

declare digits_of.simps [simp del]

lemma nat_to_string_digits_of [code]: "nat_to_string n = digits_of (int n)"
proof (induction n rule: nat_to_string.induct)
  case (1 n)
  show ?case
  proof (cases "n < 10")
    case True
    thus ?thesis by (simp add: nat_to_string.simps[of n] digits_of.simps[of "int n"])
  next
    case False
    have "int n div 10 = int (n div 10)" "nat (int n mod 10) = n mod 10" by (simp_all add: zdiv_int nat_mod_distrib)
    thus ?thesis using 1 False by (simp add: nat_to_string.simps[of n] digits_of.simps[of "int n"])
  qed
qed

lemma digit_char_inj:
  assumes "digit_char a = digit_char b" "a < 10" "b < 10"
  shows "a = b"
proof -
  have "d = 0 \<or> d = 1 \<or> d = 2 \<or> d = 3 \<or> d = 4 \<or> d = 5 \<or> d = 6 \<or> d = 7 \<or> d = 8 \<or> d = 9"
    if "d < 10" for d :: nat
    using that by arith
  from this[OF assms(2)] this[OF assms(3)] assms(1) show ?thesis
    unfolding digit_char_def by (elim disjE) simp_all
qed

lemma nat_to_string_inj:
  assumes "nat_to_string a = nat_to_string b"
  shows "a = b"
  using assms
proof (induction a arbitrary: b rule: nat_to_string.induct)
  case (1 a)
  have ne: "nat_to_string k \<noteq> []" for k
    by (subst nat_to_string.simps) simp
  show ?case
  proof (cases "a < 10"; cases "b < 10")
    assume "a < 10" "b < 10"
    thus ?thesis using 1(2) by (simp add: nat_to_string.simps[of a] nat_to_string.simps[of b] digit_char_inj)
  next
    assume "\<not> a < 10" "\<not> b < 10"
    hence "nat_to_string (a div 10) = nat_to_string (b div 10)"
      "digit_char (a mod 10) = digit_char (b mod 10)"
      using 1(2) by (simp_all add: nat_to_string.simps[of a] nat_to_string.simps[of b])
    hence "a div 10 = b div 10" "a mod 10 = b mod 10"
      using 1(1) \<open>\<not> a < 10\<close> by (simp_all add: digit_char_inj)
    thus ?thesis by (metis div_mult_mod_eq)
  next
    assume "a < 10" "\<not> b < 10"
    thus ?thesis using 1(2) ne[of "b div 10"]
      by (auto simp: nat_to_string.simps[of a] nat_to_string.simps[of b])
  next
    assume "\<not> a < 10" "b < 10"
    thus ?thesis using 1(2) ne[of "a div 10"]
      by (auto simp: nat_to_string.simps[of a] nat_to_string.simps[of b])
  qed
qed

lemma nat_to_string_digits: "nat_to_string n \<noteq> [] \<and> list_all is_digit (nat_to_string n)"
proof (induction n rule: nat_to_string.induct)
  case (1 n)
  have "is_digit (digit_char d)" for d by (simp add: digit_char_def is_digit_def code_def)
  thus ?case using 1 by (subst (1 2) nat_to_string.simps) auto
qed

definition int_to_string :: "int \<Rightarrow> string" where
  "int_to_string i = (if i < 0 then ''-'' @ nat_to_string (nat (- i)) else nat_to_string (nat i))"

lemma int_to_string_chars:
  "int_to_string i \<noteq> [] \<and> list_all (\<lambda>c. is_digit c \<or> c = CHR ''-'') (int_to_string i)"
  using nat_to_string_digits[of "nat i"] nat_to_string_digits[of "nat (- i)"]
  by (auto simp: int_to_string_def list_all_iff)

lemma int_to_string_inj: "int_to_string i = int_to_string j \<longleftrightarrow> i = j"
proof
  have minus: "nat_to_string m \<noteq> CHR ''-'' # r" for m r
    using nat_to_string_digits[of m] by (auto simp: is_digit_def code_def)
  assume "int_to_string i = int_to_string j"
  thus "i = j"
    using minus minus[symmetric] nat_to_string_inj[of "nat i" "nat j"] nat_to_string_inj[of "nat (- i)" "nat (- j)"]
    by (auto simp: int_to_string_def split: if_splits)
qed simp

fun join :: "string \<Rightarrow> string list \<Rightarrow> string" where
  "join sep [] = []"
| "join sep [s] = s"
| "join sep (s # t # ss) = s @ sep @ join sep (t # ss)"

end
