(* ===== verification/Transaction.thy ===== *)
theory Transaction
  imports Prelude
begin

text \<open>
  Transactions.  A transaction body is a function from the database to an error or to a result and
  the new database; an error keeps nothing of what the body wrote, which is the ROLLBACK of
  packages/db/src/repository-types.ts.  \<open>keeps\<close> says that a body preserves an invariant whenever it
  succeeds; its rules, in the collection \<open>keeps_rules\<close>, follow the structure of a body, so the
  preservation proofs of the repositories are by rule application.
\<close>

type_synonym ('db, 'e, 'a) body = "'db \<Rightarrow> 'e + ('a \<times> 'db)"

definition returnT :: "'a \<Rightarrow> ('db, 'e, 'a) body" where
  "returnT a db = Inr (a, db)"

definition throwT :: "'e \<Rightarrow> ('db, 'e, 'a) body" where
  "throwT e db = Inl e"

definition bindT :: "('db, 'e, 'a) body \<Rightarrow> ('a \<Rightarrow> ('db, 'e, 'b) body) \<Rightarrow> ('db, 'e, 'b) body" where
  "bindT m f db = bind_result (m db) (\<lambda>(a, db'). f a db')"

definition readT :: "('db \<Rightarrow> 'a) \<Rightarrow> ('db, 'e, 'a) body" where
  "readT f db = Inr (f db, db)"

definition writeT :: "('db \<Rightarrow> 'db) \<Rightarrow> ('db, 'e, unit) body" where
  "writeT f db = Inr ((), f db)"

definition liftT :: "'e + 'a \<Rightarrow> ('db, 'e, 'a) body" where
  "liftT m db = bind_result m (\<lambda>a. Inr (a, db))"

definition requireT :: "bool \<Rightarrow> 'e \<Rightarrow> ('db, 'e, unit) body" where
  "requireT b e db = (if b then Inr ((), db) else Inl e)"

lemmas body_defs = returnT_def throwT_def bindT_def readT_def writeT_def liftT_def requireT_def

lemma bindT_Inr [simp]:
  "bindT m f db = Inr (b, db'') \<longleftrightarrow> (\<exists>a db'. m db = Inr (a, db') \<and> f a db' = Inr (b, db''))"
  by (auto simp: bindT_def)

lemma body_Inr [simp]:
  "returnT a db = Inr (b, db') \<longleftrightarrow> b = a \<and> db' = db"
  "throwT e db \<noteq> Inr (b, db')"
  "readT f db = Inr (b, db') \<longleftrightarrow> b = f db \<and> db' = db"
  "writeT g db = Inr (u, db') \<longleftrightarrow> db' = g db"
  "requireT c e db = Inr (u, db') \<longleftrightarrow> c \<and> db' = db"
  by (auto simp: body_defs)

lemma liftT_Inr [simp]:
  "liftT m db = Inr (b, db') \<longleftrightarrow> m = Inr b \<and> db' = db"
  by (cases m) (auto simp: liftT_def)

section \<open>Invariants of bodies\<close>

definition keeps :: "('db \<Rightarrow> bool) \<Rightarrow> ('db, 'e, 'a) body \<Rightarrow> bool" where
  "keeps I m \<longleftrightarrow> (\<forall>db a db'. I db \<longrightarrow> m db = Inr (a, db') \<longrightarrow> I db')"

named_theorems keeps_rules \<open>preservation of an invariant, by the structure of a body\<close>

lemma keepsD: "keeps I m \<Longrightarrow> I db \<Longrightarrow> m db = Inr (a, db') \<Longrightarrow> I db'"
  by (auto simp: keeps_def)

lemma keepsI: "(\<And>db a db'. I db \<Longrightarrow> m db = Inr (a, db') \<Longrightarrow> I db') \<Longrightarrow> keeps I m"
  by (auto simp: keeps_def)

lemma keeps_basic [keeps_rules]:
  "keeps I (returnT a)" "keeps I (throwT e)" "keeps I (readT f)" "keeps I (liftT r)"
  "keeps I (requireT b e)"
  by (auto simp: keeps_def)

lemma keeps_bindT [keeps_rules]:
  assumes "keeps I m" "\<And>a. keeps I (f a)"
  shows "keeps I (bindT m f)"
proof (rule keepsI)
  fix db b db'' assume "I db" "bindT m f db = Inr (b, db'')"
  then obtain a db' where "m db = Inr (a, db')" "f a db' = Inr (b, db'')" by auto
  thus "I db''" using assms \<open>I db\<close> keepsD by metis
qed

lemma keeps_if [keeps_rules]:
  assumes "b \<Longrightarrow> keeps I m" "\<not> b \<Longrightarrow> keeps I n"
  shows "keeps I (if b then m else n)"
  using assms by simp

lemma keeps_option [keeps_rules]:
  assumes "keeps I m" "\<And>a. keeps I (n a)"
  shows "keeps I (case x of None \<Rightarrow> m | Some a \<Rightarrow> n a)"
  using assms by (cases x) auto

lemma keeps_prod [keeps_rules]:
  assumes "\<And>a b. keeps I (f a b)"
  shows "keeps I (case x of (a, b) \<Rightarrow> f a b)"
  using assms by (cases x) auto

lemma keeps_conj:
  assumes "keeps I m" "keeps J m"
  shows "keeps (\<lambda>db. I db \<and> J db) m"
  using assms unfolding keeps_def by blast

text \<open>A body that leaves a part of the database as it is.\<close>

definition untouched :: "('db \<Rightarrow> 'c) \<Rightarrow> ('db, 'e, 'a) body \<Rightarrow> bool" where
  "untouched g m \<longleftrightarrow> (\<forall>db a db'. m db = Inr (a, db') \<longrightarrow> g db' = g db)"

named_theorems frame_rules \<open>parts of the database a body leaves as they are\<close>

lemma untouchedD: "untouched g m \<Longrightarrow> m db = Inr (a, db') \<Longrightarrow> g db' = g db"
  by (auto simp: untouched_def)

lemma untouchedI: "(\<And>db a db'. m db = Inr (a, db') \<Longrightarrow> g db' = g db) \<Longrightarrow> untouched g m"
  by (auto simp: untouched_def)

lemma untouched_basic [frame_rules]:
  "untouched g (returnT a)" "untouched g (throwT e)" "untouched g (readT f)" "untouched g (liftT r)"
  "untouched g (requireT b e)"
  by (auto simp: untouched_def)

lemma untouched_writeT: "(\<And>db. g (f db) = g db) \<Longrightarrow> untouched g (writeT f)"
  by (auto simp: untouched_def)

lemma untouched_bindT [frame_rules]:
  assumes "untouched g m" "\<And>a. untouched g (f a)"
  shows "untouched g (bindT m f)"
  using assms by (fastforce simp: untouched_def)

lemma untouched_if [frame_rules]:
  assumes "b \<Longrightarrow> untouched g m" "\<not> b \<Longrightarrow> untouched g n"
  shows "untouched g (if b then m else n)"
  using assms by simp

lemma untouched_option [frame_rules]:
  assumes "untouched g m" "\<And>a. untouched g (n a)"
  shows "untouched g (case x of None \<Rightarrow> m | Some a \<Rightarrow> n a)"
  using assms by (cases x) auto

lemma untouched_prod [frame_rules]:
  assumes "\<And>a b. untouched g (f a b)"
  shows "untouched g (case x of (a, b) \<Rightarrow> f a b)"
  using assms by (cases x) auto

lemma untouched_keeps:
  assumes "untouched g m" "\<And>db db'. g db' = g db \<Longrightarrow> I db \<Longrightarrow> I db'"
  shows "keeps I m"
  using assms by (fastforce simp: keeps_def untouched_def)

section \<open>inSerializableTransaction\<close>

text \<open>
  The loop of packages/db/src/repository-types.ts.  The body may behave differently at each attempt
  (other transactions run in between), so it is given the number of the attempt; \<open>sqlstate\<close> reads
  the code of an error.  The result is an error or a value, and the committed database.
\<close>

function tx_attempt ::
  "('e \<Rightarrow> string) \<Rightarrow> 'e \<Rightarrow> (nat \<Rightarrow> ('db, 'e, 'a) body) \<Rightarrow> nat \<Rightarrow> 'db \<Rightarrow> ('e + 'a) \<times> 'db" where
  "tx_attempt sqlstate exhausted work attempt db =
     (if attempt > 3 then (Inl exhausted, db)
      else case work attempt db of
        Inr (result, db') \<Rightarrow> (Inr result, db')
      | Inl e \<Rightarrow>
          if attempt = 3 \<or> (sqlstate e \<noteq> ''40001'' \<and> sqlstate e \<noteq> ''40P01'')
          then (Inl e, db) else tx_attempt sqlstate exhausted work (attempt + 1) db)"
  by pat_completeness auto

termination
  by (relation "measure (\<lambda>(_, _, _, attempt, _). 4 - attempt)") auto

declare tx_attempt.simps [simp del]

lemma tx_attempt_deterministic:
  assumes "1 \<le> k" "k \<le> 3"
  shows "tx_attempt sqlstate exhausted (\<lambda>_. m) k db =
     (case m db of Inr (a, db') \<Rightarrow> (Inr a, db') | Inl e \<Rightarrow> (Inl e, db))"
proof -
  have 3: "tx_attempt sqlstate exhausted (\<lambda>_. m) 3 db =
     (case m db of Inr (a, db') \<Rightarrow> (Inr a, db') | Inl e \<Rightarrow> (Inl e, db))"
    by (subst tx_attempt.simps) (auto split: sum.splits)
  hence 2: "tx_attempt sqlstate exhausted (\<lambda>_. m) 2 db =
     (case m db of Inr (a, db') \<Rightarrow> (Inr a, db') | Inl e \<Rightarrow> (Inl e, db))"
    by (subst tx_attempt.simps) (auto split: sum.splits simp: eval_nat_numeral)
  hence 1: "tx_attempt sqlstate exhausted (\<lambda>_. m) 1 db =
     (case m db of Inr (a, db') \<Rightarrow> (Inr a, db') | Inl e \<Rightarrow> (Inl e, db))"
    by (subst tx_attempt.simps) (auto split: sum.splits simp: eval_nat_numeral)
  have "k = 1 \<or> k = 2 \<or> k = 3" using assms by arith
  thus ?thesis using 1 2 3 by auto
qed

definition serialization_failure :: "('e \<Rightarrow> string) \<Rightarrow> 'e + 'b \<Rightarrow> bool" where
  "serialization_failure sqlstate r \<longleftrightarrow>
     (case r of Inl e \<Rightarrow> sqlstate e = ''40001'' \<or> sqlstate e = ''40P01'' | Inr _ \<Rightarrow> False)"

lemma tx_attempt_step:
  assumes "k < 3" "serialization_failure sqlstate (work k db)"
  shows "tx_attempt sqlstate exhausted work k db = tx_attempt sqlstate exhausted work (k + 1) db"
  using assms by (subst tx_attempt.simps) (auto simp: serialization_failure_def split: sum.splits)

lemma tx_attempt_stop:
  assumes "k \<le> 3" "k = 3 \<or> \<not> serialization_failure sqlstate (work k db)"
  shows "tx_attempt sqlstate exhausted work k db =
     (case work k db of Inr (a, db') \<Rightarrow> (Inr a, db') | Inl e \<Rightarrow> (Inl e, db))"
  using assms by (subst tx_attempt.simps) (auto simp: serialization_failure_def split: sum.splits)

text \<open>The outcome is that of one attempt on the original database, after attempts that all failed
  with a serialization code; the retry-budget error after the loop is never raised.\<close>

lemma tx_attempt_outcome:
  "\<exists>j \<in> {1, 2, 3}.
     (\<forall>i \<in> {1, 2}. i < j \<longrightarrow> serialization_failure sqlstate (work i db))
     \<and> tx_attempt sqlstate exhausted work 1 db =
         (case work j db of Inr (a, db') \<Rightarrow> (Inr a, db') | Inl e \<Rightarrow> (Inl e, db))"
proof (cases "serialization_failure sqlstate (work 1 db)")
  case False
  thus ?thesis using tx_attempt_stop[of 1 sqlstate work db] by auto
next
  case one: True
  hence 1: "tx_attempt sqlstate exhausted work 1 db = tx_attempt sqlstate exhausted work 2 db"
    using tx_attempt_step[of 1 sqlstate work db] by (simp add: numeral_2_eq_2)
  show ?thesis
  proof (cases "serialization_failure sqlstate (work 2 db)")
    case False
    thus ?thesis using tx_attempt_stop[of 2 sqlstate work db] one 1 by auto
  next
    case True
    hence "tx_attempt sqlstate exhausted work 2 db = tx_attempt sqlstate exhausted work 3 db"
      using tx_attempt_step[of 2 sqlstate work db] by simp
    thus ?thesis using tx_attempt_stop[of 3 sqlstate work db] one True 1 by auto
  qed
qed

end
