(* ===== verification/Transition.thy ===== *)
theory Transition
  imports Prelude
begin

text \<open>
  packages/domain/src/transition.ts: the one function every lifecycle of the domain package goes
  through, and the interface \<open>lifecycle\<close> the ten modules implement with it.  States are
  datatypes; the source's string literals are given by a naming function, because the error the
  function raises carries strings.  The lemmas of the locale are about sequences of commands: which
  command must have been the last one, and what can no longer happen after a terminal state.
\<close>

datatype DomainAggregate =
    Agg_verification | Agg_committee | Agg_verus_job | Agg_renewal_cycle | Agg_wallet_challenge
  | Agg_consent | Agg_appeal | Agg_privacy_request | Agg_notification | Agg_relying_party_client

fun aggregate_name :: "DomainAggregate \<Rightarrow> string" where
  "aggregate_name Agg_verification = ''verification''"
| "aggregate_name Agg_committee = ''committee''"
| "aggregate_name Agg_verus_job = ''verus_job''"
| "aggregate_name Agg_renewal_cycle = ''renewal_cycle''"
| "aggregate_name Agg_wallet_challenge = ''wallet_challenge''"
| "aggregate_name Agg_consent = ''consent''"
| "aggregate_name Agg_appeal = ''appeal''"
| "aggregate_name Agg_privacy_request = ''privacy_request''"
| "aggregate_name Agg_notification = ''notification''"
| "aggregate_name Agg_relying_party_client = ''relying_party_client''"

text \<open>The readonly fields of the error class: aggregate, command, currentState, expectedStates.\<close>

datatype InvalidTransitionError =
  InvalidTransitionError
    (err_aggregate: DomainAggregate) (err_command: string) (err_currentState: string)
    (err_expectedStates: "string list")

definition transition_error_message :: "InvalidTransitionError \<Rightarrow> string" where
  "transition_error_message e =
     aggregate_name (err_aggregate e) @ '' command '' @ err_command e @ '' cannot run from ''
       @ err_currentState e @ ''; expected '' @ join '' or '' (err_expectedStates e)"

definition applyTransition ::
  "('s \<Rightarrow> string) \<Rightarrow> DomainAggregate \<Rightarrow> string \<Rightarrow> 's \<Rightarrow> 's list \<Rightarrow> 's \<Rightarrow> InvalidTransitionError + 's" where
  "applyTransition nm agg cmd current expected next_state =
     (if current \<notin> set expected
      then Inl (InvalidTransitionError agg cmd (nm current) (map nm expected))
      else Inr next_state)"

lemma applyTransition_eq_Inr [simp]:
  "applyTransition nm agg cmd s expected t = Inr u \<longleftrightarrow> s \<in> set expected \<and> u = t"
  by (auto simp: applyTransition_def)

lemma applyTransition_eq_Inl [simp]:
  "applyTransition nm agg cmd s expected t = Inl e \<longleftrightarrow>
     s \<notin> set expected \<and> e = InvalidTransitionError agg cmd (nm s) (map nm expected)"
  by (auto simp: applyTransition_def)

text \<open>The states a sequence of commands can lead to.\<close>

definition reaches :: "('c \<Rightarrow> 's \<Rightarrow> 'e + 's) \<Rightarrow> 's \<Rightarrow> 's \<Rightarrow> bool" where
  "reaches run s t \<longleftrightarrow> (\<exists>cs. run_all run cs s = Inr t)"

lemma reachesI: "run_all run cs s = Inr t \<Longrightarrow> reaches run s t"
  by (auto simp: reaches_def)

lemma reaches_refl [simp]: "reaches run s s"
  by (rule reachesI[of run "[]"]) simp

lemma reaches_step:
  assumes "reaches run s t" "run c t = Inr u"
  shows "reaches run s u"
proof -
  obtain cs where "run_all run cs s = Inr t" using assms(1) by (auto simp: reaches_def)
  hence "run_all run (cs @ [c]) s = Inr u" using assms(2) by (simp add: run_all_snoc)
  thus ?thesis by (rule reachesI)
qed

text \<open>
  The interface of a lifecycle module: its commands, and for each of them the states it accepts
  and the state it leads to.
\<close>

locale lifecycle =
  fixes run :: "'c \<Rightarrow> 's \<Rightarrow> InvalidTransitionError + 's"
    and state_name :: "'s \<Rightarrow> string"
    and agg :: DomainAggregate
    and command_name :: "'c \<Rightarrow> string"
    and expected :: "'c \<Rightarrow> 's list"
    and target :: "'c \<Rightarrow> 's"
  assumes run_apply:
      "run c s = applyTransition state_name agg (command_name c) s (expected c) (target c)"
    and state_name_inj: "state_name s = state_name t \<Longrightarrow> s = t"
begin

lemma run_eq_Inr: "run c s = Inr t \<longleftrightarrow> s \<in> set (expected c) \<and> t = target c"
  by (simp add: run_apply)

lemma run_eq_Inl:
  "run c s = Inl e \<longleftrightarrow>
     s \<notin> set (expected c)
     \<and> e = InvalidTransitionError agg (command_name c) (state_name s) (map state_name (expected c))"
  by (simp add: run_apply)

text \<open>The error names the state the command was refused in, and that state is not among those it
  names as expected.\<close>

lemma run_error_honest:
  assumes "run c s = Inl e"
  shows "err_aggregate e = agg" "err_command e = command_name c" "err_currentState e = state_name s"
    and "err_currentState e \<notin> set (err_expectedStates e)"
  using assms by (auto simp: run_eq_Inl dest: state_name_inj)

text \<open>Only one command leads to a state, and it accepts one state: every run that ends there ends
  with that command, issued in that state.\<close>

lemma only_entry:
  assumes "run_all run cs s = Inr t" "s \<noteq> t"
    and "\<And>c. target c = t \<Longrightarrow> c = c0" "set (expected c0) = {p}"
  obtains cs' where "cs = cs' @ [c0]" "run_all run cs' s = Inr p"
proof -
  have "cs \<noteq> []" using assms(1,2) by auto
  then obtain cs' c where cs: "cs = cs' @ [c]" by (metis append_butlast_last_id)
  then obtain u where u: "run_all run cs' s = Inr u" "run c u = Inr t"
    using assms(1) by (auto simp: run_all_snoc)
  hence "c = c0" "u \<in> set (expected c0)" using assms(3) by (auto simp: run_eq_Inr)
  thus ?thesis using that cs u assms(4) by auto
qed

lemma last_command:
  assumes "run_all run cs s = Inr t" "s \<noteq> t"
  obtains cs' c u where "cs = cs' @ [c]" "run_all run cs' s = Inr u" "u \<in> set (expected c)" "target c = t"
proof -
  have "cs \<noteq> []" using assms by auto
  then obtain cs' c where "cs = cs' @ [c]" by (metis append_butlast_last_id)
  thus ?thesis using that assms(1) by (auto simp: run_all_snoc run_eq_Inr)
qed

definition terminal :: "'s \<Rightarrow> bool" where
  "terminal s \<longleftrightarrow> (\<forall>c t. run c s \<noteq> Inr t)"

lemma terminal_iff: "terminal s \<longleftrightarrow> (\<forall>c. s \<notin> set (expected c))"
  by (auto simp: terminal_def run_eq_Inr)

lemma terminal_absorbing:
  assumes "terminal s" "run_all run cs s = Inr t"
  shows "cs = [] \<and> t = s"
  using assms by (cases cs) (auto simp: terminal_def)

text \<open>A set of states no command enters is only seen by runs that start in it.\<close>

lemma closed_under_commands:
  assumes "\<And>c. set (expected c) \<inter> S \<noteq> {} \<Longrightarrow> target c \<in> S" "s \<in> S" "run_all run cs s = Inr t"
  shows "t \<in> S"
  using assms(2,3)
  by (rule run_all_invariant[rotated]) (use assms(1) in \<open>auto simp: run_eq_Inr\<close>)

end

end
