(* ===== verification/Lifecycles.thy ===== *)
theory Lifecycles
  imports Transition
begin

text \<open>
  The three lifecycles at the centre of the protocol, one section per module of
  packages/domain/src: verification.ts, committee.ts and verus-job.ts.  Each section has the
  state type, the commands as the module exports them, the commands as data with a dispatcher, and
  the interpretation of the interface \<open>lifecycle\<close>.  The sections after the modules show which runs
  of commands reach the states that matter, and compare the machines with the guards the
  database installs on the same tables.
\<close>

section \<open>Verification\<close>

datatype VerificationState =
    V_requested | V_scheduled | V_checked_in | V_under_review | V_approved | V_rejected
    | V_needs_more_information | V_withdrawn | V_issuance_pending | V_issued | V_active
    | V_expired | V_revoked | V_superseded | V_appealed | V_appeal_upheld | V_appeal_denied
    | V_appeal_remanded

definition VERIFICATION_STATES :: "VerificationState list" where
  "VERIFICATION_STATES = [
     V_requested, V_scheduled, V_checked_in, V_under_review, V_approved, V_rejected
     , V_needs_more_information, V_withdrawn, V_issuance_pending, V_issued, V_active
     , V_expired, V_revoked, V_superseded, V_appealed, V_appeal_upheld, V_appeal_denied
     , V_appeal_remanded]"

fun verification_state_name :: "VerificationState \<Rightarrow> string" where
  "verification_state_name V_requested = ''requested''"
| "verification_state_name V_scheduled = ''scheduled''"
| "verification_state_name V_checked_in = ''checked_in''"
| "verification_state_name V_under_review = ''under_review''"
| "verification_state_name V_approved = ''approved''"
| "verification_state_name V_rejected = ''rejected''"
| "verification_state_name V_needs_more_information = ''needs_more_information''"
| "verification_state_name V_withdrawn = ''withdrawn''"
| "verification_state_name V_issuance_pending = ''issuance_pending''"
| "verification_state_name V_issued = ''issued''"
| "verification_state_name V_active = ''active''"
| "verification_state_name V_expired = ''expired''"
| "verification_state_name V_revoked = ''revoked''"
| "verification_state_name V_superseded = ''superseded''"
| "verification_state_name V_appealed = ''appealed''"
| "verification_state_name V_appeal_upheld = ''appeal_upheld''"
| "verification_state_name V_appeal_denied = ''appeal_denied''"
| "verification_state_name V_appeal_remanded = ''appeal_remanded''"

definition verification_transition ::
  "string \<Rightarrow> VerificationState \<Rightarrow> VerificationState \<Rightarrow> VerificationState \<Rightarrow> InvalidTransitionError + VerificationState" where
  "verification_transition command currentState expectedState nextState =
     applyTransition verification_state_name Agg_verification command currentState [expectedState] nextState"

definition scheduleRequest :: "VerificationState \<Rightarrow> InvalidTransitionError + VerificationState" where
  "scheduleRequest currentState =
     verification_transition ''scheduleRequest'' currentState V_requested V_scheduled"

definition checkInParticipant :: "VerificationState \<Rightarrow> InvalidTransitionError + VerificationState" where
  "checkInParticipant currentState =
     verification_transition ''checkInParticipant'' currentState V_scheduled V_checked_in"

definition beginReview :: "VerificationState \<Rightarrow> InvalidTransitionError + VerificationState" where
  "beginReview currentState =
     verification_transition ''beginReview'' currentState V_checked_in V_under_review"

definition approveVerification :: "VerificationState \<Rightarrow> InvalidTransitionError + VerificationState" where
  "approveVerification currentState =
     verification_transition ''approveVerification'' currentState V_under_review V_approved"

definition rejectVerification :: "VerificationState \<Rightarrow> InvalidTransitionError + VerificationState" where
  "rejectVerification currentState =
     verification_transition ''rejectVerification'' currentState V_under_review V_rejected"

definition requestMoreInformation :: "VerificationState \<Rightarrow> InvalidTransitionError + VerificationState" where
  "requestMoreInformation currentState =
     verification_transition ''requestMoreInformation'' currentState V_under_review V_needs_more_information"

definition withdrawVerification :: "VerificationState \<Rightarrow> InvalidTransitionError + VerificationState" where
  "withdrawVerification currentState =
     verification_transition ''withdrawVerification'' currentState V_under_review V_withdrawn"

definition rescheduleAfterMoreInformation :: "VerificationState \<Rightarrow> InvalidTransitionError + VerificationState" where
  "rescheduleAfterMoreInformation currentState =
     verification_transition ''rescheduleAfterMoreInformation'' currentState V_needs_more_information V_scheduled"

definition rejectAfterMoreInformation :: "VerificationState \<Rightarrow> InvalidTransitionError + VerificationState" where
  "rejectAfterMoreInformation currentState =
     verification_transition ''rejectAfterMoreInformation'' currentState V_needs_more_information V_rejected"

definition withdrawAfterMoreInformation :: "VerificationState \<Rightarrow> InvalidTransitionError + VerificationState" where
  "withdrawAfterMoreInformation currentState =
     verification_transition ''withdrawAfterMoreInformation'' currentState V_needs_more_information V_withdrawn"

definition requestIssuance :: "VerificationState \<Rightarrow> InvalidTransitionError + VerificationState" where
  "requestIssuance currentState =
     verification_transition ''requestIssuance'' currentState V_approved V_issuance_pending"

definition recordIssuance :: "VerificationState \<Rightarrow> InvalidTransitionError + VerificationState" where
  "recordIssuance currentState =
     verification_transition ''recordIssuance'' currentState V_issuance_pending V_issued"

definition activateAttestation :: "VerificationState \<Rightarrow> InvalidTransitionError + VerificationState" where
  "activateAttestation currentState =
     verification_transition ''activateAttestation'' currentState V_issued V_active"

definition expireAttestation :: "VerificationState \<Rightarrow> InvalidTransitionError + VerificationState" where
  "expireAttestation currentState =
     verification_transition ''expireAttestation'' currentState V_active V_expired"

definition revokeAttestation :: "VerificationState \<Rightarrow> InvalidTransitionError + VerificationState" where
  "revokeAttestation currentState =
     verification_transition ''revokeAttestation'' currentState V_active V_revoked"

definition supersedeAttestation :: "VerificationState \<Rightarrow> InvalidTransitionError + VerificationState" where
  "supersedeAttestation currentState =
     verification_transition ''supersedeAttestation'' currentState V_active V_superseded"

definition openAppeal :: "VerificationState \<Rightarrow> InvalidTransitionError + VerificationState" where
  "openAppeal currentState =
     verification_transition ''openAppeal'' currentState V_rejected V_appealed"

definition upholdAppeal :: "VerificationState \<Rightarrow> InvalidTransitionError + VerificationState" where
  "upholdAppeal currentState =
     verification_transition ''upholdAppeal'' currentState V_appealed V_appeal_upheld"

definition denyAppeal :: "VerificationState \<Rightarrow> InvalidTransitionError + VerificationState" where
  "denyAppeal currentState =
     verification_transition ''denyAppeal'' currentState V_appealed V_appeal_denied"

definition remandAppeal :: "VerificationState \<Rightarrow> InvalidTransitionError + VerificationState" where
  "remandAppeal currentState =
     verification_transition ''remandAppeal'' currentState V_appealed V_appeal_remanded"

text \<open>The commands of the verification module, as data, and the call each one stands for.\<close>

datatype verification_command =
    ScheduleRequest | CheckInParticipant | BeginReview | ApproveVerification
    | RejectVerification | RequestMoreInformation | WithdrawVerification
    | RescheduleAfterMoreInformation | RejectAfterMoreInformation
    | WithdrawAfterMoreInformation | RequestIssuance | RecordIssuance | ActivateAttestation
    | ExpireAttestation | RevokeAttestation | SupersedeAttestation | OpenAppeal
    | UpholdAppeal | DenyAppeal | RemandAppeal

fun run_verification :: "verification_command \<Rightarrow> VerificationState \<Rightarrow> InvalidTransitionError + VerificationState" where
  "run_verification ScheduleRequest = scheduleRequest"
| "run_verification CheckInParticipant = checkInParticipant"
| "run_verification BeginReview = beginReview"
| "run_verification ApproveVerification = approveVerification"
| "run_verification RejectVerification = rejectVerification"
| "run_verification RequestMoreInformation = requestMoreInformation"
| "run_verification WithdrawVerification = withdrawVerification"
| "run_verification RescheduleAfterMoreInformation = rescheduleAfterMoreInformation"
| "run_verification RejectAfterMoreInformation = rejectAfterMoreInformation"
| "run_verification WithdrawAfterMoreInformation = withdrawAfterMoreInformation"
| "run_verification RequestIssuance = requestIssuance"
| "run_verification RecordIssuance = recordIssuance"
| "run_verification ActivateAttestation = activateAttestation"
| "run_verification ExpireAttestation = expireAttestation"
| "run_verification RevokeAttestation = revokeAttestation"
| "run_verification SupersedeAttestation = supersedeAttestation"
| "run_verification OpenAppeal = openAppeal"
| "run_verification UpholdAppeal = upholdAppeal"
| "run_verification DenyAppeal = denyAppeal"
| "run_verification RemandAppeal = remandAppeal"

fun verification_command_name :: "verification_command \<Rightarrow> string" where
  "verification_command_name ScheduleRequest = ''scheduleRequest''"
| "verification_command_name CheckInParticipant = ''checkInParticipant''"
| "verification_command_name BeginReview = ''beginReview''"
| "verification_command_name ApproveVerification = ''approveVerification''"
| "verification_command_name RejectVerification = ''rejectVerification''"
| "verification_command_name RequestMoreInformation = ''requestMoreInformation''"
| "verification_command_name WithdrawVerification = ''withdrawVerification''"
| "verification_command_name RescheduleAfterMoreInformation = ''rescheduleAfterMoreInformation''"
| "verification_command_name RejectAfterMoreInformation = ''rejectAfterMoreInformation''"
| "verification_command_name WithdrawAfterMoreInformation = ''withdrawAfterMoreInformation''"
| "verification_command_name RequestIssuance = ''requestIssuance''"
| "verification_command_name RecordIssuance = ''recordIssuance''"
| "verification_command_name ActivateAttestation = ''activateAttestation''"
| "verification_command_name ExpireAttestation = ''expireAttestation''"
| "verification_command_name RevokeAttestation = ''revokeAttestation''"
| "verification_command_name SupersedeAttestation = ''supersedeAttestation''"
| "verification_command_name OpenAppeal = ''openAppeal''"
| "verification_command_name UpholdAppeal = ''upholdAppeal''"
| "verification_command_name DenyAppeal = ''denyAppeal''"
| "verification_command_name RemandAppeal = ''remandAppeal''"

fun verification_expected :: "verification_command \<Rightarrow> VerificationState list" where
  "verification_expected ScheduleRequest = [V_requested]"
| "verification_expected CheckInParticipant = [V_scheduled]"
| "verification_expected BeginReview = [V_checked_in]"
| "verification_expected ApproveVerification = [V_under_review]"
| "verification_expected RejectVerification = [V_under_review]"
| "verification_expected RequestMoreInformation = [V_under_review]"
| "verification_expected WithdrawVerification = [V_under_review]"
| "verification_expected RescheduleAfterMoreInformation = [V_needs_more_information]"
| "verification_expected RejectAfterMoreInformation = [V_needs_more_information]"
| "verification_expected WithdrawAfterMoreInformation = [V_needs_more_information]"
| "verification_expected RequestIssuance = [V_approved]"
| "verification_expected RecordIssuance = [V_issuance_pending]"
| "verification_expected ActivateAttestation = [V_issued]"
| "verification_expected ExpireAttestation = [V_active]"
| "verification_expected RevokeAttestation = [V_active]"
| "verification_expected SupersedeAttestation = [V_active]"
| "verification_expected OpenAppeal = [V_rejected]"
| "verification_expected UpholdAppeal = [V_appealed]"
| "verification_expected DenyAppeal = [V_appealed]"
| "verification_expected RemandAppeal = [V_appealed]"

fun verification_target :: "verification_command \<Rightarrow> VerificationState" where
  "verification_target ScheduleRequest = V_scheduled"
| "verification_target CheckInParticipant = V_checked_in"
| "verification_target BeginReview = V_under_review"
| "verification_target ApproveVerification = V_approved"
| "verification_target RejectVerification = V_rejected"
| "verification_target RequestMoreInformation = V_needs_more_information"
| "verification_target WithdrawVerification = V_withdrawn"
| "verification_target RescheduleAfterMoreInformation = V_scheduled"
| "verification_target RejectAfterMoreInformation = V_rejected"
| "verification_target WithdrawAfterMoreInformation = V_withdrawn"
| "verification_target RequestIssuance = V_issuance_pending"
| "verification_target RecordIssuance = V_issued"
| "verification_target ActivateAttestation = V_active"
| "verification_target ExpireAttestation = V_expired"
| "verification_target RevokeAttestation = V_revoked"
| "verification_target SupersedeAttestation = V_superseded"
| "verification_target OpenAppeal = V_appealed"
| "verification_target UpholdAppeal = V_appeal_upheld"
| "verification_target DenyAppeal = V_appeal_denied"
| "verification_target RemandAppeal = V_appeal_remanded"

instantiation verification_command :: enum
begin

definition "enum_verification_command = [
     ScheduleRequest, CheckInParticipant, BeginReview, ApproveVerification
     , RejectVerification, RequestMoreInformation, WithdrawVerification
     , RescheduleAfterMoreInformation, RejectAfterMoreInformation
     , WithdrawAfterMoreInformation, RequestIssuance, RecordIssuance, ActivateAttestation
     , ExpireAttestation, RevokeAttestation, SupersedeAttestation, OpenAppeal, UpholdAppeal
     , DenyAppeal, RemandAppeal]"

definition "enum_all_verification_command P \<longleftrightarrow>
     P ScheduleRequest \<and> P CheckInParticipant \<and> P BeginReview
     \<and> P ApproveVerification \<and> P RejectVerification
     \<and> P RequestMoreInformation \<and> P WithdrawVerification
     \<and> P RescheduleAfterMoreInformation \<and> P RejectAfterMoreInformation
     \<and> P WithdrawAfterMoreInformation \<and> P RequestIssuance \<and> P RecordIssuance
     \<and> P ActivateAttestation \<and> P ExpireAttestation \<and> P RevokeAttestation
     \<and> P SupersedeAttestation \<and> P OpenAppeal \<and> P UpholdAppeal
     \<and> P DenyAppeal \<and> P RemandAppeal"

definition "enum_ex_verification_command P \<longleftrightarrow>
     P ScheduleRequest \<or> P CheckInParticipant \<or> P BeginReview
     \<or> P ApproveVerification \<or> P RejectVerification \<or> P RequestMoreInformation
     \<or> P WithdrawVerification \<or> P RescheduleAfterMoreInformation
     \<or> P RejectAfterMoreInformation \<or> P WithdrawAfterMoreInformation
     \<or> P RequestIssuance \<or> P RecordIssuance \<or> P ActivateAttestation
     \<or> P ExpireAttestation \<or> P RevokeAttestation \<or> P SupersedeAttestation
     \<or> P OpenAppeal \<or> P UpholdAppeal \<or> P DenyAppeal \<or> P RemandAppeal"

instance
proof
  fix P :: "verification_command \<Rightarrow> bool"
  have "c \<in> set (enum_class.enum :: verification_command list)" for c
    by (cases c) (simp_all add: enum_verification_command_def)
  thus all: "(UNIV :: verification_command set) = set enum_class.enum" by auto
  show "distinct (enum_class.enum :: verification_command list)" by (simp add: enum_verification_command_def)
  show "enum_class.enum_all P = Ball UNIV P"
    unfolding all by (simp add: enum_all_verification_command_def enum_verification_command_def)
  show "enum_class.enum_ex P = Bex UNIV P"
    unfolding all by (simp add: enum_ex_verification_command_def enum_verification_command_def)
qed

end

lemma verification_command_all [machine_quantifiers]:
  "(\<forall>c. P c) \<longleftrightarrow> enum_class.enum_all (P :: verification_command \<Rightarrow> bool)"
  by (simp add: enum_all_UNIV)

lemma verification_command_ex [machine_quantifiers]:
  "(\<exists>c. P c) \<longleftrightarrow> enum_class.enum_ex (P :: verification_command \<Rightarrow> bool)"
  by (simp add: enum_ex_UNIV)

declare enum_all_verification_command_def [machine_quantifiers] enum_ex_verification_command_def [machine_quantifiers]

lemmas verification_defs [machine_simps] = verification_transition_def 
  scheduleRequest_def checkInParticipant_def beginReview_def approveVerification_def
  rejectVerification_def requestMoreInformation_def withdrawVerification_def
  rescheduleAfterMoreInformation_def rejectAfterMoreInformation_def
  withdrawAfterMoreInformation_def requestIssuance_def recordIssuance_def
  activateAttestation_def expireAttestation_def revokeAttestation_def
  supersedeAttestation_def openAppeal_def upholdAppeal_def denyAppeal_def remandAppeal_def

interpretation verification: lifecycle run_verification verification_state_name Agg_verification verification_command_name
  verification_expected verification_target
proof
  fix c s
  show "run_verification c s = applyTransition verification_state_name Agg_verification (verification_command_name c) s
      (verification_expected c) (verification_target c)"
    by (cases c) (simp_all add: verification_defs)
next
  fix s t
  show "verification_state_name s = verification_state_name t \<Longrightarrow> s = t"
    by (cases s; cases t) simp_all
qed

section \<open>Committee\<close>

datatype CommitteeState =
    C_proposed | C_forming | C_policy_review | C_testnet_provisioning | C_testnet_ready
    | C_pilot_review | C_pilot_approved | C_active | C_suspended | C_retired

definition COMMITTEE_STATES :: "CommitteeState list" where
  "COMMITTEE_STATES = [
     C_proposed, C_forming, C_policy_review, C_testnet_provisioning, C_testnet_ready
     , C_pilot_review, C_pilot_approved, C_active, C_suspended, C_retired]"

fun committee_state_name :: "CommitteeState \<Rightarrow> string" where
  "committee_state_name C_proposed = ''proposed''"
| "committee_state_name C_forming = ''forming''"
| "committee_state_name C_policy_review = ''policy_review''"
| "committee_state_name C_testnet_provisioning = ''testnet_provisioning''"
| "committee_state_name C_testnet_ready = ''testnet_ready''"
| "committee_state_name C_pilot_review = ''pilot_review''"
| "committee_state_name C_pilot_approved = ''pilot_approved''"
| "committee_state_name C_active = ''active''"
| "committee_state_name C_suspended = ''suspended''"
| "committee_state_name C_retired = ''retired''"

definition committee_transition ::
  "string \<Rightarrow> CommitteeState \<Rightarrow> CommitteeState \<Rightarrow> CommitteeState \<Rightarrow> InvalidTransitionError + CommitteeState" where
  "committee_transition command currentState expectedState nextState =
     applyTransition committee_state_name Agg_committee command currentState [expectedState] nextState"

definition beginCommitteeFormation :: "CommitteeState \<Rightarrow> InvalidTransitionError + CommitteeState" where
  "beginCommitteeFormation currentState =
     committee_transition ''beginCommitteeFormation'' currentState C_proposed C_forming"

definition beginCommitteePolicyReview :: "CommitteeState \<Rightarrow> InvalidTransitionError + CommitteeState" where
  "beginCommitteePolicyReview currentState =
     committee_transition ''beginCommitteePolicyReview'' currentState C_forming C_policy_review"

definition beginTestnetProvisioning :: "CommitteeState \<Rightarrow> InvalidTransitionError + CommitteeState" where
  "beginTestnetProvisioning currentState =
     committee_transition ''beginTestnetProvisioning'' currentState C_policy_review C_testnet_provisioning"

definition markCommitteeTestnetReady :: "CommitteeState \<Rightarrow> InvalidTransitionError + CommitteeState" where
  "markCommitteeTestnetReady currentState =
     committee_transition ''markCommitteeTestnetReady'' currentState C_testnet_provisioning C_testnet_ready"

definition beginCommitteePilotReview :: "CommitteeState \<Rightarrow> InvalidTransitionError + CommitteeState" where
  "beginCommitteePilotReview currentState =
     committee_transition ''beginCommitteePilotReview'' currentState C_testnet_ready C_pilot_review"

definition approveCommitteePilot :: "CommitteeState \<Rightarrow> InvalidTransitionError + CommitteeState" where
  "approveCommitteePilot currentState =
     committee_transition ''approveCommitteePilot'' currentState C_pilot_review C_pilot_approved"

definition activateCommittee :: "CommitteeState \<Rightarrow> InvalidTransitionError + CommitteeState" where
  "activateCommittee currentState =
     committee_transition ''activateCommittee'' currentState C_pilot_approved C_active"

definition suspendCommittee :: "CommitteeState \<Rightarrow> InvalidTransitionError + CommitteeState" where
  "suspendCommittee currentState =
     committee_transition ''suspendCommittee'' currentState C_pilot_approved C_suspended"

definition retireCommittee :: "CommitteeState \<Rightarrow> InvalidTransitionError + CommitteeState" where
  "retireCommittee currentState =
     committee_transition ''retireCommittee'' currentState C_pilot_approved C_retired"

definition reactivateCommittee :: "CommitteeState \<Rightarrow> InvalidTransitionError + CommitteeState" where
  "reactivateCommittee currentState =
     committee_transition ''reactivateCommittee'' currentState C_suspended C_active"

definition retireSuspendedCommittee :: "CommitteeState \<Rightarrow> InvalidTransitionError + CommitteeState" where
  "retireSuspendedCommittee currentState =
     committee_transition ''retireSuspendedCommittee'' currentState C_suspended C_retired"

text \<open>The commands of the committee module, as data, and the call each one stands for.\<close>

datatype committee_command =
    BeginCommitteeFormation | BeginCommitteePolicyReview | BeginTestnetProvisioning
    | MarkCommitteeTestnetReady | BeginCommitteePilotReview | ApproveCommitteePilot
    | ActivateCommittee | SuspendCommittee | RetireCommittee | ReactivateCommittee
    | RetireSuspendedCommittee

fun run_committee :: "committee_command \<Rightarrow> CommitteeState \<Rightarrow> InvalidTransitionError + CommitteeState" where
  "run_committee BeginCommitteeFormation = beginCommitteeFormation"
| "run_committee BeginCommitteePolicyReview = beginCommitteePolicyReview"
| "run_committee BeginTestnetProvisioning = beginTestnetProvisioning"
| "run_committee MarkCommitteeTestnetReady = markCommitteeTestnetReady"
| "run_committee BeginCommitteePilotReview = beginCommitteePilotReview"
| "run_committee ApproveCommitteePilot = approveCommitteePilot"
| "run_committee ActivateCommittee = activateCommittee"
| "run_committee SuspendCommittee = suspendCommittee"
| "run_committee RetireCommittee = retireCommittee"
| "run_committee ReactivateCommittee = reactivateCommittee"
| "run_committee RetireSuspendedCommittee = retireSuspendedCommittee"

fun committee_command_name :: "committee_command \<Rightarrow> string" where
  "committee_command_name BeginCommitteeFormation = ''beginCommitteeFormation''"
| "committee_command_name BeginCommitteePolicyReview = ''beginCommitteePolicyReview''"
| "committee_command_name BeginTestnetProvisioning = ''beginTestnetProvisioning''"
| "committee_command_name MarkCommitteeTestnetReady = ''markCommitteeTestnetReady''"
| "committee_command_name BeginCommitteePilotReview = ''beginCommitteePilotReview''"
| "committee_command_name ApproveCommitteePilot = ''approveCommitteePilot''"
| "committee_command_name ActivateCommittee = ''activateCommittee''"
| "committee_command_name SuspendCommittee = ''suspendCommittee''"
| "committee_command_name RetireCommittee = ''retireCommittee''"
| "committee_command_name ReactivateCommittee = ''reactivateCommittee''"
| "committee_command_name RetireSuspendedCommittee = ''retireSuspendedCommittee''"

fun committee_expected :: "committee_command \<Rightarrow> CommitteeState list" where
  "committee_expected BeginCommitteeFormation = [C_proposed]"
| "committee_expected BeginCommitteePolicyReview = [C_forming]"
| "committee_expected BeginTestnetProvisioning = [C_policy_review]"
| "committee_expected MarkCommitteeTestnetReady = [C_testnet_provisioning]"
| "committee_expected BeginCommitteePilotReview = [C_testnet_ready]"
| "committee_expected ApproveCommitteePilot = [C_pilot_review]"
| "committee_expected ActivateCommittee = [C_pilot_approved]"
| "committee_expected SuspendCommittee = [C_pilot_approved]"
| "committee_expected RetireCommittee = [C_pilot_approved]"
| "committee_expected ReactivateCommittee = [C_suspended]"
| "committee_expected RetireSuspendedCommittee = [C_suspended]"

fun committee_target :: "committee_command \<Rightarrow> CommitteeState" where
  "committee_target BeginCommitteeFormation = C_forming"
| "committee_target BeginCommitteePolicyReview = C_policy_review"
| "committee_target BeginTestnetProvisioning = C_testnet_provisioning"
| "committee_target MarkCommitteeTestnetReady = C_testnet_ready"
| "committee_target BeginCommitteePilotReview = C_pilot_review"
| "committee_target ApproveCommitteePilot = C_pilot_approved"
| "committee_target ActivateCommittee = C_active"
| "committee_target SuspendCommittee = C_suspended"
| "committee_target RetireCommittee = C_retired"
| "committee_target ReactivateCommittee = C_active"
| "committee_target RetireSuspendedCommittee = C_retired"

instantiation committee_command :: enum
begin

definition "enum_committee_command = [
     BeginCommitteeFormation, BeginCommitteePolicyReview, BeginTestnetProvisioning
     , MarkCommitteeTestnetReady, BeginCommitteePilotReview, ApproveCommitteePilot
     , ActivateCommittee, SuspendCommittee, RetireCommittee, ReactivateCommittee
     , RetireSuspendedCommittee]"

definition "enum_all_committee_command P \<longleftrightarrow>
     P BeginCommitteeFormation \<and> P BeginCommitteePolicyReview
     \<and> P BeginTestnetProvisioning \<and> P MarkCommitteeTestnetReady
     \<and> P BeginCommitteePilotReview \<and> P ApproveCommitteePilot
     \<and> P ActivateCommittee \<and> P SuspendCommittee \<and> P RetireCommittee
     \<and> P ReactivateCommittee \<and> P RetireSuspendedCommittee"

definition "enum_ex_committee_command P \<longleftrightarrow>
     P BeginCommitteeFormation \<or> P BeginCommitteePolicyReview
     \<or> P BeginTestnetProvisioning \<or> P MarkCommitteeTestnetReady
     \<or> P BeginCommitteePilotReview \<or> P ApproveCommitteePilot
     \<or> P ActivateCommittee \<or> P SuspendCommittee \<or> P RetireCommittee
     \<or> P ReactivateCommittee \<or> P RetireSuspendedCommittee"

instance
proof
  fix P :: "committee_command \<Rightarrow> bool"
  have "c \<in> set (enum_class.enum :: committee_command list)" for c
    by (cases c) (simp_all add: enum_committee_command_def)
  thus all: "(UNIV :: committee_command set) = set enum_class.enum" by auto
  show "distinct (enum_class.enum :: committee_command list)" by (simp add: enum_committee_command_def)
  show "enum_class.enum_all P = Ball UNIV P"
    unfolding all by (simp add: enum_all_committee_command_def enum_committee_command_def)
  show "enum_class.enum_ex P = Bex UNIV P"
    unfolding all by (simp add: enum_ex_committee_command_def enum_committee_command_def)
qed

end

lemma committee_command_all [machine_quantifiers]:
  "(\<forall>c. P c) \<longleftrightarrow> enum_class.enum_all (P :: committee_command \<Rightarrow> bool)"
  by (simp add: enum_all_UNIV)

lemma committee_command_ex [machine_quantifiers]:
  "(\<exists>c. P c) \<longleftrightarrow> enum_class.enum_ex (P :: committee_command \<Rightarrow> bool)"
  by (simp add: enum_ex_UNIV)

declare enum_all_committee_command_def [machine_quantifiers] enum_ex_committee_command_def [machine_quantifiers]

lemmas committee_defs [machine_simps] = committee_transition_def 
  beginCommitteeFormation_def beginCommitteePolicyReview_def beginTestnetProvisioning_def
  markCommitteeTestnetReady_def beginCommitteePilotReview_def approveCommitteePilot_def
  activateCommittee_def suspendCommittee_def retireCommittee_def reactivateCommittee_def
  retireSuspendedCommittee_def

interpretation committee: lifecycle run_committee committee_state_name Agg_committee committee_command_name
  committee_expected committee_target
proof
  fix c s
  show "run_committee c s = applyTransition committee_state_name Agg_committee (committee_command_name c) s
      (committee_expected c) (committee_target c)"
    by (cases c) (simp_all add: committee_defs)
next
  fix s t
  show "committee_state_name s = committee_state_name t \<Longrightarrow> s = t"
    by (cases s; cases t) simp_all
qed

section \<open>Verus job\<close>

datatype VerusJobState =
    J_pending | J_claimed | J_preflight | J_submitted | J_confirming | J_readback
    | J_verified | J_retryable_failed | J_terminal_failed | J_reorg_pending

definition VERUS_JOB_STATES :: "VerusJobState list" where
  "VERUS_JOB_STATES = [
     J_pending, J_claimed, J_preflight, J_submitted, J_confirming, J_readback, J_verified
     , J_retryable_failed, J_terminal_failed, J_reorg_pending]"

fun verus_job_state_name :: "VerusJobState \<Rightarrow> string" where
  "verus_job_state_name J_pending = ''pending''"
| "verus_job_state_name J_claimed = ''claimed''"
| "verus_job_state_name J_preflight = ''preflight''"
| "verus_job_state_name J_submitted = ''submitted''"
| "verus_job_state_name J_confirming = ''confirming''"
| "verus_job_state_name J_readback = ''readback''"
| "verus_job_state_name J_verified = ''verified''"
| "verus_job_state_name J_retryable_failed = ''retryable_failed''"
| "verus_job_state_name J_terminal_failed = ''terminal_failed''"
| "verus_job_state_name J_reorg_pending = ''reorg_pending''"

definition verus_job_transition ::
  "string \<Rightarrow> VerusJobState \<Rightarrow> VerusJobState list \<Rightarrow> VerusJobState \<Rightarrow> InvalidTransitionError + VerusJobState" where
  "verus_job_transition command currentState expectedStates nextState =
     applyTransition verus_job_state_name Agg_verus_job command currentState expectedStates nextState"

definition claimVerusJob :: "VerusJobState \<Rightarrow> InvalidTransitionError + VerusJobState" where
  "claimVerusJob currentState =
     verus_job_transition ''claimVerusJob'' currentState [J_pending, J_retryable_failed, J_reorg_pending] J_claimed"

definition beginVerusPreflight :: "VerusJobState \<Rightarrow> InvalidTransitionError + VerusJobState" where
  "beginVerusPreflight currentState =
     verus_job_transition ''beginVerusPreflight'' currentState [J_claimed] J_preflight"

definition recordVerusSubmission :: "VerusJobState \<Rightarrow> InvalidTransitionError + VerusJobState" where
  "recordVerusSubmission currentState =
     verus_job_transition ''recordVerusSubmission'' currentState [J_preflight] J_submitted"

definition beginVerusConfirmation :: "VerusJobState \<Rightarrow> InvalidTransitionError + VerusJobState" where
  "beginVerusConfirmation currentState =
     verus_job_transition ''beginVerusConfirmation'' currentState [J_submitted] J_confirming"

definition beginVerusReadback :: "VerusJobState \<Rightarrow> InvalidTransitionError + VerusJobState" where
  "beginVerusReadback currentState =
     verus_job_transition ''beginVerusReadback'' currentState [J_confirming] J_readback"

definition verifyVerusReadback :: "VerusJobState \<Rightarrow> InvalidTransitionError + VerusJobState" where
  "verifyVerusReadback currentState =
     verus_job_transition ''verifyVerusReadback'' currentState [J_readback] J_verified"

definition recordRetryableVerusFailure :: "VerusJobState \<Rightarrow> InvalidTransitionError + VerusJobState" where
  "recordRetryableVerusFailure currentState =
     verus_job_transition ''recordRetryableVerusFailure'' currentState [J_preflight, J_submitted, J_confirming, J_readback] J_retryable_failed"

definition recordTerminalVerusFailure :: "VerusJobState \<Rightarrow> InvalidTransitionError + VerusJobState" where
  "recordTerminalVerusFailure currentState =
     verus_job_transition ''recordTerminalVerusFailure'' currentState [J_preflight, J_submitted, J_confirming, J_readback, J_retryable_failed] J_terminal_failed"

definition markVerusReorgPending :: "VerusJobState \<Rightarrow> InvalidTransitionError + VerusJobState" where
  "markVerusReorgPending currentState =
     verus_job_transition ''markVerusReorgPending'' currentState [J_confirming, J_readback] J_reorg_pending"

text \<open>The commands of the verus job module, as data, and the call each one stands for.\<close>

datatype verus_job_command =
    ClaimVerusJob | BeginVerusPreflight | RecordVerusSubmission | BeginVerusConfirmation
    | BeginVerusReadback | VerifyVerusReadback | RecordRetryableVerusFailure
    | RecordTerminalVerusFailure | MarkVerusReorgPending

fun run_verus_job :: "verus_job_command \<Rightarrow> VerusJobState \<Rightarrow> InvalidTransitionError + VerusJobState" where
  "run_verus_job ClaimVerusJob = claimVerusJob"
| "run_verus_job BeginVerusPreflight = beginVerusPreflight"
| "run_verus_job RecordVerusSubmission = recordVerusSubmission"
| "run_verus_job BeginVerusConfirmation = beginVerusConfirmation"
| "run_verus_job BeginVerusReadback = beginVerusReadback"
| "run_verus_job VerifyVerusReadback = verifyVerusReadback"
| "run_verus_job RecordRetryableVerusFailure = recordRetryableVerusFailure"
| "run_verus_job RecordTerminalVerusFailure = recordTerminalVerusFailure"
| "run_verus_job MarkVerusReorgPending = markVerusReorgPending"

fun verus_job_command_name :: "verus_job_command \<Rightarrow> string" where
  "verus_job_command_name ClaimVerusJob = ''claimVerusJob''"
| "verus_job_command_name BeginVerusPreflight = ''beginVerusPreflight''"
| "verus_job_command_name RecordVerusSubmission = ''recordVerusSubmission''"
| "verus_job_command_name BeginVerusConfirmation = ''beginVerusConfirmation''"
| "verus_job_command_name BeginVerusReadback = ''beginVerusReadback''"
| "verus_job_command_name VerifyVerusReadback = ''verifyVerusReadback''"
| "verus_job_command_name RecordRetryableVerusFailure = ''recordRetryableVerusFailure''"
| "verus_job_command_name RecordTerminalVerusFailure = ''recordTerminalVerusFailure''"
| "verus_job_command_name MarkVerusReorgPending = ''markVerusReorgPending''"

fun verus_job_expected :: "verus_job_command \<Rightarrow> VerusJobState list" where
  "verus_job_expected ClaimVerusJob = [J_pending, J_retryable_failed, J_reorg_pending]"
| "verus_job_expected BeginVerusPreflight = [J_claimed]"
| "verus_job_expected RecordVerusSubmission = [J_preflight]"
| "verus_job_expected BeginVerusConfirmation = [J_submitted]"
| "verus_job_expected BeginVerusReadback = [J_confirming]"
| "verus_job_expected VerifyVerusReadback = [J_readback]"
| "verus_job_expected RecordRetryableVerusFailure = [J_preflight, J_submitted, J_confirming, J_readback]"
| "verus_job_expected RecordTerminalVerusFailure = [J_preflight, J_submitted, J_confirming, J_readback, J_retryable_failed]"
| "verus_job_expected MarkVerusReorgPending = [J_confirming, J_readback]"

fun verus_job_target :: "verus_job_command \<Rightarrow> VerusJobState" where
  "verus_job_target ClaimVerusJob = J_claimed"
| "verus_job_target BeginVerusPreflight = J_preflight"
| "verus_job_target RecordVerusSubmission = J_submitted"
| "verus_job_target BeginVerusConfirmation = J_confirming"
| "verus_job_target BeginVerusReadback = J_readback"
| "verus_job_target VerifyVerusReadback = J_verified"
| "verus_job_target RecordRetryableVerusFailure = J_retryable_failed"
| "verus_job_target RecordTerminalVerusFailure = J_terminal_failed"
| "verus_job_target MarkVerusReorgPending = J_reorg_pending"

instantiation verus_job_command :: enum
begin

definition "enum_verus_job_command = [
     ClaimVerusJob, BeginVerusPreflight, RecordVerusSubmission, BeginVerusConfirmation
     , BeginVerusReadback, VerifyVerusReadback, RecordRetryableVerusFailure
     , RecordTerminalVerusFailure, MarkVerusReorgPending]"

definition "enum_all_verus_job_command P \<longleftrightarrow>
     P ClaimVerusJob \<and> P BeginVerusPreflight \<and> P RecordVerusSubmission
     \<and> P BeginVerusConfirmation \<and> P BeginVerusReadback
     \<and> P VerifyVerusReadback \<and> P RecordRetryableVerusFailure
     \<and> P RecordTerminalVerusFailure \<and> P MarkVerusReorgPending"

definition "enum_ex_verus_job_command P \<longleftrightarrow>
     P ClaimVerusJob \<or> P BeginVerusPreflight \<or> P RecordVerusSubmission
     \<or> P BeginVerusConfirmation \<or> P BeginVerusReadback \<or> P VerifyVerusReadback
     \<or> P RecordRetryableVerusFailure \<or> P RecordTerminalVerusFailure
     \<or> P MarkVerusReorgPending"

instance
proof
  fix P :: "verus_job_command \<Rightarrow> bool"
  have "c \<in> set (enum_class.enum :: verus_job_command list)" for c
    by (cases c) (simp_all add: enum_verus_job_command_def)
  thus all: "(UNIV :: verus_job_command set) = set enum_class.enum" by auto
  show "distinct (enum_class.enum :: verus_job_command list)" by (simp add: enum_verus_job_command_def)
  show "enum_class.enum_all P = Ball UNIV P"
    unfolding all by (simp add: enum_all_verus_job_command_def enum_verus_job_command_def)
  show "enum_class.enum_ex P = Bex UNIV P"
    unfolding all by (simp add: enum_ex_verus_job_command_def enum_verus_job_command_def)
qed

end

lemma verus_job_command_all [machine_quantifiers]:
  "(\<forall>c. P c) \<longleftrightarrow> enum_class.enum_all (P :: verus_job_command \<Rightarrow> bool)"
  by (simp add: enum_all_UNIV)

lemma verus_job_command_ex [machine_quantifiers]:
  "(\<exists>c. P c) \<longleftrightarrow> enum_class.enum_ex (P :: verus_job_command \<Rightarrow> bool)"
  by (simp add: enum_ex_UNIV)

declare enum_all_verus_job_command_def [machine_quantifiers] enum_ex_verus_job_command_def [machine_quantifiers]

lemmas verus_job_defs [machine_simps] = verus_job_transition_def 
  claimVerusJob_def beginVerusPreflight_def recordVerusSubmission_def
  beginVerusConfirmation_def beginVerusReadback_def verifyVerusReadback_def
  recordRetryableVerusFailure_def recordTerminalVerusFailure_def markVerusReorgPending_def

interpretation verus_job: lifecycle run_verus_job verus_job_state_name Agg_verus_job verus_job_command_name
  verus_job_expected verus_job_target
proof
  fix c s
  show "run_verus_job c s = applyTransition verus_job_state_name Agg_verus_job (verus_job_command_name c) s
      (verus_job_expected c) (verus_job_target c)"
    by (cases c) (simp_all add: verus_job_defs)
next
  fix s t
  show "verus_job_state_name s = verus_job_state_name t \<Longrightarrow> s = t"
    by (cases s; cases t) simp_all
qed

section \<open>Runs of the verification lifecycle\<close>

text \<open>One round of the loop that asks the participant for more information.\<close>

definition information_round :: "verification_command list" where
  "information_round =
     [CheckInParticipant, BeginReview, RequestMoreInformation, RescheduleAfterMoreInformation]"

definition issuance_commands :: "verification_command list" where
  "issuance_commands =
     [CheckInParticipant, BeginReview, ApproveVerification, RequestIssuance, RecordIssuance,
      ActivateAttestation]"

lemma concat_replicate_snoc: "concat (replicate (Suc n) r) = concat (replicate n r) @ r"
  by (induction n) auto

lemma runs_of_rounds:
  "run_all run_verification (concat (replicate n information_round)) V_scheduled = Inr V_scheduled"
  by (induction n)
     (simp_all add: run_all_append information_round_def verification_defs applyTransition_def)

lemma verification_target_requested [simp]: "verification_target c \<noteq> V_requested"
  by (cases c) simp_all

lemma runs_to_requested:
  "run_all run_verification cs V_requested = Inr V_requested \<longleftrightarrow> cs = []"
proof
  assume run: "run_all run_verification cs V_requested = Inr V_requested"
  show "cs = []"
  proof (rule ccontr)
    assume "cs \<noteq> []"
    then obtain cs' c where "cs = cs' @ [c]" by (metis append_butlast_last_id)
    thus False using run by (auto simp: run_all_snoc verification.run_eq_Inr dest: sym)
  qed
qed simp

lemma verification_only_entry:
  "verification_target c = V_checked_in \<Longrightarrow> c = CheckInParticipant"
  "verification_target c = V_under_review \<Longrightarrow> c = BeginReview"
  "verification_target c = V_needs_more_information \<Longrightarrow> c = RequestMoreInformation"
  "verification_target c = V_approved \<Longrightarrow> c = ApproveVerification"
  "verification_target c = V_issuance_pending \<Longrightarrow> c = RequestIssuance"
  "verification_target c = V_issued \<Longrightarrow> c = RecordIssuance"
  "verification_target c = V_active \<Longrightarrow> c = ActivateAttestation"
  by (cases c; simp)+

lemma runs_to_under_review:
  assumes "run_all run_verification cs V_requested = Inr V_under_review"
  obtains cs' where "cs = cs' @ [CheckInParticipant, BeginReview]"
    "run_all run_verification cs' V_requested = Inr V_scheduled"
proof -
  obtain c1 where 1: "cs = c1 @ [BeginReview]" "run_all run_verification c1 V_requested = Inr V_checked_in"
    by (rule verification.only_entry[OF assms, of BeginReview V_checked_in])
       (auto dest: verification_only_entry)
  obtain c2 where "c1 = c2 @ [CheckInParticipant]" "run_all run_verification c2 V_requested = Inr V_scheduled"
    by (rule verification.only_entry[OF 1(2), of CheckInParticipant V_scheduled])
       (auto dest: verification_only_entry)
  thus ?thesis using that 1 by auto
qed

lemma runs_to_scheduled:
  "run_all run_verification cs V_requested = Inr V_scheduled \<longleftrightarrow>
     (\<exists>n. cs = ScheduleRequest # concat (replicate n information_round))"
proof
  assume "run_all run_verification cs V_requested = Inr V_scheduled"
  thus "\<exists>n. cs = ScheduleRequest # concat (replicate n information_round)"
  proof (induction "length cs" arbitrary: cs rule: less_induct)
    case less
    obtain ds c u where c: "cs = ds @ [c]" "run_all run_verification ds V_requested = Inr u"
      "u \<in> set (verification_expected c)" "verification_target c = V_scheduled"
      by (rule verification.last_command[OF less.prems]) auto
    show ?case
    proof (cases "c = ScheduleRequest")
      case True
      hence "ds = []" using c runs_to_requested by auto
      thus ?thesis using True c(1) by (auto intro: exI[of _ 0])
    next
      case False
      hence "c = RescheduleAfterMoreInformation" using c(4) by (cases c) simp_all
      hence u: "run_all run_verification ds V_requested = Inr V_needs_more_information"
        and c': "cs = ds @ [RescheduleAfterMoreInformation]" using c by auto
      obtain es where es: "ds = es @ [RequestMoreInformation]"
        "run_all run_verification es V_requested = Inr V_under_review"
        by (rule verification.only_entry[OF u, of RequestMoreInformation V_under_review])
           (auto dest: verification_only_entry)
      obtain fs where fs: "es = fs @ [CheckInParticipant, BeginReview]"
        "run_all run_verification fs V_requested = Inr V_scheduled"
        by (rule runs_to_under_review[OF es(2)])
      have cs: "cs = fs @ information_round" using c' es fs by (simp add: information_round_def)
      hence "length fs < length cs" by (simp add: information_round_def)
      then obtain n where "fs = ScheduleRequest # concat (replicate n information_round)"
        using less.hyps fs(2) by blast
      hence "cs = ScheduleRequest # concat (replicate (Suc n) information_round)"
        using cs by (simp only: concat_replicate_snoc append_Cons)
      thus ?thesis by blast
    qed
  qed
next
  assume "\<exists>n. cs = ScheduleRequest # concat (replicate n information_round)"
  thus "run_all run_verification cs V_requested = Inr V_scheduled"
    using runs_of_rounds by (auto simp: verification_defs applyTransition_def)
qed

text \<open>
  C31. No attestation becomes active without the whole procedure.  The sequences of commands that
  take a verification request from requested to active are exactly these: the request is
  scheduled, any number of rounds ask for more information and reschedule, and then the
  participant checks in, is reviewed and approved, and the issuance is requested, recorded and
  activated, with nothing in between.
\<close>

theorem activation_needs_full_procedure:
  "run_all run_verification cs V_requested = Inr V_active \<longleftrightarrow>
     (\<exists>n. cs = ScheduleRequest # concat (replicate n information_round) @ issuance_commands)"
proof
  assume run: "run_all run_verification cs V_requested = Inr V_active"
  obtain c1 where 1: "cs = c1 @ [ActivateAttestation]" "run_all run_verification c1 V_requested = Inr V_issued"
    by (rule verification.only_entry[OF run, of ActivateAttestation V_issued])
       (auto dest: verification_only_entry)
  obtain c2 where 2: "c1 = c2 @ [RecordIssuance]"
    "run_all run_verification c2 V_requested = Inr V_issuance_pending"
    by (rule verification.only_entry[OF 1(2), of RecordIssuance V_issuance_pending])
       (auto dest: verification_only_entry)
  obtain c3 where 3: "c2 = c3 @ [RequestIssuance]" "run_all run_verification c3 V_requested = Inr V_approved"
    by (rule verification.only_entry[OF 2(2), of RequestIssuance V_approved])
       (auto dest: verification_only_entry)
  obtain c4 where 4: "c3 = c4 @ [ApproveVerification]"
    "run_all run_verification c4 V_requested = Inr V_under_review"
    by (rule verification.only_entry[OF 3(2), of ApproveVerification V_under_review])
       (auto dest: verification_only_entry)
  obtain c5 where 5: "c4 = c5 @ [CheckInParticipant, BeginReview]"
    "run_all run_verification c5 V_requested = Inr V_scheduled"
    by (rule runs_to_under_review[OF 4(2)])
  then obtain n where "c5 = ScheduleRequest # concat (replicate n information_round)"
    using runs_to_scheduled by blast
  thus "\<exists>n. cs = ScheduleRequest # concat (replicate n information_round) @ issuance_commands"
    using 1 2 3 4 5 by (auto simp: issuance_commands_def)
next
  assume "\<exists>n. cs = ScheduleRequest # concat (replicate n information_round) @ issuance_commands"
  thus "run_all run_verification cs V_requested = Inr V_active"
    using runs_of_rounds
    by (auto simp: run_all_append issuance_commands_def verification_defs applyTransition_def)
qed

text \<open>A shortest run to each state of the lifecycle.\<close>

definition review_route :: "verification_command list" where
  "review_route = [ScheduleRequest, CheckInParticipant, BeginReview]"

fun verification_route :: "VerificationState \<Rightarrow> verification_command list" where
  "verification_route V_requested = []"
| "verification_route V_scheduled = [ScheduleRequest]"
| "verification_route V_checked_in = [ScheduleRequest, CheckInParticipant]"
| "verification_route V_under_review = review_route"
| "verification_route V_approved = review_route @ [ApproveVerification]"
| "verification_route V_rejected = review_route @ [RejectVerification]"
| "verification_route V_needs_more_information = review_route @ [RequestMoreInformation]"
| "verification_route V_withdrawn = review_route @ [WithdrawVerification]"
| "verification_route V_issuance_pending = review_route @ [ApproveVerification, RequestIssuance]"
| "verification_route V_issued = review_route @ [ApproveVerification, RequestIssuance, RecordIssuance]"
| "verification_route V_active = ScheduleRequest # issuance_commands"
| "verification_route V_expired = ScheduleRequest # issuance_commands @ [ExpireAttestation]"
| "verification_route V_revoked = ScheduleRequest # issuance_commands @ [RevokeAttestation]"
| "verification_route V_superseded = ScheduleRequest # issuance_commands @ [SupersedeAttestation]"
| "verification_route V_appealed = review_route @ [RejectVerification, OpenAppeal]"
| "verification_route V_appeal_upheld = review_route @ [RejectVerification, OpenAppeal, UpholdAppeal]"
| "verification_route V_appeal_denied = review_route @ [RejectVerification, OpenAppeal, DenyAppeal]"
| "verification_route V_appeal_remanded = review_route @ [RejectVerification, OpenAppeal, RemandAppeal]"

lemma run_verification_route:
  "run_all run_verification (verification_route s) V_requested = Inr s"
  by (cases s)
     (simp_all add: review_route_def issuance_commands_def verification_defs applyTransition_def)

lemma verification_terminal_states:
  "verification.terminal s \<longleftrightarrow>
     s \<in> {V_withdrawn, V_expired, V_revoked, V_superseded, V_appeal_upheld, V_appeal_denied,
          V_appeal_remanded}"
  unfolding verification.terminal_iff machine_quantifiers by (cases s) simp_all

text \<open>
  C35. The lifecycle has no unreachable state, and it stops exactly where it should: every
  declared state can be reached from requested, and a state refuses every command if and only if
  it is withdrawn, expired, revoked, superseded or a decided appeal.
\<close>

theorem verification_reachability_and_dead_ends:
  "s \<in> set VERIFICATION_STATES \<and> reaches run_verification V_requested s
   \<and> ((\<forall>c. \<exists>e. run_verification c s = Inl e) \<longleftrightarrow>
        s \<in> {V_withdrawn, V_expired, V_revoked, V_superseded, V_appeal_upheld, V_appeal_denied,
             V_appeal_remanded})"
proof (intro conjI)
  show "s \<in> set VERIFICATION_STATES" by (cases s) (simp_all add: VERIFICATION_STATES_def)
  show "reaches run_verification V_requested s" by (rule reachesI) (rule run_verification_route)
  have "(\<forall>c. \<exists>e. run_verification c s = Inl e) \<longleftrightarrow> verification.terminal s"
    unfolding verification.terminal_def by (metis old.sum.exhaust sum.distinct(1))
  thus "(\<forall>c. \<exists>e. run_verification c s = Inl e) \<longleftrightarrow>
      s \<in> {V_withdrawn, V_expired, V_revoked, V_superseded, V_appeal_upheld, V_appeal_denied,
           V_appeal_remanded}"
    by (simp only: verification_terminal_states)
qed

section \<open>Runs of the committee and Verus job lifecycles\<close>

definition committee_formation :: "committee_command list" where
  "committee_formation =
     [BeginCommitteeFormation, BeginCommitteePolicyReview, BeginTestnetProvisioning,
      MarkCommitteeTestnetReady, BeginCommitteePilotReview, ApproveCommitteePilot]"

lemma committee_only_entry:
  "committee_target c = C_forming \<Longrightarrow> c = BeginCommitteeFormation"
  "committee_target c = C_policy_review \<Longrightarrow> c = BeginCommitteePolicyReview"
  "committee_target c = C_testnet_provisioning \<Longrightarrow> c = BeginTestnetProvisioning"
  "committee_target c = C_testnet_ready \<Longrightarrow> c = MarkCommitteeTestnetReady"
  "committee_target c = C_pilot_review \<Longrightarrow> c = BeginCommitteePilotReview"
  "committee_target c = C_pilot_approved \<Longrightarrow> c = ApproveCommitteePilot"
  "committee_target c = C_suspended \<Longrightarrow> c = SuspendCommittee"
  "committee_target c = C_proposed \<Longrightarrow> False"
  by (cases c; simp)+

lemma runs_to_proposed:
  "run_all run_committee cs C_proposed = Inr C_proposed \<longleftrightarrow> cs = []"
proof
  assume run: "run_all run_committee cs C_proposed = Inr C_proposed"
  show "cs = []"
  proof (rule ccontr)
    assume "cs \<noteq> []"
    then obtain cs' c where "cs = cs' @ [c]" by (metis append_butlast_last_id)
    thus False using run
      by (auto simp: run_all_snoc committee.run_eq_Inr intro: committee_only_entry dest: sym)
  qed
qed simp

lemma runs_to_pilot_approved:
  "run_all run_committee cs C_proposed = Inr C_pilot_approved \<longleftrightarrow> cs = committee_formation"
proof
  assume run: "run_all run_committee cs C_proposed = Inr C_pilot_approved"
  obtain c1 where 1: "cs = c1 @ [ApproveCommitteePilot]" "run_all run_committee c1 C_proposed = Inr C_pilot_review"
    by (rule committee.only_entry[OF run, of ApproveCommitteePilot C_pilot_review])
       (auto dest: committee_only_entry)
  obtain c2 where 2: "c1 = c2 @ [BeginCommitteePilotReview]" "run_all run_committee c2 C_proposed = Inr C_testnet_ready"
    by (rule committee.only_entry[OF 1(2), of BeginCommitteePilotReview C_testnet_ready])
       (auto dest: committee_only_entry)
  obtain c3 where 3: "c2 = c3 @ [MarkCommitteeTestnetReady]"
    "run_all run_committee c3 C_proposed = Inr C_testnet_provisioning"
    by (rule committee.only_entry[OF 2(2), of MarkCommitteeTestnetReady C_testnet_provisioning])
       (auto dest: committee_only_entry)
  obtain c4 where 4: "c3 = c4 @ [BeginTestnetProvisioning]" "run_all run_committee c4 C_proposed = Inr C_policy_review"
    by (rule committee.only_entry[OF 3(2), of BeginTestnetProvisioning C_policy_review])
       (auto dest: committee_only_entry)
  obtain c5 where 5: "c4 = c5 @ [BeginCommitteePolicyReview]" "run_all run_committee c5 C_proposed = Inr C_forming"
    by (rule committee.only_entry[OF 4(2), of BeginCommitteePolicyReview C_forming])
       (auto dest: committee_only_entry)
  obtain c6 where 6: "c5 = c6 @ [BeginCommitteeFormation]" "run_all run_committee c6 C_proposed = Inr C_proposed"
    by (rule committee.only_entry[OF 5(2), of BeginCommitteeFormation C_proposed])
       (auto dest: committee_only_entry)
  thus "cs = committee_formation" using 1 2 3 4 5 runs_to_proposed by (simp add: committee_formation_def)
next
  assume "cs = committee_formation"
  thus "run_all run_committee cs C_proposed = Inr C_pilot_approved"
    by (simp add: committee_formation_def committee_defs applyTransition_def)
qed

text \<open>
  A committee becomes active in exactly two ways: its formation, policy review, testnet
  provisioning, readiness, pilot review and pilot approval, each once and in this order, followed
  by activation, or by a suspension and a reactivation.  An active committee accepts no further
  command: once active it can be neither suspended nor retired.
\<close>

theorem committee_activation_runs:
  "(run_all run_committee cs C_proposed = Inr C_active \<longleftrightarrow>
      cs = committee_formation @ [ActivateCommittee]
      \<or> cs = committee_formation @ [SuspendCommittee, ReactivateCommittee])
   \<and> (\<forall>c. \<exists>e. run_committee c C_active = Inl e)"
proof (intro conjI allI iffI)
  assume run: "run_all run_committee cs C_proposed = Inr C_active"
  obtain ds c u where c: "cs = ds @ [c]" "run_all run_committee ds C_proposed = Inr u"
      "u \<in> set (committee_expected c)" "committee_target c = C_active"
    by (rule committee.last_command[OF run]) auto
  show "cs = committee_formation @ [ActivateCommittee]
      \<or> cs = committee_formation @ [SuspendCommittee, ReactivateCommittee]"
  proof (cases "c = ActivateCommittee")
    case True
    thus ?thesis using c runs_to_pilot_approved by auto
  next
    case False
    hence re: "c = ReactivateCommittee" using c(4) by (cases c) simp_all
    hence u: "run_all run_committee ds C_proposed = Inr C_suspended" using c by simp
    obtain es where "ds = es @ [SuspendCommittee]" "run_all run_committee es C_proposed = Inr C_pilot_approved"
      by (rule committee.only_entry[OF u, of SuspendCommittee C_pilot_approved])
         (auto dest: committee_only_entry)
    thus ?thesis using c re runs_to_pilot_approved by simp
  qed
next
  assume "cs = committee_formation @ [ActivateCommittee]
      \<or> cs = committee_formation @ [SuspendCommittee, ReactivateCommittee]"
  thus "run_all run_committee cs C_proposed = Inr C_active"
    by (auto simp: committee_formation_def committee_defs applyTransition_def)
next
  fix c
  show "\<exists>e. run_committee c C_active = Inl e"
    by (cases c) (simp_all add: committee_defs applyTransition_def)
qed

definition verus_attempt :: "verus_job_command list" where
  "verus_attempt =
     [BeginVerusPreflight, RecordVerusSubmission, BeginVerusConfirmation, BeginVerusReadback,
      VerifyVerusReadback]"

lemma verus_job_only_entry:
  "verus_job_target c = J_claimed \<Longrightarrow> c = ClaimVerusJob"
  "verus_job_target c = J_preflight \<Longrightarrow> c = BeginVerusPreflight"
  "verus_job_target c = J_submitted \<Longrightarrow> c = RecordVerusSubmission"
  "verus_job_target c = J_confirming \<Longrightarrow> c = BeginVerusConfirmation"
  "verus_job_target c = J_readback \<Longrightarrow> c = BeginVerusReadback"
  "verus_job_target c = J_verified \<Longrightarrow> c = VerifyVerusReadback"
  by (cases c; simp)+

text \<open>
  A blockchain job is verified only by one complete attempt: every sequence of commands that
  takes a job from pending to verified ends with a claim followed by preflight, submission,
  confirmation, readback and verification, in this order and with no failure in between; and
  both verified and terminal_failed are final.
\<close>

theorem verified_needs_complete_attempt:
  "run_all run_verus_job cs J_pending = Inr J_verified \<Longrightarrow>
     (\<exists>pre s. cs = pre @ ClaimVerusJob # verus_attempt
        \<and> run_all run_verus_job pre J_pending = Inr s
        \<and> s \<in> {J_pending, J_retryable_failed, J_reorg_pending})
     \<and> (\<forall>c. \<exists>e e'. run_verus_job c J_verified = Inl e \<and> run_verus_job c J_terminal_failed = Inl e')"
proof (intro conjI allI)
  assume run: "run_all run_verus_job cs J_pending = Inr J_verified"
  obtain c1 where 1: "cs = c1 @ [VerifyVerusReadback]" "run_all run_verus_job c1 J_pending = Inr J_readback"
    by (rule verus_job.only_entry[OF run, of VerifyVerusReadback J_readback])
       (auto dest: verus_job_only_entry)
  obtain c2 where 2: "c1 = c2 @ [BeginVerusReadback]" "run_all run_verus_job c2 J_pending = Inr J_confirming"
    by (rule verus_job.only_entry[OF 1(2), of BeginVerusReadback J_confirming])
       (auto dest: verus_job_only_entry)
  obtain c3 where 3: "c2 = c3 @ [BeginVerusConfirmation]" "run_all run_verus_job c3 J_pending = Inr J_submitted"
    by (rule verus_job.only_entry[OF 2(2), of BeginVerusConfirmation J_submitted])
       (auto dest: verus_job_only_entry)
  obtain c4 where 4: "c3 = c4 @ [RecordVerusSubmission]" "run_all run_verus_job c4 J_pending = Inr J_preflight"
    by (rule verus_job.only_entry[OF 3(2), of RecordVerusSubmission J_preflight])
       (auto dest: verus_job_only_entry)
  obtain c5 where 5: "c4 = c5 @ [BeginVerusPreflight]" "run_all run_verus_job c5 J_pending = Inr J_claimed"
    by (rule verus_job.only_entry[OF 4(2), of BeginVerusPreflight J_claimed])
       (auto dest: verus_job_only_entry)
  obtain c6 c u where 6: "c5 = c6 @ [c]" "run_all run_verus_job c6 J_pending = Inr u"
      "u \<in> set (verus_job_expected c)" "verus_job_target c = J_claimed"
    by (rule verus_job.last_command[OF 5(2)]) auto
  have "c = ClaimVerusJob" using 6(4) by (rule verus_job_only_entry)
  thus "\<exists>pre s. cs = pre @ ClaimVerusJob # verus_attempt
        \<and> run_all run_verus_job pre J_pending = Inr s
        \<and> s \<in> {J_pending, J_retryable_failed, J_reorg_pending}"
    using 1 2 3 4 5 6 by (auto simp: verus_attempt_def)
next
  fix c
  show "\<exists>e e'. run_verus_job c J_verified = Inl e \<and> run_verus_job c J_terminal_failed = Inl e'"
    by (cases c) (simp_all add: verus_job_defs applyTransition_def)
qed

theorem verified_needs_complete_attempt_witness:
  "\<exists>pre s. [ClaimVerusJob, BeginVerusPreflight, RecordRetryableVerusFailure] @ ClaimVerusJob # verus_attempt
        = pre @ ClaimVerusJob # verus_attempt
      \<and> run_all run_verus_job pre J_pending = Inr s
      \<and> s \<in> {J_pending, J_retryable_failed, J_reorg_pending}"
proof -
  have "run_all run_verus_job
     ([ClaimVerusJob, BeginVerusPreflight, RecordRetryableVerusFailure] @ ClaimVerusJob # verus_attempt)
     J_pending = Inr J_verified"
    by (simp add: verus_attempt_def verus_job_defs applyTransition_def)
  from verified_needs_complete_attempt[OF this] show ?thesis by blast
qed

section \<open>The guards of the database\<close>

text \<open>The conditions the row triggers of packages/db/prisma/migrations put on the old and the new
  state of an updated row.\<close>

fun cbc_guard_verification_transition :: "VerificationState \<Rightarrow> VerificationState \<Rightarrow> bool" where
  "cbc_guard_verification_transition old new \<longleftrightarrow>
     (old = V_requested \<and> new = V_scheduled) \<or>
     (old = V_scheduled \<and> new = V_checked_in) \<or>
     (old = V_checked_in \<and> new = V_under_review) \<or>
     (old = V_under_review \<and> new \<in> {V_approved, V_rejected, V_needs_more_information, V_withdrawn}) \<or>
     (old = V_needs_more_information \<and> new \<in> {V_scheduled, V_rejected, V_withdrawn}) \<or>
     (old = V_approved \<and> new = V_issuance_pending) \<or>
     (old = V_issuance_pending \<and> new = V_issued) \<or>
     (old = V_issued \<and> new = V_active) \<or>
     (old = V_active \<and> new \<in> {V_expired, V_revoked, V_superseded}) \<or>
     (old = V_rejected \<and> new = V_appealed) \<or>
     (old = V_appealed \<and> new \<in> {V_appeal_upheld, V_appeal_denied, V_appeal_remanded})"

fun cbc_guard_committee_transition :: "CommitteeState \<Rightarrow> CommitteeState \<Rightarrow> bool" where
  "cbc_guard_committee_transition old new \<longleftrightarrow>
     (old = C_proposed \<and> new = C_forming) \<or>
     (old = C_forming \<and> new = C_policy_review) \<or>
     (old = C_policy_review \<and> new = C_testnet_provisioning) \<or>
     (old = C_testnet_provisioning \<and> new = C_testnet_ready) \<or>
     (old = C_testnet_ready \<and> new = C_pilot_review) \<or>
     (old = C_pilot_review \<and> new = C_pilot_approved) \<or>
     (old = C_pilot_approved \<and> new \<in> {C_active, C_suspended, C_retired}) \<or>
     (old = C_suspended \<and> new \<in> {C_active, C_retired})"

fun cbc_guard_verus_job_transition :: "VerusJobState \<Rightarrow> VerusJobState \<Rightarrow> bool" where
  "cbc_guard_verus_job_transition old new \<longleftrightarrow>
     (old \<in> {J_pending, J_retryable_failed, J_reorg_pending} \<and> new = J_claimed) \<or>
     (old = J_claimed \<and> new = J_preflight) \<or>
     (old = J_preflight \<and> new \<in> {J_submitted, J_retryable_failed, J_terminal_failed}) \<or>
     (old = J_submitted \<and> new \<in> {J_confirming, J_retryable_failed, J_terminal_failed}) \<or>
     (old = J_confirming \<and> new \<in> {J_readback, J_retryable_failed, J_terminal_failed, J_reorg_pending}) \<or>
     (old = J_readback \<and> new \<in> {J_verified, J_retryable_failed, J_terminal_failed, J_reorg_pending}) \<or>
     (old \<in> {J_retryable_failed, J_reorg_pending} \<and> new = J_terminal_failed)"

lemma verification_guard_iff:
  "cbc_guard_verification_transition s t \<longleftrightarrow> (\<exists>c. run_verification c s = Inr t)"
  unfolding verification.run_eq_Inr machine_quantifiers by (cases s) auto

lemma committee_guard_iff:
  "cbc_guard_committee_transition s t \<longleftrightarrow> (\<exists>c. run_committee c s = Inr t)"
  unfolding committee.run_eq_Inr machine_quantifiers by (cases s) auto

lemma verus_job_guard_iff:
  "cbc_guard_verus_job_transition s t \<longleftrightarrow>
     (\<exists>c. run_verus_job c s = Inr t) \<or> (s = J_reorg_pending \<and> t = J_terminal_failed)"
  unfolding verus_job.run_eq_Inr machine_quantifiers by (cases s) auto


end
