(* ===== verification/Support_Lifecycles.thy ===== *)
theory Support_Lifecycles
  imports Transition
begin

text \<open>
  The other seven lifecycles of packages/domain/src: renewal-cycle.ts, wallet-challenge.ts,
  consent.ts, appeal.ts, privacy-request.ts, notification.ts and relying-party-client.ts, in the
  same layout, with the runs that reach their final states.
\<close>

section \<open>Renewal cycle\<close>

datatype RenewalCycleState =
    R_draft | R_snapshot_committed | R_selection_pending | R_selection_ready
    | R_notices_pending | R_in_progress | R_reporting | R_published | R_cancelled

definition RENEWAL_CYCLE_STATES :: "RenewalCycleState list" where
  "RENEWAL_CYCLE_STATES = [
     R_draft, R_snapshot_committed, R_selection_pending, R_selection_ready
     , R_notices_pending, R_in_progress, R_reporting, R_published, R_cancelled]"

fun renewal_cycle_state_name :: "RenewalCycleState \<Rightarrow> string" where
  "renewal_cycle_state_name R_draft = ''draft''"
| "renewal_cycle_state_name R_snapshot_committed = ''snapshot_committed''"
| "renewal_cycle_state_name R_selection_pending = ''selection_pending''"
| "renewal_cycle_state_name R_selection_ready = ''selection_ready''"
| "renewal_cycle_state_name R_notices_pending = ''notices_pending''"
| "renewal_cycle_state_name R_in_progress = ''in_progress''"
| "renewal_cycle_state_name R_reporting = ''reporting''"
| "renewal_cycle_state_name R_published = ''published''"
| "renewal_cycle_state_name R_cancelled = ''cancelled''"

definition renewal_cycle_transition ::
  "string \<Rightarrow> RenewalCycleState \<Rightarrow> RenewalCycleState list \<Rightarrow> RenewalCycleState \<Rightarrow> InvalidTransitionError + RenewalCycleState" where
  "renewal_cycle_transition command currentState expectedStates nextState =
     applyTransition renewal_cycle_state_name Agg_renewal_cycle command currentState expectedStates nextState"

definition commitEligibleSnapshot :: "RenewalCycleState \<Rightarrow> InvalidTransitionError + RenewalCycleState" where
  "commitEligibleSnapshot currentState =
     renewal_cycle_transition ''commitEligibleSnapshot'' currentState [R_draft] R_snapshot_committed"

definition requestRenewalSelection :: "RenewalCycleState \<Rightarrow> InvalidTransitionError + RenewalCycleState" where
  "requestRenewalSelection currentState =
     renewal_cycle_transition ''requestRenewalSelection'' currentState [R_snapshot_committed] R_selection_pending"

definition recordRenewalSelection :: "RenewalCycleState \<Rightarrow> InvalidTransitionError + RenewalCycleState" where
  "recordRenewalSelection currentState =
     renewal_cycle_transition ''recordRenewalSelection'' currentState [R_selection_pending] R_selection_ready"

definition queueRenewalNotices :: "RenewalCycleState \<Rightarrow> InvalidTransitionError + RenewalCycleState" where
  "queueRenewalNotices currentState =
     renewal_cycle_transition ''queueRenewalNotices'' currentState [R_selection_ready] R_notices_pending"

definition beginRenewalCycle :: "RenewalCycleState \<Rightarrow> InvalidTransitionError + RenewalCycleState" where
  "beginRenewalCycle currentState =
     renewal_cycle_transition ''beginRenewalCycle'' currentState [R_notices_pending] R_in_progress"

definition beginRenewalReporting :: "RenewalCycleState \<Rightarrow> InvalidTransitionError + RenewalCycleState" where
  "beginRenewalReporting currentState =
     renewal_cycle_transition ''beginRenewalReporting'' currentState [R_in_progress] R_reporting"

definition publishRenewalReport :: "RenewalCycleState \<Rightarrow> InvalidTransitionError + RenewalCycleState" where
  "publishRenewalReport currentState =
     renewal_cycle_transition ''publishRenewalReport'' currentState [R_reporting] R_published"

definition cancelDraftRenewalCycle :: "RenewalCycleState \<Rightarrow> InvalidTransitionError + RenewalCycleState" where
  "cancelDraftRenewalCycle currentState =
     renewal_cycle_transition ''cancelDraftRenewalCycle'' currentState [R_draft] R_cancelled"

text \<open>The commands of the renewal cycle module, as data, and the call each one stands for.\<close>

datatype renewal_cycle_command =
    CommitEligibleSnapshot | RequestRenewalSelection | RecordRenewalSelection
    | QueueRenewalNotices | BeginRenewalCycle | BeginRenewalReporting | PublishRenewalReport
    | CancelDraftRenewalCycle

fun run_renewal_cycle :: "renewal_cycle_command \<Rightarrow> RenewalCycleState \<Rightarrow> InvalidTransitionError + RenewalCycleState" where
  "run_renewal_cycle CommitEligibleSnapshot = commitEligibleSnapshot"
| "run_renewal_cycle RequestRenewalSelection = requestRenewalSelection"
| "run_renewal_cycle RecordRenewalSelection = recordRenewalSelection"
| "run_renewal_cycle QueueRenewalNotices = queueRenewalNotices"
| "run_renewal_cycle BeginRenewalCycle = beginRenewalCycle"
| "run_renewal_cycle BeginRenewalReporting = beginRenewalReporting"
| "run_renewal_cycle PublishRenewalReport = publishRenewalReport"
| "run_renewal_cycle CancelDraftRenewalCycle = cancelDraftRenewalCycle"

fun renewal_cycle_command_name :: "renewal_cycle_command \<Rightarrow> string" where
  "renewal_cycle_command_name CommitEligibleSnapshot = ''commitEligibleSnapshot''"
| "renewal_cycle_command_name RequestRenewalSelection = ''requestRenewalSelection''"
| "renewal_cycle_command_name RecordRenewalSelection = ''recordRenewalSelection''"
| "renewal_cycle_command_name QueueRenewalNotices = ''queueRenewalNotices''"
| "renewal_cycle_command_name BeginRenewalCycle = ''beginRenewalCycle''"
| "renewal_cycle_command_name BeginRenewalReporting = ''beginRenewalReporting''"
| "renewal_cycle_command_name PublishRenewalReport = ''publishRenewalReport''"
| "renewal_cycle_command_name CancelDraftRenewalCycle = ''cancelDraftRenewalCycle''"

fun renewal_cycle_expected :: "renewal_cycle_command \<Rightarrow> RenewalCycleState list" where
  "renewal_cycle_expected CommitEligibleSnapshot = [R_draft]"
| "renewal_cycle_expected RequestRenewalSelection = [R_snapshot_committed]"
| "renewal_cycle_expected RecordRenewalSelection = [R_selection_pending]"
| "renewal_cycle_expected QueueRenewalNotices = [R_selection_ready]"
| "renewal_cycle_expected BeginRenewalCycle = [R_notices_pending]"
| "renewal_cycle_expected BeginRenewalReporting = [R_in_progress]"
| "renewal_cycle_expected PublishRenewalReport = [R_reporting]"
| "renewal_cycle_expected CancelDraftRenewalCycle = [R_draft]"

fun renewal_cycle_target :: "renewal_cycle_command \<Rightarrow> RenewalCycleState" where
  "renewal_cycle_target CommitEligibleSnapshot = R_snapshot_committed"
| "renewal_cycle_target RequestRenewalSelection = R_selection_pending"
| "renewal_cycle_target RecordRenewalSelection = R_selection_ready"
| "renewal_cycle_target QueueRenewalNotices = R_notices_pending"
| "renewal_cycle_target BeginRenewalCycle = R_in_progress"
| "renewal_cycle_target BeginRenewalReporting = R_reporting"
| "renewal_cycle_target PublishRenewalReport = R_published"
| "renewal_cycle_target CancelDraftRenewalCycle = R_cancelled"

instantiation renewal_cycle_command :: enum
begin

definition "enum_renewal_cycle_command = [
     CommitEligibleSnapshot, RequestRenewalSelection, RecordRenewalSelection
     , QueueRenewalNotices, BeginRenewalCycle, BeginRenewalReporting, PublishRenewalReport
     , CancelDraftRenewalCycle]"

definition "enum_all_renewal_cycle_command P \<longleftrightarrow>
     P CommitEligibleSnapshot \<and> P RequestRenewalSelection
     \<and> P RecordRenewalSelection \<and> P QueueRenewalNotices \<and> P BeginRenewalCycle
     \<and> P BeginRenewalReporting \<and> P PublishRenewalReport
     \<and> P CancelDraftRenewalCycle"

definition "enum_ex_renewal_cycle_command P \<longleftrightarrow>
     P CommitEligibleSnapshot \<or> P RequestRenewalSelection \<or> P RecordRenewalSelection
     \<or> P QueueRenewalNotices \<or> P BeginRenewalCycle \<or> P BeginRenewalReporting
     \<or> P PublishRenewalReport \<or> P CancelDraftRenewalCycle"

instance
proof
  fix P :: "renewal_cycle_command \<Rightarrow> bool"
  have "c \<in> set (enum_class.enum :: renewal_cycle_command list)" for c
    by (cases c) (simp_all add: enum_renewal_cycle_command_def)
  thus all: "(UNIV :: renewal_cycle_command set) = set enum_class.enum" by auto
  show "distinct (enum_class.enum :: renewal_cycle_command list)" by (simp add: enum_renewal_cycle_command_def)
  show "enum_class.enum_all P = Ball UNIV P"
    unfolding all by (simp add: enum_all_renewal_cycle_command_def enum_renewal_cycle_command_def)
  show "enum_class.enum_ex P = Bex UNIV P"
    unfolding all by (simp add: enum_ex_renewal_cycle_command_def enum_renewal_cycle_command_def)
qed

end

lemma renewal_cycle_command_all [machine_quantifiers]:
  "(\<forall>c. P c) \<longleftrightarrow> enum_class.enum_all (P :: renewal_cycle_command \<Rightarrow> bool)"
  by (simp add: enum_all_UNIV)

lemma renewal_cycle_command_ex [machine_quantifiers]:
  "(\<exists>c. P c) \<longleftrightarrow> enum_class.enum_ex (P :: renewal_cycle_command \<Rightarrow> bool)"
  by (simp add: enum_ex_UNIV)

declare enum_all_renewal_cycle_command_def [machine_quantifiers] enum_ex_renewal_cycle_command_def [machine_quantifiers]

lemmas renewal_cycle_defs [machine_simps] = renewal_cycle_transition_def 
  commitEligibleSnapshot_def requestRenewalSelection_def recordRenewalSelection_def
  queueRenewalNotices_def beginRenewalCycle_def beginRenewalReporting_def
  publishRenewalReport_def cancelDraftRenewalCycle_def

interpretation renewal_cycle: lifecycle run_renewal_cycle renewal_cycle_state_name Agg_renewal_cycle renewal_cycle_command_name
  renewal_cycle_expected renewal_cycle_target
proof
  fix c s
  show "run_renewal_cycle c s = applyTransition renewal_cycle_state_name Agg_renewal_cycle (renewal_cycle_command_name c) s
      (renewal_cycle_expected c) (renewal_cycle_target c)"
    by (cases c) (simp_all add: renewal_cycle_defs)
next
  fix s t
  show "renewal_cycle_state_name s = renewal_cycle_state_name t \<Longrightarrow> s = t"
    by (cases s; cases t) simp_all
qed

section \<open>Wallet challenge\<close>

datatype WalletChallengeState =
    W_created | W_presented | W_response_received | W_consumed | W_expired | W_rejected

definition WALLET_CHALLENGE_STATES :: "WalletChallengeState list" where
  "WALLET_CHALLENGE_STATES = [
     W_created, W_presented, W_response_received, W_consumed, W_expired, W_rejected]"

fun wallet_challenge_state_name :: "WalletChallengeState \<Rightarrow> string" where
  "wallet_challenge_state_name W_created = ''created''"
| "wallet_challenge_state_name W_presented = ''presented''"
| "wallet_challenge_state_name W_response_received = ''response_received''"
| "wallet_challenge_state_name W_consumed = ''consumed''"
| "wallet_challenge_state_name W_expired = ''expired''"
| "wallet_challenge_state_name W_rejected = ''rejected''"

definition wallet_challenge_transition ::
  "string \<Rightarrow> WalletChallengeState \<Rightarrow> WalletChallengeState list \<Rightarrow> WalletChallengeState \<Rightarrow> InvalidTransitionError + WalletChallengeState" where
  "wallet_challenge_transition command currentState expectedStates nextState =
     applyTransition wallet_challenge_state_name Agg_wallet_challenge command currentState expectedStates nextState"

definition presentWalletChallenge :: "WalletChallengeState \<Rightarrow> InvalidTransitionError + WalletChallengeState" where
  "presentWalletChallenge currentState =
     wallet_challenge_transition ''presentWalletChallenge'' currentState [W_created] W_presented"

definition recordWalletResponse :: "WalletChallengeState \<Rightarrow> InvalidTransitionError + WalletChallengeState" where
  "recordWalletResponse currentState =
     wallet_challenge_transition ''recordWalletResponse'' currentState [W_presented] W_response_received"

definition consumeWalletChallenge :: "WalletChallengeState \<Rightarrow> InvalidTransitionError + WalletChallengeState" where
  "consumeWalletChallenge currentState =
     wallet_challenge_transition ''consumeWalletChallenge'' currentState [W_response_received] W_consumed"

definition rejectWalletResponse :: "WalletChallengeState \<Rightarrow> InvalidTransitionError + WalletChallengeState" where
  "rejectWalletResponse currentState =
     wallet_challenge_transition ''rejectWalletResponse'' currentState [W_response_received] W_rejected"

definition expireWalletChallenge :: "WalletChallengeState \<Rightarrow> InvalidTransitionError + WalletChallengeState" where
  "expireWalletChallenge currentState =
     wallet_challenge_transition ''expireWalletChallenge'' currentState [W_created, W_presented] W_expired"

text \<open>The commands of the wallet challenge module, as data, and the call each one stands for.\<close>

datatype wallet_challenge_command =
    PresentWalletChallenge | RecordWalletResponse | ConsumeWalletChallenge
    | RejectWalletResponse | ExpireWalletChallenge

fun run_wallet_challenge :: "wallet_challenge_command \<Rightarrow> WalletChallengeState \<Rightarrow> InvalidTransitionError + WalletChallengeState" where
  "run_wallet_challenge PresentWalletChallenge = presentWalletChallenge"
| "run_wallet_challenge RecordWalletResponse = recordWalletResponse"
| "run_wallet_challenge ConsumeWalletChallenge = consumeWalletChallenge"
| "run_wallet_challenge RejectWalletResponse = rejectWalletResponse"
| "run_wallet_challenge ExpireWalletChallenge = expireWalletChallenge"

fun wallet_challenge_command_name :: "wallet_challenge_command \<Rightarrow> string" where
  "wallet_challenge_command_name PresentWalletChallenge = ''presentWalletChallenge''"
| "wallet_challenge_command_name RecordWalletResponse = ''recordWalletResponse''"
| "wallet_challenge_command_name ConsumeWalletChallenge = ''consumeWalletChallenge''"
| "wallet_challenge_command_name RejectWalletResponse = ''rejectWalletResponse''"
| "wallet_challenge_command_name ExpireWalletChallenge = ''expireWalletChallenge''"

fun wallet_challenge_expected :: "wallet_challenge_command \<Rightarrow> WalletChallengeState list" where
  "wallet_challenge_expected PresentWalletChallenge = [W_created]"
| "wallet_challenge_expected RecordWalletResponse = [W_presented]"
| "wallet_challenge_expected ConsumeWalletChallenge = [W_response_received]"
| "wallet_challenge_expected RejectWalletResponse = [W_response_received]"
| "wallet_challenge_expected ExpireWalletChallenge = [W_created, W_presented]"

fun wallet_challenge_target :: "wallet_challenge_command \<Rightarrow> WalletChallengeState" where
  "wallet_challenge_target PresentWalletChallenge = W_presented"
| "wallet_challenge_target RecordWalletResponse = W_response_received"
| "wallet_challenge_target ConsumeWalletChallenge = W_consumed"
| "wallet_challenge_target RejectWalletResponse = W_rejected"
| "wallet_challenge_target ExpireWalletChallenge = W_expired"

instantiation wallet_challenge_command :: enum
begin

definition "enum_wallet_challenge_command = [
     PresentWalletChallenge, RecordWalletResponse, ConsumeWalletChallenge
     , RejectWalletResponse, ExpireWalletChallenge]"

definition "enum_all_wallet_challenge_command P \<longleftrightarrow>
     P PresentWalletChallenge \<and> P RecordWalletResponse \<and> P ConsumeWalletChallenge
     \<and> P RejectWalletResponse \<and> P ExpireWalletChallenge"

definition "enum_ex_wallet_challenge_command P \<longleftrightarrow>
     P PresentWalletChallenge \<or> P RecordWalletResponse \<or> P ConsumeWalletChallenge
     \<or> P RejectWalletResponse \<or> P ExpireWalletChallenge"

instance
proof
  fix P :: "wallet_challenge_command \<Rightarrow> bool"
  have "c \<in> set (enum_class.enum :: wallet_challenge_command list)" for c
    by (cases c) (simp_all add: enum_wallet_challenge_command_def)
  thus all: "(UNIV :: wallet_challenge_command set) = set enum_class.enum" by auto
  show "distinct (enum_class.enum :: wallet_challenge_command list)" by (simp add: enum_wallet_challenge_command_def)
  show "enum_class.enum_all P = Ball UNIV P"
    unfolding all by (simp add: enum_all_wallet_challenge_command_def enum_wallet_challenge_command_def)
  show "enum_class.enum_ex P = Bex UNIV P"
    unfolding all by (simp add: enum_ex_wallet_challenge_command_def enum_wallet_challenge_command_def)
qed

end

lemma wallet_challenge_command_all [machine_quantifiers]:
  "(\<forall>c. P c) \<longleftrightarrow> enum_class.enum_all (P :: wallet_challenge_command \<Rightarrow> bool)"
  by (simp add: enum_all_UNIV)

lemma wallet_challenge_command_ex [machine_quantifiers]:
  "(\<exists>c. P c) \<longleftrightarrow> enum_class.enum_ex (P :: wallet_challenge_command \<Rightarrow> bool)"
  by (simp add: enum_ex_UNIV)

declare enum_all_wallet_challenge_command_def [machine_quantifiers] enum_ex_wallet_challenge_command_def [machine_quantifiers]

lemmas wallet_challenge_defs [machine_simps] = wallet_challenge_transition_def 
  presentWalletChallenge_def recordWalletResponse_def consumeWalletChallenge_def
  rejectWalletResponse_def expireWalletChallenge_def

interpretation wallet_challenge: lifecycle run_wallet_challenge wallet_challenge_state_name Agg_wallet_challenge wallet_challenge_command_name
  wallet_challenge_expected wallet_challenge_target
proof
  fix c s
  show "run_wallet_challenge c s = applyTransition wallet_challenge_state_name Agg_wallet_challenge (wallet_challenge_command_name c) s
      (wallet_challenge_expected c) (wallet_challenge_target c)"
    by (cases c) (simp_all add: wallet_challenge_defs)
next
  fix s t
  show "wallet_challenge_state_name s = wallet_challenge_state_name t \<Longrightarrow> s = t"
    by (cases s; cases t) simp_all
qed

section \<open>Consent\<close>

datatype ConsentState =
    K_pending | K_acknowledged | K_withdrawn

definition CONSENT_STATES :: "ConsentState list" where
  "CONSENT_STATES = [
     K_pending, K_acknowledged, K_withdrawn]"

fun consent_state_name :: "ConsentState \<Rightarrow> string" where
  "consent_state_name K_pending = ''pending''"
| "consent_state_name K_acknowledged = ''acknowledged''"
| "consent_state_name K_withdrawn = ''withdrawn''"

definition acknowledgeConsent :: "ConsentState \<Rightarrow> InvalidTransitionError + ConsentState" where
  "acknowledgeConsent currentState =
     applyTransition consent_state_name Agg_consent ''acknowledgeConsent'' currentState [K_pending] K_acknowledged"

definition withdrawConsent :: "ConsentState \<Rightarrow> InvalidTransitionError + ConsentState" where
  "withdrawConsent currentState =
     applyTransition consent_state_name Agg_consent ''withdrawConsent'' currentState [K_acknowledged] K_withdrawn"

text \<open>The commands of the consent module, as data, and the call each one stands for.\<close>

datatype consent_command =
    AcknowledgeConsent | WithdrawConsent

fun run_consent :: "consent_command \<Rightarrow> ConsentState \<Rightarrow> InvalidTransitionError + ConsentState" where
  "run_consent AcknowledgeConsent = acknowledgeConsent"
| "run_consent WithdrawConsent = withdrawConsent"

fun consent_command_name :: "consent_command \<Rightarrow> string" where
  "consent_command_name AcknowledgeConsent = ''acknowledgeConsent''"
| "consent_command_name WithdrawConsent = ''withdrawConsent''"

fun consent_expected :: "consent_command \<Rightarrow> ConsentState list" where
  "consent_expected AcknowledgeConsent = [K_pending]"
| "consent_expected WithdrawConsent = [K_acknowledged]"

fun consent_target :: "consent_command \<Rightarrow> ConsentState" where
  "consent_target AcknowledgeConsent = K_acknowledged"
| "consent_target WithdrawConsent = K_withdrawn"

instantiation consent_command :: enum
begin

definition "enum_consent_command = [
     AcknowledgeConsent, WithdrawConsent]"

definition "enum_all_consent_command P \<longleftrightarrow>
     P AcknowledgeConsent \<and> P WithdrawConsent"

definition "enum_ex_consent_command P \<longleftrightarrow>
     P AcknowledgeConsent \<or> P WithdrawConsent"

instance
proof
  fix P :: "consent_command \<Rightarrow> bool"
  have "c \<in> set (enum_class.enum :: consent_command list)" for c
    by (cases c) (simp_all add: enum_consent_command_def)
  thus all: "(UNIV :: consent_command set) = set enum_class.enum" by auto
  show "distinct (enum_class.enum :: consent_command list)" by (simp add: enum_consent_command_def)
  show "enum_class.enum_all P = Ball UNIV P"
    unfolding all by (simp add: enum_all_consent_command_def enum_consent_command_def)
  show "enum_class.enum_ex P = Bex UNIV P"
    unfolding all by (simp add: enum_ex_consent_command_def enum_consent_command_def)
qed

end

lemma consent_command_all [machine_quantifiers]:
  "(\<forall>c. P c) \<longleftrightarrow> enum_class.enum_all (P :: consent_command \<Rightarrow> bool)"
  by (simp add: enum_all_UNIV)

lemma consent_command_ex [machine_quantifiers]:
  "(\<exists>c. P c) \<longleftrightarrow> enum_class.enum_ex (P :: consent_command \<Rightarrow> bool)"
  by (simp add: enum_ex_UNIV)

declare enum_all_consent_command_def [machine_quantifiers] enum_ex_consent_command_def [machine_quantifiers]

lemmas consent_defs [machine_simps] = 
  acknowledgeConsent_def withdrawConsent_def

interpretation consent: lifecycle run_consent consent_state_name Agg_consent consent_command_name
  consent_expected consent_target
proof
  fix c s
  show "run_consent c s = applyTransition consent_state_name Agg_consent (consent_command_name c) s
      (consent_expected c) (consent_target c)"
    by (cases c) (simp_all add: consent_defs)
next
  fix s t
  show "consent_state_name s = consent_state_name t \<Longrightarrow> s = t"
    by (cases s; cases t) simp_all
qed

section \<open>Appeal\<close>

datatype AppealState =
    A_opened | A_assigned | A_under_review | A_upheld | A_denied | A_remanded | A_withdrawn

definition APPEAL_STATES :: "AppealState list" where
  "APPEAL_STATES = [
     A_opened, A_assigned, A_under_review, A_upheld, A_denied, A_remanded, A_withdrawn]"

fun appeal_state_name :: "AppealState \<Rightarrow> string" where
  "appeal_state_name A_opened = ''opened''"
| "appeal_state_name A_assigned = ''assigned''"
| "appeal_state_name A_under_review = ''under_review''"
| "appeal_state_name A_upheld = ''upheld''"
| "appeal_state_name A_denied = ''denied''"
| "appeal_state_name A_remanded = ''remanded''"
| "appeal_state_name A_withdrawn = ''withdrawn''"

definition appeal_transition ::
  "string \<Rightarrow> AppealState \<Rightarrow> AppealState list \<Rightarrow> AppealState \<Rightarrow> InvalidTransitionError + AppealState" where
  "appeal_transition command currentState expectedStates nextState =
     applyTransition appeal_state_name Agg_appeal command currentState expectedStates nextState"

definition assignAppeal :: "AppealState \<Rightarrow> InvalidTransitionError + AppealState" where
  "assignAppeal currentState =
     appeal_transition ''assignAppeal'' currentState [A_opened] A_assigned"

definition beginAppealReview :: "AppealState \<Rightarrow> InvalidTransitionError + AppealState" where
  "beginAppealReview currentState =
     appeal_transition ''beginAppealReview'' currentState [A_assigned] A_under_review"

definition upholdAppealCase :: "AppealState \<Rightarrow> InvalidTransitionError + AppealState" where
  "upholdAppealCase currentState =
     appeal_transition ''upholdAppealCase'' currentState [A_under_review] A_upheld"

definition denyAppealCase :: "AppealState \<Rightarrow> InvalidTransitionError + AppealState" where
  "denyAppealCase currentState =
     appeal_transition ''denyAppealCase'' currentState [A_under_review] A_denied"

definition remandAppealCase :: "AppealState \<Rightarrow> InvalidTransitionError + AppealState" where
  "remandAppealCase currentState =
     appeal_transition ''remandAppealCase'' currentState [A_under_review] A_remanded"

definition withdrawAppealCase :: "AppealState \<Rightarrow> InvalidTransitionError + AppealState" where
  "withdrawAppealCase currentState =
     appeal_transition ''withdrawAppealCase'' currentState [A_opened, A_assigned, A_under_review] A_withdrawn"

text \<open>The commands of the appeal module, as data, and the call each one stands for.\<close>

datatype appeal_command =
    AssignAppeal | BeginAppealReview | UpholdAppealCase | DenyAppealCase | RemandAppealCase
    | WithdrawAppealCase

fun run_appeal :: "appeal_command \<Rightarrow> AppealState \<Rightarrow> InvalidTransitionError + AppealState" where
  "run_appeal AssignAppeal = assignAppeal"
| "run_appeal BeginAppealReview = beginAppealReview"
| "run_appeal UpholdAppealCase = upholdAppealCase"
| "run_appeal DenyAppealCase = denyAppealCase"
| "run_appeal RemandAppealCase = remandAppealCase"
| "run_appeal WithdrawAppealCase = withdrawAppealCase"

fun appeal_command_name :: "appeal_command \<Rightarrow> string" where
  "appeal_command_name AssignAppeal = ''assignAppeal''"
| "appeal_command_name BeginAppealReview = ''beginAppealReview''"
| "appeal_command_name UpholdAppealCase = ''upholdAppealCase''"
| "appeal_command_name DenyAppealCase = ''denyAppealCase''"
| "appeal_command_name RemandAppealCase = ''remandAppealCase''"
| "appeal_command_name WithdrawAppealCase = ''withdrawAppealCase''"

fun appeal_expected :: "appeal_command \<Rightarrow> AppealState list" where
  "appeal_expected AssignAppeal = [A_opened]"
| "appeal_expected BeginAppealReview = [A_assigned]"
| "appeal_expected UpholdAppealCase = [A_under_review]"
| "appeal_expected DenyAppealCase = [A_under_review]"
| "appeal_expected RemandAppealCase = [A_under_review]"
| "appeal_expected WithdrawAppealCase = [A_opened, A_assigned, A_under_review]"

fun appeal_target :: "appeal_command \<Rightarrow> AppealState" where
  "appeal_target AssignAppeal = A_assigned"
| "appeal_target BeginAppealReview = A_under_review"
| "appeal_target UpholdAppealCase = A_upheld"
| "appeal_target DenyAppealCase = A_denied"
| "appeal_target RemandAppealCase = A_remanded"
| "appeal_target WithdrawAppealCase = A_withdrawn"

instantiation appeal_command :: enum
begin

definition "enum_appeal_command = [
     AssignAppeal, BeginAppealReview, UpholdAppealCase, DenyAppealCase, RemandAppealCase
     , WithdrawAppealCase]"

definition "enum_all_appeal_command P \<longleftrightarrow>
     P AssignAppeal \<and> P BeginAppealReview \<and> P UpholdAppealCase
     \<and> P DenyAppealCase \<and> P RemandAppealCase \<and> P WithdrawAppealCase"

definition "enum_ex_appeal_command P \<longleftrightarrow>
     P AssignAppeal \<or> P BeginAppealReview \<or> P UpholdAppealCase
     \<or> P DenyAppealCase \<or> P RemandAppealCase \<or> P WithdrawAppealCase"

instance
proof
  fix P :: "appeal_command \<Rightarrow> bool"
  have "c \<in> set (enum_class.enum :: appeal_command list)" for c
    by (cases c) (simp_all add: enum_appeal_command_def)
  thus all: "(UNIV :: appeal_command set) = set enum_class.enum" by auto
  show "distinct (enum_class.enum :: appeal_command list)" by (simp add: enum_appeal_command_def)
  show "enum_class.enum_all P = Ball UNIV P"
    unfolding all by (simp add: enum_all_appeal_command_def enum_appeal_command_def)
  show "enum_class.enum_ex P = Bex UNIV P"
    unfolding all by (simp add: enum_ex_appeal_command_def enum_appeal_command_def)
qed

end

lemma appeal_command_all [machine_quantifiers]:
  "(\<forall>c. P c) \<longleftrightarrow> enum_class.enum_all (P :: appeal_command \<Rightarrow> bool)"
  by (simp add: enum_all_UNIV)

lemma appeal_command_ex [machine_quantifiers]:
  "(\<exists>c. P c) \<longleftrightarrow> enum_class.enum_ex (P :: appeal_command \<Rightarrow> bool)"
  by (simp add: enum_ex_UNIV)

declare enum_all_appeal_command_def [machine_quantifiers] enum_ex_appeal_command_def [machine_quantifiers]

lemmas appeal_defs [machine_simps] = appeal_transition_def 
  assignAppeal_def beginAppealReview_def upholdAppealCase_def denyAppealCase_def
  remandAppealCase_def withdrawAppealCase_def

interpretation appeal: lifecycle run_appeal appeal_state_name Agg_appeal appeal_command_name
  appeal_expected appeal_target
proof
  fix c s
  show "run_appeal c s = applyTransition appeal_state_name Agg_appeal (appeal_command_name c) s
      (appeal_expected c) (appeal_target c)"
    by (cases c) (simp_all add: appeal_defs)
next
  fix s t
  show "appeal_state_name s = appeal_state_name t \<Longrightarrow> s = t"
    by (cases s; cases t) simp_all
qed

section \<open>Privacy request\<close>

datatype PrivacyRequestState =
    P_requested | P_identity_confirmed | P_processing | P_completed | P_denied | P_withdrawn

definition PRIVACY_REQUEST_STATES :: "PrivacyRequestState list" where
  "PRIVACY_REQUEST_STATES = [
     P_requested, P_identity_confirmed, P_processing, P_completed, P_denied, P_withdrawn]"

fun privacy_request_state_name :: "PrivacyRequestState \<Rightarrow> string" where
  "privacy_request_state_name P_requested = ''requested''"
| "privacy_request_state_name P_identity_confirmed = ''identity_confirmed''"
| "privacy_request_state_name P_processing = ''processing''"
| "privacy_request_state_name P_completed = ''completed''"
| "privacy_request_state_name P_denied = ''denied''"
| "privacy_request_state_name P_withdrawn = ''withdrawn''"

definition privacy_request_transition ::
  "string \<Rightarrow> PrivacyRequestState \<Rightarrow> PrivacyRequestState list \<Rightarrow> PrivacyRequestState \<Rightarrow> InvalidTransitionError + PrivacyRequestState" where
  "privacy_request_transition command currentState expectedStates nextState =
     applyTransition privacy_request_state_name Agg_privacy_request command currentState expectedStates nextState"

definition confirmPrivacyRequester :: "PrivacyRequestState \<Rightarrow> InvalidTransitionError + PrivacyRequestState" where
  "confirmPrivacyRequester currentState =
     privacy_request_transition ''confirmPrivacyRequester'' currentState [P_requested] P_identity_confirmed"

definition beginPrivacyRequest :: "PrivacyRequestState \<Rightarrow> InvalidTransitionError + PrivacyRequestState" where
  "beginPrivacyRequest currentState =
     privacy_request_transition ''beginPrivacyRequest'' currentState [P_identity_confirmed] P_processing"

definition completePrivacyRequest :: "PrivacyRequestState \<Rightarrow> InvalidTransitionError + PrivacyRequestState" where
  "completePrivacyRequest currentState =
     privacy_request_transition ''completePrivacyRequest'' currentState [P_processing] P_completed"

definition denyPrivacyRequest :: "PrivacyRequestState \<Rightarrow> InvalidTransitionError + PrivacyRequestState" where
  "denyPrivacyRequest currentState =
     privacy_request_transition ''denyPrivacyRequest'' currentState [P_processing] P_denied"

definition withdrawPrivacyRequest :: "PrivacyRequestState \<Rightarrow> InvalidTransitionError + PrivacyRequestState" where
  "withdrawPrivacyRequest currentState =
     privacy_request_transition ''withdrawPrivacyRequest'' currentState [P_requested, P_identity_confirmed, P_processing] P_withdrawn"

text \<open>The commands of the privacy request module, as data, and the call each one stands for.\<close>

datatype privacy_request_command =
    ConfirmPrivacyRequester | BeginPrivacyRequest | CompletePrivacyRequest
    | DenyPrivacyRequest | WithdrawPrivacyRequest

fun run_privacy_request :: "privacy_request_command \<Rightarrow> PrivacyRequestState \<Rightarrow> InvalidTransitionError + PrivacyRequestState" where
  "run_privacy_request ConfirmPrivacyRequester = confirmPrivacyRequester"
| "run_privacy_request BeginPrivacyRequest = beginPrivacyRequest"
| "run_privacy_request CompletePrivacyRequest = completePrivacyRequest"
| "run_privacy_request DenyPrivacyRequest = denyPrivacyRequest"
| "run_privacy_request WithdrawPrivacyRequest = withdrawPrivacyRequest"

fun privacy_request_command_name :: "privacy_request_command \<Rightarrow> string" where
  "privacy_request_command_name ConfirmPrivacyRequester = ''confirmPrivacyRequester''"
| "privacy_request_command_name BeginPrivacyRequest = ''beginPrivacyRequest''"
| "privacy_request_command_name CompletePrivacyRequest = ''completePrivacyRequest''"
| "privacy_request_command_name DenyPrivacyRequest = ''denyPrivacyRequest''"
| "privacy_request_command_name WithdrawPrivacyRequest = ''withdrawPrivacyRequest''"

fun privacy_request_expected :: "privacy_request_command \<Rightarrow> PrivacyRequestState list" where
  "privacy_request_expected ConfirmPrivacyRequester = [P_requested]"
| "privacy_request_expected BeginPrivacyRequest = [P_identity_confirmed]"
| "privacy_request_expected CompletePrivacyRequest = [P_processing]"
| "privacy_request_expected DenyPrivacyRequest = [P_processing]"
| "privacy_request_expected WithdrawPrivacyRequest = [P_requested, P_identity_confirmed, P_processing]"

fun privacy_request_target :: "privacy_request_command \<Rightarrow> PrivacyRequestState" where
  "privacy_request_target ConfirmPrivacyRequester = P_identity_confirmed"
| "privacy_request_target BeginPrivacyRequest = P_processing"
| "privacy_request_target CompletePrivacyRequest = P_completed"
| "privacy_request_target DenyPrivacyRequest = P_denied"
| "privacy_request_target WithdrawPrivacyRequest = P_withdrawn"

instantiation privacy_request_command :: enum
begin

definition "enum_privacy_request_command = [
     ConfirmPrivacyRequester, BeginPrivacyRequest, CompletePrivacyRequest
     , DenyPrivacyRequest, WithdrawPrivacyRequest]"

definition "enum_all_privacy_request_command P \<longleftrightarrow>
     P ConfirmPrivacyRequester \<and> P BeginPrivacyRequest \<and> P CompletePrivacyRequest
     \<and> P DenyPrivacyRequest \<and> P WithdrawPrivacyRequest"

definition "enum_ex_privacy_request_command P \<longleftrightarrow>
     P ConfirmPrivacyRequester \<or> P BeginPrivacyRequest \<or> P CompletePrivacyRequest
     \<or> P DenyPrivacyRequest \<or> P WithdrawPrivacyRequest"

instance
proof
  fix P :: "privacy_request_command \<Rightarrow> bool"
  have "c \<in> set (enum_class.enum :: privacy_request_command list)" for c
    by (cases c) (simp_all add: enum_privacy_request_command_def)
  thus all: "(UNIV :: privacy_request_command set) = set enum_class.enum" by auto
  show "distinct (enum_class.enum :: privacy_request_command list)" by (simp add: enum_privacy_request_command_def)
  show "enum_class.enum_all P = Ball UNIV P"
    unfolding all by (simp add: enum_all_privacy_request_command_def enum_privacy_request_command_def)
  show "enum_class.enum_ex P = Bex UNIV P"
    unfolding all by (simp add: enum_ex_privacy_request_command_def enum_privacy_request_command_def)
qed

end

lemma privacy_request_command_all [machine_quantifiers]:
  "(\<forall>c. P c) \<longleftrightarrow> enum_class.enum_all (P :: privacy_request_command \<Rightarrow> bool)"
  by (simp add: enum_all_UNIV)

lemma privacy_request_command_ex [machine_quantifiers]:
  "(\<exists>c. P c) \<longleftrightarrow> enum_class.enum_ex (P :: privacy_request_command \<Rightarrow> bool)"
  by (simp add: enum_ex_UNIV)

declare enum_all_privacy_request_command_def [machine_quantifiers] enum_ex_privacy_request_command_def [machine_quantifiers]

lemmas privacy_request_defs [machine_simps] = privacy_request_transition_def 
  confirmPrivacyRequester_def beginPrivacyRequest_def completePrivacyRequest_def
  denyPrivacyRequest_def withdrawPrivacyRequest_def

interpretation privacy_request: lifecycle run_privacy_request privacy_request_state_name Agg_privacy_request privacy_request_command_name
  privacy_request_expected privacy_request_target
proof
  fix c s
  show "run_privacy_request c s = applyTransition privacy_request_state_name Agg_privacy_request (privacy_request_command_name c) s
      (privacy_request_expected c) (privacy_request_target c)"
    by (cases c) (simp_all add: privacy_request_defs)
next
  fix s t
  show "privacy_request_state_name s = privacy_request_state_name t \<Longrightarrow> s = t"
    by (cases s; cases t) simp_all
qed

section \<open>Notification\<close>

datatype NotificationState =
    N_pending | N_claimed | N_delivered | N_retryable_failed | N_terminal_failed
    | N_dead_letter | N_cancelled

definition NOTIFICATION_STATES :: "NotificationState list" where
  "NOTIFICATION_STATES = [
     N_pending, N_claimed, N_delivered, N_retryable_failed, N_terminal_failed, N_dead_letter
     , N_cancelled]"

fun notification_state_name :: "NotificationState \<Rightarrow> string" where
  "notification_state_name N_pending = ''pending''"
| "notification_state_name N_claimed = ''claimed''"
| "notification_state_name N_delivered = ''delivered''"
| "notification_state_name N_retryable_failed = ''retryable_failed''"
| "notification_state_name N_terminal_failed = ''terminal_failed''"
| "notification_state_name N_dead_letter = ''dead_letter''"
| "notification_state_name N_cancelled = ''cancelled''"

definition notification_transition ::
  "string \<Rightarrow> NotificationState \<Rightarrow> NotificationState list \<Rightarrow> NotificationState \<Rightarrow> InvalidTransitionError + NotificationState" where
  "notification_transition command currentState expectedStates nextState =
     applyTransition notification_state_name Agg_notification command currentState expectedStates nextState"

definition claimNotification :: "NotificationState \<Rightarrow> InvalidTransitionError + NotificationState" where
  "claimNotification currentState =
     notification_transition ''claimNotification'' currentState [N_pending] N_claimed"

definition recordNotificationDelivery :: "NotificationState \<Rightarrow> InvalidTransitionError + NotificationState" where
  "recordNotificationDelivery currentState =
     notification_transition ''recordNotificationDelivery'' currentState [N_claimed] N_delivered"

definition recordRetryableNotificationFailure :: "NotificationState \<Rightarrow> InvalidTransitionError + NotificationState" where
  "recordRetryableNotificationFailure currentState =
     notification_transition ''recordRetryableNotificationFailure'' currentState [N_claimed] N_retryable_failed"

definition retryNotification :: "NotificationState \<Rightarrow> InvalidTransitionError + NotificationState" where
  "retryNotification currentState =
     notification_transition ''retryNotification'' currentState [N_retryable_failed] N_pending"

definition recordTerminalNotificationFailure :: "NotificationState \<Rightarrow> InvalidTransitionError + NotificationState" where
  "recordTerminalNotificationFailure currentState =
     notification_transition ''recordTerminalNotificationFailure'' currentState [N_claimed] N_terminal_failed"

definition deadLetterNotification :: "NotificationState \<Rightarrow> InvalidTransitionError + NotificationState" where
  "deadLetterNotification currentState =
     notification_transition ''deadLetterNotification'' currentState [N_terminal_failed] N_dead_letter"

definition cancelPendingNotification :: "NotificationState \<Rightarrow> InvalidTransitionError + NotificationState" where
  "cancelPendingNotification currentState =
     notification_transition ''cancelPendingNotification'' currentState [N_pending] N_cancelled"

text \<open>The commands of the notification module, as data, and the call each one stands for.\<close>

datatype notification_command =
    ClaimNotification | RecordNotificationDelivery | RecordRetryableNotificationFailure
    | RetryNotification | RecordTerminalNotificationFailure | DeadLetterNotification
    | CancelPendingNotification

fun run_notification :: "notification_command \<Rightarrow> NotificationState \<Rightarrow> InvalidTransitionError + NotificationState" where
  "run_notification ClaimNotification = claimNotification"
| "run_notification RecordNotificationDelivery = recordNotificationDelivery"
| "run_notification RecordRetryableNotificationFailure = recordRetryableNotificationFailure"
| "run_notification RetryNotification = retryNotification"
| "run_notification RecordTerminalNotificationFailure = recordTerminalNotificationFailure"
| "run_notification DeadLetterNotification = deadLetterNotification"
| "run_notification CancelPendingNotification = cancelPendingNotification"

fun notification_command_name :: "notification_command \<Rightarrow> string" where
  "notification_command_name ClaimNotification = ''claimNotification''"
| "notification_command_name RecordNotificationDelivery = ''recordNotificationDelivery''"
| "notification_command_name RecordRetryableNotificationFailure = ''recordRetryableNotificationFailure''"
| "notification_command_name RetryNotification = ''retryNotification''"
| "notification_command_name RecordTerminalNotificationFailure = ''recordTerminalNotificationFailure''"
| "notification_command_name DeadLetterNotification = ''deadLetterNotification''"
| "notification_command_name CancelPendingNotification = ''cancelPendingNotification''"

fun notification_expected :: "notification_command \<Rightarrow> NotificationState list" where
  "notification_expected ClaimNotification = [N_pending]"
| "notification_expected RecordNotificationDelivery = [N_claimed]"
| "notification_expected RecordRetryableNotificationFailure = [N_claimed]"
| "notification_expected RetryNotification = [N_retryable_failed]"
| "notification_expected RecordTerminalNotificationFailure = [N_claimed]"
| "notification_expected DeadLetterNotification = [N_terminal_failed]"
| "notification_expected CancelPendingNotification = [N_pending]"

fun notification_target :: "notification_command \<Rightarrow> NotificationState" where
  "notification_target ClaimNotification = N_claimed"
| "notification_target RecordNotificationDelivery = N_delivered"
| "notification_target RecordRetryableNotificationFailure = N_retryable_failed"
| "notification_target RetryNotification = N_pending"
| "notification_target RecordTerminalNotificationFailure = N_terminal_failed"
| "notification_target DeadLetterNotification = N_dead_letter"
| "notification_target CancelPendingNotification = N_cancelled"

instantiation notification_command :: enum
begin

definition "enum_notification_command = [
     ClaimNotification, RecordNotificationDelivery, RecordRetryableNotificationFailure
     , RetryNotification, RecordTerminalNotificationFailure, DeadLetterNotification
     , CancelPendingNotification]"

definition "enum_all_notification_command P \<longleftrightarrow>
     P ClaimNotification \<and> P RecordNotificationDelivery
     \<and> P RecordRetryableNotificationFailure \<and> P RetryNotification
     \<and> P RecordTerminalNotificationFailure \<and> P DeadLetterNotification
     \<and> P CancelPendingNotification"

definition "enum_ex_notification_command P \<longleftrightarrow>
     P ClaimNotification \<or> P RecordNotificationDelivery
     \<or> P RecordRetryableNotificationFailure \<or> P RetryNotification
     \<or> P RecordTerminalNotificationFailure \<or> P DeadLetterNotification
     \<or> P CancelPendingNotification"

instance
proof
  fix P :: "notification_command \<Rightarrow> bool"
  have "c \<in> set (enum_class.enum :: notification_command list)" for c
    by (cases c) (simp_all add: enum_notification_command_def)
  thus all: "(UNIV :: notification_command set) = set enum_class.enum" by auto
  show "distinct (enum_class.enum :: notification_command list)" by (simp add: enum_notification_command_def)
  show "enum_class.enum_all P = Ball UNIV P"
    unfolding all by (simp add: enum_all_notification_command_def enum_notification_command_def)
  show "enum_class.enum_ex P = Bex UNIV P"
    unfolding all by (simp add: enum_ex_notification_command_def enum_notification_command_def)
qed

end

lemma notification_command_all [machine_quantifiers]:
  "(\<forall>c. P c) \<longleftrightarrow> enum_class.enum_all (P :: notification_command \<Rightarrow> bool)"
  by (simp add: enum_all_UNIV)

lemma notification_command_ex [machine_quantifiers]:
  "(\<exists>c. P c) \<longleftrightarrow> enum_class.enum_ex (P :: notification_command \<Rightarrow> bool)"
  by (simp add: enum_ex_UNIV)

declare enum_all_notification_command_def [machine_quantifiers] enum_ex_notification_command_def [machine_quantifiers]

lemmas notification_defs [machine_simps] = notification_transition_def 
  claimNotification_def recordNotificationDelivery_def
  recordRetryableNotificationFailure_def retryNotification_def
  recordTerminalNotificationFailure_def deadLetterNotification_def
  cancelPendingNotification_def

interpretation notification: lifecycle run_notification notification_state_name Agg_notification notification_command_name
  notification_expected notification_target
proof
  fix c s
  show "run_notification c s = applyTransition notification_state_name Agg_notification (notification_command_name c) s
      (notification_expected c) (notification_target c)"
    by (cases c) (simp_all add: notification_defs)
next
  fix s t
  show "notification_state_name s = notification_state_name t \<Longrightarrow> s = t"
    by (cases s; cases t) simp_all
qed

section \<open>Relying-party client\<close>

datatype RelyingPartyClientState =
    L_proposed | L_security_review | L_approved | L_active | L_suspended | L_revoked

definition RELYING_PARTY_CLIENT_STATES :: "RelyingPartyClientState list" where
  "RELYING_PARTY_CLIENT_STATES = [
     L_proposed, L_security_review, L_approved, L_active, L_suspended, L_revoked]"

fun relying_party_client_state_name :: "RelyingPartyClientState \<Rightarrow> string" where
  "relying_party_client_state_name L_proposed = ''proposed''"
| "relying_party_client_state_name L_security_review = ''security_review''"
| "relying_party_client_state_name L_approved = ''approved''"
| "relying_party_client_state_name L_active = ''active''"
| "relying_party_client_state_name L_suspended = ''suspended''"
| "relying_party_client_state_name L_revoked = ''revoked''"

definition relying_party_client_transition ::
  "string \<Rightarrow> RelyingPartyClientState \<Rightarrow> RelyingPartyClientState list \<Rightarrow> RelyingPartyClientState \<Rightarrow> InvalidTransitionError + RelyingPartyClientState" where
  "relying_party_client_transition command currentState expectedStates nextState =
     applyTransition relying_party_client_state_name Agg_relying_party_client command currentState expectedStates nextState"

definition beginClientSecurityReview :: "RelyingPartyClientState \<Rightarrow> InvalidTransitionError + RelyingPartyClientState" where
  "beginClientSecurityReview currentState =
     relying_party_client_transition ''beginClientSecurityReview'' currentState [L_proposed] L_security_review"

definition approveRelyingPartyClient :: "RelyingPartyClientState \<Rightarrow> InvalidTransitionError + RelyingPartyClientState" where
  "approveRelyingPartyClient currentState =
     relying_party_client_transition ''approveRelyingPartyClient'' currentState [L_security_review] L_approved"

definition activateRelyingPartyClient :: "RelyingPartyClientState \<Rightarrow> InvalidTransitionError + RelyingPartyClientState" where
  "activateRelyingPartyClient currentState =
     relying_party_client_transition ''activateRelyingPartyClient'' currentState [L_approved, L_suspended] L_active"

definition suspendRelyingPartyClient :: "RelyingPartyClientState \<Rightarrow> InvalidTransitionError + RelyingPartyClientState" where
  "suspendRelyingPartyClient currentState =
     relying_party_client_transition ''suspendRelyingPartyClient'' currentState [L_active] L_suspended"

definition revokeRelyingPartyClient :: "RelyingPartyClientState \<Rightarrow> InvalidTransitionError + RelyingPartyClientState" where
  "revokeRelyingPartyClient currentState =
     relying_party_client_transition ''revokeRelyingPartyClient'' currentState [L_approved, L_active, L_suspended] L_revoked"

text \<open>The commands of the relying-party client module, as data, and the call each one stands for.\<close>

datatype relying_party_client_command =
    BeginClientSecurityReview | ApproveRelyingPartyClient | ActivateRelyingPartyClient
    | SuspendRelyingPartyClient | RevokeRelyingPartyClient

fun run_relying_party_client :: "relying_party_client_command \<Rightarrow> RelyingPartyClientState \<Rightarrow> InvalidTransitionError + RelyingPartyClientState" where
  "run_relying_party_client BeginClientSecurityReview = beginClientSecurityReview"
| "run_relying_party_client ApproveRelyingPartyClient = approveRelyingPartyClient"
| "run_relying_party_client ActivateRelyingPartyClient = activateRelyingPartyClient"
| "run_relying_party_client SuspendRelyingPartyClient = suspendRelyingPartyClient"
| "run_relying_party_client RevokeRelyingPartyClient = revokeRelyingPartyClient"

fun relying_party_client_command_name :: "relying_party_client_command \<Rightarrow> string" where
  "relying_party_client_command_name BeginClientSecurityReview = ''beginClientSecurityReview''"
| "relying_party_client_command_name ApproveRelyingPartyClient = ''approveRelyingPartyClient''"
| "relying_party_client_command_name ActivateRelyingPartyClient = ''activateRelyingPartyClient''"
| "relying_party_client_command_name SuspendRelyingPartyClient = ''suspendRelyingPartyClient''"
| "relying_party_client_command_name RevokeRelyingPartyClient = ''revokeRelyingPartyClient''"

fun relying_party_client_expected :: "relying_party_client_command \<Rightarrow> RelyingPartyClientState list" where
  "relying_party_client_expected BeginClientSecurityReview = [L_proposed]"
| "relying_party_client_expected ApproveRelyingPartyClient = [L_security_review]"
| "relying_party_client_expected ActivateRelyingPartyClient = [L_approved, L_suspended]"
| "relying_party_client_expected SuspendRelyingPartyClient = [L_active]"
| "relying_party_client_expected RevokeRelyingPartyClient = [L_approved, L_active, L_suspended]"

fun relying_party_client_target :: "relying_party_client_command \<Rightarrow> RelyingPartyClientState" where
  "relying_party_client_target BeginClientSecurityReview = L_security_review"
| "relying_party_client_target ApproveRelyingPartyClient = L_approved"
| "relying_party_client_target ActivateRelyingPartyClient = L_active"
| "relying_party_client_target SuspendRelyingPartyClient = L_suspended"
| "relying_party_client_target RevokeRelyingPartyClient = L_revoked"

instantiation relying_party_client_command :: enum
begin

definition "enum_relying_party_client_command = [
     BeginClientSecurityReview, ApproveRelyingPartyClient, ActivateRelyingPartyClient
     , SuspendRelyingPartyClient, RevokeRelyingPartyClient]"

definition "enum_all_relying_party_client_command P \<longleftrightarrow>
     P BeginClientSecurityReview \<and> P ApproveRelyingPartyClient
     \<and> P ActivateRelyingPartyClient \<and> P SuspendRelyingPartyClient
     \<and> P RevokeRelyingPartyClient"

definition "enum_ex_relying_party_client_command P \<longleftrightarrow>
     P BeginClientSecurityReview \<or> P ApproveRelyingPartyClient
     \<or> P ActivateRelyingPartyClient \<or> P SuspendRelyingPartyClient
     \<or> P RevokeRelyingPartyClient"

instance
proof
  fix P :: "relying_party_client_command \<Rightarrow> bool"
  have "c \<in> set (enum_class.enum :: relying_party_client_command list)" for c
    by (cases c) (simp_all add: enum_relying_party_client_command_def)
  thus all: "(UNIV :: relying_party_client_command set) = set enum_class.enum" by auto
  show "distinct (enum_class.enum :: relying_party_client_command list)" by (simp add: enum_relying_party_client_command_def)
  show "enum_class.enum_all P = Ball UNIV P"
    unfolding all by (simp add: enum_all_relying_party_client_command_def enum_relying_party_client_command_def)
  show "enum_class.enum_ex P = Bex UNIV P"
    unfolding all by (simp add: enum_ex_relying_party_client_command_def enum_relying_party_client_command_def)
qed

end

lemma relying_party_client_command_all [machine_quantifiers]:
  "(\<forall>c. P c) \<longleftrightarrow> enum_class.enum_all (P :: relying_party_client_command \<Rightarrow> bool)"
  by (simp add: enum_all_UNIV)

lemma relying_party_client_command_ex [machine_quantifiers]:
  "(\<exists>c. P c) \<longleftrightarrow> enum_class.enum_ex (P :: relying_party_client_command \<Rightarrow> bool)"
  by (simp add: enum_ex_UNIV)

declare enum_all_relying_party_client_command_def [machine_quantifiers] enum_ex_relying_party_client_command_def [machine_quantifiers]

lemmas relying_party_client_defs [machine_simps] = relying_party_client_transition_def 
  beginClientSecurityReview_def approveRelyingPartyClient_def activateRelyingPartyClient_def
  suspendRelyingPartyClient_def revokeRelyingPartyClient_def

interpretation relying_party_client: lifecycle run_relying_party_client relying_party_client_state_name Agg_relying_party_client relying_party_client_command_name
  relying_party_client_expected relying_party_client_target
proof
  fix c s
  show "run_relying_party_client c s = applyTransition relying_party_client_state_name Agg_relying_party_client (relying_party_client_command_name c) s
      (relying_party_client_expected c) (relying_party_client_target c)"
    by (cases c) (simp_all add: relying_party_client_defs)
next
  fix s t
  show "relying_party_client_state_name s = relying_party_client_state_name t \<Longrightarrow> s = t"
    by (cases s; cases t) simp_all
qed

section \<open>Reachable and final states\<close>

text \<open>A run to each state from the initial one.\<close>

fun renewal_cycle_route :: "RenewalCycleState \<Rightarrow> renewal_cycle_command list" where
  "renewal_cycle_route R_draft = []"
| "renewal_cycle_route R_snapshot_committed = [CommitEligibleSnapshot]"
| "renewal_cycle_route R_selection_pending = [CommitEligibleSnapshot, RequestRenewalSelection]"
| "renewal_cycle_route R_selection_ready = [CommitEligibleSnapshot, RequestRenewalSelection, RecordRenewalSelection]"
| "renewal_cycle_route R_notices_pending = [CommitEligibleSnapshot, RequestRenewalSelection, RecordRenewalSelection, QueueRenewalNotices]"
| "renewal_cycle_route R_in_progress = [CommitEligibleSnapshot, RequestRenewalSelection, RecordRenewalSelection, QueueRenewalNotices, BeginRenewalCycle]"
| "renewal_cycle_route R_reporting = [CommitEligibleSnapshot, RequestRenewalSelection, RecordRenewalSelection, QueueRenewalNotices, BeginRenewalCycle, BeginRenewalReporting]"
| "renewal_cycle_route R_published = [CommitEligibleSnapshot, RequestRenewalSelection, RecordRenewalSelection, QueueRenewalNotices, BeginRenewalCycle, BeginRenewalReporting, PublishRenewalReport]"
| "renewal_cycle_route R_cancelled = [CancelDraftRenewalCycle]"

lemma run_renewal_cycle_route:
  "run_all run_renewal_cycle (renewal_cycle_route s) R_draft = Inr s"
  by (cases s) (simp_all add: renewal_cycle_defs applyTransition_def)

lemma renewal_cycle_final:
  "(\<exists>c t. run_renewal_cycle c s = Inr t) \<longleftrightarrow> s \<notin> {R_published, R_cancelled}"
  unfolding renewal_cycle.run_eq_Inr machine_quantifiers by (cases s) simp_all

fun wallet_challenge_route :: "WalletChallengeState \<Rightarrow> wallet_challenge_command list" where
  "wallet_challenge_route W_created = []"
| "wallet_challenge_route W_presented = [PresentWalletChallenge]"
| "wallet_challenge_route W_response_received = [PresentWalletChallenge, RecordWalletResponse]"
| "wallet_challenge_route W_consumed = [PresentWalletChallenge, RecordWalletResponse, ConsumeWalletChallenge]"
| "wallet_challenge_route W_expired = [ExpireWalletChallenge]"
| "wallet_challenge_route W_rejected = [PresentWalletChallenge, RecordWalletResponse, RejectWalletResponse]"

lemma run_wallet_challenge_route:
  "run_all run_wallet_challenge (wallet_challenge_route s) W_created = Inr s"
  by (cases s) (simp_all add: wallet_challenge_defs applyTransition_def)

lemma wallet_challenge_final:
  "(\<exists>c t. run_wallet_challenge c s = Inr t) \<longleftrightarrow> s \<notin> {W_consumed, W_expired, W_rejected}"
  unfolding wallet_challenge.run_eq_Inr machine_quantifiers by (cases s) simp_all

fun consent_route :: "ConsentState \<Rightarrow> consent_command list" where
  "consent_route K_pending = []"
| "consent_route K_acknowledged = [AcknowledgeConsent]"
| "consent_route K_withdrawn = [AcknowledgeConsent, WithdrawConsent]"

lemma run_consent_route:
  "run_all run_consent (consent_route s) K_pending = Inr s"
  by (cases s) (simp_all add: consent_defs applyTransition_def)

lemma consent_final:
  "(\<exists>c t. run_consent c s = Inr t) \<longleftrightarrow> s \<notin> {K_withdrawn}"
  unfolding consent.run_eq_Inr machine_quantifiers by (cases s) simp_all

fun appeal_route :: "AppealState \<Rightarrow> appeal_command list" where
  "appeal_route A_opened = []"
| "appeal_route A_assigned = [AssignAppeal]"
| "appeal_route A_under_review = [AssignAppeal, BeginAppealReview]"
| "appeal_route A_upheld = [AssignAppeal, BeginAppealReview, UpholdAppealCase]"
| "appeal_route A_denied = [AssignAppeal, BeginAppealReview, DenyAppealCase]"
| "appeal_route A_remanded = [AssignAppeal, BeginAppealReview, RemandAppealCase]"
| "appeal_route A_withdrawn = [WithdrawAppealCase]"

lemma run_appeal_route:
  "run_all run_appeal (appeal_route s) A_opened = Inr s"
  by (cases s) (simp_all add: appeal_defs applyTransition_def)

lemma appeal_final:
  "(\<exists>c t. run_appeal c s = Inr t) \<longleftrightarrow> s \<notin> {A_upheld, A_denied, A_remanded, A_withdrawn}"
  unfolding appeal.run_eq_Inr machine_quantifiers by (cases s) simp_all

fun privacy_request_route :: "PrivacyRequestState \<Rightarrow> privacy_request_command list" where
  "privacy_request_route P_requested = []"
| "privacy_request_route P_identity_confirmed = [ConfirmPrivacyRequester]"
| "privacy_request_route P_processing = [ConfirmPrivacyRequester, BeginPrivacyRequest]"
| "privacy_request_route P_completed = [ConfirmPrivacyRequester, BeginPrivacyRequest, CompletePrivacyRequest]"
| "privacy_request_route P_denied = [ConfirmPrivacyRequester, BeginPrivacyRequest, DenyPrivacyRequest]"
| "privacy_request_route P_withdrawn = [WithdrawPrivacyRequest]"

lemma run_privacy_request_route:
  "run_all run_privacy_request (privacy_request_route s) P_requested = Inr s"
  by (cases s) (simp_all add: privacy_request_defs applyTransition_def)

lemma privacy_request_final:
  "(\<exists>c t. run_privacy_request c s = Inr t) \<longleftrightarrow> s \<notin> {P_completed, P_denied, P_withdrawn}"
  unfolding privacy_request.run_eq_Inr machine_quantifiers by (cases s) simp_all

fun notification_route :: "NotificationState \<Rightarrow> notification_command list" where
  "notification_route N_pending = []"
| "notification_route N_claimed = [ClaimNotification]"
| "notification_route N_delivered = [ClaimNotification, RecordNotificationDelivery]"
| "notification_route N_retryable_failed = [ClaimNotification, RecordRetryableNotificationFailure]"
| "notification_route N_terminal_failed = [ClaimNotification, RecordTerminalNotificationFailure]"
| "notification_route N_dead_letter = [ClaimNotification, RecordTerminalNotificationFailure, DeadLetterNotification]"
| "notification_route N_cancelled = [CancelPendingNotification]"

lemma run_notification_route:
  "run_all run_notification (notification_route s) N_pending = Inr s"
  by (cases s) (simp_all add: notification_defs applyTransition_def)

lemma notification_final:
  "(\<exists>c t. run_notification c s = Inr t) \<longleftrightarrow> s \<notin> {N_delivered, N_dead_letter, N_cancelled}"
  unfolding notification.run_eq_Inr machine_quantifiers by (cases s) simp_all

fun relying_party_client_route :: "RelyingPartyClientState \<Rightarrow> relying_party_client_command list" where
  "relying_party_client_route L_proposed = []"
| "relying_party_client_route L_security_review = [BeginClientSecurityReview]"
| "relying_party_client_route L_approved = [BeginClientSecurityReview, ApproveRelyingPartyClient]"
| "relying_party_client_route L_active = [BeginClientSecurityReview, ApproveRelyingPartyClient, ActivateRelyingPartyClient]"
| "relying_party_client_route L_suspended = [BeginClientSecurityReview, ApproveRelyingPartyClient, ActivateRelyingPartyClient, SuspendRelyingPartyClient]"
| "relying_party_client_route L_revoked = [BeginClientSecurityReview, ApproveRelyingPartyClient, RevokeRelyingPartyClient]"

lemma run_relying_party_client_route:
  "run_all run_relying_party_client (relying_party_client_route s) L_proposed = Inr s"
  by (cases s) (simp_all add: relying_party_client_defs applyTransition_def)

lemma relying_party_client_final:
  "(\<exists>c t. run_relying_party_client c s = Inr t) \<longleftrightarrow> s \<notin> {L_revoked}"
  unfolding relying_party_client.run_eq_Inr machine_quantifiers by (cases s) simp_all

text \<open>
  In each of the seven supporting lifecycles every declared state can be reached from the
  initial one, and some command is accepted in every state but the final ones: published and
  cancelled renewal cycles; consumed, expired and rejected wallet challenges; withdrawn consents;
  upheld, denied, remanded and withdrawn appeals; completed, denied and withdrawn privacy
  requests; delivered, dead-lettered and cancelled notifications; revoked clients.
\<close>

theorem support_lifecycles_reachability_and_final_states:
  "(reaches run_renewal_cycle R_draft s1 \<and>
      ((\<exists>c t. run_renewal_cycle c s1 = Inr t) \<longleftrightarrow> s1 \<notin> {R_published, R_cancelled}))
   \<and> (reaches run_wallet_challenge W_created s2 \<and>
      ((\<exists>c t. run_wallet_challenge c s2 = Inr t) \<longleftrightarrow> s2 \<notin> {W_consumed, W_expired, W_rejected}))
   \<and> (reaches run_consent K_pending s3 \<and>
      ((\<exists>c t. run_consent c s3 = Inr t) \<longleftrightarrow> s3 \<notin> {K_withdrawn}))
   \<and> (reaches run_appeal A_opened s4 \<and>
      ((\<exists>c t. run_appeal c s4 = Inr t) \<longleftrightarrow> s4 \<notin> {A_upheld, A_denied, A_remanded, A_withdrawn}))
   \<and> (reaches run_privacy_request P_requested s5 \<and>
      ((\<exists>c t. run_privacy_request c s5 = Inr t) \<longleftrightarrow> s5 \<notin> {P_completed, P_denied, P_withdrawn}))
   \<and> (reaches run_notification N_pending s6 \<and>
      ((\<exists>c t. run_notification c s6 = Inr t) \<longleftrightarrow> s6 \<notin> {N_delivered, N_dead_letter, N_cancelled}))
   \<and> (reaches run_relying_party_client L_proposed s7 \<and>
      ((\<exists>c t. run_relying_party_client c s7 = Inr t) \<longleftrightarrow> s7 \<notin> {L_revoked}))"
  using reachesI[OF run_renewal_cycle_route] reachesI[OF run_wallet_challenge_route] reachesI[OF run_consent_route] reachesI[OF run_appeal_route] reachesI[OF run_privacy_request_route] reachesI[OF run_notification_route] reachesI[OF run_relying_party_client_route]
    renewal_cycle_final wallet_challenge_final consent_final appeal_final privacy_request_final notification_final relying_party_client_final
  by simp

end
