(* ===== verification/Attestation.thy ===== *)
theory Attestation
  imports Prelude
begin

text \<open>
  packages/domain/src/attestation.ts, public-projection.ts and reviewer-eligibility.ts: the
  validity window of an attestation, its status at a moment, the public projection of it, and the
  check every review decision passes first.
\<close>

section \<open>Validity\<close>

definition MAX_ATTESTATION_VALIDITY_DAYS :: int where
  "MAX_ATTESTATION_VALIDITY_DAYS = 45"

definition MAX_ATTESTATION_VALIDITY_MS :: int where
  "MAX_ATTESTATION_VALIDITY_MS = MAX_ATTESTATION_VALIDITY_DAYS * 24 * 60 * 60 * 1000"

datatype InvalidAttestationValidityError = InvalidAttestationValidityError string

record AttestationValidity =
  av_version :: js_number
  av_validFrom :: date
  av_expiresAt :: date
  av_supersedesReference :: "string option"

definition createAttestationValidity ::
  "('z) AttestationValidity_scheme \<Rightarrow> InvalidAttestationValidityError + AttestationValidity" where
  "createAttestationValidity input =
     (if \<not> isInteger (av_version input) \<or> js_less (av_version input) (num 1)
      then Inl (InvalidAttestationValidityError ''attestation version must be a positive integer'')
      else case (av_validFrom input, av_expiresAt input) of
        (Some validFromMs, Some expiresAtMs) \<Rightarrow>
          if expiresAtMs \<le> validFromMs
          then Inl (InvalidAttestationValidityError ''attestation expiry must follow its validity start'')
          else if expiresAtMs - validFromMs > MAX_ATTESTATION_VALIDITY_MS
          then Inl (InvalidAttestationValidityError
                 (''attestation validity cannot exceed '' @ int_to_string MAX_ATTESTATION_VALIDITY_DAYS @ '' days''))
          else if js_less (num 1) (av_version input) \<and> \<not> truthy (av_supersedesReference input)
          then Inl (InvalidAttestationValidityError
                 ''a renewed attestation version must reference the attestation it supersedes'')
          else Inr \<lparr>av_version = av_version input, av_validFrom = Some validFromMs,
                    av_expiresAt = Some expiresAtMs,
                    av_supersedesReference =
                      (if truthy (av_supersedesReference input) then av_supersedesReference input else None)\<rparr>
      | _ \<Rightarrow> Inl (InvalidAttestationValidityError ''attestation validity requires finite timestamps''))"

text \<open>What the checks of the function ask of a window, in one line each.\<close>

definition valid_window :: "int \<Rightarrow> time \<Rightarrow> time \<Rightarrow> string option \<Rightarrow> bool" where
  "valid_window version validFrom expiresAt supersedes \<longleftrightarrow>
     1 \<le> version \<and> validFrom < expiresAt
     \<and> expiresAt \<le> validFrom + MAX_ATTESTATION_VALIDITY_MS
     \<and> (version = 1 \<or> truthy supersedes)"

lemma createAttestationValidity_Inr_iff:
  "(\<exists>v. createAttestationValidity input = Inr v) \<longleftrightarrow>
     (\<exists>n f e. av_version input = num n \<and> av_validFrom input = Some f \<and> av_expiresAt input = Some e
        \<and> valid_window n f e (av_supersedesReference input))"
  by (auto simp: createAttestationValidity_def valid_window_def isInteger_iff
        split: option.splits if_splits)

lemma createAttestationValidity_valid:
  assumes "av_version input = num n" "av_validFrom input = Some f" "av_expiresAt input = Some e"
    "valid_window n f e (av_supersedesReference input)"
  shows "createAttestationValidity input =
     Inr \<lparr>av_version = num n, av_validFrom = Some f, av_expiresAt = Some e,
          av_supersedesReference =
            (if truthy (av_supersedesReference input) then av_supersedesReference input else None)\<rparr>"
  using assms by (auto simp: createAttestationValidity_def valid_window_def)

section \<open>Status\<close>

datatype CanonicalAttestationStatus = St_active | St_expired | St_revoked | St_superseded | St_unavailable

record AttestationStatusInput = AttestationValidity +
  as_issuanceComplete :: bool
  as_revokedAt :: "date option"
  as_supersededAt :: "date option"

text \<open>The condition \<^verbatim>\<open>x && x.getTime() <= nowMs\<close> on an optional date.\<close>

fun reached :: "date option \<Rightarrow> time \<Rightarrow> bool" where
  "reached None nowMs \<longleftrightarrow> False"
| "reached (Some d) nowMs \<longleftrightarrow> date_le d (Some nowMs)"

definition attestationStatusAt ::
  "('z) AttestationStatusInput_scheme \<Rightarrow> date \<Rightarrow> InvalidAttestationValidityError + CanonicalAttestationStatus" where
  "attestationStatusAt input now =
     bind_result (createAttestationValidity input) (\<lambda>_.
       case now of
         None \<Rightarrow> Inl (InvalidAttestationValidityError ''status clock must be a finite timestamp'')
       | Some nowMs \<Rightarrow> Inr (
           if \<not> as_issuanceComplete input \<or> nowMs < the (av_validFrom input) then St_unavailable
           else if reached (as_revokedAt input) nowMs then St_revoked
           else if reached (as_supersededAt input) nowMs then St_superseded
           else if nowMs \<ge> the (av_expiresAt input) then St_expired else St_active))"

lemma reached_mono: "reached d t \<Longrightarrow> t \<le> t' \<Longrightarrow> reached d t'"
  by (cases d; cases "the d") auto

lemma attestationStatusAt_valid:
  assumes "av_version input = num n" "av_validFrom input = Some f" "av_expiresAt input = Some e"
    "valid_window n f e (av_supersedesReference input)"
  shows "attestationStatusAt input (Some t) = Inr (
      if \<not> as_issuanceComplete input \<or> t < f then St_unavailable
      else if reached (as_revokedAt input) t then St_revoked
      else if reached (as_supersededAt input) t then St_superseded
      else if t \<ge> e then St_expired else St_active)"
  using createAttestationValidity_valid[of input n f e] assms by (simp add: attestationStatusAt_def)

lemma attestationStatusAt_InrD:
  assumes "attestationStatusAt input now = Inr st"
  obtains n f e t where "av_version input = num n" "av_validFrom input = Some f"
    "av_expiresAt input = Some e" "valid_window n f e (av_supersedesReference input)" "now = Some t"
proof -
  obtain v t where "createAttestationValidity input = Inr v" "now = Some t"
    using assms by (auto simp: attestationStatusAt_def split: option.splits)
  thus ?thesis using that createAttestationValidity_Inr_iff[of input] by blast
qed

text \<open>
  An attestation validity is accepted exactly when its version is a positive integer, both
  dates are valid, it ends after it begins and at most 45 days later, and a version after the first
  names the attestation it supersedes; the result then keeps the version and both dates and drops an
  empty reference.
\<close>

theorem validity_accepted_iff:
  "createAttestationValidity input = Inr v \<longleftrightarrow>
     (\<exists>n f e. av_version input = num n \<and> av_validFrom input = Some f \<and> av_expiresAt input = Some e
        \<and> 1 \<le> n \<and> f < e \<and> e - f \<le> 45 * 86400000
        \<and> (n = 1 \<or> truthy (av_supersedesReference input))
        \<and> v = \<lparr>av_version = num n, av_validFrom = Some f, av_expiresAt = Some e,
               av_supersedesReference = (if truthy (av_supersedesReference input)
                 then av_supersedesReference input else None)\<rparr>)"
proof -
  have days: "valid_window n f e r \<longleftrightarrow>
      1 \<le> n \<and> f < e \<and> e - f \<le> 45 * 86400000 \<and> (n = 1 \<or> truthy r)" for n f e r
    by (auto simp: valid_window_def MAX_ATTESTATION_VALIDITY_MS_def MAX_ATTESTATION_VALIDITY_DAYS_def)
  show ?thesis
  proof
    assume v: "createAttestationValidity input = Inr v"
    then obtain n f e where w: "av_version input = num n" "av_validFrom input = Some f"
      "av_expiresAt input = Some e" "valid_window n f e (av_supersedesReference input)"
      using createAttestationValidity_Inr_iff[of input] by blast
    show "\<exists>n f e. av_version input = num n \<and> av_validFrom input = Some f \<and> av_expiresAt input = Some e
        \<and> 1 \<le> n \<and> f < e \<and> e - f \<le> 45 * 86400000
        \<and> (n = 1 \<or> truthy (av_supersedesReference input))
        \<and> v = \<lparr>av_version = num n, av_validFrom = Some f, av_expiresAt = Some e,
               av_supersedesReference = (if truthy (av_supersedesReference input)
                 then av_supersedesReference input else None)\<rparr>"
      using v w createAttestationValidity_valid[OF w] unfolding days by auto
  qed (auto simp: createAttestationValidity_valid days)
qed

text \<open>
  The status function answers active at a moment exactly when the issuance is complete, the
  moment lies in the half-open validity window and neither a revocation nor a supersession has taken
  effect by then; so any two moments at which one attestation is active are less than 45 days
  apart.
\<close>

theorem active_status_iff:
  "(attestationStatusAt input (Some t) = Inr St_active \<longleftrightarrow>
      (\<exists>n f e. av_version input = num n \<and> av_validFrom input = Some f \<and> av_expiresAt input = Some e
         \<and> valid_window n f e (av_supersedesReference input)
         \<and> as_issuanceComplete input \<and> f \<le> t \<and> t < e
         \<and> \<not> reached (as_revokedAt input) t \<and> \<not> reached (as_supersededAt input) t))
   \<and> \<not> (attestationStatusAt input (Some t) = Inr St_active
        \<and> attestationStatusAt input (Some u) = Inr St_active \<and> u - t \<ge> 45 * 86400000)"
proof (intro conjI)
  show iff: "attestationStatusAt input (Some t) = Inr St_active \<longleftrightarrow>
      (\<exists>n f e. av_version input = num n \<and> av_validFrom input = Some f \<and> av_expiresAt input = Some e
         \<and> valid_window n f e (av_supersedesReference input)
         \<and> as_issuanceComplete input \<and> f \<le> t \<and> t < e
         \<and> \<not> reached (as_revokedAt input) t \<and> \<not> reached (as_supersededAt input) t)" for t
  proof
    assume act: "attestationStatusAt input (Some t) = Inr St_active"
    obtain n f e where w: "av_version input = num n" "av_validFrom input = Some f"
      "av_expiresAt input = Some e" "valid_window n f e (av_supersedesReference input)"
      by (rule attestationStatusAt_InrD[OF act]) auto
    with act show "\<exists>n f e. av_version input = num n \<and> av_validFrom input = Some f
         \<and> av_expiresAt input = Some e \<and> valid_window n f e (av_supersedesReference input)
         \<and> as_issuanceComplete input \<and> f \<le> t \<and> t < e
         \<and> \<not> reached (as_revokedAt input) t \<and> \<not> reached (as_supersededAt input) t"
      by (auto simp: attestationStatusAt_valid[OF w] split: if_splits)
  next
    assume "\<exists>n f e. av_version input = num n \<and> av_validFrom input = Some f
         \<and> av_expiresAt input = Some e \<and> valid_window n f e (av_supersedesReference input)
         \<and> as_issuanceComplete input \<and> f \<le> t \<and> t < e
         \<and> \<not> reached (as_revokedAt input) t \<and> \<not> reached (as_supersededAt input) t"
    thus "attestationStatusAt input (Some t) = Inr St_active"
      by (auto simp: attestationStatusAt_valid)
  qed
  show "\<not> (attestationStatusAt input (Some t) = Inr St_active
        \<and> attestationStatusAt input (Some u) = Inr St_active \<and> u - t \<ge> 45 * 86400000)"
    unfolding iff
    by (auto simp: valid_window_def MAX_ATTESTATION_VALIDITY_MS_def MAX_ATTESTATION_VALIDITY_DAYS_def)
qed

text \<open>
  The end of an attestation is final: once it is expired, revoked or superseded it is so at
  every later moment too, never active and never unavailable again; a revocation stays a
  revocation.
\<close>

theorem status_never_returns:
  assumes "attestationStatusAt input (Some t) = Inr st" "t \<le> u"
    and "st \<in> {St_expired, St_revoked, St_superseded}"
  shows "\<exists>st'. attestationStatusAt input (Some u) = Inr st'
     \<and> st' \<in> {St_expired, St_revoked, St_superseded} \<and> (st = St_revoked \<longrightarrow> st' = St_revoked)"
proof -
  obtain n f e where w: "av_version input = num n" "av_validFrom input = Some f"
      "av_expiresAt input = Some e" "valid_window n f e (av_supersedesReference input)"
    by (rule attestationStatusAt_InrD[OF assms(1)]) auto
  thus ?thesis
    using assms reached_mono[of _ t u] unfolding attestationStatusAt_valid[OF w]
    by (auto split: if_splits)
qed

definition example_attestation :: AttestationStatusInput where
  "example_attestation = \<lparr>av_version = num 1, av_validFrom = Some 1000, av_expiresAt = Some 5000,
     av_supersedesReference = None, as_issuanceComplete = True, as_revokedAt = Some (Some 3000),
     as_supersededAt = None\<rparr>"

theorem status_never_returns_witness:
  "\<exists>st'. attestationStatusAt example_attestation (Some 9000) = Inr st'
     \<and> st' \<in> {St_expired, St_revoked, St_superseded} \<and> st' = St_revoked"
proof -
  have "attestationStatusAt example_attestation (Some 4000) = Inr St_revoked"
    by (simp add: attestationStatusAt_def createAttestationValidity_def example_attestation_def
        MAX_ATTESTATION_VALIDITY_MS_def MAX_ATTESTATION_VALIDITY_DAYS_def)
  from status_never_returns[OF this, of 9000] show ?thesis by simp
qed

section \<open>Public projection\<close>

text \<open>Date.prototype.toISOString for a valid date: the proleptic Gregorian date of the day and the
  time of the day, in UTC.  The year has four digits, or a sign and six digits outside 0 to 9999.\<close>

definition pad :: "nat \<Rightarrow> nat \<Rightarrow> string" where
  "pad w n = (let s = nat_to_string n in replicate (w - length s) (CHR ''0'') @ s)"

definition civil_from_days :: "int \<Rightarrow> int \<times> int \<times> int" where
  "civil_from_days days =
     (let z = days + 719468; era = z div 146097; doe = z mod 146097;
          yoe = (doe - doe div 1460 + doe div 36524 - doe div 146096) div 365;
          doy = doe - (365 * yoe + yoe div 4 - yoe div 100);
          mp = (5 * doy + 2) div 153;
          d = doy - (153 * mp + 2) div 5 + 1;
          m = (if mp < 10 then mp + 3 else mp - 9);
          y = yoe + era * 400 + (if m \<le> 2 then 1 else 0)
      in (y, m, d))"

definition year_string :: "int \<Rightarrow> string" where
  "year_string y =
     (if 0 \<le> y \<and> y \<le> 9999 then pad 4 (nat y)
      else (if y < 0 then ''-'' else ''+'') @ pad 6 (nat (abs y)))"

definition toISOString :: "time \<Rightarrow> string" where
  "toISOString t =
     (let (y, m, d) = civil_from_days (t div 86400000); ms = t mod 86400000
      in year_string y @ ''-'' @ pad 2 (nat m) @ ''-'' @ pad 2 (nat d) @ ''T''
         @ pad 2 (nat (ms div 3600000)) @ '':'' @ pad 2 (nat (ms div 60000 mod 60)) @ '':''
         @ pad 2 (nat (ms div 1000 mod 60)) @ ''.'' @ pad 3 (nat (ms mod 1000)) @ ''Z'')"

record InternalAttestationProjectionSource = AttestationStatusInput +
  ps_opaqueReference :: string
  ps_issuerReference :: string
  ps_attestationType :: string
  ps_policyVersionReferences :: "string list"

record PublicAttestationProjection =
  pp_opaqueReference :: string
  pp_status :: CanonicalAttestationStatus
  pp_attestationType :: string
  pp_issuerReference :: string
  pp_validFrom :: string
  pp_expiresAt :: string
  pp_policyVersionReferences :: "string list"

text \<open>The status is evaluated before the dates are printed, so an invalid date raises the error of
  the status function.\<close>

definition projectPublicAttestation ::
  "InternalAttestationProjectionSource \<Rightarrow> date \<Rightarrow> InvalidAttestationValidityError + PublicAttestationProjection" where
  "projectPublicAttestation source now =
     bind_result (attestationStatusAt source now) (\<lambda>status. Inr
       \<lparr>pp_opaqueReference = ps_opaqueReference source,
        pp_status = status,
        pp_attestationType = ps_attestationType source,
        pp_issuerReference = ps_issuerReference source,
        pp_validFrom = toISOString (the (av_validFrom source)),
        pp_expiresAt = toISOString (the (av_expiresAt source)),
        pp_policyVersionReferences = ps_policyVersionReferences source\<rparr>)"

lemma toISOString_examples:
  "toISOString 0 = ''1970-01-01T00:00:00.000Z''"
  "toISOString 1785974405123 = ''2026-08-06T00:00:05.123Z''"
  "toISOString 951782399999 = ''2000-02-28T23:59:59.999Z''"
  by code_simp+

section \<open>Reviewer eligibility\<close>

datatype ReviewerIneligibilityCode = REVIEWER_NOT_AUTHORIZED | REVIEWER_CONFLICTED | CROSS_COMMITTEE_REVIEW

record ReviewerAuthorizationDecision =
  rd_actorReference :: string
  rd_actorCommitteeReference :: string
  rd_targetCommitteeReference :: string
  rd_authorized :: bool
  rd_conflicted :: bool
  rd_policyVersionReference :: string

record EligibleReviewer =
  er_actorReference :: string
  er_committeeReference :: string
  er_policyVersionReference :: string

definition requireEligibleReviewer ::
  "ReviewerAuthorizationDecision \<Rightarrow> ReviewerIneligibilityCode + EligibleReviewer" where
  "requireEligibleReviewer d =
     (if rd_actorCommitteeReference d \<noteq> rd_targetCommitteeReference d then Inl CROSS_COMMITTEE_REVIEW
      else if \<not> rd_authorized d then Inl REVIEWER_NOT_AUTHORIZED
      else if rd_conflicted d then Inl REVIEWER_CONFLICTED
      else if rd_policyVersionReference d = [] then Inl REVIEWER_NOT_AUTHORIZED
      else Inr \<lparr>er_actorReference = rd_actorReference d,
                er_committeeReference = rd_targetCommitteeReference d,
                er_policyVersionReference = rd_policyVersionReference d\<rparr>)"

lemma requireEligibleReviewer_Inr_iff:
  "requireEligibleReviewer d = Inr r \<longleftrightarrow>
     rd_actorCommitteeReference d = rd_targetCommitteeReference d \<and> rd_authorized d
     \<and> \<not> rd_conflicted d \<and> rd_policyVersionReference d \<noteq> []
     \<and> r = \<lparr>er_actorReference = rd_actorReference d,
            er_committeeReference = rd_actorCommitteeReference d,
            er_policyVersionReference = rd_policyVersionReference d\<rparr>"
  by (auto simp: requireEligibleReviewer_def)

end
