(* ===== verification/Json.thy ===== *)
theory Json
  imports Prelude "HOL-Library.Char_ord" "HOL-Library.List_Lexorder" "HOL-Library.Multiset"
begin

text \<open>
  JSON values and their printing, as the language has them.  A string is a list of characters with
  code 0 to 255; on these NFC normalisation changes nothing, the comparison of strings by code unit is
  the lexicographic order of the character codes, and UTF-8 takes one byte below 128 and two bytes
  from there on.  An object is the list of its entries with distinct keys.  The printing of a finite
  number is the argument \<open>num_str\<close> wherever it is used.
\<close>

datatype json =
    JNull | JBool bool | JNum js_number | JStr string
  | JArr "json list" | JObj "(string \<times> json) list"

section \<open>Strings\<close>

abbreviation (input) quote_char :: char where "quote_char \<equiv> CHR 0x22"
abbreviation (input) backslash :: char where "backslash \<equiv> CHR 0x5C"

definition hex_digit :: "nat \<Rightarrow> char" where
  "hex_digit d = (if d < 10 then char_of (48 + d) else char_of (87 + d))"

definition hex_value :: "char \<Rightarrow> nat option" where
  "hex_value c =
     (if 48 \<le> code c \<and> code c \<le> 57 then Some (code c - 48)
      else if 97 \<le> code c \<and> code c \<le> 102 then Some (code c - 87)
      else if 65 \<le> code c \<and> code c \<le> 70 then Some (code c - 55)
      else None)"

text \<open>The escapes of JSON.stringify.\<close>

definition escape_char :: "char \<Rightarrow> string" where
  "escape_char c =
     (if c = quote_char then [backslash, quote_char]
      else if c = backslash then [backslash, backslash]
      else if code c = 8 then [backslash, CHR ''b'']
      else if code c = 12 then [backslash, CHR ''f'']
      else if code c = 10 then [backslash, CHR ''n'']
      else if code c = 13 then [backslash, CHR ''r'']
      else if code c = 9 then [backslash, CHR ''t'']
      else if code c < 32 then
        [backslash, CHR ''u'', CHR ''0'', CHR ''0'', hex_digit (code c div 16), hex_digit (code c mod 16)]
      else [c])"

definition json_quote :: "string \<Rightarrow> string" where
  "json_quote s = quote_char # concat (map escape_char s) @ [quote_char]"

text \<open>Reads back one escaped character, or None at a closing quote.\<close>

fun unescape :: "string \<Rightarrow> (char \<times> string) option" where
  "unescape [] = None"
| "unescape (c # r) =
     (if c = quote_char then None
      else if c \<noteq> backslash then Some (c, r)
      else case r of
        [] \<Rightarrow> None
      | e # r' \<Rightarrow>
          if e = CHR ''b'' then Some (char_of (8::nat), r')
          else if e = CHR ''f'' then Some (char_of (12::nat), r')
          else if e = CHR ''n'' then Some (char_of (10::nat), r')
          else if e = CHR ''r'' then Some (char_of (13::nat), r')
          else if e = CHR ''t'' then Some (char_of (9::nat), r')
          else if e = CHR ''u'' then
            (case r' of
               z # z' # a # b # r'' \<Rightarrow>
                 (case (hex_value a, hex_value b) of
                    (Some x, Some y) \<Rightarrow> Some (char_of (16 * x + y), r'')
                  | _ \<Rightarrow> None)
             | _ \<Rightarrow> None)
          else Some (e, r'))"

lemma code_char_of [simp]: "code (char_of n) = n mod 256"
  by (simp add: code_def)

lemma char_of_code [simp]: "char_of (code c) = c"
  by (simp add: code_def)

lemma char_of_codeI: "code c = n \<Longrightarrow> char_of n = c"
  by auto

lemma code_inj: "code c = code d \<longleftrightarrow> c = d"
  by (metis char_of_code)

lemma code_less: "code c < 256"
  by (simp add: code_def)

lemma hex_value_hex_digit [simp]: "d < 16 \<Longrightarrow> hex_value (hex_digit d) = Some d"
  by (auto simp: hex_value_def hex_digit_def)

lemma code_quote [simp]: "code quote_char = 34"
  by (simp add: code_def)

lemma code_backslash [simp]: "code backslash = 92"
  by (simp add: code_def)

lemma escape_char_special:
  "code c = 8 \<Longrightarrow> escape_char c = [backslash, CHR ''b'']"
  "code c = 12 \<Longrightarrow> escape_char c = [backslash, CHR ''f'']"
  "code c = 10 \<Longrightarrow> escape_char c = [backslash, CHR ''n'']"
  "code c = 13 \<Longrightarrow> escape_char c = [backslash, CHR ''r'']"
  "code c = 9 \<Longrightarrow> escape_char c = [backslash, CHR ''t'']"
  using code_quote code_backslash by (auto simp: escape_char_def)

lemma escape_char_control:
  assumes "code c < 32" "code c \<notin> {8, 9, 10, 12, 13}"
  shows "escape_char c =
     [backslash, CHR ''u'', CHR ''0'', CHR ''0'', hex_digit (code c div 16), hex_digit (code c mod 16)]"
  using assms code_quote code_backslash by (auto simp: escape_char_def)

lemma unescape_escape [simp]: "unescape (escape_char c @ r) = Some (c, r)"
proof -
  consider "c = quote_char" | "c = backslash" | "code c \<in> {8, 9, 10, 12, 13}"
    | "code c < 32" "code c \<notin> {8, 9, 10, 12, 13}"
    | "c \<noteq> quote_char" "c \<noteq> backslash" "\<not> code c < 32"
    by blast
  thus ?thesis
  proof cases
    case 3
    thus ?thesis by (auto simp: escape_char_special intro: char_of_codeI)
  next
    case 4
    have "16 * (code c div 16) + code c mod 16 = code c" by simp
    hence "char_of (16 * (code c div 16) + code c mod 16) = c" by (metis char_of_code)
    moreover have "code c div 16 < 16" using 4 by simp
    ultimately show ?thesis by (simp add: escape_char_control[OF 4])
  qed (simp_all add: escape_char_def)
qed

lemma escape_char_not_quote: "escape_char c @ r \<noteq> quote_char # s"
  using unescape_escape[of c r] by (metis option.distinct(1) unescape.simps(2))

lemma escaped_prefix_free:
  assumes "concat (map escape_char s) @ quote_char # x = concat (map escape_char t) @ quote_char # y"
  shows "s = t \<and> x = y"
  using assms
proof (induction s arbitrary: t)
  case Nil
  thus ?case using escape_char_not_quote[symmetric] by (cases t) auto
next
  case (Cons c s)
  show ?case
  proof (cases t)
    case Nil
    thus ?thesis using Cons.prems escape_char_not_quote by auto
  next
    case (Cons d t')
    have "unescape (escape_char c @ concat (map escape_char s) @ quote_char # x)
        = unescape (escape_char d @ concat (map escape_char t') @ quote_char # y)"
      using Cons.prems Cons by simp
    hence "c = d" "concat (map escape_char s) @ quote_char # x = concat (map escape_char t') @ quote_char # y"
      by simp_all
    thus ?thesis using Cons Cons.IH by auto
  qed
qed

lemma json_quote_prefix_free:
  "json_quote s @ x = json_quote t @ y \<longleftrightarrow> s = t \<and> x = y"
  using escaped_prefix_free[of s x t y] by (auto simp: json_quote_def)

section \<open>UTF-8\<close>

definition utf8_char :: "char \<Rightarrow> nat list" where
  "utf8_char c = (if code c < 128 then [code c] else [192 + code c div 64, 128 + code c mod 64])"

definition utf8_encode :: "string \<Rightarrow> nat list" where
  "utf8_encode s = concat (map utf8_char s)"

text \<open>The decoder for the characters modelled here: TextDecoder raises in fatal mode on a byte
  sequence that is not UTF-8; sequences for characters above 255 are outside the model and give
  None too.\<close>

fun utf8_decode :: "nat list \<Rightarrow> string option" where
  "utf8_decode [] = Some []"
| "utf8_decode (b # bs) =
     (if b < 128 then map_option (Cons (char_of b)) (utf8_decode bs)
      else if b = 194 \<or> b = 195 then
        (case bs of
           d # bs' \<Rightarrow> if 128 \<le> d \<and> d < 192
             then map_option (Cons (char_of ((b - 192) * 64 + (d - 128)))) (utf8_decode bs') else None
         | [] \<Rightarrow> None)
      else None)"

lemma utf8_decode_char: "utf8_decode (utf8_char c @ r) = map_option (Cons c) (utf8_decode r)"
proof (cases "code c < 128")
  case True
  thus ?thesis by (simp add: utf8_char_def code_inj[symmetric] split: option.splits)
next
  case False
  have "code c div 64 = 2 \<or> code c div 64 = 3" using False code_less[of c] by auto
  moreover have "code c = code c div 64 * 64 + code c mod 64" by simp
  ultimately show ?thesis using False
    by (auto simp: utf8_char_def split: option.splits)
qed

lemma utf8_decode_encode [simp]: "utf8_decode (utf8_encode s) = Some s"
  by (induction s) (simp_all add: utf8_encode_def utf8_decode_char)

lemma utf8_encode_inj: "utf8_encode s = utf8_encode t \<longleftrightarrow> s = t"
  by (metis option.inject utf8_decode_encode)

lemma utf8_char_bytes: "b \<in> set (utf8_char c) \<Longrightarrow> b < 256"
  using code_less[of c] by (auto simp: utf8_char_def split: if_splits)

lemma utf8_encode_bytes: "b \<in> set (utf8_encode s) \<Longrightarrow> b < 256"
  by (auto simp: utf8_encode_def dest: utf8_char_bytes)

section \<open>Hexadecimal\<close>

definition byte_to_hex :: "nat \<Rightarrow> string" where
  "byte_to_hex b = [hex_digit (b div 16), hex_digit (b mod 16)]"

definition bytes_to_hex :: "nat list \<Rightarrow> string" where
  "bytes_to_hex bs = concat (map byte_to_hex bs)"

fun hex_to_bytes :: "string \<Rightarrow> nat list option" where
  "hex_to_bytes [] = Some []"
| "hex_to_bytes [c] = None"
| "hex_to_bytes (a # b # r) =
     (case (hex_value a, hex_value b) of
        (Some x, Some y) \<Rightarrow> map_option (Cons (16 * x + y)) (hex_to_bytes r)
      | _ \<Rightarrow> None)"

lemma hex_to_bytes_to_hex:
  assumes "\<And>b. b \<in> set bs \<Longrightarrow> b < 256"
  shows "hex_to_bytes (bytes_to_hex bs) = Some bs"
  using assms
proof (induction bs)
  case (Cons b bs)
  hence "b div 16 < 16" "16 * (b div 16) + b mod 16 = b" by (auto simp: less_mult_imp_div_less)
  thus ?case using Cons by (simp add: bytes_to_hex_def byte_to_hex_def)
qed (simp add: bytes_to_hex_def)

end
