(* ===== verification/Canonical_Content.thy ===== *)
theory Canonical_Content
  imports Json "HOL-Library.AList"
begin

text \<open>
  packages/verus/src/errors.ts and canonical-content.ts, with the types of types.ts they use: the
  payload guard in front of every blockchain write, the canonical text and digest of a payload, the
  identity update built from it, and the idempotency key of a write.  SHA-256 is the argument
  \<open>sha\<close> (of a byte list, in hexadecimal).
\<close>

section \<open>Errors\<close>

datatype VerusErrorCode =
    RPC_UNAVAILABLE | RPC_TIMEOUT | RPC_HTTP_ERROR | RPC_PROTOCOL_ERROR | RPC_METHOD_ERROR
  | RPC_INVALID_RESULT | AMBIGUOUS_SUBMISSION | WRONG_NETWORK | NODE_UNSYNCED
  | NODE_VERSION_UNSUPPORTED | IDENTITY_STATE_INVALID | VDXF_ID_MISMATCH | POLICY_GATE_DISABLED
  | PAYLOAD_FORBIDDEN | PAYLOAD_OVERSIZE | CONFIRMATION_PENDING | READBACK_MISMATCH | REORG_DETECTED

record VerusIntegrationError =
  ve_code :: VerusErrorCode
  ve_message :: string
  ve_retryable :: bool
  ve_submissionAmbiguous :: bool

text \<open>The constructor, with the default of its last parameter.\<close>

definition VerusError :: "VerusErrorCode \<Rightarrow> string \<Rightarrow> bool \<Rightarrow> VerusIntegrationError" where
  "VerusError c msg retry =
     \<lparr>ve_code = c, ve_message = msg, ve_retryable = retry, ve_submissionAmbiguous = False\<rparr>"

section \<open>Canonical text\<close>

fun sequence_result :: "('e + 'a) list \<Rightarrow> 'e + 'a list" where
  "sequence_result [] = Inr []"
| "sequence_result (m # ms) = bind_result m (\<lambda>a. bind_result (sequence_result ms) (\<lambda>as. Inr (a # as)))"

definition non_finite_error :: VerusIntegrationError where
  "non_finite_error = VerusError PAYLOAD_FORBIDDEN ''Anchor payload contains a non-finite number'' False"

lemma size_entry_less: "(k, v) \<in> set es \<Longrightarrow> size v < Suc (size_list (size_prod (\<lambda>x. 0) size) es)"
  by (induction es) auto

lemma size_item_less: "v \<in> set xs \<Longrightarrow> size v < Suc (size_list size xs)"
  by (induction xs) auto

function (sequential) canonicalizeJson ::
  "(rat \<Rightarrow> string) \<Rightarrow> json \<Rightarrow> VerusIntegrationError + string" where
  "canonicalizeJson num_str JNull = Inr ''null''"
| "canonicalizeJson num_str (JBool b) = Inr (if b then ''true'' else ''false'')"
| "canonicalizeJson num_str (JNum (Num r)) = Inr (num_str r)"
| "canonicalizeJson num_str (JNum _) = Inl non_finite_error"
| "canonicalizeJson num_str (JStr s) = Inr (json_quote s)"
| "canonicalizeJson num_str (JArr items) =
     bind_result (sequence_result (map (canonicalizeJson num_str) items))
       (\<lambda>texts. Inr (''['' @ join '','' texts @ '']''))"
| "canonicalizeJson num_str (JObj entries) =
     bind_result (sequence_result (map (\<lambda>(key, item).
          bind_result (canonicalizeJson num_str item) (\<lambda>t. Inr (json_quote key @ '':'' @ t)))
        (sort_key fst entries)))
       (\<lambda>texts. Inr (''{'' @ join '','' texts @ ''}''))"
  by pat_completeness auto

termination
  by (relation "measure (size \<circ> snd)")
     (auto dest: size_entry_less size_item_less)

text \<open>The same text in two steps: sort the entries of every object, then print.\<close>

function normal :: "json \<Rightarrow> json" where
  "normal JNull = JNull"
| "normal (JBool b) = JBool b"
| "normal (JNum n) = JNum n"
| "normal (JStr s) = JStr s"
| "normal (JArr xs) = JArr (map normal xs)"
| "normal (JObj es) = JObj (sort_key fst (map (\<lambda>(k, v). (k, normal v)) es))"
  by pat_completeness auto

termination
  by (relation "measure size") (auto dest: size_entry_less size_item_less)

function (sequential) finite_json :: "json \<Rightarrow> bool" where
  "finite_json (JNum (Num r)) \<longleftrightarrow> True"
| "finite_json (JNum _) \<longleftrightarrow> False"
| "finite_json (JArr xs) \<longleftrightarrow> (\<forall>x \<in> set xs. finite_json x)"
| "finite_json (JObj es) \<longleftrightarrow> (\<forall>e \<in> set es. finite_json (snd e))"
| "finite_json v \<longleftrightarrow> True"
  by pat_completeness auto

termination
  by (relation "measure size") (auto dest: size_entry_less size_item_less)

function (sequential) print_json :: "(rat \<Rightarrow> string) \<Rightarrow> json \<Rightarrow> string" where
  "print_json ns JNull = ''null''"
| "print_json ns (JBool b) = (if b then ''true'' else ''false'')"
| "print_json ns (JNum (Num r)) = ns r"
| "print_json ns (JNum _) = []"
| "print_json ns (JStr s) = json_quote s"
| "print_json ns (JArr xs) = ''['' @ join '','' (map (print_json ns) xs) @ '']''"
| "print_json ns (JObj es) =
     ''{'' @ join '','' (map (\<lambda>(k, v). json_quote k @ '':'' @ print_json ns v) es) @ ''}''"
  by pat_completeness auto

termination
  by (relation "measure (size \<circ> snd)") (auto dest: size_entry_less size_item_less)

lemma insort_key_map_fst:
  "insort_key fst (k, f v) (map (\<lambda>(k, v). (k, f v)) es) =
     map (\<lambda>(k, v). (k, f v)) (insort_key fst (k, v) es)"
  by (induction es) auto

lemma sort_key_map_fst:
  "sort_key fst (map (\<lambda>(k, v). (k, f v)) es) = map (\<lambda>(k, v). (k, f v)) (sort_key fst es)"
  by (induction es) (auto simp: insort_key_map_fst)

lemma sequence_result_all:
  assumes "\<And>x. x \<in> set xs \<Longrightarrow> f x = (if P x then Inr (g x) else Inl e)"
  shows "sequence_result (map f xs) = (if \<forall>x \<in> set xs. P x then Inr (map g xs) else Inl e)"
  using assms by (induction xs) auto

lemma canonicalizeJson_print:
  "canonicalizeJson ns v =
     (if finite_json v then Inr (print_json ns (normal v)) else Inl non_finite_error)"
proof (induction ns v rule: canonicalizeJson.induct)
  case (6 ns items)
  have "sequence_result (map (canonicalizeJson ns) items) =
     (if \<forall>x \<in> set items. finite_json x then Inr (map (\<lambda>x. print_json ns (normal x)) items)
      else Inl non_finite_error)"
    by (rule sequence_result_all) (rule 6)
  thus ?case by (simp add: comp_def)
next
  case (7 ns entries)
  have "sequence_result (map (\<lambda>(key, item).
          bind_result (canonicalizeJson ns item) (\<lambda>t. Inr (json_quote key @ '':'' @ t)))
        (sort_key fst entries)) =
     (if \<forall>e \<in> set (sort_key fst entries). finite_json (snd e)
      then Inr (map (\<lambda>e. json_quote (fst e) @ '':'' @ print_json ns (normal (snd e))) (sort_key fst entries))
      else Inl non_finite_error)"
  proof (rule sequence_result_all)
    fix e assume e: "e \<in> set (sort_key fst entries)"
    obtain key item where ki: "e = (key, item)" by (rule prod.exhaust)
    hence "canonicalizeJson ns item =
        (if finite_json item then Inr (print_json ns (normal item)) else Inl non_finite_error)"
      using 7 e by blast
    thus "(case e of (key, item) \<Rightarrow>
          bind_result (canonicalizeJson ns item) (\<lambda>t. Inr (json_quote key @ '':'' @ t))) =
        (if finite_json (snd e) then Inr (json_quote (fst e) @ '':'' @ print_json ns (normal (snd e)))
         else Inl non_finite_error)"
      by (simp add: ki)
  qed
  moreover have "(\<lambda>(k, v). json_quote k @ CHR '':'' # print_json ns v) \<circ> (\<lambda>(k, v). (k, normal v)) =
      (\<lambda>e. json_quote (fst e) @ CHR '':'' # print_json ns (normal (snd e)))"
    by (auto simp: fun_eq_iff)
  ultimately show ?case by (simp add: sort_key_map_fst)
qed auto

text \<open>What the language promises of the printing of a finite number: different numbers print
  differently, and the text is not empty and has only digits, signs, a point and an exponent mark.\<close>

definition number_char :: "char \<Rightarrow> bool" where
  "number_char c \<longleftrightarrow> is_digit c \<or> c \<in> set ''+-.e''"

definition prints_numbers :: "(rat \<Rightarrow> string) \<Rightarrow> bool" where
  "prints_numbers ns \<longleftrightarrow> inj ns \<and> (\<forall>r. ns r \<noteq> [] \<and> list_all number_char (ns r))"

definition delimited :: "string \<Rightarrow> bool" where
  "delimited x \<longleftrightarrow> x = [] \<or> \<not> number_char (hd x)"

lemma number_chars [simp]:
  "\<not> number_char quote_char" "\<not> number_char (CHR '','')" "\<not> number_char (CHR '']'')"
  "\<not> number_char (CHR ''}'')" "\<not> number_char (CHR ''['')" "\<not> number_char (CHR ''{'')"
  "\<not> number_char (CHR ''n'')" "\<not> number_char (CHR ''t'')" "\<not> number_char (CHR ''f'')"
  by (simp_all add: number_char_def is_digit_def code_def)

lemma delimited_simps [simp]:
  "delimited []" "delimited (CHR '','' # x)" "delimited (CHR '']'' # x)" "delimited (CHR ''}'' # x)"
  by (simp_all add: delimited_def)

lemma takeWhile_delimited:
  "list_all number_char s \<Longrightarrow> delimited x \<Longrightarrow> takeWhile number_char (s @ x) = s"
  by (induction s) (cases x; auto simp: delimited_def)+

lemma number_prefix_free:
  assumes "prints_numbers ns" "ns r @ x = ns q @ y" "delimited x" "delimited y"
  shows "r = q \<and> x = y"
proof -
  have "ns r = ns q"
    using assms takeWhile_delimited[of "ns r" x] takeWhile_delimited[of "ns q" y]
    by (simp add: prints_numbers_def)
  thus ?thesis using assms by (auto simp: prints_numbers_def dest: injD)
qed

lemma join_snoc_cases:
  "join '','' (map p as) @ c # x =
     (case as of [] \<Rightarrow> c # x
      | a # as' \<Rightarrow> p a @ (case as' of [] \<Rightarrow> c # x | _ \<Rightarrow> CHR '','' # join '','' (map p as') @ c # x))"
  by (cases as; cases "tl as") auto

lemma item_not_close:
  assumes "p a \<noteq> [] \<and> hd (p a) \<noteq> c"
  shows "p a @ u \<noteq> c # x"
  using assms by (metis hd_append2 list.sel(1))

lemma items_prefix_free:
  assumes step: "\<And>a b u w. a \<in> set as \<Longrightarrow> b \<in> set bs \<Longrightarrow> delimited u \<Longrightarrow> delimited w
      \<Longrightarrow> p a @ u = p b @ w \<Longrightarrow> a = b \<and> u = w"
    and nonempty: "\<And>a. a \<in> set as \<union> set bs \<Longrightarrow> p a \<noteq> [] \<and> hd (p a) \<noteq> c"
    and c: "c \<noteq> CHR '',''" "\<not> number_char c"
    and eq: "join '','' (map p as) @ c # x = join '','' (map p bs) @ c # y"
  shows "as = bs \<and> x = y"
  using step nonempty eq
proof (induction as arbitrary: bs)
  case Nil
  show ?case
  proof (cases bs)
    case (Cons b bs')
    have "p b @ u \<noteq> c # x" for u
      by (rule item_not_close) (use Nil.prems(2)[of b] Cons in auto)
    moreover have "\<exists>u. join '','' (map p bs) @ c # y = p b @ u"
      by (subst join_snoc_cases) (auto simp: Cons)
    ultimately show ?thesis using Nil.prems(3) by (metis append_Nil join.simps(1) list.simps(8))
  qed (use Nil in simp)
next
  case (Cons a as)
  have "p a \<noteq> [] \<and> hd (p a) \<noteq> c" using Cons.prems(2) by auto
  hence "p a @ u \<noteq> c # y" for u by (rule item_not_close)
  moreover have "\<exists>u0. join '','' (map p (a # as)) @ c # x = p a @ u0"
    by (subst join_snoc_cases) auto
  ultimately have "bs \<noteq> []" using Cons.prems(3) by (metis append_Nil join.simps(1) list.simps(8))
  then obtain b bs' where bs: "bs = b # bs'" by (cases bs) auto
  define u where "u = (case as of [] \<Rightarrow> c # x | _ \<Rightarrow> CHR '','' # join '','' (map p as) @ c # x)"
  define w where "w = (case bs' of [] \<Rightarrow> c # y | _ \<Rightarrow> CHR '','' # join '','' (map p bs') @ c # y)"
  have "p a @ u = p b @ w"
    using Cons.prems(3) join_snoc_cases[of p "a # as" c x] join_snoc_cases[of p bs c y]
    unfolding bs u_def w_def by (simp only: list.case)
  moreover have "delimited u" "delimited w"
    using c by (auto simp: u_def w_def delimited_def split: list.splits)
  ultimately have ab: "a = b" and uw: "u = w" using Cons.prems(1)[of a b u w] bs by auto
  show ?case
  proof (cases as)
    case Nil
    thus ?thesis using uw ab bs c(1) by (cases bs') (auto simp: u_def w_def)
  next
    case (Cons a' as')
    hence "bs' \<noteq> []" using uw c(1) by (auto simp: u_def w_def split: list.splits)
    hence "join '','' (map p as) @ c # x = join '','' (map p bs') @ c # y"
      using uw Cons by (auto simp: u_def w_def split: list.splits)
    hence "as = bs' \<and> x = y" using Cons.IH[of bs'] Cons.prems bs by auto
    thus ?thesis using ab bs by simp
  qed
qed

text \<open>The first character of the text tells what kind of value follows.\<close>

fun json_kind :: "json \<Rightarrow> nat" where
  "json_kind JNull = 0"
| "json_kind (JBool b) = (if b then 1 else 2)"
| "json_kind (JNum n) = 3"
| "json_kind (JStr s) = 4"
| "json_kind (JArr xs) = 5"
| "json_kind (JObj es) = 6"

definition char_kind :: "char \<Rightarrow> nat" where
  "char_kind c =
     (if c = CHR ''n'' then 0 else if c = CHR ''t'' then 1 else if c = CHR ''f'' then 2
      else if number_char c then 3 else if c = quote_char then 4 else if c = CHR ''['' then 5
      else if c = CHR ''{'' then 6 else 7)"

lemma print_json_first:
  assumes "prints_numbers ns" "finite_json v"
  shows "print_json ns v \<noteq> [] \<and> char_kind (hd (print_json ns v)) = json_kind v"
proof (cases v)
  case (JNum n)
  then obtain r where r: "n = Num r" using assms(2) by (cases n) auto
  have "ns r \<noteq> []" "list_all number_char (ns r)" using assms(1) by (auto simp: prints_numbers_def)
  hence "ns r \<noteq> [] \<and> number_char (hd (ns r))" by (cases "ns r") auto
  thus ?thesis using JNum r number_chars(7,8,9) by (auto simp: char_kind_def)
qed (auto simp: json_quote_def char_kind_def)

lemma print_json_not_close:
  assumes "prints_numbers ns" "finite_json v"
  shows "print_json ns v \<noteq> [] \<and> hd (print_json ns v) \<noteq> CHR '']''"
proof -
  have "char_kind (CHR '']'') = 7" by (simp add: char_kind_def)
  moreover have "json_kind v \<noteq> 7" by (cases v) auto
  ultimately show ?thesis using print_json_first[OF assms] by metis
qed

lemma same_kind:
  assumes "prints_numbers ns" "finite_json v" "finite_json w"
    "print_json ns v @ x = print_json ns w @ y"
  shows "json_kind v = json_kind w"
  using print_json_first[OF assms(1,2)] print_json_first[OF assms(1,3)] assms(4)
  by (metis hd_append2)

text \<open>The printed form determines the value, whatever delimiter follows.\<close>

lemma print_json_prefix_free:
  assumes ns: "prints_numbers ns"
  shows "finite_json v \<Longrightarrow> finite_json w \<Longrightarrow> delimited x \<Longrightarrow> delimited y
     \<Longrightarrow> print_json ns v @ x = print_json ns w @ y \<Longrightarrow> v = w \<and> x = y"
proof (induction v arbitrary: w x y)
  case JNull
  thus ?case using same_kind[OF ns JNull.prems(1,2,5)] by (cases w) (auto split: if_splits)
next
  case (JBool b)
  thus ?case using same_kind[OF ns JBool.prems(1,2,5)] by (cases w) (auto split: if_splits)
next
  case (JNum n)
  obtain m where w: "w = JNum m"
    using same_kind[OF ns JNum.prems(1,2,5)] by (cases w) (auto split: if_splits)
  obtain r q where "n = Num r" "m = Num q" using JNum.prems(1,2) w by (cases n; cases m) auto
  thus ?case using JNum.prems w number_prefix_free[OF ns, of r x q y] by simp
next
  case (JStr s)
  thus ?case using same_kind[OF ns JStr.prems(1,2,5)]
    by (cases w) (auto simp: json_quote_prefix_free split: if_splits)
next
  case (JArr xs)
  obtain ys where w: "w = JArr ys"
    using same_kind[OF ns JArr.prems(1,2,5)] by (cases w) (auto split: if_splits)
  have "xs = ys \<and> x = y"
  proof (rule items_prefix_free[of xs ys "print_json ns" "CHR '']''"])
    show "join '','' (map (print_json ns) xs) @ CHR '']'' # x = join '','' (map (print_json ns) ys) @ CHR '']'' # y"
      using JArr.prems(5) w by simp
  qed (use JArr w ns print_json_not_close in auto)
  thus ?case using w by simp
next
  case (JObj es)
  obtain fs where w: "w = JObj fs"
    using same_kind[OF ns JObj.prems(1,2,5)] by (cases w) (auto split: if_splits)
  have "es = fs \<and> x = y"
  proof (rule items_prefix_free[of es fs "\<lambda>(k, v). json_quote k @ '':'' @ print_json ns v" "CHR ''}''"])
    show "join '','' (map (\<lambda>(k, v). json_quote k @ '':'' @ print_json ns v) es) @ CHR ''}'' # x =
        join '','' (map (\<lambda>(k, v). json_quote k @ '':'' @ print_json ns v) fs) @ CHR ''}'' # y"
      using JObj.prems(5) w by simp
    fix a b u z
    assume ab: "a \<in> set es" "b \<in> set fs" "delimited u" "delimited z"
      "(\<lambda>(k, v). json_quote k @ '':'' @ print_json ns v) a @ u = (\<lambda>(k, v). json_quote k @ '':'' @ print_json ns v) b @ z"
    hence k: "fst a = fst b" and v: "print_json ns (snd a) @ u = print_json ns (snd b) @ z"
      by (auto simp: json_quote_prefix_free split: prod.splits)
    have "finite_json (snd a)" "finite_json (snd b)" using ab JObj.prems(1,2) w by auto
    moreover have "snd a \<in> Basic_BNFs.snds a" by (simp add: snds.simps prod_set_simps)
    ultimately have "snd a = snd b \<and> u = z" using JObj.IH[of a "snd a"] ab v by blast
    thus "a = b \<and> u = z" using k by (simp add: prod_eq_iff)
  qed (auto simp: json_quote_def)
  thus ?case using w by simp
qed

lemma finite_normal [simp]: "finite_json (normal v) = finite_json v"
  by (induction v rule: normal.induct) (auto split: prod.splits)

lemma sort_key_fst_unique:
  assumes "mset es = mset fs" "distinct (map fst es)"
  shows "sort_key fst es = sort_key fst fs"
proof (rule map_sorted_distinct_set_unique)
  have "mset (map fst es) = mset (map fst fs)" using assms(1) by simp
  hence "distinct (map fst fs)" using assms(2) by (metis mset_eq_imp_distinct_iff)
  moreover have "distinct (map fst (sort_key fst l))" if "distinct (map fst l)" for l :: "('a \<times> 'b) list"
  proof -
    have "mset (map fst (sort_key fst l)) = mset (map fst l)" by simp
    thus ?thesis using that by (metis mset_eq_imp_distinct_iff)
  qed
  ultimately show "distinct (map fst (sort_key fst es))" "distinct (map fst (sort_key fst fs))"
    using assms(2) by auto
  have set_eq: "set es = set fs" using assms(1) by (metis set_mset_mset)
  thus "set (sort_key fst es) = set (sort_key fst fs)" by simp
  show "inj_on fst (set (sort_key fst es) \<union> set (sort_key fst fs))"
    using set_eq assms(2) by (simp add: distinct_map)
qed simp_all

section \<open>Forbidden fields\<close>

definition ALWAYS_FORBIDDEN_FIELDS :: "string list" where
  "ALWAYS_FORBIDDEN_FIELDS = [
     ''appealdetail'', ''appealfacts'', ''committeeevidence'', ''committeenotes'', ''dateofbirth'',
     ''documentimage'', ''documentnumber'', ''evidencehash'', ''exactaddress'', ''faceimage'',
     ''identitydocument'', ''privatekey'', ''privatesessionlocation'', ''rpcpassword'',
     ''seedphrase'', ''sessiontoken'', ''utilitybill'', ''walletbackup'', ''walletseed'', ''wif'',
     ''zseed'']"

text \<open>String.prototype.toLowerCase on the characters modelled, and the removal of everything but
  ASCII letters and digits.\<close>

definition lower_char :: "char \<Rightarrow> char" where
  "lower_char c =
     (if is_upper c \<or> (192 \<le> code c \<and> code c \<le> 222 \<and> code c \<noteq> 215) then char_of (code c + 32) else c)"

definition normalize_field :: "string \<Rightarrow> string" where
  "normalize_field key = filter (\<lambda>c. is_lower c \<or> is_digit c) (map lower_char key)"

definition forbidden_key :: "string \<Rightarrow> bool" where
  "forbidden_key key \<longleftrightarrow>
     (let normalized = normalize_field key in
        normalized \<in> set ALWAYS_FORBIDDEN_FIELDS
        \<or> normalized = ''proto'' \<or> normalized = ''constructor'' \<or> normalized = ''prototype'')"

definition nesting_error :: VerusIntegrationError where
  "nesting_error = VerusError PAYLOAD_FORBIDDEN ''Anchor payload nesting exceeds the server limit'' False"

definition forbidden_field_error :: VerusIntegrationError where
  "forbidden_field_error = VerusError PAYLOAD_FORBIDDEN
     ''Anchor payload contains a prohibited private or security-sensitive field'' False"

text \<open>A loop that stops at the first error.\<close>

fun each :: "('a \<Rightarrow> 'e + unit) \<Rightarrow> 'a list \<Rightarrow> 'e + unit" where
  "each f [] = Inr ()"
| "each f (x # xs) = bind_result (f x) (\<lambda>_. each f xs)"

lemma each_cong [fundef_cong]:
  assumes "xs = ys" "\<And>x. x \<in> set ys \<Longrightarrow> f x = g x"
  shows "each f xs = each g ys"
  using assms by (induction ys arbitrary: xs) auto

lemma each_eq_Inr [simp]: "each f xs = Inr u \<longleftrightarrow> (\<forall>x \<in> set xs. f x = Inr ())"
  by (induction xs) auto

function (sequential) rejectForbiddenFields :: "json \<Rightarrow> nat \<Rightarrow> VerusIntegrationError + unit" where
  "rejectForbiddenFields (JArr items) depth =
     (if depth > 32 then Inl nesting_error
      else each (\<lambda>item. rejectForbiddenFields item (depth + 1)) items)"
| "rejectForbiddenFields (JObj entries) depth =
     (if depth > 32 then Inl nesting_error
      else each (\<lambda>(key, item).
             if forbidden_key key then Inl forbidden_field_error
             else rejectForbiddenFields item (depth + 1)) entries)"
| "rejectForbiddenFields v depth = (if depth > 32 then Inl nesting_error else Inr ())"
  by pat_completeness auto

termination
  by (relation "measure (size \<circ> fst)") (auto dest: size_entry_less size_item_less)

text \<open>All keys of a value at any depth, and its nesting depth.\<close>

function (sequential) json_keys :: "json \<Rightarrow> string set" where
  "json_keys (JArr xs) = (\<Union>x \<in> set xs. json_keys x)"
| "json_keys (JObj es) = fst ` set es \<union> (\<Union>e \<in> set es. json_keys (snd e))"
| "json_keys v = {}"
  by pat_completeness auto

termination
  by (relation "measure size") (auto dest: size_entry_less size_item_less)

function (sequential) json_depth :: "json \<Rightarrow> nat" where
  "json_depth (JArr xs) = Max (insert 0 ((\<lambda>x. Suc (json_depth x)) ` set xs))"
| "json_depth (JObj es) = Max (insert 0 ((\<lambda>e. Suc (json_depth (snd e))) ` set es))"
| "json_depth v = 0"
  by pat_completeness auto

termination
  by (relation "measure size") (auto dest: size_entry_less size_item_less)

lemma add_Max_le:
  fixes f :: "'a \<Rightarrow> nat"
  assumes "finite S" "d \<le> b"
  shows "d + Max (insert 0 (f ` S)) \<le> b \<longleftrightarrow> (\<forall>x \<in> S. d + f x \<le> b)"
proof -
  have "d + Max (insert 0 (f ` S)) \<le> b \<longleftrightarrow> Max (insert 0 (f ` S)) \<le> b - d"
    using assms(2) by linarith
  also have "\<dots> \<longleftrightarrow> (\<forall>x \<in> S. f x \<le> b - d)" using assms(1) by (simp add: Max_le_iff)
  also have "\<dots> \<longleftrightarrow> (\<forall>x \<in> S. d + f x \<le> b)" using assms(2) by (intro ball_cong refl) linarith
  finally show ?thesis .
qed

lemma rejectForbiddenFields_iff:
  "rejectForbiddenFields v d = Inr () \<longleftrightarrow>
     d + json_depth v \<le> 32 \<and> (\<forall>k \<in> json_keys v. \<not> forbidden_key k)"
proof (induction v d rule: rejectForbiddenFields.induct)
  case (1 items depth)
  thus ?case by (cases "depth > 32") (auto simp: add_Max_le)
next
  case (2 entries depth)
  show ?case
  proof (cases "depth > 32")
    case False
    have "(\<forall>e \<in> set entries. (case e of (key, item) \<Rightarrow>
             if forbidden_key key then Inl forbidden_field_error
             else rejectForbiddenFields item (depth + 1)) = Inr ()) \<longleftrightarrow>
        (\<forall>e \<in> set entries. \<not> forbidden_key (fst e) \<and> depth + 1 + json_depth (snd e) \<le> 32
           \<and> (\<forall>k \<in> json_keys (snd e). \<not> forbidden_key k))"
      using 2[OF False] by (intro ball_cong refl) (auto split: prod.splits)
    moreover have "depth + json_depth (JObj entries) \<le> 32 \<longleftrightarrow>
        (\<forall>e \<in> set entries. depth + 1 + json_depth (snd e) \<le> 32)"
      using False by (simp add: add_Max_le)
    ultimately show ?thesis using False by auto
  qed auto
qed auto

section \<open>Payloads and identity updates\<close>

definition isSafeInteger :: "js_number \<Rightarrow> bool" where
  "isSafeInteger n \<longleftrightarrow> isInteger n \<and> js_less (num (- (2 ^ 53))) n \<and> js_less n (num (2 ^ 53))"

lemma isSafeInteger_iff: "isSafeInteger n \<longleftrightarrow> (\<exists>i. n = num i \<and> - (2 ^ 53) < i \<and> i < 2 ^ 53)"
  unfolding isSafeInteger_def isInteger_iff using js_less_num by blast

record CanonicalPayloadPolicy =
  cp_policyReference :: string
  cp_allowedTopLevelFields :: "string list"
  cp_requiredTopLevelFields :: "string list"
  cp_maximumBytes :: js_number

record CanonicalPayload =
  pl_value :: "(string \<times> json) list"
  pl_bytes :: "nat list"
  pl_digest :: string
  pl_policyReference :: string

definition prepareCanonicalPayload ::
  "(rat \<Rightarrow> string) \<Rightarrow> (nat list \<Rightarrow> string) \<Rightarrow> (string \<times> json) list \<Rightarrow> CanonicalPayloadPolicy
     \<Rightarrow> VerusIntegrationError + CanonicalPayload" where
  "prepareCanonicalPayload num_str sha val policy =
     (if \<not> isSafeInteger (cp_maximumBytes policy) \<or> js_less (cp_maximumBytes policy) (num 1)
      then Inl (VerusError PAYLOAD_OVERSIZE ''Server payload byte limit is invalid'' False)
      else if list_ex (\<lambda>key. key \<notin> set (cp_allowedTopLevelFields policy)) (map fst val)
           \<or> list_ex (\<lambda>key. key \<notin> set (map fst val)) (cp_requiredTopLevelFields policy)
      then Inl (VerusError PAYLOAD_FORBIDDEN
             ''Anchor payload contains a field not present in the server-selected allowlist'' False)
      else bind_result (rejectForbiddenFields (JObj val) 0) (\<lambda>_.
           bind_result (canonicalizeJson num_str (JObj val)) (\<lambda>canonical.
             let bytes = utf8_encode canonical in
             if js_less (cp_maximumBytes policy) (num (int (length bytes)))
             then Inl (VerusError PAYLOAD_OVERSIZE
                    ''Anchor payload exceeds the server-selected byte limit'' False)
             else Inr \<lparr>pl_value = val, pl_bytes = bytes, pl_digest = sha bytes,
                       pl_policyReference = cp_policyReference policy\<rparr>)))"

definition base58_char :: "char \<Rightarrow> bool" where
  "base58_char c \<longleftrightarrow>
     (49 \<le> code c \<and> code c \<le> 57) \<or> (65 \<le> code c \<and> code c \<le> 72) \<or> (74 \<le> code c \<and> code c \<le> 78)
     \<or> (80 \<le> code c \<and> code c \<le> 90) \<or> (97 \<le> code c \<and> code c \<le> 107) \<or> (109 \<le> code c \<and> code c \<le> 122)"

text \<open>The pattern \<^verbatim>\<open>^i[1-9A-HJ-NP-Za-km-z]{20,63}$\<close>.\<close>

definition is_i_address :: "string \<Rightarrow> bool" where
  "is_i_address s \<longleftrightarrow> matches_head (\<lambda>c. c = CHR ''i'') base58_char 20 63 s"

record VerusIdentityDefinition =
  vi_version :: int
  vi_flags :: int
  vi_primaryAddresses :: "string list"
  vi_minimumSignatures :: int
  vi_name :: string
  vi_identityAddress :: string
  vi_parent :: string
  vi_systemId :: string
  vi_contentMap :: "(string \<times> json) list"
  vi_contentMultiMap :: "(string \<times> json list) list"
  vi_revocationAuthority :: string
  vi_recoveryAuthority :: string
  vi_timelock :: int

record PreparedIdentityUpdate =
  pu_identity :: VerusIdentityDefinition
  pu_vdxfKey :: string
  pu_manifestDigest :: string

definition prepareIdentityContentUpdate ::
  "VerusIdentityDefinition \<Rightarrow> string \<Rightarrow> CanonicalPayload \<Rightarrow> VerusIntegrationError + PreparedIdentityUpdate" where
  "prepareIdentityContentUpdate identity vdxfKey payload =
     (if \<not> is_i_address vdxfKey
      then Inl (VerusError VDXF_ID_MISMATCH
             ''VDXF key is not an approved i-address-shaped identifier'' False)
      else Inr \<lparr>pu_identity = identity\<lparr>vi_contentMultiMap :=
                   AList.update vdxfKey [JStr (bytes_to_hex (pl_bytes payload))] (vi_contentMultiMap identity)\<rparr>,
                pu_vdxfKey = vdxfKey, pu_manifestDigest = pl_digest payload\<rparr>)"

definition deterministicVerusIdempotencyKey ::
  "(nat list \<Rightarrow> string) \<Rightarrow> string \<Rightarrow> string \<Rightarrow> string \<Rightarrow> string \<Rightarrow> string" where
  "deterministicVerusIdempotencyKey sha operationType subjectReference vdxfKey manifestDigest =
     ''verus:v1:'' @ sha (utf8_encode (join [CHR 0x1F]
        [''VRSCTEST'', operationType, subjectReference, vdxfKey, manifestDigest]))"

section \<open>What the payload guard promises\<close>


text \<open>A printing of numbers with the promised properties: a decimal integer as it is, a fraction
  with its numerator and denominator around an exponent mark.\<close>

definition sample_num_str :: "rat \<Rightarrow> string" where
  "sample_num_str r = (let (p, q) = quotient_of r in
     int_to_string p @ (if q = 1 then [] else ''e'' @ int_to_string q))"

lemma sample_prints_numbers: "prints_numbers sample_num_str"
  unfolding prints_numbers_def
proof (intro conjI allI)
  fix r
  obtain p q where pq: "quotient_of r = (p, q)" by (rule prod.exhaust)
  have "list_all number_char (int_to_string i)" for i
    using int_to_string_chars[of i] by (auto simp: number_char_def list_all_iff)
  moreover have "number_char (CHR ''e'')" by (simp add: number_char_def)
  ultimately show "list_all number_char (sample_num_str r)" by (simp add: sample_num_str_def pq)
  show "sample_num_str r \<noteq> []" using int_to_string_chars[of p] by (simp add: sample_num_str_def pq)
next
  show "inj sample_num_str"
  proof (rule injI)
    fix r r' assume eq: "sample_num_str r = sample_num_str r'"
    obtain p q where pq: "quotient_of r = (p, q)" by (rule prod.exhaust)
    obtain p' q' where pq': "quotient_of r' = (p', q')" by (rule prod.exhaust)
    have no_e: "takeWhile (\<lambda>c. c \<noteq> CHR ''e'') (int_to_string i @ x) = int_to_string i"
      if "x = [] \<or> hd x = CHR ''e''" for i x
    proof -
      have "\<forall>c \<in> set (int_to_string i). c \<noteq> CHR ''e''"
        using int_to_string_chars[of i] by (auto simp: list_all_iff is_digit_def code_def)
      thus ?thesis using that by (cases x) (simp_all add: takeWhile_append)
    qed
    define x where "x = (if q = 1 then [] else ''e'' @ int_to_string q)"
    define x' where "x' = (if q' = 1 then [] else ''e'' @ int_to_string q')"
    have eq': "int_to_string p @ x = int_to_string p' @ x'"
      using eq by (simp add: sample_num_str_def pq pq' x_def x'_def)
    hence "int_to_string p = int_to_string p'"
      using no_e[of x p] no_e[of x' p'] by (simp add: x_def x'_def split: if_splits)
    moreover from this have "x = x'" using eq' by simp
    hence "q = q'" by (simp add: x_def x'_def int_to_string_inj split: if_splits)
    ultimately show "r = r'" using pq pq' int_to_string_inj by (metis quotient_of_inject)
  qed
qed


lemma prepareCanonicalPayload_Inr:
  assumes "prepareCanonicalPayload ns sha val policy = Inr payload"
  obtains canonical where "canonicalizeJson ns (JObj val) = Inr canonical"
    "pl_bytes payload = utf8_encode canonical" "pl_digest payload = sha (utf8_encode canonical)"
    "pl_value payload = val" "pl_policyReference payload = cp_policyReference policy"
    "rejectForbiddenFields (JObj val) 0 = Inr ()"
    "set (map fst val) \<subseteq> set (cp_allowedTopLevelFields policy)"
    "set (cp_requiredTopLevelFields policy) \<subseteq> set (map fst val)"
    "\<not> js_less (cp_maximumBytes policy) (num (int (length (utf8_encode canonical))))"
    "isSafeInteger (cp_maximumBytes policy)"
  using assms
  by (auto simp: prepareCanonicalPayload_def Let_def list_ex_iff image_subset_iff subset_code(1) split: if_splits
      simp del: canonicalizeJson.simps rejectForbiddenFields.simps)

text \<open>
  C15. The payload guard.  A payload that is accepted has only fields of the allowlist and all the
  required ones; at no depth does it have a field whose name, lower-cased and stripped of everything
  but letters and digits, is one of the prohibited names; it is nested at most 32 levels deep; its
  canonical text fits the byte limit; and the digest returned is the digest of that text.
\<close>

theorem accepted_payload_is_clean:
  assumes "prepareCanonicalPayload ns sha val policy = Inr payload"
  shows "set (map fst val) \<subseteq> set (cp_allowedTopLevelFields policy)
     \<and> set (cp_requiredTopLevelFields policy) \<subseteq> set (map fst val)
     \<and> (\<forall>k \<in> json_keys (JObj val). normalize_field k \<notin> set ALWAYS_FORBIDDEN_FIELDS
           \<and> normalize_field k \<notin> {''proto'', ''constructor'', ''prototype''})
     \<and> json_depth (JObj val) \<le> 32
     \<and> (\<exists>m. cp_maximumBytes policy = num m \<and> int (length (pl_bytes payload)) \<le> m)
     \<and> (\<exists>text. canonicalizeJson ns (JObj val) = Inr text
           \<and> utf8_decode (pl_bytes payload) = Some text \<and> pl_digest payload = sha (utf8_encode text))"
proof -
  obtain canonical where c: "canonicalizeJson ns (JObj val) = Inr canonical"
    "pl_bytes payload = utf8_encode canonical" "pl_digest payload = sha (utf8_encode canonical)"
    "rejectForbiddenFields (JObj val) 0 = Inr ()"
    "set (map fst val) \<subseteq> set (cp_allowedTopLevelFields policy)"
    "set (cp_requiredTopLevelFields policy) \<subseteq> set (map fst val)"
    "\<not> js_less (cp_maximumBytes policy) (num (int (length (utf8_encode canonical))))"
    "isSafeInteger (cp_maximumBytes policy)"
    by (rule prepareCanonicalPayload_Inr[OF assms]) auto
  have guard: "json_depth (JObj val) \<le> 32" "\<forall>k \<in> json_keys (JObj val). \<not> forbidden_key k"
    using c(4) rejectForbiddenFields_iff[of "JObj val" 0] by auto
  obtain m where "cp_maximumBytes policy = num m" using c(8) by (auto simp: isSafeInteger_iff)
  hence m: "\<exists>m. cp_maximumBytes policy = num m \<and> int (length (pl_bytes payload)) \<le> m"
    using c(2,7) by auto
  have t: "\<exists>text. canonicalizeJson ns (JObj val) = Inr text
           \<and> utf8_decode (pl_bytes payload) = Some text \<and> pl_digest payload = sha (utf8_encode text)"
    using c(1,2,3) by simp
  show ?thesis using c(5,6) guard m t by (simp only: forbidden_key_def Let_def) blast
qed

definition sample_policy :: CanonicalPayloadPolicy where
  "sample_policy = \<lparr>cp_policyReference = ''cbc.anchor.manifest.v1'',
     cp_allowedTopLevelFields = [''schema'', ''artifact''], cp_requiredTopLevelFields = [''schema''],
     cp_maximumBytes = num 2048\<rparr>"

definition sample_manifest :: "(string \<times> json) list" where
  "sample_manifest = [(''schema'', JStr ''v1''), (''artifact'', JObj [(''size'', JNum (num 3))])]"

theorem accepted_payload_is_clean_witness:
  "\<exists>payload. prepareCanonicalPayload (\<lambda>r. ''3'') (\<lambda>b. ''d'') sample_manifest sample_policy = Inr payload
     \<and> json_depth (JObj sample_manifest) \<le> 32"
proof -
  have "\<not> isl (prepareCanonicalPayload (\<lambda>r. ''3'') (\<lambda>b. ''d'') sample_manifest sample_policy)"
    by code_simp
  then obtain payload where
    p: "prepareCanonicalPayload (\<lambda>r. ''3'') (\<lambda>b. ''d'') sample_manifest sample_policy = Inr payload"
    by (rule result_cases)
  from accepted_payload_is_clean[OF p] p show ?thesis by blast
qed

end
