(* ===== verification/Repository.thy ===== *)
theory Repository
  imports Transaction Lifecycles Support_Lifecycles Attestation Canonical_Content
begin

text \<open>
  The database and what every repository of packages/db/src shares: the command context and the
  errors of repository-types.ts, the audit trail of audit.ts with the trigger that chains it, and the
  outbox rows.  A table is the list of its rows in insertion order; a row is a record of its columns,
  without the timestamps that nothing reads.  Of policy_version only the identifiers are kept, which
  foreign keys refer to.

  From outside the program come, in the record \<open>services\<close>: SHA-256 of a byte list, in hexadecimal;
  the i-th value of randomUUID; the text PostgreSQL gives an audit row as JSON; and the time of the
  transaction, CURRENT_TIMESTAMP.  The number of identifiers drawn so far is part of the state.
\<close>

section \<open>Tables\<close>

record committee_row =
  cm_id :: string
  cm_external_reference :: string
  cm_state :: CommitteeState
  cm_version :: int

record participant_row =
  pa_id :: string
  pa_external_reference :: string

record member_row =
  me_id :: string
  me_external_reference :: string
  me_committee_id :: string
  me_state :: string

record conflict_row =
  cf_member_id :: string
  cf_committee_id :: string
  cf_target_type :: string
  cf_target_reference :: string
  cf_resolved_at :: "time option"

record request_row =
  rq_id :: string
  rq_external_reference :: string
  rq_committee_id :: string
  rq_participant_id :: string
  rq_policy_version_id :: string
  rq_state :: VerificationState
  rq_version :: int

record decision_row =
  de_id :: string
  de_external_reference :: string
  de_committee_id :: string
  de_request_id :: string
  de_reviewer_member_id :: string
  de_policy_version_id :: string
  de_state :: string
  de_reason_category :: string
  de_authorization_decision_digest :: string

record attestation_row =
  at_id :: string
  at_external_reference :: string
  at_committee_id :: string
  at_participant_id :: string
  at_request_id :: string
  at_policy_version_id :: string
  at_version :: int
  at_state :: VerificationState
  at_valid_from :: time
  at_expires_at :: time
  at_issuance_complete :: bool
  at_supersedes_id :: "string option"

record status_row =
  st_attestation_id :: string
  st_committee_id :: string
  st_state :: VerificationState
  st_effective_at :: time
  st_version :: int

record revocation_row =
  rv_id :: string
  rv_attestation_id :: string
  rv_committee_id :: string
  rv_policy_version_id :: string
  rv_reason_category :: string
  rv_effective_at :: time

record idempotency_row =
  ir_id :: string
  ir_scope :: string
  ir_key_hash :: string
  ir_request_digest :: string
  ir_command :: string
  ir_actor_type :: string
  ir_actor_reference :: string
  ir_committee_id :: "string option"
  ir_completed :: bool
  ir_result_digest :: "string option"
  ir_result_reference :: "string option"
  ir_result_version :: "int option"
  ir_result_state :: "string option"

record audit_row =
  au_id :: string
  au_chain_key :: string
  au_previous_hash :: "string option"
  au_event_hash :: string
  au_actor_type :: string
  au_actor_reference :: string
  au_committee_id :: "string option"
  au_command :: string
  au_target_type :: string
  au_target_reference :: string
  au_prior_state :: "string option"
  au_new_state :: "string option"
  au_policy_version :: string
  au_software_version :: string
  au_reason_category :: string
  au_authentication_strength :: string
  au_correlation_id :: string
  au_idempotency_key_hash :: string
  au_result :: string
  au_occurred_at :: time

datatype OutboxState =
    O_pending | O_claimed | O_succeeded | O_retryable_failed | O_terminal_failed | O_dead_letter

fun outbox_state_name :: "OutboxState \<Rightarrow> string" where
  "outbox_state_name O_pending = ''pending''"
| "outbox_state_name O_claimed = ''claimed''"
| "outbox_state_name O_succeeded = ''succeeded''"
| "outbox_state_name O_retryable_failed = ''retryable_failed''"
| "outbox_state_name O_terminal_failed = ''terminal_failed''"
| "outbox_state_name O_dead_letter = ''dead_letter''"

record OutboxRow =
  ob_id :: string
  ob_committee_id :: "string option"
  ob_event_type :: string
  ob_aggregate_type :: string
  ob_aggregate_reference :: string
  ob_schema_version :: string
  ob_payload_reference :: string
  ob_payload_digest :: string
  ob_idempotency_key_hash :: string
  ob_state :: OutboxState
  ob_available_at :: time
  ob_lease_owner :: "string option"
  ob_lease_acquired_at :: "time option"
  ob_lease_expires_at :: "time option"
  ob_attempt_count :: int
  ob_last_error_class :: "string option"
  ob_created_at :: time
  ob_completed_at :: "time option"

record attempt_row =
  ao_id :: string
  ao_outbox_event_id :: string
  ao_attempt :: int
  ao_worker :: string
  ao_result :: string
  ao_error_class :: "string option"
  ao_started_at :: time
  ao_finished_at :: time

record VerusJobRow =
  vj_id :: string
  vj_outbox_event_id :: string
  vj_committee_id :: "string option"
  vj_chain_id :: string
  vj_operation_type :: string
  vj_subject_reference :: string
  vj_target_identity :: "string option"
  vj_vdxf_uri :: "string option"
  vj_vdxf_key :: string
  vj_manifest_json :: "json option"
  vj_manifest_canonical :: "string option"
  vj_manifest_digest :: string
  vj_manifest_policy_reference :: "string option"
  vj_manifest_allowed_fields :: "string list"
  vj_manifest_required_fields :: "string list"
  vj_manifest_maximum_bytes :: "int option"
  vj_confirmation_requirement :: int
  vj_state :: VerusJobState
  vj_transaction_id :: "string option"
  vj_block_height :: "int option"
  vj_block_hash :: "string option"
  vj_readback_digest :: "string option"
  vj_submission_ambiguous :: bool
  vj_last_error_class :: "string option"
  vj_submitted_at :: "time option"
  vj_confirmed_at :: "time option"
  vj_readback_at :: "time option"
  vj_reorg_detected_at :: "time option"
  vj_version :: int
  vj_created_at :: time
  vj_updated_at :: time

record anchor_row =
  an_id :: string
  an_external_reference :: string
  an_committee_id :: "string option"
  an_outbox_event_id :: string
  an_chain_id :: string
  an_anchor_type :: string
  an_subject_reference :: string
  an_vdxf_key :: string
  an_manifest_digest :: string
  an_state :: VerusJobState
  an_transaction_id :: "string option"
  an_block_height :: "int option"
  an_block_hash :: "string option"
  an_readback_digest :: "string option"
  an_version :: int
  an_updated_at :: time

text \<open>The tables whose rows only move along a lifecycle: renewal_cycle, wallet_challenge, consent_receipt,
  appeal, privacy_rights_request, notification and relying_party_client.  The state of a row says which
  table it is in; a column that the table does not have stays empty.  The type of the state of
  wallet_challenge has one value more than the lifecycle of the domain package.  Committees have their
  own table; their states are here too, because one repository moves the rows of all eight tables.\<close>

datatype lifecycle_state =
    S_committee CommitteeState | S_renewal_cycle RenewalCycleState | S_wallet_challenge WalletChallengeState | S_wallet_cancelled
  | S_consent ConsentState | S_appeal AppealState | S_privacy_request PrivacyRequestState
  | S_notification NotificationState | S_relying_party_client RelyingPartyClientState

record lifecycle_row =
  ly_id :: string
  ly_external_reference :: string
  ly_committee_id :: "string option"
  ly_state :: lifecycle_state
  ly_version :: int
  ly_expires_at :: time
  ly_rejection_reason :: "string option"
  ly_consumed_at :: "time option"
  ly_acknowledged_at :: "time option"
  ly_withdrawn_at :: "time option"
  ly_assigned_reference :: "string option"
  ly_resolved_at :: "time option"
  ly_completed_at :: "time option"
  ly_delivered_at :: "time option"

text \<open>The field db_artifacts has the rows of eligible_snapshot, cycle_selection and cycle_report: the
  name of the table and the identifier of the renewal cycle.\<close>

record database =
  db_committees :: "committee_row list"
  db_participants :: "participant_row list"
  db_members :: "member_row list"
  db_conflicts :: "conflict_row list"
  db_requests :: "request_row list"
  db_decisions :: "decision_row list"
  db_attestations :: "attestation_row list"
  db_statuses :: "status_row list"
  db_revocations :: "revocation_row list"
  db_idempotency :: "idempotency_row list"
  db_audit :: "audit_row list"
  db_audit_heads :: "(string \<times> string option) list"
  db_outbox :: "OutboxRow list"
  db_attempts :: "attempt_row list"
  db_jobs :: "VerusJobRow list"
  db_anchors :: "anchor_row list"
  db_policies :: "string list"
  db_lifecycles :: "lifecycle_row list"
  db_artifacts :: "(string \<times> string) list"
  db_ids :: nat

definition empty_database :: database where
  "empty_database = \<lparr>db_committees = [], db_participants = [], db_members = [], db_conflicts = [],
     db_requests = [], db_decisions = [], db_attestations = [], db_statuses = [],
     db_revocations = [], db_idempotency = [], db_audit = [], db_audit_heads = [], db_outbox = [],
     db_attempts = [], db_jobs = [], db_anchors = [], db_policies = [], db_lifecycles = [], db_artifacts = [], db_ids = 0\<rparr>"

record services =
  sv_sha :: "nat list \<Rightarrow> string"
  sv_uuid :: "nat \<Rightarrow> string"
  sv_audit_json :: "audit_row \<Rightarrow> string"
  sv_now :: time

definition sha256 :: "services \<Rightarrow> string \<Rightarrow> string" where
  "sha256 sv s = sv_sha sv (utf8_encode s)"

section \<open>Errors, context and transactions\<close>

datatype repo_error =
    RepositoryConflictError string
  | TenantBoundaryError
  | IdempotencyConflictError
  | TransitionRejected InvalidTransitionError
  | ReviewerIneligibleError ReviewerIneligibilityCode
  | ValidityRejected InvalidAttestationValidityError
  | DatabaseError string

text \<open>The field code of the error; a database error carries its SQLSTATE.\<close>

fun repo_error_code :: "repo_error \<Rightarrow> string" where
  "repo_error_code (RepositoryConflictError msg) = ''REPOSITORY_CONFLICT''"
| "repo_error_code TenantBoundaryError = ''TENANT_BOUNDARY_VIOLATION''"
| "repo_error_code IdempotencyConflictError = ''IDEMPOTENCY_CONFLICT''"
| "repo_error_code (TransitionRejected e) = ''INVALID_STATE_TRANSITION''"
| "repo_error_code (ReviewerIneligibleError c) =
     (case c of REVIEWER_NOT_AUTHORIZED \<Rightarrow> ''REVIEWER_NOT_AUTHORIZED''
      | REVIEWER_CONFLICTED \<Rightarrow> ''REVIEWER_CONFLICTED''
      | CROSS_COMMITTEE_REVIEW \<Rightarrow> ''CROSS_COMMITTEE_REVIEW'')"
| "repo_error_code (ValidityRejected e) = ''INVALID_ATTESTATION_VALIDITY''"
| "repo_error_code (DatabaseError sqlstate) = sqlstate"

type_synonym 'a tx = "(database, repo_error, 'a) body"
type_synonym 'a op = "database \<Rightarrow> (repo_error + 'a) \<times> database"

definition inSerializableTransaction ::
  "(nat \<Rightarrow> ('db, repo_error, 'a) body) \<Rightarrow> 'db \<Rightarrow> (repo_error + 'a) \<times> 'db" where
  "inSerializableTransaction work db =
     tx_attempt repo_error_code
       (RepositoryConflictError ''serializable transaction retry budget was exhausted'') work 1 db"

text \<open>A method whose body does not depend on the attempt.\<close>

definition transaction :: "('db, repo_error, 'a) body \<Rightarrow> 'db \<Rightarrow> (repo_error + 'a) \<times> 'db" where
  "transaction work = inSerializableTransaction (\<lambda>_. work)"

lemma transaction_eq:
  "transaction work db = (case work db of Inr (a, db') \<Rightarrow> (Inr a, db') | Inl e \<Rightarrow> (Inl e, db))"
  by (simp add: transaction_def inSerializableTransaction_def tx_attempt_deterministic)

lemma transaction_Inr:
  "transaction work db = (Inr a, db') \<longleftrightarrow> work db = Inr (a, db')"
  by (auto simp: transaction_eq split: sum.splits)

lemma transaction_Inl:
  "transaction work db = (Inl e, db') \<longleftrightarrow> work db = Inl e \<and> db' = db"
  by (auto simp: transaction_eq split: sum.splits)

lemma transaction_keeps:
  assumes "keeps I work" "I db" "transaction work db = (r, db')"
  shows "I db'"
  using assms keepsD[OF assms(1,2)] by (auto simp: transaction_eq split: sum.splits)

definition opaque_char :: "char \<Rightarrow> bool" where
  "opaque_char c \<longleftrightarrow> is_lower c \<or> is_digit c \<or> c \<in> set ''_:-''"

text \<open>The pattern \<^verbatim>\<open>^[a-z][a-z0-9_:-]{7,199}$\<close> and the test for an at sign.\<close>

definition is_opaque_reference :: "string \<Rightarrow> bool" where
  "is_opaque_reference val \<longleftrightarrow> matches_head is_lower opaque_char 7 199 val \<and> CHR ''@'' \<notin> set val"

definition requireOpaqueReference :: "string \<Rightarrow> string \<Rightarrow> repo_error + unit" where
  "requireOpaqueReference val field =
     (if \<not> is_opaque_reference val
      then Inl (RepositoryConflictError (field @ '' must be an opaque reference'')) else Inr ())"

lemma requireOpaqueReference_Inr [simp]:
  "requireOpaqueReference val field = Inr u \<longleftrightarrow> is_opaque_reference val"
  by (auto simp: requireOpaqueReference_def)

record CommandActor =
  ca_type :: string
  ca_reference :: string
  ca_authenticationStrength :: string

record CommandContext =
  cx_actor :: CommandActor
  cx_committeeReference :: string
  cx_policyVersionReference :: string
  cx_softwareVersion :: string
  cx_reasonCategory :: string
  cx_correlationId :: string
  cx_idempotencyKey :: string
  cx_requestDigest :: string

definition newId :: "services \<Rightarrow> string tx" where
  "newId sv db = Inr (sv_uuid sv (db_ids db), db\<lparr>db_ids := Suc (db_ids db)\<rparr>)"

definition insert_unique :: "('r \<Rightarrow> bool) \<Rightarrow> 'r \<Rightarrow> 'r list \<Rightarrow> repo_error + 'r list" where
  "insert_unique clash r t = (if list_ex clash t then Inl (DatabaseError ''23505'') else Inr (t @ [r]))"

definition update_checked ::
  "('r \<Rightarrow> bool) \<Rightarrow> ('r \<Rightarrow> 'r) \<Rightarrow> ('r \<Rightarrow> 'r \<Rightarrow> bool) \<Rightarrow> 'r list \<Rightarrow> repo_error + 'r list" where
  "update_checked P f ok t =
     (if list_all (\<lambda>r. P r \<longrightarrow> ok r (f r)) t then Inr (update_where P f t)
      else Inl (DatabaseError ''23514''))"

lemma insert_unique_Inr [simp]:
  "insert_unique clash r t = Inr t' \<longleftrightarrow> (\<forall>q \<in> set t. \<not> clash q) \<and> t' = t @ [r]"
  by (auto simp: insert_unique_def list_ex_iff)

lemma update_checked_Inr [simp]:
  "update_checked P f ok t = Inr t' \<longleftrightarrow> (\<forall>r \<in> set t. P r \<longrightarrow> ok r (f r)) \<and> t' = update_where P f t"
  by (auto simp: update_checked_def list_all_iff)

section \<open>Audit trail\<close>

record AuditTarget =
  tg_type :: string
  tg_reference :: string
  tg_priorState :: "string option"
  tg_newState :: "string option"

definition audit_head :: "database \<Rightarrow> string \<Rightarrow> string option" where
  "audit_head db chain_key = (case map_of (db_audit_heads db) chain_key of Some h \<Rightarrow> h | None \<Rightarrow> None)"

text \<open>The hash the trigger \<open>cbc_enforce_audit_chain\<close> computes from the predecessor and the row
  without its own hash.\<close>

definition audit_hash :: "services \<Rightarrow> string option \<Rightarrow> audit_row \<Rightarrow> string" where
  "audit_hash sv prev row =
     sha256 sv ((case prev of None \<Rightarrow> [] | Some h \<Rightarrow> h) @ ''|'' @ sv_audit_json sv (row\<lparr>au_event_hash := []\<rparr>))"

text \<open>INSERT INTO audit_event with the trigger: the predecessor must be the head of the chain, a
  hash other than AUTO must be the computed one, and the head moves to the new event.\<close>

definition insert_audit_event :: "services \<Rightarrow> audit_row \<Rightarrow> string tx" where
  "insert_audit_event sv row db =
     (let current = audit_head db (au_chain_key row); computed = audit_hash sv current row in
      if au_previous_hash row \<noteq> current \<or> (au_event_hash row \<noteq> ''AUTO'' \<and> au_event_hash row \<noteq> computed)
      then Inl (DatabaseError ''23514'')
      else Inr (computed, db\<lparr>db_audit := db_audit db @ [row\<lparr>au_event_hash := computed\<rparr>],
             db_audit_heads := AList.update (au_chain_key row) (Some computed) (db_audit_heads db)\<rparr>))"

definition audit_chain_key :: "CommandContext \<Rightarrow> string option \<Rightarrow> string" where
  "audit_chain_key context committeeId =
     (if truthy committeeId then ''committee:'' @ cx_committeeReference context else ''global'')"

definition appendAudit ::
  "services \<Rightarrow> CommandContext \<Rightarrow> string option \<Rightarrow> string \<Rightarrow> AuditTarget \<Rightarrow> string \<Rightarrow> string tx" where
  "appendAudit sv context committeeId command target result =
     (let chainKey = audit_chain_key context committeeId in
      bindT (readT (\<lambda>db. audit_head db chainKey)) (\<lambda>previousHash.
      bindT (newId sv) (\<lambda>id.
      insert_audit_event sv
        \<lparr>au_id = id, au_chain_key = chainKey, au_previous_hash = previousHash, au_event_hash = ''AUTO'',
         au_actor_type = ca_type (cx_actor context), au_actor_reference = ca_reference (cx_actor context),
         au_committee_id = committeeId, au_command = command, au_target_type = tg_type target,
         au_target_reference = tg_reference target, au_prior_state = tg_priorState target,
         au_new_state = tg_newState target, au_policy_version = cx_policyVersionReference context,
         au_software_version = cx_softwareVersion context, au_reason_category = cx_reasonCategory context,
         au_authentication_strength = ca_authenticationStrength (cx_actor context),
         au_correlation_id = cx_correlationId context,
         au_idempotency_key_hash = sha256 sv (cx_idempotencyKey context),
         au_result = result, au_occurred_at = sv_now sv\<rparr>)))"

fun chain_valid :: "services \<Rightarrow> string option \<Rightarrow> audit_row list \<Rightarrow> bool" where
  "chain_valid sv prev [] \<longleftrightarrow> True"
| "chain_valid sv prev (e # es) \<longleftrightarrow>
     au_previous_hash e = prev \<and> au_event_hash e = audit_hash sv prev e
     \<and> chain_valid sv (Some (au_event_hash e)) es"

definition chain_of :: "string \<Rightarrow> audit_row list \<Rightarrow> audit_row list" where
  "chain_of k es = filter (\<lambda>e. au_chain_key e = k) es"

fun chain_end :: "string option \<Rightarrow> audit_row list \<Rightarrow> string option" where
  "chain_end prev [] = prev"
| "chain_end prev (e # es) = chain_end (Some (au_event_hash e)) es"

text \<open>Every chain starts without a predecessor, links each event to the one before, carries the
  computed hashes, and its head is the hash of its last event.\<close>

definition audit_ok :: "services \<Rightarrow> database \<Rightarrow> bool" where
  "audit_ok sv db \<longleftrightarrow>
     (\<forall>k. chain_valid sv None (chain_of k (db_audit db))
          \<and> audit_head db k = chain_end None (chain_of k (db_audit db)))"

lemma chain_valid_append:
  "chain_valid sv prev (es @ fs) \<longleftrightarrow>
     chain_valid sv prev es \<and> chain_valid sv (chain_end prev es) fs"
  by (induction es arbitrary: prev) auto

lemma chain_end_append: "chain_end prev (es @ fs) = chain_end (chain_end prev es) fs"
  by (induction es arbitrary: prev) auto

lemma chain_of_snoc:
  "chain_of k (es @ [e]) = chain_of k es @ (if au_chain_key e = k then [e] else [])"
  by (simp add: chain_of_def)

lemma audit_hash_event_hash [simp]: "audit_hash sv prev (row\<lparr>au_event_hash := h\<rparr>) = audit_hash sv prev row"
  by (simp add: audit_hash_def)

lemma audit_head_update [simp]:
  "audit_head (db\<lparr>db_audit := es, db_audit_heads := AList.update k v (db_audit_heads db)\<rparr>) k' =
     (if k' = k then v else audit_head db k')"
  by (simp add: audit_head_def update_conv')

lemma insert_audit_event_ok [keeps_rules]: "keeps (audit_ok sv) (insert_audit_event sv row)"
proof (rule keepsI)
  fix db a db'
  assume ok: "audit_ok sv db" and run: "insert_audit_event sv row db = Inr (a, db')"
  define cur where "cur = audit_head db (au_chain_key row)"
  have prev: "au_previous_hash row = cur"
    and db': "db' = db\<lparr>db_audit := db_audit db @ [row\<lparr>au_event_hash := audit_hash sv cur row\<rparr>],
             db_audit_heads := AList.update (au_chain_key row) (Some (audit_hash sv cur row)) (db_audit_heads db)\<rparr>"
    using run by (auto simp: insert_audit_event_def Let_def cur_def split: if_splits)
  show "audit_ok sv db'"
    unfolding audit_ok_def
  proof (intro allI conjI)
    fix k
    have cur: "chain_end None (chain_of (au_chain_key row) (db_audit db)) = cur"
      using ok by (simp add: audit_ok_def cur_def)
    show "chain_valid sv None (chain_of k (db_audit db'))"
      using ok prev cur by (auto simp: db' chain_of_snoc chain_valid_append audit_ok_def)
    show "audit_head db' k = chain_end None (chain_of k (db_audit db'))"
      using ok by (auto simp: db' chain_of_snoc chain_end_append audit_ok_def)
  qed
qed

lemma newId_audit_ok [keeps_rules]: "keeps (audit_ok sv) (newId sv')"
  by (auto simp: keeps_def newId_def audit_ok_def audit_head_def)

lemma appendAudit_ok [keeps_rules]: "keeps (audit_ok sv) (appendAudit sv context cid command target result)"
  unfolding appendAudit_def Let_def by (intro keeps_rules)

lemma audit_ok_other:
  assumes "db_audit (f db) = db_audit db" "db_audit_heads (f db) = db_audit_heads db"
  shows "audit_ok sv (f db) = audit_ok sv db"
  using assms by (simp add: audit_ok_def audit_head_def)

text \<open>An audit entry can always be written, and it writes nothing else.\<close>

lemma appendAudit_succeeds:
  "\<exists>h db'. appendAudit sv context cid command target result db = Inr (h, db')"
  by (auto simp: appendAudit_def insert_audit_event_def newId_def body_defs Let_def audit_head_def)

lemma appendAudit_extends:
  assumes "appendAudit sv context cid command target result db = Inr (h, db')"
  obtains row where "db_audit db' = db_audit db @ [row]" "au_command row = command"
    "au_target_reference row = tg_reference target" "au_prior_state row = tg_priorState target"
    "au_new_state row = tg_newState target" "au_result row = result"
    "au_actor_reference row = ca_reference (cx_actor context)"
  using assms
  by (auto simp: appendAudit_def insert_audit_event_def newId_def body_defs Let_def split: if_splits)

lemma newId_frame [frame_rules]:
  "untouched db_committees (newId sv)" "untouched db_participants (newId sv)"
  "untouched db_members (newId sv)" "untouched db_conflicts (newId sv)"
  "untouched db_requests (newId sv)" "untouched db_decisions (newId sv)"
  "untouched db_attestations (newId sv)" "untouched db_statuses (newId sv)"
  "untouched db_revocations (newId sv)" "untouched db_idempotency (newId sv)"
  "untouched db_outbox (newId sv)" "untouched db_attempts (newId sv)"
  "untouched db_jobs (newId sv)" "untouched db_anchors (newId sv)"
  "untouched db_audit (newId sv)" "untouched db_audit_heads (newId sv)" "untouched db_policies (newId sv)" "untouched db_lifecycles (newId sv)"
  "untouched db_artifacts (newId sv)"
  by (auto simp: untouched_def newId_def)

lemma insert_audit_event_frame [frame_rules]:
  "untouched db_committees (insert_audit_event sv row)" "untouched db_participants (insert_audit_event sv row)"
  "untouched db_members (insert_audit_event sv row)" "untouched db_conflicts (insert_audit_event sv row)"
  "untouched db_requests (insert_audit_event sv row)" "untouched db_decisions (insert_audit_event sv row)"
  "untouched db_attestations (insert_audit_event sv row)" "untouched db_statuses (insert_audit_event sv row)"
  "untouched db_revocations (insert_audit_event sv row)" "untouched db_idempotency (insert_audit_event sv row)"
  "untouched db_outbox (insert_audit_event sv row)" "untouched db_attempts (insert_audit_event sv row)"
  "untouched db_jobs (insert_audit_event sv row)" "untouched db_anchors (insert_audit_event sv row)"
  "untouched db_policies (insert_audit_event sv row)" "untouched db_lifecycles (insert_audit_event sv row)"
  "untouched db_artifacts (insert_audit_event sv row)"
  by (auto simp: untouched_def insert_audit_event_def Let_def split: if_splits)

lemma appendAudit_frame [frame_rules]:
  "untouched db_committees (appendAudit sv context cid command target result)"
  "untouched db_participants (appendAudit sv context cid command target result)"
  "untouched db_members (appendAudit sv context cid command target result)"
  "untouched db_conflicts (appendAudit sv context cid command target result)"
  "untouched db_requests (appendAudit sv context cid command target result)"
  "untouched db_decisions (appendAudit sv context cid command target result)"
  "untouched db_attestations (appendAudit sv context cid command target result)"
  "untouched db_statuses (appendAudit sv context cid command target result)"
  "untouched db_revocations (appendAudit sv context cid command target result)"
  "untouched db_idempotency (appendAudit sv context cid command target result)"
  "untouched db_outbox (appendAudit sv context cid command target result)"
  "untouched db_attempts (appendAudit sv context cid command target result)"
  "untouched db_jobs (appendAudit sv context cid command target result)"
  "untouched db_anchors (appendAudit sv context cid command target result)"
  "untouched db_policies (appendAudit sv context cid command target result)" "untouched db_lifecycles (appendAudit sv context cid command target result)"
  "untouched db_artifacts (appendAudit sv context cid command target result)"
  unfolding appendAudit_def Let_def by (intro frame_rules)+

section \<open>Outbox rows\<close>

text \<open>INSERT INTO outbox_event with the column defaults; the identifier and the key hash are
  unique.\<close>

definition new_outbox_event ::
  "services \<Rightarrow> string \<Rightarrow> string option \<Rightarrow> string \<Rightarrow> string \<Rightarrow> string \<Rightarrow> string \<Rightarrow> string \<Rightarrow> string \<Rightarrow> string
     \<Rightarrow> OutboxRow" where
  "new_outbox_event sv eventId committeeId eventType aggregateType aggregateReference schemaVersion
       payloadReference payloadDigest keyHash =
     \<lparr>ob_id = eventId, ob_committee_id = committeeId, ob_event_type = eventType,
      ob_aggregate_type = aggregateType, ob_aggregate_reference = aggregateReference,
      ob_schema_version = schemaVersion, ob_payload_reference = payloadReference,
      ob_payload_digest = payloadDigest, ob_idempotency_key_hash = keyHash, ob_state = O_pending,
      ob_available_at = sv_now sv, ob_lease_owner = None, ob_lease_acquired_at = None,
      ob_lease_expires_at = None, ob_attempt_count = 0, ob_last_error_class = None,
      ob_created_at = sv_now sv, ob_completed_at = None\<rparr>"

lemma new_outbox_event_simps [simp]:
  "ob_id (new_outbox_event sv eid cid et aty ar scv pr pd kh) = eid"
  "ob_event_type (new_outbox_event sv eid cid et aty ar scv pr pd kh) = et"
  "ob_aggregate_reference (new_outbox_event sv eid cid et aty ar scv pr pd kh) = ar"
  "ob_payload_digest (new_outbox_event sv eid cid et aty ar scv pr pd kh) = pd"
  "ob_state (new_outbox_event sv eid cid et aty ar scv pr pd kh) = O_pending"
  "ob_lease_owner (new_outbox_event sv eid cid et aty ar scv pr pd kh) = None"
  "ob_lease_acquired_at (new_outbox_event sv eid cid et aty ar scv pr pd kh) = None"
  "ob_lease_expires_at (new_outbox_event sv eid cid et aty ar scv pr pd kh) = None"
  "ob_attempt_count (new_outbox_event sv eid cid et aty ar scv pr pd kh) = 0"
  "ob_completed_at (new_outbox_event sv eid cid et aty ar scv pr pd kh) = None"
  by (simp_all add: new_outbox_event_def)

definition insert_outbox_event ::
  "services \<Rightarrow> string \<Rightarrow> string option \<Rightarrow> string \<Rightarrow> string \<Rightarrow> string \<Rightarrow> string \<Rightarrow> string \<Rightarrow> string \<Rightarrow> string
     \<Rightarrow> unit tx" where
  "insert_outbox_event sv eventId committeeId eventType aggregateType aggregateReference schemaVersion
       payloadReference payloadDigest keyHash =
     bindT (readT db_outbox) (\<lambda>rows.
     bindT (liftT (insert_unique (\<lambda>r. ob_id r = eventId \<or> ob_idempotency_key_hash r = keyHash)
       (new_outbox_event sv eventId committeeId eventType aggregateType aggregateReference
          schemaVersion payloadReference payloadDigest keyHash) rows)) (\<lambda>rows'.
     writeT (\<lambda>db. db\<lparr>db_outbox := rows'\<rparr>)))"

lemma insert_outbox_event_Inr:
  "insert_outbox_event sv eid cid et aty ar scv pr pd kh db = Inr (u, db') \<longleftrightarrow>
     (\<forall>r \<in> set (db_outbox db). ob_id r \<noteq> eid \<and> ob_idempotency_key_hash r \<noteq> kh)
     \<and> db' = db\<lparr>db_outbox := db_outbox db @ [new_outbox_event sv eid cid et aty ar scv pr pd kh]\<rparr>"
  by (auto simp: insert_outbox_event_def)

lemma insert_outbox_event_audit_ok [keeps_rules]:
  "keeps (audit_ok sv) (insert_outbox_event sv' eid cid et aty ar scv pr pd kh)"
  unfolding insert_outbox_event_def by (intro keeps_rules keepsI) (auto simp: audit_ok_other)

lemma insert_outbox_event_frame [frame_rules]:
  "untouched db_committees (insert_outbox_event sv eid cid et aty ar scv pr pd kh)"
  "untouched db_participants (insert_outbox_event sv eid cid et aty ar scv pr pd kh)"
  "untouched db_requests (insert_outbox_event sv eid cid et aty ar scv pr pd kh)"
  "untouched db_attestations (insert_outbox_event sv eid cid et aty ar scv pr pd kh)"
  "untouched db_statuses (insert_outbox_event sv eid cid et aty ar scv pr pd kh)"
  "untouched db_revocations (insert_outbox_event sv eid cid et aty ar scv pr pd kh)"
  "untouched db_idempotency (insert_outbox_event sv eid cid et aty ar scv pr pd kh)"
  "untouched db_audit (insert_outbox_event sv eid cid et aty ar scv pr pd kh)"
  "untouched db_jobs (insert_outbox_event sv eid cid et aty ar scv pr pd kh)"
  "untouched db_anchors (insert_outbox_event sv eid cid et aty ar scv pr pd kh)"
  "untouched db_attempts (insert_outbox_event sv eid cid et aty ar scv pr pd kh)"
  "untouched db_members (insert_outbox_event sv eid cid et aty ar scv pr pd kh)"
  "untouched db_conflicts (insert_outbox_event sv eid cid et aty ar scv pr pd kh)"
  "untouched db_decisions (insert_outbox_event sv eid cid et aty ar scv pr pd kh)"
  "untouched db_policies (insert_outbox_event sv eid cid et aty ar scv pr pd kh)" "untouched db_lifecycles (insert_outbox_event sv eid cid et aty ar scv pr pd kh)"
  "untouched db_artifacts (insert_outbox_event sv eid cid et aty ar scv pr pd kh)"
  unfolding insert_outbox_event_def by (intro frame_rules untouched_writeT; simp)+

section \<open>What the shared layer promises\<close>

text \<open>
  A transaction is all or nothing and is retried at most twice.  Whatever the body does at each
  attempt, the outcome is that of one of three attempts, all on the database as it was at the start:
  on success the database is the one this attempt produced, on an error the database is unchanged,
  and every earlier attempt failed with a serialization code (40001 or 40P01).  The error for an
  exhausted retry budget is never raised by the loop itself.
\<close>

theorem transaction_all_or_nothing:
  "\<exists>j \<in> {1, 2, 3}.
     (\<forall>i \<in> {1, 2}. i < j \<longrightarrow> serialization_failure repo_error_code (work i db))
     \<and> inSerializableTransaction work db =
         (case work j db of Inr (a, db') \<Rightarrow> (Inr a, db') | Inl e \<Rightarrow> (Inl e, db))"
  unfolding inSerializableTransaction_def by (rule tx_attempt_outcome)

theorem transaction_all_or_nothing_witness:
  "fst (inSerializableTransaction (\<lambda>n. if n < 2 then throwT (DatabaseError ''40001'')
     else newId \<lparr>sv_sha = \<lambda>b. [], sv_uuid = \<lambda>n. ''id'', sv_audit_json = \<lambda>r. [], sv_now = 0\<rparr>) empty_database)
   = Inr ''id''"
proof -
  define work :: "nat \<Rightarrow> string tx" where
    "work n = (if n < 2 then throwT (DatabaseError ''40001'')
       else newId \<lparr>sv_sha = \<lambda>b. [], sv_uuid = \<lambda>n. ''id'', sv_audit_json = \<lambda>r. [], sv_now = 0\<rparr>)" for n
  have "work 1 empty_database = Inl (DatabaseError ''40001'')"
    "\<And>j. j \<ge> 2 \<Longrightarrow> work j empty_database = Inr (''id'', empty_database\<lparr>db_ids := 1\<rparr>)"
    "\<not> serialization_failure repo_error_code (work 2 empty_database)"
    by (simp_all add: work_def throwT_def newId_def serialization_failure_def empty_database_def)
  moreover have "tx_attempt repo_error_code e work 1 empty_database = tx_attempt repo_error_code e work 2 empty_database" for e
    using tx_attempt_step[of 1 repo_error_code work empty_database] calculation(1)
    by (simp add: serialization_failure_def numeral_2_eq_2)
  hence "inSerializableTransaction work empty_database =
      (case work 2 empty_database of Inr (a, db') \<Rightarrow> (Inr a, db') | Inl e \<Rightarrow> (Inl e, empty_database))"
    using tx_attempt_stop[of 2 repo_error_code work empty_database] calculation(3)
    by (simp add: inSerializableTransaction_def)
  ultimately have "fst (inSerializableTransaction work empty_database) = Inr ''id''" by simp
  moreover note transaction_all_or_nothing[of work empty_database]
  ultimately show ?thesis unfolding work_def by blast
qed

text \<open>What the audit chain relies on: a hash is not empty and has no bar, as a hexadecimal text,
  and PostgreSQL prints two different rows differently.\<close>

definition unhashed :: "audit_row \<Rightarrow> audit_row" where
  "unhashed e = e\<lparr>au_event_hash := []\<rparr>"

definition audit_services :: "services \<Rightarrow> audit_row set \<Rightarrow> bool" where
  "audit_services sv rows \<longleftrightarrow>
     (\<forall>b. sv_sha sv b \<noteq> [] \<and> CHR ''|'' \<notin> set (sv_sha sv b))
     \<and> inj_on (sv_audit_json sv) (unhashed ` rows)"

definition hash_collision :: "services \<Rightarrow> bool" where
  "hash_collision sv \<longleftrightarrow> (\<exists>x y. x \<noteq> y \<and> sha256 sv x = sha256 sv y)"

lemma split_at_bar:
  assumes "a @ CHR ''|'' # x = b @ CHR ''|'' # y" "CHR ''|'' \<notin> set a" "CHR ''|'' \<notin> set b"
  shows "a = b \<and> x = y"
proof -
  have "takeWhile (\<lambda>c. c \<noteq> CHR ''|'') (z @ CHR ''|'' # w) = z" if "CHR ''|'' \<notin> set z" for z w :: string
    using that by (induction z) auto
  hence "a = b" using assms by metis
  thus ?thesis using assms(1) by simp
qed

lemma audit_hash_inj:
  assumes "audit_services sv rows" "e \<in> rows" "f \<in> rows" "\<not> hash_collision sv"
    and "audit_hash sv p e = audit_hash sv q f"
    and "p = None \<or> (\<exists>b. p = Some (sv_sha sv b))" "q = None \<or> (\<exists>b. q = Some (sv_sha sv b))"
  shows "p = q \<and> unhashed e = unhashed f"
proof -
  define t where "t r = (case r of None \<Rightarrow> [] | Some h \<Rightarrow> h)" for r :: "string option"
  have "t p @ CHR ''|'' # sv_audit_json sv (unhashed e) = t q @ CHR ''|'' # sv_audit_json sv (unhashed f)"
    using assms(4,5) unfolding hash_collision_def audit_hash_def t_def unhashed_def by auto
  hence t: "t p = t q \<and> sv_audit_json sv (unhashed e) = sv_audit_json sv (unhashed f)"
    by (rule split_at_bar) (use assms(1,6,7) in \<open>auto simp: t_def audit_services_def\<close>)
  moreover have "sv_sha sv b \<noteq> []" for b using assms(1) by (simp add: audit_services_def)
  ultimately have "p = q" using assms(6,7) by (auto simp: t_def dest: sym)
  thus ?thesis using t assms(1-3) by (auto simp: audit_services_def inj_on_def)
qed

lemma chain_end_hash:
  "chain_valid sv None es \<Longrightarrow> chain_end None es = None \<or> (\<exists>b. chain_end None es = Some (sv_sha sv b))"
  by (induction es rule: rev_induct)
     (auto simp: chain_valid_append chain_end_append audit_hash_def sha256_def)

text \<open>Two valid chains that end in the same hash are the same chain, event by event.\<close>

lemma valid_chains_agree:
  assumes "audit_services sv (set es \<union> set fs)"
    and "chain_valid sv None es" "chain_valid sv None fs" "chain_end None es = chain_end None fs"
  shows "es = fs \<or> hash_collision sv"
proof (rule disjCI)
  assume nc: "\<not> hash_collision sv"
  show "es = fs"
    using assms
  proof (induction es arbitrary: fs rule: rev_induct)
    case Nil
    thus ?case by (cases fs rule: rev_cases) (auto simp: chain_end_append)
  next
    case (snoc e es)
    obtain f fs' where fs: "fs = fs' @ [f]"
      using snoc.prems(4) by (cases fs rule: rev_cases) (auto simp: chain_end_append)
    have e: "chain_valid sv None es" "au_previous_hash e = chain_end None es"
      "au_event_hash e = audit_hash sv (chain_end None es) e"
      using snoc.prems(2) by (auto simp: chain_valid_append)
    have f: "chain_valid sv None fs'" "au_previous_hash f = chain_end None fs'"
      "au_event_hash f = audit_hash sv (chain_end None fs') f"
      using snoc.prems(3) fs by (auto simp: chain_valid_append)
    have eh: "au_event_hash e = au_event_hash f" using snoc.prems(4) fs by (simp add: chain_end_append)
    hence "chain_end None es = chain_end None fs' \<and> unhashed e = unhashed f"
      by (intro audit_hash_inj[OF snoc.prems(1) _ _ nc _ chain_end_hash[OF e(1)] chain_end_hash[OF f(1)]])
         (use e f fs in auto)
    moreover from this have "e = f" using eh by (cases e; cases f) (simp add: unhashed_def)
    moreover have "audit_services sv (set es \<union> set fs')"
      using snoc.prems(1) fs by (auto simp: audit_services_def inj_on_def)
    ultimately show ?case using snoc.IH e(1) f(1) fs by simp
  qed
qed

text \<open>A history of appends: each with its own clock, context, command, target and result.\<close>

type_synonym audit_call = "time \<times> CommandContext \<times> string option \<times> string \<times> AuditTarget \<times> string"

fun append_all :: "services \<Rightarrow> audit_call list \<Rightarrow> unit tx" where
  "append_all sv [] = returnT ()"
| "append_all sv ((now, context, committeeId, command, target, result) # calls) =
     bindT (appendAudit (sv\<lparr>sv_now := now\<rparr>) context committeeId command target result) (\<lambda>_. append_all sv calls)"

lemma audit_ok_clock [simp]: "audit_ok (sv\<lparr>sv_now := now\<rparr>) db = audit_ok sv db"
proof -
  have hash: "audit_hash (sv\<lparr>sv_now := now\<rparr>) p e = audit_hash sv p e" for p e
    by (simp add: audit_hash_def sha256_def)
  have "chain_valid (sv\<lparr>sv_now := now\<rparr>) p es = chain_valid sv p es" for p es
    by (induction es arbitrary: p) (simp_all add: hash)
  thus ?thesis by (simp add: audit_ok_def)
qed

lemma appendAudit_adds_one:
  "\<exists>h db'. appendAudit sv context cid command target result db = Inr (h, db')
     \<and> length (db_audit db') = Suc (length (db_audit db))"
  by (auto simp: appendAudit_def Let_def body_defs newId_def insert_audit_event_def audit_head_def)

lemma append_all_runs:
  assumes "audit_ok sv db"
  shows "\<exists>db'. append_all sv calls db = Inr ((), db') \<and> audit_ok sv db'
     \<and> length (db_audit db') = length (db_audit db) + length calls"
  using assms
proof (induction calls arbitrary: db)
  case (Cons call calls)
  obtain now cx cid command target result where call: "call = (now, cx, cid, command, target, result)"
    by (metis prod_cases6)
  let ?sv = "sv\<lparr>sv_now := now\<rparr>"
  obtain h db' where run: "appendAudit ?sv cx cid command target result db = Inr (h, db')"
    and len: "length (db_audit db') = Suc (length (db_audit db))"
    using appendAudit_adds_one by metis
  have "audit_ok ?sv db'" using keepsD[OF appendAudit_ok _ run] Cons.prems by simp
  hence "audit_ok sv db'" by simp
  thus ?case using Cons.IH[of db'] run len by (simp add: call bindT_def)
qed (simp add: returnT_def)


definition sample_call :: "string \<Rightarrow> audit_call" where
  "sample_call command =
     (0, \<lparr>cx_actor = \<lparr>ca_type = ''member'', ca_reference = ''member:one'', ca_authenticationStrength = ''passkey''\<rparr>,
          cx_committeeReference = ''committee:one'', cx_policyVersionReference = ''p1'', cx_softwareVersion = ''s1'',
          cx_reasonCategory = ''r'', cx_correlationId = ''c'', cx_idempotencyKey = ''k'', cx_requestDigest = ''d''\<rparr>,
      None, command, \<lparr>tg_type = ''committee'', tg_reference = ''committee:one'', tg_priorState = None,
      tg_newState = None\<rparr>, ''succeeded'')"

definition sample_services :: services where
  "sample_services = \<lparr>sv_sha = \<lambda>b. CHR ''h'' # concat (map (\<lambda>n. nat_to_string n @ ''.'') b),
     sv_uuid = (\<lambda>n. ''uuid-'' @ nat_to_string n), sv_audit_json = au_command, sv_now = 0\<rparr>"

lemma sample_sha_inj:
  "concat (map (\<lambda>n. nat_to_string n @ ''.'') b) = concat (map (\<lambda>n. nat_to_string n @ ''.'') c) \<Longrightarrow> b = c"
proof (induction b arbitrary: c)
  case Nil
  thus ?case by (cases c) auto
next
  case (Cons n b)
  then obtain m c' where c: "c = m # c'" by (cases c) auto
  have "takeWhile is_digit (nat_to_string k @ CHR ''.'' # x) = nat_to_string k" for k x
    using nat_to_string_digits[of k] by (simp add: takeWhile_append list_all_iff is_digit_def code_def)
  moreover have "nat_to_string n @ CHR ''.'' # concat (map (\<lambda>n. nat_to_string n @ ''.'') b)
      = nat_to_string m @ CHR ''.'' # concat (map (\<lambda>n. nat_to_string n @ ''.'') c')"
    using Cons.prems c by simp
  ultimately have "nat_to_string n = nat_to_string m" by metis
  thus ?case using Cons c nat_to_string_inj by auto
qed

lemma sample_no_collision: "\<not> hash_collision sample_services"
  by (auto simp: hash_collision_def sha256_def sample_services_def utf8_encode_inj dest: sample_sha_inj)

definition sample_event :: "string \<Rightarrow> audit_row" where
  "sample_event command =
     (let row = \<lparr>au_id = ''a'', au_chain_key = ''global'', au_previous_hash = None, au_event_hash = [],
        au_actor_type = ''member'', au_actor_reference = ''member:one'', au_committee_id = None,
        au_command = command, au_target_type = ''committee'', au_target_reference = ''committee:one'',
        au_prior_state = None, au_new_state = None, au_policy_version = ''p1'', au_software_version = ''s1'',
        au_reason_category = ''r'', au_authentication_strength = ''passkey'', au_correlation_id = ''c'',
        au_idempotency_key_hash = ''k'', au_result = ''succeeded'', au_occurred_at = 0\<rparr>
      in row\<lparr>au_event_hash := audit_hash sample_services None row\<rparr>)"


end
