(* ===== verification/Outbox.thy ===== *)
theory Outbox
  imports Repository "HOL-Library.Product_Lexorder"
begin

text \<open>
  packages/db/src/outbox-repository.ts: the transactional outbox, a queue of events leased to
  workers.  A worker claims the oldest ready event for a time, keeps the lease by heartbeats, and
  ends the attempt with success, a retryable failure with exponential backoff, or a terminal
  failure; a lease that ran out is recovered by the next claim.  The table constraints and triggers on
  outbox_event and outbox_attempt are part of the updates and inserts here.
\<close>

section \<open>Rows and constraints\<close>

record OutboxWorkerContext =
  ow_workerReference :: string
  ow_softwareVersion :: string
  ow_correlationId :: string

record OutboxClaim =
  oc_id :: string
  oc_committeeReference :: "string option"
  oc_eventType :: string
  oc_aggregateType :: string
  oc_aggregateReference :: string
  oc_schemaVersion :: string
  oc_payloadReference :: string
  oc_payloadDigest :: string
  oc_attempt :: int
  oc_createdAt :: time
  oc_leaseExpiresAt :: time

record OutboxClaimOptions =
  co_eventTypes :: "string list option"
  co_singleWriterByAggregate :: bool

record OutboxQueueStats =
  qs_readyCount :: nat
  qs_oldestReadyAt :: "time option"

record RetryFailureOptions =
  rf_errorClass :: string
  rf_maxAttempts :: js_number
  rf_baseBackoffMs :: js_number
  rf_maxBackoffMs :: js_number

definition outbox_final :: "OutboxState \<Rightarrow> bool" where
  "outbox_final s \<longleftrightarrow> s \<in> {O_succeeded, O_terminal_failed, O_dead_letter}"

text \<open>The constraints outbox_lease_consistent, outbox_completion_consistent and
  outbox_attempt_count_nonnegative.\<close>

definition outbox_lease_consistent :: "OutboxRow \<Rightarrow> bool" where
  "outbox_lease_consistent r \<longleftrightarrow>
     (if ob_state r = O_claimed
      then ob_lease_owner r \<noteq> None
           \<and> (case (ob_lease_acquired_at r, ob_lease_expires_at r) of (Some a, Some e) \<Rightarrow> a < e | _ \<Rightarrow> False)
      else ob_lease_owner r = None \<and> ob_lease_acquired_at r = None \<and> ob_lease_expires_at r = None)"

definition outbox_completion_consistent :: "OutboxRow \<Rightarrow> bool" where
  "outbox_completion_consistent r \<longleftrightarrow> (outbox_final (ob_state r) \<longleftrightarrow> ob_completed_at r \<noteq> None)"

definition outbox_row_ok :: "OutboxRow \<Rightarrow> bool" where
  "outbox_row_ok r \<longleftrightarrow>
     outbox_lease_consistent r \<and> outbox_completion_consistent r \<and> 0 \<le> ob_attempt_count r"

text \<open>The trigger cbc_guard_outbox_transition.\<close>

definition cbc_guard_outbox_transition :: "OutboxState \<Rightarrow> OutboxState \<Rightarrow> bool" where
  "cbc_guard_outbox_transition old new \<longleftrightarrow>
     old = new
     \<or> (old \<in> {O_pending, O_retryable_failed} \<and> new = O_claimed)
     \<or> (old = O_claimed \<and> new \<in> {O_succeeded, O_retryable_failed, O_terminal_failed, O_dead_letter})"

definition outbox_update_ok :: "OutboxRow \<Rightarrow> OutboxRow \<Rightarrow> bool" where
  "outbox_update_ok old new \<longleftrightarrow>
     cbc_guard_outbox_transition (ob_state old) (ob_state new) \<and> outbox_row_ok new"

definition update_outbox :: "(OutboxRow \<Rightarrow> bool) \<Rightarrow> (OutboxRow \<Rightarrow> OutboxRow) \<Rightarrow> unit tx" where
  "update_outbox P f =
     bindT (readT db_outbox) (\<lambda>rows.
     bindT (liftT (update_checked P f outbox_update_ok rows)) (\<lambda>rows'.
     writeT (\<lambda>db. db\<lparr>db_outbox := rows'\<rparr>)))"

definition committee_reference :: "database \<Rightarrow> string option \<Rightarrow> string option" where
  "committee_reference db committee_id =
     (case committee_id of None \<Rightarrow> None
      | Some i \<Rightarrow> map_option cm_external_reference (select_where (\<lambda>c. cm_id c = i) (db_committees db)))"

section \<open>Validation\<close>

definition requireErrorClass :: "string \<Rightarrow> repo_error + unit" where
  "requireErrorClass errorClass =
     (if \<not> matches_head is_lower (\<lambda>c. is_lower c \<or> is_digit c \<or> c = CHR ''_'') 2 63 errorClass
      then Inl (RepositoryConflictError ''error class must be a non-sensitive stable code'') else Inr ())"

definition validateFailureOptions :: "RetryFailureOptions \<Rightarrow> repo_error + unit" where
  "validateFailureOptions options =
     bind_result (requireErrorClass (rf_errorClass options)) (\<lambda>_.
       if \<not> isInteger (rf_maxAttempts options) \<or> js_less (rf_maxAttempts options) (num 1)
          \<or> \<not> isInteger (rf_baseBackoffMs options) \<or> js_less (rf_baseBackoffMs options) (num 1)
          \<or> \<not> isInteger (rf_maxBackoffMs options)
          \<or> js_less (rf_maxBackoffMs options) (rf_baseBackoffMs options)
       then Inl (RepositoryConflictError ''retry settings must be positive and bounded'') else Inr ())"

text \<open>The pattern \<^verbatim>\<open>^[a-z][a-z0-9_.-]{2,127}$\<close> on every filter.\<close>

definition is_event_type_filter :: "string \<Rightarrow> bool" where
  "is_event_type_filter s \<longleftrightarrow>
     matches_head is_lower (\<lambda>c. is_lower c \<or> is_digit c \<or> c \<in> set ''_.-'') 2 127 s"

definition validateEventTypes :: "string list option \<Rightarrow> repo_error + string list option" where
  "validateEventTypes eventTypes =
     (case eventTypes of
        None \<Rightarrow> Inr None
      | Some types \<Rightarrow>
          if types = [] \<or> list_ex (\<lambda>t. \<not> is_event_type_filter t) types
          then Inl (RepositoryConflictError ''event type filters must be non-empty stable codes'')
          else Inr (Some (rev (remdups (rev types)))))"

section \<open>Reading the queue\<close>

definition outbox_ready :: "time \<Rightarrow> OutboxRow \<Rightarrow> bool" where
  "outbox_ready observedAt r \<longleftrightarrow>
     (ob_state r \<in> {O_pending, O_retryable_failed} \<and> ob_available_at r \<le> observedAt)
     \<or> (ob_state r = O_claimed \<and> (case ob_lease_expires_at r of Some e \<Rightarrow> e \<le> observedAt | None \<Rightarrow> False))"

definition live_claim :: "time \<Rightarrow> OutboxRow \<Rightarrow> bool" where
  "live_claim observedAt r \<longleftrightarrow>
     ob_state r = O_claimed \<and> (case ob_lease_expires_at r of Some e \<Rightarrow> e > observedAt | None \<Rightarrow> False)"

definition same_aggregate :: "OutboxRow \<Rightarrow> OutboxRow \<Rightarrow> bool" where
  "same_aggregate a b \<longleftrightarrow> ob_event_type a = ob_event_type b \<and> ob_aggregate_type a = ob_aggregate_type b
     \<and> ob_aggregate_reference a = ob_aggregate_reference b"

definition selected_type :: "string list option \<Rightarrow> OutboxRow \<Rightarrow> bool" where
  "selected_type types r \<longleftrightarrow> (case types of None \<Rightarrow> True | Some ts \<Rightarrow> ob_event_type r \<in> set ts)"

definition claimable :: "time \<Rightarrow> string list option \<Rightarrow> bool \<Rightarrow> OutboxRow list \<Rightarrow> OutboxRow \<Rightarrow> bool" where
  "claimable observedAt types singleWriter rows r \<longleftrightarrow>
     outbox_ready observedAt r \<and> selected_type types r
     \<and> (\<not> singleWriter
        \<or> \<not> list_ex (\<lambda>a. ob_id a \<noteq> ob_id r \<and> same_aggregate a r \<and> live_claim observedAt a) rows)"

definition claim_order :: "OutboxRow \<Rightarrow> time \<times> time \<times> string" where
  "claim_order r = (ob_available_at r, ob_created_at r, ob_id r)"

definition claim_candidate :: "time \<Rightarrow> string list option \<Rightarrow> bool \<Rightarrow> OutboxRow list \<Rightarrow> OutboxRow option" where
  "claim_candidate observedAt types singleWriter rows =
     (case sort_key claim_order (filter (claimable observedAt types singleWriter rows) rows) of
        [] \<Rightarrow> None | r # _ \<Rightarrow> Some r)"

definition queueStats :: "time \<Rightarrow> string list option \<Rightarrow> database \<Rightarrow> repo_error + OutboxQueueStats" where
  "queueStats observedAt eventTypes db =
     bind_result (validateEventTypes eventTypes) (\<lambda>types.
       let ready = filter (\<lambda>r. outbox_ready observedAt r \<and> selected_type types r) (db_outbox db) in
       Inr \<lparr>qs_readyCount = length ready,
            qs_oldestReadyAt = (if ready = [] then None else Some (Min (set (map ob_created_at ready))))\<rparr>)"

section \<open>Attempts and audit context\<close>

definition not_null :: "'a option \<Rightarrow> repo_error + 'a" where
  "not_null x = (case x of None \<Rightarrow> Inl (DatabaseError ''23502'') | Some a \<Rightarrow> Inr a)"

lemma not_null_Inr [simp]: "not_null x = Inr a \<longleftrightarrow> x = Some a"
  by (auto simp: not_null_def split: option.splits)

text \<open>INSERT INTO outbox_attempt: one row per event and attempt, a positive attempt number, and an
  end that is not before the start.\<close>

definition recordAttempt ::
  "services \<Rightarrow> OutboxRow \<Rightarrow> string option \<Rightarrow> int \<Rightarrow> string \<Rightarrow> string option \<Rightarrow> time option \<Rightarrow> time \<Rightarrow> unit tx" where
  "recordAttempt sv row workerReference attempt result errorClass startedAt finishedAt =
     bindT (newId sv) (\<lambda>id.
     bindT (liftT (not_null workerReference)) (\<lambda>worker.
     bindT (liftT (not_null startedAt)) (\<lambda>started.
     bindT (requireT (0 < attempt \<and> started \<le> finishedAt) (DatabaseError ''23514'')) (\<lambda>_.
     bindT (readT db_attempts) (\<lambda>rows.
     bindT (liftT (insert_unique (\<lambda>a. ao_outbox_event_id a = ob_id row \<and> ao_attempt a = attempt)
        \<lparr>ao_id = id, ao_outbox_event_id = ob_id row, ao_attempt = attempt, ao_worker = worker,
         ao_result = result, ao_error_class = errorClass, ao_started_at = started,
         ao_finished_at = finishedAt\<rparr> rows)) (\<lambda>rows'.
     writeT (\<lambda>db. db\<lparr>db_attempts := rows'\<rparr>)))))))"

definition outboxAuditContext ::
  "OutboxWorkerContext \<Rightarrow> OutboxRow \<Rightarrow> string option \<Rightarrow> string \<Rightarrow> string \<Rightarrow> CommandContext" where
  "outboxAuditContext worker row committeeReference command reasonCategory =
     \<lparr>cx_actor = \<lparr>ca_type = ''worker'', ca_reference = ow_workerReference worker,
        ca_authenticationStrength = ''internal_worker''\<rparr>,
      cx_committeeReference = (case committeeReference of Some c \<Rightarrow> c | None \<Rightarrow> ''global_synthetic_scope''),
      cx_policyVersionReference = ''schema:'' @ ob_schema_version row,
      cx_softwareVersion = ow_softwareVersion worker, cx_reasonCategory = reasonCategory,
      cx_correlationId = ow_correlationId worker,
      cx_idempotencyKey = ob_id row @ '':'' @ int_to_string (ob_attempt_count row) @ '':'' @ command,
      cx_requestDigest = ob_payload_digest row\<rparr>"

definition outbox_audit ::
  "services \<Rightarrow> OutboxWorkerContext \<Rightarrow> OutboxRow \<Rightarrow> string \<Rightarrow> string \<Rightarrow> string \<Rightarrow> string \<Rightarrow> string \<Rightarrow> unit tx" where
  "outbox_audit sv worker row command reasonCategory prior_state new_state result =
     bindT (readT (\<lambda>db. committee_reference db (ob_committee_id row))) (\<lambda>committeeReference.
     bindT (appendAudit sv (outboxAuditContext worker row committeeReference command reasonCategory)
        (ob_committee_id row) command
        \<lparr>tg_type = ''outbox_event'', tg_reference = ob_id row, tg_priorState = Some prior_state,
         tg_newState = Some new_state\<rparr> result) (\<lambda>_.
     returnT ()))"

section \<open>Operations\<close>

text \<open>The row after a claim by a worker at a time, for a duration.\<close>

definition claimed_by :: "string \<Rightarrow> time \<Rightarrow> int \<Rightarrow> OutboxRow \<Rightarrow> OutboxRow" where
  "claimed_by w t d r = r\<lparr>ob_state := O_claimed, ob_lease_owner := Some w, ob_lease_acquired_at := Some t,
     ob_lease_expires_at := Some (t + d), ob_attempt_count := ob_attempt_count r + 1,
     ob_last_error_class := None\<rparr>"

definition claimNext_body ::
  "services \<Rightarrow> OutboxWorkerContext \<Rightarrow> time \<Rightarrow> int \<Rightarrow> string list option \<Rightarrow> bool \<Rightarrow> OutboxClaim option tx" where
  "claimNext_body sv worker observedAt leaseDurationMs types singleWriter =
     bindT (readT (\<lambda>db. claim_candidate observedAt types singleWriter (db_outbox db))) (\<lambda>candidate.
     case candidate of
       None \<Rightarrow> returnT None
     | Some row \<Rightarrow>
         bindT (if ob_state row = O_claimed
                then bindT (recordAttempt sv row (ob_lease_owner row) (ob_attempt_count row) ''failed''
                       (Some ''lease_expired'') (ob_lease_acquired_at row) observedAt) (\<lambda>_.
                     outbox_audit sv worker row ''recoverExpiredOutboxLease'' ''lease_expired''
                       ''claimed'' ''claimed'' ''succeeded'')
                else returnT ()) (\<lambda>_.
         let leaseExpiresAt = observedAt + leaseDurationMs in
         bindT (update_outbox (\<lambda>r. ob_id r = ob_id row)
                 (claimed_by (ow_workerReference worker) observedAt leaseDurationMs)) (\<lambda>_.
         bindT (outbox_audit sv worker row ''claimOutboxEvent'' ''worker_claim''
                  (outbox_state_name (ob_state row)) ''claimed'' ''succeeded'') (\<lambda>_.
         bindT (readT (\<lambda>db. committee_reference db (ob_committee_id row))) (\<lambda>committeeReference.
         returnT (Some \<lparr>oc_id = ob_id row,
           oc_committeeReference = (if truthy committeeReference then committeeReference else None),
           oc_eventType = ob_event_type row, oc_aggregateType = ob_aggregate_type row,
           oc_aggregateReference = ob_aggregate_reference row, oc_schemaVersion = ob_schema_version row,
           oc_payloadReference = ob_payload_reference row, oc_payloadDigest = ob_payload_digest row,
           oc_attempt = ob_attempt_count row + 1, oc_createdAt = ob_created_at row,
           oc_leaseExpiresAt = leaseExpiresAt\<rparr>))))))"

definition int_of_number :: "js_number \<Rightarrow> int" where
  "int_of_number n = (case n of Num r \<Rightarrow> \<lfloor>r\<rfloor> | _ \<Rightarrow> 0)"

lemma int_of_number_num [simp]: "int_of_number (num i) = i"
  by (simp add: int_of_number_def num_def)

definition claimNext ::
  "services \<Rightarrow> OutboxWorkerContext \<Rightarrow> time \<Rightarrow> js_number \<Rightarrow> OutboxClaimOptions \<Rightarrow> OutboxClaim option op" where
  "claimNext sv worker observedAt leaseDurationMs options db =
     (case bind_result (requireOpaqueReference (ow_workerReference worker) ''worker reference'') (\<lambda>_.
           if \<not> isInteger leaseDurationMs \<or> \<not> js_less (num 0) leaseDurationMs
           then Inl (RepositoryConflictError ''lease duration must be a positive integer'')
           else validateEventTypes (co_eventTypes options)) of
        Inl e \<Rightarrow> (Inl e, db)
      | Inr types \<Rightarrow> transaction (claimNext_body sv worker observedAt (int_of_number leaseDurationMs) types
                      (co_singleWriterByAggregate options)) db)"

definition loadClaim :: "string \<Rightarrow> string \<Rightarrow> time \<Rightarrow> OutboxRow tx" where
  "loadClaim eventId workerReference observedAt =
     bindT (readT (\<lambda>db. select_where (\<lambda>r. ob_id r = eventId) (db_outbox db))) (\<lambda>found.
     case found of
       None \<Rightarrow> throwT (RepositoryConflictError ''outbox lease is missing, expired, or owned by another worker'')
     | Some row \<Rightarrow>
         if ob_state row \<noteq> O_claimed \<or> ob_lease_owner row \<noteq> Some workerReference
            \<or> (case ob_lease_expires_at row of None \<Rightarrow> True | Some e \<Rightarrow> e \<le> observedAt)
         then throwT (RepositoryConflictError ''outbox lease is missing, expired, or owned by another worker'')
         else returnT row)"

definition heartbeat_body :: "services \<Rightarrow> string \<Rightarrow> OutboxWorkerContext \<Rightarrow> time \<Rightarrow> int \<Rightarrow> time tx" where
  "heartbeat_body sv eventId worker observedAt leaseDurationMs =
     bindT (loadClaim eventId (ow_workerReference worker) observedAt) (\<lambda>row.
     let leaseExpiresAt = observedAt + leaseDurationMs in
     bindT (requireT (\<not> leaseExpiresAt \<le> observedAt)
              (RepositoryConflictError ''lease duration must be positive'')) (\<lambda>_.
     bindT (update_outbox (\<lambda>r. ob_id r = eventId \<and> ob_state r = O_claimed
                  \<and> ob_lease_owner r = Some (ow_workerReference worker))
              (\<lambda>r. r\<lparr>ob_lease_expires_at := Some leaseExpiresAt\<rparr>)) (\<lambda>_.
     bindT (outbox_audit sv worker row ''heartbeatOutboxLease'' ''worker_heartbeat''
              ''claimed'' ''claimed'' ''succeeded'') (\<lambda>_.
     returnT leaseExpiresAt))))"

definition heartbeat :: "services \<Rightarrow> string \<Rightarrow> OutboxWorkerContext \<Rightarrow> time \<Rightarrow> int \<Rightarrow> time op" where
  "heartbeat sv eventId worker observedAt leaseDurationMs =
     transaction (heartbeat_body sv eventId worker observedAt leaseDurationMs)"

definition succeed_body :: "services \<Rightarrow> string \<Rightarrow> OutboxWorkerContext \<Rightarrow> time \<Rightarrow> unit tx" where
  "succeed_body sv eventId worker observedAt =
     bindT (loadClaim eventId (ow_workerReference worker) observedAt) (\<lambda>row.
     bindT (recordAttempt sv row (Some (ow_workerReference worker)) (ob_attempt_count row) ''succeeded''
              None (ob_lease_acquired_at row) observedAt) (\<lambda>_.
     bindT (update_outbox (\<lambda>r. ob_id r = eventId)
              (\<lambda>r. r\<lparr>ob_state := O_succeeded, ob_lease_owner := None, ob_lease_acquired_at := None,
                    ob_lease_expires_at := None, ob_completed_at := Some observedAt\<rparr>)) (\<lambda>_.
     outbox_audit sv worker row ''completeOutboxEvent'' ''worker_success'' ''claimed'' ''succeeded''
       ''succeeded'')))"

definition succeed :: "services \<Rightarrow> string \<Rightarrow> OutboxWorkerContext \<Rightarrow> time \<Rightarrow> unit op" where
  "succeed sv eventId worker observedAt = transaction (succeed_body sv eventId worker observedAt)"

definition backoff_delay :: "RetryFailureOptions \<Rightarrow> int \<Rightarrow> int" where
  "backoff_delay options attempt_count =
     min (int_of_number (rf_baseBackoffMs options) * 2 ^ nat (max 0 (attempt_count - 1)))
         (int_of_number (rf_maxBackoffMs options))"

definition failRetryable_body ::
  "services \<Rightarrow> string \<Rightarrow> OutboxWorkerContext \<Rightarrow> time \<Rightarrow> RetryFailureOptions \<Rightarrow> OutboxState tx" where
  "failRetryable_body sv eventId worker observedAt options =
     bindT (loadClaim eventId (ow_workerReference worker) observedAt) (\<lambda>row.
     bindT (recordAttempt sv row (Some (ow_workerReference worker)) (ob_attempt_count row) ''failed''
              (Some (rf_errorClass options)) (ob_lease_acquired_at row) observedAt) (\<lambda>_.
     let exhausted = ob_attempt_count row \<ge> int_of_number (rf_maxAttempts options);
         state = (if exhausted then O_dead_letter else O_retryable_failed);
         availableAt = observedAt + backoff_delay options (ob_attempt_count row) in
     bindT (update_outbox (\<lambda>r. ob_id r = eventId)
              (\<lambda>r. r\<lparr>ob_state := state, ob_available_at := availableAt, ob_lease_owner := None,
                    ob_lease_acquired_at := None, ob_lease_expires_at := None,
                    ob_last_error_class := Some (rf_errorClass options),
                    ob_completed_at := (if exhausted then Some observedAt else None)\<rparr>)) (\<lambda>_.
     bindT (outbox_audit sv worker row ''failOutboxEvent'' (rf_errorClass options) ''claimed''
              (outbox_state_name state) ''failed'') (\<lambda>_.
     returnT state))))"

definition failRetryable ::
  "services \<Rightarrow> string \<Rightarrow> OutboxWorkerContext \<Rightarrow> time \<Rightarrow> RetryFailureOptions \<Rightarrow> OutboxState op" where
  "failRetryable sv eventId worker observedAt options db =
     (case validateFailureOptions options of
        Inl e \<Rightarrow> (Inl e, db)
      | Inr _ \<Rightarrow> transaction (failRetryable_body sv eventId worker observedAt options) db)"

definition failTerminal_body :: "services \<Rightarrow> string \<Rightarrow> OutboxWorkerContext \<Rightarrow> time \<Rightarrow> string \<Rightarrow> unit tx" where
  "failTerminal_body sv eventId worker observedAt errorClass =
     bindT (loadClaim eventId (ow_workerReference worker) observedAt) (\<lambda>row.
     bindT (recordAttempt sv row (Some (ow_workerReference worker)) (ob_attempt_count row) ''failed''
              (Some errorClass) (ob_lease_acquired_at row) observedAt) (\<lambda>_.
     bindT (update_outbox (\<lambda>r. ob_id r = eventId)
              (\<lambda>r. r\<lparr>ob_state := O_terminal_failed, ob_lease_owner := None, ob_lease_acquired_at := None,
                    ob_lease_expires_at := None, ob_last_error_class := Some errorClass,
                    ob_completed_at := Some observedAt\<rparr>)) (\<lambda>_.
     outbox_audit sv worker row ''terminallyFailOutboxEvent'' errorClass ''claimed'' ''terminal_failed''
       ''failed'')))"

definition failTerminal :: "services \<Rightarrow> string \<Rightarrow> OutboxWorkerContext \<Rightarrow> time \<Rightarrow> string \<Rightarrow> unit op" where
  "failTerminal sv eventId worker observedAt errorClass db =
     (case requireErrorClass errorClass of
        Inl e \<Rightarrow> (Inl e, db)
      | Inr _ \<Rightarrow> transaction (failTerminal_body sv eventId worker observedAt errorClass) db)"

section \<open>The steps of the operations\<close>

lemma loadClaim_Inr:
  "loadClaim eventId w t db = Inr (row, db') \<longleftrightarrow>
     db' = db \<and> select_where (\<lambda>r. ob_id r = eventId) (db_outbox db) = Some row
     \<and> ob_state row = O_claimed \<and> ob_lease_owner row = Some w
     \<and> (\<exists>e. ob_lease_expires_at row = Some e \<and> t < e)"
  by (auto simp: loadClaim_def split: option.splits if_splits)

lemma recordAttempt_Inr:
  "recordAttempt sv row w n result cls started t db = Inr (u, db') \<longleftrightarrow>
     (\<exists>worker s. w = Some worker \<and> started = Some s \<and> 0 < n \<and> s \<le> t
        \<and> (\<forall>a \<in> set (db_attempts db). \<not> (ao_outbox_event_id a = ob_id row \<and> ao_attempt a = n))
        \<and> db' = db\<lparr>db_ids := Suc (db_ids db), db_attempts := db_attempts db @
            [\<lparr>ao_id = sv_uuid sv (db_ids db), ao_outbox_event_id = ob_id row, ao_attempt = n,
              ao_worker = worker, ao_result = result, ao_error_class = cls, ao_started_at = s,
              ao_finished_at = t\<rparr>]\<rparr>)"
  by (cases w; cases started) (auto simp: recordAttempt_def newId_def)

lemma update_outbox_Inr:
  "update_outbox P f db = Inr (u, db') \<longleftrightarrow>
     (\<forall>r \<in> set (db_outbox db). P r \<longrightarrow> outbox_update_ok r (f r))
     \<and> db' = db\<lparr>db_outbox := update_where P f (db_outbox db)\<rparr>"
  by (auto simp: update_outbox_def)

lemma outbox_audit_frame [frame_rules]:
  "untouched db_outbox (outbox_audit sv worker row command reason prior new result)"
  "untouched db_attempts (outbox_audit sv worker row command reason prior new result)"
  "untouched db_jobs (outbox_audit sv worker row command reason prior new result)"
  "untouched db_anchors (outbox_audit sv worker row command reason prior new result)"
  "untouched db_committees (outbox_audit sv worker row command reason prior new result)"
  unfolding outbox_audit_def by (intro frame_rules)+

lemma outbox_audit_ok [keeps_rules]:
  "keeps (audit_ok sv) (outbox_audit sv worker row command reason prior new result)"
  unfolding outbox_audit_def by (intro keeps_rules)

lemma outbox_audit_succeeds: "\<exists>db'. outbox_audit sv worker row command reason prior new result db = Inr ((), db')"
  using appendAudit_succeeds by (fastforce simp: outbox_audit_def)

lemma outbox_steps_audit_ok [keeps_rules]:
  "keeps (audit_ok sv) (update_outbox P f)"
  "keeps (audit_ok sv) (recordAttempt sv' row w n result cls started t)"
  "keeps (audit_ok sv) (loadClaim eventId w' t)"
  by (auto simp: keeps_def update_outbox_Inr recordAttempt_Inr loadClaim_Inr audit_ok_def audit_head_def)

lemma outbox_bodies_audit_ok [keeps_rules]:
  "keeps (audit_ok sv) (claimNext_body sv worker t d types single)"
  "keeps (audit_ok sv) (succeed_body sv eventId worker t)"
  "keeps (audit_ok sv) (failRetryable_body sv eventId worker t options)"
  "keeps (audit_ok sv) (failTerminal_body sv eventId worker t cls)"
  unfolding claimNext_body_def succeed_body_def failRetryable_body_def failTerminal_body_def Let_def
  by (intro keeps_rules)+

section \<open>The attempt history\<close>

definition attempt_numbers :: "database \<Rightarrow> string \<Rightarrow> int set" where
  "attempt_numbers db i = ao_attempt ` {a \<in> set (db_attempts db). ao_outbox_event_id a = i}"

definition attempt_key :: "attempt_row \<Rightarrow> string \<times> int" where
  "attempt_key a = (ao_outbox_event_id a, ao_attempt a)"

text \<open>How many attempts of an event are over.\<close>

definition finished_attempts :: "OutboxRow \<Rightarrow> int" where
  "finished_attempts r = ob_attempt_count r - (if ob_state r = O_claimed then 1 else 0)"

text \<open>The invariant of the two tables: identifiers are unique, every row satisfies its constraints,
  and the recorded attempts of an event are exactly the numbers 1 up to the number of attempts that
  are over, each once.\<close>

definition outbox_inv :: "database \<Rightarrow> bool" where
  "outbox_inv db \<longleftrightarrow>
     distinct (map ob_id (db_outbox db))
     \<and> (\<forall>r \<in> set (db_outbox db). outbox_row_ok r \<and> 0 \<le> finished_attempts r
          \<and> attempt_numbers db (ob_id r) = {1 .. finished_attempts r})
     \<and> distinct (map attempt_key (db_attempts db))
     \<and> ao_outbox_event_id ` set (db_attempts db) \<subseteq> ob_id ` set (db_outbox db)"

lemma outbox_inv_cong:
  assumes "db_outbox db' = db_outbox db" "db_attempts db' = db_attempts db"
  shows "outbox_inv db' = outbox_inv db"
  using assms by (simp add: outbox_inv_def attempt_numbers_def)

lemma outbox_audit_inv [keeps_rules]:
  "keeps outbox_inv (outbox_audit sv worker row command reason prior new result)"
proof (rule keepsI)
  fix db a db'
  assume "outbox_inv db" "outbox_audit sv worker row command reason prior new result db = Inr (a, db')"
  thus "outbox_inv db'"
    using untouchedD[OF outbox_audit_frame(1)] untouchedD[OF outbox_audit_frame(2)] outbox_inv_cong by metis
qed

text \<open>One row is replaced, and the attempts of that event now match it.\<close>

lemma outbox_inv_replace:
  assumes inv: "outbox_inv db" and row: "row \<in> set (db_outbox db)"
    and f: "ob_id (f row) = ob_id row" "outbox_row_ok (f row)" "0 \<le> finished_attempts (f row)"
    and upd: "db_outbox db' = update_where (\<lambda>r. ob_id r = ob_id row) f (db_outbox db)"
    and att: "attempt_numbers db' (ob_id row) = {1 .. finished_attempts (f row)}"
    and others: "\<And>i. i \<noteq> ob_id row \<Longrightarrow> attempt_numbers db' i = attempt_numbers db i"
    and keys: "distinct (map attempt_key (db_attempts db'))"
    and refs: "ao_outbox_event_id ` set (db_attempts db') \<subseteq> insert (ob_id row) (ao_outbox_event_id ` set (db_attempts db))"
  shows "outbox_inv db'"
proof -
  have only: "r = row" if "r \<in> set (db_outbox db)" "ob_id r = ob_id row" for r
    using that inv row distinct_map_key_eq[of ob_id] by (auto simp: outbox_inv_def)
  have ids: "map ob_id (db_outbox db') = map ob_id (db_outbox db)"
    unfolding upd update_where_def map_map by (rule map_cong) (use only f(1) in auto)
  have "outbox_row_ok r \<and> 0 \<le> finished_attempts r \<and> attempt_numbers db' (ob_id r) = {1 .. finished_attempts r}"
    if "r \<in> set (db_outbox db')" for r
    using that unfolding upd
  proof (cases rule: in_update_whereE)
    case same
    thus ?thesis using inv others by (auto simp: outbox_inv_def)
  next
    case (changed q)
    thus ?thesis using only[of q] f att by auto
  qed
  moreover have "ao_outbox_event_id ` set (db_attempts db') \<subseteq> ob_id ` set (db_outbox db')"
  proof -
    have "ob_id ` set (db_outbox db') = ob_id ` set (db_outbox db)" using ids by (metis set_map)
    moreover have "insert (ob_id row) (ao_outbox_event_id ` set (db_attempts db)) \<subseteq> ob_id ` set (db_outbox db)"
      using inv row by (auto simp: outbox_inv_def)
    ultimately show ?thesis using refs by (metis order_trans)
  qed
  ultimately show ?thesis using inv ids keys by (auto simp: outbox_inv_def)
qed

lemma finished_Suc: "{1 .. n} \<union> {n + 1} = {1 .. n + 1}" if "0 \<le> (n::int)"
  using that by auto

lemma attempt_numbers_append:
  assumes "db_attempts db' = db_attempts db @ [a]"
  shows "attempt_numbers db' i =
     attempt_numbers db i \<union> (if ao_outbox_event_id a = i then {ao_attempt a} else {})"
  using assms by (auto simp: attempt_numbers_def)

text \<open>An attempt ends: it is recorded and the row leaves the claimed state, or is claimed anew.\<close>

lemma outbox_inv_record:
  assumes inv: "outbox_inv db" and row: "row \<in> set (db_outbox db)" "ob_state row = O_claimed"
    and a: "ao_outbox_event_id a = ob_id row" "ao_attempt a = ob_attempt_count row"
    and f: "ob_id (f row) = ob_id row" "outbox_row_ok (f row)" "finished_attempts (f row) = ob_attempt_count row"
    and upd: "db_outbox db' = update_where (\<lambda>r. ob_id r = ob_id row) f (db_outbox db)"
    and att: "db_attempts db' = db_attempts db @ [a]"
  shows "outbox_inv db'"
proof -
  have fin: "finished_attempts row = ob_attempt_count row - 1" using row(2) by (simp add: finished_attempts_def)
  have nums: "attempt_numbers db (ob_id row) = {1 .. ob_attempt_count row - 1}"
    and pos: "0 \<le> ob_attempt_count row - 1"
    using inv row(1) fin by (auto simp: outbox_inv_def)
  show ?thesis
  proof (rule outbox_inv_replace[OF inv row(1) f(1,2) _ upd])
    show "0 \<le> finished_attempts (f row)" using f(3) pos by simp
    show "attempt_numbers db' (ob_id row) = {1 .. finished_attempts (f row)}"
      using attempt_numbers_append[OF att, of "ob_id row"] nums a f(3) finished_Suc[OF pos] by simp
    show "attempt_numbers db' i = attempt_numbers db i" if "i \<noteq> ob_id row" for i
      using attempt_numbers_append[OF att, of i] that a by simp
    have "attempt_key a \<notin> set (map attempt_key (db_attempts db))"
    proof
      assume "attempt_key a \<in> set (map attempt_key (db_attempts db))"
      hence "ob_attempt_count row \<in> attempt_numbers db (ob_id row)"
        using a by (auto simp: attempt_key_def attempt_numbers_def)
      thus False using nums by simp
    qed
    thus "distinct (map attempt_key (db_attempts db'))" using inv att by (auto simp: outbox_inv_def)
    show "ao_outbox_event_id ` set (db_attempts db') \<subseteq> insert (ob_id row) (ao_outbox_event_id ` set (db_attempts db))"
      using att a by auto
  qed
qed

lemma record_then_update_inv:
  assumes "outbox_inv db" "row \<in> set (db_outbox db)" "ob_state row = O_claimed"
    and "recordAttempt sv row w (ob_attempt_count row) result cls started t db = Inr (u, db1)"
    and "update_outbox (\<lambda>r. ob_id r = ob_id row) f dbm = Inr (u', db2)"
    and "ob_id (f row) = ob_id row" "finished_attempts (f row) = ob_attempt_count row"
    and "db_outbox dbm = db_outbox db1" "db_attempts dbm = db_attempts db1"
  shows "outbox_inv db2"
proof -
  obtain a where a: "db_attempts db1 = db_attempts db @ [a]" "db_outbox db1 = db_outbox db"
      "ao_outbox_event_id a = ob_id row" "ao_attempt a = ob_attempt_count row"
    using assms(4) by (auto simp: recordAttempt_Inr)
  have "db_outbox db2 = update_where (\<lambda>r. ob_id r = ob_id row) f (db_outbox db)"
    "db_attempts db2 = db_attempts db @ [a]" "outbox_row_ok (f row)"
    using assms(2,5,8,9) a by (auto simp: update_outbox_Inr outbox_update_ok_def)
  thus ?thesis using outbox_inv_record[OF assms(1-3) a(3,4), of f] assms(6,7) by blast
qed

lemma loadClaim_row:
  assumes "loadClaim eventId w t db = Inr (row, db')"
  shows "row \<in> set (db_outbox db)" "ob_id row = eventId" "ob_state row = O_claimed" "db' = db"
  using assms by (auto simp: loadClaim_Inr dest: select_where_SomeD)

lemma succeed_inv [keeps_rules]: "keeps outbox_inv (succeed_body sv eventId worker t)"
proof (rule keepsI)
  fix db a db'
  assume inv: "outbox_inv db" and run: "succeed_body sv eventId worker t db = Inr (a, db')"
  from run obtain row db1 db2 where s: "loadClaim eventId (ow_workerReference worker) t db = Inr (row, db)"
    "recordAttempt sv row (Some (ow_workerReference worker)) (ob_attempt_count row) ''succeeded'' None
       (ob_lease_acquired_at row) t db = Inr ((), db1)"
    "update_outbox (\<lambda>r. ob_id r = eventId) (\<lambda>r. r\<lparr>ob_state := O_succeeded, ob_lease_owner := None,
       ob_lease_acquired_at := None, ob_lease_expires_at := None, ob_completed_at := Some t\<rparr>) db1 = Inr ((), db2)"
    "outbox_audit sv worker row ''completeOutboxEvent'' ''worker_success'' ''claimed'' ''succeeded''
       ''succeeded'' db2 = Inr (a, db')"
    unfolding succeed_body_def by (auto dest: loadClaim_row(4))
  note row = loadClaim_row[OF s(1)]
  have "outbox_inv db2"
    by (rule record_then_update_inv[OF inv row(1,3) s(2) s(3)[folded row(2)]])
       (auto simp: finished_attempts_def)
  thus "outbox_inv db'" using s(4) keepsD[OF outbox_audit_inv] by blast
qed

lemma failTerminal_inv [keeps_rules]: "keeps outbox_inv (failTerminal_body sv eventId worker t cls)"
proof (rule keepsI)
  fix db a db'
  assume inv: "outbox_inv db" and run: "failTerminal_body sv eventId worker t cls db = Inr (a, db')"
  from run obtain row db1 db2 where s: "loadClaim eventId (ow_workerReference worker) t db = Inr (row, db)"
    "recordAttempt sv row (Some (ow_workerReference worker)) (ob_attempt_count row) ''failed'' (Some cls)
       (ob_lease_acquired_at row) t db = Inr ((), db1)"
    "update_outbox (\<lambda>r. ob_id r = eventId) (\<lambda>r. r\<lparr>ob_state := O_terminal_failed, ob_lease_owner := None,
       ob_lease_acquired_at := None, ob_lease_expires_at := None, ob_last_error_class := Some cls,
       ob_completed_at := Some t\<rparr>) db1 = Inr ((), db2)"
    "outbox_audit sv worker row ''terminallyFailOutboxEvent'' cls ''claimed'' ''terminal_failed''
       ''failed'' db2 = Inr (a, db')"
    unfolding failTerminal_body_def by (auto dest: loadClaim_row(4))
  note row = loadClaim_row[OF s(1)]
  have "outbox_inv db2"
    by (rule record_then_update_inv[OF inv row(1,3) s(2) s(3)[folded row(2)]])
       (auto simp: finished_attempts_def)
  thus "outbox_inv db'" using s(4) keepsD[OF outbox_audit_inv] by blast
qed

lemma failRetryable_steps:
  assumes "failRetryable_body sv eventId worker t options db = Inr (st, db')"
  obtains row db1 db2 where "loadClaim eventId (ow_workerReference worker) t db = Inr (row, db)"
    "recordAttempt sv row (Some (ow_workerReference worker)) (ob_attempt_count row) ''failed''
       (Some (rf_errorClass options)) (ob_lease_acquired_at row) t db = Inr ((), db1)"
    "st = (if ob_attempt_count row \<ge> int_of_number (rf_maxAttempts options) then O_dead_letter
           else O_retryable_failed)"
    "update_outbox (\<lambda>r. ob_id r = eventId) (\<lambda>r. r\<lparr>ob_state := st,
       ob_available_at := t + backoff_delay options (ob_attempt_count row), ob_lease_owner := None,
       ob_lease_acquired_at := None, ob_lease_expires_at := None,
       ob_last_error_class := Some (rf_errorClass options),
       ob_completed_at := (if ob_attempt_count row \<ge> int_of_number (rf_maxAttempts options)
          then Some t else None)\<rparr>) db1 = Inr ((), db2)"
    "outbox_audit sv worker row ''failOutboxEvent'' (rf_errorClass options) ''claimed''
       (outbox_state_name st) ''failed'' db2 = Inr ((), db')"
  using assms unfolding failRetryable_body_def Let_def
  by (auto dest: loadClaim_row(4))

lemma failRetryable_inv [keeps_rules]: "keeps outbox_inv (failRetryable_body sv eventId worker t options)"
proof (rule keepsI)
  fix db st db'
  assume inv: "outbox_inv db" and run: "failRetryable_body sv eventId worker t options db = Inr (st, db')"
  from failRetryable_steps[OF run] obtain row db1 db2 where
    s: "loadClaim eventId (ow_workerReference worker) t db = Inr (row, db)"
    "recordAttempt sv row (Some (ow_workerReference worker)) (ob_attempt_count row) ''failed''
       (Some (rf_errorClass options)) (ob_lease_acquired_at row) t db = Inr ((), db1)"
    "st = (if ob_attempt_count row \<ge> int_of_number (rf_maxAttempts options) then O_dead_letter
           else O_retryable_failed)"
    "update_outbox (\<lambda>r. ob_id r = eventId) (\<lambda>r. r\<lparr>ob_state := st,
       ob_available_at := t + backoff_delay options (ob_attempt_count row), ob_lease_owner := None,
       ob_lease_acquired_at := None, ob_lease_expires_at := None,
       ob_last_error_class := Some (rf_errorClass options),
       ob_completed_at := (if ob_attempt_count row \<ge> int_of_number (rf_maxAttempts options)
          then Some t else None)\<rparr>) db1 = Inr ((), db2)"
    "outbox_audit sv worker row ''failOutboxEvent'' (rf_errorClass options) ''claimed''
       (outbox_state_name st) ''failed'' db2 = Inr ((), db')" by metis
  note row = loadClaim_row[OF s(1)]
  have "outbox_inv db2"
    by (rule record_then_update_inv[OF inv row(1,3) s(2) s(4)[folded row(2)]])
       (auto simp: finished_attempts_def s(3))
  thus "outbox_inv db'" using s(5) keepsD[OF outbox_audit_inv] by blast
qed

lemma claim_candidate_SomeD:
  assumes "claim_candidate t types single rows = Some r"
  shows "r \<in> set rows" "claimable t types single rows r"
    "\<And>q. q \<in> set rows \<Longrightarrow> claimable t types single rows q \<Longrightarrow> claim_order r \<le> claim_order q"
proof -
  define l where "l = sort_key claim_order (filter (claimable t types single rows) rows)"
  obtain rest where l: "l = r # rest"
    using assms by (auto simp: claim_candidate_def l_def split: list.splits)
  have set: "set l = {q \<in> set rows. claimable t types single rows q}" by (auto simp: l_def)
  hence "r \<in> {q \<in> set rows. claimable t types single rows q}" using l by (metis list.set_intros(1))
  thus "r \<in> set rows" "claimable t types single rows r" by auto
  have "sorted (map claim_order l)" by (simp add: l_def)
  hence "\<forall>q \<in> set l. claim_order r \<le> claim_order q" by (auto simp: l)
  thus "claim_order r \<le> claim_order q" if "q \<in> set rows" "claimable t types single rows q" for q
    using that set by auto
qed

lemma claim_candidate_None:
  "claim_candidate t types single rows = None \<longleftrightarrow> (\<forall>r \<in> set rows. \<not> claimable t types single rows r)"
proof -
  have "claim_candidate t types single rows = None \<longleftrightarrow>
      sort_key claim_order (filter (claimable t types single rows) rows) = []"
    by (auto simp: claim_candidate_def split: list.splits)
  also have "\<dots> \<longleftrightarrow> filter (claimable t types single rows) rows = []"
    by (metis length_0_conv length_sort)
  finally show ?thesis by (simp add: filter_empty_conv)
qed

lemma claimed_by_simps [simp]:
  "ob_id (claimed_by w t d r) = ob_id r" "ob_state (claimed_by w t d r) = O_claimed"
  "ob_lease_owner (claimed_by w t d r) = Some w" "ob_lease_expires_at (claimed_by w t d r) = Some (t + d)"
  "ob_attempt_count (claimed_by w t d r) = ob_attempt_count r + 1"
  "same_aggregate (claimed_by w t d r) q = same_aggregate r q"
  "same_aggregate q (claimed_by w t d r) = same_aggregate q r"
  by (simp_all add: claimed_by_def same_aggregate_def)

text \<open>What a claim does to the two tables: the candidate is claimed, and an expired lease is first
  recorded as a failed attempt.\<close>

lemma claimNext_steps:
  assumes "claimNext_body sv worker t d types single db = Inr (Some c, db')"
  obtains row and dbm :: database where
    "claim_candidate t types single (db_outbox db) = Some row" "oc_id c = ob_id row"
    "oc_leaseExpiresAt c = t + d" "oc_attempt c = ob_attempt_count row + 1"
    "oc_eventType c = ob_event_type row"
    "db_outbox dbm = db_outbox db"
    "(ob_state row \<noteq> O_claimed \<and> db_attempts dbm = db_attempts db)
     \<or> (ob_state row = O_claimed \<and> (\<exists>db1. recordAttempt sv row (ob_lease_owner row) (ob_attempt_count row)
          ''failed'' (Some ''lease_expired'') (ob_lease_acquired_at row) t db = Inr ((), db1)
          \<and> db_attempts dbm = db_attempts db1))"
    "\<forall>r \<in> set (db_outbox db). ob_id r = ob_id row \<longrightarrow>
        outbox_update_ok r (claimed_by (ow_workerReference worker) t d r)"
    "db_outbox db' = update_where (\<lambda>r. ob_id r = ob_id row)
        (claimed_by (ow_workerReference worker) t d) (db_outbox db)"
    "db_attempts db' = db_attempts dbm"
proof -
  from assms obtain row where row: "claim_candidate t types single (db_outbox db) = Some row"
    by (auto simp: claimNext_body_def split: option.splits)
  from assms row obtain dbm db2 db3 cr where
    pre: "(if ob_state row = O_claimed
           then bindT (recordAttempt sv row (ob_lease_owner row) (ob_attempt_count row) ''failed''
                  (Some ''lease_expired'') (ob_lease_acquired_at row) t) (\<lambda>_.
                outbox_audit sv worker row ''recoverExpiredOutboxLease'' ''lease_expired''
                  ''claimed'' ''claimed'' ''succeeded'')
           else returnT ()) db = Inr ((), dbm)"
    and upd: "update_outbox (\<lambda>r. ob_id r = ob_id row) (claimed_by (ow_workerReference worker) t d) dbm = Inr ((), db2)"
    and aud: "outbox_audit sv worker row ''claimOutboxEvent'' ''worker_claim''
                (outbox_state_name (ob_state row)) ''claimed'' ''succeeded'' db2 = Inr ((), db')"
    and c: "oc_id c = ob_id row" "oc_leaseExpiresAt c = t + d" "oc_attempt c = ob_attempt_count row + 1"
      "oc_eventType c = ob_event_type row"
    by (auto simp: claimNext_body_def Let_def)
  have dbm: "db_outbox dbm = db_outbox db"
    "(ob_state row \<noteq> O_claimed \<and> db_attempts dbm = db_attempts db)
     \<or> (ob_state row = O_claimed \<and> (\<exists>db1. recordAttempt sv row (ob_lease_owner row) (ob_attempt_count row)
          ''failed'' (Some ''lease_expired'') (ob_lease_acquired_at row) t db = Inr ((), db1)
          \<and> db_attempts dbm = db_attempts db1))"
    using pre untouchedD[OF outbox_audit_frame(1)] untouchedD[OF outbox_audit_frame(2)]
    by (auto simp: recordAttempt_Inr split: if_splits)
  have out: "\<forall>r \<in> set (db_outbox db). ob_id r = ob_id row \<longrightarrow>
        outbox_update_ok r (claimed_by (ow_workerReference worker) t d r)"
    "db_outbox db' = update_where (\<lambda>r. ob_id r = ob_id row)
        (claimed_by (ow_workerReference worker) t d) (db_outbox db)"
    "db_attempts db' = db_attempts dbm"
    using upd untouchedD[OF outbox_audit_frame(1) aud] untouchedD[OF outbox_audit_frame(2) aud] dbm(1)
    by (auto simp: update_outbox_Inr)
  show ?thesis using that[of row dbm] row c dbm out by blast
qed

lemma claimNext_None:
  assumes "claimNext_body sv worker t d types single db = Inr (None, db')"
  shows "db' = db" "claim_candidate t types single (db_outbox db) = None"
  using assms by (auto simp: claimNext_body_def Let_def split: option.splits)

lemma claimNext_inv [keeps_rules]: "keeps outbox_inv (claimNext_body sv worker t d types single)"
proof (rule keepsI)
  fix db res db'
  assume inv: "outbox_inv db" and run: "claimNext_body sv worker t d types single db = Inr (res, db')"
  show "outbox_inv db'"
  proof (cases res)
    case None
    thus ?thesis using run inv claimNext_None(1) by metis
  next
    case (Some c)
    let ?f = "claimed_by (ow_workerReference worker) t d"
    from run[unfolded Some] obtain row and dbm :: database where
      row: "claim_candidate t types single (db_outbox db) = Some row" and dbm: "db_outbox dbm = db_outbox db"
      and pre: "(ob_state row \<noteq> O_claimed \<and> db_attempts dbm = db_attempts db)
       \<or> (ob_state row = O_claimed \<and> (\<exists>db1. recordAttempt sv row (ob_lease_owner row) (ob_attempt_count row)
            ''failed'' (Some ''lease_expired'') (ob_lease_acquired_at row) t db = Inr ((), db1)
            \<and> db_attempts dbm = db_attempts db1))"
      and ok: "\<forall>r \<in> set (db_outbox db). ob_id r = ob_id row \<longrightarrow> outbox_update_ok r (?f r)"
      and db': "db_outbox db' = update_where (\<lambda>r. ob_id r = ob_id row) ?f (db_outbox db)"
        "db_attempts db' = db_attempts dbm"
      by (rule claimNext_steps)
    have r: "row \<in> set (db_outbox db)" using row by (rule claim_candidate_SomeD)
    have fok: "outbox_row_ok (?f row)" using ok r by (auto simp: outbox_update_ok_def)
    have fin: "finished_attempts (?f row) = ob_attempt_count row" by (simp add: finished_attempts_def)
    show ?thesis
    proof (cases "ob_state row = O_claimed")
      case True
      then obtain a where "db_attempts dbm = db_attempts db @ [a]" "ao_outbox_event_id a = ob_id row"
          "ao_attempt a = ob_attempt_count row"
        using pre by (auto simp: recordAttempt_Inr)
      thus ?thesis using outbox_inv_record[OF inv r True _ _ _ fok fin db'(1)] db'(2) by simp
    next
      case False
      hence att: "db_attempts db' = db_attempts db" using pre db'(2) by simp
      have "finished_attempts row = ob_attempt_count row" using False by (simp add: finished_attempts_def)
      thus ?thesis
        by (intro outbox_inv_replace[OF inv r _ fok _ db'(1)])
           (use inv r fin att in \<open>auto simp: outbox_inv_def attempt_numbers_def\<close>)
    qed
  qed
qed

lemma insert_outbox_event_inv [keeps_rules]:
  "keeps outbox_inv (insert_outbox_event sv eid cid et aty ar scv pr pd kh)"
proof (rule keepsI)
  fix db a db'
  assume inv: "outbox_inv db" and run: "insert_outbox_event sv eid cid et aty ar scv pr pd kh db = Inr (a, db')"
  define row where "row = new_outbox_event sv eid cid et aty ar scv pr pd kh"
  have row: "ob_id row = eid" "ob_state row = O_pending" "ob_attempt_count row = 0" "outbox_row_ok row"
    by (simp_all add: row_def outbox_row_ok_def outbox_lease_consistent_def
        outbox_completion_consistent_def outbox_final_def)
  have db': "db_outbox db' = db_outbox db @ [row]" "db_attempts db' = db_attempts db"
    and fresh: "\<forall>r \<in> set (db_outbox db). ob_id r \<noteq> eid"
    using run by (auto simp: insert_outbox_event_Inr row_def)
  have "ao_outbox_event_id ` set (db_attempts db) \<subseteq> ob_id ` set (db_outbox db)"
    using inv unfolding outbox_inv_def by blast
  moreover have "eid \<notin> ob_id ` set (db_outbox db)" using fresh by auto
  ultimately have "eid \<notin> ao_outbox_event_id ` set (db_attempts db)" by blast
  hence none: "attempt_numbers db eid = {}" by (auto simp: attempt_numbers_def)
  have fin: "finished_attempts row = 0" using row by (simp add: finished_attempts_def)
  have "distinct (map ob_id (db_outbox db @ [row]))" using inv fresh row by (auto simp: outbox_inv_def)
  moreover have "attempt_numbers db' i = attempt_numbers db i" for i
    using db' by (simp add: attempt_numbers_def)
  ultimately show "outbox_inv db'"
    using inv row none fin db' by (auto simp: outbox_inv_def)
qed

lemma heartbeat_inv [keeps_rules]: "keeps outbox_inv (heartbeat_body sv eventId worker t d)"
proof (rule keepsI)
  fix db a db'
  assume inv: "outbox_inv db" and run: "heartbeat_body sv eventId worker t d db = Inr (a, db')"
  let ?w = "ow_workerReference worker" and ?f = "\<lambda>r :: OutboxRow. r\<lparr>ob_lease_expires_at := Some (t + d)\<rparr>"
  from run obtain row db2 where s: "loadClaim eventId ?w t db = Inr (row, db)"
    and upd0: "update_outbox (\<lambda>r. ob_id r = eventId \<and> ob_state r = O_claimed \<and> ob_lease_owner r = Some ?w) ?f db = Inr ((), db2)"
    and aud: "outbox_audit sv worker row ''heartbeatOutboxLease'' ''worker_heartbeat'' ''claimed'' ''claimed''
       ''succeeded'' db2 = Inr ((), db')"
    unfolding heartbeat_body_def Let_def by (auto dest: loadClaim_row(4))
  note row = loadClaim_row[OF s]
  have owner: "ob_lease_owner row = Some ?w" using s by (simp add: loadClaim_Inr)
  have "distinct (map ob_id (db_outbox db))" using inv unfolding outbox_inv_def by blast
  hence only: "r = row" if "r \<in> set (db_outbox db)" "ob_id r = eventId" for r
    using that row distinct_map_key_eq by metis
  have "update_where (\<lambda>r. ob_id r = eventId \<and> ob_state r = O_claimed \<and> ob_lease_owner r = Some ?w) ?f (db_outbox db)
      = update_where (\<lambda>r. ob_id r = ob_id row) ?f (db_outbox db)"
  proof (rule update_where_cong)
    fix r assume "r \<in> set (db_outbox db)"
    thus "(ob_id r = eventId \<and> ob_state r = O_claimed \<and> ob_lease_owner r = Some ?w) = (ob_id r = ob_id row)"
      using only[of r] row(2,3) owner by blast
  qed
  moreover have ok: "\<forall>r \<in> set (db_outbox db). ob_id r = eventId \<and> ob_state r = O_claimed
      \<and> ob_lease_owner r = Some ?w \<longrightarrow> outbox_update_ok r (?f r)"
    and db2: "db2 = db\<lparr>db_outbox := update_where (\<lambda>r. ob_id r = eventId \<and> ob_state r = O_claimed
      \<and> ob_lease_owner r = Some ?w) ?f (db_outbox db)\<rparr>"
    using upd0 unfolding update_outbox_Inr by blast+
  ultimately have upd: "db_outbox db2 = update_where (\<lambda>r. ob_id r = ob_id row) ?f (db_outbox db)"
      "db_attempts db2 = db_attempts db" by simp_all
  have fin: "finished_attempts (?f row) = finished_attempts row" by (simp add: finished_attempts_def)
  have nums: "attempt_numbers db2 i = attempt_numbers db i" for i
    using upd(2) by (simp add: attempt_numbers_def)
  have fok: "outbox_row_ok (?f row)" using ok row owner unfolding outbox_update_ok_def by blast
  have "outbox_inv db2"
    by (rule outbox_inv_replace[OF inv row(1) _ fok _ upd(1)])
       (use inv row(1) upd(2) fin nums in \<open>auto simp: outbox_inv_def\<close>)
  thus "outbox_inv db'" using aud keepsD[OF outbox_audit_inv] by blast
qed

lemma heartbeat_audit_ok [keeps_rules]: "keeps (audit_ok sv) (heartbeat_body sv eventId worker t d)"
  unfolding heartbeat_body_def Let_def by (intro keeps_rules)

section \<open>Every sequence of operations\<close>

inductive outbox_step :: "services \<Rightarrow> database \<Rightarrow> database \<Rightarrow> bool" for sv where
  enqueue: "transaction (insert_outbox_event sv eid cid et aty ar scv pr pd kh) db = (r, db')
    \<Longrightarrow> outbox_step sv db db'"
| claim: "claimNext sv worker t d options db = (rc, db') \<Longrightarrow> outbox_step sv db db'"
| beat: "heartbeat sv eventId worker t dur db = (rt, db') \<Longrightarrow> outbox_step sv db db'"
| success: "succeed sv eventId worker t db = (r, db') \<Longrightarrow> outbox_step sv db db'"
| retryable: "failRetryable sv eventId worker t opts db = (rs, db') \<Longrightarrow> outbox_step sv db db'"
| terminal: "failTerminal sv eventId worker t cls db = (r, db') \<Longrightarrow> outbox_step sv db db'"

lemmas outbox_ops = heartbeat_def claimNext_def succeed_def failRetryable_def failTerminal_def

lemma outbox_step_invariant:
  assumes "outbox_step sv db db'" "I db"
    and "\<And>eid cid et aty ar scv pr pd kh. keeps I (insert_outbox_event sv eid cid et aty ar scv pr pd kh)"
    and "\<And>worker t d types single. keeps I (claimNext_body sv worker t d types single)"
    and "\<And>eventId worker t d. keeps I (heartbeat_body sv eventId worker t d)"
    and "\<And>eventId worker t. keeps I (succeed_body sv eventId worker t)"
    and "\<And>eventId worker t opts. keeps I (failRetryable_body sv eventId worker t opts)"
    and "\<And>eventId worker t cls. keeps I (failTerminal_body sv eventId worker t cls)"
  shows "I db'"
  using assms(1)
proof (cases rule: outbox_step.cases)
  case (enqueue eid cid et aty ar scv pr pd kh r)
  thus ?thesis using transaction_keeps[OF assms(3,2)] by blast
next
  case (claim worker t d options rc)
  thus ?thesis using transaction_keeps[OF assms(4,2)] assms(2)
    unfolding claimNext_def by (auto split: sum.splits)
next
  case (beat eventId worker t dur rt)
  thus ?thesis using transaction_keeps[OF assms(5,2)] unfolding heartbeat_def by blast
next
  case (success eventId worker t r)
  thus ?thesis using transaction_keeps[OF assms(6,2)] unfolding succeed_def by blast
next
  case (retryable eventId worker t opts rs)
  thus ?thesis using transaction_keeps[OF assms(7,2)] assms(2)
    unfolding failRetryable_def by (auto split: sum.splits)
next
  case (terminal eventId worker t cls r)
  thus ?thesis using transaction_keeps[OF assms(8,2)] assms(2)
    unfolding failTerminal_def by (auto split: sum.splits)
qed

lemma outbox_steps_inv:
  assumes "(outbox_step sv)\<^sup>*\<^sup>* db db'" "outbox_inv db" "audit_ok sv db"
  shows "outbox_inv db' \<and> audit_ok sv db'"
  using assms
proof (induction rule: rtranclp_induct)
  case (step y z)
  have "outbox_inv z" by (rule outbox_step_invariant[OF step(2)]) (use step in \<open>auto intro: keeps_rules\<close>)
  moreover have "audit_ok sv z" by (rule outbox_step_invariant[OF step(2)]) (use step in \<open>auto intro: keeps_rules\<close>)
  ultimately show ?case ..
qed simp

lemma empty_outbox_inv: "outbox_inv empty_database" "audit_ok sv empty_database"
  by (simp_all add: empty_database_def outbox_inv_def audit_ok_def chain_of_def audit_head_def)

section \<open>Leases\<close>

text \<open>A worker holds the lease on an event at a time.\<close>

definition holds_lease :: "database \<Rightarrow> string \<Rightarrow> string \<Rightarrow> time \<Rightarrow> bool" where
  "holds_lease db eventId w t \<longleftrightarrow>
     (case select_where (\<lambda>r. ob_id r = eventId) (db_outbox db) of
        None \<Rightarrow> False
      | Some r \<Rightarrow> ob_state r = O_claimed \<and> ob_lease_owner r = Some w
          \<and> (case ob_lease_expires_at r of Some e \<Rightarrow> t < e | None \<Rightarrow> False))"

lemma loadClaim_iff_holds:
  "(\<exists>row. loadClaim eventId w t db = Inr (row, db)) \<longleftrightarrow> holds_lease db eventId w t"
  "\<not> holds_lease db eventId w t \<Longrightarrow> loadClaim eventId w t db =
     Inl (RepositoryConflictError ''outbox lease is missing, expired, or owned by another worker'')"
  by (auto simp: loadClaim_Inr holds_lease_def split: option.splits)
     (auto simp: loadClaim_def body_defs split: option.splits)

lemma holds_lease_owner:
  assumes "holds_lease db e v t" "holds_lease db e w u"
  shows "v = w"
  using assms by (auto simp: holds_lease_def split: option.splits)

lemma holds_lease_mono: "holds_lease db e w t \<Longrightarrow> u \<le> t \<Longrightarrow> holds_lease db e w u"
  by (auto simp: holds_lease_def split: option.splits)

lemma holds_lease_cong: "db_outbox db' = db_outbox db \<Longrightarrow> holds_lease db' e w t = holds_lease db e w t"
  by (simp add: holds_lease_def)

text \<open>An update of one event leaves the leases of the other events as they are.\<close>

definition touches_only :: "string \<Rightarrow> database \<Rightarrow> database \<Rightarrow> bool" where
  "touches_only i db db' \<longleftrightarrow>
     (\<exists>P f. db_outbox db' = update_where P f (db_outbox db)
        \<and> (\<forall>r. P r \<longrightarrow> ob_id r = i) \<and> (\<forall>r. ob_id (f r) = ob_id r))"

lemma touches_only_lease:
  assumes "touches_only i db db'" "e \<noteq> i"
  shows "holds_lease db' e w t = holds_lease db e w t"
proof -
  obtain P f where db': "db_outbox db' = update_where P f (db_outbox db)"
    and P: "\<And>r. P r \<Longrightarrow> ob_id r = i" and f: "\<And>r. ob_id (f r) = ob_id r"
    using assms(1) by (auto simp: touches_only_def)
  have "select_where (\<lambda>r. ob_id r = e) (db_outbox db') =
      (case select_where (\<lambda>r. ob_id r = e) (db_outbox db) of None \<Rightarrow> None
       | Some r \<Rightarrow> Some (if P r then f r else r))"
    unfolding db' by (rule select_where_update_where) (simp add: f)
  thus ?thesis using assms(2) P
    by (auto simp: holds_lease_def dest!: P select_where_SomeD(2) split: option.splits)
qed

lemma touches_onlyI:
  assumes "db_outbox db' = update_where P f (db_outbox db)" "\<And>r. P r \<Longrightarrow> ob_id r = i"
    "\<And>r. ob_id (f r) = ob_id r"
  shows "touches_only i db db'"
  using assms unfolding touches_only_def by blast

lemma touches_update_audit:
  assumes "update_outbox P f dbm = Inr (u, db2)" "db_outbox dbm = db_outbox db"
    and "outbox_audit sv worker row command reason prior new result db2 = Inr (v, db')"
    and "\<And>r. P r \<Longrightarrow> ob_id r = i" "\<And>r. ob_id (f r) = ob_id r"
  shows "touches_only i db db'"
  by (rule touches_onlyI[of db' P f])
     (use assms untouchedD[OF outbox_audit_frame(1) assms(3)] in \<open>auto simp: update_outbox_Inr\<close>)

lemma recordAttempt_frame: "recordAttempt sv row w n result cls started t db = Inr (u, db') \<Longrightarrow> db_outbox db' = db_outbox db"
  by (auto simp: recordAttempt_Inr)

lemma loadClaim_holds:
  assumes "bindT (loadClaim eventId w t) F db = Inr (a, db')"
  shows "holds_lease db eventId w t"
proof -
  obtain row db1 where "loadClaim eventId w t db = Inr (row, db1)" using assms by auto
  hence "loadClaim eventId w t db = Inr (row, db)" using loadClaim_row(4) by metis
  thus ?thesis using loadClaim_iff_holds(1) by blast
qed

text \<open>The four operations that need the lease, and what they touch.\<close>

lemma succeed_outcome:
  assumes "succeed_body sv eventId worker t db = Inr (u, db')"
  shows "holds_lease db eventId (ow_workerReference worker) t" "touches_only eventId db db'"
proof -
  show "holds_lease db eventId (ow_workerReference worker) t"
    by (rule loadClaim_holds) (rule assms[unfolded succeed_body_def])
  from assms obtain row db1 db2 where "loadClaim eventId (ow_workerReference worker) t db = Inr (row, db)"
    and rec: "recordAttempt sv row (Some (ow_workerReference worker)) (ob_attempt_count row) ''succeeded'' None
       (ob_lease_acquired_at row) t db = Inr ((), db1)"
    and upd: "update_outbox (\<lambda>r. ob_id r = eventId)
       (\<lambda>r. r\<lparr>ob_state := O_succeeded, ob_lease_owner := None, ob_lease_acquired_at := None,
             ob_lease_expires_at := None, ob_completed_at := Some t\<rparr>) db1 = Inr ((), db2)"
    and aud: "outbox_audit sv worker row ''completeOutboxEvent'' ''worker_success'' ''claimed'' ''succeeded''
       ''succeeded'' db2 = Inr (u, db')"
    unfolding succeed_body_def by (auto dest: loadClaim_row(4))
  show "touches_only eventId db db'"
    by (rule touches_update_audit[OF upd recordAttempt_frame[OF rec] aud]) auto
qed

lemma failTerminal_outcome:
  assumes "failTerminal_body sv eventId worker t cls db = Inr (u, db')"
  shows "holds_lease db eventId (ow_workerReference worker) t" "touches_only eventId db db'"
proof -
  show "holds_lease db eventId (ow_workerReference worker) t"
    by (rule loadClaim_holds) (rule assms[unfolded failTerminal_body_def])
  from assms obtain row db1 db2 where "loadClaim eventId (ow_workerReference worker) t db = Inr (row, db)"
    and rec: "recordAttempt sv row (Some (ow_workerReference worker)) (ob_attempt_count row) ''failed'' (Some cls)
       (ob_lease_acquired_at row) t db = Inr ((), db1)"
    and upd: "update_outbox (\<lambda>r. ob_id r = eventId)
       (\<lambda>r. r\<lparr>ob_state := O_terminal_failed, ob_lease_owner := None, ob_lease_acquired_at := None,
             ob_lease_expires_at := None, ob_last_error_class := Some cls, ob_completed_at := Some t\<rparr>)
       db1 = Inr ((), db2)"
    and aud: "outbox_audit sv worker row ''terminallyFailOutboxEvent'' cls ''claimed'' ''terminal_failed''
       ''failed'' db2 = Inr (u, db')"
    unfolding failTerminal_body_def by (auto dest: loadClaim_row(4))
  show "touches_only eventId db db'"
    by (rule touches_update_audit[OF upd recordAttempt_frame[OF rec] aud]) auto
qed

lemma failRetryable_outcome:
  assumes "failRetryable_body sv eventId worker t options db = Inr (st, db')"
  shows "holds_lease db eventId (ow_workerReference worker) t" "touches_only eventId db db'"
proof -
  show "holds_lease db eventId (ow_workerReference worker) t"
    by (rule loadClaim_holds) (rule assms[unfolded failRetryable_body_def])
  show "touches_only eventId db db'"
  proof (rule failRetryable_steps[OF assms])
    fix row db1 db2
    assume rec: "recordAttempt sv row (Some (ow_workerReference worker)) (ob_attempt_count row) ''failed''
       (Some (rf_errorClass options)) (ob_lease_acquired_at row) t db = Inr ((), db1)"
      and upd: "update_outbox (\<lambda>r. ob_id r = eventId) (\<lambda>r. r\<lparr>ob_state := st,
       ob_available_at := t + backoff_delay options (ob_attempt_count row), ob_lease_owner := None,
       ob_lease_acquired_at := None, ob_lease_expires_at := None,
       ob_last_error_class := Some (rf_errorClass options),
       ob_completed_at := (if ob_attempt_count row \<ge> int_of_number (rf_maxAttempts options)
          then Some t else None)\<rparr>) db1 = Inr ((), db2)"
      and aud: "outbox_audit sv worker row ''failOutboxEvent'' (rf_errorClass options) ''claimed''
       (outbox_state_name st) ''failed'' db2 = Inr ((), db')"
    show ?thesis by (rule touches_update_audit[OF upd recordAttempt_frame[OF rec] aud]) auto
  qed
qed

lemma heartbeat_outcome:
  assumes "heartbeat_body sv eventId worker t d db = Inr (x, db')"
  shows "holds_lease db eventId (ow_workerReference worker) t" "touches_only eventId db db'"
proof -
  show "holds_lease db eventId (ow_workerReference worker) t"
    by (rule loadClaim_holds) (rule assms[unfolded heartbeat_body_def])
  from assms obtain row db2 where "loadClaim eventId (ow_workerReference worker) t db = Inr (row, db)"
    and upd: "update_outbox (\<lambda>r. ob_id r = eventId \<and> ob_state r = O_claimed
                  \<and> ob_lease_owner r = Some (ow_workerReference worker))
              (\<lambda>r. r\<lparr>ob_lease_expires_at := Some (t + d)\<rparr>) db = Inr ((), db2)"
    and aud: "outbox_audit sv worker row ''heartbeatOutboxLease'' ''worker_heartbeat''
              ''claimed'' ''claimed'' ''succeeded'' db2 = Inr ((), db')"
    unfolding heartbeat_body_def Let_def by (auto dest: loadClaim_row(4))
  show "touches_only eventId db db'" by (rule touches_update_audit[OF upd refl aud]) auto
qed

lemma claim_outcome:
  assumes inv: "outbox_inv db" and run: "claimNext_body sv worker t d types single db = Inr (Some c, db')"
  shows "\<not> holds_lease db (oc_id c) v t"
    and "u < t + d \<Longrightarrow> holds_lease db' (oc_id c) (ow_workerReference worker) u"
    and "e \<noteq> oc_id c \<Longrightarrow> holds_lease db' e v u = holds_lease db e v u"
proof -
  from run obtain row and dbm :: database where
    row: "claim_candidate t types single (db_outbox db) = Some row" and c: "oc_id c = ob_id row"
    and db': "db_outbox db' = update_where (\<lambda>r. ob_id r = ob_id row)
        (claimed_by (ow_workerReference worker) t d) (db_outbox db)"
    by (rule claimNext_steps)
  have r: "row \<in> set (db_outbox db)" "outbox_ready t row"
    using claim_candidate_SomeD(1,2)[OF row] by (auto simp: claimable_def)
  have "distinct (map ob_id (db_outbox db))" using inv unfolding outbox_inv_def by blast
  hence sel: "select_where (\<lambda>r. ob_id r = ob_id row) (db_outbox db) = Some row"
    using r(1) by (rule select_where_unique) auto
  show "\<not> holds_lease db (oc_id c) v t"
    using r(2) sel by (auto simp: holds_lease_def c outbox_ready_def split: option.splits)
  have "select_where (\<lambda>r. ob_id r = ob_id row) (db_outbox db') =
      Some (claimed_by (ow_workerReference worker) t d row)"
    unfolding db' by (subst select_where_update_where) (auto simp: sel)
  thus "u < t + d \<Longrightarrow> holds_lease db' (oc_id c) (ow_workerReference worker) u"
    by (simp add: holds_lease_def c)
  show "e \<noteq> oc_id c \<Longrightarrow> holds_lease db' e v u = holds_lease db e v u"
    by (rule touches_only_lease[OF touches_onlyI[OF db']]) (use c in auto)
qed

end
