(* ===== verification/Outbox_Leases.thy ===== *)
theory Outbox_Leases
  imports Outbox
begin

text \<open>
  What the leases of the outbox promise.  The interface \<open>lease_store\<close> has calls by workers at times;
  its laws are those a queue of leases must keep, and the lemma proved in it is that a lease is
  exclusive over any sequence of calls of other workers.  The outbox repository is an instance.  The
  rest of the theory has the properties of the single operations: order of claims, backoff,
  completion only under a lease, and that no event is lost.
\<close>

locale lease_store =
  fixes inv :: "'db \<Rightarrow> bool"
    and holds :: "'db \<Rightarrow> string \<Rightarrow> string \<Rightarrow> time \<Rightarrow> bool"
    and call :: "'c \<Rightarrow> 'db \<Rightarrow> 'db"
    and caller :: "'c \<Rightarrow> string"
    and call_time :: "'c \<Rightarrow> time"
    and claimed :: "'c \<Rightarrow> 'db \<Rightarrow> string option"
  assumes call_inv: "inv db \<Longrightarrow> inv (call c db)"
    and claim_free: "inv db \<Longrightarrow> claimed c db = Some e \<Longrightarrow> \<not> holds db e w (call_time c)"
    and foreign_call: "inv db \<Longrightarrow> caller c \<noteq> w \<Longrightarrow> holds db e w (call_time c) \<Longrightarrow> holds db e w u
        \<Longrightarrow> holds (call c db) e w u"
begin

fun claims :: "'c list \<Rightarrow> 'db \<Rightarrow> string list" where
  "claims [] db = []"
| "claims (c # cs) db = (case claimed c db of Some e \<Rightarrow> [e] | None \<Rightarrow> []) @ claims cs (call c db)"

lemma exclusive_lease:
  assumes "inv db" "\<And>u. t \<le> u \<Longrightarrow> u < x \<Longrightarrow> holds db e w u"
    and "\<And>c. c \<in> set cs \<Longrightarrow> caller c \<noteq> w \<and> t \<le> call_time c \<and> call_time c < x"
  shows "(\<forall>u. t \<le> u \<and> u < x \<longrightarrow> holds (fold call cs db) e w u) \<and> e \<notin> set (claims cs db)"
  using assms
proof (induction cs arbitrary: db)
  case (Cons c cs)
  have c: "caller c \<noteq> w" "holds db e w (call_time c)" using Cons.prems(2,3) by auto
  have "claimed c db \<noteq> Some e" using claim_free[OF Cons.prems(1)] c(2) by blast
  moreover have "(\<forall>u. t \<le> u \<and> u < x \<longrightarrow> holds (fold call cs (call c db)) e w u)
      \<and> e \<notin> set (claims cs (call c db))"
    by (rule Cons.IH) (use Cons.prems c call_inv foreign_call in auto)
  ultimately show ?case by (auto split: option.splits)
qed auto

end

section \<open>The outbox as a lease store\<close>

datatype outbox_call =
    CallClaim OutboxWorkerContext time js_number OutboxClaimOptions
  | CallHeartbeat string OutboxWorkerContext time int
  | CallSucceed string OutboxWorkerContext time
  | CallFailRetryable string OutboxWorkerContext time RetryFailureOptions
  | CallFailTerminal string OutboxWorkerContext time string

fun run_outbox_call :: "services \<Rightarrow> outbox_call \<Rightarrow> database \<Rightarrow> database" where
  "run_outbox_call sv (CallClaim w t d options) db = snd (claimNext sv w t d options db)"
| "run_outbox_call sv (CallHeartbeat e w t d) db = snd (heartbeat sv e w t d db)"
| "run_outbox_call sv (CallSucceed e w t) db = snd (succeed sv e w t db)"
| "run_outbox_call sv (CallFailRetryable e w t options) db = snd (failRetryable sv e w t options db)"
| "run_outbox_call sv (CallFailTerminal e w t cls) db = snd (failTerminal sv e w t cls db)"

fun outbox_caller :: "outbox_call \<Rightarrow> string" where
  "outbox_caller (CallClaim w t d options) = ow_workerReference w"
| "outbox_caller (CallHeartbeat e w t d) = ow_workerReference w"
| "outbox_caller (CallSucceed e w t) = ow_workerReference w"
| "outbox_caller (CallFailRetryable e w t options) = ow_workerReference w"
| "outbox_caller (CallFailTerminal e w t cls) = ow_workerReference w"

fun outbox_call_time :: "outbox_call \<Rightarrow> time" where
  "outbox_call_time (CallClaim w t d options) = t"
| "outbox_call_time (CallHeartbeat e w t d) = t"
| "outbox_call_time (CallSucceed e w t) = t"
| "outbox_call_time (CallFailRetryable e w t options) = t"
| "outbox_call_time (CallFailTerminal e w t cls) = t"

fun outbox_claimed :: "services \<Rightarrow> outbox_call \<Rightarrow> database \<Rightarrow> string option" where
  "outbox_claimed sv (CallClaim w t d options) db =
     (case fst (claimNext sv w t d options db) of Inr (Some c) \<Rightarrow> Some (oc_id c) | _ \<Rightarrow> None)"
| "outbox_claimed sv _ db = None"

lemma outbox_call_step: "outbox_step sv db (run_outbox_call sv c db)"
  by (cases c) (auto intro: outbox_step.intros prod.collapse[symmetric])

lemma outbox_call_inv: "outbox_inv db \<Longrightarrow> outbox_inv (run_outbox_call sv c db)"
  using outbox_step_invariant[OF outbox_call_step, of outbox_inv] by (auto intro: keeps_rules)

lemma claimNext_cases:
  assumes "claimNext sv w t d options db = (r, db')"
  obtains (unchanged) "db' = db" "\<And>c. r \<noteq> Inr (Some c)"
  | (claimed) c types k where "r = Inr (Some c)" "d = num k" "0 < k"
      "validateEventTypes (co_eventTypes options) = Inr types"
      "claimNext_body sv w t k types (co_singleWriterByAggregate options) db = Inr (Some c, db')"
proof (cases "bind_result (requireOpaqueReference (ow_workerReference w) ''worker reference'') (\<lambda>_.
           if \<not> isInteger d \<or> \<not> js_less (num 0) d
           then Inl (RepositoryConflictError ''lease duration must be a positive integer'')
           else validateEventTypes (co_eventTypes options))")
  case (Inl e)
  hence "r = Inl e" "db' = db" using assms by (simp_all add: claimNext_def)
  thus ?thesis using unchanged by simp
next
  case (Inr types)
  hence v: "isInteger d" "js_less (num 0) d" "validateEventTypes (co_eventTypes options) = Inr types"
    by (auto split: if_splits)
  then obtain k where k: "d = num k" "0 < k" by (auto simp: isInteger_iff)
  have run: "transaction (claimNext_body sv w t k types (co_singleWriterByAggregate options)) db = (r, db')"
    using assms k(1) unfolding claimNext_def Inr by (simp only: sum.case int_of_number_num)
  show ?thesis
  proof (cases r)
    case (Inl e)
    thus ?thesis using run unchanged by (simp add: transaction_Inl)
  next
    case (Inr res)
    hence body: "claimNext_body sv w t k types (co_singleWriterByAggregate options) db = Inr (res, db')"
      using run by (simp add: transaction_Inr)
    show ?thesis
    proof (cases res)
      case None
      thus ?thesis using body Inr unchanged claimNext_None(1) by simp
    next
      case (Some c)
      thus ?thesis using body Inr claimed k v by simp
    qed
  qed
qed

lemma finisher_foreign:
  assumes "\<And>a db'. body db = Inr (a, db') \<Longrightarrow> holds_lease db i v t \<and> touches_only i db db'"
    and "v \<noteq> w" "holds_lease db e w t"
  shows "holds_lease (snd (transaction body db)) e w u = holds_lease db e w u"
proof (cases "body db")
  case (Inl x)
  thus ?thesis by (simp add: transaction_eq)
next
  case (Inr p)
  obtain a db' where p: "p = (a, db')" by (rule prod.exhaust)
  hence h: "holds_lease db i v t" "touches_only i db db'" using assms(1) Inr by auto
  have "e \<noteq> i" using holds_lease_owner[OF _ h(1)] assms(2,3) by blast
  thus ?thesis using touches_only_lease[OF h(2)] Inr p by (simp add: transaction_eq)
qed

lemma outbox_foreign_call:
  assumes inv: "outbox_inv db" and w: "outbox_caller c \<noteq> w" and h: "holds_lease db e w (outbox_call_time c)"
  shows "holds_lease (run_outbox_call sv c db) e w u = holds_lease db e w u"
proof (cases c)
  case (CallClaim v t d options)
  obtain r db' where run: "claimNext sv v t d options db = (r, db')" by (rule prod.exhaust)
  show ?thesis
    using run
  proof (cases rule: claimNext_cases)
    case (claimed cl types k)
    have "e \<noteq> oc_id cl" using claim_outcome(1)[OF inv claimed(5)] h CallClaim by auto
    thus ?thesis using claim_outcome(3)[OF inv claimed(5)] CallClaim run by simp
  qed (use CallClaim run in simp)
next
  case (CallHeartbeat i v t d)
  have "holds_lease (snd (heartbeat sv i v t d db)) e w u = holds_lease db e w u"
    unfolding heartbeat_def
    by (rule finisher_foreign[where v = "ow_workerReference v" and t = t and i = i])
       (use CallHeartbeat w h heartbeat_outcome in auto)
  thus ?thesis using CallHeartbeat by simp
next
  case (CallSucceed i v t)
  have "holds_lease (snd (succeed sv i v t db)) e w u = holds_lease db e w u"
    unfolding succeed_def
    by (rule finisher_foreign[where v = "ow_workerReference v" and t = t and i = i])
       (use CallSucceed w h succeed_outcome in auto)
  thus ?thesis using CallSucceed by simp
next
  case (CallFailRetryable i v t options)
  have "holds_lease (snd (transaction (failRetryable_body sv i v t options) db)) e w u = holds_lease db e w u"
    by (rule finisher_foreign[where v = "ow_workerReference v" and t = t and i = i])
       (use CallFailRetryable w h failRetryable_outcome in auto)
  thus ?thesis using CallFailRetryable by (simp add: failRetryable_def split: sum.splits)
next
  case (CallFailTerminal i v t cls)
  have "holds_lease (snd (transaction (failTerminal_body sv i v t cls) db)) e w u = holds_lease db e w u"
    by (rule finisher_foreign[where v = "ow_workerReference v" and t = t and i = i])
       (use CallFailTerminal w h failTerminal_outcome in auto)
  thus ?thesis using CallFailTerminal by (simp add: failTerminal_def split: sum.splits)
qed

lemma outbox_claim_free:
  assumes "outbox_inv db" "outbox_claimed sv c db = Some e"
  shows "\<not> holds_lease db e w (outbox_call_time c)"
proof (cases c)
  case (CallClaim v t d options)
  obtain r db' where run: "claimNext sv v t d options db = (r, db')" by (rule prod.exhaust)
  show ?thesis
    using run
  proof (cases rule: claimNext_cases)
    case unchanged
    thus ?thesis using assms(2) CallClaim run by (auto split: sum.splits option.splits)
  next
    case (claimed cl types k)
    thus ?thesis using claim_outcome(1)[OF assms(1) claimed(5)] assms(2) CallClaim run by simp
  qed
qed (use assms in auto)

interpretation outbox_leases: lease_store outbox_inv holds_lease "run_outbox_call sv" outbox_caller
  outbox_call_time "outbox_claimed sv" for sv
  by unfold_locales (auto simp: outbox_call_inv outbox_claim_free outbox_foreign_call)

section \<open>Properties of the queue\<close>

text \<open>
  C5. A lease is exclusive.  After a worker claimed an event at time t for d milliseconds, other
  workers may call claim, heartbeat, succeed and both failure operations in any order and any number
  at times from t to before t + d: the worker still holds the lease for the whole of that time, and
  none of the calls claims the event.
\<close>

theorem lease_is_exclusive:
  assumes "outbox_inv db" "claimNext sv worker t (num d) options db = (Inr (Some c), db')"
    and "\<And>k. k \<in> set calls \<Longrightarrow> outbox_caller k \<noteq> ow_workerReference worker
            \<and> t \<le> outbox_call_time k \<and> outbox_call_time k < t + d"
  shows "(\<forall>u. t \<le> u \<and> u < t + d \<longrightarrow>
            holds_lease (fold (run_outbox_call sv) calls db') (oc_id c) (ow_workerReference worker) u)
     \<and> oc_id c \<notin> set (outbox_leases.claims sv calls db')"
proof (rule outbox_leases.exclusive_lease)
  obtain types where body:
      "claimNext_body sv worker t d types (co_singleWriterByAggregate options) db = Inr (Some c, db')"
    using assms(2) by (cases rule: claimNext_cases) auto
  show "outbox_inv db'" using keepsD[OF claimNext_inv assms(1) body] .
  show "holds_lease db' (oc_id c) (ow_workerReference worker) u" if "t \<le> u" "u < t + d" for u
    using claim_outcome(2)[OF assms(1) body] that by simp
qed (rule assms(3))

text \<open>
  C27. The attempt history is complete.  Starting from an empty database, after any sequence of
  enqueue, claim, heartbeat, success and failure calls, by any workers at any times, successful or
  not, the recorded attempts of every event are exactly the numbers 1, 2, 3 and so on up to the
  attempts that are over, each recorded once; every row satisfies the lease and completion
  constraints; and every audit chain is valid.
\<close>

theorem attempt_history_is_complete:
  "(outbox_step sv)\<^sup>*\<^sup>* empty_database db \<Longrightarrow>
     (\<forall>r \<in> set (db_outbox db).
        attempt_numbers db (ob_id r) = {1 .. ob_attempt_count r - (if ob_state r = O_claimed then 1 else 0)}
        \<and> outbox_lease_consistent r \<and> outbox_completion_consistent r)
     \<and> distinct (map (\<lambda>a. (ao_outbox_event_id a, ao_attempt a)) (db_attempts db))
     \<and> audit_ok sv db"
proof -
  assume "(outbox_step sv)\<^sup>*\<^sup>* empty_database db"
  hence "outbox_inv db \<and> audit_ok sv db" by (rule outbox_steps_inv) (rule empty_outbox_inv)+
  moreover have "map attempt_key l = map (\<lambda>a. (ao_outbox_event_id a, ao_attempt a)) l" for l
    by (simp add: attempt_key_def)
  ultimately show ?thesis
    unfolding outbox_inv_def outbox_row_ok_def finished_attempts_def by metis
qed

lemma no_lease_transaction:
  assumes "\<not> holds_lease db eventId w t"
  shows "transaction (bindT (loadClaim eventId w t) F) db =
      (Inl (RepositoryConflictError ''outbox lease is missing, expired, or owned by another worker''), db)"
  using loadClaim_iff_holds(2)[OF assms] by (simp add: transaction_eq bindT_def)

text \<open>
  Only the holder of a live lease can end or extend an attempt.  When the caller does not hold
  the lease at the time of the call, because the event is unknown, not claimed, claimed by another
  worker or its lease has run out, then heartbeat, succeed, failRetryable and failTerminal all raise
  the conflict error (or the error for invalid settings) and leave the database as it is.
\<close>

theorem no_completion_without_lease:
  assumes "\<not> holds_lease db eventId (ow_workerReference worker) t"
  shows "heartbeat sv eventId worker t d db = (Inl (RepositoryConflictError
            ''outbox lease is missing, expired, or owned by another worker''), db)
     \<and> succeed sv eventId worker t db = (Inl (RepositoryConflictError
            ''outbox lease is missing, expired, or owned by another worker''), db)
     \<and> (\<exists>msg. failRetryable sv eventId worker t options db = (Inl (RepositoryConflictError msg), db))
     \<and> (\<exists>msg. failTerminal sv eventId worker t cls db = (Inl (RepositoryConflictError msg), db))"
proof -
  note fail = no_lease_transaction[OF assms]
  have "\<exists>msg. failRetryable sv eventId worker t options db = (Inl (RepositoryConflictError msg), db)"
    unfolding failRetryable_def failRetryable_body_def using fail
    by (auto simp: validateFailureOptions_def requireErrorClass_def split: sum.splits)
  moreover have "\<exists>msg. failTerminal sv eventId worker t cls db = (Inl (RepositoryConflictError msg), db)"
    unfolding failTerminal_def failTerminal_body_def using fail
    by (auto simp: requireErrorClass_def split: sum.splits)
  moreover have "heartbeat sv eventId worker t d db = (Inl (RepositoryConflictError
            ''outbox lease is missing, expired, or owned by another worker''), db)"
    unfolding heartbeat_def heartbeat_body_def by (rule fail)
  moreover have "succeed sv eventId worker t db = (Inl (RepositoryConflictError
            ''outbox lease is missing, expired, or owned by another worker''), db)"
    unfolding succeed_def succeed_body_def by (rule fail)
  ultimately show ?thesis by blast
qed

text \<open>
  Claims are in order and respect the single writer.  The event a claim returns was ready and of
  a selected type, and no claimable event precedes it in the order of availability, creation and
  identifier.  With the single-writer option no other event of the same type and aggregate is under
  a live lease when it is claimed.
\<close>

theorem claim_takes_oldest_claimable:
  assumes "claimNext sv worker t d options db = (Inr (Some c), db')"
  shows "\<exists>row \<in> set (db_outbox db). \<exists>types.
       validateEventTypes (co_eventTypes options) = Inr types
       \<and> oc_id c = ob_id row \<and> oc_attempt c = ob_attempt_count row + 1
       \<and> outbox_ready t row \<and> selected_type types row
       \<and> (\<forall>q \<in> set (db_outbox db). claimable t types (co_singleWriterByAggregate options) (db_outbox db) q
            \<longrightarrow> claim_order row \<le> claim_order q)
       \<and> (co_singleWriterByAggregate options \<longrightarrow>
            (\<forall>q \<in> set (db_outbox db). ob_id q \<noteq> ob_id row \<longrightarrow> same_aggregate q row \<longrightarrow> \<not> live_claim t q))"
  using assms
proof (cases rule: claimNext_cases)
  case (claimed c' types k)
  from claimed(5) obtain row and dbm :: database where
    row: "claim_candidate t types (co_singleWriterByAggregate options) (db_outbox db) = Some row"
    and c: "oc_id c' = ob_id row" "oc_attempt c' = ob_attempt_count row + 1"
    by (rule claimNext_steps)
  note cand = claim_candidate_SomeD[OF row]
  have "c' = c" using claimed(1) by simp
  thus ?thesis using cand c claimed(4) by (intro bexI[OF _ cand(1)] exI[of _ types])
      (auto simp: claimable_def list_ex_iff)
qed auto

text \<open>
  Backoff.  A retryable failure ends in a dead letter exactly when the attempt count has reached
  the maximum; otherwise the event becomes available again after the base delay doubled once per
  earlier attempt, capped at the maximum delay.  The delay is never below the base, never above the
  cap, and does not shrink from one attempt to the next.
\<close>

theorem retry_backoff_is_bounded:
  assumes "failRetryable sv eventId worker t options db = (Inr st, db')"
  shows "\<exists>row base cap maxAttempts.
       select_where (\<lambda>r. ob_id r = eventId) (db_outbox db) = Some row
       \<and> rf_baseBackoffMs options = num base \<and> rf_maxBackoffMs options = num cap
       \<and> rf_maxAttempts options = num maxAttempts \<and> 1 \<le> base \<and> base \<le> cap
       \<and> st = (if ob_attempt_count row \<ge> maxAttempts then O_dead_letter else O_retryable_failed)
       \<and> (\<exists>row'. select_where (\<lambda>r. ob_id r = eventId) (db_outbox db') = Some row'
             \<and> ob_state row' = st
             \<and> ob_available_at row' = t + min (base * 2 ^ nat (max 0 (ob_attempt_count row - 1))) cap
             \<and> t + base \<le> ob_available_at row' \<and> ob_available_at row' \<le> t + cap)
       \<and> backoff_delay options (ob_attempt_count row) \<le> backoff_delay options (ob_attempt_count row + 1)"
proof -
  have body: "failRetryable_body sv eventId worker t options db = Inr (st, db')"
    and valid: "validateFailureOptions options = Inr ()"
    using assms by (auto simp: failRetryable_def transaction_Inr split: sum.splits)
  obtain m b x where nums: "rf_maxAttempts options = num m" "rf_baseBackoffMs options = num b"
      "rf_maxBackoffMs options = num x" "1 \<le> b" "b \<le> x"
    using valid by (auto simp: validateFailureOptions_def isInteger_iff split: if_splits)
  from failRetryable_steps[OF body] obtain row db1 db2 where
    s: "loadClaim eventId (ow_workerReference worker) t db = Inr (row, db)"
    "recordAttempt sv row (Some (ow_workerReference worker)) (ob_attempt_count row) ''failed''
       (Some (rf_errorClass options)) (ob_lease_acquired_at row) t db = Inr ((), db1)"
    and st: "st = (if ob_attempt_count row \<ge> int_of_number (rf_maxAttempts options) then O_dead_letter
           else O_retryable_failed)"
    and upd: "update_outbox (\<lambda>r. ob_id r = eventId) (\<lambda>r. r\<lparr>ob_state := st,
       ob_available_at := t + backoff_delay options (ob_attempt_count row), ob_lease_owner := None,
       ob_lease_acquired_at := None, ob_lease_expires_at := None,
       ob_last_error_class := Some (rf_errorClass options),
       ob_completed_at := (if ob_attempt_count row \<ge> int_of_number (rf_maxAttempts options)
          then Some t else None)\<rparr>) db1 = Inr ((), db2)"
    and aud: "outbox_audit sv worker row ''failOutboxEvent'' (rf_errorClass options) ''claimed''
       (outbox_state_name st) ''failed'' db2 = Inr ((), db')" by metis
  have row: "select_where (\<lambda>r. ob_id r = eventId) (db_outbox db) = Some row" "ob_id row = eventId"
    using s(1) loadClaim_row(2)[OF s(1)] by (auto simp: loadClaim_Inr)
  obtain row' where row': "select_where (\<lambda>r. ob_id r = eventId) (db_outbox db') = Some row'"
      "ob_state row' = st" "ob_available_at row' = t + backoff_delay options (ob_attempt_count row)"
    using upd untouchedD[OF outbox_audit_frame(1) aud] recordAttempt_frame[OF s(2)] row
    by (auto simp: update_outbox_Inr select_where_update_where)
  have pow: "1 \<le> (2::int) ^ n" "(2::int) ^ n \<le> 2 ^ Suc n" for n by simp_all
  have delay: "backoff_delay options k = min (b * 2 ^ nat (max 0 (k - 1))) x" for k
    using nums by (simp add: backoff_delay_def)
  have bounds: "b \<le> backoff_delay options k" "backoff_delay options k \<le> x" for k
    using nums pow(1)[of "nat (max 0 (k - 1))"] by (auto simp: delay mult_le_cancel_left1)
  have "nat (max 0 (k - 1)) \<le> nat (max 0 (k + 1 - 1))" for k :: int by simp
  hence "(2::int) ^ nat (max 0 (k - 1)) \<le> 2 ^ nat (max 0 (k + 1 - 1))" for k :: int
    by (rule power_increasing) simp
  hence mono: "backoff_delay options k \<le> backoff_delay options (k + 1)" for k
    using nums(4) unfolding delay by (intro min.mono mult_left_mono) auto
  have st': "st = (if ob_attempt_count row \<ge> m then O_dead_letter else O_retryable_failed)"
    using st nums(1) by simp
  have avail: "ob_available_at row' = t + min (b * 2 ^ nat (max 0 (ob_attempt_count row - 1))) x"
      "t + b \<le> ob_available_at row'" "ob_available_at row' \<le> t + x"
    using row'(3) delay bounds[of "ob_attempt_count row"] by simp_all
  show ?thesis
    by (rule exI[of _ row], rule exI[of _ b], rule exI[of _ x], rule exI[of _ m],
        intro conjI exI[of _ row'])
       (rule row(1) nums st' row'(1,2) avail mono)+
qed

section \<open>No event is lost\<close>

text \<open>The time at which an event becomes ready when nobody touches it.\<close>

definition ready_at :: "OutboxRow \<Rightarrow> time" where
  "ready_at r = (if ob_state r = O_claimed then (case ob_lease_expires_at r of Some e \<Rightarrow> e | None \<Rightarrow> 0)
     else ob_available_at r)"

lemma unfinished_is_ready:
  assumes "outbox_row_ok r" "\<not> outbox_final (ob_state r)" "ready_at r \<le> t"
  shows "outbox_ready t r"
  using assms by (cases "ob_state r")
    (auto simp: outbox_row_ok_def outbox_lease_consistent_def outbox_final_def outbox_ready_def ready_at_def
          split: option.splits)

lemma expired_lease_is_recorded:
  assumes inv: "outbox_inv db" and row: "row \<in> set (db_outbox db)" "outbox_ready t row" "ob_state row = O_claimed"
  shows "\<exists>db1. recordAttempt sv row (ob_lease_owner row) (ob_attempt_count row) ''failed''
                (Some ''lease_expired'') (ob_lease_acquired_at row) t db = Inr ((), db1)"
proof -
  have ok: "outbox_row_ok row" "0 \<le> finished_attempts row"
      "attempt_numbers db (ob_id row) = {1 .. finished_attempts row}"
    using inv row(1) unfolding outbox_inv_def by blast+
  obtain w a e where lease: "ob_lease_owner row = Some w" "ob_lease_acquired_at row = Some a" "a < e" "e \<le> t"
    using ok(1) row(2,3) by (auto simp: outbox_row_ok_def outbox_lease_consistent_def outbox_ready_def split: option.splits)
  have "ob_attempt_count row \<notin> attempt_numbers db (ob_id row)"
    using ok(3) row(3) by (simp add: finished_attempts_def)
  moreover have "0 < ob_attempt_count row" using ok(2) row(3) by (simp add: finished_attempts_def)
  moreover have "\<not> (ao_outbox_event_id b = ob_id row \<and> ao_attempt b = ob_attempt_count row)"
    if "b \<in> set (db_attempts db)" for b
    using calculation(1) that by (force simp: attempt_numbers_def)
  ultimately show ?thesis using lease by (auto simp: recordAttempt_Inr)
qed

lemma claimable_row_can_be_claimed:
  assumes inv: "outbox_inv db" and row: "row \<in> set (db_outbox db)" "outbox_ready t row" and d: "0 < d"
    and same: "db_outbox dbm = db_outbox db"
  shows "\<exists>db2. update_outbox (\<lambda>r. ob_id r = ob_id row) (claimed_by w t d) dbm = Inr ((), db2)"
proof -
  have "outbox_row_ok row" using inv row(1) unfolding outbox_inv_def by blast
  hence "outbox_update_ok row (claimed_by w t d row)"
    using row(2) d by (auto simp: outbox_update_ok_def cbc_guard_outbox_transition_def outbox_row_ok_def
        outbox_lease_consistent_def outbox_completion_consistent_def outbox_final_def outbox_ready_def claimed_by_def)
  moreover have "r = row" if "r \<in> set (db_outbox dbm)" "ob_id r = ob_id row" for r
    using distinct_map_key_eq[of ob_id "db_outbox db" r row] that same inv row(1) by (simp add: outbox_inv_def)
  ultimately show ?thesis by (auto simp: update_outbox_Inr)
qed

lemma claim_candidate_is_claimed:
  assumes inv: "outbox_inv db" and cand: "claim_candidate t types single (db_outbox db) = Some row" and d: "0 < d"
  shows "\<exists>c db'. claimNext_body sv worker t d types single db = Inr (Some c, db') \<and> oc_id c = ob_id row"
proof -
  have row: "row \<in> set (db_outbox db)" "outbox_ready t row"
    using claim_candidate_SomeD(1,2)[OF cand] by (auto simp: claimable_def)
  define recover where "recover = (if ob_state row = O_claimed
      then bindT (recordAttempt sv row (ob_lease_owner row) (ob_attempt_count row) ''failed''
             (Some ''lease_expired'') (ob_lease_acquired_at row) t) (\<lambda>_.
           outbox_audit sv worker row ''recoverExpiredOutboxLease'' ''lease_expired'' ''claimed'' ''claimed'' ''succeeded'')
      else returnT ())"
  have "\<exists>db1. recover db = Inr ((), db1) \<and> db_outbox db1 = db_outbox db"
  proof (cases "ob_state row = O_claimed")
    case True
    obtain dbr where r: "recordAttempt sv row (ob_lease_owner row) (ob_attempt_count row) ''failed''
        (Some ''lease_expired'') (ob_lease_acquired_at row) t db = Inr ((), dbr)"
      using expired_lease_is_recorded[OF inv row True] by blast
    obtain db1 where a: "outbox_audit sv worker row ''recoverExpiredOutboxLease'' ''lease_expired''
        ''claimed'' ''claimed'' ''succeeded'' dbr = Inr ((), db1)" using outbox_audit_succeeds by blast
    have "db_outbox db1 = db_outbox db"
      using recordAttempt_frame[OF r] untouchedD[OF outbox_audit_frame(1) a] by simp
    thus ?thesis using True r a by (auto simp: recover_def)
  qed (simp add: recover_def)
  then obtain db1 where 1: "recover db = Inr ((), db1)" "db_outbox db1 = db_outbox db" by blast
  obtain db2 where 2: "update_outbox (\<lambda>r. ob_id r = ob_id row)
      (claimed_by (ow_workerReference worker) t d) db1 = Inr ((), db2)"
    using claimable_row_can_be_claimed[OF inv row d 1(2)] by blast
  obtain db3 where 3: "outbox_audit sv worker row ''claimOutboxEvent'' ''worker_claim''
      (outbox_state_name (ob_state row)) ''claimed'' ''succeeded'' db2 = Inr ((), db3)"
    using outbox_audit_succeeds by blast
  show ?thesis
    unfolding claimNext_body_def bindT_def[of "readT _"] readT_def bind_result.simps prod.case cand option.case
      recover_def[symmetric] Let_def bindT_def[of recover] bindT_def[of "update_outbox _ _"]
      bindT_def[of "outbox_audit _ _ _ _ _ _ _ _"] 1(1) 2 3
    by (simp add: returnT_def)
qed

text \<open>
  No event is lost.  Whatever happened before, whenever some event is not in a final state, there
  is a time from which a claim without filter by any worker returns that event or one before it in the
  order: a pending or failed event waits for its availability and a claimed one for the end of its
  lease, so an event whose worker died is handed out again.
\<close>

theorem unfinished_event_is_claimed_again:
  assumes "outbox_inv db" "r \<in> set (db_outbox db)" "\<not> outbox_final (ob_state r)" "ready_at r \<le> t"
    and "is_opaque_reference (ow_workerReference worker)" "0 < d"
  shows "\<exists>c db'. claimNext sv worker t (num d) \<lparr>co_eventTypes = None, co_singleWriterByAggregate = False\<rparr> db =
      (Inr (Some c), db') \<and> (\<exists>row \<in> set (db_outbox db). oc_id c = ob_id row \<and> claim_order row \<le> claim_order r)"
proof -
  have "outbox_row_ok r" using assms(1,2) unfolding outbox_inv_def by blast
  hence cl: "claimable t None False (db_outbox db) r"
    using unfinished_is_ready assms(3,4) by (simp add: claimable_def selected_type_def)
  then obtain row where row: "claim_candidate t None False (db_outbox db) = Some row"
    using claim_candidate_None assms(2) by (metis not_Some_eq)
  note cand = claim_candidate_SomeD(1)[OF row] claim_candidate_SomeD(3)[OF row assms(2) cl]
  obtain c db' where "claimNext_body sv worker t d None False db = Inr (Some c, db')" "oc_id c = ob_id row"
    using claim_candidate_is_claimed[OF assms(1) row assms(6)] by metis
  moreover from this have "transaction (claimNext_body sv worker t d None False) db = (Inr (Some c), db')"
    by (simp add: transaction_Inr)
  moreover have "claimNext sv worker t (num d) \<lparr>co_eventTypes = None, co_singleWriterByAggregate = False\<rparr> db =
      transaction (claimNext_body sv worker t d None False) db"
    using assms(5,6) by (simp add: claimNext_def validateEventTypes_def requireOpaqueReference_def)
  ultimately show ?thesis using cand \<open>oc_id c = ob_id row\<close> by auto
qed

section \<open>The properties on a small database\<close>

definition plain_services :: services where
  "plain_services = \<lparr>sv_sha = (\<lambda>b. ''hash''), sv_uuid = (\<lambda>n. ''id'' @ nat_to_string n),
     sv_audit_json = (\<lambda>r. au_command r), sv_now = 0\<rparr>"

definition worker_a :: OutboxWorkerContext where
  "worker_a = \<lparr>ow_workerReference = ''worker-a'', ow_softwareVersion = ''1'', ow_correlationId = ''c''\<rparr>"

definition worker_b :: OutboxWorkerContext where
  "worker_b = \<lparr>ow_workerReference = ''worker-b'', ow_softwareVersion = ''1'', ow_correlationId = ''c''\<rparr>"

definition any_event :: OutboxClaimOptions where
  "any_event = \<lparr>co_eventTypes = None, co_singleWriterByAggregate = False\<rparr>"

definition one_event :: database where
  "one_event = snd (transaction (insert_outbox_event plain_services ''event-1'' None ''anchor.requested''
     ''anchor'' ''anchor-1'' ''1'' ''payload'' ''digest'' ''key'') empty_database)"

definition claimed_event :: database where
  "claimed_event = snd (claimNext plain_services worker_a 0 (num 10) any_event one_event)"

definition retry_options :: RetryFailureOptions where
  "retry_options = \<lparr>rf_errorClass = ''node_down'', rf_maxAttempts = num 3, rf_baseBackoffMs = num 1000,
     rf_maxBackoffMs = num 5000\<rparr>"

lemma claimed_event_reachable: "(outbox_step plain_services)\<^sup>*\<^sup>* empty_database claimed_event"
proof -
  have "outbox_step plain_services empty_database one_event"
    unfolding one_event_def by (rule outbox_step.enqueue) (rule prod.collapse[symmetric])
  moreover have "outbox_step plain_services one_event claimed_event"
    unfolding claimed_event_def by (rule outbox_step.claim) (rule prod.collapse[symmetric])
  ultimately show ?thesis by simp
qed

lemma one_event_inv: "outbox_inv one_event"
proof -
  have "outbox_step plain_services empty_database one_event"
    unfolding one_event_def by (rule outbox_step.enqueue) (rule prod.collapse[symmetric])
  thus ?thesis using outbox_steps_inv[OF r_into_rtranclp] empty_outbox_inv by blast
qed

lemma one_event_claimed:
  "case fst (claimNext plain_services worker_a 0 (num 10) any_event one_event) of
     Inr (Some c) \<Rightarrow> oc_id c = ''event-1'' | _ \<Rightarrow> False"
  by code_simp

lemma one_event_claim:
  obtains c where "claimNext plain_services worker_a 0 (num 10) any_event one_event = (Inr (Some c), claimed_event)"
    "oc_id c = ''event-1''"
proof -
  have "\<exists>c. fst (claimNext plain_services worker_a 0 (num 10) any_event one_event) = Inr (Some c) \<and> oc_id c = ''event-1''"
    using one_event_claimed by (auto split: sum.splits option.splits)
  thus ?thesis using that unfolding claimed_event_def by (metis prod.collapse)
qed

theorem lease_is_exclusive_witness:
  "holds_lease (fold (run_outbox_call plain_services)
      [CallClaim worker_b 3 (num 10) any_event, CallSucceed ''event-1'' worker_b 4] claimed_event)
      ''event-1'' ''worker-a'' 9"
proof (rule one_event_claim)
  fix c assume c: "claimNext plain_services worker_a 0 (num 10) any_event one_event = (Inr (Some c), claimed_event)"
    "oc_id c = ''event-1''"
  have calls: "outbox_caller k \<noteq> ow_workerReference worker_a \<and> 0 \<le> outbox_call_time k \<and> outbox_call_time k < 0 + 10"
    if "k \<in> set [CallClaim worker_b 3 (num 10) any_event, CallSucceed ''event-1'' worker_b 4]" for k
    using that by (auto simp: worker_a_def worker_b_def)
  have "ow_workerReference worker_a = ''worker-a''" by (simp add: worker_a_def)
  moreover note lease_is_exclusive[OF one_event_inv c(1), of "[CallClaim worker_b 3 (num 10) any_event,
      CallSucceed ''event-1'' worker_b 4]", OF calls]
  ultimately show ?thesis using c(2) by simp
qed

theorem attempt_history_is_complete_witness:
  "list_all (\<lambda>r. attempt_numbers claimed_event (ob_id r) =
     {1 .. ob_attempt_count r - (if ob_state r = O_claimed then 1 else 0)}) (db_outbox claimed_event)"
  using attempt_history_is_complete[OF claimed_event_reachable] unfolding list_all_iff by blast

theorem no_completion_without_lease_witness:
  "succeed plain_services ''event-1'' worker_b 5 claimed_event =
     (Inl (RepositoryConflictError ''outbox lease is missing, expired, or owned by another worker''), claimed_event)"
proof -
  have "\<not> holds_lease claimed_event ''event-1'' (ow_workerReference worker_b) 5" by code_simp
  thus ?thesis using no_completion_without_lease by blast
qed

theorem claim_takes_oldest_claimable_witness:
  "\<exists>row \<in> set (db_outbox one_event). ob_id row = ''event-1'' \<and> outbox_ready 0 row"
proof (rule one_event_claim)
  fix c assume c: "claimNext plain_services worker_a 0 (num 10) any_event one_event = (Inr (Some c), claimed_event)"
    "oc_id c = ''event-1''"
  show ?thesis using claim_takes_oldest_claimable[OF c(1)] c(2) by auto
qed

theorem retry_backoff_is_bounded_witness:
  "fst (failRetryable plain_services ''event-1'' worker_a 5 retry_options claimed_event) = Inr O_retryable_failed
   \<and> (\<exists>row'. select_where (\<lambda>r. ob_id r = ''event-1'')
          (db_outbox (snd (failRetryable plain_services ''event-1'' worker_a 5 retry_options claimed_event))) = Some row'
        \<and> 1005 \<le> ob_available_at row' \<and> ob_available_at row' \<le> 5005)"
proof -
  have run: "fst (failRetryable plain_services ''event-1'' worker_a 5 retry_options claimed_event) = Inr O_retryable_failed"
    by code_simp
  then obtain db' where db': "failRetryable plain_services ''event-1'' worker_a 5 retry_options claimed_event =
      (Inr O_retryable_failed, db')" by (metis prod.collapse)
  show ?thesis using retry_backoff_is_bounded[OF db'] run db' by (auto simp: retry_options_def)
qed

theorem unfinished_event_is_claimed_again_witness:
  "\<exists>c db'. claimNext plain_services worker_b 10 (num 10)
     \<lparr>co_eventTypes = None, co_singleWriterByAggregate = False\<rparr> claimed_event = (Inr (Some c), db')"
proof -
  have inv: "outbox_inv claimed_event" using outbox_steps_inv[OF claimed_event_reachable] empty_outbox_inv by blast
  have ok: "list_ex (\<lambda>r. \<not> outbox_final (ob_state r) \<and> ready_at r \<le> 10) (db_outbox claimed_event)" by code_simp
  have w: "is_opaque_reference (ow_workerReference worker_b)" by code_simp
  from ok obtain r where r: "r \<in> set (db_outbox claimed_event)" "\<not> outbox_final (ob_state r)" "ready_at r \<le> 10"
    by (auto simp: list_ex_iff)
  have "(0::int) < 10" by simp
  from unfinished_event_is_claimed_again[OF inv r w this] show ?thesis by blast
qed

end
