(* ===== verification/Verus_Jobs.thy ===== *)
theory Verus_Jobs
  imports Outbox_Leases
begin

text \<open>
  packages/db/src/verus-job-repository.ts: the persistent record of a blockchain write.  A job is
  enqueued with its outbox event and its anchor record, and every further change needs the lease on
  the event, moves the job along its machine and mirrors the change on the anchor.  The constraints
  and triggers on verus_job and anchor_record are part of the inserts and updates.  JSON.parse is the
  argument \<open>parse\<close>, with None for a syntax error.
\<close>

section \<open>Data\<close>

definition VERUS_ANCHOR_EVENT_TYPE :: string where
  "VERUS_ANCHOR_EVENT_TYPE = ''verus.anchor.requested''"

definition VRSCTEST_CHAIN_ID :: string where
  "VRSCTEST_CHAIN_ID = ''iJhCezBExJHvtyH3fGhNnt2NhU4Ztkf2yq''"

record EnqueueVerusAnchorInput =
  ei_externalReference :: string
  ei_committeeReference :: "string option"
  ei_operationType :: string
  ei_subjectReference :: string
  ei_targetIdentity :: string
  ei_vdxfUri :: string
  ei_vdxfKey :: string
  ei_manifest :: "(string \<times> json) list"
  ei_manifestCanonical :: string
  ei_manifestDigest :: string
  ei_manifestPolicyReference :: string
  ei_manifestAllowedFields :: "string list"
  ei_manifestRequiredFields :: "string list"
  ei_manifestMaximumBytes :: js_number
  ei_confirmationRequirement :: js_number

record VerusJobRecord =
  jr_id :: string
  jr_outboxEventId :: string
  jr_committeeReference :: "string option"
  jr_operationType :: string
  jr_subjectReference :: string
  jr_targetIdentity :: string
  jr_vdxfUri :: string
  jr_vdxfKey :: string
  jr_manifest :: "(string \<times> json) list"
  jr_manifestCanonical :: string
  jr_manifestDigest :: string
  jr_manifestPolicyReference :: string
  jr_manifestAllowedFields :: "string list"
  jr_manifestRequiredFields :: "string list"
  jr_manifestMaximumBytes :: int
  jr_confirmationRequirement :: int
  jr_state :: VerusJobState
  jr_transactionId :: "string option"
  jr_blockHeight :: "int option"
  jr_blockHash :: "string option"
  jr_readbackDigest :: "string option"
  jr_submissionAmbiguous :: bool
  jr_lastErrorClass :: "string option"
  jr_version :: int
  jr_createdAt :: time
  jr_updatedAt :: time

record TransitionEvidence =
  te_transactionId :: "string option"
  te_blockHeight :: "js_number option"
  te_blockHash :: "string option"
  te_readbackDigest :: "string option"
  te_submissionAmbiguous :: "bool option"
  te_errorClass :: "string option"
  te_submittedAt :: "time option"
  te_confirmedAt :: "time option"
  te_readbackAt :: "time option"
  te_reorgDetectedAt :: "time option"

definition noEvidence :: TransitionEvidence where
  "noEvidence = \<lparr>te_transactionId = None, te_blockHeight = None, te_blockHash = None,
     te_readbackDigest = None, te_submissionAmbiguous = None, te_errorClass = None,
     te_submittedAt = None, te_confirmedAt = None, te_readbackAt = None, te_reorgDetectedAt = None\<rparr>"

definition coalesce :: "'a option \<Rightarrow> 'a option \<Rightarrow> 'a option" where
  "coalesce x y = (case x of None \<Rightarrow> y | Some a \<Rightarrow> Some a)"

lemma coalesce_simps [simp]: "coalesce None y = y" "coalesce (Some a) y = Some a"
  by (simp_all add: coalesce_def)

definition when_truthy :: "string option \<Rightarrow> string option" where
  "when_truthy x = (if truthy x then x else None)"

section \<open>Constraints and triggers\<close>

text \<open>A CHECK passes unless it is false: with a NULL readback digest the comparison is unknown, so the
  constraint verus_job_verified_evidence_complete does not reject the row.\<close>

definition verified_evidence_complete :: "VerusJobRow \<Rightarrow> bool" where
  "verified_evidence_complete r \<longleftrightarrow>
     vj_state r \<noteq> J_verified
     \<or> (vj_transaction_id r \<noteq> None \<and> vj_block_height r \<noteq> None \<and> vj_block_hash r \<noteq> None
        \<and> (vj_readback_digest r = None \<or> vj_readback_digest r = Some (vj_manifest_digest r))
        \<and> vj_readback_at r \<noteq> None)"

definition ambiguous_state_valid :: "VerusJobRow \<Rightarrow> bool" where
  "ambiguous_state_valid r \<longleftrightarrow>
     \<not> vj_submission_ambiguous r \<or> vj_state r \<in> {J_retryable_failed, J_claimed, J_preflight}"

definition manifest_size_valid :: "VerusJobRow \<Rightarrow> bool" where
  "manifest_size_valid r \<longleftrightarrow>
     (case vj_manifest_maximum_bytes r of None \<Rightarrow> vj_manifest_canonical r = None
      | Some m \<Rightarrow> 1 \<le> m \<and> m \<le> 1048576 \<and>
          (case vj_manifest_canonical r of None \<Rightarrow> True | Some c \<Rightarrow> int (length (utf8_encode c)) \<le> m))"

definition verus_job_row_ok :: "VerusJobRow \<Rightarrow> bool" where
  "verus_job_row_ok r \<longleftrightarrow>
     vj_chain_id r = VRSCTEST_CHAIN_ID
     \<and> (case vj_block_height r of None \<Rightarrow> True | Some h \<Rightarrow> 0 \<le> h) \<and> 0 < vj_version r
     \<and> 1 \<le> vj_confirmation_requirement r \<and> vj_confirmation_requirement r \<le> 1000
     \<and> manifest_size_valid r \<and> verified_evidence_complete r \<and> ambiguous_state_valid r"

definition verus_job_update_ok :: "VerusJobRow \<Rightarrow> VerusJobRow \<Rightarrow> bool" where
  "verus_job_update_ok old new \<longleftrightarrow>
     vj_version new = vj_version old + 1 \<and> cbc_guard_verus_job_transition (vj_state old) (vj_state new)
     \<and> verus_job_row_ok new"

definition cbc_guard_anchor_transition :: "VerusJobState \<Rightarrow> VerusJobState \<Rightarrow> bool" where
  "cbc_guard_anchor_transition old new \<longleftrightarrow>
     (old \<in> {J_pending, J_retryable_failed, J_reorg_pending}
        \<and> new \<in> {J_submitted, J_retryable_failed, J_terminal_failed})
     \<or> (old = J_submitted \<and> new \<in> {J_confirming, J_retryable_failed, J_terminal_failed})
     \<or> (old = J_confirming \<and> new \<in> {J_readback, J_retryable_failed, J_terminal_failed, J_reorg_pending})
     \<or> (old = J_readback \<and> new \<in> {J_verified, J_retryable_failed, J_terminal_failed, J_reorg_pending})
     \<or> (old = J_retryable_failed \<and> new = J_terminal_failed)"

definition anchor_row_ok :: "anchor_row \<Rightarrow> bool" where
  "anchor_row_ok r \<longleftrightarrow> an_chain_id r = VRSCTEST_CHAIN_ID
     \<and> (case an_block_height r of None \<Rightarrow> True | Some h \<Rightarrow> 0 \<le> h) \<and> 0 < an_version r"

definition anchor_update_ok :: "anchor_row \<Rightarrow> anchor_row \<Rightarrow> bool" where
  "anchor_update_ok old new \<longleftrightarrow>
     an_version new = an_version old + 1 \<and> cbc_guard_anchor_transition (an_state old) (an_state new)
     \<and> anchor_row_ok new"

text \<open>UPDATE returns the number of rows it changed.\<close>

definition update_verus_job :: "(VerusJobRow \<Rightarrow> bool) \<Rightarrow> (VerusJobRow \<Rightarrow> VerusJobRow) \<Rightarrow> nat tx" where
  "update_verus_job P f =
     bindT (readT db_jobs) (\<lambda>rows.
     bindT (liftT (update_checked P f verus_job_update_ok rows)) (\<lambda>rows'.
     bindT (writeT (\<lambda>db. db\<lparr>db_jobs := rows'\<rparr>)) (\<lambda>_.
     returnT (length (filter P rows)))))"

definition update_anchor :: "(anchor_row \<Rightarrow> bool) \<Rightarrow> (anchor_row \<Rightarrow> anchor_row) \<Rightarrow> nat tx" where
  "update_anchor P f =
     bindT (readT db_anchors) (\<lambda>rows.
     bindT (liftT (update_checked P f anchor_update_ok rows)) (\<lambda>rows'.
     bindT (writeT (\<lambda>db. db\<lparr>db_anchors := rows'\<rparr>)) (\<lambda>_.
     returnT (length (filter P rows)))))"

definition insert_verus_job :: "VerusJobRow \<Rightarrow> unit tx" where
  "insert_verus_job row =
     bindT (requireT (verus_job_row_ok row) (DatabaseError ''23514'')) (\<lambda>_.
     bindT (readT db_jobs) (\<lambda>rows.
     bindT (liftT (insert_unique (\<lambda>r. vj_id r = vj_id row \<or> vj_outbox_event_id r = vj_outbox_event_id row
          \<or> (vj_operation_type r = vj_operation_type row \<and> vj_subject_reference r = vj_subject_reference row
             \<and> vj_vdxf_key r = vj_vdxf_key row \<and> vj_manifest_digest r = vj_manifest_digest row)) row rows)) (\<lambda>rows'.
     writeT (\<lambda>db. db\<lparr>db_jobs := rows'\<rparr>))))"

definition insert_anchor_record :: "anchor_row \<Rightarrow> unit tx" where
  "insert_anchor_record row =
     bindT (requireT (anchor_row_ok row) (DatabaseError ''23514'')) (\<lambda>_.
     bindT (readT db_anchors) (\<lambda>rows.
     bindT (liftT (insert_unique (\<lambda>r. an_id r = an_id row \<or> an_external_reference r = an_external_reference row
          \<or> an_outbox_event_id r = an_outbox_event_id row
          \<or> (an_anchor_type r = an_anchor_type row \<and> an_subject_reference r = an_subject_reference row
             \<and> an_vdxf_key r = an_vdxf_key row \<and> an_manifest_digest r = an_manifest_digest row)) row rows)) (\<lambda>rows'.
     writeT (\<lambda>db. db\<lparr>db_anchors := rows'\<rparr>))))"

section \<open>Validation\<close>

definition FORBIDDEN_MANIFEST_FIELDS :: "string list" where
  "FORBIDDEN_MANIFEST_FIELDS = [
     ''appealdetail'', ''appealfacts'', ''committeeevidence'', ''committeenotes'', ''dateofbirth'',
     ''documentimage'', ''documentnumber'', ''evidencehash'', ''exactaddress'', ''faceimage'',
     ''identitydocument'', ''privatekey'', ''privatesessionlocation'', ''rpcpassword'',
     ''seedphrase'', ''sessiontoken'', ''utilitybill'', ''walletbackup'', ''walletseed'', ''wif'',
     ''zseed'', ''proto'', ''constructor'', ''prototype'']"

function (sequential) rejectSensitiveManifestFields :: "json \<Rightarrow> nat \<Rightarrow> repo_error + unit" where
  "rejectSensitiveManifestFields (JArr items) depth =
     (if depth > 32 then Inl (RepositoryConflictError ''manifest nesting exceeds the server limit'')
      else each (\<lambda>item. rejectSensitiveManifestFields item (depth + 1)) items)"
| "rejectSensitiveManifestFields (JObj entries) depth =
     (if depth > 32 then Inl (RepositoryConflictError ''manifest nesting exceeds the server limit'')
      else each (\<lambda>(field, item).
             if normalize_field field \<in> set FORBIDDEN_MANIFEST_FIELDS
             then Inl (RepositoryConflictError ''manifest contains a prohibited private field'')
             else rejectSensitiveManifestFields item (depth + 1)) entries)"
| "rejectSensitiveManifestFields v depth =
     (if depth > 32 then Inl (RepositoryConflictError ''manifest nesting exceeds the server limit'') else Inr ())"
  by pat_completeness auto

termination
  by (relation "measure (size \<circ> fst)") (auto dest: size_entry_less size_item_less)

text \<open>The two objects have the same fields with equal values, in any order.\<close>

definition isDeepStrictEqual :: "json \<Rightarrow> json \<Rightarrow> bool" where
  "isDeepStrictEqual v w \<longleftrightarrow> normal v = normal w"

definition is_space :: "char \<Rightarrow> bool" where
  "is_space c \<longleftrightarrow> code c \<in> {9, 10, 11, 12, 13, 32, 160}"

definition is_operation_type :: "string \<Rightarrow> bool" where
  "is_operation_type s \<longleftrightarrow> matches_head is_lower (\<lambda>c. is_lower c \<or> is_digit c \<or> c \<in> set ''_.-'') 2 63 s"

definition is_field_name :: "string \<Rightarrow> bool" where
  "is_field_name s \<longleftrightarrow>
     matches_head is_lower (\<lambda>c. is_lower c \<or> is_upper c \<or> is_digit c \<or> c = CHR ''_'') 0 63 s"

definition conflict :: "bool \<Rightarrow> string \<Rightarrow> repo_error + unit" where
  "conflict b msg = (if b then Inl (RepositoryConflictError msg) else Inr ())"

lemma conflict_Inr [simp]: "conflict b msg = Inr u \<longleftrightarrow> \<not> b"
  by (auto simp: conflict_def)

definition validateInput ::
  "services \<Rightarrow> (string \<Rightarrow> json option) \<Rightarrow> EnqueueVerusAnchorInput \<Rightarrow> CommandContext \<Rightarrow> repo_error + unit" where
  "validateInput sv parse input context =
     bind_result (requireOpaqueReference (ei_externalReference input) ''anchor reference'') (\<lambda>_.
     bind_result (requireOpaqueReference (ei_subjectReference input) ''subject reference'') (\<lambda>_.
     bind_result (conflict (\<not> is_operation_type (ei_operationType input)) ''operation type must be a stable code'') (\<lambda>_.
     bind_result (conflict (\<not> is_i_address (ei_targetIdentity input)) ''target identity must be an i-address'') (\<lambda>_.
     bind_result (conflict (\<not> is_i_address (ei_vdxfKey input)) ''VDXF key must be an i-address'') (\<lambda>_.
     bind_result (conflict (\<not> matches_all (\<lambda>c. \<not> is_space c) 3 256 (ei_vdxfUri input))
        ''VDXF URI must be a bounded server value'') (\<lambda>_.
     bind_result (conflict (\<not> is_digest (ei_manifestDigest input)) ''manifest digest must be lowercase SHA-256'') (\<lambda>_.
     bind_result (conflict (sha256 sv (ei_manifestCanonical input) \<noteq> ei_manifestDigest input)
        ''canonical manifest does not match its digest'') (\<lambda>_.
     bind_result (conflict (parse (ei_manifestCanonical input) = None) ''canonical manifest must be valid JSON'') (\<lambda>_.
     bind_result (conflict (case parse (ei_manifestCanonical input) of None \<Rightarrow> True
          | Some canonicalValue \<Rightarrow> \<not> isDeepStrictEqual canonicalValue (JObj (ei_manifest input)))
        ''canonical manifest does not match the persisted manifest'') (\<lambda>_.
     let byteLength = num (int (length (utf8_encode (ei_manifestCanonical input)))) in
     bind_result (conflict (\<not> isInteger (ei_manifestMaximumBytes input)
          \<or> js_less (ei_manifestMaximumBytes input) (num 1) \<or> js_less (num 1048576) (ei_manifestMaximumBytes input)
          \<or> js_less (ei_manifestMaximumBytes input) byteLength)
        ''manifest exceeds its server-selected byte limit'') (\<lambda>_.
     bind_result (conflict (\<not> isInteger (ei_confirmationRequirement input)
          \<or> js_less (ei_confirmationRequirement input) (num 1)
          \<or> js_less (num 1000) (ei_confirmationRequirement input))
        ''confirmation requirement is invalid'') (\<lambda>_.
     bind_result (conflict (list_ex (\<lambda>field. \<not> is_field_name field)
          (ei_manifestAllowedFields input @ ei_manifestRequiredFields input))
        ''manifest field policy contains an invalid name'') (\<lambda>_.
     bind_result (conflict (list_ex (\<lambda>field. field \<notin> set (ei_manifestAllowedFields input)) (map fst (ei_manifest input))
          \<or> list_ex (\<lambda>field. field \<notin> set (map fst (ei_manifest input))) (ei_manifestRequiredFields input))
        ''manifest violates its server-selected field policy'') (\<lambda>_.
     bind_result (rejectSensitiveManifestFields (JObj (ei_manifest input)) 0) (\<lambda>_.
     bind_result (conflict (cx_requestDigest context \<noteq> ei_manifestDigest input)
        ''command digest does not match the manifest'') (\<lambda>_.
     bind_result (conflict (cx_policyVersionReference context \<noteq> ei_manifestPolicyReference input)
        ''command policy does not match the manifest policy'') (\<lambda>_.
     conflict (cx_committeeReference context \<noteq> (case ei_committeeReference input of Some c \<Rightarrow> c
          | None \<Rightarrow> ''global_synthetic_scope''))
        ''command tenant does not match the Verus job tenant'')))))))))))))))))"

definition validateEvidence :: "TransitionEvidence \<Rightarrow> repo_error + unit" where
  "validateEvidence evidence =
     bind_result (each (\<lambda>val. conflict (case val of None \<Rightarrow> False | Some v \<Rightarrow> \<not> is_digest v)
          ''Verus evidence must be lowercase 32-byte hex'')
        [te_transactionId evidence, te_blockHash evidence, te_readbackDigest evidence]) (\<lambda>_.
     bind_result (conflict (case te_blockHeight evidence of None \<Rightarrow> False
          | Some h \<Rightarrow> \<not> isSafeInteger h \<or> js_less h (num 0)) ''Verus block height is invalid'') (\<lambda>_.
     conflict (case te_errorClass evidence of None \<Rightarrow> False
          | Some c \<Rightarrow> \<not> matches_head is_lower (\<lambda>c. is_lower c \<or> is_digit c \<or> c = CHR ''_'') 2 63 c)
        ''Verus error class must be a stable code''))"

section \<open>Reading\<close>

definition job_event :: "database \<Rightarrow> VerusJobRow \<Rightarrow> OutboxRow option" where
  "job_event db j = select_where (\<lambda>e. ob_id e = vj_outbox_event_id j) (db_outbox db)"

text \<open>The join of selectJob: the first job with its event that satisfies the condition, and the
  external reference of its committee.\<close>

definition selectJob :: "(VerusJobRow \<Rightarrow> OutboxRow \<Rightarrow> bool) \<Rightarrow> database \<Rightarrow> (VerusJobRow \<times> string option) option" where
  "selectJob P db =
     map_option (\<lambda>j. (j, committee_reference db (vj_committee_id j)))
       (select_where (\<lambda>j. case job_event db j of None \<Rightarrow> False | Some e \<Rightarrow> P j e) (db_jobs db))"

definition toRecord :: "VerusJobRow \<Rightarrow> string option \<Rightarrow> repo_error + VerusJobRecord" where
  "toRecord row committee_ref =
     (case (vj_target_identity row, vj_vdxf_uri row, vj_manifest_canonical row,
            vj_manifest_policy_reference row, vj_manifest_maximum_bytes row, vj_manifest_json row) of
        (Some target, Some uri, Some canonical, Some policy, Some maximum, Some (JObj manifest)) \<Rightarrow>
          if target = [] \<or> uri = [] \<or> canonical = [] \<or> policy = []
          then Inl (RepositoryConflictError ''Verus job is missing its immutable policy snapshot'')
          else if (case vj_block_height row of None \<Rightarrow> False | Some h \<Rightarrow> \<not> isSafeInteger (num h))
          then Inl (RepositoryConflictError ''Verus block height is outside the safe integer range'')
          else Inr \<lparr>jr_id = vj_id row, jr_outboxEventId = vj_outbox_event_id row,
            jr_committeeReference = when_truthy committee_ref, jr_operationType = vj_operation_type row,
            jr_subjectReference = vj_subject_reference row, jr_targetIdentity = target, jr_vdxfUri = uri,
            jr_vdxfKey = vj_vdxf_key row, jr_manifest = manifest, jr_manifestCanonical = canonical,
            jr_manifestDigest = vj_manifest_digest row, jr_manifestPolicyReference = policy,
            jr_manifestAllowedFields = vj_manifest_allowed_fields row,
            jr_manifestRequiredFields = vj_manifest_required_fields row,
            jr_manifestMaximumBytes = maximum,
            jr_confirmationRequirement = vj_confirmation_requirement row, jr_state = vj_state row,
            jr_transactionId = when_truthy (vj_transaction_id row), jr_blockHeight = vj_block_height row,
            jr_blockHash = when_truthy (vj_block_hash row),
            jr_readbackDigest = when_truthy (vj_readback_digest row),
            jr_submissionAmbiguous = vj_submission_ambiguous row,
            jr_lastErrorClass = when_truthy (vj_last_error_class row), jr_version = vj_version row,
            jr_createdAt = vj_created_at row, jr_updatedAt = vj_updated_at row\<rparr>
      | _ \<Rightarrow> Inl (RepositoryConflictError ''Verus job is missing its immutable policy snapshot''))"

definition load_job :: "string \<Rightarrow> VerusJobRecord tx" where
  "load_job outboxEventId =
     bindT (readT (selectJob (\<lambda>j e. vj_outbox_event_id j = outboxEventId))) (\<lambda>found.
     case found of
       None \<Rightarrow> throwT (RepositoryConflictError ''Verus job does not exist'')
     | Some (row, committee_ref) \<Rightarrow> liftT (toRecord row committee_ref))"

definition requireLease :: "string \<Rightarrow> OutboxWorkerContext \<Rightarrow> time \<Rightarrow> unit tx" where
  "requireLease outboxEventId worker observedAt =
     bindT (readT (\<lambda>db. select_where (\<lambda>r. ob_id r = outboxEventId
          \<and> ob_event_type r = VERUS_ANCHOR_EVENT_TYPE \<and> ob_state r = O_claimed
          \<and> ob_lease_owner r = Some (ow_workerReference worker)
          \<and> (case ob_lease_expires_at r of None \<Rightarrow> False | Some e \<Rightarrow> e > observedAt)) (db_outbox db))) (\<lambda>found.
     requireT (found \<noteq> None) (RepositoryConflictError ''Verus worker lease is not active''))"

definition resolveCommittee :: "string \<Rightarrow> string tx" where
  "resolveCommittee reference =
     bindT (liftT (requireOpaqueReference reference ''committee reference'')) (\<lambda>_.
     bindT (readT (\<lambda>db. select_where (\<lambda>c. cm_external_reference c = reference) (db_committees db))) (\<lambda>found.
     case found of None \<Rightarrow> throwT (RepositoryConflictError ''committee does not exist'')
     | Some c \<Rightarrow> returnT (cm_id c)))"

definition job_committeeId :: "string \<Rightarrow> database \<Rightarrow> string option" where
  "job_committeeId outboxEventId db =
     (case select_where (\<lambda>j. vj_outbox_event_id j = outboxEventId) (db_jobs db) of
        None \<Rightarrow> None | Some j \<Rightarrow> vj_committee_id j)"

definition workerContext :: "OutboxWorkerContext \<Rightarrow> VerusJobRecord \<Rightarrow> VerusJobState \<Rightarrow> CommandContext" where
  "workerContext worker job next =
     \<lparr>cx_actor = \<lparr>ca_type = ''worker'', ca_reference = ow_workerReference worker,
        ca_authenticationStrength = ''internal_worker''\<rparr>,
      cx_committeeReference = (case jr_committeeReference job of Some c \<Rightarrow> c | None \<Rightarrow> ''global_synthetic_scope''),
      cx_policyVersionReference = jr_manifestPolicyReference job,
      cx_softwareVersion = ow_softwareVersion worker,
      cx_reasonCategory = (case jr_lastErrorClass job of Some c \<Rightarrow> c | None \<Rightarrow> ''verus_'' @ verus_job_state_name next),
      cx_correlationId = ow_correlationId worker,
      cx_idempotencyKey = jr_id job @ '':'' @ int_to_string (jr_version job) @ '':'' @ verus_job_state_name next,
      cx_requestDigest = jr_manifestDigest job\<rparr>"

section \<open>Operations\<close>

text \<open>What JSON.stringify and the column of type jsonb keep of a value: a number that is not finite
  becomes null.\<close>

function (sequential) jsonb_of :: "json \<Rightarrow> json" where
  "jsonb_of (JNum (Num r)) = JNum (Num r)"
| "jsonb_of (JNum _) = JNull"
| "jsonb_of (JArr xs) = JArr (map jsonb_of xs)"
| "jsonb_of (JObj es) = JObj (map (\<lambda>(k, v). (k, jsonb_of v)) es)"
| "jsonb_of v = v"
  by pat_completeness auto

termination
  by (relation "measure size") (auto dest: size_entry_less size_item_less)

definition new_verus_job :: "services \<Rightarrow> EnqueueVerusAnchorInput \<Rightarrow> string \<Rightarrow> string \<Rightarrow> string option \<Rightarrow> VerusJobRow" where
  "new_verus_job sv input jobId outboxEventId committeeId =
     \<lparr>vj_id = jobId, vj_outbox_event_id = outboxEventId, vj_committee_id = committeeId,
      vj_chain_id = VRSCTEST_CHAIN_ID, vj_operation_type = ei_operationType input,
      vj_subject_reference = ei_subjectReference input, vj_target_identity = Some (ei_targetIdentity input),
      vj_vdxf_uri = Some (ei_vdxfUri input), vj_vdxf_key = ei_vdxfKey input,
      vj_manifest_json = Some (jsonb_of (JObj (ei_manifest input))),
      vj_manifest_canonical = Some (ei_manifestCanonical input),
      vj_manifest_digest = ei_manifestDigest input,
      vj_manifest_policy_reference = Some (ei_manifestPolicyReference input),
      vj_manifest_allowed_fields = ei_manifestAllowedFields input,
      vj_manifest_required_fields = ei_manifestRequiredFields input,
      vj_manifest_maximum_bytes = Some (int_of_number (ei_manifestMaximumBytes input)),
      vj_confirmation_requirement = int_of_number (ei_confirmationRequirement input),
      vj_state = J_pending, vj_transaction_id = None, vj_block_height = None, vj_block_hash = None,
      vj_readback_digest = None, vj_submission_ambiguous = False, vj_last_error_class = None,
      vj_submitted_at = None, vj_confirmed_at = None, vj_readback_at = None, vj_reorg_detected_at = None,
      vj_version = 1, vj_created_at = sv_now sv, vj_updated_at = sv_now sv\<rparr>"

definition new_anchor_record :: "services \<Rightarrow> EnqueueVerusAnchorInput \<Rightarrow> string \<Rightarrow> string \<Rightarrow> string option \<Rightarrow> anchor_row" where
  "new_anchor_record sv input anchorId outboxEventId committeeId =
     \<lparr>an_id = anchorId, an_external_reference = ei_externalReference input, an_committee_id = committeeId,
      an_outbox_event_id = outboxEventId, an_chain_id = VRSCTEST_CHAIN_ID,
      an_anchor_type = ei_operationType input, an_subject_reference = ei_subjectReference input,
      an_vdxf_key = ei_vdxfKey input, an_manifest_digest = ei_manifestDigest input, an_state = J_pending,
      an_transaction_id = None, an_block_height = None, an_block_hash = None, an_readback_digest = None,
      an_version = 1, an_updated_at = sv_now sv\<rparr>"

definition enqueueAnchor_body ::
  "services \<Rightarrow> EnqueueVerusAnchorInput \<Rightarrow> CommandContext \<Rightarrow> VerusJobRecord tx" where
  "enqueueAnchor_body sv input context =
     bindT (if truthy (ei_committeeReference input)
            then bindT (resolveCommittee (the (ei_committeeReference input))) (\<lambda>c. returnT (Some c))
            else returnT None) (\<lambda>committeeId.
     let keyHash = sha256 sv (cx_idempotencyKey context) in
     bindT (readT (selectJob (\<lambda>j e. ob_idempotency_key_hash e = keyHash))) (\<lambda>existing.
     case existing of
       Some (row, committee_ref) \<Rightarrow>
         bindT (liftT (toRecord row committee_ref)) (\<lambda>replay.
         if jr_manifestDigest replay \<noteq> ei_manifestDigest input
            \<or> jr_targetIdentity replay \<noteq> ei_targetIdentity input \<or> jr_vdxfKey replay \<noteq> ei_vdxfKey input
         then throwT (RepositoryConflictError ''Verus idempotency key conflicts with existing work'')
         else returnT replay)
     | None \<Rightarrow>
         bindT (newId sv) (\<lambda>outboxEventId.
         bindT (newId sv) (\<lambda>jobId.
         bindT (insert_outbox_event sv outboxEventId committeeId VERUS_ANCHOR_EVENT_TYPE ''verus_identity''
                  (ei_targetIdentity input) (ei_manifestPolicyReference input)
                  (''verus_job:'' @ ei_externalReference input) (ei_manifestDigest input) keyHash) (\<lambda>_.
         bindT (insert_verus_job (new_verus_job sv input jobId outboxEventId committeeId)) (\<lambda>_.
         bindT (newId sv) (\<lambda>anchorId.
         bindT (insert_anchor_record (new_anchor_record sv input anchorId outboxEventId committeeId)) (\<lambda>_.
         bindT (appendAudit sv context committeeId ''enqueueVerusAnchor''
                  \<lparr>tg_type = ''verus_job'', tg_reference = jobId, tg_priorState = None,
                   tg_newState = Some ''pending''\<rparr> ''succeeded'') (\<lambda>_.
         load_job outboxEventId)))))))))"

definition enqueueAnchor ::
  "services \<Rightarrow> (string \<Rightarrow> json option) \<Rightarrow> EnqueueVerusAnchorInput \<Rightarrow> CommandContext \<Rightarrow> VerusJobRecord op" where
  "enqueueAnchor sv parse input context db =
     (case validateInput sv parse input context of
        Inl e \<Rightarrow> (Inl e, db)
      | Inr _ \<Rightarrow> transaction (enqueueAnchor_body sv input context) db)"

definition loadForClaim :: "string \<Rightarrow> OutboxWorkerContext \<Rightarrow> time \<Rightarrow> VerusJobRecord op" where
  "loadForClaim outboxEventId worker observedAt =
     transaction (bindT (requireLease outboxEventId worker observedAt) (\<lambda>_. load_job outboxEventId))"

text \<open>The SET clauses of the updates of verus_job and anchor_record.\<close>

definition evidence_update :: "VerusJobState \<Rightarrow> TransitionEvidence \<Rightarrow> bool \<Rightarrow> time \<Rightarrow> VerusJobRow \<Rightarrow> VerusJobRow" where
  "evidence_update next evidence ambiguous observedAt r =
     r\<lparr>vj_state := next,
       vj_transaction_id := coalesce (te_transactionId evidence) (vj_transaction_id r),
       vj_block_height := coalesce (map_option int_of_number (te_blockHeight evidence)) (vj_block_height r),
       vj_block_hash := coalesce (te_blockHash evidence) (vj_block_hash r),
       vj_readback_digest := coalesce (te_readbackDigest evidence) (vj_readback_digest r),
       vj_submission_ambiguous := ambiguous, vj_last_error_class := te_errorClass evidence,
       vj_submitted_at := coalesce (te_submittedAt evidence) (vj_submitted_at r),
       vj_confirmed_at := coalesce (te_confirmedAt evidence) (vj_confirmed_at r),
       vj_readback_at := coalesce (te_readbackAt evidence) (vj_readback_at r),
       vj_reorg_detected_at := coalesce (te_reorgDetectedAt evidence) (vj_reorg_detected_at r),
       vj_version := vj_version r + 1, vj_updated_at := observedAt\<rparr>"

definition anchor_evidence_update :: "VerusJobState \<Rightarrow> TransitionEvidence \<Rightarrow> time \<Rightarrow> anchor_row \<Rightarrow> anchor_row" where
  "anchor_evidence_update state evidence observedAt r =
     r\<lparr>an_state := state,
       an_transaction_id := coalesce (te_transactionId evidence) (an_transaction_id r),
       an_block_height := coalesce (map_option int_of_number (te_blockHeight evidence)) (an_block_height r),
       an_block_hash := coalesce (te_blockHash evidence) (an_block_hash r),
       an_readback_digest := coalesce (te_readbackDigest evidence) (an_readback_digest r),
       an_version := an_version r + 1, an_updated_at := observedAt\<rparr>"

definition transitionAnchor :: "string \<Rightarrow> VerusJobState \<Rightarrow> TransitionEvidence \<Rightarrow> time \<Rightarrow> unit tx" where
  "transitionAnchor outboxEventId next evidence observedAt =
     (if next = J_claimed \<or> next = J_preflight then returnT ()
      else bindT (update_anchor (\<lambda>a. an_outbox_event_id a = outboxEventId)
                    (anchor_evidence_update next evidence observedAt)) (\<lambda>rowCount.
           requireT (rowCount = 1) (RepositoryConflictError ''Verus anchor record is missing or conflicted'')))"

definition job_transition_body ::
  "services \<Rightarrow> string \<Rightarrow> OutboxWorkerContext \<Rightarrow> time \<Rightarrow> VerusJobState list \<Rightarrow> VerusJobState
     \<Rightarrow> TransitionEvidence \<Rightarrow> bool \<Rightarrow> VerusJobRecord tx" where
  "job_transition_body sv outboxEventId worker observedAt expected next evidence syncAnchor =
     bindT (requireLease outboxEventId worker observedAt) (\<lambda>_.
     bindT (load_job outboxEventId) (\<lambda>prior.
     bindT (requireT (jr_state prior \<in> set expected) (RepositoryConflictError (''Verus job cannot move from '' @
              verus_job_state_name (jr_state prior) @ '' to '' @ verus_job_state_name next))) (\<lambda>_.
     bindT (update_verus_job (\<lambda>r. vj_outbox_event_id r = outboxEventId \<and> vj_version r = jr_version prior)
              (evidence_update next evidence (case te_submissionAmbiguous evidence of Some b \<Rightarrow> b
                 | None \<Rightarrow> jr_submissionAmbiguous prior) observedAt)) (\<lambda>rowCount.
     bindT (requireT (rowCount = 1) (RepositoryConflictError ''Verus job version conflict'')) (\<lambda>_.
     bindT (if syncAnchor then transitionAnchor outboxEventId next evidence observedAt else returnT ()) (\<lambda>_.
     bindT (readT (job_committeeId outboxEventId)) (\<lambda>committeeId.
     bindT (appendAudit sv (workerContext worker prior next) committeeId
              (''transitionVerusJob:'' @ verus_job_state_name next)
              \<lparr>tg_type = ''verus_job'', tg_reference = jr_id prior,
               tg_priorState = Some (verus_job_state_name (jr_state prior)),
               tg_newState = Some (verus_job_state_name next)\<rparr>
              (if suffix ''failed'' (verus_job_state_name next) then ''failed'' else ''succeeded'')) (\<lambda>_.
     load_job outboxEventId))))))))"

definition job_transition ::
  "services \<Rightarrow> string \<Rightarrow> OutboxWorkerContext \<Rightarrow> time \<Rightarrow> VerusJobState list \<Rightarrow> VerusJobState
     \<Rightarrow> TransitionEvidence \<Rightarrow> bool \<Rightarrow> VerusJobRecord op" where
  "job_transition sv outboxEventId worker observedAt expected next evidence syncAnchor db =
     (case validateEvidence evidence of
        Inl e \<Rightarrow> (Inl e, db)
      | Inr _ \<Rightarrow> transaction (job_transition_body sv outboxEventId worker observedAt expected next evidence syncAnchor) db)"

definition claim :: "services \<Rightarrow> string \<Rightarrow> OutboxWorkerContext \<Rightarrow> time \<Rightarrow> VerusJobRecord op" where
  "claim sv eventId worker observedAt =
     job_transition sv eventId worker observedAt [J_pending, J_retryable_failed, J_reorg_pending] J_claimed noEvidence False"

definition beginPreflight :: "services \<Rightarrow> string \<Rightarrow> OutboxWorkerContext \<Rightarrow> time \<Rightarrow> VerusJobRecord op" where
  "beginPreflight sv eventId worker observedAt =
     job_transition sv eventId worker observedAt [J_claimed] J_preflight noEvidence False"

definition recordSubmission ::
  "services \<Rightarrow> string \<Rightarrow> OutboxWorkerContext \<Rightarrow> time \<Rightarrow> string \<Rightarrow> VerusJobRecord op" where
  "recordSubmission sv eventId worker observedAt transactionId =
     job_transition sv eventId worker observedAt [J_preflight] J_submitted
       (noEvidence\<lparr>te_transactionId := Some transactionId, te_submittedAt := Some observedAt,
          te_submissionAmbiguous := Some False\<rparr>) True"

definition beginConfirmation :: "services \<Rightarrow> string \<Rightarrow> OutboxWorkerContext \<Rightarrow> time \<Rightarrow> VerusJobRecord op" where
  "beginConfirmation sv eventId worker observedAt =
     job_transition sv eventId worker observedAt [J_submitted] J_confirming noEvidence True"

definition beginReadback ::
  "services \<Rightarrow> string \<Rightarrow> OutboxWorkerContext \<Rightarrow> time \<Rightarrow> js_number \<Rightarrow> string \<Rightarrow> VerusJobRecord op" where
  "beginReadback sv eventId worker observedAt blockHeight blockHash =
     job_transition sv eventId worker observedAt [J_confirming] J_readback
       (noEvidence\<lparr>te_blockHeight := Some blockHeight, te_blockHash := Some blockHash,
          te_confirmedAt := Some observedAt\<rparr>) True"

definition verifyReadback ::
  "services \<Rightarrow> string \<Rightarrow> OutboxWorkerContext \<Rightarrow> time \<Rightarrow> string \<Rightarrow> VerusJobRecord op" where
  "verifyReadback sv eventId worker observedAt digest =
     job_transition sv eventId worker observedAt [J_readback] J_verified
       (noEvidence\<lparr>te_readbackDigest := Some digest, te_readbackAt := Some observedAt\<rparr>) True"

definition retryableFailure ::
  "services \<Rightarrow> string \<Rightarrow> OutboxWorkerContext \<Rightarrow> time \<Rightarrow> string \<Rightarrow> bool \<Rightarrow> VerusJobRecord op" where
  "retryableFailure sv eventId worker observedAt errorClass submissionAmbiguous =
     job_transition sv eventId worker observedAt [J_preflight, J_submitted, J_confirming, J_readback] J_retryable_failed
       (noEvidence\<lparr>te_errorClass := Some errorClass, te_submissionAmbiguous := Some submissionAmbiguous\<rparr>) True"

definition terminalFailure ::
  "services \<Rightarrow> string \<Rightarrow> OutboxWorkerContext \<Rightarrow> time \<Rightarrow> string \<Rightarrow> VerusJobRecord op" where
  "terminalFailure sv eventId worker observedAt errorClass =
     job_transition sv eventId worker observedAt
       [J_preflight, J_submitted, J_confirming, J_readback, J_retryable_failed] J_terminal_failed
       (noEvidence\<lparr>te_errorClass := Some errorClass, te_submissionAmbiguous := Some False\<rparr>) True"

definition reorg :: "services \<Rightarrow> string \<Rightarrow> OutboxWorkerContext \<Rightarrow> time \<Rightarrow> VerusJobRecord op" where
  "reorg sv eventId worker observedAt =
     job_transition sv eventId worker observedAt [J_confirming, J_readback] J_reorg_pending
       (noEvidence\<lparr>te_errorClass := Some ''reorg_detected'', te_reorgDetectedAt := Some observedAt\<rparr>) True"

definition dead_letter_owned :: "string \<Rightarrow> string \<Rightarrow> database \<Rightarrow> bool" where
  "dead_letter_owned eventId workerReference db \<longleftrightarrow>
     list_ex (\<lambda>o'. ob_id o' = eventId \<and> ob_event_type o' = VERUS_ANCHOR_EVENT_TYPE \<and> ob_state o' = O_dead_letter
        \<and> list_ex (\<lambda>a. ao_outbox_event_id a = ob_id o' \<and> ao_attempt a = ob_attempt_count o'
             \<and> ao_worker a = workerReference) (db_attempts db)) (db_outbox db)"

definition markDeadLetter_body ::
  "services \<Rightarrow> string \<Rightarrow> OutboxWorkerContext \<Rightarrow> time \<Rightarrow> string \<Rightarrow> VerusJobRecord tx" where
  "markDeadLetter_body sv eventId worker observedAt errorClass =
     bindT (readT (dead_letter_owned eventId (ow_workerReference worker))) (\<lambda>eligible.
     bindT (requireT eligible (RepositoryConflictError ''Verus dead letter is not owned by this attempt'')) (\<lambda>_.
     bindT (load_job eventId) (\<lambda>prior.
     bindT (requireT (\<not> (jr_state prior \<noteq> J_retryable_failed \<and> jr_state prior \<noteq> J_reorg_pending))
              (RepositoryConflictError ''only a retryable or reorg Verus job can be dead-lettered'')) (\<lambda>_.
     bindT (update_verus_job (\<lambda>r. vj_outbox_event_id r = eventId \<and> vj_version r = jr_version prior)
              (\<lambda>r. r\<lparr>vj_state := J_terminal_failed, vj_last_error_class := Some errorClass,
                    vj_submission_ambiguous := False, vj_version := vj_version r + 1, vj_updated_at := observedAt\<rparr>)) (\<lambda>_.
     bindT (transitionAnchor eventId J_terminal_failed noEvidence observedAt) (\<lambda>_.
     bindT (readT (job_committeeId eventId)) (\<lambda>committeeId.
     bindT (appendAudit sv (workerContext worker prior J_terminal_failed) committeeId ''deadLetterVerusJob''
              \<lparr>tg_type = ''verus_job'', tg_reference = jr_id prior,
               tg_priorState = Some (verus_job_state_name (jr_state prior)),
               tg_newState = Some ''terminal_failed''\<rparr> ''failed'') (\<lambda>_.
     load_job eventId))))))))"

definition markDeadLetter ::
  "services \<Rightarrow> string \<Rightarrow> OutboxWorkerContext \<Rightarrow> time \<Rightarrow> string \<Rightarrow> VerusJobRecord op" where
  "markDeadLetter sv eventId worker observedAt errorClass db =
     (case validateEvidence (noEvidence\<lparr>te_errorClass := Some errorClass\<rparr>) of
        Inl e \<Rightarrow> (Inl e, db)
      | Inr _ \<Rightarrow> transaction (markDeadLetter_body sv eventId worker observedAt errorClass) db)"

end
