(* ===== verification/Verus_Job_Invariant.thy ===== *)
theory Verus_Job_Invariant
  imports Verus_Jobs
begin

text \<open>
  What holds of jobs and anchors over every sequence of operations.  The nine operations that change
  the state of a job are those of the lifecycle in packages/domain/src/verus-job.ts: they are indexed
  by its commands here, and shown to accept exactly what the lifecycle accepts.
\<close>

section \<open>The steps of an operation\<close>

lemma update_verus_job_Inr:
  "update_verus_job P f db = Inr (n, db') \<longleftrightarrow>
     (\<forall>r \<in> set (db_jobs db). P r \<longrightarrow> verus_job_update_ok r (f r)) \<and> n = length (filter P (db_jobs db))
     \<and> db' = db\<lparr>db_jobs := update_where P f (db_jobs db)\<rparr>"
  by (auto simp: update_verus_job_def)

lemma update_anchor_Inr:
  "update_anchor P f db = Inr (n, db') \<longleftrightarrow>
     (\<forall>r \<in> set (db_anchors db). P r \<longrightarrow> anchor_update_ok r (f r)) \<and> n = length (filter P (db_anchors db))
     \<and> db' = db\<lparr>db_anchors := update_where P f (db_anchors db)\<rparr>"
  by (auto simp: update_anchor_def)

lemma transitionAnchor_Inr:
  "transitionAnchor i next ev t db = Inr (u, db') \<longleftrightarrow>
     (if next \<in> {J_claimed, J_preflight} then db' = db
      else (\<forall>r \<in> set (db_anchors db). an_outbox_event_id r = i \<longrightarrow> anchor_update_ok r (anchor_evidence_update next ev t r))
        \<and> length (filter (\<lambda>r. an_outbox_event_id r = i) (db_anchors db)) = 1
        \<and> db' = db\<lparr>db_anchors := update_where (\<lambda>r. an_outbox_event_id r = i) (anchor_evidence_update next ev t) (db_anchors db)\<rparr>)"
  unfolding transitionAnchor_def by (auto simp: update_anchor_Inr)

lemma toRecord_Inr:
  assumes "toRecord row cref = Inr r"
  shows "jr_state r = vj_state row" "jr_version r = vj_version row" "jr_id r = vj_id row"
    "jr_submissionAmbiguous r = vj_submission_ambiguous row" "jr_manifestDigest r = vj_manifest_digest row"
    "jr_outboxEventId r = vj_outbox_event_id row" "Some (jr_targetIdentity r) = vj_target_identity row"
    "jr_vdxfKey r = vj_vdxf_key row" "jr_readbackDigest r = when_truthy (vj_readback_digest row)"
    "jr_transactionId r = when_truthy (vj_transaction_id row)" "jr_blockHeight r = vj_block_height row"
  using assms by (auto simp: toRecord_def split: option.splits json.splits if_splits)

definition job_of :: "database \<Rightarrow> string \<Rightarrow> VerusJobRow option" where
  "job_of db i = select_where (\<lambda>j. job_event db j \<noteq> None \<and> vj_outbox_event_id j = i) (db_jobs db)"

lemma selectJob_by_event:
  "selectJob (\<lambda>j e. vj_outbox_event_id j = i) db =
     map_option (\<lambda>j. (j, committee_reference db (vj_committee_id j))) (job_of db i)"
  unfolding selectJob_def job_of_def
  by (rule arg_cong[where f = "map_option _"], rule select_where_cong) (auto split: option.splits)

lemma load_job_Inr:
  "load_job i db = Inr (r, db') \<longleftrightarrow>
     db' = db \<and> (\<exists>j. job_of db i = Some j \<and> toRecord j (committee_reference db (vj_committee_id j)) = Inr r)"
  by (cases "job_of db i") (auto simp: load_job_def selectJob_by_event)

lemma job_of_SomeD:
  assumes "job_of db i = Some j"
  shows "j \<in> set (db_jobs db)" "vj_outbox_event_id j = i" "job_event db j \<noteq> None"
  using select_where_SomeD[OF assms[unfolded job_of_def]] by auto

lemma load_job_row:
  assumes "load_job i db = Inr (r, db')"
  obtains j where "j \<in> set (db_jobs db)" "vj_outbox_event_id j = i" "job_event db j \<noteq> None"
    "toRecord j (committee_reference db (vj_committee_id j)) = Inr r" "db' = db"
  using assms job_of_SomeD unfolding load_job_Inr by blast

lemma requireLease_Inr:
  "requireLease i worker t db = Inr (u, db') \<longleftrightarrow>
     db' = db \<and> (\<exists>r \<in> set (db_outbox db). ob_id r = i \<and> ob_event_type r = VERUS_ANCHOR_EVENT_TYPE
       \<and> ob_state r = O_claimed \<and> ob_lease_owner r = Some (ow_workerReference worker)
       \<and> (\<exists>e. ob_lease_expires_at r = Some e \<and> t < e))"
proof -
  have "select_where P t \<noteq> None \<longleftrightarrow> (\<exists>r \<in> set t. P r)" for P :: "OutboxRow \<Rightarrow> bool" and t
    by (simp add: select_where_None_iff del: not_None_eq)
  thus ?thesis unfolding requireLease_def
    by (simp del: not_None_eq) (auto split: option.splits)
qed

lemma job_transition_steps:
  assumes "job_transition_body sv i worker t expected next ev sync db = Inr (after, db')"
  obtains before db1 db2 db3 h where "requireLease i worker t db = Inr ((), db)"
    "load_job i db = Inr (before, db)" "jr_state before \<in> set expected"
    "update_verus_job (\<lambda>r. vj_outbox_event_id r = i \<and> vj_version r = jr_version before)
       (evidence_update next ev (case te_submissionAmbiguous ev of Some b \<Rightarrow> b
          | None \<Rightarrow> jr_submissionAmbiguous before) t) db = Inr (1, db1)"
    "(if sync then transitionAnchor i next ev t else returnT ()) db1 = Inr ((), db2)"
    "appendAudit sv (workerContext worker before next) (job_committeeId i db2)
       (''transitionVerusJob:'' @ verus_job_state_name next)
       \<lparr>tg_type = ''verus_job'', tg_reference = jr_id before,
        tg_priorState = Some (verus_job_state_name (jr_state before)),
        tg_newState = Some (verus_job_state_name next)\<rparr>
       (if suffix ''failed'' (verus_job_state_name next) then ''failed'' else ''succeeded'') db2 = Inr (h, db3)"
    "load_job i db3 = Inr (after, db')"
proof -
  from assms obtain d0 d1 before db1 db2 db3 h n where 1: "requireLease i worker t db = Inr ((), d0)"
    "load_job i d0 = Inr (before, d1)" "jr_state before \<in> set expected"
    "update_verus_job (\<lambda>r. vj_outbox_event_id r = i \<and> vj_version r = jr_version before)
       (evidence_update next ev (case te_submissionAmbiguous ev of Some b \<Rightarrow> b
          | None \<Rightarrow> jr_submissionAmbiguous before) t) d1 = Inr (n, db1)" "n = 1"
    "(if sync then transitionAnchor i next ev t else returnT ()) db1 = Inr ((), db2)"
    "appendAudit sv (workerContext worker before next) (job_committeeId i db2)
       (''transitionVerusJob:'' @ verus_job_state_name next)
       \<lparr>tg_type = ''verus_job'', tg_reference = jr_id before,
        tg_priorState = Some (verus_job_state_name (jr_state before)),
        tg_newState = Some (verus_job_state_name next)\<rparr>
       (if suffix ''failed'' (verus_job_state_name next) then ''failed'' else ''succeeded'') db2 = Inr (h, db3)"
    "load_job i db3 = Inr (after, db')"
    unfolding job_transition_body_def by (elim bindT_Inr[THEN iffD1, elim_format] exE conjE) auto
  moreover have "d0 = db" using 1(1) by (simp add: requireLease_Inr)
  moreover have "d1 = d0" using 1(2) by (simp add: load_job_Inr)
  ultimately show ?thesis using that by simp
qed

section \<open>Consistency of jobs and anchors\<close>

definition anchor_mirrors :: "VerusJobRow \<Rightarrow> anchor_row \<Rightarrow> bool" where
  "anchor_mirrors j a \<longleftrightarrow>
     (if vj_state j \<in> {J_claimed, J_preflight}
      then an_state a \<in> {J_pending, J_retryable_failed, J_reorg_pending} else an_state a = vj_state j)
     \<and> an_transaction_id a = vj_transaction_id j \<and> an_block_height a = vj_block_height j
     \<and> an_block_hash a = vj_block_hash j \<and> an_readback_digest a = vj_readback_digest j
     \<and> an_manifest_digest a = vj_manifest_digest j"

definition evidence_for_state :: "VerusJobRow \<Rightarrow> bool" where
  "evidence_for_state j \<longleftrightarrow>
     (vj_state j \<in> {J_submitted, J_confirming, J_readback, J_verified} \<longrightarrow> vj_transaction_id j \<noteq> None)
     \<and> (vj_state j \<in> {J_readback, J_verified} \<longrightarrow> vj_block_height j \<noteq> None \<and> vj_block_hash j \<noteq> None)
     \<and> vj_readback_digest j = (if vj_state j = J_verified then Some (vj_manifest_digest j) else None)"

definition job_consistent :: "anchor_row list \<Rightarrow> VerusJobRow \<Rightarrow> bool" where
  "job_consistent anchors j \<longleftrightarrow>
     verus_job_row_ok j \<and> evidence_for_state j
     \<and> (\<exists>a \<in> set anchors. an_outbox_event_id a = vj_outbox_event_id j \<and> anchor_row_ok a \<and> anchor_mirrors j a)"

definition verus_inv :: "database \<Rightarrow> bool" where
  "verus_inv db \<longleftrightarrow>
     distinct (map vj_outbox_event_id (db_jobs db)) \<and> distinct (map an_outbox_event_id (db_anchors db))
     \<and> (\<forall>j \<in> set (db_jobs db). job_consistent (db_anchors db) j)
     \<and> vj_outbox_event_id ` set (db_jobs db) \<subseteq> ob_id ` set (db_outbox db)
     \<and> an_outbox_event_id ` set (db_anchors db) \<subseteq> ob_id ` set (db_outbox db)"

lemma verus_inv_cong:
  assumes "db_jobs db' = db_jobs db" "db_anchors db' = db_anchors db"
    and "ob_id ` set (db_outbox db) \<subseteq> ob_id ` set (db_outbox db')"
  shows "verus_inv db \<Longrightarrow> verus_inv db'"
  using assms unfolding verus_inv_def by (metis order_trans)

lemma verus_inv_frame:
  assumes "untouched db_jobs m" "untouched db_anchors m" "untouched db_outbox m"
  shows "keeps verus_inv m"
proof (rule keepsI)
  fix db a db' assume "verus_inv db" "m db = Inr (a, db')"
  thus "verus_inv db'" using verus_inv_cong[of db' db] assms untouchedD by (metis order_refl)
qed

lemma update_outbox_verus_inv [keeps_rules]:
  assumes "\<And>r. ob_id (f r) = ob_id r"
  shows "keeps verus_inv (update_outbox P f)"
proof (rule keepsI)
  fix db a db' assume inv: "verus_inv db" and "update_outbox P f db = Inr (a, db')"
  hence db': "db' = db\<lparr>db_outbox := update_where P f (db_outbox db)\<rparr>" by (simp add: update_outbox_Inr)
  have "ob_id ` set (update_where P f (db_outbox db)) = ob_id ` set (db_outbox db)"
    using map_update_where[of P ob_id f "db_outbox db"] assms by (metis set_map)
  thus "verus_inv db'" using inv verus_inv_cong[of db' db] by (simp add: db')
qed

lemma outbox_parts_verus_inv [keeps_rules]:
  "keeps verus_inv (outbox_audit sv worker row command reason prior new result)"
  "keeps verus_inv (loadClaim eventId w t)"
  "keeps verus_inv (recordAttempt sv row w' n result cls started t)"
  "keeps verus_inv (newId sv)"
  "keeps verus_inv (appendAudit sv context cid command target result)"
proof -
  show "keeps verus_inv (outbox_audit sv worker row command reason prior new result)"
    by (rule verus_inv_frame) (rule frame_rules)+
  show "keeps verus_inv (newId sv)" by (rule verus_inv_frame) (rule frame_rules)+
  show "keeps verus_inv (appendAudit sv context cid command target result)"
    by (rule verus_inv_frame) (rule frame_rules)+
  show "keeps verus_inv (loadClaim eventId w t)" by (rule keepsI) (auto simp: loadClaim_Inr)
  show "keeps verus_inv (recordAttempt sv row w' n result cls started t)"
    by (rule keepsI) (auto simp: recordAttempt_Inr elim!: verus_inv_cong[rotated 3])
qed

lemma insert_outbox_event_verus_inv [keeps_rules]:
  "keeps verus_inv (insert_outbox_event sv eid cid et aty ar scv pr pd kh)"
proof (rule keepsI)
  fix db a db' assume "verus_inv db" "insert_outbox_event sv eid cid et aty ar scv pr pd kh db = Inr (a, db')"
  thus "verus_inv db'" using verus_inv_cong[of db' db] by (auto simp: insert_outbox_event_Inr)
qed

lemma outbox_bodies_verus_inv [keeps_rules]:
  "keeps verus_inv (claimNext_body sv worker t d types single)"
  "keeps verus_inv (heartbeat_body sv eventId worker t d)"
  "keeps verus_inv (succeed_body sv eventId worker t)"
  "keeps verus_inv (failRetryable_body sv eventId worker t options)"
  "keeps verus_inv (failTerminal_body sv eventId worker t cls)"
  unfolding claimNext_body_def heartbeat_body_def succeed_body_def failRetryable_body_def failTerminal_body_def Let_def
  by (intro keeps_rules; simp add: claimed_by_def)+

lemma outbox_step_verus_inv: "outbox_step sv db db' \<Longrightarrow> verus_inv db \<Longrightarrow> verus_inv db'"
  by (rule outbox_step_invariant) (auto intro: keeps_rules)

section \<open>The operations by command\<close>

record job_arguments =
  ja_transactionId :: string
  ja_blockHeight :: js_number
  ja_blockHash :: string
  ja_digest :: string
  ja_errorClass :: string
  ja_ambiguous :: bool

fun job_operation ::
  "services \<Rightarrow> verus_job_command \<Rightarrow> job_arguments \<Rightarrow> string \<Rightarrow> OutboxWorkerContext \<Rightarrow> time \<Rightarrow> VerusJobRecord op" where
  "job_operation sv ClaimVerusJob x i worker t = claim sv i worker t"
| "job_operation sv BeginVerusPreflight x i worker t = beginPreflight sv i worker t"
| "job_operation sv RecordVerusSubmission x i worker t = recordSubmission sv i worker t (ja_transactionId x)"
| "job_operation sv BeginVerusConfirmation x i worker t = beginConfirmation sv i worker t"
| "job_operation sv BeginVerusReadback x i worker t = beginReadback sv i worker t (ja_blockHeight x) (ja_blockHash x)"
| "job_operation sv VerifyVerusReadback x i worker t = verifyReadback sv i worker t (ja_digest x)"
| "job_operation sv RecordRetryableVerusFailure x i worker t =
     retryableFailure sv i worker t (ja_errorClass x) (ja_ambiguous x)"
| "job_operation sv RecordTerminalVerusFailure x i worker t = terminalFailure sv i worker t (ja_errorClass x)"
| "job_operation sv MarkVerusReorgPending x i worker t = reorg sv i worker t"

fun command_evidence :: "verus_job_command \<Rightarrow> job_arguments \<Rightarrow> time \<Rightarrow> TransitionEvidence" where
  "command_evidence RecordVerusSubmission x t = noEvidence\<lparr>te_transactionId := Some (ja_transactionId x),
     te_submittedAt := Some t, te_submissionAmbiguous := Some False\<rparr>"
| "command_evidence BeginVerusReadback x t = noEvidence\<lparr>te_blockHeight := Some (ja_blockHeight x),
     te_blockHash := Some (ja_blockHash x), te_confirmedAt := Some t\<rparr>"
| "command_evidence VerifyVerusReadback x t =
     noEvidence\<lparr>te_readbackDigest := Some (ja_digest x), te_readbackAt := Some t\<rparr>"
| "command_evidence RecordRetryableVerusFailure x t =
     noEvidence\<lparr>te_errorClass := Some (ja_errorClass x), te_submissionAmbiguous := Some (ja_ambiguous x)\<rparr>"
| "command_evidence RecordTerminalVerusFailure x t =
     noEvidence\<lparr>te_errorClass := Some (ja_errorClass x), te_submissionAmbiguous := Some False\<rparr>"
| "command_evidence MarkVerusReorgPending x t =
     noEvidence\<lparr>te_errorClass := Some ''reorg_detected'', te_reorgDetectedAt := Some t\<rparr>"
| "command_evidence _ x t = noEvidence"

definition command_sync :: "verus_job_command \<Rightarrow> bool" where
  "command_sync c \<longleftrightarrow> c \<noteq> ClaimVerusJob \<and> c \<noteq> BeginVerusPreflight"

lemma job_operation_transition:
  "job_operation sv c x i worker t = job_transition sv i worker t (verus_job_expected c) (verus_job_target c)
     (command_evidence c x t) (command_sync c)"
  by (cases c) (simp_all add: claim_def beginPreflight_def recordSubmission_def beginConfirmation_def
      beginReadback_def verifyReadback_def retryableFailure_def terminalFailure_def reorg_def command_sync_def)

text \<open>The row of the job and the row of its anchor after a command.\<close>

definition job_after :: "verus_job_command \<Rightarrow> job_arguments \<Rightarrow> time \<Rightarrow> VerusJobRow \<Rightarrow> VerusJobRow" where
  "job_after c x t j = evidence_update (verus_job_target c) (command_evidence c x t)
     (case te_submissionAmbiguous (command_evidence c x t) of Some b \<Rightarrow> b | None \<Rightarrow> vj_submission_ambiguous j) t j"

definition anchor_after :: "verus_job_command \<Rightarrow> job_arguments \<Rightarrow> time \<Rightarrow> anchor_row \<Rightarrow> anchor_row" where
  "anchor_after c x t a =
     (if command_sync c then anchor_evidence_update (verus_job_target c) (command_evidence c x t) t a else a)"

lemmas after_defs = job_after_def anchor_after_def evidence_update_def anchor_evidence_update_def
  noEvidence_def command_sync_def

lemma job_after_same [simp]:
  "vj_outbox_event_id (job_after c x t j) = vj_outbox_event_id j"
  "vj_manifest_digest (job_after c x t j) = vj_manifest_digest j"
  "vj_state (job_after c x t j) = verus_job_target c"
  "an_outbox_event_id (anchor_after c x t a) = an_outbox_event_id a"
  by (simp_all add: after_defs)

lemma command_mirrors:
  assumes "anchor_mirrors j a" "vj_state j \<in> set (verus_job_expected c)"
  shows "anchor_mirrors (job_after c x t j) (anchor_after c x t a)"
  using assms by (cases c) (auto simp: anchor_mirrors_def after_defs)

lemma command_evidence_for_state:
  assumes "evidence_for_state j" "vj_state j \<in> set (verus_job_expected c)" "verus_job_row_ok (job_after c x t j)"
  shows "evidence_for_state (job_after c x t j)"
  using assms by (cases c)
    (auto simp: evidence_for_state_def verus_job_row_ok_def verified_evidence_complete_def after_defs)

lemma command_anchor_guard:
  assumes "anchor_mirrors j a" "vj_state j \<in> set (verus_job_expected c)" "command_sync c"
  shows "cbc_guard_anchor_transition (an_state a) (verus_job_target c)"
  using assms by (cases c) (auto simp: anchor_mirrors_def command_sync_def cbc_guard_anchor_transition_def)

lemma command_job_guard:
  assumes "s \<in> set (verus_job_expected c)"
  shows "cbc_guard_verus_job_transition s (verus_job_target c)"
  using assms by (cases c) auto

lemma map_update_where_on:
  assumes "\<And>r. r \<in> set t \<Longrightarrow> P r \<Longrightarrow> g (f r) = g r"
  shows "map g (update_where P f t) = map g t"
  using assms by (induction t) auto

text \<open>One job and its anchor are replaced by a consistent pair.\<close>

lemma verus_inv_replace:
  assumes inv: "verus_inv db" and j: "j \<in> set (db_jobs db)" and a: "a \<in> set (db_anchors db)"
    "an_outbox_event_id a = vj_outbox_event_id j"
    and f: "vj_outbox_event_id (f j) = vj_outbox_event_id j" "verus_job_row_ok (f j)" "evidence_for_state (f j)"
    and g: "an_outbox_event_id (g a) = an_outbox_event_id a" "anchor_row_ok (g a)" "anchor_mirrors (f j) (g a)"
    and jobs: "db_jobs db' = update_where (\<lambda>r. vj_outbox_event_id r = vj_outbox_event_id j) f (db_jobs db)"
    and anchors: "db_anchors db' = update_where (\<lambda>r. an_outbox_event_id r = vj_outbox_event_id j) g (db_anchors db)"
    and outbox: "db_outbox db' = db_outbox db"
  shows "verus_inv db'"
proof -
  have onlyj: "r = j" if "r \<in> set (db_jobs db)" "vj_outbox_event_id r = vj_outbox_event_id j" for r
    using distinct_map_key_eq[of vj_outbox_event_id "db_jobs db" r j] that j inv unfolding verus_inv_def by blast
  have onlya: "r = a" if "r \<in> set (db_anchors db)" "an_outbox_event_id r = vj_outbox_event_id j" for r
    using distinct_map_key_eq[of an_outbox_event_id "db_anchors db" r a] that a inv unfolding verus_inv_def by metis
  have jids: "map vj_outbox_event_id (db_jobs db') = map vj_outbox_event_id (db_jobs db)"
    unfolding jobs by (rule map_update_where_on) (metis onlyj f(1))
  have aids: "map an_outbox_event_id (db_anchors db') = map an_outbox_event_id (db_anchors db)"
    unfolding anchors by (rule map_update_where_on) (metis onlya g(1))
  have ga: "g a \<in> set (db_anchors db')" unfolding anchors set_update_where using a by blast
  have "job_consistent (db_anchors db') r" if "r \<in> set (db_jobs db')" for r
    using that unfolding jobs
  proof (cases rule: in_update_whereE)
    case same
    then obtain b where b: "b \<in> set (db_anchors db)" "an_outbox_event_id b = vj_outbox_event_id r"
        "anchor_row_ok b" "anchor_mirrors r b" "verus_job_row_ok r" "evidence_for_state r"
      using inv unfolding verus_inv_def job_consistent_def by blast
    have "b \<in> set (db_anchors db')" unfolding anchors set_update_where using b(1,2) same(2) by simp
    thus ?thesis using b unfolding job_consistent_def by blast
  next
    case (changed q)
    hence "r = f j" using onlyj by blast
    moreover have "an_outbox_event_id (g a) = vj_outbox_event_id (f j)" using f(1) g(1) a(2) by simp
    ultimately show ?thesis using f(2,3) g(2,3) ga unfolding job_consistent_def by blast
  qed
  moreover have "vj_outbox_event_id ` set (db_jobs db') = vj_outbox_event_id ` set (db_jobs db)"
    "an_outbox_event_id ` set (db_anchors db') = an_outbox_event_id ` set (db_anchors db)"
    using jids aids by (metis set_map)+
  ultimately show ?thesis using inv outbox unfolding verus_inv_def jids aids by simp
qed

lemma verus_inv_job:
  assumes "verus_inv db" "j \<in> set (db_jobs db)"
  obtains a where "a \<in> set (db_anchors db)" "an_outbox_event_id a = vj_outbox_event_id j" "anchor_row_ok a"
    "anchor_mirrors j a" "verus_job_row_ok j" "evidence_for_state j"
    "\<And>r. r \<in> set (db_jobs db) \<Longrightarrow> vj_outbox_event_id r = vj_outbox_event_id j \<Longrightarrow> r = j"
proof -
  have "r = j" if "r \<in> set (db_jobs db)" "vj_outbox_event_id r = vj_outbox_event_id j" for r
    using distinct_map_key_eq[of vj_outbox_event_id "db_jobs db" r j] that assms unfolding verus_inv_def by blast
  moreover obtain a where "a \<in> set (db_anchors db)" "an_outbox_event_id a = vj_outbox_event_id j"
      "anchor_row_ok a" "anchor_mirrors j a" "verus_job_row_ok j" "evidence_for_state j"
    using assms unfolding verus_inv_def job_consistent_def by blast
  ultimately show ?thesis using that by blast
qed

lemma sync_anchor_Inr:
  "(if command_sync c then transitionAnchor i (verus_job_target c) (command_evidence c x t) t else returnT ()) db = Inr (u, db')
   \<longleftrightarrow> (command_sync c \<longrightarrow> (\<forall>r \<in> set (db_anchors db). an_outbox_event_id r = i \<longrightarrow> anchor_update_ok r (anchor_after c x t r))
          \<and> length (filter (\<lambda>r. an_outbox_event_id r = i) (db_anchors db)) = 1)
       \<and> db' = db\<lparr>db_anchors := update_where (\<lambda>r. an_outbox_event_id r = i) (anchor_after c x t) (db_anchors db)\<rparr>"
proof (cases "command_sync c")
  case True
  hence "anchor_after c x t = anchor_evidence_update (verus_job_target c) (command_evidence c x t) t"
    by (simp add: anchor_after_def fun_eq_iff)
  moreover have "verus_job_target c \<notin> {J_claimed, J_preflight}" using True by (cases c) (auto simp: command_sync_def)
  ultimately show ?thesis using True by (simp add: transitionAnchor_Inr)
next
  case False
  hence "update_where (\<lambda>r. an_outbox_event_id r = i) (anchor_after c x t) l = l" for l
    by (induction l) (auto simp: anchor_after_def)
  thus ?thesis using False by simp
qed

text \<open>What a successful operation did.\<close>

lemma job_command_effect:
  assumes inv: "verus_inv db"
    and run: "job_transition_body sv i worker t (verus_job_expected c) (verus_job_target c)
        (command_evidence c x t) (command_sync c) db = Inr (after, db')"
  obtains j f where "j \<in> set (db_jobs db)" "vj_outbox_event_id j = i" "vj_state j \<in> set (verus_job_expected c)"
    "f j = job_after c x t j" "verus_job_update_ok j (job_after c x t j)"
    "db_jobs db' = update_where (\<lambda>r. vj_outbox_event_id r = i) f (db_jobs db)"
    "db_anchors db' = update_where (\<lambda>r. an_outbox_event_id r = i) (anchor_after c x t) (db_anchors db)"
    "command_sync c \<longrightarrow> (\<forall>a \<in> set (db_anchors db). an_outbox_event_id a = i \<longrightarrow> anchor_update_ok a (anchor_after c x t a))"
    "db_outbox db' = db_outbox db" "jr_state after = verus_job_target c" "load_job i db' = Inr (after, db')"
    "requireLease i worker t db = Inr ((), db)"
proof (rule job_transition_steps[OF run])
  fix before :: VerusJobRecord and db1 db2 db3 h
  let ?f = "evidence_update (verus_job_target c) (command_evidence c x t)
     (case te_submissionAmbiguous (command_evidence c x t) of Some b \<Rightarrow> b | None \<Rightarrow> jr_submissionAmbiguous before) t"
  assume lease: "requireLease i worker t db = Inr ((), db)"
    and load: "load_job i db = Inr (before, db)" and exp: "jr_state before \<in> set (verus_job_expected c)"
    and upd: "update_verus_job (\<lambda>r. vj_outbox_event_id r = i \<and> vj_version r = jr_version before) ?f db = Inr (1, db1)"
    and anc: "(if command_sync c then transitionAnchor i (verus_job_target c) (command_evidence c x t) t
        else returnT ()) db1 = Inr ((), db2)"
    and aud: "appendAudit sv (workerContext worker before (verus_job_target c)) (job_committeeId i db2)
       (''transitionVerusJob:'' @ verus_job_state_name (verus_job_target c))
       \<lparr>tg_type = ''verus_job'', tg_reference = jr_id before,
        tg_priorState = Some (verus_job_state_name (jr_state before)),
        tg_newState = Some (verus_job_state_name (verus_job_target c))\<rparr>
       (if suffix ''failed'' (verus_job_state_name (verus_job_target c)) then ''failed'' else ''succeeded'') db2 = Inr (h, db3)"
    and after: "load_job i db3 = Inr (after, db')"
  obtain j where j: "j \<in> set (db_jobs db)" "vj_outbox_event_id j = i"
      and rec: "toRecord j (committee_reference db (vj_committee_id j)) = Inr before"
    using load by (rule load_job_row)
  note r = toRecord_Inr[OF rec]
  obtain a where only: "\<And>r. r \<in> set (db_jobs db) \<Longrightarrow> vj_outbox_event_id r = vj_outbox_event_id j \<Longrightarrow> r = j"
    using verus_inv_job[OF inv j(1)] by metis
  have fj: "?f j = job_after c x t j" unfolding job_after_def r(4) ..
  have P: "(vj_outbox_event_id q = i \<and> vj_version q = jr_version before) = (vj_outbox_event_id q = i)"
    if "q \<in> set (db_jobs db)" for q using only[OF that] j(2) r(2) by auto
  have db1: "db1 = db\<lparr>db_jobs := update_where (\<lambda>r. vj_outbox_event_id r = i) ?f (db_jobs db)\<rparr>"
    and ok: "verus_job_update_ok j (job_after c x t j)"
  proof -
    have "db1 = db\<lparr>db_jobs := update_where (\<lambda>r. vj_outbox_event_id r = i \<and> vj_version r = jr_version before) ?f (db_jobs db)\<rparr>"
      and all: "\<forall>q \<in> set (db_jobs db). vj_outbox_event_id q = i \<and> vj_version q = jr_version before \<longrightarrow> verus_job_update_ok q (?f q)"
      using upd unfolding update_verus_job_Inr by blast+
    thus "db1 = db\<lparr>db_jobs := update_where (\<lambda>r. vj_outbox_event_id r = i) ?f (db_jobs db)\<rparr>"
      by (simp only: update_where_cong[OF P])
    show "verus_job_update_ok j (job_after c x t j)" unfolding fj[symmetric] using all j r(2) by simp
  qed
  note an = anc[unfolded sync_anchor_Inr]
  have d3: "db' = db3" using after by (simp add: load_job_Inr)
  have fr: "db_jobs db' = db_jobs db2" "db_anchors db' = db_anchors db2" "db_outbox db' = db_outbox db2"
    unfolding d3 using untouchedD[OF appendAudit_frame(13) aud] untouchedD[OF appendAudit_frame(14) aud]
      untouchedD[OF appendAudit_frame(11) aud] by simp_all
  have jobs: "db_jobs db' = update_where (\<lambda>r. vj_outbox_event_id r = i) ?f (db_jobs db)" using fr an db1 by simp
  obtain k where k: "k \<in> set (db_jobs db')" "vj_outbox_event_id k = i" "toRecord k (committee_reference db3 (vj_committee_id k)) = Inr after"
    using after d3 by (auto elim!: load_job_row)
  have "k = ?f j" using k(1) unfolding jobs
    by (cases rule: in_update_whereE) (use k(2) only j(2) in auto)
  hence st: "jr_state after = verus_job_target c" using toRecord_Inr(1)[OF k(3)] by (simp add: evidence_update_def)
  show ?thesis
    by (rule that[of j ?f]) (use j exp r(1) fj ok jobs fr an db1 st after d3 lease in auto)
qed

lemma job_command_verus_inv:
  "keeps verus_inv (job_transition_body sv i worker t (verus_job_expected c) (verus_job_target c)
     (command_evidence c x t) (command_sync c))"
proof (rule keepsI)
  fix db after db'
  assume inv: "verus_inv db" and run: "job_transition_body sv i worker t (verus_job_expected c)
     (verus_job_target c) (command_evidence c x t) (command_sync c) db = Inr (after, db')"
  show "verus_inv db'"
  proof (rule job_command_effect[OF inv run])
    fix j f
    assume j: "j \<in> set (db_jobs db)" "vj_outbox_event_id j = i" "vj_state j \<in> set (verus_job_expected c)"
      and f: "f j = job_after c x t j" "verus_job_update_ok j (job_after c x t j)"
      and jobs: "db_jobs db' = update_where (\<lambda>r. vj_outbox_event_id r = i) f (db_jobs db)"
      and anchors: "db_anchors db' = update_where (\<lambda>r. an_outbox_event_id r = i) (anchor_after c x t) (db_anchors db)"
      and aok: "command_sync c \<longrightarrow> (\<forall>a \<in> set (db_anchors db). an_outbox_event_id a = i \<longrightarrow> anchor_update_ok a (anchor_after c x t a))"
      and out: "db_outbox db' = db_outbox db"
    obtain a where a: "a \<in> set (db_anchors db)" "an_outbox_event_id a = vj_outbox_event_id j" "anchor_row_ok a"
        "anchor_mirrors j a" "evidence_for_state j"
      using verus_inv_job[OF inv j(1)] by metis
    have ok: "verus_job_row_ok (job_after c x t j)" using f(2) by (simp add: verus_job_update_ok_def)
    have "anchor_row_ok (anchor_after c x t a)"
      using a aok j(2) by (cases "command_sync c") (auto simp: anchor_update_ok_def anchor_after_def)
    thus ?thesis
      using verus_inv_replace[OF inv j(1) a(1,2), of f "anchor_after c x t" db'] f(1) ok jobs anchors out j(2)
        command_evidence_for_state[OF a(5) j(3) ok] command_mirrors[OF a(4) j(3)] by simp
  qed
qed

end
