(* ===== verification/Verus_Job_Properties.thy ===== *)
theory Verus_Job_Properties
  imports Verus_Job_Invariant
begin

text \<open>
  The properties of the job repository: jobs and anchors agree over every history, a verified job has
  its evidence, the repository implements the lifecycle, enqueueing is idempotent, and its field guard
  is that of the payload guard.
\<close>

section \<open>Dead letters and new jobs\<close>

lemma markDeadLetter_verus_inv: "keeps verus_inv (markDeadLetter_body sv i worker t cls)"
proof (rule keepsI)
  fix db :: database and after :: VerusJobRecord and db' :: database
  let ?f = "\<lambda>r. r\<lparr>vj_state := J_terminal_failed, vj_last_error_class := Some cls, vj_submission_ambiguous := False,
      vj_version := vj_version r + 1, vj_updated_at := t\<rparr>"
  let ?g = "anchor_evidence_update J_terminal_failed noEvidence t"
  assume inv: "verus_inv db" and run: "markDeadLetter_body sv i worker t cls db = Inr (after, db')"
  from run obtain before :: VerusJobRecord and d0 n db1 db2 db3 h where load0: "load_job i db = Inr (before, d0)"
    and st: "jr_state before = J_retryable_failed \<or> jr_state before = J_reorg_pending"
    and upd0: "update_verus_job (\<lambda>r. vj_outbox_event_id r = i \<and> vj_version r = jr_version before) ?f d0 = Inr (n, db1)"
    and anc: "transitionAnchor i J_terminal_failed noEvidence t db1 = Inr ((), db2)"
    and aud: "appendAudit sv (workerContext worker before J_terminal_failed) (job_committeeId i db2) ''deadLetterVerusJob''
              \<lparr>tg_type = ''verus_job'', tg_reference = jr_id before,
               tg_priorState = Some (verus_job_state_name (jr_state before)),
               tg_newState = Some ''terminal_failed''\<rparr> ''failed'' db2 = Inr (h, db3)"
    and after: "load_job i db3 = Inr (after, db')"
    unfolding markDeadLetter_body_def by (elim bindT_Inr[THEN iffD1, elim_format] exE conjE) auto
  have d0: "d0 = db" using load0 by (simp add: load_job_Inr)
  note load = load0[unfolded d0] and upd = upd0[unfolded d0]
  obtain j where j: "j \<in> set (db_jobs db)" "vj_outbox_event_id j = i"
      and rec: "toRecord j (committee_reference db (vj_committee_id j)) = Inr before"
    using load by (rule load_job_row)
  note r = toRecord_Inr[OF rec]
  obtain a where a: "a \<in> set (db_anchors db)" "an_outbox_event_id a = vj_outbox_event_id j" "anchor_mirrors j a"
      "evidence_for_state j"
    and only: "\<And>r. r \<in> set (db_jobs db) \<Longrightarrow> vj_outbox_event_id r = vj_outbox_event_id j \<Longrightarrow> r = j"
    using verus_inv_job[OF inv j(1)] by metis
  have P: "(vj_outbox_event_id q = i \<and> vj_version q = jr_version before) = (vj_outbox_event_id q = i)"
    if "q \<in> set (db_jobs db)" for q using only[OF that] j(2) r(2) by auto
  have db1: "db1 = db\<lparr>db_jobs := update_where (\<lambda>r. vj_outbox_event_id r = i) ?f (db_jobs db)\<rparr>"
    using upd unfolding update_verus_job_Inr by (simp only: update_where_cong[OF P])
  have ok: "verus_job_row_ok (?f j)"
  proof -
    have "\<forall>r \<in> set (db_jobs db). vj_outbox_event_id r = i \<and> vj_version r = jr_version before \<longrightarrow> verus_job_update_ok r (?f r)"
      using upd unfolding update_verus_job_Inr by (rule conjunct1)
    from bspec[OF this j(1)] show ?thesis using j(2) r(2) unfolding verus_job_update_ok_def by simp
  qed
  have aok: "anchor_row_ok (?g a)"
    using anc a(1,2) j(2) db1 by (simp add: transitionAnchor_Inr anchor_update_ok_def)
  have d3: "db' = db3" using after by (simp add: load_job_Inr)
  have fr: "db_jobs db' = db_jobs db2" "db_anchors db' = db_anchors db2" "db_outbox db' = db_outbox db2"
    unfolding d3 using untouchedD[OF appendAudit_frame(13) aud] untouchedD[OF appendAudit_frame(14) aud]
      untouchedD[OF appendAudit_frame(11) aud] by simp_all
  have "evidence_for_state (?f j)" "anchor_mirrors (?f j) (?g a)"
    using a(3,4) st r(1) by (auto simp: evidence_for_state_def anchor_mirrors_def anchor_evidence_update_def noEvidence_def)
  moreover have "an_outbox_event_id (?g a) = an_outbox_event_id a" by (simp add: anchor_evidence_update_def)
  ultimately show "verus_inv db'"
    using verus_inv_replace[OF inv j(1) a(1,2), of ?f ?g db'] ok aok fr anc db1 j(2) by (simp add: transitionAnchor_Inr)
qed

lemma insert_verus_job_Inr:
  "insert_verus_job row db = Inr (u, db') \<Longrightarrow> verus_job_row_ok row
     \<and> vj_outbox_event_id row \<notin> vj_outbox_event_id ` set (db_jobs db) \<and> db' = db\<lparr>db_jobs := db_jobs db @ [row]\<rparr>"
  by (auto simp: insert_verus_job_def)

lemma insert_anchor_record_Inr:
  "insert_anchor_record row db = Inr (u, db') \<Longrightarrow> anchor_row_ok row
     \<and> an_outbox_event_id row \<notin> an_outbox_event_id ` set (db_anchors db) \<and> db' = db\<lparr>db_anchors := db_anchors db @ [row]\<rparr>"
  by (auto simp: insert_anchor_record_def)

lemma job_consistent_mono: "job_consistent anchors j \<Longrightarrow> job_consistent (anchors @ [a]) j"
  by (auto simp: job_consistent_def)

lemma verus_inv_insert:
  assumes inv: "verus_inv db" and job: "verus_job_row_ok j" "evidence_for_state j"
    and new: "vj_outbox_event_id j \<notin> vj_outbox_event_id ` set (db_jobs db)"
    and anc: "anchor_row_ok a" "anchor_mirrors j a" "an_outbox_event_id a = vj_outbox_event_id j"
    and newa: "an_outbox_event_id a \<notin> an_outbox_event_id ` set (db_anchors db)"
    and db': "db_jobs db' = db_jobs db @ [j]" "db_anchors db' = db_anchors db @ [a]"
    and out: "insert (vj_outbox_event_id j) (ob_id ` set (db_outbox db)) \<subseteq> ob_id ` set (db_outbox db')"
  shows "verus_inv db'"
proof -
  have "job_consistent (db_anchors db') j" using job anc by (auto simp: job_consistent_def db')
  moreover have "job_consistent (db_anchors db') r" if "r \<in> set (db_jobs db)" for r
    using that inv job_consistent_mono unfolding verus_inv_def db' by blast
  moreover have "vj_outbox_event_id ` set (db_jobs db') \<subseteq> ob_id ` set (db_outbox db')"
    "an_outbox_event_id ` set (db_anchors db') \<subseteq> ob_id ` set (db_outbox db')"
    using inv out anc(3) unfolding verus_inv_def db' by (simp_all, blast+)
  ultimately show ?thesis using inv new newa unfolding verus_inv_def db' by auto
qed

text \<open>A fresh enqueue, step by step, and a replay.\<close>

lemma enqueueAnchor_cases:
  assumes "enqueueAnchor_body sv input context db = Inr (r, db')"
  obtains (replay) row cref where "db' = db"
      "selectJob (\<lambda>j e. ob_idempotency_key_hash e = sha256 sv (cx_idempotencyKey context)) db = Some (row, cref)"
      "toRecord row cref = Inr r" "jr_manifestDigest r = ei_manifestDigest input"
      "jr_targetIdentity r = ei_targetIdentity input" "jr_vdxfKey r = ei_vdxfKey input"
  | (fresh) cid i jobId anchorId d1 d2 d3 d4 d5 d6 h where
      "selectJob (\<lambda>j e. ob_idempotency_key_hash e = sha256 sv (cx_idempotencyKey context)) db = None"
      "newId sv db = Inr (i, d1)" "newId sv d1 = Inr (jobId, d2)"
      "insert_outbox_event sv i cid VERUS_ANCHOR_EVENT_TYPE ''verus_identity'' (ei_targetIdentity input)
         (ei_manifestPolicyReference input) (''verus_job:'' @ ei_externalReference input) (ei_manifestDigest input)
         (sha256 sv (cx_idempotencyKey context)) d2 = Inr ((), d3)"
      "insert_verus_job (new_verus_job sv input jobId i cid) d3 = Inr ((), d4)"
      "newId sv d4 = Inr (anchorId, d5)"
      "insert_anchor_record (new_anchor_record sv input anchorId i cid) d5 = Inr ((), d6)"
      "appendAudit sv context cid ''enqueueVerusAnchor'' \<lparr>tg_type = ''verus_job'', tg_reference = jobId,
         tg_priorState = None, tg_newState = Some ''pending''\<rparr> ''succeeded'' d6 = Inr (h, db')"
      "load_job i db' = Inr (r, db')"
proof -
  let ?res = "if truthy (ei_committeeReference input)
            then bindT (resolveCommittee (the (ei_committeeReference input))) (\<lambda>c. returnT (Some c))
            else returnT None"
  have res: "d0 = db" if "?res db = Inr (cid, d0)" for cid d0
    using that by (auto simp: resolveCommittee_def split: if_splits option.splits)
  from assms obtain cid d0 where 0: "?res db = Inr (cid, d0)" and
    rest: "(case selectJob (\<lambda>j e. ob_idempotency_key_hash e = sha256 sv (cx_idempotencyKey context)) d0 of
       Some (row, committee_ref) \<Rightarrow>
         bindT (liftT (toRecord row committee_ref)) (\<lambda>replay.
         if jr_manifestDigest replay \<noteq> ei_manifestDigest input
            \<or> jr_targetIdentity replay \<noteq> ei_targetIdentity input \<or> jr_vdxfKey replay \<noteq> ei_vdxfKey input
         then throwT (RepositoryConflictError ''Verus idempotency key conflicts with existing work'')
         else returnT replay)
     | None \<Rightarrow>
         bindT (newId sv) (\<lambda>outboxEventId.
         bindT (newId sv) (\<lambda>jobId.
         bindT (insert_outbox_event sv outboxEventId cid VERUS_ANCHOR_EVENT_TYPE ''verus_identity''
                  (ei_targetIdentity input) (ei_manifestPolicyReference input)
                  (''verus_job:'' @ ei_externalReference input) (ei_manifestDigest input)
                  (sha256 sv (cx_idempotencyKey context))) (\<lambda>_.
         bindT (insert_verus_job (new_verus_job sv input jobId outboxEventId cid)) (\<lambda>_.
         bindT (newId sv) (\<lambda>anchorId.
         bindT (insert_anchor_record (new_anchor_record sv input anchorId outboxEventId cid)) (\<lambda>_.
         bindT (appendAudit sv context cid ''enqueueVerusAnchor''
                  \<lparr>tg_type = ''verus_job'', tg_reference = jobId, tg_priorState = None,
                   tg_newState = Some ''pending''\<rparr> ''succeeded'') (\<lambda>_.
         load_job outboxEventId)))))))) d0 = Inr (r, db')"
    unfolding enqueueAnchor_body_def Let_def by (auto simp only: bindT_Inr body_Inr)
  show ?thesis
  proof (cases "selectJob (\<lambda>j e. ob_idempotency_key_hash e = sha256 sv (cx_idempotencyKey context)) db")
    case None
    show ?thesis
      using rest None unfolding res[OF 0] by (auto simp: load_job_Inr intro: fresh)
  next
    case (Some p)
    obtain row cref where p: "p = (row, cref)" by (rule prod.exhaust)
    show ?thesis
      using rest Some unfolding res[OF 0] p
      by (auto split: if_splits intro: replay)
  qed
qed

lemma enqueueAnchor_verus_inv: "keeps verus_inv (enqueueAnchor_body sv input context)"
proof (rule keepsI)
  fix db :: database and r :: VerusJobRecord and db' :: database
  assume inv: "verus_inv db" and run: "enqueueAnchor_body sv input context db = Inr (r, db')"
  from run show "verus_inv db'"
  proof (cases rule: enqueueAnchor_cases)
    case replay
    thus ?thesis using inv by simp
  next
    case (fresh cid i jobId anchorId d1 d2 d3 d4 d5 d6 h)
    have a: "d1 = db\<lparr>db_ids := Suc (db_ids db)\<rparr>" "d2 = d1\<lparr>db_ids := Suc (db_ids d1)\<rparr>"
        "d5 = d4\<lparr>db_ids := Suc (db_ids d4)\<rparr>" using fresh(2,3,6) by (simp_all add: newId_def)
    note b = fresh(4)[unfolded insert_outbox_event_Inr] insert_verus_job_Inr[OF fresh(5)]
      insert_anchor_record_Inr[OF fresh(7)]
    have d: "db_jobs d6 = db_jobs db @ [new_verus_job sv input jobId i cid]"
      "db_anchors d6 = db_anchors db @ [new_anchor_record sv input anchorId i cid]"
      "insert i (ob_id ` set (db_outbox db)) \<subseteq> ob_id ` set (db_outbox d6)"
      using a b by auto
    have new: "vj_outbox_event_id (new_verus_job sv input jobId i cid) = i"
      "an_outbox_event_id (new_anchor_record sv input anchorId i cid) = i"
      "evidence_for_state (new_verus_job sv input jobId i cid)"
      "anchor_mirrors (new_verus_job sv input jobId i cid) (new_anchor_record sv input anchorId i cid)"
      by (simp_all add: new_verus_job_def new_anchor_record_def evidence_for_state_def anchor_mirrors_def)
    have "verus_inv d6"
      by (rule verus_inv_insert[OF inv _ new(3) _ _ new(4) _ _ d(1,2)]) (use a b d new in auto)
    thus ?thesis using fresh(8) keepsD[OF outbox_parts_verus_inv(5)] by blast
  qed
qed

section \<open>Histories\<close>

inductive verus_step :: "services \<Rightarrow> (string \<Rightarrow> json option) \<Rightarrow> database \<Rightarrow> database \<Rightarrow> bool" for sv parse where
  queue: "outbox_step sv db db' \<Longrightarrow> verus_step sv parse db db'"
| enqueue: "enqueueAnchor sv parse input ctx db = (r, db') \<Longrightarrow> verus_step sv parse db db'"
| job: "job_operation sv c x i worker t db = (r, db') \<Longrightarrow> verus_step sv parse db db'"
| dead: "markDeadLetter sv i worker t cls db = (r, db') \<Longrightarrow> verus_step sv parse db db'"

lemma verus_step_inv:
  assumes "verus_step sv parse db db'" "verus_inv db"
  shows "verus_inv db'"
  using assms(1)
proof (cases rule: verus_step.cases)
  case queue
  thus ?thesis using assms(2) outbox_step_verus_inv by blast
next
  case (enqueue input ctx r)
  thus ?thesis using assms(2) transaction_keeps[OF enqueueAnchor_verus_inv]
    unfolding enqueueAnchor_def by (auto split: sum.splits)
next
  case (job c x i worker t r)
  thus ?thesis using assms(2) transaction_keeps[OF job_command_verus_inv]
    unfolding job_operation_transition job_transition_def by (auto split: sum.splits)
next
  case (dead i worker t cls r)
  thus ?thesis using assms(2) transaction_keeps[OF markDeadLetter_verus_inv]
    unfolding markDeadLetter_def by (auto split: sum.splits)
qed

lemma verus_steps_inv:
  assumes "(verus_step sv parse)\<^sup>*\<^sup>* empty_database db"
  shows "verus_inv db"
  using assms
proof (induction rule: rtranclp_induct)
  case base
  show ?case by (simp add: verus_inv_def empty_database_def)
next
  case (step y z)
  thus ?case using verus_step_inv by blast
qed

text \<open>
  C8. A verified job is backed by evidence, and jobs and anchors never diverge.  Over every history of
  enqueueing, leasing, job operations and dead letters from an empty database, by any workers, every
  job that is verified has a transaction, a block and a read-back digest equal to the digest of its
  manifest; every job has exactly one anchor record, which has the same transaction, block and
  read-back digest, and is in the same state, except that it keeps the outcome of the attempt before
  while a new attempt is claimed or in preflight.
\<close>

theorem verified_jobs_have_evidence:
  assumes "(verus_step sv parse)\<^sup>*\<^sup>* empty_database db" "j \<in> set (db_jobs db)"
  shows "(vj_state j = J_verified \<longrightarrow> vj_transaction_id j \<noteq> None \<and> vj_block_height j \<noteq> None
            \<and> vj_block_hash j \<noteq> None \<and> vj_readback_digest j = Some (vj_manifest_digest j))
     \<and> (\<exists>!a. a \<in> set (db_anchors db) \<and> an_outbox_event_id a = vj_outbox_event_id j)
     \<and> (\<forall>a \<in> set (db_anchors db). an_outbox_event_id a = vj_outbox_event_id j \<longrightarrow>
          (if vj_state j \<in> {J_claimed, J_preflight}
           then an_state a \<in> {J_pending, J_retryable_failed, J_reorg_pending} else an_state a = vj_state j)
          \<and> an_transaction_id a = vj_transaction_id j \<and> an_block_height a = vj_block_height j
          \<and> an_block_hash a = vj_block_hash j \<and> an_readback_digest a = vj_readback_digest j)"
proof -
  have inv: "verus_inv db" using assms(1) by (rule verus_steps_inv)
  obtain a where a: "a \<in> set (db_anchors db)" "an_outbox_event_id a = vj_outbox_event_id j" "anchor_mirrors j a"
      "evidence_for_state j"
    using verus_inv_job[OF inv assms(2)] by metis
  have only: "b = a" if "b \<in> set (db_anchors db)" "an_outbox_event_id b = vj_outbox_event_id j" for b
    using distinct_map_key_eq[of an_outbox_event_id "db_anchors db" b a] inv that a unfolding verus_inv_def by metis
  have "vj_state j = J_verified \<longrightarrow> vj_transaction_id j \<noteq> None \<and> vj_block_height j \<noteq> None
            \<and> vj_block_hash j \<noteq> None \<and> vj_readback_digest j = Some (vj_manifest_digest j)"
    using a(4) by (simp add: evidence_for_state_def)
  moreover have "\<exists>!b. b \<in> set (db_anchors db) \<and> an_outbox_event_id b = vj_outbox_event_id j"
    using a(1,2) only by blast
  ultimately show ?thesis using only a(3) unfolding anchor_mirrors_def by blast
qed

section \<open>The repository implements the lifecycle\<close>

lemma length_filter_key:
  assumes "distinct (map key l)" "a \<in> set l"
  shows "length (filter (\<lambda>r. key r = key a) l) = 1"
  using assms
proof (induction l)
  case (Cons b l)
  show ?case
  proof (cases "key b = key a")
    case True
    hence "key a \<notin> key ` set l" using Cons.prems(1) by simp
    hence "filter (\<lambda>r. key r = key a) l = []" by (metis (mono_tags, lifting) filter_empty_conv imageI)
    thus ?thesis using True by simp
  next
    case False
    thus ?thesis using Cons by auto
  qed
qed simp

lemma validateEvidence_height:
  assumes "validateEvidence ev = Inr u" "te_blockHeight ev = Some h"
  shows "isSafeInteger (num (int_of_number h)) \<and> 0 \<le> int_of_number h"
proof -
  have "isSafeInteger h" "\<not> js_less h (num 0)" using assms by (auto simp: validateEvidence_def)
  then obtain k where "h = num k" "\<not> k < 0" by (auto simp: isSafeInteger_iff)
  thus ?thesis using \<open>isSafeInteger h\<close> by simp
qed

lemma command_row_ok:
  assumes ok: "verus_job_row_ok j" "evidence_for_state j" and st: "vj_state j \<in> set (verus_job_expected c)"
    and ev: "validateEvidence (command_evidence c x t) = Inr ()"
    and dig: "c = VerifyVerusReadback \<longrightarrow> ja_digest x = vj_manifest_digest j"
  shows "verus_job_update_ok j (job_after c x t j)"
proof -
  let ?j = "job_after c x t j"
  have "vj_version ?j = vj_version j + 1" by (simp add: after_defs)
  moreover have "cbc_guard_verus_job_transition (vj_state j) (vj_state ?j)"
    using command_job_guard[OF st] by simp
  moreover have "case vj_block_height ?j of None \<Rightarrow> True | Some h \<Rightarrow> 0 \<le> h"
    using ok(1) validateEvidence_height[OF ev]
    by (cases "te_blockHeight (command_evidence c x t)")
       (auto simp: job_after_def evidence_update_def verus_job_row_ok_def)
  moreover have "verified_evidence_complete ?j"
    using ok(2) st dig by (cases c) (auto simp: verified_evidence_complete_def evidence_for_state_def after_defs)
  moreover have "ambiguous_state_valid ?j"
    using ok(1) st by (cases c) (auto simp: ambiguous_state_valid_def verus_job_row_ok_def after_defs)
  moreover have "vj_manifest_maximum_bytes ?j = vj_manifest_maximum_bytes j" "vj_manifest_canonical ?j = vj_manifest_canonical j"
    by (simp_all add: job_after_def evidence_update_def)
  hence "manifest_size_valid ?j = manifest_size_valid j" by (simp only: manifest_size_valid_def)
  moreover have "vj_chain_id ?j = vj_chain_id j" "vj_confirmation_requirement ?j = vj_confirmation_requirement j"
    by (simp_all add: job_after_def evidence_update_def)
  ultimately show ?thesis using ok(1) unfolding verus_job_update_ok_def verus_job_row_ok_def by auto
qed

lemma toRecord_succeeds:
  assumes "toRecord j cref = Inr r"
    and "vj_target_identity k = vj_target_identity j" "vj_vdxf_uri k = vj_vdxf_uri j"
    "vj_manifest_canonical k = vj_manifest_canonical j"
    "vj_manifest_policy_reference k = vj_manifest_policy_reference j"
    "vj_manifest_maximum_bytes k = vj_manifest_maximum_bytes j" "vj_manifest_json k = vj_manifest_json j"
    and "\<And>h. vj_block_height k = Some h \<Longrightarrow> isSafeInteger (num h)"
  shows "\<exists>r'. toRecord k cref' = Inr r'"
  using assms unfolding toRecord_def by (auto split: option.splits json.splits if_splits)

lemma toRecord_height:
  assumes "toRecord j cref = Inr r" "vj_block_height j = Some h"
  shows "isSafeInteger (num h)"
  using assms unfolding toRecord_def by (auto split: option.splits json.splits if_splits)

lemma job_command_succeeds:
  assumes inv: "verus_inv db" and lease: "requireLease i worker t db = Inr ((), db)"
    and load: "load_job i db = Inr (before, db)" and ev: "validateEvidence (command_evidence c x t) = Inr ()"
    and st: "jr_state before \<in> set (verus_job_expected c)"
    and dig: "c = VerifyVerusReadback \<longrightarrow> ja_digest x = jr_manifestDigest before"
  shows "\<exists>after db'. job_transition_body sv i worker t (verus_job_expected c) (verus_job_target c)
      (command_evidence c x t) (command_sync c) db = Inr (after, db')"
proof -
  let ?f = "evidence_update (verus_job_target c) (command_evidence c x t)
     (case te_submissionAmbiguous (command_evidence c x t) of Some b \<Rightarrow> b | None \<Rightarrow> jr_submissionAmbiguous before) t"
  obtain j where jo: "job_of db i = Some j" and rec: "toRecord j (committee_reference db (vj_committee_id j)) = Inr before"
    using load by (auto simp: load_job_Inr)
  note j = job_of_SomeD[OF jo] and r = toRecord_Inr[OF rec]
  obtain a where a: "a \<in> set (db_anchors db)" "an_outbox_event_id a = vj_outbox_event_id j" "anchor_row_ok a"
      "anchor_mirrors j a" "verus_job_row_ok j" "evidence_for_state j"
    and only: "\<And>r. r \<in> set (db_jobs db) \<Longrightarrow> vj_outbox_event_id r = vj_outbox_event_id j \<Longrightarrow> r = j"
    using verus_inv_job[OF inv j(1)] by metis
  have st': "vj_state j \<in> set (verus_job_expected c)" using st r(1) by simp
  have fj: "?f j = job_after c x t j" unfolding job_after_def r(4) ..
  have ok: "verus_job_update_ok j (?f j)" unfolding fj
    by (rule command_row_ok[OF a(5,6) st' ev]) (use dig r(5) in simp)
  have P: "(vj_outbox_event_id q = i \<and> vj_version q = jr_version before) = (vj_outbox_event_id q = i)"
    if "q \<in> set (db_jobs db)" for q using only[OF that] j(2) r(2) by auto
  have "filter (\<lambda>r. vj_outbox_event_id r = i \<and> vj_version r = jr_version before) (db_jobs db) =
      filter (\<lambda>r. vj_outbox_event_id r = vj_outbox_event_id j) (db_jobs db)"
    using P j(2) by (intro filter_cong) auto
  hence cnt: "length (filter (\<lambda>r. vj_outbox_event_id r = i \<and> vj_version r = jr_version before) (db_jobs db)) = 1"
    using length_filter_key[of vj_outbox_event_id "db_jobs db" j] inv j(1) by (simp add: verus_inv_def)
  define db1 where "db1 = db\<lparr>db_jobs := update_where (\<lambda>r. vj_outbox_event_id r = i) ?f (db_jobs db)\<rparr>"
  have upd: "update_verus_job (\<lambda>r. vj_outbox_event_id r = i \<and> vj_version r = jr_version before) ?f db = Inr (1, db1)"
    unfolding update_verus_job_Inr db1_def cnt
  proof (intro conjI ballI impI refl)
    show "db\<lparr>db_jobs := update_where (\<lambda>r. vj_outbox_event_id r = i) ?f (db_jobs db)\<rparr> =
      db\<lparr>db_jobs := update_where (\<lambda>r. vj_outbox_event_id r = i \<and> vj_version r = jr_version before) ?f (db_jobs db)\<rparr>"
      by (simp only: update_where_cong[OF P])
  next
    fix q assume q: "q \<in> set (db_jobs db)" "vj_outbox_event_id q = i \<and> vj_version q = jr_version before"
    have "q = j" by (rule only[OF q(1)]) (use q(2) j(2) in simp)
    thus "verus_job_update_ok q (?f q)" using ok by (rule ssubst)
  qed
  define db2 where "db2 = db1\<lparr>db_anchors := update_where (\<lambda>r. an_outbox_event_id r = i) (anchor_after c x t) (db_anchors db1)\<rparr>"
  have onlya: "b = a" if "b \<in> set (db_anchors db)" "an_outbox_event_id b = i" for b
    using distinct_map_key_eq[of an_outbox_event_id "db_anchors db" b a] inv that a(1,2) j(2) unfolding verus_inv_def by simp
  have aok: "anchor_update_ok a (anchor_after c x t a)" if "command_sync c"
    using that command_anchor_guard[OF a(4) st' that] a(3) validateEvidence_height[OF ev]
    by (cases "te_blockHeight (command_evidence c x t)")
       (auto simp: anchor_update_ok_def anchor_row_ok_def anchor_after_def anchor_evidence_update_def)
  have "length (filter (\<lambda>r. an_outbox_event_id r = i) (db_anchors db)) = 1"
    using length_filter_key[of an_outbox_event_id "db_anchors db" a] inv a(1,2) j(2) by (simp add: verus_inv_def)
  hence anc: "(if command_sync c then transitionAnchor i (verus_job_target c) (command_evidence c x t) t
      else returnT ()) db1 = Inr ((), db2)"
    unfolding sync_anchor_Inr db2_def using onlya aok by (auto simp: db1_def)
  obtain h db3 where aud: "appendAudit sv (workerContext worker before (verus_job_target c)) (job_committeeId i db2)
       (''transitionVerusJob:'' @ verus_job_state_name (verus_job_target c))
       \<lparr>tg_type = ''verus_job'', tg_reference = jr_id before,
        tg_priorState = Some (verus_job_state_name (jr_state before)),
        tg_newState = Some (verus_job_state_name (verus_job_target c))\<rparr>
       (if suffix ''failed'' (verus_job_state_name (verus_job_target c)) then ''failed'' else ''succeeded'') db2 = Inr (h, db3)"
    using appendAudit_succeeds by blast
  have fr: "db_jobs db3 = db_jobs db1" "db_outbox db3 = db_outbox db"
    using untouchedD[OF appendAudit_frame(13) aud] untouchedD[OF appendAudit_frame(11) aud]
    by (simp_all add: db2_def db1_def)
  have "job_of db3 i = Some (?f j)"
  proof -
    have "db_jobs db3 = update_where (\<lambda>r. vj_outbox_event_id r = i) ?f (db_jobs db)" using fr by (simp add: db1_def)
    moreover have "job_event db3 r = job_event db r" for r using fr by (simp add: job_event_def)
    moreover have "(job_event db (?f r) \<noteq> None \<and> vj_outbox_event_id (?f r) = i) = (job_event db r \<noteq> None \<and> vj_outbox_event_id r = i)" for r
      by (simp add: evidence_update_def job_event_def)
    ultimately have "job_of db3 i = (case job_of db i of None \<Rightarrow> None | Some r \<Rightarrow> Some (if vj_outbox_event_id r = i then ?f r else r))"
      unfolding job_of_def by (simp only: select_where_update_where)
    thus ?thesis using jo j(2) by simp
  qed
  moreover have "\<exists>after. toRecord (?f j) (committee_reference db3 (vj_committee_id (?f j))) = Inr after"
    by (rule toRecord_succeeds[OF rec])
       (use toRecord_height[OF rec] validateEvidence_height[OF ev] in
         \<open>auto simp: evidence_update_def coalesce_def split: option.splits\<close>)
  ultimately obtain after where after: "load_job i db3 = Inr (after, db3)" by (auto simp: load_job_Inr)
  show ?thesis
    unfolding job_transition_body_def bindT_def lease load bind_result.simps prod.case requireT_def readT_def
    using st upd anc aud after by (simp add: if_distrib bindT_def)
qed

text \<open>
  C28. The repository implements the lifecycle of the domain package.  Over every history, for a worker
  with the lease on the event and well-formed arguments, each of the nine operations succeeds exactly
  when the command of the lifecycle accepts the state of the job (and, for the verification of the
  read-back, the digest read is that of the manifest); it then leaves the job in the state the
  command gives, as the next load sees it, and otherwise it fails and changes nothing.
\<close>

theorem job_operations_implement_lifecycle:
  assumes "(verus_step sv parse)\<^sup>*\<^sup>* empty_database db" "requireLease eventId worker t db = Inr ((), db)"
    and "load_job eventId db = Inr (before, db)" "validateEvidence (command_evidence c x t) = Inr ()"
  shows "case job_operation sv c x eventId worker t db of
       (Inr after, db') \<Rightarrow> run_verus_job c (jr_state before) = Inr (jr_state after)
          \<and> (c = VerifyVerusReadback \<longrightarrow> ja_digest x = jr_manifestDigest before)
          \<and> load_job eventId db' = Inr (after, db')
     | (Inl e, db') \<Rightarrow> db' = db
          \<and> (isl (run_verus_job c (jr_state before)) \<or> (c = VerifyVerusReadback \<and> ja_digest x \<noteq> jr_manifestDigest before))"
proof -
  let ?body = "job_transition_body sv eventId worker t (verus_job_expected c) (verus_job_target c)
      (command_evidence c x t) (command_sync c)"
  have inv: "verus_inv db" using assms(1) by (rule verus_steps_inv)
  have op: "job_operation sv c x eventId worker t db = transaction ?body db"
    using assms(4) by (simp add: job_operation_transition job_transition_def)
  have acc: "isl (run_verus_job c s) \<longleftrightarrow> s \<notin> set (verus_job_expected c)" for s
    unfolding verus_job.run_apply applyTransition_def by simp
  show ?thesis
  proof (cases "?body db")
    case (Inl e)
    hence "\<not> (jr_state before \<in> set (verus_job_expected c) \<and> (c = VerifyVerusReadback \<longrightarrow> ja_digest x = jr_manifestDigest before))"
      using job_command_succeeds[OF inv assms(2,3,4), of sv] by auto
    thus ?thesis unfolding op using Inl acc by (auto simp: transaction_eq)
  next
    case (Inr p)
    obtain after db' where p: "p = (after, db')" by (rule prod.exhaust)
    show ?thesis
    proof (rule job_command_effect[OF inv Inr[unfolded p]])
      fix j f
      assume j: "j \<in> set (db_jobs db)" "vj_outbox_event_id j = eventId" "vj_state j \<in> set (verus_job_expected c)"
        and ok: "verus_job_update_ok j (job_after c x t j)" and st: "jr_state after = verus_job_target c"
        and load: "load_job eventId db' = Inr (after, db')"
      obtain k where k: "k \<in> set (db_jobs db)" "vj_outbox_event_id k = eventId"
          "toRecord k (committee_reference db (vj_committee_id k)) = Inr before"
        using assms(3) by (rule load_job_row)
      have "k = j" using verus_inv_job[OF inv j(1)] k(1,2) j(2) by metis
      hence b: "jr_state before = vj_state j" "jr_manifestDigest before = vj_manifest_digest j"
        using toRecord_Inr(1,5)[OF k(3)] by simp_all
      have "c = VerifyVerusReadback \<longrightarrow> ja_digest x = vj_manifest_digest j"
        using ok by (auto simp: verus_job_update_ok_def verus_job_row_ok_def verified_evidence_complete_def after_defs)
      thus ?thesis unfolding op using Inr p b j(3) st load by (simp add: transaction_eq verus_job.run_eq_Inr)
    qed
  qed
qed

section \<open>Enqueueing\<close>

lemma forbidden_manifest_field_iff: "normalize_field k \<in> set FORBIDDEN_MANIFEST_FIELDS \<longleftrightarrow> forbidden_key k"
  by (simp add: FORBIDDEN_MANIFEST_FIELDS_def forbidden_key_def ALWAYS_FORBIDDEN_FIELDS_def Let_def)

lemma rejectSensitive_iff: "rejectSensitiveManifestFields v d = Inr () \<longleftrightarrow> rejectForbiddenFields v d = Inr ()"
proof (induction v d rule: rejectSensitiveManifestFields.induct)
  case (2 entries depth)
  thus ?case by (cases "depth > 32") (auto simp: forbidden_manifest_field_iff split: prod.splits)
qed auto

text \<open>
  Only clean manifests are enqueued, and both guards agree.  When the repository accepts an input,
  every field of the manifest is allowed, every required field is there, no prohibited field occurs at
  any depth of at most 32 levels, the canonical text parses to the manifest, is within the byte limit
  of at most one mebibyte, and hashes to the digest, which the command carries too; and the payload
  guard of the blockchain package, which the worker applies before it writes, finds no prohibited
  field either.
\<close>

theorem enqueued_manifest_is_clean:
  assumes "validateInput sv parse input cmd = Inr ()"
  shows "(\<forall>k \<in> set (map fst (ei_manifest input)). k \<in> set (ei_manifestAllowedFields input))
     \<and> set (ei_manifestRequiredFields input) \<subseteq> set (map fst (ei_manifest input))
     \<and> (\<forall>k \<in> json_keys (JObj (ei_manifest input)). \<not> forbidden_key k)
     \<and> json_depth (JObj (ei_manifest input)) \<le> 32
     \<and> rejectForbiddenFields (JObj (ei_manifest input)) 0 = Inr ()
     \<and> (\<exists>v. parse (ei_manifestCanonical input) = Some v \<and> normal v = normal (JObj (ei_manifest input)))
     \<and> sha256 sv (ei_manifestCanonical input) = ei_manifestDigest input
     \<and> cx_requestDigest cmd = ei_manifestDigest input
     \<and> (\<exists>m. ei_manifestMaximumBytes input = num m \<and> m \<le> 1048576
            \<and> int (length (utf8_encode (ei_manifestCanonical input))) \<le> m)"
proof -
  note v = assms[unfolded validateInput_def Let_def bind_result_eq_Inr conflict_Inr]
  have clean: "rejectForbiddenFields (JObj (ei_manifest input)) 0 = Inr ()"
    using v by (auto simp: rejectSensitive_iff simp del: rejectSensitiveManifestFields.simps rejectForbiddenFields.simps)
  have "\<exists>v. parse (ei_manifestCanonical input) = Some v \<and> normal v = normal (JObj (ei_manifest input))"
    using v by (auto simp: isDeepStrictEqual_def split: option.splits)
  moreover have "\<exists>m. ei_manifestMaximumBytes input = num m \<and> m \<le> 1048576
      \<and> int (length (utf8_encode (ei_manifestCanonical input))) \<le> m"
    using v by (auto simp: isInteger_iff)
  moreover have "(\<forall>k \<in> set (map fst (ei_manifest input)). k \<in> set (ei_manifestAllowedFields input))"
    "set (ei_manifestRequiredFields input) \<subseteq> set (map fst (ei_manifest input))"
    using v by (auto simp: list_ex_iff)
  moreover have "sha256 sv (ei_manifestCanonical input) = ei_manifestDigest input"
    "cx_requestDigest cmd = ei_manifestDigest input" using v by auto
  ultimately show ?thesis using clean clean[unfolded rejectForbiddenFields_iff] by simp
qed

text \<open>The job of a fresh enqueue is the only one with the key.\<close>

lemma fresh_job_found:
  assumes none: "selectJob (\<lambda>j e. ob_idempotency_key_hash e = kh) db = None"
    and jobs: "db_jobs db' = db_jobs db @ [j]" and out: "db_outbox db' = db_outbox db @ [e]"
    and e: "ob_id e = vj_outbox_event_id j" "ob_idempotency_key_hash e = kh"
    and new: "vj_outbox_event_id j \<notin> vj_outbox_event_id ` set (db_jobs db)"
      "vj_outbox_event_id j \<notin> ob_id ` set (db_outbox db)"
  shows "selectJob (\<lambda>j e. ob_idempotency_key_hash e = kh) db' = Some (j, committee_reference db' (vj_committee_id j))"
proof -
  have old: "job_event db' q = job_event db q" if "q \<in> set (db_jobs db)" for q
    using new(1) that e(1) by (auto simp: job_event_def out select_where_append split: option.splits)
  have "select_where (\<lambda>e. ob_id e = vj_outbox_event_id j) (db_outbox db) = None"
    using new(2) unfolding select_where_None_iff by (metis image_eqI)
  hence ev: "job_event db' j = Some e" using e(1) by (simp add: job_event_def out select_where_append)
  have "select_where (\<lambda>j. case job_event db' j of None \<Rightarrow> False | Some e \<Rightarrow> ob_idempotency_key_hash e = kh) (db_jobs db) = None"
    using none old unfolding selectJob_def by (simp add: select_where_None_iff)
  thus ?thesis using ev e(2) unfolding selectJob_def jobs by (simp add: select_where_append)
qed

lemma resolve_committee_again:
  assumes "db_committees db' = db_committees db"
  shows "resolveCommittee c db' = map_sum id (\<lambda>(x, _). (x, db')) (resolveCommittee c db)"
  using assms
  by (cases "is_opaque_reference c"; cases "select_where (\<lambda>r. cm_external_reference r = c) (db_committees db)")
     (simp_all add: resolveCommittee_def requireOpaqueReference_def body_defs)

lemma committee_lookup_again:
  assumes "db_committees db' = db_committees db"
    and "(if truthy ref then bindT (resolveCommittee (the ref)) (\<lambda>c. returnT (Some c)) else returnT None) db = Inr (cid, d0)"
  shows "(if truthy ref then bindT (resolveCommittee (the ref)) (\<lambda>c. returnT (Some c)) else returnT None) db' = Inr (cid, db')"
  using assms(2) resolve_committee_again[OF assms(1), of "the ref"]
  by (cases "truthy ref") (auto simp: bindT_def returnT_def split: sum.splits prod.splits)

text \<open>
  Enqueueing is idempotent.  After a successful enqueue, the same request with the same key returns
  the same job and changes nothing, and a request with the same key for another manifest, identity or
  key of the content map is refused and changes nothing.
\<close>

theorem enqueue_is_idempotent:
  assumes "enqueueAnchor sv parse input cmd db = (Inr r, db')"
  shows "enqueueAnchor sv parse input cmd db' = (Inr r, db')
     \<and> (\<forall>input' cmd'. cx_idempotencyKey cmd' = cx_idempotencyKey cmd
          \<and> (ei_manifestDigest input' \<noteq> ei_manifestDigest input \<or> ei_targetIdentity input' \<noteq> ei_targetIdentity input
             \<or> ei_vdxfKey input' \<noteq> ei_vdxfKey input)
          \<longrightarrow> (\<exists>e. enqueueAnchor sv parse input' cmd' db' = (Inl e, db')))"
proof -
  let ?kh = "sha256 sv (cx_idempotencyKey cmd)"
  have valid: "validateInput sv parse input cmd = Inr ()" and body: "enqueueAnchor_body sv input cmd db = Inr (r, db')"
    using assms by (auto simp: enqueueAnchor_def transaction_Inr split: sum.splits)
  obtain cid d0 where cid: "(if truthy (ei_committeeReference input)
      then bindT (resolveCommittee (the (ei_committeeReference input))) (\<lambda>c. returnT (Some c)) else returnT None) db = Inr (cid, d0)"
    using body unfolding enqueueAnchor_body_def by (auto simp only: bindT_Inr)
  have found: "\<exists>row cref. selectJob (\<lambda>j e. ob_idempotency_key_hash e = ?kh) db' = Some (row, cref)
      \<and> toRecord row cref = Inr r \<and> db_committees db' = db_committees db"
    and same: "jr_manifestDigest r = ei_manifestDigest input" "jr_targetIdentity r = ei_targetIdentity input"
      "jr_vdxfKey r = ei_vdxfKey input"
    using body
  proof (atomize(full), cases rule: enqueueAnchor_cases)
    case (replay row cref)
    thus "(\<exists>row cref. selectJob (\<lambda>j e. ob_idempotency_key_hash e = ?kh) db' = Some (row, cref)
      \<and> toRecord row cref = Inr r \<and> db_committees db' = db_committees db)
      \<and> jr_manifestDigest r = ei_manifestDigest input \<and> jr_targetIdentity r = ei_targetIdentity input
      \<and> jr_vdxfKey r = ei_vdxfKey input" by auto
  next
    case (fresh cid i jobId anchorId d1 d2 d3 d4 d5 d6 h)
    let ?j = "new_verus_job sv input jobId i cid"
    have a: "d1 = db\<lparr>db_ids := Suc (db_ids db)\<rparr>" "d2 = d1\<lparr>db_ids := Suc (db_ids d1)\<rparr>"
        "d5 = d4\<lparr>db_ids := Suc (db_ids d4)\<rparr>" using fresh(2,3,6) by (simp_all add: newId_def)
    note b = fresh(4)[unfolded insert_outbox_event_Inr] insert_verus_job_Inr[OF fresh(5)]
      insert_anchor_record_Inr[OF fresh(7)]
    have fr: "db_jobs db' = db_jobs d6" "db_outbox db' = db_outbox d6" "db_committees db' = db_committees d6"
      using untouchedD[OF appendAudit_frame(13) fresh(8)] untouchedD[OF appendAudit_frame(11) fresh(8)]
        untouchedD[OF appendAudit_frame(1) fresh(8)] by simp_all
    have ji: "vj_outbox_event_id ?j = i" by (simp add: new_verus_job_def)
    have sel: "selectJob (\<lambda>j e. ob_idempotency_key_hash e = ?kh) db' = Some (?j, committee_reference db' (vj_committee_id ?j))"
      by (rule fresh_job_found[OF fresh(1)]) (use a b fr ji in \<open>auto simp: new_outbox_event_def\<close>)
    obtain k where k: "k \<in> set (db_jobs db')" "vj_outbox_event_id k = i"
        "toRecord k (committee_reference db' (vj_committee_id k)) = Inr r"
      using fresh(9) by (rule load_job_row)
    have "k = ?j" using k(1,2) a b fr ji by auto
    hence rec: "toRecord ?j (committee_reference db' (vj_committee_id ?j)) = Inr r" using k(3) by simp
    show "(\<exists>row cref. selectJob (\<lambda>j e. ob_idempotency_key_hash e = ?kh) db' = Some (row, cref)
      \<and> toRecord row cref = Inr r \<and> db_committees db' = db_committees db)
      \<and> jr_manifestDigest r = ei_manifestDigest input \<and> jr_targetIdentity r = ei_targetIdentity input
      \<and> jr_vdxfKey r = ei_vdxfKey input"
      using sel rec toRecord_Inr[OF rec] a b fr by (auto simp: new_verus_job_def)
  qed
  then obtain row cref where row: "selectJob (\<lambda>j e. ob_idempotency_key_hash e = ?kh) db' = Some (row, cref)"
      "toRecord row cref = Inr r" "db_committees db' = db_committees db" by blast
  have "enqueueAnchor_body sv input cmd db' = Inr (r, db')"
    unfolding enqueueAnchor_body_def bindT_def[of "if _ then _ else _"] committee_lookup_again[OF row(3) cid]
    using row(1,2) same by (simp add: Let_def bindT_def readT_def liftT_def returnT_def)
  moreover have "\<exists>e. enqueueAnchor sv parse input' cmd' db' = (Inl e, db')"
    if key: "cx_idempotencyKey cmd' = cx_idempotencyKey cmd" and other: "ei_manifestDigest input' \<noteq> ei_manifestDigest input
       \<or> ei_targetIdentity input' \<noteq> ei_targetIdentity input \<or> ei_vdxfKey input' \<noteq> ei_vdxfKey input" for input' cmd'
  proof (rule ccontr)
    assume "\<not> ?thesis"
    then obtain r2 db2 where "enqueueAnchor_body sv input' cmd' db' = Inr (r2, db2)"
      by (auto simp: enqueueAnchor_def transaction_eq split: sum.splits)
    thus False by (cases rule: enqueueAnchor_cases) (use row key other same in auto)
  qed
  ultimately show ?thesis using valid by (simp add: enqueueAnchor_def transaction_Inr)
qed

section \<open>The properties on one job\<close>

definition digest_services :: services where
  "digest_services = plain_services\<lparr>sv_sha := (\<lambda>b. replicate 64 (CHR ''0''))\<rparr>"

definition sample_parse :: "string \<Rightarrow> json option" where
  "sample_parse s = Some (JObj [(''kind'', JStr ''anchor'')])"

definition sample_input :: EnqueueVerusAnchorInput where
  "sample_input = \<lparr>ei_externalReference = ''anchor:one'', ei_committeeReference = None,
     ei_operationType = ''anchor.manifest'', ei_subjectReference = ''subject:one'',
     ei_targetIdentity = ''iTargetTargetTargetTarget'', ei_vdxfUri = ''vrsctest::x'',
     ei_vdxfKey = ''iKeyKeyKeyKeyKeyKeyKeyKey'', ei_manifest = [(''kind'', JStr ''anchor'')],
     ei_manifestCanonical = ''canonical'', ei_manifestDigest = replicate 64 (CHR ''0''),
     ei_manifestPolicyReference = ''policy:v1'', ei_manifestAllowedFields = [''kind''],
     ei_manifestRequiredFields = [''kind''], ei_manifestMaximumBytes = num 100,
     ei_confirmationRequirement = num 2\<rparr>"

definition sample_command :: CommandContext where
  "sample_command = \<lparr>cx_actor = \<lparr>ca_type = ''member'', ca_reference = ''member:one'', ca_authenticationStrength = ''passkey''\<rparr>,
     cx_committeeReference = ''global_synthetic_scope'', cx_policyVersionReference = ''policy:v1'',
     cx_softwareVersion = ''1'', cx_reasonCategory = ''test'', cx_correlationId = ''c'', cx_idempotencyKey = ''key-1'',
     cx_requestDigest = replicate 64 (CHR ''0'')\<rparr>"

definition no_arguments :: job_arguments where
  "no_arguments = \<lparr>ja_transactionId = [], ja_blockHeight = num 0, ja_blockHash = [], ja_digest = [],
     ja_errorClass = [], ja_ambiguous = False\<rparr>"

definition enqueued_job :: database where
  "enqueued_job = snd (enqueueAnchor digest_services sample_parse sample_input sample_command empty_database)"

definition leased_job :: database where
  "leased_job = snd (claimNext digest_services worker_a 0 (num 10) any_event enqueued_job)"

lemma enqueued_job_reachable: "(verus_step digest_services sample_parse)\<^sup>*\<^sup>* empty_database enqueued_job"
  unfolding enqueued_job_def by (intro r_into_rtranclp verus_step.enqueue) (rule prod.collapse[symmetric])

lemma leased_job_reachable: "(verus_step digest_services sample_parse)\<^sup>*\<^sup>* empty_database leased_job"
proof -
  have "outbox_step digest_services enqueued_job leased_job"
    unfolding leased_job_def by (rule outbox_step.claim) (rule prod.collapse[symmetric])
  thus ?thesis using enqueued_job_reachable verus_step.queue by (metis rtranclp.rtrancl_into_rtrancl)
qed

lemma sample_enqueue:
  obtains r where "enqueueAnchor digest_services sample_parse sample_input sample_command empty_database = (Inr r, enqueued_job)"
proof -
  have "\<not> isl (fst (enqueueAnchor digest_services sample_parse sample_input sample_command empty_database))" by code_simp
  then obtain r where "fst (enqueueAnchor digest_services sample_parse sample_input sample_command empty_database) = Inr r"
    by (rule result_cases)
  thus ?thesis using that unfolding enqueued_job_def by (metis prod.collapse)
qed

theorem verified_jobs_have_evidence_witness:
  "\<exists>j \<in> set (db_jobs enqueued_job). \<exists>a \<in> set (db_anchors enqueued_job). an_state a = vj_state j"
proof -
  have "list_ex (\<lambda>j. vj_state j = J_pending) (db_jobs enqueued_job)" by code_simp
  then obtain j where j: "j \<in> set (db_jobs enqueued_job)" "vj_state j = J_pending" by (auto simp: list_ex_iff)
  have "\<exists>a \<in> set (db_anchors enqueued_job). an_state a = vj_state j"
    using verified_jobs_have_evidence[OF enqueued_job_reachable j(1)] j(2) by auto
  thus ?thesis using j(1) by blast
qed

theorem job_operations_implement_lifecycle_witness:
  "case job_operation digest_services ClaimVerusJob no_arguments ''id0'' worker_a 5 leased_job of
     (Inr after, db') \<Rightarrow> jr_state after = J_claimed | (Inl e, db') \<Rightarrow> False"
proof -
  have "\<not> isl (requireLease ''id0'' worker_a 5 leased_job)" by code_simp
  then obtain p where "requireLease ''id0'' worker_a 5 leased_job = Inr p" by (rule result_cases)
  hence lease: "requireLease ''id0'' worker_a 5 leased_job = Inr ((), leased_job)"
    by (cases p) (simp add: requireLease_Inr)
  have "case load_job ''id0'' leased_job of Inr (b, d) \<Rightarrow> jr_state b = J_pending | Inl e \<Rightarrow> False" by code_simp
  then obtain b d where "load_job ''id0'' leased_job = Inr (b, d)" and st: "jr_state b = J_pending"
    by (auto split: sum.splits)
  hence load: "load_job ''id0'' leased_job = Inr (b, leased_job)" by (simp add: load_job_Inr)
  have ev: "validateEvidence (command_evidence ClaimVerusJob no_arguments 5) = Inr ()" by code_simp
  have acc: "run_verus_job ClaimVerusJob J_pending = Inr J_claimed" unfolding verus_job.run_eq_Inr by simp
  show ?thesis
    using job_operations_implement_lifecycle[OF leased_job_reachable lease load ev] st acc
    by (auto split: prod.splits sum.splits)
qed

theorem enqueued_manifest_is_clean_witness:
  "rejectForbiddenFields (JObj (ei_manifest sample_input)) 0 = Inr ()
   \<and> validateInput digest_services sample_parse sample_input sample_command = Inr ()"
proof -
  have v: "validateInput digest_services sample_parse sample_input sample_command = Inr ()" by code_simp
  show ?thesis using enqueued_manifest_is_clean[OF v] v by blast
qed

theorem enqueue_is_idempotent_witness:
  "\<exists>r. enqueueAnchor digest_services sample_parse sample_input sample_command enqueued_job = (Inr r, enqueued_job)"
proof (rule sample_enqueue)
  fix r assume "enqueueAnchor digest_services sample_parse sample_input sample_command empty_database = (Inr r, enqueued_job)"
  from enqueue_is_idempotent[OF this] show ?thesis by blast
qed

end
