(* ===== verification/Effect.thy ===== *)
theory Effect
  imports Transaction
begin

text \<open>
  Computations outside a transaction.  A computation returns an error or a value, and the new state in
  either case: what was done before an error stays done.  A transaction, and a single statement, is a
  computation whose body keeps nothing when it fails (\<open>statement\<close>).  \<open>preserves\<close> says that a computation
  keeps a predicate on the state whether it succeeds or fails; its rules follow the structure of the code.
\<close>

type_synonym ('s, 'e, 'a) computation = "'s \<Rightarrow> ('e + 'a) \<times> 's"

definition returnE :: "'a \<Rightarrow> ('s, 'e, 'a) computation" where
  "returnE a s = (Inr a, s)"

definition throwE :: "'e \<Rightarrow> ('s, 'e, 'a) computation" where
  "throwE e s = (Inl e, s)"

definition bindE :: "('s, 'e, 'a) computation \<Rightarrow> ('a \<Rightarrow> ('s, 'e, 'b) computation) \<Rightarrow> ('s, 'e, 'b) computation" where
  "bindE m f s = (case m s of (Inl e, s') \<Rightarrow> (Inl e, s') | (Inr a, s') \<Rightarrow> f a s')"

definition requireE :: "bool \<Rightarrow> 'e \<Rightarrow> ('s, 'e, unit) computation" where
  "requireE b e s = (if b then (Inr (), s) else (Inl e, s))"

definition readE :: "('s \<Rightarrow> 'a) \<Rightarrow> ('s, 'e, 'a) computation" where
  "readE f s = (Inr (f s), s)"

definition statement :: "('s, 'e, 'a) body \<Rightarrow> ('s, 'e, 'a) computation" where
  "statement m s = (case m s of Inl e \<Rightarrow> (Inl e, s) | Inr (a, s') \<Rightarrow> (Inr a, s'))"

definition map_errorE :: "('e \<Rightarrow> 'f) \<Rightarrow> ('s, 'e, 'a) computation \<Rightarrow> ('s, 'f, 'a) computation" where
  "map_errorE h m s = (case m s of (r, s') \<Rightarrow> (map_error h r, s'))"

lemmas computation_defs = returnE_def throwE_def bindE_def requireE_def readE_def statement_def map_errorE_def

lemma bindE_Inr [simp]:
  "bindE m f s = (Inr b, s'') \<longleftrightarrow> (\<exists>a s'. m s = (Inr a, s') \<and> f a s' = (Inr b, s''))"
  by (auto simp: bindE_def split: prod.splits sum.splits)

lemma computation_Inr [simp]:
  "returnE a s = (Inr b, s') \<longleftrightarrow> b = a \<and> s' = s"
  "throwE e s \<noteq> (Inr b, s')"
  "requireE c e s = (Inr u, s') \<longleftrightarrow> c \<and> s' = s"
  "readE f s = (Inr b, s') \<longleftrightarrow> b = f s \<and> s' = s"
  "statement m s = (Inr b, s') \<longleftrightarrow> m s = Inr (b, s')"
  "map_errorE h n s = (Inr b, s') \<longleftrightarrow> n s = (Inr b, s')"
  by (auto simp: computation_defs split: prod.splits sum.splits)

text \<open>A computation preserves a predicate on the state, whether it succeeds or fails.\<close>

definition preserves :: "('s \<Rightarrow> bool) \<Rightarrow> ('s, 'e, 'a) computation \<Rightarrow> bool" where
  "preserves I m \<longleftrightarrow> (\<forall>s. I s \<longrightarrow> I (snd (m s)))"

named_theorems preserves_rules \<open>preservation of a predicate by a computation\<close>

lemma preservesD: "preserves I m \<Longrightarrow> I s \<Longrightarrow> m s = (r, s') \<Longrightarrow> I s'"
  by (force simp: preserves_def)

lemma preservesI: "(\<And>s r s'. I s \<Longrightarrow> m s = (r, s') \<Longrightarrow> I s') \<Longrightarrow> preserves I m"
  by (metis preserves_def prod.collapse)

lemma preserves_basic [preserves_rules]:
  "preserves I (returnE a)" "preserves I (throwE e)" "preserves I (requireE b e)" "preserves I (readE f)"
  by (auto simp: preserves_def computation_defs)

text \<open>The continuation only has to preserve the predicate for results of the first part.\<close>

lemma preserves_bindE:
  assumes "preserves I m" "\<And>a s s'. I s \<Longrightarrow> m s = (Inr a, s') \<Longrightarrow> preserves I (f a)"
  shows "preserves I (bindE m f)"
proof (rule preservesI)
  fix s r s'' assume s: "I s" "bindE m f s = (r, s'')"
  obtain x s' where m: "m s = (x, s')" by (rule prod.exhaust)
  have "I s'" using preservesD[OF assms(1) s(1) m] .
  thus "I s''" using s m assms(2)[OF s(1)] by (cases x) (auto simp: bindE_def intro: preservesD)
qed

lemma preserves_bindE_simple [preserves_rules]:
  assumes "preserves I m" "\<And>a. preserves I (f a)"
  shows "preserves I (bindE m f)"
  using assms by (rule preserves_bindE)

lemma preserves_if [preserves_rules]:
  assumes "b \<Longrightarrow> preserves I m" "\<not> b \<Longrightarrow> preserves I n"
  shows "preserves I (if b then m else n)"
  using assms by simp

lemma preserves_option [preserves_rules]:
  assumes "preserves I m" "\<And>a. preserves I (n a)"
  shows "preserves I (case x of None \<Rightarrow> m | Some a \<Rightarrow> n a)"
  using assms by (cases x) auto

lemma preserves_prod [preserves_rules]:
  assumes "\<And>a b. preserves I (f a b)"
  shows "preserves I (case x of (a, b) \<Rightarrow> f a b)"
  using assms by (cases x) auto

lemma preserves_statement: "keeps I m \<Longrightarrow> preserves I (statement m)"
  by (auto simp: preserves_def keeps_def statement_def split: sum.splits)

lemma preserves_map_errorE [preserves_rules]: "preserves I m \<Longrightarrow> preserves I (map_errorE h m)"
  by (auto simp: preserves_def map_errorE_def split: prod.splits)

text \<open>The error of a composition comes from its first or its second part.\<close>

lemma bindE_Inl:
  "bindE m f s = (Inl e, s'') \<longleftrightarrow>
     m s = (Inl e, s'') \<or> (\<exists>a s'. m s = (Inr a, s') \<and> f a s' = (Inl e, s''))"
  by (auto simp: bindE_def split: prod.splits sum.splits)

end
