(* ===== verification/Verus_Node.thy ===== *)
theory Verus_Node
  imports Verus_Jobs Effect
begin

text \<open>
  The calls to a Verus node: the adapter interface of packages/verus/src/types.ts, the checks before a
  write of preflight.ts, and the confirmation and read-back of reconciliation.ts.  The node is outside
  the program: an adapter is a record of functions on a state of the node, each returning an error or
  a value, and the new state.  Numbers that the adapter validates as safe integers are of type int.
  Text that is not in the character range of the strings modelled here does not decode.
\<close>

section \<open>Computations with the node\<close>

datatype worker_error = RepositoryError repo_error | IntegrationError VerusIntegrationError | OtherError string

type_synonym ('s, 'a) effect = "('s, worker_error, 'a) computation"

definition unlessE :: "bool \<Rightarrow> VerusIntegrationError \<Rightarrow> ('s, unit) effect" where
  "unlessE b e s = (if b then (Inl (IntegrationError e), s) else (Inr (), s))"

definition liftE :: "VerusIntegrationError + 'a \<Rightarrow> ('s, 'a) effect" where
  "liftE r s = (map_error IntegrationError r, s)"

lemma effect_Inr [simp]:
  "unlessE c x s = (Inr u, s') \<longleftrightarrow> \<not> c \<and> s' = s"
  "liftE r s = (Inr b, s') \<longleftrightarrow> r = Inr b \<and> s' = s"
  by (auto simp: unlessE_def liftE_def)

lemma preserves_integration [preserves_rules]: "preserves I (unlessE b x)" "preserves I (liftE r)"
  by (auto simp: preserves_def unlessE_def liftE_def)

section \<open>The adapter\<close>

definition VRSCTEST_NETWORK :: string where "VRSCTEST_NETWORK = ''VRSCTEST''"

definition MINIMUM_VERUS_NODE_VERSION :: int where "MINIMUM_VERUS_NODE_VERSION = 2000753"

record VerusInfo =
  in_release :: string
  in_version :: int
  in_protocolVersion :: int
  in_chainId :: string
  in_name :: string
  in_blocks :: int
  in_longestChain :: int
  in_connections :: int
  in_testnet :: bool
  in_errors :: string

record VerusBlockchainInfo =
  bi_chain :: string
  bi_name :: string
  bi_chainId :: string
  bi_blocks :: int
  bi_headers :: int
  bi_bestBlockHash :: string
  bi_verificationProgress :: rat
  bi_pruned :: bool

record VerusIdentityResult =
  ir_fullyQualifiedName :: string
  ir_identity :: VerusIdentityDefinition
  ir_status :: string
  ir_canSpendFor :: bool
  ir_canSignFor :: bool
  ir_blockHeight :: int
  ir_transactionId :: string
  ir_outputIndex :: int

record VerusVdxfId =
  vd_vdxfId :: string
  vd_hash160Result :: string

record VerusRawTransaction =
  rt_transactionId :: string
  rt_blockHash :: "string option"
  rt_confirmations :: int

record VerusBlock =
  bk_hash :: string
  bk_confirmations :: int
  bk_height :: int
  bk_time :: int
  bk_transactions :: "string list"

text \<open>The methods the worker uses.\<close>

record 'n VerusRpcAdapter =
  getInfo :: "('n, VerusInfo) effect"
  getBlockchainInfo :: "('n, VerusBlockchainInfo) effect"
  getIdentity :: "string \<Rightarrow> ('n, VerusIdentityResult) effect"
  getIdentityContent :: "string \<Rightarrow> string \<Rightarrow> ('n, VerusIdentityResult) effect"
  getVdxfId :: "string \<Rightarrow> ('n, VerusVdxfId) effect"
  updateIdentity :: "PreparedIdentityUpdate \<Rightarrow> ('n, string) effect"
  getRawTransaction :: "string \<Rightarrow> ('n, VerusRawTransaction) effect"
  getBlockHash :: "int \<Rightarrow> ('n, string) effect"
  getBlock :: "string \<Rightarrow> ('n, VerusBlock) effect"

section \<open>Preflight\<close>

record ExpectedVerusIdentity =
  xi_identityAddress :: string
  xi_systemId :: string
  xi_allowedStatuses :: "string list"
  xi_mustBeSignableByNode :: bool

record ExpectedVdxfIdentifier =
  xv_uri :: string
  xv_vdxfId :: string

record VerusWritePreflightPolicy =
  wp_serverSelectedNetwork :: string
  wp_expectedChainId :: "string option"
  wp_minimumNodeVersion :: "int option"
  wp_minimumVerificationProgress :: "rat option"
  wp_maximumHeaderLag :: "int option"
  wp_maximumObservationSkew :: "int option"
  wp_requirePeers :: "bool option"
  wp_expectedIdentity :: "ExpectedVerusIdentity option"
  wp_expectedVdxf :: "ExpectedVdxfIdentifier option"
  wp_writeCapabilityEnabled :: bool

record VerusWritePreflightResult =
  pr_info :: VerusInfo
  pr_blockchain :: VerusBlockchainInfo
  pr_identity :: "VerusIdentityResult option"
  pr_vdxf :: "VerusVdxfId option"

definition default :: "'a \<Rightarrow> 'a option \<Rightarrow> 'a" where
  "default d x = (case x of None \<Rightarrow> d | Some a \<Rightarrow> a)"

definition wrong_node :: "string \<Rightarrow> VerusInfo \<Rightarrow> VerusBlockchainInfo \<Rightarrow> bool" where
  "wrong_node expectedChainId info blockchain \<longleftrightarrow>
     \<not> in_testnet info \<or> in_name info \<noteq> VRSCTEST_NETWORK \<or> in_chainId info \<noteq> expectedChainId
     \<or> bi_name blockchain \<noteq> VRSCTEST_NETWORK \<or> bi_chainId blockchain \<noteq> expectedChainId
     \<or> bi_chain blockchain \<noteq> ''test''"

definition unsynced :: "VerusWritePreflightPolicy \<Rightarrow> VerusInfo \<Rightarrow> VerusBlockchainInfo \<Rightarrow> bool" where
  "unsynced policy info blockchain \<longleftrightarrow>
     (let headerLag = bi_headers blockchain - bi_blocks blockchain in
        headerLag < 0 \<or> headerLag > default 0 (wp_maximumHeaderLag policy)
        \<or> bi_verificationProgress blockchain < default (999999 / 1000000) (wp_minimumVerificationProgress policy)
        \<or> \<bar>in_blocks info - bi_blocks blockchain\<bar> > default 1 (wp_maximumObservationSkew policy)
        \<or> in_longestChain info < in_blocks info
        \<or> list_ex (\<lambda>c. \<not> is_space c) (in_errors info)
        \<or> (default True (wp_requirePeers policy) \<and> in_connections info < 1))"

definition identity_invalid :: "ExpectedVerusIdentity \<Rightarrow> VerusIdentityResult \<Rightarrow> bool" where
  "identity_invalid expected identity \<longleftrightarrow>
     vi_identityAddress (ir_identity identity) \<noteq> xi_identityAddress expected
     \<or> vi_systemId (ir_identity identity) \<noteq> xi_systemId expected
     \<or> ir_status identity \<notin> set (xi_allowedStatuses expected)
     \<or> (xi_mustBeSignableByNode expected \<and> \<not> ir_canSignFor identity)"

definition runVerusWritePreflight ::
  "('n, 'z) VerusRpcAdapter_scheme \<Rightarrow> VerusWritePreflightPolicy \<Rightarrow> ('n, VerusWritePreflightResult) effect" where
  "runVerusWritePreflight adapter policy =
     bindE (unlessE (wp_serverSelectedNetwork policy \<noteq> VRSCTEST_NETWORK) (VerusError WRONG_NETWORK
        ''Verus writes require the server-selected VRSCTEST network'' False)) (\<lambda>_.
     bindE (getInfo adapter) (\<lambda>info.
     bindE (getBlockchainInfo adapter) (\<lambda>blockchain.
     bindE (unlessE (wrong_node (default VRSCTEST_CHAIN_ID (wp_expectedChainId policy)) info blockchain)
        (VerusError WRONG_NETWORK
          ''Verus node did not report the expected VRSCTEST system and chain identifier'' False)) (\<lambda>_.
     bindE (unlessE (in_version info < default MINIMUM_VERUS_NODE_VERSION (wp_minimumNodeVersion policy))
        (VerusError NODE_VERSION_UNSUPPORTED
          ''Verus node version is below the supported VRSCTEST baseline'' False)) (\<lambda>_.
     bindE (unlessE (unsynced policy info blockchain) (VerusError NODE_UNSYNCED
        ''Verus node is not ready and synchronized for write work'' True)) (\<lambda>_.
     bindE (unlessE (wp_writeCapabilityEnabled policy
          \<and> (wp_expectedIdentity policy = None \<or> wp_expectedVdxf policy = None))
        (VerusError POLICY_GATE_DISABLED
          ''Enabled Verus writes require approved identity and VDXF server fixtures'' False)) (\<lambda>_.
     bindE (case wp_expectedIdentity policy of None \<Rightarrow> returnE None
        | Some expected \<Rightarrow>
            bindE (getIdentity adapter (xi_identityAddress expected)) (\<lambda>identity.
            bindE (unlessE (identity_invalid expected identity) (VerusError IDENTITY_STATE_INVALID
               ''Expected Verus identity is unavailable, changed, recovered, revoked, or not signable'' False)) (\<lambda>_.
            returnE (Some identity)))) (\<lambda>identity.
     bindE (case wp_expectedVdxf policy of None \<Rightarrow> returnE None
        | Some expected \<Rightarrow>
            bindE (getVdxfId adapter (xv_uri expected)) (\<lambda>vdxf.
            bindE (unlessE (vd_vdxfId vdxf \<noteq> xv_vdxfId expected) (VerusError VDXF_ID_MISMATCH
               ''Derived VDXF identifier does not match the approved server fixture'' False)) (\<lambda>_.
            returnE (Some vdxf)))) (\<lambda>vdxf.
     bindE (unlessE (\<not> wp_writeCapabilityEnabled policy) (VerusError POLICY_GATE_DISABLED
        ''Verus anchor writes remain disabled by the server release and policy gate'' False)) (\<lambda>_.
     returnE \<lparr>pr_info = info, pr_blockchain = blockchain, pr_identity = identity, pr_vdxf = vdxf\<rparr>))))))))))"

section \<open>Confirmation and read-back\<close>

datatype ConfirmationResult =
    Confirming int
  | Confirmed int int string
  | ReorgPending int "int option" "string option"

fun confirmations_of :: "ConfirmationResult \<Rightarrow> int" where
  "confirmations_of (Confirming n) = n"
| "confirmations_of (Confirmed n h b) = n"
| "confirmations_of (ReorgPending n h b) = n"

datatype ReadbackResult = Readback_verified string | Readback_mismatch "string list"

datatype ReadbackSearchEvidence = Evidence_missing | Evidence_found string int

definition inspectTransactionConfirmation ::
  "('n, 'z) VerusRpcAdapter_scheme \<Rightarrow> string \<Rightarrow> js_number \<Rightarrow> ('n, ConfirmationResult) effect" where
  "inspectTransactionConfirmation adapter transactionId minimumConfirmations =
     bindE (unlessE (\<not> isSafeInteger minimumConfirmations \<or> js_less minimumConfirmations (num 1))
        (VerusError RPC_INVALID_RESULT ''Confirmation policy must require at least one confirmation'' False)) (\<lambda>_.
     bindE (getRawTransaction adapter transactionId) (\<lambda>transaction.
     if rt_confirmations transaction < 0 then returnE (ReorgPending (rt_confirmations transaction) None None)
     else if js_less (num (rt_confirmations transaction)) minimumConfirmations \<or> \<not> truthy (rt_blockHash transaction)
     then returnE (Confirming (rt_confirmations transaction))
     else
       let blockHash = the (rt_blockHash transaction) in
       bindE (getBlock adapter blockHash) (\<lambda>block.
       bindE (getBlockHash adapter (bk_height block)) (\<lambda>canonicalHash.
       if bk_hash block \<noteq> blockHash \<or> canonicalHash \<noteq> blockHash
          \<or> js_less (num (bk_confirmations block)) minimumConfirmations
          \<or> transactionId \<notin> set (bk_transactions block)
       then returnE (ReorgPending (rt_confirmations transaction) (Some (bk_height block)) (Some blockHash))
       else returnE (Confirmed (rt_confirmations transaction) (bk_height block) (bk_hash block))))))"

text \<open>The digest of an entry of the content map that is the hexadecimal text of a canonical JSON
  document, or None.\<close>

definition digestCanonicalHexEntry ::
  "(rat \<Rightarrow> string) \<Rightarrow> (nat list \<Rightarrow> string) \<Rightarrow> (string \<Rightarrow> json option) \<Rightarrow> json \<Rightarrow> string option" where
  "digestCanonicalHexEntry num_str sha parse entry =
     (case entry of
        JStr s \<Rightarrow>
          if s = [] then None
          else (case hex_to_bytes s of None \<Rightarrow> None
            | Some bytes \<Rightarrow> (case utf8_decode bytes of None \<Rightarrow> None
                | Some text \<Rightarrow> (case parse text of None \<Rightarrow> None
                    | Some val \<Rightarrow> if canonicalizeJson num_str val = Inr text then Some (sha bytes) else None)))
      | _ \<Rightarrow> None)"

definition content_entries :: "VerusIdentityResult \<Rightarrow> string \<Rightarrow> json list" where
  "content_entries content vdxfKey = default [] (map_of (vi_contentMultiMap (ir_identity content)) vdxfKey)"

definition verifyIdentityContentReadback ::
  "(rat \<Rightarrow> string) \<Rightarrow> (nat list \<Rightarrow> string) \<Rightarrow> (string \<Rightarrow> json option) \<Rightarrow> ('n, 'z) VerusRpcAdapter_scheme
     \<Rightarrow> string \<Rightarrow> string \<Rightarrow> string \<Rightarrow> ('n, ReadbackResult) effect" where
  "verifyIdentityContentReadback num_str sha parse adapter identityAddress vdxfKey expectedDigest =
     bindE (getIdentityContent adapter identityAddress vdxfKey) (\<lambda>content.
     let digests = List.map_filter (digestCanonicalHexEntry num_str sha parse) (content_entries content vdxfKey) in
     if expectedDigest \<in> set digests then returnE (Readback_verified expectedDigest)
     else returnE (Readback_mismatch digests))"

definition findReadbackEvidenceBeforeResubmission ::
  "(rat \<Rightarrow> string) \<Rightarrow> (nat list \<Rightarrow> string) \<Rightarrow> (string \<Rightarrow> json option) \<Rightarrow> ('n, 'z) VerusRpcAdapter_scheme
     \<Rightarrow> string \<Rightarrow> string \<Rightarrow> string \<Rightarrow> ('n, ReadbackSearchEvidence) effect" where
  "findReadbackEvidenceBeforeResubmission num_str sha parse adapter identityAddress vdxfKey expectedDigest =
     bindE (getIdentityContent adapter identityAddress vdxfKey) (\<lambda>content.
     if list_ex (\<lambda>entry. digestCanonicalHexEntry num_str sha parse entry = Some expectedDigest)
          (content_entries content vdxfKey)
     then returnE (Evidence_found (ir_transactionId content) (ir_blockHeight content))
     else returnE Evidence_missing)"

definition searchReadbackBeforeResubmission ::
  "(rat \<Rightarrow> string) \<Rightarrow> (nat list \<Rightarrow> string) \<Rightarrow> (string \<Rightarrow> json option) \<Rightarrow> ('n, 'z) VerusRpcAdapter_scheme
     \<Rightarrow> string \<Rightarrow> string \<Rightarrow> string \<Rightarrow> ('n, string) effect" where
  "searchReadbackBeforeResubmission num_str sha parse adapter identityAddress vdxfKey expectedDigest =
     bindE (findReadbackEvidenceBeforeResubmission num_str sha parse adapter identityAddress vdxfKey expectedDigest)
       (\<lambda>result. returnE (case result of Evidence_found t h \<Rightarrow> ''found'' | Evidence_missing \<Rightarrow> ''not_found''))"

section \<open>What the checks promise\<close>

text \<open>
  A write is only cleared by a fitting node.  When the preflight returns, the server selected
  VRSCTEST, the node reports the test network and the expected chain in both answers, its version is at
  least the minimum, it is synchronized within the limits of the policy and has no error text, writes
  are enabled, and the identity and the VDXF key are those the policy expects: the identity has the
  expected address and system and an allowed status and is signable where required.
\<close>

theorem preflight_clears_only_fitting_node:
  assumes "runVerusWritePreflight adapter policy s = (Inr result, s')"
  shows "wp_serverSelectedNetwork policy = ''VRSCTEST'' \<and> wp_writeCapabilityEnabled policy
     \<and> in_testnet (pr_info result) \<and> in_name (pr_info result) = ''VRSCTEST''
     \<and> in_chainId (pr_info result) = default VRSCTEST_CHAIN_ID (wp_expectedChainId policy)
     \<and> bi_chainId (pr_blockchain result) = default VRSCTEST_CHAIN_ID (wp_expectedChainId policy)
     \<and> bi_chain (pr_blockchain result) = ''test''
     \<and> default MINIMUM_VERUS_NODE_VERSION (wp_minimumNodeVersion policy) \<le> in_version (pr_info result)
     \<and> \<not> unsynced policy (pr_info result) (pr_blockchain result)
     \<and> (\<exists>expected identity. wp_expectedIdentity policy = Some expected \<and> pr_identity result = Some identity
          \<and> vi_identityAddress (ir_identity identity) = xi_identityAddress expected
          \<and> vi_systemId (ir_identity identity) = xi_systemId expected
          \<and> ir_status identity \<in> set (xi_allowedStatuses expected)
          \<and> (xi_mustBeSignableByNode expected \<longrightarrow> ir_canSignFor identity))
     \<and> (\<exists>expected vdxf. wp_expectedVdxf policy = Some expected \<and> pr_vdxf result = Some vdxf
          \<and> vd_vdxfId vdxf = xv_vdxfId expected)"
  using assms unfolding runVerusWritePreflight_def
  by (auto simp: wrong_node_def identity_invalid_def VRSCTEST_NETWORK_def split: option.splits)

text \<open>
  A transaction counts as confirmed only in the canonical chain.  When the result is confirmed,
  the policy asks for at least one confirmation, the node's block with the returned hash contains the
  transaction, has at least the required number of confirmations, and the node names it as the block
  at its height.
\<close>

theorem confirmed_is_canonical:
  assumes "inspectTransactionConfirmation adapter transactionId (num n) s = (Inr (Confirmed c h b), s')"
  shows "1 \<le> n \<and> n \<le> c
     \<and> (\<exists>block s1 s2. getBlock adapter b s1 = (Inr block, s2) \<and> getBlockHash adapter h s2 = (Inr b, s')
          \<and> bk_hash block = b \<and> bk_height block = h \<and> n \<le> bk_confirmations block
          \<and> transactionId \<in> set (bk_transactions block))"
  using assms unfolding inspectTransactionConfirmation_def
  by (fastforce simp: Let_def not_less split: if_splits)

text \<open>What the language promises of JSON.parse: it reads back the value whose canonical text it is
  given, with the fields of objects in the order of the text.\<close>

definition parses_canonical :: "(rat \<Rightarrow> string) \<Rightarrow> (string \<Rightarrow> json option) \<Rightarrow> json \<Rightarrow> bool" where
  "parses_canonical num_str parse v \<longleftrightarrow>
     (case canonicalizeJson num_str v of Inl e \<Rightarrow> True | Inr t \<Rightarrow> parse t = Some (normal v))"

lemma normal_normal: "normal (normal v) = normal v"
proof (induction v)
  case (JArr xs)
  thus ?case by simp
next
  case (JObj es)
  have nn: "(\<lambda>(k, v). (k, normal v)) e = e" if "e \<in> set (sort_key fst (map (\<lambda>(k, v). (k, normal v)) es))" for e
    using that JObj by (auto split: prod.splits)
  have "map (\<lambda>(k, v). (k, normal v)) (sort_key fst (map (\<lambda>(k, v). (k, normal v)) es)) =
      sort_key fst (map (\<lambda>(k, v). (k, normal v)) es)"
    by (rule map_idI) (rule nn)
  moreover have "sort_key fst (sort_key fst (map (\<lambda>(k, v). (k, normal v)) es)) = sort_key fst (map (\<lambda>(k, v). (k, normal v)) es)"
    by (rule sort_key_id_if_sorted) (rule sorted_sort_key)
  ultimately show ?case by (simp only: normal.simps)
qed auto

lemma canonical_text_of_normal:
  assumes "canonicalizeJson num_str v = Inr t"
  shows "canonicalizeJson num_str (normal v) = Inr t" "finite_json v" "t = print_json num_str (normal v)"
  using assms by (auto simp: canonicalizeJson_print normal_normal split: if_splits)

lemma written_entry_digest:
  assumes "parses_canonical num_str parse v" "canonicalizeJson num_str v = Inr t" "t \<noteq> []"
  shows "digestCanonicalHexEntry num_str sha parse (JStr (bytes_to_hex (utf8_encode t))) = Some (sha (utf8_encode t))"
proof -
  note c = canonical_text_of_normal[OF assms(2)]
  have "parse t = Some (normal v)" using assms(1,2) by (simp add: parses_canonical_def)
  moreover have "hex_to_bytes (bytes_to_hex (utf8_encode t)) = Some (utf8_encode t)"
    by (rule hex_to_bytes_to_hex) (auto dest: utf8_encode_bytes)
  moreover from this have "bytes_to_hex (utf8_encode t) \<noteq> []"
    using assms(3) utf8_encode_inj[of t "[]"] by (auto simp: utf8_encode_def)
  ultimately show ?thesis using c(1) by (simp add: digestCanonicalHexEntry_def)
qed


section \<open>A node for the examples\<close>

text \<open>The state of the example node: whether it is synchronized, the content of its one identity, and
  the updates it received.\<close>

record sample_node =
  sn_synced :: bool
  sn_content :: "(string \<times> json list) list"
  sn_writes :: "PreparedIdentityUpdate list"
  sn_answers :: bool

definition sample_identity :: "sample_node \<Rightarrow> VerusIdentityResult" where
  "sample_identity n = \<lparr>ir_fullyQualifiedName = ''target@'',
     ir_identity = \<lparr>vi_version = 3, vi_flags = 0, vi_primaryAddresses = [], vi_minimumSignatures = 1, vi_name = ''target'',
       vi_identityAddress = ''iTargetTargetTargetTarget'', vi_parent = [], vi_systemId = VRSCTEST_CHAIN_ID,
       vi_contentMap = [], vi_contentMultiMap = sn_content n, vi_revocationAuthority = [], vi_recoveryAuthority = [],
       vi_timelock = 0\<rparr>,
     ir_status = ''active'', ir_canSpendFor = True, ir_canSignFor = True, ir_blockHeight = 7,
     ir_transactionId = replicate 64 (CHR ''a''), ir_outputIndex = 0\<rparr>"

definition sample_adapter :: "sample_node VerusRpcAdapter" where
  "sample_adapter = \<lparr>
     getInfo = (\<lambda>n. (Inr \<lparr>in_release = [], in_version = 2000753, in_protocolVersion = 1, in_chainId = VRSCTEST_CHAIN_ID,
        in_name = ''VRSCTEST'', in_blocks = 10, in_longestChain = 10, in_connections = (if sn_synced n then 3 else 0),
        in_testnet = True, in_errors = []\<rparr>, n)),
     getBlockchainInfo = (\<lambda>n. (Inr \<lparr>bi_chain = ''test'', bi_name = ''VRSCTEST'', bi_chainId = VRSCTEST_CHAIN_ID,
        bi_blocks = 10, bi_headers = 10, bi_bestBlockHash = [], bi_verificationProgress = 1, bi_pruned = False\<rparr>, n)),
     getIdentity = (\<lambda>i n. (Inr (sample_identity n), n)),
     getIdentityContent = (\<lambda>i k n. (Inr (sample_identity n), n)),
     getVdxfId = (\<lambda>u n. (Inr \<lparr>vd_vdxfId = ''iKeyKeyKeyKeyKeyKeyKeyKey'', vd_hash160Result = []\<rparr>, n)),
     updateIdentity = (\<lambda>u n.
        (if sn_answers n then Inr (replicate 64 (CHR ''a''))
         else Inl (IntegrationError \<lparr>ve_code = AMBIGUOUS_SUBMISSION, ve_message = ''no answer'', ve_retryable = True,
                ve_submissionAmbiguous = True\<rparr>),
         n\<lparr>sn_writes := sn_writes n @ [u]\<rparr>)),
     getRawTransaction = (\<lambda>t n. (Inr \<lparr>rt_transactionId = t, rt_blockHash = Some (replicate 64 (CHR ''b'')),
        rt_confirmations = 5\<rparr>, n)),
     getBlockHash = (\<lambda>h n. (Inr (replicate 64 (CHR ''b'')), n)),
     getBlock = (\<lambda>b n. (Inr \<lparr>bk_hash = replicate 64 (CHR ''b''), bk_confirmations = 5, bk_height = 7, bk_time = 0,
        bk_transactions = [replicate 64 (CHR ''a'')]\<rparr>, n))\<rparr>"

definition fresh_node :: sample_node where
  "fresh_node = \<lparr>sn_synced = True, sn_content = [], sn_writes = [], sn_answers = True\<rparr>"

definition sample_write_policy :: VerusWritePreflightPolicy where
  "sample_write_policy = \<lparr>wp_serverSelectedNetwork = ''VRSCTEST'', wp_expectedChainId = None,
     wp_minimumNodeVersion = None, wp_minimumVerificationProgress = None, wp_maximumHeaderLag = None,
     wp_maximumObservationSkew = None, wp_requirePeers = None,
     wp_expectedIdentity = Some \<lparr>xi_identityAddress = ''iTargetTargetTargetTarget'', xi_systemId = VRSCTEST_CHAIN_ID,
       xi_allowedStatuses = [''active''], xi_mustBeSignableByNode = True\<rparr>,
     wp_expectedVdxf = Some \<lparr>xv_uri = ''u'', xv_vdxfId = ''iKeyKeyKeyKeyKeyKeyKeyKey''\<rparr>,
     wp_writeCapabilityEnabled = True\<rparr>"

lemma effect_result:
  assumes "\<not> isl (fst (m s))"
  obtains a s' where "m s = (Inr a, s')"
  using assms by (metis prod.collapse result_cases)

theorem preflight_clears_only_fitting_node_witness:
  "\<exists>result s'. runVerusWritePreflight sample_adapter sample_write_policy fresh_node = (Inr result, s')
     \<and> default MINIMUM_VERUS_NODE_VERSION None \<le> in_version (pr_info result)"
proof -
  have "\<not> isl (fst (runVerusWritePreflight sample_adapter sample_write_policy fresh_node))" by code_simp
  then obtain r s' where r: "runVerusWritePreflight sample_adapter sample_write_policy fresh_node = (Inr r, s')"
    by (rule effect_result)
  from preflight_clears_only_fitting_node[OF r] r show ?thesis by (auto simp: sample_write_policy_def)
qed

theorem confirmed_is_canonical_witness:
  "\<exists>c h b s'. inspectTransactionConfirmation sample_adapter (replicate 64 (CHR ''a'')) (num 2) fresh_node =
      (Inr (Confirmed c h b), s') \<and> 2 \<le> c"
proof -
  have "case fst (inspectTransactionConfirmation sample_adapter (replicate 64 (CHR ''a'')) (num 2) fresh_node) of
      Inr (Confirmed c h b) \<Rightarrow> True | _ \<Rightarrow> False" by code_simp
  then obtain c h b s' where
    r: "inspectTransactionConfirmation sample_adapter (replicate 64 (CHR ''a'')) (num 2) fresh_node = (Inr (Confirmed c h b), s')"
    by (cases "inspectTransactionConfirmation sample_adapter (replicate 64 (CHR ''a'')) (num 2) fresh_node")
       (auto split: sum.splits ConfirmationResult.splits)
  from confirmed_is_canonical[OF r] r show ?thesis by blast
qed


end
