(* ===== verification/Verus_Worker.thy ===== *)
theory Verus_Worker
  imports Verus_Job_Properties Verus_Node
begin

text \<open>
  apps/worker/src/verus-worker.ts and verus-metrics.ts: the worker that carries one outbox event
  through preflight, submission, confirmation and read-back.  Its state has the database, the node, the
  metrics, the local variable \<open>job\<close> of processNext, and the number of times the clock was read; the
  options have the clock, the adapter, and the services of the database.
\<close>

section \<open>Metrics\<close>

record VerusWorkerMetrics =
  mt_ready :: js_number
  mt_oldestAgeSeconds :: js_number
  mt_synchronized :: nat
  mt_confirmationCount :: js_number
  mt_paused :: nat
  mt_wrongNetwork :: nat
  mt_mismatch :: nat
  mt_reorg :: nat
  mt_outcomes :: "(string \<times> nat) list"
  mt_failures :: "(string \<times> nat) list"

definition initial_metrics :: VerusWorkerMetrics where
  "initial_metrics = \<lparr>mt_ready = num 0, mt_oldestAgeSeconds = num 0, mt_synchronized = 0,
     mt_confirmationCount = num 0, mt_paused = 1, mt_wrongNetwork = 0, mt_mismatch = 0, mt_reorg = 0,
     mt_outcomes = [], mt_failures = []\<rparr>"

fun finiteNonnegative :: "js_number \<Rightarrow> js_number" where
  "finiteNonnegative (Num r) = (if 0 \<le> r then Num r else num 0)"
| "finiteNonnegative _ = num 0"

definition count_up :: "string \<Rightarrow> (string \<times> nat) list \<Rightarrow> (string \<times> nat) list" where
  "count_up k m = AList.update k (default 0 (map_of m k) + 1) m"

definition setQueue :: "js_number \<Rightarrow> js_number \<Rightarrow> VerusWorkerMetrics \<Rightarrow> VerusWorkerMetrics" where
  "setQueue ready oldestAgeSeconds m =
     m\<lparr>mt_ready := finiteNonnegative ready, mt_oldestAgeSeconds := finiteNonnegative oldestAgeSeconds\<rparr>"

definition setNodeSynchronized :: "bool \<Rightarrow> VerusWorkerMetrics \<Rightarrow> VerusWorkerMetrics" where
  "setNodeSynchronized val m = m\<lparr>mt_synchronized := (if val then 1 else 0)\<rparr>"

definition setConfirmationCount :: "js_number \<Rightarrow> VerusWorkerMetrics \<Rightarrow> VerusWorkerMetrics" where
  "setConfirmationCount val m = m\<lparr>mt_confirmationCount := finiteNonnegative val\<rparr>"

definition setPaused :: "bool \<Rightarrow> VerusWorkerMetrics \<Rightarrow> VerusWorkerMetrics" where
  "setPaused val m = m\<lparr>mt_paused := (if val then 1 else 0)\<rparr>"

definition recordOutcome :: "string \<Rightarrow> VerusWorkerMetrics \<Rightarrow> VerusWorkerMetrics" where
  "recordOutcome val m = m\<lparr>mt_outcomes := count_up val (mt_outcomes m)\<rparr>"

definition recordFailure :: "string \<Rightarrow> VerusWorkerMetrics \<Rightarrow> VerusWorkerMetrics" where
  "recordFailure errorClass m =
     (if \<not> matches_head is_upper (\<lambda>c. is_upper c \<or> is_digit c \<or> c = CHR ''_'') 2 63 errorClass then m
      else m\<lparr>mt_failures := count_up errorClass (mt_failures m)\<rparr>)"

definition recordWrongNetwork :: "VerusWorkerMetrics \<Rightarrow> VerusWorkerMetrics" where
  "recordWrongNetwork m = m\<lparr>mt_wrongNetwork := mt_wrongNetwork m + 1\<rparr>"

definition recordReadbackMismatch :: "VerusWorkerMetrics \<Rightarrow> VerusWorkerMetrics" where
  "recordReadbackMismatch m = m\<lparr>mt_mismatch := mt_mismatch m + 1\<rparr>"

definition recordReorg :: "VerusWorkerMetrics \<Rightarrow> VerusWorkerMetrics" where
  "recordReorg m = m\<lparr>mt_reorg := mt_reorg m + 1\<rparr>"

fun verus_error_code_name :: "VerusErrorCode \<Rightarrow> string" where
  "verus_error_code_name RPC_UNAVAILABLE = ''RPC_UNAVAILABLE''"
| "verus_error_code_name RPC_TIMEOUT = ''RPC_TIMEOUT''"
| "verus_error_code_name RPC_HTTP_ERROR = ''RPC_HTTP_ERROR''"
| "verus_error_code_name RPC_PROTOCOL_ERROR = ''RPC_PROTOCOL_ERROR''"
| "verus_error_code_name RPC_METHOD_ERROR = ''RPC_METHOD_ERROR''"
| "verus_error_code_name RPC_INVALID_RESULT = ''RPC_INVALID_RESULT''"
| "verus_error_code_name AMBIGUOUS_SUBMISSION = ''AMBIGUOUS_SUBMISSION''"
| "verus_error_code_name WRONG_NETWORK = ''WRONG_NETWORK''"
| "verus_error_code_name NODE_UNSYNCED = ''NODE_UNSYNCED''"
| "verus_error_code_name NODE_VERSION_UNSUPPORTED = ''NODE_VERSION_UNSUPPORTED''"
| "verus_error_code_name IDENTITY_STATE_INVALID = ''IDENTITY_STATE_INVALID''"
| "verus_error_code_name VDXF_ID_MISMATCH = ''VDXF_ID_MISMATCH''"
| "verus_error_code_name POLICY_GATE_DISABLED = ''POLICY_GATE_DISABLED''"
| "verus_error_code_name PAYLOAD_FORBIDDEN = ''PAYLOAD_FORBIDDEN''"
| "verus_error_code_name PAYLOAD_OVERSIZE = ''PAYLOAD_OVERSIZE''"
| "verus_error_code_name CONFIRMATION_PENDING = ''CONFIRMATION_PENDING''"
| "verus_error_code_name READBACK_MISMATCH = ''READBACK_MISMATCH''"
| "verus_error_code_name REORG_DETECTED = ''REORG_DETECTED''"

section \<open>Options and state\<close>

record ApprovedVerusWriteTarget =
  wt_operationType :: string
  wt_targetIdentity :: string
  wt_vdxfUri :: string
  wt_vdxfKey :: string
  wt_manifestPolicyReference :: string

record retry_settings =
  rs_maxAttempts :: js_number
  rs_baseBackoffMs :: js_number
  rs_maxBackoffMs :: js_number

record 'n VerusAnchorWorkerOptions =
  wo_adapter :: "'n VerusRpcAdapter"
  wo_worker :: OutboxWorkerContext
  wo_writeCapabilityEnabled :: bool
  wo_approvedWriteTargets :: "ApprovedVerusWriteTarget list"
  wo_leaseDurationMs :: "js_number option"
  wo_retry :: "retry_settings option"
  wo_now :: "nat \<Rightarrow> time"
  wo_services :: services
  wo_num_str :: "rat \<Rightarrow> string"
  wo_parse :: "string \<Rightarrow> json option"

record 'n worker_state =
  ws_db :: database
  ws_node :: 'n
  ws_metrics :: VerusWorkerMetrics
  ws_job :: "VerusJobRecord option"
  ws_ticks :: nat

datatype VerusWorkerResult =
  W_paused | W_idle | W_verified | W_retryable_failed | W_terminal_failed | W_dead_letter | W_reorg_pending

type_synonym ('n, 'a) work = "('n worker_state, 'a) effect"

text \<open>The defaults of the constructor.\<close>

definition leaseDurationMs :: "'n VerusAnchorWorkerOptions \<Rightarrow> js_number" where
  "leaseDurationMs options = default (num 60000) (wo_leaseDurationMs options)"

definition retry :: "'n VerusAnchorWorkerOptions \<Rightarrow> retry_settings" where
  "retry options = default \<lparr>rs_maxAttempts = num 8, rs_baseBackoffMs = num 5000, rs_maxBackoffMs = num 900000\<rparr>
     (wo_retry options)"

definition now :: "'n VerusAnchorWorkerOptions \<Rightarrow> ('n, time) work" where
  "now options s = (Inr (wo_now options (ws_ticks s)), s\<lparr>ws_ticks := Suc (ws_ticks s)\<rparr>)"

definition metrics :: "(VerusWorkerMetrics \<Rightarrow> VerusWorkerMetrics) \<Rightarrow> ('n, unit) work" where
  "metrics f s = (Inr (), s\<lparr>ws_metrics := f (ws_metrics s)\<rparr>)"

definition on_db :: "'a op \<Rightarrow> ('n, 'a) work" where
  "on_db opn s = (case opn (ws_db s) of (r, db') \<Rightarrow> (map_error RepositoryError r, s\<lparr>ws_db := db'\<rparr>))"

definition on_node :: "('n, 'a) effect \<Rightarrow> ('n, 'a) work" where
  "on_node m s = (case m (ws_node s) of (r, n') \<Rightarrow> (r, s\<lparr>ws_node := n'\<rparr>))"

text \<open>An operation of the job repository at the current time, whose result becomes the variable job.\<close>

definition set_job :: "VerusJobRecord \<Rightarrow> ('n, VerusJobRecord) work" where
  "set_job job s = (Inr job, s\<lparr>ws_job := Some job\<rparr>)"

definition job_step ::
  "'n VerusAnchorWorkerOptions \<Rightarrow> (time \<Rightarrow> VerusJobRecord op) \<Rightarrow> ('n, VerusJobRecord) work" where
  "job_step options opn = bindE (now options) (\<lambda>t. bindE (on_db (opn t)) set_job)"

definition catchE :: "('s, 'a) effect \<Rightarrow> (worker_error \<Rightarrow> ('s, 'a) effect) \<Rightarrow> ('s, 'a) effect" where
  "catchE m h s = (case m s of (Inr a, s') \<Rightarrow> (Inr a, s') | (Inl e, s') \<Rightarrow> h e s')"

section \<open>The worker\<close>

definition worker_queueStats :: "'n VerusAnchorWorkerOptions \<Rightarrow> time \<Rightarrow> ('n, OutboxQueueStats) work" where
  "worker_queueStats options t s = (map_error RepositoryError (queueStats t (Some [VERUS_ANCHOR_EVENT_TYPE]) (ws_db s)), s)"

definition refreshQueueMetrics :: "'n VerusAnchorWorkerOptions \<Rightarrow> ('n, unit) work" where
  "refreshQueueMetrics options =
     bindE (now options) (\<lambda>t.
     bindE (worker_queueStats options t) (\<lambda>stats.
     metrics (setQueue (num (int (qs_readyCount stats)))
       (case qs_oldestReadyAt stats of None \<Rightarrow> num 0 | Some u \<Rightarrow> Num (max 0 (of_int (t - u) / 1000))))))"

definition worker_heartbeat :: "'n VerusAnchorWorkerOptions \<Rightarrow> string \<Rightarrow> ('n, time) work" where
  "worker_heartbeat options eventId =
     bindE (now options) (\<lambda>t.
     on_db (heartbeat (wo_services options) eventId (wo_worker options) t (int_of_number (leaseDurationMs options))))"

definition failOutboxRetryable ::
  "'n VerusAnchorWorkerOptions \<Rightarrow> string \<Rightarrow> string \<Rightarrow> VerusWorkerResult \<Rightarrow> ('n, VerusWorkerResult) work" where
  "failOutboxRetryable options eventId errorClass nonExhaustedResult =
     bindE (now options) (\<lambda>t.
     bindE (on_db (failRetryable (wo_services options) eventId (wo_worker options) t
        \<lparr>rf_errorClass = errorClass, rf_maxAttempts = rs_maxAttempts (retry options),
         rf_baseBackoffMs = rs_baseBackoffMs (retry options), rf_maxBackoffMs = rs_maxBackoffMs (retry options)\<rparr>)) (\<lambda>result.
     if result = O_dead_letter
     then bindE (now options) (\<lambda>t.
          bindE (on_db (markDeadLetter (wo_services options) eventId (wo_worker options) t errorClass)) (\<lambda>_.
          bindE (metrics (recordOutcome ''dead_letter'')) (\<lambda>_.
          returnE W_dead_letter)))
     else bindE (metrics (recordOutcome ''retryable_failed'')) (\<lambda>_.
          returnE nonExhaustedResult)))"

definition errorClass_of :: "VerusIntegrationError \<Rightarrow> string" where
  "errorClass_of error = map lower_char (verus_error_code_name (ve_code error))"

definition handleFailure ::
  "'n VerusAnchorWorkerOptions \<Rightarrow> string \<Rightarrow> VerusJobState \<Rightarrow> VerusIntegrationError \<Rightarrow> ('n, VerusWorkerResult) work" where
  "handleFailure options eventId state error =
     bindE (metrics (recordFailure (verus_error_code_name (ve_code error)))) (\<lambda>_.
     bindE (if ve_code error = NODE_UNSYNCED then metrics (setNodeSynchronized False) else returnE ()) (\<lambda>_.
     bindE (if ve_code error = WRONG_NETWORK then metrics recordWrongNetwork else returnE ()) (\<lambda>_.
     if ve_retryable error
     then bindE (if state \<in> {J_preflight, J_submitted, J_confirming, J_readback}
                 then bindE (now options) (\<lambda>t.
                      bindE (on_db (retryableFailure (wo_services options) eventId (wo_worker options) t
                        (errorClass_of error) (ve_submissionAmbiguous error))) (\<lambda>_. returnE ()))
                 else returnE ()) (\<lambda>_.
          failOutboxRetryable options eventId (errorClass_of error) W_retryable_failed)
     else bindE (if state \<in> {J_preflight, J_submitted, J_confirming, J_readback, J_retryable_failed}
                 then bindE (now options) (\<lambda>t.
                      bindE (on_db (terminalFailure (wo_services options) eventId (wo_worker options) t
                        (errorClass_of error))) (\<lambda>_. returnE ()))
                 else returnE ()) (\<lambda>_.
          bindE (now options) (\<lambda>t.
          bindE (on_db (failTerminal (wo_services options) eventId (wo_worker options) t (errorClass_of error))) (\<lambda>_.
          bindE (metrics (recordOutcome ''terminal_failed'')) (\<lambda>_.
          returnE W_terminal_failed)))))))"

definition approved_target :: "'n VerusAnchorWorkerOptions \<Rightarrow> VerusJobRecord \<Rightarrow> bool" where
  "approved_target options job \<longleftrightarrow>
     list_ex (\<lambda>target. wt_operationType target = jr_operationType job \<and> wt_targetIdentity target = jr_targetIdentity job
        \<and> wt_vdxfUri target = jr_vdxfUri job \<and> wt_vdxfKey target = jr_vdxfKey job
        \<and> wt_manifestPolicyReference target = jr_manifestPolicyReference job) (wo_approvedWriteTargets options)"

definition payload_policy :: "VerusJobRecord \<Rightarrow> CanonicalPayloadPolicy" where
  "payload_policy job = \<lparr>cp_policyReference = jr_manifestPolicyReference job,
     cp_allowedTopLevelFields = jr_manifestAllowedFields job,
     cp_requiredTopLevelFields = jr_manifestRequiredFields job, cp_maximumBytes = num (jr_manifestMaximumBytes job)\<rparr>"

definition write_policy :: "'n VerusAnchorWorkerOptions \<Rightarrow> VerusJobRecord \<Rightarrow> VerusWritePreflightPolicy" where
  "write_policy options job = \<lparr>wp_serverSelectedNetwork = ''VRSCTEST'', wp_expectedChainId = Some VRSCTEST_CHAIN_ID,
     wp_minimumNodeVersion = None, wp_minimumVerificationProgress = None, wp_maximumHeaderLag = None,
     wp_maximumObservationSkew = None, wp_requirePeers = None,
     wp_expectedIdentity = Some \<lparr>xi_identityAddress = jr_targetIdentity job, xi_systemId = VRSCTEST_CHAIN_ID,
       xi_allowedStatuses = [''active''], xi_mustBeSignableByNode = True\<rparr>,
     wp_expectedVdxf = Some \<lparr>xv_uri = jr_vdxfUri job, xv_vdxfId = jr_vdxfKey job\<rparr>,
     wp_writeCapabilityEnabled = wo_writeCapabilityEnabled options\<rparr>"

text \<open>The part of preflightAndSubmit that finds or makes the transaction.\<close>

definition submit ::
  "'n VerusAnchorWorkerOptions \<Rightarrow> VerusJobRecord \<Rightarrow> CanonicalPayload \<Rightarrow> VerusIdentityResult \<Rightarrow> ('n, string) work" where
  "submit options job payload identity =
     bindE (if \<not> truthy (jr_transactionId job) \<and> jr_submissionAmbiguous job
            then bindE (on_node (findReadbackEvidenceBeforeResubmission (wo_num_str options)
                   (sv_sha (wo_services options)) (wo_parse options) (wo_adapter options)
                   (jr_targetIdentity job) (jr_vdxfKey job) (jr_manifestDigest job))) (\<lambda>evidence.
                 case evidence of
                   Evidence_missing \<Rightarrow> throwE (IntegrationError \<lparr>ve_code = AMBIGUOUS_SUBMISSION,
                     ve_message = ''Ambiguous Verus submission was not found by readback; automatic resubmission is blocked'',
                     ve_retryable = True, ve_submissionAmbiguous = True\<rparr>)
                 | Evidence_found transactionId blockHeight \<Rightarrow> returnE (Some transactionId))
            else returnE (jr_transactionId job)) (\<lambda>transactionId.
     if \<not> truthy transactionId
     then bindE (liftE (prepareIdentityContentUpdate (ir_identity identity) (jr_vdxfKey job) payload)) (\<lambda>update.
          on_node (updateIdentity (wo_adapter options) update))
     else returnE (the transactionId))"

definition preflightAndSubmit ::
  "'n VerusAnchorWorkerOptions \<Rightarrow> OutboxClaim \<Rightarrow> VerusJobRecord \<Rightarrow> ('n, VerusJobRecord) work" where
  "preflightAndSubmit options cl job =
     bindE (worker_heartbeat options (oc_id cl)) (\<lambda>_.
     bindE (unlessE (\<not> approved_target options job) (VerusError PAYLOAD_FORBIDDEN
        ''Verus job does not match an approved server write target'' False)) (\<lambda>_.
     bindE (liftE (prepareCanonicalPayload (wo_num_str options) (sv_sha (wo_services options))
        (jr_manifest job) (payload_policy job))) (\<lambda>payload.
     bindE (unlessE (pl_digest payload \<noteq> jr_manifestDigest job
          \<or> utf8_decode (pl_bytes payload) \<noteq> Some (jr_manifestCanonical job)) (VerusError PAYLOAD_FORBIDDEN
        ''Persisted manifest does not match its immutable canonical policy snapshot'' False)) (\<lambda>_.
     bindE (on_node (runVerusWritePreflight (wo_adapter options) (write_policy options job))) (\<lambda>preflight.
     bindE (metrics (setNodeSynchronized True)) (\<lambda>_.
     case pr_identity preflight of
       None \<Rightarrow> throwE (IntegrationError (VerusError IDENTITY_STATE_INVALID ''Preflight identity is absent'' False))
     | Some identity \<Rightarrow>
         bindE (submit options job payload identity) (\<lambda>transactionId.
         bindE (now options) (\<lambda>t.
         on_db (recordSubmission (wo_services options) (oc_id cl) (wo_worker options) t transactionId)))))))))"

definition requireTransactionId :: "VerusJobRecord \<Rightarrow> ('n, string) work" where
  "requireTransactionId job =
     (if truthy (jr_transactionId job) then returnE (the (jr_transactionId job))
      else throwE (IntegrationError (VerusError RPC_INVALID_RESULT ''Submitted Verus job has no transaction ID'' False)))"

text \<open>The confirming step; None is the early return after a reorganization.\<close>

definition confirm_step ::
  "'n VerusAnchorWorkerOptions \<Rightarrow> OutboxClaim \<Rightarrow> VerusJobRecord \<Rightarrow> ('n, VerusJobRecord option) work" where
  "confirm_step options cl job =
     bindE (worker_heartbeat options (oc_id cl)) (\<lambda>_.
     bindE (requireTransactionId job) (\<lambda>transactionId.
     bindE (on_node (inspectTransactionConfirmation (wo_adapter options) transactionId
        (num (jr_confirmationRequirement job)))) (\<lambda>confirmation.
     bindE (metrics (setConfirmationCount (num (confirmations_of confirmation)))) (\<lambda>_.
     case confirmation of
       Confirming n \<Rightarrow> throwE (IntegrationError (VerusError CONFIRMATION_PENDING
         ''Verus transaction has not reached the configured confirmation requirement'' True))
     | ReorgPending n h b \<Rightarrow>
         bindE (now options) (\<lambda>t.
         bindE (on_db (reorg (wo_services options) (oc_id cl) (wo_worker options) t)) (\<lambda>_.
         bindE (metrics recordReorg) (\<lambda>_.
         returnE None)))
     | Confirmed n h b \<Rightarrow>
         bindE (job_step options (\<lambda>t. beginReadback (wo_services options) (oc_id cl) (wo_worker options) t (num h) b))
           (\<lambda>job. returnE (Some job))))))"

definition readback_step ::
  "'n VerusAnchorWorkerOptions \<Rightarrow> OutboxClaim \<Rightarrow> VerusJobRecord \<Rightarrow> ('n, VerusJobRecord) work" where
  "readback_step options cl job =
     bindE (worker_heartbeat options (oc_id cl)) (\<lambda>_.
     bindE (on_node (verifyIdentityContentReadback (wo_num_str options) (sv_sha (wo_services options))
        (wo_parse options) (wo_adapter options) (jr_targetIdentity job) (jr_vdxfKey job) (jr_manifestDigest job))) (\<lambda>readback.
     case readback of
       Readback_mismatch digests \<Rightarrow>
         bindE (metrics recordReadbackMismatch) (\<lambda>_.
         throwE (IntegrationError (VerusError READBACK_MISMATCH
           ''Verus identity readback did not contain the exact canonical manifest digest'' False)))
     | Readback_verified digest \<Rightarrow>
         job_step options (\<lambda>t. verifyReadback (wo_services options) (oc_id cl) (wo_worker options) t digest)))"

text \<open>The body of the try block; None is the early return.\<close>

definition process_claim :: "'n VerusAnchorWorkerOptions \<Rightarrow> OutboxClaim \<Rightarrow> ('n, VerusWorkerResult option) work" where
  "process_claim options cl =
     bindE (job_step options (loadForClaim (oc_id cl) (wo_worker options))) (\<lambda>job.
     bindE (if jr_state job \<in> {J_pending, J_retryable_failed, J_reorg_pending}
            then job_step options (claim (wo_services options) (oc_id cl) (wo_worker options)) else returnE job) (\<lambda>job.
     bindE (if jr_state job = J_claimed
            then job_step options (beginPreflight (wo_services options) (oc_id cl) (wo_worker options)) else returnE job) (\<lambda>job.
     bindE (if jr_state job = J_preflight
            then bindE (preflightAndSubmit options cl job) set_job else returnE job) (\<lambda>job.
     bindE (if jr_state job = J_submitted
            then bindE (worker_heartbeat options (oc_id cl)) (\<lambda>_.
                 job_step options (beginConfirmation (wo_services options) (oc_id cl) (wo_worker options)))
            else returnE job) (\<lambda>job.
     bindE (if jr_state job = J_confirming then confirm_step options cl job else returnE (Some job)) (\<lambda>confirmed.
     case confirmed of
       None \<Rightarrow> returnE None
     | Some job \<Rightarrow>
         bindE (if jr_state job = J_readback then readback_step options cl job else returnE job) (\<lambda>job.
         bindE (unlessE (jr_state job \<noteq> J_verified) (VerusError RPC_INVALID_RESULT
            ''Verus job stopped in an invalid state'' False)) (\<lambda>_.
         bindE (now options) (\<lambda>t.
         bindE (on_db (succeed (wo_services options) (oc_id cl) (wo_worker options) t)) (\<lambda>_.
         bindE (metrics (recordOutcome ''verified'')) (\<lambda>_.
         returnE (Some W_verified))))))))))))"

definition clear_job :: "('n, unit) work" where
  "clear_job s = (Inr (), s\<lparr>ws_job := None\<rparr>)"

definition on_failure ::
  "'n VerusAnchorWorkerOptions \<Rightarrow> OutboxClaim \<Rightarrow> worker_error \<Rightarrow> ('n, VerusWorkerResult option) work" where
  "on_failure options cl error s =
     (case (ws_job s, error) of
        (Some job, IntegrationError e) \<Rightarrow>
          bindE (handleFailure options (oc_id cl) (jr_state job) e) (\<lambda>r. returnE (Some r)) s
      | _ \<Rightarrow> (Inl error, s))"

text \<open>What processNext does with a claim.\<close>

definition process_claimed :: "'n VerusAnchorWorkerOptions \<Rightarrow> OutboxClaim \<Rightarrow> ('n, VerusWorkerResult) work" where
  "process_claimed options cl =
     bindE (now options) (\<lambda>t.
     bindE (worker_queueStats options t) (\<lambda>stats.
     bindE (now options) (\<lambda>t.
     bindE (metrics (setQueue (num (max 0 (int (qs_readyCount stats))))
        (Num (max 0 (of_int (t - oc_createdAt cl) / 1000))))) (\<lambda>_.
     bindE clear_job (\<lambda>_.
     bindE (catchE (process_claim options cl) (on_failure options cl)) (\<lambda>result.
     case result of
       Some r \<Rightarrow> returnE r
     | None \<Rightarrow> failOutboxRetryable options (oc_id cl) ''reorg_detected'' W_reorg_pending))))))"

definition processNext :: "'n VerusAnchorWorkerOptions \<Rightarrow> ('n, VerusWorkerResult) work" where
  "processNext options =
     bindE (refreshQueueMetrics options) (\<lambda>_.
     bindE (metrics (setPaused (\<not> wo_writeCapabilityEnabled options))) (\<lambda>_.
     if \<not> wo_writeCapabilityEnabled options then returnE W_paused
     else
       bindE (now options) (\<lambda>t.
       bindE (on_db (claimNext (wo_services options) (wo_worker options) t (leaseDurationMs options)
          \<lparr>co_eventTypes = Some [VERUS_ANCHOR_EVENT_TYPE], co_singleWriterByAggregate = True\<rparr>)) (\<lambda>claimed.
       case claimed of None \<Rightarrow> returnE W_idle | Some cl \<Rightarrow> process_claimed options cl))))"

end
