(* ===== verification/Worker_Properties.thy ===== *)
theory Worker_Properties
  imports Verus_Worker
begin

text \<open>
  What one run of the worker can do to the database and to the node.  The interface
  \<open>worker_invariant\<close> has a relation between database and node that the steps of the job store, the
  reads of the node and the approved writes maintain; the lemma proved in it is that a run of
  processNext maintains it, on success and on failure.
\<close>

section \<open>Approved updates\<close>

text \<open>An identity update that may be sent: the identity and the content key of an approved target, and
  under the key only the hexadecimal text of a payload that passed the guard under the policy of the
  target.\<close>

definition approved_update :: "'n VerusAnchorWorkerOptions \<Rightarrow> PreparedIdentityUpdate \<Rightarrow> bool" where
  "approved_update options u \<longleftrightarrow>
     (\<exists>target \<in> set (wo_approvedWriteTargets options). \<exists>val policy payload.
        vi_identityAddress (pu_identity u) = wt_targetIdentity target
        \<and> vi_systemId (pu_identity u) = VRSCTEST_CHAIN_ID
        \<and> pu_vdxfKey u = wt_vdxfKey target
        \<and> cp_policyReference policy = wt_manifestPolicyReference target
        \<and> prepareCanonicalPayload (wo_num_str options) (sv_sha (wo_services options)) val policy = Inr payload
        \<and> pu_manifestDigest u = pl_digest payload
        \<and> map_of (vi_contentMultiMap (pu_identity u)) (pu_vdxfKey u) = Some [JStr (bytes_to_hex (pl_bytes payload))])"

lemma prepared_update_approved:
  assumes "approved_target options job"
    and "prepareCanonicalPayload (wo_num_str options) (sv_sha (wo_services options)) (jr_manifest job) (payload_policy job) = Inr payload"
    and "runVerusWritePreflight adapter (write_policy options job) n = (Inr preflight, n')"
    and "pr_identity preflight = Some identity"
    and "prepareIdentityContentUpdate (ir_identity identity) (jr_vdxfKey job) payload = Inr u"
  shows "approved_update options u"
proof -
  obtain target where t: "target \<in> set (wo_approvedWriteTargets options)" "wt_targetIdentity target = jr_targetIdentity job"
      "wt_vdxfKey target = jr_vdxfKey job" "wt_manifestPolicyReference target = jr_manifestPolicyReference job"
    using assms(1) by (auto simp: approved_target_def list_ex_iff)
  have i: "vi_identityAddress (ir_identity identity) = jr_targetIdentity job"
      "vi_systemId (ir_identity identity) = VRSCTEST_CHAIN_ID"
    using assms(3,4) unfolding runVerusWritePreflight_def write_policy_def by (auto simp: identity_invalid_def)
  have u: "pu_vdxfKey u = jr_vdxfKey job" "pu_manifestDigest u = pl_digest payload"
      "vi_identityAddress (pu_identity u) = vi_identityAddress (ir_identity identity)"
      "vi_systemId (pu_identity u) = vi_systemId (ir_identity identity)"
      "map_of (vi_contentMultiMap (pu_identity u)) (jr_vdxfKey job) = Some [JStr (bytes_to_hex (pl_bytes payload))]"
    using assms(5) by (auto simp: prepareIdentityContentUpdate_def update_conv' split: if_splits)
  show ?thesis
    unfolding approved_update_def
    by (intro bexI[OF _ t(1)] exI[of _ "jr_manifest job"] exI[of _ "payload_policy job"] exI[of _ payload])
       (use t i u assms(2) in \<open>simp add: payload_policy_def\<close>)
qed

section \<open>Invariants of the worker\<close>

lemma preserves_cases [preserves_rules]:
  assumes "\<And>n. preserves I (a n)" "\<And>n h b. preserves I (c n h b)" "\<And>n h b. preserves I (d n h b)"
  shows "preserves I (case x of Confirming n \<Rightarrow> a n | Confirmed n h b \<Rightarrow> c n h b | ReorgPending n h b \<Rightarrow> d n h b)"
  using assms by (cases x) auto

lemma preserves_readback [preserves_rules]:
  assumes "\<And>d. preserves I (a d)" "\<And>ds. preserves I (b ds)"
  shows "preserves I (case x of Readback_verified d \<Rightarrow> a d | Readback_mismatch ds \<Rightarrow> b ds)"
  using assms by (cases x) auto

lemma preserves_evidence [preserves_rules]:
  assumes "preserves I a" "\<And>t h. preserves I (b t h)"
  shows "preserves I (case x of Evidence_missing \<Rightarrow> a | Evidence_found t h \<Rightarrow> b t h)"
  using assms by (cases x) auto

lemma preserves_catchE [preserves_rules]:
  assumes "preserves I m" "\<And>e. preserves I (h e)"
  shows "preserves I (catchE m h)"
proof (rule preservesI)
  fix s r s'' assume s: "I s" "catchE m h s = (r, s'')"
  obtain x s' where m: "m s = (x, s')" by (rule prod.exhaust)
  have "I s'" using preservesD[OF assms(1) s(1) m] .
  thus "I s''" using s m preservesD[OF assms(2)] by (cases x) (auto simp: catchE_def)
qed

lemma on_node_preserves:
  assumes "\<And>db. preserves (I db) m"
  shows "preserves (\<lambda>s. I (ws_db s) (ws_node s)) (on_node m)"
  by (rule preservesI) (auto simp: on_node_def split: prod.splits dest: preservesD[OF assms])

lemma on_db_preserves:
  assumes "\<And>db n r db'. opn db = (r, db') \<Longrightarrow> I db n \<Longrightarrow> I db' n"
  shows "preserves (\<lambda>s. I (ws_db s) (ws_node s)) (on_db opn)"
  by (rule preservesI) (auto simp: on_db_def split: prod.splits dest: assms)

lemma bookkeeping_preserves [preserves_rules]:
  "preserves (\<lambda>s. I (ws_db s) (ws_node s)) (now options)"
  "preserves (\<lambda>s. I (ws_db s) (ws_node s)) (metrics f)"
  "preserves (\<lambda>s. I (ws_db s) (ws_node s)) (set_job job)"
  "preserves (\<lambda>s. I (ws_db s) (ws_node s)) clear_job"
  "preserves (\<lambda>s. I (ws_db s) (ws_node s)) (worker_queueStats options t)"
  by (auto simp: preserves_def now_def metrics_def set_job_def clear_job_def worker_queueStats_def)

lemma loadForClaim_db: "loadForClaim i worker t db = (r, db') \<Longrightarrow> db' = db"
  by (auto simp: loadForClaim_def transaction_eq requireLease_Inr load_job_Inr split: sum.splits)

locale worker_invariant =
  fixes options :: "'n VerusAnchorWorkerOptions" and I :: "database \<Rightarrow> 'n \<Rightarrow> bool"
  assumes step: "verus_step (wo_services options) (wo_parse options) db db' \<Longrightarrow> I db n \<Longrightarrow> I db' n"
    and read_info: "preserves (I db) (getInfo (wo_adapter options))"
    and read_chain: "preserves (I db) (getBlockchainInfo (wo_adapter options))"
    and read_identity: "preserves (I db) (getIdentity (wo_adapter options) a)"
    and read_content: "preserves (I db) (getIdentityContent (wo_adapter options) a k)"
    and read_vdxf: "preserves (I db) (getVdxfId (wo_adapter options) a)"
    and read_transaction: "preserves (I db) (getRawTransaction (wo_adapter options) a)"
    and read_hash: "preserves (I db) (getBlockHash (wo_adapter options) h)"
    and read_block: "preserves (I db) (getBlock (wo_adapter options) a)"
    and approved_write: "approved_update options u \<Longrightarrow> preserves (I db) (updateIdentity (wo_adapter options) u)"
begin

lemmas reads = read_info read_chain read_identity read_content read_vdxf read_transaction read_hash read_block

lemma reading_procedures:
  "preserves (I db) (runVerusWritePreflight (wo_adapter options) policy)"
  "preserves (I db) (inspectTransactionConfirmation (wo_adapter options) transactionId k)"
  "preserves (I db) (verifyIdentityContentReadback ns sha parse (wo_adapter options) a key d)"
  "preserves (I db) (findReadbackEvidenceBeforeResubmission ns sha parse (wo_adapter options) a key d)"
  unfolding runVerusWritePreflight_def inspectTransactionConfirmation_def verifyIdentityContentReadback_def
    findReadbackEvidenceBeforeResubmission_def Let_def
  by (intro preserves_rules reads)+

abbreviation "J \<equiv> \<lambda>s. I (ws_db s) (ws_node s)"

lemma node_procedures:
  "preserves J (on_node (runVerusWritePreflight (wo_adapter options) policy))"
  "preserves J (on_node (inspectTransactionConfirmation (wo_adapter options) transactionId k))"
  "preserves J (on_node (verifyIdentityContentReadback ns sha parse (wo_adapter options) a key d))"
  "preserves J (on_node (findReadbackEvidenceBeforeResubmission ns sha parse (wo_adapter options) a key d))"
  by (intro on_node_preserves reading_procedures)+

lemma job_operations:
  "preserves J (on_db (job_operation (wo_services options) c x i worker t))"
  "preserves J (on_db (markDeadLetter (wo_services options) i worker t cls))"
  "preserves J (on_db (loadForClaim i worker t))"
  by (rule on_db_preserves; auto intro: step verus_step.job verus_step.dead dest: loadForClaim_db)+

lemma queue_operations:
  "preserves J (on_db (claimNext (wo_services options) worker t d opts))"
  "preserves J (on_db (heartbeat (wo_services options) i worker t k))"
  "preserves J (on_db (succeed (wo_services options) i worker t))"
  "preserves J (on_db (failRetryable (wo_services options) i worker t settings))"
  "preserves J (on_db (failTerminal (wo_services options) i worker t cls))"
  by (rule on_db_preserves; erule step[OF verus_step.queue, rotated]; auto intro: outbox_step.intros)+

lemma named_job_operations:
  "preserves J (on_db (claim (wo_services options) i worker t))"
  "preserves J (on_db (beginPreflight (wo_services options) i worker t))"
  "preserves J (on_db (recordSubmission (wo_services options) i worker t tx))"
  "preserves J (on_db (beginConfirmation (wo_services options) i worker t))"
  "preserves J (on_db (beginReadback (wo_services options) i worker t (num height) hash))"
  "preserves J (on_db (verifyReadback (wo_services options) i worker t digest))"
  "preserves J (on_db (retryableFailure (wo_services options) i worker t cls amb))"
  "preserves J (on_db (terminalFailure (wo_services options) i worker t cls))"
  "preserves J (on_db (reorg (wo_services options) i worker t))"
  using job_operations(1)[of ClaimVerusJob] job_operations(1)[of BeginVerusPreflight]
    job_operations(1)[of RecordVerusSubmission "\<lparr>ja_transactionId = tx, ja_blockHeight = num height, ja_blockHash = hash,
      ja_digest = digest, ja_errorClass = cls, ja_ambiguous = amb\<rparr>"]
    job_operations(1)[of BeginVerusConfirmation]
    job_operations(1)[of BeginVerusReadback "\<lparr>ja_transactionId = tx, ja_blockHeight = num height, ja_blockHash = hash,
      ja_digest = digest, ja_errorClass = cls, ja_ambiguous = amb\<rparr>"]
    job_operations(1)[of VerifyVerusReadback "\<lparr>ja_transactionId = tx, ja_blockHeight = num height, ja_blockHash = hash,
      ja_digest = digest, ja_errorClass = cls, ja_ambiguous = amb\<rparr>"]
    job_operations(1)[of RecordRetryableVerusFailure "\<lparr>ja_transactionId = tx, ja_blockHeight = num height, ja_blockHash = hash,
      ja_digest = digest, ja_errorClass = cls, ja_ambiguous = amb\<rparr>"]
    job_operations(1)[of RecordTerminalVerusFailure "\<lparr>ja_transactionId = tx, ja_blockHeight = num height, ja_blockHash = hash,
      ja_digest = digest, ja_errorClass = cls, ja_ambiguous = amb\<rparr>"]
    job_operations(1)[of MarkVerusReorgPending]
  by simp_all

lemmas worker_rules = preserves_rules job_operations(2,3) queue_operations named_job_operations node_procedures

lemma failure_handling:
  "preserves J (worker_heartbeat options i)"
  "preserves J (failOutboxRetryable options i cls r)"
  "preserves J (handleFailure options i st e)"
proof -
  show beat: "preserves J (worker_heartbeat options i)"
    unfolding worker_heartbeat_def by (intro worker_rules)
  show fail: "preserves J (failOutboxRetryable options i cls r)" for i cls r
    unfolding failOutboxRetryable_def by (intro worker_rules)
  show "preserves J (handleFailure options i st e)"
    unfolding handleFailure_def by (intro worker_rules fail)
qed

lemma on_failure_preserves: "preserves J (on_failure options cl e)"
proof (rule preservesI)
  fix s r s' assume s: "J s" "on_failure options cl e s = (r, s')"
  show "J s'"
  proof (cases "\<exists>job x. ws_job s = Some job \<and> e = IntegrationError x")
    case True
    then obtain job x where x: "ws_job s = Some job" "e = IntegrationError x" by blast
    have "preserves J (bindE (handleFailure options (oc_id cl) (jr_state job) x) (\<lambda>r. returnE (Some r)))"
      by (intro worker_rules failure_handling)
    thus ?thesis using s x preservesD by (fastforce simp: on_failure_def)
  next
    case False
    hence "s' = s" using s(2) by (auto simp: on_failure_def split: option.splits worker_error.splits)
    thus ?thesis using s(1) by simp
  qed
qed

lemma submit_preserves:
  assumes "\<And>u. prepareIdentityContentUpdate (ir_identity identity) (jr_vdxfKey job) payload = Inr u \<Longrightarrow> approved_update options u"
  shows "preserves J (submit options job payload identity)"
proof -
  have w: "preserves J (bindE (liftE (prepareIdentityContentUpdate (ir_identity identity) (jr_vdxfKey job) payload)) (\<lambda>u.
      on_node (updateIdentity (wo_adapter options) u)))"
    by (rule preserves_bindE) (use assms approved_write in \<open>auto intro: worker_rules on_node_preserves\<close>)
  show ?thesis
    unfolding submit_def
    by (rule preserves_bindE_simple, intro worker_rules, rule preserves_if, rule w, rule preserves_basic)
qed

lemma preflightAndSubmit_preserves: "preserves J (preflightAndSubmit options cl job)"
  unfolding preflightAndSubmit_def
proof (rule preserves_bindE_simple[OF failure_handling(1)], rule preserves_bindE[OF preserves_integration(1)])
  fix beat :: time and u :: unit and s s'
  assume "unlessE (\<not> approved_target options job) (VerusError PAYLOAD_FORBIDDEN
        ''Verus job does not match an approved server write target'' False) s = (Inr u, s')"
  hence approved: "approved_target options job" by simp
  show "preserves J (bindE (liftE (prepareCanonicalPayload (wo_num_str options) (sv_sha (wo_services options))
        (jr_manifest job) (payload_policy job))) (\<lambda>payload.
     bindE (unlessE (pl_digest payload \<noteq> jr_manifestDigest job
          \<or> utf8_decode (pl_bytes payload) \<noteq> Some (jr_manifestCanonical job)) (VerusError PAYLOAD_FORBIDDEN
        ''Persisted manifest does not match its immutable canonical policy snapshot'' False)) (\<lambda>_.
     bindE (on_node (runVerusWritePreflight (wo_adapter options) (write_policy options job))) (\<lambda>preflight.
     bindE (metrics (setNodeSynchronized True)) (\<lambda>_.
     case pr_identity preflight of
       None \<Rightarrow> throwE (IntegrationError (VerusError IDENTITY_STATE_INVALID ''Preflight identity is absent'' False))
     | Some identity \<Rightarrow>
         bindE (submit options job payload identity) (\<lambda>transactionId.
         bindE (now options) (\<lambda>t.
         on_db (recordSubmission (wo_services options) (oc_id cl) (wo_worker options) t transactionId))))))))"
  proof (rule preserves_bindE[OF preserves_integration(2)], rule preserves_bindE_simple[OF preserves_integration(1)],
      rule preserves_bindE[OF node_procedures(1)], rule preserves_bindE_simple[OF bookkeeping_preserves(2)])
    fix payload s1 s1' preflight s2 s2'
    assume p: "liftE (prepareCanonicalPayload (wo_num_str options) (sv_sha (wo_services options))
        (jr_manifest job) (payload_policy job)) s1 = (Inr payload, s1')"
      and f: "on_node (runVerusWritePreflight (wo_adapter options) (write_policy options job)) s2 = (Inr preflight, s2')"
    from f obtain n n' where f': "runVerusWritePreflight (wo_adapter options) (write_policy options job) n = (Inr preflight, n')"
      by (auto simp: on_node_def split: prod.splits)
    have "preserves J (submit options job payload identity)" if "pr_identity preflight = Some identity" for identity
      by (rule submit_preserves, rule prepared_update_approved[OF approved _ f' that]) (use p in auto)
    thus "preserves J (case pr_identity preflight of
       None \<Rightarrow> throwE (IntegrationError (VerusError IDENTITY_STATE_INVALID ''Preflight identity is absent'' False))
     | Some identity \<Rightarrow>
         bindE (submit options job payload identity) (\<lambda>transactionId.
         bindE (now options) (\<lambda>t.
         on_db (recordSubmission (wo_services options) (oc_id cl) (wo_worker options) t transactionId))))"
      by (cases "pr_identity preflight") (auto intro!: worker_rules)
  qed
qed

lemma process_claim_preserves: "preserves J (process_claim options cl)"
  unfolding process_claim_def confirm_step_def readback_step_def requireTransactionId_def job_step_def
  by (intro worker_rules failure_handling preflightAndSubmit_preserves)

lemma processNext_preserves: "preserves J (processNext options)"
  unfolding processNext_def process_claimed_def refreshQueueMetrics_def
  by (intro worker_rules failure_handling process_claim_preserves on_failure_preserves)

end

lemma preserves_constant: "preserves (\<lambda>n. P) m"
  by (simp add: preserves_def)

interpretation worker_history: worker_invariant options
  "\<lambda>db n. (verus_step (wo_services options) (wo_parse options))\<^sup>*\<^sup>* d0 db" for options d0
  by unfold_locales (auto simp: preserves_constant intro: rtranclp.rtrancl_into_rtrancl)



section \<open>Pausing\<close>

lemma anchor_filter: "validateEventTypes (Some [VERUS_ANCHOR_EVENT_TYPE]) = Inr (Some [VERUS_ANCHOR_EVENT_TYPE])"
  by (simp add: validateEventTypes_def is_event_type_filter_def VERUS_ANCHOR_EVENT_TYPE_def is_lower_def is_digit_def code_def)

lemma worker_queueStats_Inr: "\<exists>stats. worker_queueStats options t s = (Inr stats, s)"
  by (simp add: worker_queueStats_def queueStats_def anchor_filter Let_def)

lemma paused_run:
  assumes "\<not> wo_writeCapabilityEnabled options"
  shows "fst (processNext options s) = Inr W_paused" "ws_db (snd (processNext options s)) = ws_db s"
    "ws_node (snd (processNext options s)) = ws_node s"
proof -
  obtain stats where "worker_queueStats options (wo_now options (ws_ticks s)) (s\<lparr>ws_ticks := Suc (ws_ticks s)\<rparr>) =
      (Inr stats, s\<lparr>ws_ticks := Suc (ws_ticks s)\<rparr>)" using worker_queueStats_Inr by blast
  thus "fst (processNext options s) = Inr W_paused" "ws_db (snd (processNext options s)) = ws_db s"
    "ws_node (snd (processNext options s)) = ws_node s" using assms
    by (simp_all add: processNext_def refreshQueueMetrics_def bindE_def now_def metrics_def returnE_def)
qed

text \<open>
  A paused worker is inert.  While writes are disabled, a run returns paused, and changes neither
  the database nor the node.
\<close>

theorem paused_worker_is_inert:
  assumes "\<not> wo_writeCapabilityEnabled options"
  shows "fst (processNext options s) = Inr W_paused \<and> ws_db (snd (processNext options s)) = ws_db s
     \<and> ws_node (snd (processNext options s)) = ws_node s"
  using paused_run[OF assms] by blast

section \<open>Recorded outcomes\<close>

definition event_state :: "database \<Rightarrow> string \<Rightarrow> OutboxState option" where
  "event_state db i = map_option ob_state (select_where (\<lambda>r. ob_id r = i) (db_outbox db))"

lemma event_state_after:
  assumes "update_outbox (\<lambda>r. ob_id r = i) f dbm = Inr (u, db2)" "db_outbox dbm = db_outbox db"
    and "outbox_audit sv worker row command reason prior new result db2 = Inr (v, db')"
    and "select_where (\<lambda>r. ob_id r = i) (db_outbox db) = Some q" "\<And>r. ob_id (f r) = ob_id r" "ob_state (f q) = st"
  shows "event_state db' i = Some st"
  using assms untouchedD[OF outbox_audit_frame(1) assms(3)] select_where_SomeD(2)[OF assms(4)]
  by (simp add: event_state_def update_outbox_Inr select_where_update_where)

lemma succeed_state:
  assumes "succeed sv i worker t db = (Inr u, db')"
  shows "event_state db' i = Some O_succeeded"
proof -
  have body: "succeed_body sv i worker t db = Inr (u, db')" using assms by (simp add: succeed_def transaction_Inr)
  then obtain row db1 db2 where l: "loadClaim i (ow_workerReference worker) t db = Inr (row, db)"
    and rec: "recordAttempt sv row (Some (ow_workerReference worker)) (ob_attempt_count row) ''succeeded'' None
       (ob_lease_acquired_at row) t db = Inr ((), db1)"
    and upd: "update_outbox (\<lambda>r. ob_id r = i)
       (\<lambda>r. r\<lparr>ob_state := O_succeeded, ob_lease_owner := None, ob_lease_acquired_at := None,
             ob_lease_expires_at := None, ob_completed_at := Some t\<rparr>) db1 = Inr ((), db2)"
    and aud: "outbox_audit sv worker row ''completeOutboxEvent'' ''worker_success'' ''claimed'' ''succeeded''
       ''succeeded'' db2 = Inr (u, db')"
    unfolding succeed_body_def by (auto dest: loadClaim_row(4))
  show ?thesis by (rule event_state_after[OF upd recordAttempt_frame[OF rec] aud]) (use l in \<open>auto simp: loadClaim_Inr\<close>)
qed

lemma failTerminal_state:
  assumes "failTerminal sv i worker t cls db = (Inr u, db')"
  shows "event_state db' i = Some O_terminal_failed"
proof -
  have body: "failTerminal_body sv i worker t cls db = Inr (u, db')"
    using assms by (auto simp: failTerminal_def transaction_Inr split: sum.splits)
  then obtain row db1 db2 where l: "loadClaim i (ow_workerReference worker) t db = Inr (row, db)"
    and rec: "recordAttempt sv row (Some (ow_workerReference worker)) (ob_attempt_count row) ''failed'' (Some cls)
       (ob_lease_acquired_at row) t db = Inr ((), db1)"
    and upd: "update_outbox (\<lambda>r. ob_id r = i)
       (\<lambda>r. r\<lparr>ob_state := O_terminal_failed, ob_lease_owner := None, ob_lease_acquired_at := None,
             ob_lease_expires_at := None, ob_last_error_class := Some cls, ob_completed_at := Some t\<rparr>)
       db1 = Inr ((), db2)"
    and aud: "outbox_audit sv worker row ''terminallyFailOutboxEvent'' cls ''claimed'' ''terminal_failed''
       ''failed'' db2 = Inr (u, db')"
    unfolding failTerminal_body_def by (auto dest: loadClaim_row(4))
  show ?thesis by (rule event_state_after[OF upd recordAttempt_frame[OF rec] aud]) (use l in \<open>auto simp: loadClaim_Inr\<close>)
qed

lemma failRetryable_state:
  assumes "failRetryable sv i worker t options db = (Inr st, db')"
  shows "event_state db' i = Some st" "st = O_dead_letter \<or> st = O_retryable_failed"
proof -
  have body: "failRetryable_body sv i worker t options db = Inr (st, db')"
    using assms by (auto simp: failRetryable_def transaction_Inr split: sum.splits)
  from failRetryable_steps[OF body] obtain row db1 db2 where
    l: "loadClaim i (ow_workerReference worker) t db = Inr (row, db)"
    and rec: "recordAttempt sv row (Some (ow_workerReference worker)) (ob_attempt_count row) ''failed''
       (Some (rf_errorClass options)) (ob_lease_acquired_at row) t db = Inr ((), db1)"
    and st: "st = (if ob_attempt_count row \<ge> int_of_number (rf_maxAttempts options) then O_dead_letter
           else O_retryable_failed)"
    and upd: "update_outbox (\<lambda>r. ob_id r = i) (\<lambda>r. r\<lparr>ob_state := st,
       ob_available_at := t + backoff_delay options (ob_attempt_count row), ob_lease_owner := None,
       ob_lease_acquired_at := None, ob_lease_expires_at := None,
       ob_last_error_class := Some (rf_errorClass options),
       ob_completed_at := (if ob_attempt_count row \<ge> int_of_number (rf_maxAttempts options)
          then Some t else None)\<rparr>) db1 = Inr ((), db2)"
    and aud: "outbox_audit sv worker row ''failOutboxEvent'' (rf_errorClass options) ''claimed''
       (outbox_state_name st) ''failed'' db2 = Inr ((), db')" by metis
  show "event_state db' i = Some st"
    by (rule event_state_after[OF upd recordAttempt_frame[OF rec] aud]) (use l in \<open>auto simp: loadClaim_Inr\<close>)
  show "st = O_dead_letter \<or> st = O_retryable_failed" using st by simp
qed

text \<open>The record a load returns is not changed by what the outbox does to the event.\<close>

lemma load_job_cong:
  assumes "db_jobs db' = db_jobs db" "db_committees db' = db_committees db"
    and "ob_id ` set (db_outbox db') = ob_id ` set (db_outbox db)" "load_job i db = Inr (job, db)"
  shows "load_job i db' = Inr (job, db')"
proof -
  have "job_event db' j \<noteq> None \<longleftrightarrow> job_event db j \<noteq> None" for j
    using assms(3) unfolding job_event_def select_where_None_iff by (metis (no_types, lifting) image_iff)
  hence "job_of db' i = job_of db i" using assms(1) by (simp only: job_of_def)
  moreover have "committee_reference db' = committee_reference db" 
    using assms(2) by (auto simp: committee_reference_def fun_eq_iff split: option.splits)
  ultimately show ?thesis using assms(4) by (simp add: load_job_Inr)
qed

lemma outbox_parts_keep_load [keeps_rules]:
  "keeps (\<lambda>db. load_job i db = Inr (job, db)) (outbox_audit sv worker row command reason prior new result)"
  "keeps (\<lambda>db. load_job i db = Inr (job, db)) (loadClaim eventId w t)"
  "keeps (\<lambda>db. load_job i db = Inr (job, db)) (recordAttempt sv row w' n result cls started t)"
proof -
  show "keeps (\<lambda>db. load_job i db = Inr (job, db)) (outbox_audit sv worker row command reason prior new result)"
  proof (rule keepsI)
    fix db a db' assume "load_job i db = Inr (job, db)"
      and run: "outbox_audit sv worker row command reason prior new result db = Inr (a, db')"
    thus "load_job i db' = Inr (job, db')"
      using load_job_cong[of db' db] untouchedD[OF outbox_audit_frame(1) run] untouchedD[OF outbox_audit_frame(3) run]
        untouchedD[OF outbox_audit_frame(5) run] by simp
  qed
  show "keeps (\<lambda>db. load_job i db = Inr (job, db)) (loadClaim eventId w t)" by (rule keepsI) (simp add: loadClaim_Inr)
  show "keeps (\<lambda>db. load_job i db = Inr (job, db)) (recordAttempt sv row w' n result cls started t)"
    by (rule keepsI) (auto simp: recordAttempt_Inr intro: load_job_cong)
qed

lemma update_outbox_keeps_load [keeps_rules]:
  assumes "\<And>r. ob_id (f r) = ob_id r"
  shows "keeps (\<lambda>db. load_job i db = Inr (job, db)) (update_outbox P f)"
proof (rule keepsI)
  fix db a db' assume l: "load_job i db = Inr (job, db)" and "update_outbox P f db = Inr (a, db')"
  hence db': "db' = db\<lparr>db_outbox := update_where P f (db_outbox db)\<rparr>" by (simp add: update_outbox_Inr)
  have "ob_id ` set (update_where P f (db_outbox db)) = ob_id ` set (db_outbox db)"
    using map_update_where[of P ob_id f "db_outbox db"] assms by (metis set_map)
  thus "load_job i db' = Inr (job, db')" using l load_job_cong[of db' db] by (simp add: db')
qed

lemma outbox_keeps_load:
  "keeps (\<lambda>db. load_job i db = Inr (job, db)) (heartbeat_body sv eventId worker t d)"
  "keeps (\<lambda>db. load_job i db = Inr (job, db)) (succeed_body sv eventId worker t)"
  unfolding heartbeat_body_def succeed_body_def Let_def by (intro keeps_rules; simp)+

lemma job_transition_load:
  assumes "job_transition sv i worker t expected next ev sync db = (Inr after, db')"
  shows "load_job i db' = Inr (after, db')"
proof -
  have "job_transition_body sv i worker t expected next ev sync db = Inr (after, db')"
    using assms by (auto simp: job_transition_def transaction_Inr split: sum.splits)
  thus ?thesis by (rule job_transition_steps) (simp add: load_job_Inr)
qed

lemmas job_operation_defs = claim_def beginPreflight_def recordSubmission_def beginConfirmation_def
  beginReadback_def verifyReadback_def retryableFailure_def terminalFailure_def reorg_def

section \<open>What a successful computation ensures\<close>

definition ensures :: "('s \<Rightarrow> bool) \<Rightarrow> ('s, 'a) effect \<Rightarrow> ('a \<Rightarrow> 's \<Rightarrow> bool) \<Rightarrow> bool" where
  "ensures P m Q \<longleftrightarrow> (\<forall>s a s'. P s \<longrightarrow> m s = (Inr a, s') \<longrightarrow> Q a s')"

lemma ensuresD: "ensures P m Q \<Longrightarrow> P s \<Longrightarrow> m s = (Inr a, s') \<Longrightarrow> Q a s'"
  by (auto simp: ensures_def)

lemma ensuresI: "(\<And>s a s'. P s \<Longrightarrow> m s = (Inr a, s') \<Longrightarrow> Q a s') \<Longrightarrow> ensures P m Q"
  by (auto simp: ensures_def)

lemma ensures_bindE:
  assumes "ensures P m Q" "\<And>a. ensures (Q a) (f a) R"
  shows "ensures P (bindE m f) R"
  using assms by (fastforce simp: ensures_def)

lemma ensures_if:
  assumes "b \<Longrightarrow> ensures P m Q" "\<not> b \<Longrightarrow> ensures P n Q"
  shows "ensures P (if b then m else n) Q"
  using assms by simp

text \<open>The variable job is what a load of the event returns.\<close>

definition loaded :: "string \<Rightarrow> VerusJobRecord \<Rightarrow> 'n worker_state \<Rightarrow> bool" where
  "loaded i job s \<longleftrightarrow> load_job i (ws_db s) = Inr (job, ws_db s)"

lemma job_step_loaded:
  assumes "\<And>t db r db'. opn t db = (Inr r, db') \<Longrightarrow> load_job i db' = Inr (r, db')"
  shows "ensures P (job_step options opn) (loaded i)"
  by (rule ensuresI)
     (auto simp: job_step_def now_def set_job_def on_db_def loaded_def split: prod.splits dest: assms)

lemma loadForClaim_load: "loadForClaim i worker t db = (Inr r, db') \<Longrightarrow> load_job i db' = Inr (r, db')"
  by (auto simp: loadForClaim_def transaction_Inr requireLease_Inr load_job_Inr)

lemma loaded_frame:
  "ensures (loaded i job) (worker_heartbeat options e) (\<lambda>_. loaded i job)"
  "ensures (loaded i job) (on_node m) (\<lambda>_. loaded i job)"
  "ensures (loaded i job) (metrics f) (\<lambda>_. loaded i job)"
  "ensures (loaded i job) (now options) (\<lambda>_. loaded i job)"
proof -
  show "ensures (loaded i job) (worker_heartbeat options e) (\<lambda>_. loaded i job)"
    by (rule ensuresI) (auto simp: worker_heartbeat_def now_def on_db_def loaded_def heartbeat_def transaction_Inr
        split: prod.splits intro: keepsD[OF outbox_keeps_load(1)])
qed (auto intro!: ensuresI simp: on_node_def metrics_def now_def loaded_def split: prod.splits)

lemma on_db_Inr: "on_db opn s = (Inr a, s') \<longleftrightarrow> (\<exists>db'. opn (ws_db s) = (Inr a, db') \<and> s' = s\<lparr>ws_db := db'\<rparr>)"
  by (auto simp: on_db_def split: prod.splits)

lemma submit_then_record_loaded: "ensures P (preflightAndSubmit options cl job) (loaded (oc_id cl))"
  by (rule ensuresI)
     (auto simp: preflightAndSubmit_def on_db_Inr loaded_def recordSubmission_def split: option.splits,
      erule job_transition_load)

lemma set_job_loaded: "ensures (loaded i job) (set_job job) (loaded i)"
  by (rule ensuresI) (auto simp: set_job_def loaded_def)

lemma loaded_return: "ensures (loaded i job) (returnE job) (loaded i)"
  by (rule ensuresI) simp

lemma ensures_weaken:
  assumes "ensures P m Q" "\<And>s. P' s \<Longrightarrow> P s" "\<And>a s. Q a s \<Longrightarrow> Q' a s"
  shows "ensures P' m Q'"
  using assms unfolding ensures_def by blast

lemma ensures_any: "ensures P m (\<lambda>_ _. True)"
  by (simp add: ensures_def)

lemma ensures_throwE: "ensures P (throwE e) Q"
  by (simp add: ensures_def)

lemma readback_loaded:
  "ensures P (job_step options (\<lambda>t. beginReadback (wo_services options) i (wo_worker options) t h b)) (loaded i)"
  "ensures P (job_step options (\<lambda>t. verifyReadback (wo_services options) i (wo_worker options) t d)) (loaded i)"
  "ensures P (job_step options (beginConfirmation (wo_services options) i (wo_worker options))) (loaded i)"
  "ensures P (job_step options (beginPreflight (wo_services options) i (wo_worker options))) (loaded i)"
  "ensures P (job_step options (claim (wo_services options) i (wo_worker options))) (loaded i)"
  "ensures P (job_step options (loadForClaim i (wo_worker options))) (loaded i)"
  by (rule job_step_loaded; auto simp: job_operation_defs dest: job_transition_load loadForClaim_load)+

lemma confirm_step_loaded:
  "ensures P (confirm_step options cl job) (\<lambda>r s. \<forall>job. r = Some job \<longrightarrow> loaded (oc_id cl) job s)"
  unfolding confirm_step_def
proof (intro ensures_bindE[OF ensures_any])
  fix x y z u
  show "ensures (\<lambda>_. True) (case z of
       Confirming n \<Rightarrow> throwE (IntegrationError (VerusError CONFIRMATION_PENDING
         ''Verus transaction has not reached the configured confirmation requirement'' True))
     | ReorgPending n h b \<Rightarrow>
         bindE (now options) (\<lambda>t.
         bindE (on_db (reorg (wo_services options) (oc_id cl) (wo_worker options) t)) (\<lambda>_.
         bindE (metrics recordReorg) (\<lambda>_.
         returnE None)))
     | Confirmed n h b \<Rightarrow>
         bindE (job_step options (\<lambda>t. beginReadback (wo_services options) (oc_id cl) (wo_worker options) t (num h) b))
           (\<lambda>job. returnE (Some job))) (\<lambda>r s. \<forall>job. r = Some job \<longrightarrow> loaded (oc_id cl) job s)"
  proof (cases z)
    case (Confirmed n h b)
    have "ensures (\<lambda>_. True) (bindE (job_step options (\<lambda>t. beginReadback (wo_services options) (oc_id cl) (wo_worker options) t (num h) b))
           (\<lambda>job. returnE (Some job))) (\<lambda>r s. \<forall>job. r = Some job \<longrightarrow> loaded (oc_id cl) job s)"
      by (rule ensures_bindE[OF readback_loaded(1)]) (rule ensuresI, simp)
    thus ?thesis using Confirmed by simp
  qed (auto intro!: ensuresI simp: throwE_def)
qed

lemma readback_step_loaded: "ensures P (readback_step options cl job) (loaded (oc_id cl))"
  unfolding readback_step_def
proof (intro ensures_bindE[OF ensures_any])
  fix x z
  show "ensures (\<lambda>_. True) (case z of
       Readback_mismatch digests \<Rightarrow>
         bindE (metrics recordReadbackMismatch) (\<lambda>_.
         throwE (IntegrationError (VerusError READBACK_MISMATCH
           ''Verus identity readback did not contain the exact canonical manifest digest'' False)))
     | Readback_verified digest \<Rightarrow>
         job_step options (\<lambda>t. verifyReadback (wo_services options) (oc_id cl) (wo_worker options) t digest))
     (loaded (oc_id cl))"
    by (cases z) (auto intro!: readback_loaded ensures_bindE[OF ensures_any] ensures_throwE)
qed

text \<open>A finished attempt: the event has succeeded and its job is verified.\<close>

definition verified_and_done :: "string \<Rightarrow> 'n worker_state \<Rightarrow> bool" where
  "verified_and_done i s \<longleftrightarrow> event_state (ws_db s) i = Some O_succeeded
     \<and> (\<exists>job. load_job i (ws_db s) = Inr (job, ws_db s) \<and> jr_state job = J_verified)"

lemma finish_verified:
  "ensures (loaded i job) (bindE (unlessE (jr_state job \<noteq> J_verified) x) (\<lambda>_.
         bindE (now options) (\<lambda>t.
         bindE (on_db (succeed (wo_services options) i (wo_worker options) t)) (\<lambda>_.
         bindE (metrics (recordOutcome ''verified'')) (\<lambda>_.
         returnE (Some W_verified)))))) (\<lambda>r s. r = Some W_verified \<and> verified_and_done i s)"
proof (rule ensuresI)
  fix s r s'
  assume l: "loaded i job s" and run: "bindE (unlessE (jr_state job \<noteq> J_verified) x) (\<lambda>_.
         bindE (now options) (\<lambda>t.
         bindE (on_db (succeed (wo_services options) i (wo_worker options) t)) (\<lambda>_.
         bindE (metrics (recordOutcome ''verified'')) (\<lambda>_.
         returnE (Some W_verified))))) s = (Inr r, s')"
  from run obtain t s1 db' where st: "jr_state job = J_verified" "r = Some W_verified"
      and n: "now options s = (Inr t, s1)" and sc1: "succeed (wo_services options) i (wo_worker options) t (ws_db s1) = (Inr (), db')"
      and m: "metrics (recordOutcome ''verified'') (s1\<lparr>ws_db := db'\<rparr>) = (Inr (), s')"
    by (auto simp: on_db_Inr)
  have s1: "ws_db s1 = ws_db s" using n by (auto simp: now_def)
  have db': "ws_db s' = db'" using m by (auto simp: metrics_def)
  note sc = sc1[unfolded s1]
  have "load_job i db' = Inr (job, db')"
    by (rule keepsD[OF outbox_keeps_load(2)])
       (use l sc in \<open>simp_all only: loaded_def succeed_def transaction_Inr\<close>)
  thus "r = Some W_verified \<and> verified_and_done i s'"
    using st succeed_state[OF sc] unfolding verified_and_done_def db' by blast
qed

lemma process_claim_result:
  "ensures P (process_claim options cl) (\<lambda>r s. r = None \<or> (r = Some W_verified \<and> verified_and_done (oc_id cl) s))"
  unfolding process_claim_def
proof (rule ensures_bindE[OF readback_loaded(6)], rule ensures_bindE[where Q = "loaded (oc_id cl)"],
    rule ensures_if[OF readback_loaded(5) loaded_return], rule ensures_bindE[where Q = "loaded (oc_id cl)"],
    rule ensures_if[OF readback_loaded(4) loaded_return], rule ensures_bindE[where Q = "loaded (oc_id cl)"],
    rule ensures_if[OF ensures_bindE[OF submit_then_record_loaded set_job_loaded] loaded_return],
    rule ensures_bindE[where Q = "loaded (oc_id cl)"],
    rule ensures_if[OF ensures_bindE[OF ensures_any readback_loaded(3)] loaded_return],
    rule ensures_bindE[where Q = "\<lambda>r s. \<forall>job. r = Some job \<longrightarrow> loaded (oc_id cl) job s"],
    rule ensures_if[OF confirm_step_loaded])
  fix job :: VerusJobRecord
  show "ensures (loaded (oc_id cl) job) (returnE (Some job)) (\<lambda>r s. \<forall>job. r = Some job \<longrightarrow> loaded (oc_id cl) job s)"
    by (rule ensuresI) auto
next
  fix c :: "VerusJobRecord option"
  show "ensures (\<lambda>s. \<forall>job. c = Some job \<longrightarrow> loaded (oc_id cl) job s) (case c of
       None \<Rightarrow> returnE None
     | Some job \<Rightarrow>
         bindE (if jr_state job = J_readback then readback_step options cl job else returnE job) (\<lambda>job.
         bindE (unlessE (jr_state job \<noteq> J_verified) (VerusError RPC_INVALID_RESULT
            ''Verus job stopped in an invalid state'' False)) (\<lambda>_.
         bindE (now options) (\<lambda>t.
         bindE (on_db (succeed (wo_services options) (oc_id cl) (wo_worker options) t)) (\<lambda>_.
         bindE (metrics (recordOutcome ''verified'')) (\<lambda>_.
         returnE (Some W_verified))))))) (\<lambda>r s. r = None \<or> (r = Some W_verified \<and> verified_and_done (oc_id cl) s))"
  proof (cases c)
    case None
    thus ?thesis by (auto intro: ensuresI)
  next
    case (Some job)
    have "ensures (loaded (oc_id cl) job) (bindE (if jr_state job = J_readback then readback_step options cl job else returnE job) (\<lambda>job.
         bindE (unlessE (jr_state job \<noteq> J_verified) (VerusError RPC_INVALID_RESULT
            ''Verus job stopped in an invalid state'' False)) (\<lambda>_.
         bindE (now options) (\<lambda>t.
         bindE (on_db (succeed (wo_services options) (oc_id cl) (wo_worker options) t)) (\<lambda>_.
         bindE (metrics (recordOutcome ''verified'')) (\<lambda>_.
         returnE (Some W_verified))))))) (\<lambda>r s. r = Some W_verified \<and> verified_and_done (oc_id cl) s)"
      by (rule ensures_bindE[OF ensures_if[OF readback_step_loaded loaded_return] finish_verified])
    hence "ensures (\<lambda>s. \<forall>job'. Some job = Some job' \<longrightarrow> loaded (oc_id cl) job' s) (bindE (if jr_state job = J_readback then readback_step options cl job else returnE job) (\<lambda>job.
         bindE (unlessE (jr_state job \<noteq> J_verified) (VerusError RPC_INVALID_RESULT
            ''Verus job stopped in an invalid state'' False)) (\<lambda>_.
         bindE (now options) (\<lambda>t.
         bindE (on_db (succeed (wo_services options) (oc_id cl) (wo_worker options) t)) (\<lambda>_.
         bindE (metrics (recordOutcome ''verified'')) (\<lambda>_.
         returnE (Some W_verified))))))) (\<lambda>r s. r = None \<or> (r = Some W_verified \<and> verified_and_done (oc_id cl) s))"
      by (rule ensures_weaken) simp_all
    thus ?thesis unfolding Some option.case .
  qed
qed

lemma job_parts_outbox [frame_rules]:
  "untouched db_outbox (load_job i)" "untouched db_outbox (update_verus_job P f)"
  "untouched db_outbox (transitionAnchor i next ev t)"
  by (rule untouchedI; auto simp: load_job_Inr update_verus_job_Inr transitionAnchor_Inr split: if_splits)+

lemma markDeadLetter_outbox: "markDeadLetter sv i worker t cls db = (r, db') \<Longrightarrow> db_outbox db' = db_outbox db"
proof -
  assume "markDeadLetter sv i worker t cls db = (r, db')"
  moreover have "untouched db_outbox (markDeadLetter_body sv i worker t cls)"
    unfolding markDeadLetter_body_def by (intro frame_rules)
  ultimately show ?thesis
    by (auto simp: markDeadLetter_def transaction_eq split: sum.splits dest: untouchedD)
qed

definition outcome_recorded :: "string \<Rightarrow> VerusWorkerResult \<Rightarrow> 'n worker_state \<Rightarrow> bool" where
  "outcome_recorded i r s \<longleftrightarrow>
     (case r of W_verified \<Rightarrow> verified_and_done i s
      | W_terminal_failed \<Rightarrow> event_state (ws_db s) i = Some O_terminal_failed
      | W_dead_letter \<Rightarrow> event_state (ws_db s) i = Some O_dead_letter
      | W_retryable_failed \<Rightarrow> event_state (ws_db s) i = Some O_retryable_failed
      | W_reorg_pending \<Rightarrow> event_state (ws_db s) i = Some O_retryable_failed
      | W_paused \<Rightarrow> False | W_idle \<Rightarrow> False)"

lemma failOutboxRetryable_recorded:
  assumes "r0 \<in> {W_retryable_failed, W_reorg_pending}"
  shows "ensures P (failOutboxRetryable options i cls r0) (outcome_recorded i)"
proof (rule ensuresI)
  fix s r s' assume "failOutboxRetryable options i cls r0 s = (Inr r, s')"
  then obtain t s1 st db1 where f: "failRetryable (wo_services options) i (wo_worker options) t
        \<lparr>rf_errorClass = cls, rf_maxAttempts = rs_maxAttempts (retry options),
         rf_baseBackoffMs = rs_baseBackoffMs (retry options), rf_maxBackoffMs = rs_maxBackoffMs (retry options)\<rparr> (ws_db s1) = (Inr st, db1)"
    and rest: "(if st = O_dead_letter
     then bindE (now options) (\<lambda>t.
          bindE (on_db (markDeadLetter (wo_services options) i (wo_worker options) t cls)) (\<lambda>_.
          bindE (metrics (recordOutcome ''dead_letter'')) (\<lambda>_.
          returnE W_dead_letter)))
     else bindE (metrics (recordOutcome ''retryable_failed'')) (\<lambda>_.
          returnE r0)) (s1\<lparr>ws_db := db1\<rparr>) = (Inr r, s')"
    unfolding failOutboxRetryable_def by (auto simp only: bindE_Inr on_db_Inr)
  note st = failRetryable_state[OF f]
  show "outcome_recorded i r s'"
  proof (cases "st = O_dead_letter")
    case True
    from rest[unfolded if_P[OF True]] obtain t2 s2 y db2 where n: "now options (s1\<lparr>ws_db := db1\<rparr>) = (Inr t2, s2)"
      and m: "markDeadLetter (wo_services options) i (wo_worker options) t2 cls (ws_db s2) = (Inr y, db2)"
      and e: "metrics (recordOutcome ''dead_letter'') (s2\<lparr>ws_db := db2\<rparr>) = (Inr (), s')" "r = W_dead_letter"
      by (auto simp: on_db_Inr)
    have "db_outbox (ws_db s') = db_outbox db1"
      using n markDeadLetter_outbox[OF m] e(1) by (auto simp: now_def metrics_def)
    thus ?thesis using st(1) True e(2) by (simp add: outcome_recorded_def event_state_def)
  next
    case False
    hence "ws_db s' = db1" "r = r0" using rest by (auto simp: metrics_def)
    thus ?thesis using st False assms by (auto simp: outcome_recorded_def)
  qed
qed

lemma handleFailure_recorded: "ensures P (handleFailure options i state e) (outcome_recorded i)"
proof (cases "ve_retryable e")
  case True
  show ?thesis unfolding handleFailure_def if_P[OF True]
    by (intro ensures_bindE[OF ensures_any] failOutboxRetryable_recorded) simp
next
  case False
  show ?thesis unfolding handleFailure_def if_not_P[OF False]
  proof (rule ensures_bindE[OF ensures_any], rule ensures_bindE[OF ensures_any], rule ensures_bindE[OF ensures_any], rule ensures_bindE[OF ensures_any], rule ensures_bindE[OF ensures_any])
    fix t :: time
    show "ensures (\<lambda>_. True) (bindE (on_db (failTerminal (wo_services options) i (wo_worker options) t (errorClass_of e))) (\<lambda>_.
          bindE (metrics (recordOutcome ''terminal_failed'')) (\<lambda>_.
          returnE W_terminal_failed))) (outcome_recorded i)"
      by (rule ensuresI)
         (auto simp: on_db_Inr metrics_def outcome_recorded_def dest: failTerminal_state)
  qed
qed

lemma process_claimed_recorded: "ensures P (process_claimed options cl) (outcome_recorded (oc_id cl))"
  unfolding process_claimed_def
proof (rule ensures_bindE[OF ensures_any], rule ensures_bindE[OF ensures_any], rule ensures_bindE[OF ensures_any], rule ensures_bindE[OF ensures_any], rule ensures_bindE[OF ensures_any],
    rule ensures_bindE[where Q = "\<lambda>r s. \<forall>x. r = Some x \<longrightarrow> outcome_recorded (oc_id cl) x s"])
  show "ensures (\<lambda>_. True) (catchE (process_claim options cl) (on_failure options cl))
      (\<lambda>r s. \<forall>x. r = Some x \<longrightarrow> outcome_recorded (oc_id cl) x s)"
  proof (rule ensuresI, intro allI impI)
    fix s r s' x assume run: "catchE (process_claim options cl) (on_failure options cl) s = (Inr r, s')" "r = Some x"
    obtain a s1 where p: "process_claim options cl s = (a, s1)" by (rule prod.exhaust)
    show "outcome_recorded (oc_id cl) x s'"
    proof (cases a)
      case (Inr b)
      hence "process_claim options cl s = (Inr (Some x), s')" using p run by (simp add: catchE_def)
      thus ?thesis using ensuresD[OF process_claim_result[of "\<lambda>_. True"]] by (fastforce simp: outcome_recorded_def)
    next
      case (Inl e)
      hence f: "on_failure options cl e s1 = (Inr (Some x), s')" using p run by (simp add: catchE_def)
      then obtain job v where j: "ws_job s1 = Some job" "e = IntegrationError v"
        by (auto simp: on_failure_def split: option.splits worker_error.splits)
      hence "handleFailure options (oc_id cl) (jr_state job) v s1 = (Inr x, s')" using f by (simp add: on_failure_def)
      thus ?thesis using ensuresD[OF handleFailure_recorded[of "\<lambda>_. True"]] by blast
    qed
  qed
next
  fix c :: "VerusWorkerResult option"
  show "ensures (\<lambda>s. \<forall>x. c = Some x \<longrightarrow> outcome_recorded (oc_id cl) x s) (case c of
             Some r \<Rightarrow> returnE r
           | None \<Rightarrow> failOutboxRetryable options (oc_id cl) ''reorg_detected'' W_reorg_pending) (outcome_recorded (oc_id cl))"
  proof (cases c)
    case None
    have "ensures (\<lambda>_. True) (failOutboxRetryable options (oc_id cl) ''reorg_detected'' W_reorg_pending) (outcome_recorded (oc_id cl))"
      by (rule failOutboxRetryable_recorded) simp
    thus ?thesis using None by simp
  next
    case (Some r)
    thus ?thesis by (auto intro: ensuresI)
  qed
qed

lemma claimNext_idle:
  assumes "claimNext sv worker t d options db = (Inr None, db')" "validateEventTypes (co_eventTypes options) = Inr types"
  shows "\<forall>q \<in> set (db_outbox db). \<not> claimable t types (co_singleWriterByAggregate options) (db_outbox db) q"
proof -
  have "\<exists>k. claimNext_body sv worker t k types (co_singleWriterByAggregate options) db = Inr (None, db')"
    using assms by (auto simp: claimNext_def transaction_Inr split: sum.splits if_splits)
  then obtain k where "claimNext_body sv worker t k types (co_singleWriterByAggregate options) db = Inr (None, db')" by blast
  from claimNext_None(2)[OF this] show ?thesis by (simp only: claim_candidate_None)
qed

lemma bookkeeping_db:
  "ensures (\<lambda>u. ws_db u = db) (refreshQueueMetrics options) (\<lambda>_ u. ws_db u = db)"
  "ensures (\<lambda>u. ws_db u = db) (metrics f) (\<lambda>_ u. ws_db u = db)"
  "ensures (\<lambda>u. ws_db u = db) (now options) (\<lambda>_ u. ws_db u = db)"
  by (auto intro!: ensuresI simp: refreshQueueMetrics_def now_def metrics_def worker_queueStats_def)

text \<open>
  The result of a run tells what is in the database.  When a run returns, then it was paused because
  writes are disabled; or idle because no anchor event could be claimed; or there is an event of which
  the result is true: after verified, the event has succeeded and its job is verified; after
  terminal_failed and dead_letter the event is in that final state; after retryable_failed and
  reorg_pending it waits for another attempt.  A run never ends silently with the event still claimed.
\<close>

theorem worker_result_is_recorded:
  assumes "processNext options s = (Inr r, s')"
  shows "(r = W_paused \<and> \<not> wo_writeCapabilityEnabled options)
     \<or> (r = W_idle \<and> (\<exists>t. \<forall>q \<in> set (db_outbox (ws_db s)).
           \<not> claimable t (Some [VERUS_ANCHOR_EVENT_TYPE]) True (db_outbox (ws_db s)) q))
     \<or> (\<exists>i. outcome_recorded i r s')"
proof (cases "wo_writeCapabilityEnabled options")
  case False
  thus ?thesis using paused_run[OF False, of s] assms by simp
next
  case True
  define idle where "idle r \<longleftrightarrow> r = W_idle \<and> (\<exists>t. \<forall>q \<in> set (db_outbox (ws_db s)).
      \<not> claimable t (Some [VERUS_ANCHOR_EVENT_TYPE]) True (db_outbox (ws_db s)) q)" for r
  have "ensures (\<lambda>u. ws_db u = ws_db s) (processNext options) (\<lambda>r s'. idle r \<or> (\<exists>i. outcome_recorded i r s'))"
    unfolding processNext_def if_not_P[of "\<not> _", unfolded not_not, OF True]
  proof (rule ensures_bindE[OF bookkeeping_db(1)], rule ensures_bindE[OF bookkeeping_db(2)], rule ensures_bindE[OF bookkeeping_db(3)],
      rule ensures_bindE[where Q = "\<lambda>c u. c = None \<longrightarrow> idle W_idle"])
    fix t
    show "ensures (\<lambda>u. ws_db u = ws_db s) (on_db (claimNext (wo_services options) (wo_worker options) t (leaseDurationMs options)
          \<lparr>co_eventTypes = Some [VERUS_ANCHOR_EVENT_TYPE], co_singleWriterByAggregate = True\<rparr>)) (\<lambda>c u. c = None \<longrightarrow> idle W_idle)"
    proof (rule ensuresI, rule impI)
      fix u c u' assume db: "ws_db u = ws_db s" and c: "c = None" and "on_db (claimNext (wo_services options) (wo_worker options) t
          (leaseDurationMs options) \<lparr>co_eventTypes = Some [VERUS_ANCHOR_EVENT_TYPE], co_singleWriterByAggregate = True\<rparr>) u = (Inr c, u')"
      then obtain db' where "claimNext (wo_services options) (wo_worker options) t (leaseDurationMs options)
          \<lparr>co_eventTypes = Some [VERUS_ANCHOR_EVENT_TYPE], co_singleWriterByAggregate = True\<rparr> (ws_db s) = (Inr None, db')"
        by (auto simp: on_db_Inr)
      from claimNext_idle[OF this] show "idle W_idle" unfolding idle_def by (auto simp: anchor_filter intro!: exI[of _ t])
    qed
    fix c :: "OutboxClaim option"
    show "ensures (\<lambda>u. c = None \<longrightarrow> idle W_idle) (case c of None \<Rightarrow> returnE W_idle | Some cl \<Rightarrow> process_claimed options cl)
        (\<lambda>r s'. idle r \<or> (\<exists>i. outcome_recorded i r s'))"
    proof (cases c)
      case (Some cl)
      show ?thesis unfolding Some option.case
        by (rule ensures_weaken[OF process_claimed_recorded[of "\<lambda>_. True"]]) auto
    qed (auto intro: ensuresI)
  qed
  hence "idle r \<or> (\<exists>i. outcome_recorded i r s')" using assms unfolding ensures_def by blast
  thus ?thesis unfolding idle_def by blast
qed

section \<open>A worker for the examples\<close>

definition sample_target :: ApprovedVerusWriteTarget where
  "sample_target = \<lparr>wt_operationType = ''anchor.manifest'', wt_targetIdentity = ''iTargetTargetTargetTarget'',
     wt_vdxfUri = ''vrsctest::x'', wt_vdxfKey = ''iKeyKeyKeyKeyKeyKeyKeyKey'', wt_manifestPolicyReference = ''policy:v1''\<rparr>"

definition sample_options :: "ApprovedVerusWriteTarget list \<Rightarrow> bool \<Rightarrow> sample_node VerusAnchorWorkerOptions" where
  "sample_options targets enabled = \<lparr>wo_adapter = sample_adapter, wo_worker = worker_a, wo_writeCapabilityEnabled = enabled,
     wo_approvedWriteTargets = targets, wo_leaseDurationMs = None, wo_retry = None, wo_now = (\<lambda>n. int n),
     wo_services = digest_services, wo_num_str = sample_num_str, wo_parse = sample_parse\<rparr>"

definition sample_worker_state :: "database \<Rightarrow> sample_node worker_state" where
  "sample_worker_state db = \<lparr>ws_db = db, ws_node = fresh_node, ws_metrics = initial_metrics, ws_job = None, ws_ticks = 0\<rparr>"



theorem paused_worker_is_inert_witness:
  "fst (processNext (sample_options [sample_target] False) (sample_worker_state enqueued_job)) = Inr W_paused"
  using paused_worker_is_inert[of "sample_options [sample_target] False"] by (simp add: sample_options_def)

theorem worker_result_is_recorded_witness:
  "\<exists>s' t. processNext (sample_options [sample_target] True) (sample_worker_state empty_database) = (Inr W_idle, s')
     \<and> (\<forall>q \<in> set (db_outbox empty_database). \<not> claimable t (Some [VERUS_ANCHOR_EVENT_TYPE]) True (db_outbox empty_database) q)"
proof -
  have "fst (processNext (sample_options [sample_target] True) (sample_worker_state empty_database)) = Inr W_idle"
    by code_simp
  then obtain s' where run: "processNext (sample_options [sample_target] True) (sample_worker_state empty_database) = (Inr W_idle, s')"
    by (metis prod.collapse)
  from worker_result_is_recorded[OF this] have "\<exists>t. \<forall>q \<in> set (db_outbox empty_database).
      \<not> claimable t (Some [VERUS_ANCHOR_EVENT_TYPE]) True (db_outbox empty_database) q"
    by (auto simp: outcome_recorded_def sample_worker_state_def)
  thus ?thesis using run by blast
qed

end
