(* ===== verification/Resubmission.thy ===== *)
theory Resubmission
  imports Worker_Properties
begin

text \<open>
  The mark of an unresolved submission: which operations set and clear it, and what the worker does
  with a job that has it and with a job that has lost it.
\<close>

section \<open>The record after an operation\<close>

lemma job_operation_record:
  assumes load: "load_job i db = Inr (prior, db)" and run: "job_operation sv c x i worker t db = (Inr after, db')"
  shows "jr_submissionAmbiguous after = (case te_submissionAmbiguous (command_evidence c x t) of Some b \<Rightarrow> b
       | None \<Rightarrow> jr_submissionAmbiguous prior)"
    and "te_transactionId (command_evidence c x t) = None \<Longrightarrow> jr_transactionId after = jr_transactionId prior"
    and "jr_vdxfKey after = jr_vdxfKey prior"
proof -
  let ?amb = "case te_submissionAmbiguous (command_evidence c x t) of Some b \<Rightarrow> b | None \<Rightarrow> jr_submissionAmbiguous prior"
  let ?f = "evidence_update (verus_job_target c) (command_evidence c x t) ?amb t"
  have body: "job_transition_body sv i worker t (verus_job_expected c) (verus_job_target c)
      (command_evidence c x t) (command_sync c) db = Inr (after, db')"
    using run by (auto simp: job_operation_transition job_transition_def transaction_Inr split: sum.splits)
  obtain j where j: "job_of db i = Some j" "toRecord j (committee_reference db (vj_committee_id j)) = Inr prior"
    using load by (auto simp: load_job_Inr)
  have "\<exists>k cref. k = ?f j \<and> toRecord k cref = Inr after"
  proof (rule job_transition_steps[OF body])
    fix b :: VerusJobRecord and db1 db2 db3 h
    assume b: "load_job i db = Inr (b, db)"
      and upd: "update_verus_job (\<lambda>r. vj_outbox_event_id r = i \<and> vj_version r = jr_version b)
         (evidence_update (verus_job_target c) (command_evidence c x t)
           (case te_submissionAmbiguous (command_evidence c x t) of Some b \<Rightarrow> b | None \<Rightarrow> jr_submissionAmbiguous b) t) db = Inr (1, db1)"
      and anc: "(if command_sync c then transitionAnchor i (verus_job_target c) (command_evidence c x t) t else returnT ()) db1 = Inr ((), db2)"
      and aud: "appendAudit sv (workerContext worker b (verus_job_target c)) (job_committeeId i db2)
         (''transitionVerusJob:'' @ verus_job_state_name (verus_job_target c))
         \<lparr>tg_type = ''verus_job'', tg_reference = jr_id b, tg_priorState = Some (verus_job_state_name (jr_state b)),
          tg_newState = Some (verus_job_state_name (verus_job_target c))\<rparr>
         (if suffix ''failed'' (verus_job_state_name (verus_job_target c)) then ''failed'' else ''succeeded'') db2 = Inr (h, db3)"
      and after: "load_job i db3 = Inr (after, db')"
    have b': "b = prior" using b load by simp
    let ?P = "\<lambda>r. vj_outbox_event_id r = i \<and> vj_version r = jr_version prior"
    note an = anc[unfolded sync_anchor_Inr]
    have jobs: "db_jobs db3 = update_where ?P ?f (db_jobs db)" "db_outbox db3 = db_outbox db"
      using upd an untouchedD[OF appendAudit_frame(13) aud] untouchedD[OF appendAudit_frame(11) aud]
      unfolding b' update_verus_job_Inr by auto
    have ev: "job_event db3 r = job_event db r" for r using jobs(2) by (simp add: job_event_def)
    have keep: "job_event db (?f r) = job_event db r" "vj_outbox_event_id (?f r) = vj_outbox_event_id r" for r
      by (simp_all add: evidence_update_def job_event_def)
    have "job_of db3 i =
        (case job_of db i of None \<Rightarrow> None | Some r \<Rightarrow> Some (if ?P r then ?f r else r))"
      unfolding job_of_def jobs ev by (rule select_where_update_where) (use keep in simp)
    hence "job_of db3 i = Some (?f j)" using j toRecord_Inr(2)[OF j(2)] job_of_SomeD(2)[OF j(1)] by simp
    thus ?thesis using after by (auto simp: load_job_Inr)
  qed
  then obtain cref where k: "toRecord (?f j) cref = Inr after" by blast
  note r = toRecord_Inr[OF k] and r0 = toRecord_Inr[OF j(2)]
  show "jr_submissionAmbiguous after = ?amb" using r(4) by (simp add: evidence_update_def)
  show "jr_vdxfKey after = jr_vdxfKey prior" using r(8) r0(8) by (simp add: evidence_update_def)
  show "te_transactionId (command_evidence c x t) = None \<Longrightarrow> jr_transactionId after = jr_transactionId prior"
    using r(10) r0(10) by (simp add: evidence_update_def coalesce_def)
qed

section \<open>Resubmission\<close>


text \<open>
  C37. An ordinary failure clears the mark, and the next attempt submits again.  When the preflight of a
  marked job fails for another reason, recording that failure with the default for the ambiguity
  argument leaves a job that is neither marked nor has a transaction id; and for such a job the
  submitting part of a run sends the identity update without looking for the earlier one.
\<close>

theorem later_failure_loses_the_mark:
  assumes "load_job i db = Inr (prior, db)" "jr_submissionAmbiguous prior" "jr_transactionId prior = None"
    and "retryableFailure sv i worker t errorClass False db = (Inr after, db')"
    and "prepareIdentityContentUpdate (ir_identity identity) (jr_vdxfKey prior) payload = Inr u"
  shows "\<not> jr_submissionAmbiguous after \<and> jr_transactionId after = None
     \<and> submit options after payload identity s = on_node (updateIdentity (wo_adapter options) u) s"
proof -
  let ?x = "\<lparr>ja_transactionId = [], ja_blockHeight = num 0, ja_blockHash = [], ja_digest = [],
      ja_errorClass = errorClass, ja_ambiguous = False\<rparr>"
  have "job_operation sv RecordRetryableVerusFailure ?x i worker t db = (Inr after, db')" using assms(4) by simp
  note r = job_operation_record[OF assms(1) this]
  have a: "\<not> jr_submissionAmbiguous after" "jr_transactionId after = None" "jr_vdxfKey after = jr_vdxfKey prior"
    using r assms(3) by (simp_all add: noEvidence_def)
  thus ?thesis using assms(5)
    by (simp add: submit_def bindE_def returnE_def liftE_def)
qed

section \<open>A marked job for the examples\<close>

definition marked_job :: database where
  "marked_job = empty_database\<lparr>
     db_outbox := [\<lparr>ob_id = ''e'', ob_committee_id = None, ob_event_type = VERUS_ANCHOR_EVENT_TYPE,
       ob_aggregate_type = ''verus_identity'', ob_aggregate_reference = ''i'', ob_schema_version = ''v1'',
       ob_payload_reference = ''p'', ob_payload_digest = ''d'', ob_idempotency_key_hash = ''k'', ob_state = O_claimed,
       ob_available_at = 0, ob_lease_owner = Some ''worker-a'', ob_lease_acquired_at = Some 0,
       ob_lease_expires_at = Some 10, ob_attempt_count = 2, ob_last_error_class = None, ob_created_at = 0,
       ob_completed_at = None\<rparr>],
     db_jobs := [\<lparr>vj_id = ''j'', vj_outbox_event_id = ''e'', vj_committee_id = None, vj_chain_id = VRSCTEST_CHAIN_ID,
       vj_operation_type = ''anchor.manifest'', vj_subject_reference = ''s'', vj_target_identity = Some ''iTarget'',
       vj_vdxf_uri = Some ''u'', vj_vdxf_key = ''iKeyKeyKeyKeyKeyKeyKeyKey'', vj_manifest_json = Some (JObj []),
       vj_manifest_canonical = Some ''c'', vj_manifest_digest = ''d'', vj_manifest_policy_reference = Some ''p'',
       vj_manifest_allowed_fields = [], vj_manifest_required_fields = [], vj_manifest_maximum_bytes = Some 9,
       vj_confirmation_requirement = 2, vj_state = J_preflight, vj_transaction_id = None, vj_block_height = None,
       vj_block_hash = None, vj_readback_digest = None, vj_submission_ambiguous = True, vj_last_error_class = None,
       vj_submitted_at = None, vj_confirmed_at = None, vj_readback_at = None, vj_reorg_detected_at = None,
       vj_version = 6, vj_created_at = 0, vj_updated_at = 0\<rparr>],
     db_anchors := [\<lparr>an_id = ''a'', an_external_reference = ''r'', an_committee_id = None, an_outbox_event_id = ''e'',
       an_chain_id = VRSCTEST_CHAIN_ID, an_anchor_type = ''anchor.manifest'', an_subject_reference = ''s'',
       an_vdxf_key = ''iKeyKeyKeyKeyKeyKeyKeyKey'', an_manifest_digest = ''d'', an_state = J_retryable_failed,
       an_transaction_id = None, an_block_height = None, an_block_hash = None, an_readback_digest = None,
       an_version = 2, an_updated_at = 0\<rparr>]\<rparr>"

lemma marked_job_loads:
  obtains job where "load_job ''e'' marked_job = Inr (job, marked_job)" "jr_submissionAmbiguous job"
    "jr_transactionId job = None" "is_i_address (jr_vdxfKey job)"
proof -
  have "case load_job ''e'' marked_job of Inl e \<Rightarrow> False | Inr (job, db) \<Rightarrow>
      jr_submissionAmbiguous job \<and> jr_transactionId job = None \<and> is_i_address (jr_vdxfKey job)" by code_simp
  thus ?thesis using that by (auto simp: load_job_Inr split: sum.splits)
qed


theorem later_failure_loses_the_mark_witness:
  "\<exists>after db'. retryableFailure digest_services ''e'' worker_a 5 ''node_unsynced'' False marked_job = (Inr after, db')
     \<and> \<not> jr_submissionAmbiguous after \<and> jr_transactionId after = None"
proof (rule marked_job_loads)
  fix job assume job: "load_job ''e'' marked_job = Inr (job, marked_job)" "jr_submissionAmbiguous job"
    "jr_transactionId job = None" "is_i_address (jr_vdxfKey job)"
  have "\<not> isl (fst (retryableFailure digest_services ''e'' worker_a 5 ''node_unsynced'' False marked_job))" by code_simp
  then obtain after db' where run: "retryableFailure digest_services ''e'' worker_a 5 ''node_unsynced'' False marked_job = (Inr after, db')"
    by (rule effect_result)
  let ?p = "\<lparr>pl_value = [], pl_bytes = [], pl_digest = [], pl_policyReference = []\<rparr>"
  obtain u where "prepareIdentityContentUpdate (ir_identity (sample_identity fresh_node)) (jr_vdxfKey job) ?p = Inr u"
    using job(4) by (simp add: prepareIdentityContentUpdate_def)
  from later_failure_loses_the_mark[OF job(1,2,3) run this] run show ?thesis by blast
qed

end
