(* ===== verification/Idempotency.thy ===== *)
theory Idempotency
  imports Repository
begin

text \<open>
  The idempotency records that the verification, attestation and lifecycle repositories share: each of
  the three classes has the same private methods beginIdempotency and completeIdempotency, and the
  first two the same committeeId.  A key is remembered once its command completed; the lemmas here are
  what a repeated call relies on.
\<close>

section \<open>Operations\<close>

record IdempotencyResult =
  ix_id :: string
  ix_replayed :: bool
  ix_resultReference :: "string option"
  ix_resultState :: "string option"
  ix_resultVersion :: "int option"

definition has_key :: "string \<Rightarrow> string \<Rightarrow> idempotency_row \<Rightarrow> bool" where
  "has_key scope keyHash r \<longleftrightarrow> ir_scope r = scope \<and> ir_key_hash r = keyHash"

definition started_row ::
  "services \<Rightarrow> string \<Rightarrow> string \<Rightarrow> string option \<Rightarrow> string \<Rightarrow> CommandContext \<Rightarrow> idempotency_row" where
  "started_row sv key scope committeeId command context =
     \<lparr>ir_id = key, ir_scope = scope, ir_key_hash = sha256 sv (cx_idempotencyKey context),
      ir_request_digest = cx_requestDigest context, ir_command = command,
      ir_actor_type = ca_type (cx_actor context), ir_actor_reference = ca_reference (cx_actor context),
      ir_committee_id = committeeId, ir_completed = False, ir_result_digest = None,
      ir_result_reference = None, ir_result_version = None, ir_result_state = None\<rparr>"

definition refuses :: "string option \<Rightarrow> string \<Rightarrow> CommandContext \<Rightarrow> idempotency_row \<Rightarrow> bool" where
  "refuses committeeId command context row \<longleftrightarrow>
     ir_request_digest row \<noteq> cx_requestDigest context \<or> ir_command row \<noteq> command
     \<or> ir_committee_id row \<noteq> committeeId \<or> \<not> ir_completed row
     \<or> \<not> truthy (ir_result_reference row) \<or> \<not> truthy (ir_result_state row)
     \<or> ir_result_version row = None \<or> ir_result_version row = Some 0"

text \<open>The insert does nothing when the scope and key are taken; a taken identifier is an error.\<close>

definition beginIdempotency_in ::
  "services \<Rightarrow> string \<Rightarrow> string option \<Rightarrow> string \<Rightarrow> CommandContext \<Rightarrow> IdempotencyResult tx" where
  "beginIdempotency_in sv scope committeeId command context =
     bindT (newId sv) (\<lambda>key.
     bindT (readT (\<lambda>db. select_where (has_key scope (sha256 sv (cx_idempotencyKey context))) (db_idempotency db))) (\<lambda>existing.
     case existing of
       None \<Rightarrow>
         bindT (readT db_idempotency) (\<lambda>rows.
         bindT (liftT (insert_unique (\<lambda>r. ir_id r = key)
           (started_row sv key scope committeeId command context) rows)) (\<lambda>rows'.
         bindT (writeT (\<lambda>db. db\<lparr>db_idempotency := rows'\<rparr>)) (\<lambda>_.
         returnT \<lparr>ix_id = key, ix_replayed = False, ix_resultReference = None, ix_resultState = None,
                  ix_resultVersion = None\<rparr>)))
     | Some row \<Rightarrow>
         if refuses committeeId command context row then throwT IdempotencyConflictError
         else returnT \<lparr>ix_id = ir_id row, ix_replayed = True,
                ix_resultReference = ir_result_reference row, ix_resultState = ir_result_state row,
                ix_resultVersion = ir_result_version row\<rparr>))"

definition beginIdempotency :: "services \<Rightarrow> string \<Rightarrow> string \<Rightarrow> CommandContext \<Rightarrow> IdempotencyResult tx" where
  "beginIdempotency sv committeeId command context =
     beginIdempotency_in sv (''committee:'' @ cx_committeeReference context) (Some committeeId) command context"

definition completeIdempotency :: "services \<Rightarrow> string \<Rightarrow> string \<Rightarrow> int \<Rightarrow> string \<Rightarrow> unit tx" where
  "completeIdempotency sv key reference version state =
     writeT (\<lambda>db. db\<lparr>db_idempotency := update_where (\<lambda>r. ir_id r = key \<and> \<not> ir_completed r)
       (\<lambda>r. r\<lparr>ir_completed := True,
             ir_result_digest := Some (sha256 sv (reference @ ''|'' @ int_to_string version @ ''|'' @ state)),
             ir_result_reference := Some reference, ir_result_version := Some version,
             ir_result_state := Some state\<rparr>) (db_idempotency db)\<rparr>)"

definition committeeId :: "string \<Rightarrow> string tx" where
  "committeeId committeeReference =
     bindT (liftT (requireOpaqueReference committeeReference ''committee reference'')) (\<lambda>_.
     bindT (readT (\<lambda>db. select_where (\<lambda>c. cm_external_reference c = committeeReference) (db_committees db))) (\<lambda>found.
     case found of None \<Rightarrow> throwT TenantBoundaryError | Some c \<Rightarrow> returnT (cm_id c)))"

section \<open>What they touch\<close>

lemma idempotency_audit_ok [keeps_rules]:
  "keeps (audit_ok sv) (beginIdempotency_in sv' scope cid command context)"
  "keeps (audit_ok sv) (completeIdempotency sv' key reference version state)"
  unfolding beginIdempotency_in_def completeIdempotency_def
  by (intro keeps_rules keepsI, auto simp: audit_ok_other)+

lemma idempotency_frame [frame_rules]:
  "untouched db_committees (beginIdempotency_in sv scope cid command context)"
  "untouched db_participants (beginIdempotency_in sv scope cid command context)"
  "untouched db_members (beginIdempotency_in sv scope cid command context)"
  "untouched db_conflicts (beginIdempotency_in sv scope cid command context)"
  "untouched db_requests (beginIdempotency_in sv scope cid command context)"
  "untouched db_decisions (beginIdempotency_in sv scope cid command context)"
  "untouched db_attestations (beginIdempotency_in sv scope cid command context)"
  "untouched db_statuses (beginIdempotency_in sv scope cid command context)"
  "untouched db_revocations (beginIdempotency_in sv scope cid command context)"
  "untouched db_outbox (beginIdempotency_in sv scope cid command context)"
  "untouched db_audit (beginIdempotency_in sv scope cid command context)"
  "untouched db_policies (beginIdempotency_in sv scope cid command context)" "untouched db_lifecycles (beginIdempotency_in sv scope cid command context)"
  "untouched db_artifacts (beginIdempotency_in sv scope cid command context)"
  "untouched db_committees (completeIdempotency sv key reference version state)"
  "untouched db_participants (completeIdempotency sv key reference version state)"
  "untouched db_members (completeIdempotency sv key reference version state)"
  "untouched db_conflicts (completeIdempotency sv key reference version state)"
  "untouched db_requests (completeIdempotency sv key reference version state)"
  "untouched db_decisions (completeIdempotency sv key reference version state)"
  "untouched db_attestations (completeIdempotency sv key reference version state)"
  "untouched db_statuses (completeIdempotency sv key reference version state)"
  "untouched db_revocations (completeIdempotency sv key reference version state)"
  "untouched db_outbox (completeIdempotency sv key reference version state)"
  "untouched db_audit (completeIdempotency sv key reference version state)"
  "untouched db_policies (completeIdempotency sv key reference version state)" "untouched db_lifecycles (completeIdempotency sv key reference version state)"
  "untouched db_artifacts (completeIdempotency sv key reference version state)"
  unfolding beginIdempotency_in_def completeIdempotency_def
  by (intro frame_rules untouched_writeT; simp)+

lemma committeeId_Inr:
  "committeeId ref db = Inr (cid, db') \<longleftrightarrow>
     db' = db \<and> is_opaque_reference ref
     \<and> (\<exists>c. select_where (\<lambda>c. cm_external_reference c = ref) (db_committees db) = Some c \<and> cm_id c = cid)"
  by (auto simp: committeeId_def split: option.splits)

section \<open>Remembered keys\<close>

text \<open>The row that answers a repeated command.\<close>

definition remembers ::
  "string \<Rightarrow> string \<Rightarrow> string \<Rightarrow> string \<Rightarrow> string option \<Rightarrow> string \<Rightarrow> string \<Rightarrow> int \<Rightarrow> database \<Rightarrow> bool" where
  "remembers scope keyHash digest command cid reference state version db \<longleftrightarrow>
     (\<exists>row. select_where (has_key scope keyHash) (db_idempotency db) = Some row \<and> ir_completed row
        \<and> ir_request_digest row = digest \<and> ir_command row = command \<and> ir_committee_id row = cid
        \<and> ir_result_reference row = Some reference \<and> ir_result_state row = Some state
        \<and> ir_result_version row = Some version)"

lemma beginIdempotency_in_Inr:
  assumes "beginIdempotency_in sv scope cid command context db = Inr (x, db1)"
  obtains (started) "\<not> ix_replayed x" "ix_id x = sv_uuid sv (db_ids db)"
      "\<forall>r \<in> set (db_idempotency db). ir_id r \<noteq> ix_id x"
      "select_where (has_key scope (sha256 sv (cx_idempotencyKey context))) (db_idempotency db) = None"
      "db1 = db\<lparr>db_ids := Suc (db_ids db),
         db_idempotency := db_idempotency db @ [started_row sv (ix_id x) scope cid command context]\<rparr>"
    | (replayed) row where "ix_replayed x" "\<not> refuses cid command context row"
      "select_where (has_key scope (sha256 sv (cx_idempotencyKey context))) (db_idempotency db) = Some row"
      "ix_resultReference x = ir_result_reference row" "ix_resultState x = ir_result_state row"
      "ix_resultVersion x = ir_result_version row" "db1 = db\<lparr>db_ids := Suc (db_ids db)\<rparr>"
proof -
  define db0 where "db0 = db\<lparr>db_ids := Suc (db_ids db)\<rparr>"
  show ?thesis
  proof (cases "select_where (has_key scope (sha256 sv (cx_idempotencyKey context))) (db_idempotency db)")
    case None
    thus ?thesis using assms started by (auto simp: beginIdempotency_in_def newId_def)
  next
    case (Some row)
    thus ?thesis using assms replayed by (auto simp: beginIdempotency_in_def newId_def split: if_splits)
  qed
qed

lemma begin_complete_remembers:
  assumes "beginIdempotency_in sv scope cid command context db = Inr (x, db1)" "\<not> ix_replayed x"
    and "db_idempotency db2 = db_idempotency db1"
    and "completeIdempotency sv (ix_id x) reference version state db2 = Inr (u, db3)"
  shows "remembers scope (sha256 sv (cx_idempotencyKey context)) (cx_requestDigest context) command cid reference state version db3"
  using assms(1)
proof (cases rule: beginIdempotency_in_Inr)
  case started
  let ?f = "\<lambda>r. r\<lparr>ir_completed := True,
      ir_result_digest := Some (sha256 sv (reference @ ''|'' @ int_to_string version @ ''|'' @ state)),
      ir_result_reference := Some reference, ir_result_version := Some version, ir_result_state := Some state\<rparr>"
  let ?new = "started_row sv (ix_id x) scope cid command context"
  have "update_where (\<lambda>r. ir_id r = ix_id x \<and> \<not> ir_completed r) ?f (db_idempotency db) = db_idempotency db"
    using started(3) by (intro update_where_none) auto
  hence rows: "db_idempotency db3 = db_idempotency db @ [?f ?new]"
    using assms(3,4) started(5) by (simp add: completeIdempotency_def update_where_append started_row_def)
  show ?thesis
    unfolding remembers_def rows using started(4)
    by (simp add: select_where_append started_row_def has_key_def)
qed (use assms(2) in simp)

text \<open>A remembered key answers the same command and refuses every other one; it is kept.\<close>

lemma remembered_replays:
  assumes "remembers scope (sha256 sv (cx_idempotencyKey context)) (cx_requestDigest context) command cid reference state version db"
    and "reference \<noteq> []" "state \<noteq> []" "version \<noteq> 0"
  shows "\<exists>key. beginIdempotency_in sv scope cid command context db =
    Inr (\<lparr>ix_id = key, ix_replayed = True, ix_resultReference = Some reference, ix_resultState = Some state,
          ix_resultVersion = Some version\<rparr>, db\<lparr>db_ids := Suc (db_ids db)\<rparr>)"
  using assms by (auto simp: remembers_def beginIdempotency_in_def newId_def refuses_def body_defs)

lemma remembered_refuses:
  assumes "remembers scope (sha256 sv (cx_idempotencyKey context)) digest command' cid' reference state version db"
    and "digest \<noteq> cx_requestDigest context \<or> command' \<noteq> command"
  shows "beginIdempotency_in sv scope cid command context db = Inl IdempotencyConflictError"
  using assms by (auto simp: remembers_def beginIdempotency_in_def newId_def refuses_def body_defs)

lemma remembers_kept [keeps_rules]:
  "keeps (remembers scope kh digest command cid reference state version) (beginIdempotency_in sv scope' cid' command' context)"
  "keeps (remembers scope kh digest command cid reference state version) (completeIdempotency sv key reference' version' state')"
proof -
  show "keeps (remembers scope kh digest command cid reference state version) (beginIdempotency_in sv scope' cid' command' context)"
  proof (rule keepsI)
    fix db x db' assume r: "remembers scope kh digest command cid reference state version db"
      and "beginIdempotency_in sv scope' cid' command' context db = Inr (x, db')"
    from this(2) show "remembers scope kh digest command cid reference state version db'"
      by (cases rule: beginIdempotency_in_Inr) (use r in \<open>auto simp: remembers_def select_where_append\<close>)
  qed
  show "keeps (remembers scope kh digest command cid reference state version) (completeIdempotency sv key reference' version' state')"
  proof (rule keepsI)
    fix db u db' assume r: "remembers scope kh digest command cid reference state version db"
      and run: "completeIdempotency sv key reference' version' state' db = Inr (u, db')"
    let ?f = "\<lambda>r. r\<lparr>ir_completed := True,
        ir_result_digest := Some (sha256 sv (reference' @ ''|'' @ int_to_string version' @ ''|'' @ state')),
        ir_result_reference := Some reference', ir_result_version := Some version', ir_result_state := Some state'\<rparr>"
    have rows: "db_idempotency db' = update_where (\<lambda>r. ir_id r = key \<and> \<not> ir_completed r) ?f (db_idempotency db)"
      using run by (simp add: completeIdempotency_def)
    have "select_where (has_key scope kh) (db_idempotency db') =
        (case select_where (has_key scope kh) (db_idempotency db) of None \<Rightarrow> None
         | Some r \<Rightarrow> Some (if ir_id r = key \<and> \<not> ir_completed r then ?f r else r))"
      unfolding rows by (rule select_where_update_where) (simp add: has_key_def)
    thus "remembers scope kh digest command cid reference state version db'"
      using r by (auto simp: remembers_def)
  qed
qed

lemma remembers_frame:
  assumes "untouched db_idempotency m"
  shows "keeps (remembers scope kh digest command cid reference state version) m"
  by (rule untouched_keeps[OF assms]) (simp add: remembers_def)

section \<open>Services and a context for the examples\<close>

definition example_services :: services where
  "example_services = \<lparr>sv_sha = (\<lambda>b. replicate (length b) (CHR ''h'')), sv_uuid = (\<lambda>n. replicate n (CHR ''u'')),
     sv_audit_json = au_command, sv_now = 0\<rparr>"

definition example_context :: "string \<Rightarrow> CommandContext" where
  "example_context key = \<lparr>cx_actor = \<lparr>ca_type = ''m'', ca_reference = ''m'', ca_authenticationStrength = ''p''\<rparr>,
     cx_committeeReference = ''committee'', cx_policyVersionReference = ''p'', cx_softwareVersion = ''1'',
     cx_reasonCategory = ''r'', cx_correlationId = ''c'', cx_idempotencyKey = key, cx_requestDigest = ''d''\<rparr>"

end
