(* ===== verification/Verification_Repository.thy ===== *)
theory Verification_Repository
  imports Idempotency
begin

text \<open>
  packages/db/src/verification-repository.ts: verification requests and review decisions.  Every
  operation that changes a request goes through the private method transition, which checks the
  committee, the idempotency key and the expected version, applies the command of the domain package,
  and writes the request, an audit event, an outbox event and the result of the key in one transaction.
\<close>

section \<open>Records\<close>

record VerificationRecord =
  vr_externalReference :: string
  vr_committeeReference :: string
  vr_participantReference :: string
  vr_state :: string
  vr_version :: int
  vr_replayed :: bool

record TransitionInput =
  ti_requestReference :: string
  ti_expectedVersion :: js_number
  ti_context :: CommandContext

record CreateVerificationRequestInput =
  ci_id :: "string option"
  ci_externalReference :: string
  ci_participantReference :: string
  ci_policyVersionId :: string
  ci_context :: CommandContext

datatype ReviewDecision = D_approved | D_rejected | D_needs_more_information

fun review_decision_name :: "ReviewDecision \<Rightarrow> string" where
  "review_decision_name D_approved = ''approved''"
| "review_decision_name D_rejected = ''rejected''"
| "review_decision_name D_needs_more_information = ''needs_more_information''"

record RecordReviewDecisionInput =
  di_id :: "string option"
  di_externalReference :: string
  di_requestReference :: string
  di_reviewerMemberReference :: string
  di_policyVersionId :: string
  di_decision :: ReviewDecision
  di_authorization :: ReviewerAuthorizationDecision
  di_context :: CommandContext

section \<open>Tables\<close>

text \<open>Inserts and updates with the unique indexes, the foreign key to policy_version and the trigger
  of verification_request.\<close>

definition insert_request :: "request_row \<Rightarrow> unit tx" where
  "insert_request row =
     bindT (readT db_requests) (\<lambda>rows.
     bindT (liftT (insert_unique (\<lambda>r. rq_id r = rq_id row \<or> rq_external_reference r = rq_external_reference row) row rows)) (\<lambda>rows'.
     bindT (readT db_policies) (\<lambda>policies.
     bindT (requireT (rq_policy_version_id row \<in> set policies) (DatabaseError ''23503'')) (\<lambda>_.
     writeT (\<lambda>db. db\<lparr>db_requests := rows'\<rparr>)))))"

definition request_update_ok :: "request_row \<Rightarrow> request_row \<Rightarrow> bool" where
  "request_update_ok old new \<longleftrightarrow>
     rq_version new = rq_version old + 1 \<and> cbc_guard_verification_transition (rq_state old) (rq_state new)
     \<and> 0 < rq_version new"

text \<open>UPDATE with RETURNING: the rows it changed, as they are then.\<close>

definition update_requests :: "(request_row \<Rightarrow> bool) \<Rightarrow> (request_row \<Rightarrow> request_row) \<Rightarrow> request_row list tx" where
  "update_requests P f =
     bindT (readT db_requests) (\<lambda>rows.
     bindT (liftT (update_checked P f request_update_ok rows)) (\<lambda>rows'.
     bindT (writeT (\<lambda>db. db\<lparr>db_requests := rows'\<rparr>)) (\<lambda>_.
     returnT (map f (filter P rows)))))"

definition insert_decision :: "decision_row \<Rightarrow> unit tx" where
  "insert_decision row =
     bindT (readT db_decisions) (\<lambda>rows.
     bindT (liftT (insert_unique (\<lambda>r. de_id r = de_id row \<or> de_external_reference r = de_external_reference row
        \<or> (de_request_id r = de_request_id row \<and> de_reviewer_member_id r = de_reviewer_member_id row)) row rows)) (\<lambda>rows'.
     bindT (readT db_policies) (\<lambda>policies.
     bindT (requireT (de_policy_version_id row \<in> set policies) (DatabaseError ''23503'')) (\<lambda>_.
     writeT (\<lambda>db. db\<lparr>db_decisions := rows'\<rparr>)))))"

definition participant_of :: "database \<Rightarrow> string \<Rightarrow> participant_row option" where
  "participant_of db pid = select_where (\<lambda>p. pa_id p = pid) (db_participants db)"

definition committee_of :: "database \<Rightarrow> string \<Rightarrow> committee_row option" where
  "committee_of db cid = select_where (\<lambda>c. cm_id c = cid) (db_committees db)"

definition given_or_new :: "services \<Rightarrow> string option \<Rightarrow> string tx" where
  "given_or_new sv given = (case given of Some i \<Rightarrow> returnT i | None \<Rightarrow> newId sv)"

section \<open>Private methods\<close>

definition find_request :: "string \<Rightarrow> string \<Rightarrow> database \<Rightarrow> request_row option" where
  "find_request cid reference db =
     select_where (\<lambda>r. rq_external_reference r = reference \<and> rq_committee_id r = cid
        \<and> participant_of db (rq_participant_id r) \<noteq> None \<and> committee_of db (rq_committee_id r) \<noteq> None) (db_requests db)"

definition request_record :: "database \<Rightarrow> bool \<Rightarrow> request_row \<Rightarrow> VerificationRecord" where
  "request_record db replayed r =
     \<lparr>vr_externalReference = rq_external_reference r,
      vr_committeeReference = cm_external_reference (the (committee_of db (rq_committee_id r))),
      vr_participantReference = pa_external_reference (the (participant_of db (rq_participant_id r))),
      vr_state = verification_state_name (rq_state r), vr_version = rq_version r, vr_replayed = replayed\<rparr>"

text \<open>loadRecord; the row itself is also returned, whose state the command is applied to.\<close>

definition load_request :: "string \<Rightarrow> string \<Rightarrow> request_row tx" where
  "load_request cid reference =
     bindT (readT (find_request cid reference)) (\<lambda>found.
     case found of None \<Rightarrow> throwT TenantBoundaryError | Some r \<Rightarrow> returnT r)"

definition loadRecord :: "string \<Rightarrow> string \<Rightarrow> bool \<Rightarrow> VerificationRecord tx" where
  "loadRecord cid reference replayed =
     bindT (load_request cid reference) (\<lambda>r. readT (\<lambda>db. request_record db replayed r))"

definition replayRecord :: "VerificationRecord \<Rightarrow> IdempotencyResult \<Rightarrow> VerificationRecord tx" where
  "replayRecord record idempotency =
     bindT (requireT (ix_resultReference idempotency = Some (vr_externalReference record)
        \<and> truthy (ix_resultState idempotency) \<and> ix_resultVersion idempotency \<noteq> None
        \<and> ix_resultVersion idempotency \<noteq> Some 0) IdempotencyConflictError) (\<lambda>_.
     returnT (record\<lparr>vr_state := the (ix_resultState idempotency), vr_version := the (ix_resultVersion idempotency),
        vr_replayed := True\<rparr>))"

definition enqueueDomainEvent ::
  "services \<Rightarrow> string \<Rightarrow> string \<Rightarrow> string \<Rightarrow> int \<Rightarrow> string \<Rightarrow> CommandContext \<Rightarrow> unit tx" where
  "enqueueDomainEvent sv cid reference eventType version state context =
     bindT (newId sv) (\<lambda>eventId.
     insert_outbox_event sv eventId (Some cid) eventType ''verification_request'' reference ''issue-16-v1''
       (''domain:'' @ reference @ '':v'' @ int_to_string version)
       (sha256 sv (eventType @ ''|'' @ reference @ ''|'' @ int_to_string version @ ''|'' @ state))
       (sha256 sv (cx_committeeReference context @ ''|'' @ cx_idempotencyKey context @ ''|'' @ eventType)))"

section \<open>Operations\<close>

definition createRequest_body :: "services \<Rightarrow> CreateVerificationRequestInput \<Rightarrow> VerificationRecord tx" where
  "createRequest_body sv inp =
     bindT (committeeId (cx_committeeReference (ci_context inp))) (\<lambda>cid.
     bindT (beginIdempotency sv cid ''createVerificationRequest'' (ci_context inp)) (\<lambda>idempotency.
     if ix_replayed idempotency
     then bindT (loadRecord cid (ci_externalReference inp) True) (\<lambda>record. replayRecord record idempotency)
     else
       bindT (readT (\<lambda>db. select_where (\<lambda>p. pa_external_reference p = ci_participantReference inp) (db_participants db))) (\<lambda>participant.
       case participant of
         None \<Rightarrow> throwT (RepositoryConflictError ''participant does not exist'')
       | Some p \<Rightarrow>
           bindT (given_or_new sv (ci_id inp)) (\<lambda>requestId.
           bindT (insert_request \<lparr>rq_id = requestId, rq_external_reference = ci_externalReference inp,
              rq_committee_id = cid, rq_participant_id = pa_id p, rq_policy_version_id = ci_policyVersionId inp,
              rq_state = V_requested, rq_version = 1\<rparr>) (\<lambda>_.
           bindT (appendAudit sv (ci_context inp) (Some cid) ''createVerificationRequest''
              \<lparr>tg_type = ''verification_request'', tg_reference = ci_externalReference inp,
               tg_priorState = None, tg_newState = Some ''requested''\<rparr> ''succeeded'') (\<lambda>_.
           bindT (enqueueDomainEvent sv cid (ci_externalReference inp) ''VerificationRequested'' 1 ''requested'' (ci_context inp)) (\<lambda>_.
           bindT (completeIdempotency sv (ix_id idempotency) (ci_externalReference inp) 1 ''requested'') (\<lambda>_.
           loadRecord cid (ci_externalReference inp) False))))))))"

definition createRequest :: "services \<Rightarrow> CreateVerificationRequestInput \<Rightarrow> VerificationRecord op" where
  "createRequest sv inp db =
     (case requireOpaqueReference (ci_externalReference inp) ''verification external reference'' of
        Inl e \<Rightarrow> (Inl e, db)
      | Inr _ \<Rightarrow>
          (case requireOpaqueReference (ci_participantReference inp) ''participant reference'' of
             Inl e \<Rightarrow> (Inl e, db)
           | Inr _ \<Rightarrow> transaction (createRequest_body sv inp) db))"

definition transition_body ::
  "services \<Rightarrow> string \<Rightarrow> (VerificationState \<Rightarrow> InvalidTransitionError + VerificationState) \<Rightarrow> TransitionInput
     \<Rightarrow> VerificationRecord tx" where
  "transition_body sv commandName command inp =
     bindT (committeeId (cx_committeeReference (ti_context inp))) (\<lambda>cid.
     bindT (beginIdempotency sv cid commandName (ti_context inp)) (\<lambda>idempotency.
     if ix_replayed idempotency
     then bindT (loadRecord cid (ti_requestReference inp) True) (\<lambda>record. replayRecord record idempotency)
     else
       bindT (load_request cid (ti_requestReference inp)) (\<lambda>current.
       bindT (requireT (num (rq_version current) = ti_expectedVersion inp)
          (RepositoryConflictError ''verification request version is stale'')) (\<lambda>_.
       bindT (liftT (map_error TransitionRejected (command (rq_state current)))) (\<lambda>nextState.
       bindT (update_requests (\<lambda>r. rq_external_reference r = ti_requestReference inp \<and> rq_committee_id r = cid
            \<and> num (rq_version r) = ti_expectedVersion inp)
          (\<lambda>r. r\<lparr>rq_state := nextState, rq_version := rq_version r + 1\<rparr>)) (\<lambda>updated.
       bindT (requireT (updated \<noteq> []) (RepositoryConflictError ''verification request version is stale'')) (\<lambda>_.
       bindT (appendAudit sv (ti_context inp) (Some cid) commandName
          \<lparr>tg_type = ''verification_request'', tg_reference = ti_requestReference inp,
           tg_priorState = Some (verification_state_name (rq_state current)),
           tg_newState = Some (verification_state_name nextState)\<rparr> ''succeeded'') (\<lambda>_.
       bindT (enqueueDomainEvent sv cid (ti_requestReference inp) commandName (rq_version (hd updated))
          (verification_state_name nextState) (ti_context inp)) (\<lambda>_.
       bindT (completeIdempotency sv (ix_id idempotency) (ti_requestReference inp) (rq_version (hd updated))
          (verification_state_name nextState)) (\<lambda>_.
       readT (\<lambda>db. \<lparr>vr_externalReference = ti_requestReference inp,
         vr_committeeReference = cx_committeeReference (ti_context inp),
         vr_participantReference = pa_external_reference (the (participant_of db (rq_participant_id (hd updated)))),
         vr_state = verification_state_name nextState, vr_version = rq_version (hd updated), vr_replayed = False\<rparr>)))))))))))"

definition transition ::
  "services \<Rightarrow> string \<Rightarrow> (VerificationState \<Rightarrow> InvalidTransitionError + VerificationState) \<Rightarrow> TransitionInput
     \<Rightarrow> VerificationRecord op" where
  "transition sv commandName command inp db =
     (case requireOpaqueReference (ti_requestReference inp) ''verification request reference'' of
        Inl e \<Rightarrow> (Inl e, db)
      | Inr _ \<Rightarrow> transaction (transition_body sv commandName command inp) db)"

definition schedule :: "services \<Rightarrow> TransitionInput \<Rightarrow> VerificationRecord op" where
  "schedule sv inp = transition sv ''scheduleRequest'' scheduleRequest inp"

definition checkIn :: "services \<Rightarrow> TransitionInput \<Rightarrow> VerificationRecord op" where
  "checkIn sv inp = transition sv ''checkInParticipant'' checkInParticipant inp"

definition beginReview_op :: "services \<Rightarrow> TransitionInput \<Rightarrow> VerificationRecord op" where
  "beginReview_op sv inp = transition sv ''beginReview'' beginReview inp"

definition approve :: "services \<Rightarrow> TransitionInput \<Rightarrow> VerificationRecord op" where
  "approve sv inp = transition sv ''approveVerification'' approveVerification inp"

definition reject :: "services \<Rightarrow> TransitionInput \<Rightarrow> VerificationRecord op" where
  "reject sv inp = transition sv ''rejectVerification'' rejectVerification inp"

definition requestMoreInformation_op :: "services \<Rightarrow> TransitionInput \<Rightarrow> VerificationRecord op" where
  "requestMoreInformation_op sv inp = transition sv ''requestMoreInformation'' requestMoreInformation inp"

definition withdraw :: "services \<Rightarrow> TransitionInput \<Rightarrow> VerificationRecord op" where
  "withdraw sv inp = transition sv ''withdrawVerification'' withdrawVerification inp"

definition rescheduleAfterMoreInformation_op :: "services \<Rightarrow> TransitionInput \<Rightarrow> VerificationRecord op" where
  "rescheduleAfterMoreInformation_op sv inp =
     transition sv ''rescheduleAfterMoreInformation'' rescheduleAfterMoreInformation inp"

definition rejectAfterMoreInformation_op :: "services \<Rightarrow> TransitionInput \<Rightarrow> VerificationRecord op" where
  "rejectAfterMoreInformation_op sv inp = transition sv ''rejectAfterMoreInformation'' rejectAfterMoreInformation inp"

definition withdrawAfterMoreInformation_op :: "services \<Rightarrow> TransitionInput \<Rightarrow> VerificationRecord op" where
  "withdrawAfterMoreInformation_op sv inp =
     transition sv ''withdrawAfterMoreInformation'' withdrawAfterMoreInformation inp"

definition requestIssuance_op :: "services \<Rightarrow> TransitionInput \<Rightarrow> VerificationRecord op" where
  "requestIssuance_op sv inp = transition sv ''requestIssuance'' requestIssuance inp"

definition recordIssuance_op :: "services \<Rightarrow> TransitionInput \<Rightarrow> VerificationRecord op" where
  "recordIssuance_op sv inp = transition sv ''recordIssuance'' recordIssuance inp"

definition openAppeal_op :: "services \<Rightarrow> TransitionInput \<Rightarrow> VerificationRecord op" where
  "openAppeal_op sv inp = transition sv ''openAppeal'' openAppeal inp"

definition upholdAppeal_op :: "services \<Rightarrow> TransitionInput \<Rightarrow> VerificationRecord op" where
  "upholdAppeal_op sv inp = transition sv ''upholdAppeal'' upholdAppeal inp"

definition denyAppeal_op :: "services \<Rightarrow> TransitionInput \<Rightarrow> VerificationRecord op" where
  "denyAppeal_op sv inp = transition sv ''denyAppeal'' denyAppeal inp"

definition remandAppeal_op :: "services \<Rightarrow> TransitionInput \<Rightarrow> VerificationRecord op" where
  "remandAppeal_op sv inp = transition sv ''remandAppeal'' remandAppeal inp"

text \<open>recordReviewDecision returns the field replayed.  The argument \<open>authorization_json\<close> is the text
  JSON.stringify gives the decision object, which depends on the order the caller built it in.\<close>

definition recordReviewDecision_body ::
  "services \<Rightarrow> (ReviewerAuthorizationDecision \<Rightarrow> string) \<Rightarrow> RecordReviewDecisionInput \<Rightarrow> bool tx" where
  "recordReviewDecision_body sv authorization_json inp =
     bindT (committeeId (cx_committeeReference (di_context inp))) (\<lambda>cid.
     bindT (beginIdempotency sv cid ''recordReviewDecision'' (di_context inp)) (\<lambda>idempotency.
     if ix_replayed idempotency then returnT True
     else
       bindT (load_request cid (di_requestReference inp)) (\<lambda>request.
       bindT (requireT (rq_state request = V_under_review)
          (RepositoryConflictError ''review decision requires an under-review request'')) (\<lambda>_.
       bindT (readT (\<lambda>db. select_where (\<lambda>m. me_external_reference m = di_reviewerMemberReference inp
          \<and> me_committee_id m = cid \<and> me_state m = ''active'') (db_members db))) (\<lambda>member.
       case member of
         None \<Rightarrow> throwT TenantBoundaryError
       | Some m \<Rightarrow>
           bindT (readT (\<lambda>db. list_ex (\<lambda>c. cf_member_id c = me_id m \<and> cf_committee_id c = cid
              \<and> cf_target_type c = ''verification_request'' \<and> cf_target_reference c = di_requestReference inp
              \<and> cf_resolved_at c = None) (db_conflicts db))) (\<lambda>conflict.
           bindT (requireT (\<not> conflict) (RepositoryConflictError ''reviewer has an unresolved conflict'')) (\<lambda>_.
           bindT (readT (\<lambda>db. select_where (\<lambda>r. rq_external_reference r = di_requestReference inp
              \<and> rq_committee_id r = cid) (db_requests db))) (\<lambda>found.
           bindT (given_or_new sv (di_id inp)) (\<lambda>decisionId.
           bindT (insert_decision \<lparr>de_id = decisionId, de_external_reference = di_externalReference inp,
              de_committee_id = cid, de_request_id = rq_id (the found), de_reviewer_member_id = me_id m,
              de_policy_version_id = di_policyVersionId inp, de_state = review_decision_name (di_decision inp),
              de_reason_category = cx_reasonCategory (di_context inp),
              de_authorization_decision_digest = sha256 sv (authorization_json (di_authorization inp))\<rparr>) (\<lambda>_.
           bindT (appendAudit sv (di_context inp) (Some cid) ''recordReviewDecision''
              \<lparr>tg_type = ''review_decision'', tg_reference = di_externalReference inp, tg_priorState = None,
               tg_newState = Some (review_decision_name (di_decision inp))\<rparr> ''succeeded'') (\<lambda>_.
           bindT (enqueueDomainEvent sv cid (di_externalReference inp) ''ReviewDecisionRecorded'' 1
              (review_decision_name (di_decision inp)) (di_context inp)) (\<lambda>_.
           bindT (completeIdempotency sv (ix_id idempotency) (di_externalReference inp) 1
              (review_decision_name (di_decision inp))) (\<lambda>_.
           returnT False)))))))))))))"

definition recordReviewDecision ::
  "services \<Rightarrow> (ReviewerAuthorizationDecision \<Rightarrow> string) \<Rightarrow> RecordReviewDecisionInput \<Rightarrow> bool op" where
  "recordReviewDecision sv authorization_json inp db =
     (case requireOpaqueReference (di_externalReference inp) ''decision external reference'' of
        Inl e \<Rightarrow> (Inl e, db)
      | Inr _ \<Rightarrow>
          (case requireEligibleReviewer (di_authorization inp) of
             Inl why \<Rightarrow> (Inl (ReviewerIneligibleError why), db)
           | Inr eligible \<Rightarrow>
               if er_actorReference eligible \<noteq> ca_reference (cx_actor (di_context inp))
               then (Inl (RepositoryConflictError ''authorization decision does not match the command actor''), db)
               else transaction (recordReviewDecision_body sv authorization_json inp) db))"

end
