(* ===== verification/Attestation_Repository.thy ===== *)
theory Attestation_Repository
  imports Verification_Repository
begin

text \<open>
  packages/db/src/attestation-repository.ts: issuing, activating, expiring and revoking attestations.
  An attestation belongs to the request it was issued for, and a renewal names the attestation it
  supersedes; activating a renewal supersedes that one in the same transaction.  The states of an
  attestation are five of the states of a request: issued, active, expired, revoked and superseded.
\<close>

section \<open>Records\<close>

record AttestationRecord =
  ar_externalReference :: string
  ar_committeeReference :: string
  ar_participantReference :: string
  ar_requestReference :: string
  ar_version :: int
  ar_state :: string
  ar_validFrom :: time
  ar_expiresAt :: time
  ar_supersedesReference :: "string option"
  ar_statusVersion :: int
  ar_replayed :: bool

text \<open>The joined row of loadRow: the attestation, its request and the version of its status.\<close>

record AttestationRow =
  aw_attestation :: attestation_row
  aw_committee_reference :: string
  aw_participant_reference :: string
  aw_request :: request_row
  aw_supersedes_reference :: "string option"
  aw_status_version :: int

record IssueAttestationInput =
  ii_id :: "string option"
  ii_externalReference :: string
  ii_requestReference :: string
  ii_policyVersionId :: string
  ii_validFrom :: date
  ii_expiresAt :: date
  ii_supersedesReference :: "string option"
  ii_context :: CommandContext

record MutateAttestationInput =
  mi_attestationReference :: string
  mi_expectedStatusVersion :: js_number
  mi_observedAt :: time
  mi_context :: CommandContext

record RevokeAttestationInput = MutateAttestationInput +
  mi_revocationId :: "string option"
  mi_policyVersionId :: string

section \<open>Tables\<close>

text \<open>The constraints of attestation: positive version, a window of at most 45 days, and a predecessor
  exactly from the second version on; the trigger on insert checks the predecessor.\<close>

definition attestation_row_ok :: "attestation_row \<Rightarrow> bool" where
  "attestation_row_ok a \<longleftrightarrow>
     0 < at_version a \<and> at_valid_from a < at_expires_at a
     \<and> at_expires_at a \<le> at_valid_from a + MAX_ATTESTATION_VALIDITY_MS
     \<and> ((at_version a = 1 \<and> at_supersedes_id a = None) \<or> (1 < at_version a \<and> at_supersedes_id a \<noteq> None))"

definition renewal_ok :: "attestation_row list \<Rightarrow> attestation_row \<Rightarrow> bool" where
  "renewal_ok rows a \<longleftrightarrow>
     (case at_supersedes_id a of
        None \<Rightarrow> True
      | Some pid \<Rightarrow>
          (case select_where (\<lambda>p. at_id p = pid) rows of
             None \<Rightarrow> False
           | Some p \<Rightarrow> at_committee_id p = at_committee_id a \<and> at_participant_id p = at_participant_id a
               \<and> at_version a = at_version p + 1))"

definition attestation_clash :: "attestation_row \<Rightarrow> attestation_row \<Rightarrow> bool" where
  "attestation_clash a r \<longleftrightarrow>
     at_id r = at_id a \<or> at_external_reference r = at_external_reference a
     \<or> (at_supersedes_id a \<noteq> None \<and> at_supersedes_id r = at_supersedes_id a)
     \<or> (at_committee_id r = at_committee_id a \<and> at_participant_id r = at_participant_id a \<and> at_version r = at_version a)"

definition insert_attestation :: "attestation_row \<Rightarrow> unit tx" where
  "insert_attestation a =
     bindT (readT db_attestations) (\<lambda>rows.
     bindT (requireT (renewal_ok rows a) (DatabaseError ''23514'')) (\<lambda>_.
     bindT (requireT (attestation_row_ok a) (DatabaseError ''23514'')) (\<lambda>_.
     bindT (liftT (insert_unique (attestation_clash a) a rows)) (\<lambda>rows'.
     bindT (readT db_policies) (\<lambda>policies.
     bindT (requireT (at_policy_version_id a \<in> set policies) (DatabaseError ''23503'')) (\<lambda>_.
     writeT (\<lambda>db. db\<lparr>db_attestations := rows'\<rparr>)))))))"

definition cbc_guard_attestation_transition :: "VerificationState \<Rightarrow> VerificationState \<Rightarrow> bool" where
  "cbc_guard_attestation_transition old new \<longleftrightarrow>
     old = new \<or> (old = V_issued \<and> new = V_active)
     \<or> (old = V_active \<and> new \<in> {V_expired, V_revoked, V_superseded})"

definition update_attestations :: "(attestation_row \<Rightarrow> bool) \<Rightarrow> (attestation_row \<Rightarrow> attestation_row) \<Rightarrow> unit tx" where
  "update_attestations P f =
     bindT (readT db_attestations) (\<lambda>rows.
     bindT (liftT (update_checked P f (\<lambda>old new. cbc_guard_attestation_transition (at_state old) (at_state new)) rows)) (\<lambda>rows'.
     writeT (\<lambda>db. db\<lparr>db_attestations := rows'\<rparr>)))"

definition insert_status :: "status_row \<Rightarrow> unit tx" where
  "insert_status s =
     bindT (readT db_statuses) (\<lambda>rows.
     bindT (liftT (insert_unique (\<lambda>r. st_attestation_id r = st_attestation_id s) s rows)) (\<lambda>rows'.
     writeT (\<lambda>db. db\<lparr>db_statuses := rows'\<rparr>)))"

definition update_statuses :: "(status_row \<Rightarrow> bool) \<Rightarrow> (status_row \<Rightarrow> status_row) \<Rightarrow> unit tx" where
  "update_statuses P f =
     bindT (readT db_statuses) (\<lambda>rows.
     bindT (liftT (update_checked P f (\<lambda>old new. 0 < st_version new) rows)) (\<lambda>rows'.
     writeT (\<lambda>db. db\<lparr>db_statuses := rows'\<rparr>)))"

definition insert_revocation :: "revocation_row \<Rightarrow> unit tx" where
  "insert_revocation v =
     bindT (readT db_revocations) (\<lambda>rows.
     bindT (liftT (insert_unique (\<lambda>r. rv_id r = rv_id v \<or> rv_attestation_id r = rv_attestation_id v) v rows)) (\<lambda>rows'.
     bindT (readT db_policies) (\<lambda>policies.
     bindT (requireT (rv_policy_version_id v \<in> set policies) (DatabaseError ''23503'')) (\<lambda>_.
     writeT (\<lambda>db. db\<lparr>db_revocations := rows'\<rparr>)))))"

section \<open>Reading\<close>

definition attestation_by_id :: "database \<Rightarrow> string \<Rightarrow> attestation_row option" where
  "attestation_by_id db i = select_where (\<lambda>a. at_id a = i) (db_attestations db)"

definition request_by_id :: "database \<Rightarrow> string \<Rightarrow> request_row option" where
  "request_by_id db i = select_where (\<lambda>r. rq_id r = i) (db_requests db)"

definition status_of :: "database \<Rightarrow> string \<Rightarrow> status_row option" where
  "status_of db i = select_where (\<lambda>s. st_attestation_id s = i) (db_statuses db)"

definition joined :: "database \<Rightarrow> attestation_row \<Rightarrow> bool" where
  "joined db a \<longleftrightarrow> committee_of db (at_committee_id a) \<noteq> None \<and> participant_of db (at_participant_id a) \<noteq> None
     \<and> request_by_id db (at_request_id a) \<noteq> None \<and> status_of db (at_id a) \<noteq> None"

definition attestation_view :: "database \<Rightarrow> attestation_row \<Rightarrow> AttestationRow" where
  "attestation_view db a =
     \<lparr>aw_attestation = a,
      aw_committee_reference = cm_external_reference (the (committee_of db (at_committee_id a))),
      aw_participant_reference = pa_external_reference (the (participant_of db (at_participant_id a))),
      aw_request = the (request_by_id db (at_request_id a)),
      aw_supersedes_reference = (case at_supersedes_id a of None \<Rightarrow> None
         | Some pid \<Rightarrow> map_option at_external_reference (attestation_by_id db pid)),
      aw_status_version = st_version (the (status_of db (at_id a)))\<rparr>"

definition loadRow :: "string \<Rightarrow> string \<Rightarrow> AttestationRow tx" where
  "loadRow cid reference =
     bindT (readT (\<lambda>db. map_option (attestation_view db)
        (select_where (\<lambda>a. at_committee_id a = cid \<and> at_external_reference a = reference \<and> joined db a) (db_attestations db)))) (\<lambda>found.
     case found of None \<Rightarrow> throwT TenantBoundaryError | Some row \<Rightarrow> returnT row)"

definition loadRowById :: "string \<Rightarrow> string \<Rightarrow> AttestationRow tx" where
  "loadRowById i cid =
     bindT (readT (\<lambda>db. select_where (\<lambda>a. at_id a = i \<and> at_committee_id a = cid) (db_attestations db))) (\<lambda>found.
     case found of None \<Rightarrow> throwT TenantBoundaryError | Some a \<Rightarrow> loadRow cid (at_external_reference a))"

definition load :: "string \<Rightarrow> string \<Rightarrow> bool \<Rightarrow> AttestationRecord tx" where
  "load cid reference replayed =
     bindT (loadRow cid reference) (\<lambda>row.
     returnT \<lparr>ar_externalReference = at_external_reference (aw_attestation row),
        ar_committeeReference = aw_committee_reference row, ar_participantReference = aw_participant_reference row,
        ar_requestReference = rq_external_reference (aw_request row), ar_version = at_version (aw_attestation row),
        ar_state = verification_state_name (at_state (aw_attestation row)),
        ar_validFrom = at_valid_from (aw_attestation row), ar_expiresAt = at_expires_at (aw_attestation row),
        ar_supersedesReference = (if truthy (aw_supersedes_reference row) then aw_supersedes_reference row else None),
        ar_statusVersion = aw_status_version row, ar_replayed = replayed\<rparr>)"

definition replay_attestation :: "AttestationRecord \<Rightarrow> IdempotencyResult \<Rightarrow> AttestationRecord tx" where
  "replay_attestation record idempotency =
     bindT (requireT (ix_resultReference idempotency = Some (ar_externalReference record)
        \<and> truthy (ix_resultState idempotency) \<and> ix_resultVersion idempotency \<noteq> None
        \<and> ix_resultVersion idempotency \<noteq> Some 0) IdempotencyConflictError) (\<lambda>_.
     returnT (record\<lparr>ar_state := the (ix_resultState idempotency), ar_statusVersion := the (ix_resultVersion idempotency),
        ar_replayed := True\<rparr>))"

definition enqueue_attestation_event ::
  "services \<Rightarrow> string \<Rightarrow> string \<Rightarrow> string \<Rightarrow> int \<Rightarrow> string \<Rightarrow> CommandContext \<Rightarrow> unit tx" where
  "enqueue_attestation_event sv cid reference eventType version state context =
     bindT (newId sv) (\<lambda>eventId.
     insert_outbox_event sv eventId (Some cid) eventType ''attestation'' reference ''issue-16-v1''
       (''domain:'' @ reference @ '':v'' @ int_to_string version @ '':'' @ state)
       (sha256 sv (eventType @ ''|'' @ reference @ ''|'' @ int_to_string version @ ''|'' @ state))
       (sha256 sv (cx_committeeReference context @ ''|'' @ cx_idempotencyKey context @ ''|'' @ eventType)))"

section \<open>Operations\<close>

text \<open>The predecessor of a renewal, and the version and predecessor of the new attestation.\<close>

definition renewal_of :: "string \<Rightarrow> request_row \<Rightarrow> string option \<Rightarrow> (int \<times> string option) tx" where
  "renewal_of cid request supersedes =
     (if truthy supersedes
      then bindT (readT (\<lambda>db. select_where (\<lambda>a. at_external_reference a = the supersedes \<and> at_committee_id a = cid) (db_attestations db))) (\<lambda>found.
           case found of
             None \<Rightarrow> throwT (RepositoryConflictError ''renewal predecessor must be the active participant attestation'')
           | Some prior \<Rightarrow>
               bindT (requireT (at_participant_id prior = rq_participant_id request \<and> at_state prior = V_active)
                 (RepositoryConflictError ''renewal predecessor must be the active participant attestation'')) (\<lambda>_.
               returnT (at_version prior + 1, Some (at_id prior))))
      else returnT (1, None))"

definition issue_body :: "services \<Rightarrow> IssueAttestationInput \<Rightarrow> AttestationRecord tx" where
  "issue_body sv inp =
     bindT (committeeId (cx_committeeReference (ii_context inp))) (\<lambda>cid.
     bindT (beginIdempotency sv cid ''issueAttestation'' (ii_context inp)) (\<lambda>idempotency.
     if ix_replayed idempotency
     then bindT (load cid (ii_externalReference inp) True) (\<lambda>record. replay_attestation record idempotency)
     else
       bindT (readT (\<lambda>db. select_where (\<lambda>r. rq_external_reference r = ii_requestReference inp \<and> rq_committee_id r = cid
          \<and> participant_of db (rq_participant_id r) \<noteq> None) (db_requests db))) (\<lambda>found.
       case found of
         None \<Rightarrow> throwT TenantBoundaryError
       | Some request \<Rightarrow>
           bindT (requireT (rq_state request = V_issued)
             (RepositoryConflictError ''attestation issuance requires an issued request'')) (\<lambda>_.
           bindT (renewal_of cid request (ii_supersedesReference inp)) (\<lambda>(version, supersedesId).
           bindT (liftT (map_error ValidityRejected (createAttestationValidity
              \<lparr>av_version = num version, av_validFrom = ii_validFrom inp, av_expiresAt = ii_expiresAt inp,
               av_supersedesReference = (if truthy (ii_supersedesReference inp) then ii_supersedesReference inp else None)\<rparr>))) (\<lambda>_.
           bindT (given_or_new sv (ii_id inp)) (\<lambda>attestationId.
           bindT (insert_attestation \<lparr>at_id = attestationId, at_external_reference = ii_externalReference inp,
              at_committee_id = cid, at_participant_id = rq_participant_id request, at_request_id = rq_id request,
              at_policy_version_id = ii_policyVersionId inp, at_version = version, at_state = V_issued,
              at_valid_from = the (ii_validFrom inp), at_expires_at = the (ii_expiresAt inp),
              at_issuance_complete = False, at_supersedes_id = supersedesId\<rparr>) (\<lambda>_.
           bindT (insert_status \<lparr>st_attestation_id = attestationId, st_committee_id = cid, st_state = V_issued,
              st_effective_at = the (ii_validFrom inp), st_version = 1\<rparr>) (\<lambda>_.
           bindT (appendAudit sv (ii_context inp) (Some cid) ''issueAttestation''
              \<lparr>tg_type = ''attestation'', tg_reference = ii_externalReference inp, tg_priorState = None,
               tg_newState = Some ''issued''\<rparr> ''succeeded'') (\<lambda>_.
           bindT (enqueue_attestation_event sv cid (ii_externalReference inp) ''AttestationIssued'' version ''issued'' (ii_context inp)) (\<lambda>_.
           bindT (completeIdempotency sv (ix_id idempotency) (ii_externalReference inp) 1 ''issued'') (\<lambda>_.
           load cid (ii_externalReference inp) False))))))))))))"

definition issue :: "services \<Rightarrow> IssueAttestationInput \<Rightarrow> AttestationRecord op" where
  "issue sv inp db =
     (case requireOpaqueReference (ii_externalReference inp) ''attestation external reference'' of
        Inl e \<Rightarrow> (Inl e, db)
      | Inr _ \<Rightarrow>
          (case requireOpaqueReference (ii_requestReference inp) ''verification request reference'' of
             Inl e \<Rightarrow> (Inl e, db)
           | Inr _ \<Rightarrow> transaction (issue_body sv inp) db))"

definition updateAttestationAndRequest ::
  "AttestationRow \<Rightarrow> VerificationState \<Rightarrow> time \<Rightarrow> bool \<Rightarrow> unit tx" where
  "updateAttestationAndRequest row state effectiveAt issuanceComplete =
     bindT (update_attestations (\<lambda>a. at_id a = at_id (aw_attestation row))
        (\<lambda>a. a\<lparr>at_state := state, at_issuance_complete := (if issuanceComplete then True else at_issuance_complete a)\<rparr>)) (\<lambda>_.
     bindT (update_statuses (\<lambda>s. st_attestation_id s = at_id (aw_attestation row))
        (\<lambda>s. s\<lparr>st_state := state, st_effective_at := effectiveAt, st_version := st_version s + 1\<rparr>)) (\<lambda>_.
     bindT (update_requests (\<lambda>r. rq_id r = rq_id (aw_request row) \<and> rq_version r = rq_version (aw_request row))
        (\<lambda>r. r\<lparr>rq_state := state, rq_version := rq_version r + 1\<rparr>)) (\<lambda>_.
     returnT ())))"

text \<open>What activating a renewal does to its predecessor.\<close>

definition supersede_predecessor :: "services \<Rightarrow> string \<Rightarrow> MutateAttestationInput \<Rightarrow> string \<Rightarrow> unit tx" where
  "supersede_predecessor sv cid inp pid =
     bindT (loadRowById pid cid) (\<lambda>predecessor.
     bindT (liftT (map_error TransitionRejected (supersedeAttestation (rq_state (aw_request predecessor))))) (\<lambda>superseded.
     bindT (updateAttestationAndRequest predecessor superseded (mi_observedAt inp) False) (\<lambda>_.
     bindT (appendAudit sv (mi_context inp) (Some cid) ''supersedePriorAttestation''
        \<lparr>tg_type = ''attestation'', tg_reference = at_external_reference (aw_attestation predecessor),
         tg_priorState = Some (verification_state_name (at_state (aw_attestation predecessor))),
         tg_newState = Some (verification_state_name superseded)\<rparr> ''succeeded'') (\<lambda>_.
     enqueue_attestation_event sv cid (at_external_reference (aw_attestation predecessor)) ''AttestationSuperseded''
        (at_version (aw_attestation predecessor)) (verification_state_name superseded) (mi_context inp)))))"

definition next_state :: "bool \<Rightarrow> MutateAttestationInput \<Rightarrow> AttestationRow \<Rightarrow> repo_error + VerificationState" where
  "next_state activating inp row =
     (if activating
      then if mi_observedAt inp < at_valid_from (aw_attestation row) \<or> mi_observedAt inp \<ge> at_expires_at (aw_attestation row)
           then Inl (RepositoryConflictError ''attestation cannot activate outside its validity window'')
           else map_error TransitionRejected (activateAttestation (rq_state (aw_request row)))
      else if mi_observedAt inp < at_expires_at (aw_attestation row)
           then Inl (RepositoryConflictError ''attestation cannot expire before its exact boundary'')
           else map_error TransitionRejected (expireAttestation (rq_state (aw_request row))))"

text \<open>\<open>activating\<close> is the comparison of targetState with active.  The column supersedes_id is a UUID, so
  its text is empty only when it is NULL.\<close>

definition changeActiveState_body :: "services \<Rightarrow> string \<Rightarrow> bool \<Rightarrow> MutateAttestationInput \<Rightarrow> AttestationRecord tx" where
  "changeActiveState_body sv command activating inp =
     bindT (committeeId (cx_committeeReference (mi_context inp))) (\<lambda>cid.
     bindT (beginIdempotency sv cid command (mi_context inp)) (\<lambda>idempotency.
     if ix_replayed idempotency
     then bindT (load cid (mi_attestationReference inp) True) (\<lambda>record. replay_attestation record idempotency)
     else
       bindT (loadRow cid (mi_attestationReference inp)) (\<lambda>row.
       bindT (requireT (num (aw_status_version row) = mi_expectedStatusVersion inp)
          (RepositoryConflictError ''attestation status version is stale'')) (\<lambda>_.
       bindT (liftT (next_state activating inp row)) (\<lambda>next.
       bindT (updateAttestationAndRequest row next (mi_observedAt inp) activating) (\<lambda>_.
       bindT (if activating \<and> at_supersedes_id (aw_attestation row) \<noteq> None
              then supersede_predecessor sv cid inp (the (at_supersedes_id (aw_attestation row))) else returnT ()) (\<lambda>_.
       bindT (appendAudit sv (mi_context inp) (Some cid) command
          \<lparr>tg_type = ''attestation'', tg_reference = mi_attestationReference inp,
           tg_priorState = Some (verification_state_name (at_state (aw_attestation row))),
           tg_newState = Some (verification_state_name next)\<rparr> ''succeeded'') (\<lambda>_.
       bindT (enqueue_attestation_event sv cid (mi_attestationReference inp)
          (if activating then ''AttestationActivated'' else ''AttestationExpired'')
          (at_version (aw_attestation row)) (verification_state_name next) (mi_context inp)) (\<lambda>_.
       bindT (completeIdempotency sv (ix_id idempotency) (mi_attestationReference inp) (aw_status_version row + 1)
          (verification_state_name next)) (\<lambda>_.
       load cid (mi_attestationReference inp) False))))))))))"

definition changeActiveState :: "services \<Rightarrow> string \<Rightarrow> bool \<Rightarrow> MutateAttestationInput \<Rightarrow> AttestationRecord op" where
  "changeActiveState sv command activating inp = transaction (changeActiveState_body sv command activating inp)"

definition activate :: "services \<Rightarrow> MutateAttestationInput \<Rightarrow> AttestationRecord op" where
  "activate sv inp = changeActiveState sv ''activateAttestation'' True inp"

definition expire :: "services \<Rightarrow> MutateAttestationInput \<Rightarrow> AttestationRecord op" where
  "expire sv inp = changeActiveState sv ''expireAttestation'' False inp"

definition revoke_body :: "services \<Rightarrow> RevokeAttestationInput \<Rightarrow> AttestationRecord tx" where
  "revoke_body sv inp =
     bindT (committeeId (cx_committeeReference (mi_context inp))) (\<lambda>cid.
     bindT (beginIdempotency sv cid ''revokeAttestation'' (mi_context inp)) (\<lambda>idempotency.
     if ix_replayed idempotency
     then bindT (load cid (mi_attestationReference inp) True) (\<lambda>record. replay_attestation record idempotency)
     else
       bindT (loadRow cid (mi_attestationReference inp)) (\<lambda>row.
       bindT (requireT (num (aw_status_version row) = mi_expectedStatusVersion inp)
          (RepositoryConflictError ''attestation status version is stale'')) (\<lambda>_.
       bindT (liftT (map_error TransitionRejected (revokeAttestation (at_state (aw_attestation row))))) (\<lambda>next.
       bindT (given_or_new sv (mi_revocationId inp)) (\<lambda>revocationId.
       bindT (insert_revocation \<lparr>rv_id = revocationId, rv_attestation_id = at_id (aw_attestation row), rv_committee_id = cid,
          rv_policy_version_id = mi_policyVersionId inp, rv_reason_category = cx_reasonCategory (mi_context inp),
          rv_effective_at = mi_observedAt inp\<rparr>) (\<lambda>_.
       bindT (updateAttestationAndRequest row next (mi_observedAt inp) False) (\<lambda>_.
       bindT (appendAudit sv (mi_context inp) (Some cid) ''revokeAttestation''
          \<lparr>tg_type = ''attestation'', tg_reference = mi_attestationReference inp,
           tg_priorState = Some (verification_state_name (at_state (aw_attestation row))),
           tg_newState = Some (verification_state_name next)\<rparr> ''succeeded'') (\<lambda>_.
       bindT (enqueue_attestation_event sv cid (mi_attestationReference inp) ''AttestationRevoked''
          (at_version (aw_attestation row)) (verification_state_name next) (mi_context inp)) (\<lambda>_.
       bindT (completeIdempotency sv (ix_id idempotency) (mi_attestationReference inp) (aw_status_version row + 1)
          (verification_state_name next)) (\<lambda>_.
       load cid (mi_attestationReference inp) False)))))))))))"

definition revoke :: "services \<Rightarrow> RevokeAttestationInput \<Rightarrow> AttestationRecord op" where
  "revoke sv inp = transaction (revoke_body sv inp)"

section \<open>Status\<close>

text \<open>The SQL function cbc_attestation_status_at and the query of statusAt.\<close>

definition cbc_attestation_status_at :: "database \<Rightarrow> attestation_row \<Rightarrow> time \<Rightarrow> CanonicalAttestationStatus" where
  "cbc_attestation_status_at db a observed_at =
     (let r = select_where (\<lambda>v. rv_attestation_id v = at_id a) (db_revocations db);
          successor = select_where (\<lambda>s. at_supersedes_id s = Some (at_id a) \<and> at_issuance_complete s \<and> at_state s = V_active)
            (db_attestations db) in
      if \<not> at_issuance_complete a \<or> observed_at < at_valid_from a then St_unavailable
      else if (case r of None \<Rightarrow> False | Some v \<Rightarrow> rv_effective_at v \<le> observed_at) then St_revoked
      else if (case successor of None \<Rightarrow> False | Some s \<Rightarrow> at_valid_from s \<le> observed_at) then St_superseded
      else if observed_at \<ge> at_expires_at a then St_expired
      else St_active)"

definition statusAt :: "string \<Rightarrow> string \<Rightarrow> time \<Rightarrow> database \<Rightarrow> repo_error + CanonicalAttestationStatus" where
  "statusAt committeeReference attestationReference observedAt db =
     (case select_where (\<lambda>a. at_external_reference a = attestationReference
         \<and> (\<exists>c \<in> set (db_committees db). cm_id c = at_committee_id a \<and> cm_external_reference c = committeeReference))
         (db_attestations db) of
        None \<Rightarrow> Inl TenantBoundaryError
      | Some a \<Rightarrow> Inr (cbc_attestation_status_at db a observedAt))"

end
