(* ===== verification/Attestation_Invariant.thy ===== *)
theory Attestation_Invariant
  imports Attestation_Repository
begin

text \<open>
  The consistency of attestations and requests.  \<open>att_ok X\<close> holds of the two tables when the
  attestations of a participant in a committee form one chain of versions, each attestation is in the
  state of its own request, and every attestation that has left the state issued has superseded its
  predecessor, except those whose identifier is in \<open>X\<close>; the exception is for the time between the two
  updates of an activation.
\<close>

section \<open>The invariant\<close>

definition attestation_states :: "VerificationState set" where
  "attestation_states = {V_issued, V_active, V_expired, V_revoked, V_superseded}"

definition predecessor_ok :: "string set \<Rightarrow> attestation_row list \<Rightarrow> attestation_row \<Rightarrow> bool" where
  "predecessor_ok X atts a \<longleftrightarrow>
     (\<forall>pid. at_supersedes_id a = Some pid \<longrightarrow>
       (\<exists>p \<in> set atts. at_id p = pid \<and> at_committee_id p = at_committee_id a \<and> at_participant_id p = at_participant_id a
          \<and> at_version a = at_version p + 1 \<and> at_state p \<noteq> V_issued
          \<and> (at_state a \<noteq> V_issued \<and> at_id a \<notin> X \<longrightarrow> at_state p = V_superseded)))"

definition request_ok :: "request_row list \<Rightarrow> attestation_row \<Rightarrow> bool" where
  "request_ok reqs a \<longleftrightarrow>
     (\<exists>r \<in> set reqs. rq_id r = at_request_id a \<and> rq_committee_id r = at_committee_id a
        \<and> rq_participant_id r = at_participant_id a \<and> rq_state r = at_state a)"

definition same_version :: "attestation_row \<Rightarrow> attestation_row \<Rightarrow> bool" where
  "same_version a b \<longleftrightarrow>
     at_committee_id a = at_committee_id b \<and> at_participant_id a = at_participant_id b \<and> at_version a = at_version b"

definition att_ok :: "string set \<Rightarrow> attestation_row list \<Rightarrow> request_row list \<Rightarrow> bool" where
  "att_ok X atts reqs \<longleftrightarrow>
     distinct (map at_id atts) \<and> distinct (map at_external_reference atts) \<and> distinct (map at_request_id atts)
     \<and> distinct (map rq_id reqs) \<and> distinct (map rq_external_reference reqs)
     \<and> (\<forall>a \<in> set atts. \<forall>b \<in> set atts. same_version a b \<longrightarrow> a = b)
     \<and> (\<forall>a \<in> set atts. attestation_row_ok a \<and> at_state a \<in> attestation_states
          \<and> at_issuance_complete a = (at_state a \<noteq> V_issued) \<and> predecessor_ok X atts a \<and> request_ok reqs a)"

definition domain_inv :: "database \<Rightarrow> bool" where
  "domain_inv db \<longleftrightarrow> att_ok {} (db_attestations db) (db_requests db)"

lemma att_okD:
  assumes "att_ok X atts reqs"
  shows "distinct (map at_id atts)" "distinct (map at_external_reference atts)" "distinct (map at_request_id atts)"
    "distinct (map rq_id reqs)" "distinct (map rq_external_reference reqs)"
    "a \<in> set atts \<Longrightarrow> b \<in> set atts \<Longrightarrow> same_version a b \<Longrightarrow> a = b"
    "a \<in> set atts \<Longrightarrow> attestation_row_ok a" "a \<in> set atts \<Longrightarrow> at_state a \<in> attestation_states"
    "a \<in> set atts \<Longrightarrow> at_issuance_complete a = (at_state a \<noteq> V_issued)"
    "a \<in> set atts \<Longrightarrow> predecessor_ok X atts a" "a \<in> set atts \<Longrightarrow> request_ok reqs a"
  using assms unfolding att_ok_def by blast+

section \<open>The chain of versions\<close>

lemma predecessor:
  assumes "att_ok X atts reqs" "b \<in> set atts" "1 < at_version b"
  obtains p where "p \<in> set atts" "at_supersedes_id b = Some (at_id p)" "at_committee_id p = at_committee_id b"
    "at_participant_id p = at_participant_id b" "at_version b = at_version p + 1" "at_state p \<noteq> V_issued"
    "at_state b \<noteq> V_issued \<and> at_id b \<notin> X \<longrightarrow> at_state p = V_superseded"
proof -
  obtain pid where "at_supersedes_id b = Some pid"
    using att_okD(7)[OF assms(1,2)] assms(3) by (auto simp: attestation_row_ok_def)
  thus ?thesis using that att_okD(10)[OF assms(1,2)] unfolding predecessor_ok_def by metis
qed

text \<open>Below an attestation that has left the state issued, every version is superseded.\<close>

lemma older_superseded:
  assumes ok: "att_ok {} atts reqs" and "a \<in> set atts" "b \<in> set atts" "at_state b \<noteq> V_issued"
    and "at_committee_id a = at_committee_id b" "at_participant_id a = at_participant_id b" "at_version a < at_version b"
  shows "at_state a = V_superseded"
  using assms(2-)
proof (induction "nat (at_version b)" arbitrary: b rule: less_induct)
  case less
  have "0 < at_version a" using att_okD(7)[OF ok less.prems(1)] by (simp add: attestation_row_ok_def)
  hence "1 < at_version b" using less.prems by simp
  then obtain p where p: "p \<in> set atts" "at_committee_id p = at_committee_id b" "at_participant_id p = at_participant_id b"
      "at_version b = at_version p + 1" and "at_state b \<noteq> V_issued \<and> at_id b \<notin> {} \<longrightarrow> at_state p = V_superseded"
    using predecessor[OF ok less.prems(2)] by metis
  hence sup: "at_state p = V_superseded" using less.prems(3) by simp
  show ?case
  proof (cases "at_version a = at_version p")
    case True
    hence "a = p" using att_okD(6)[OF ok less.prems(1) p(1)] less.prems p by (simp add: same_version_def)
    thus ?thesis using sup by simp
  next
    case False
    have "0 < at_version p" using att_okD(7)[OF ok p(1)] by (simp add: attestation_row_ok_def)
    thus ?thesis using less.hyps[of p] less.prems p sup False by simp
  qed
qed

lemma first_version_exists:
  assumes ok: "att_ok X atts reqs" and "b \<in> set atts"
  shows "\<exists>a \<in> set atts. at_committee_id a = at_committee_id b \<and> at_participant_id a = at_participant_id b \<and> at_version a = 1"
  using assms(2)
proof (induction "nat (at_version b)" arbitrary: b rule: less_induct)
  case less
  have pos: "0 < at_version b" using att_okD(7)[OF ok less.prems] by (simp add: attestation_row_ok_def)
  show ?case
  proof (cases "at_version b = 1")
    case False
    hence "1 < at_version b" using pos by simp
    then obtain p where p: "p \<in> set atts" "at_committee_id p = at_committee_id b" "at_participant_id p = at_participant_id b"
        "at_version b = at_version p + 1"
      using predecessor[OF ok less.prems] by metis
    have "0 < at_version p" using att_okD(7)[OF ok p(1)] by (simp add: attestation_row_ok_def)
    thus ?thesis using less.hyps[of p] p pos by auto
  qed (use less.prems in blast)
qed

text \<open>A new attestation that the checks of issue let through is the only one of its request.\<close>

lemma request_is_free:
  assumes ok: "att_ok {} atts reqs" and r: "r \<in> set reqs" "rq_state r = V_issued"
    and n: "at_committee_id n = rq_committee_id r" "at_participant_id n = rq_participant_id r" "attestation_row_ok n"
    and clash: "\<forall>b \<in> set atts. \<not> attestation_clash n b"
    and pred: "\<And>pid. at_supersedes_id n = Some pid \<Longrightarrow> \<exists>p \<in> set atts. at_id p = pid \<and> at_state p = V_active
       \<and> at_committee_id p = at_committee_id n \<and> at_participant_id p = at_participant_id n \<and> at_version n = at_version p + 1"
    and a: "a \<in> set atts"
  shows "at_request_id a \<noteq> rq_id r"
proof
  assume linked: "at_request_id a = rq_id r"
  obtain q where q: "q \<in> set reqs" "rq_id q = at_request_id a" "rq_committee_id q = at_committee_id a"
      "rq_participant_id q = at_participant_id a" "rq_state q = at_state a"
    using att_okD(11)[OF ok a] unfolding request_ok_def by blast
  have "q = r" using distinct_map_key_eq[OF att_okD(4)[OF ok] q(1) r(1)] q(2) linked by simp
  hence cp: "at_committee_id a = at_committee_id n" "at_participant_id a = at_participant_id n" "at_state a = V_issued"
    using q r n by auto
  have nc: "\<not> (at_committee_id b = at_committee_id n \<and> at_participant_id b = at_participant_id n \<and> at_version b = at_version n)"
    if "b \<in> set atts" for b using clash that by (auto simp: attestation_clash_def)
  show False
  proof (cases "at_supersedes_id n")
    case None
    hence "at_version n = 1" using n(3) by (auto simp: attestation_row_ok_def)
    thus False using first_version_exists[OF ok a] cp nc by auto
  next
    case (Some pid)
    then obtain p where p: "p \<in> set atts" "at_state p = V_active" "at_committee_id p = at_committee_id n"
        "at_participant_id p = at_participant_id n" "at_version n = at_version p + 1" using pred by blast
    have "at_version a \<noteq> at_version n" using nc[OF a] cp by simp
    then consider "at_version a < at_version p" | "at_version a = at_version p" | "at_version p + 1 < at_version a"
      using p(5) by linarith
    thus False
    proof cases
      case 1
      hence "at_state a = V_superseded" using older_superseded[OF ok a p(1)] p cp by simp
      thus False using cp by simp
    next
      case 2
      hence "a = p" using att_okD(6)[OF ok a p(1)] p cp by (simp add: same_version_def)
      thus False using cp p by simp
    next
      case 3
      have "1 < at_version a" using 3 att_okD(7)[OF ok p(1)] by (simp add: attestation_row_ok_def)
      then obtain q where "q \<in> set atts" "at_committee_id q = at_committee_id a" "at_participant_id q = at_participant_id a"
          "at_version a = at_version q + 1" "at_state q \<noteq> V_issued"
        using predecessor[OF ok a] by metis
      hence "at_state p = V_superseded" using older_superseded[OF ok p(1), of q] 3 p cp by simp
      thus False using p(2) by simp
    qed
  qed
qed

section \<open>Changes that keep it\<close>

lemma att_ok_insert_request:
  assumes "att_ok X atts reqs" "\<forall>q \<in> set reqs. rq_id q \<noteq> rq_id r \<and> rq_external_reference q \<noteq> rq_external_reference r"
  shows "att_ok X atts (reqs @ [r])"
proof -
  have "request_ok reqs a \<Longrightarrow> request_ok (reqs @ [r]) a" for a by (auto simp: request_ok_def)
  thus ?thesis using assms unfolding att_ok_def by auto
qed

lemma att_ok_update_request:
  assumes ok: "att_ok X atts reqs" and r: "r \<in> set reqs" "rq_state r \<notin> attestation_states"
    and P: "\<And>q. q \<in> set reqs \<Longrightarrow> P q \<Longrightarrow> q = r"
    and f: "\<And>q. rq_id (f q) = rq_id q" "\<And>q. rq_external_reference (f q) = rq_external_reference q"
  shows "att_ok X atts (update_where P f reqs)"
proof -
  have "request_ok (update_where P f reqs) a" if a: "a \<in> set atts" for a
  proof -
    obtain q where q: "q \<in> set reqs" "rq_id q = at_request_id a" "rq_committee_id q = at_committee_id a"
        "rq_participant_id q = at_participant_id a" "rq_state q = at_state a"
      using att_okD(11)[OF ok a] unfolding request_ok_def by blast
    have "q \<noteq> r" using q(5) r(2) att_okD(8)[OF ok a] by auto
    hence "q \<in> set (update_where P f reqs)" using q(1) P by (auto simp: set_update_where)
    thus ?thesis using q unfolding request_ok_def by blast
  qed
  thus ?thesis using ok unfolding att_ok_def
    by (simp add: map_update_where[of P rq_id, OF f(1)] map_update_where[of P rq_external_reference, OF f(2)])
qed

lemma att_ok_insert:
  assumes ok: "att_ok {} atts reqs" and r: "r \<in> set reqs" "rq_state r = V_issued"
    and n: "at_committee_id n = rq_committee_id r" "at_participant_id n = rq_participant_id r" "attestation_row_ok n"
      "at_request_id n = rq_id r" "at_state n = V_issued" "\<not> at_issuance_complete n"
    and clash: "\<forall>b \<in> set atts. \<not> attestation_clash n b"
    and pred: "\<And>pid. at_supersedes_id n = Some pid \<Longrightarrow> \<exists>p \<in> set atts. at_id p = pid \<and> at_state p = V_active
       \<and> at_committee_id p = at_committee_id n \<and> at_participant_id p = at_participant_id n \<and> at_version n = at_version p + 1"
  shows "att_ok {} (atts @ [n]) reqs"
proof -
  have free: "at_request_id a \<noteq> at_request_id n" if "a \<in> set atts" for a
    using request_is_free[OF ok r n(1,2,3) clash pred that] n(4) by simp
  have sep: "at_id a \<noteq> at_id n" "at_external_reference a \<noteq> at_external_reference n" "\<not> same_version a n" "\<not> same_version n a"
    if "a \<in> set atts" for a using clash that by (auto simp: attestation_clash_def same_version_def)
  have "predecessor_ok {} (atts @ [n]) a" if "a \<in> set (atts @ [n])" for a
  proof (cases "a = n")
    case True
    show ?thesis unfolding True predecessor_ok_def
    proof (intro allI impI)
      fix pid assume "at_supersedes_id n = Some pid"
      then obtain p where "p \<in> set atts" "at_id p = pid" "at_state p = V_active" "at_committee_id p = at_committee_id n"
        "at_participant_id p = at_participant_id n" "at_version n = at_version p + 1" using pred by blast
      thus "\<exists>p \<in> set (atts @ [n]). at_id p = pid \<and> at_committee_id p = at_committee_id n \<and> at_participant_id p = at_participant_id n
          \<and> at_version n = at_version p + 1 \<and> at_state p \<noteq> V_issued
          \<and> (at_state n \<noteq> V_issued \<and> at_id n \<notin> {} \<longrightarrow> at_state p = V_superseded)"
        by (intro bexI[of _ p]) (use n(5) in auto)
    qed
  next
    case False
    hence "predecessor_ok {} atts a" using that att_okD(10)[OF ok] by simp
    thus ?thesis unfolding predecessor_ok_def by (metis UnI1 set_append)
  qed
  moreover have "request_ok reqs n" unfolding request_ok_def using r n by auto
  moreover have "at_id n \<notin> at_id ` set atts" "at_external_reference n \<notin> at_external_reference ` set atts"
    "at_request_id n \<notin> at_request_id ` set atts" using sep(1,2) free by (metis imageE)+
  moreover have "a = b" if "a \<in> set (atts @ [n])" "b \<in> set (atts @ [n])" "same_version a b" for a b
    using that att_okD(6)[OF ok, of a b] sep(3)[of a] sep(4)[of b] by auto
  ultimately show ?thesis
    unfolding att_ok_def using att_okD(1-5,7-9,11)[OF ok] n by (auto simp: attestation_states_def)
qed

text \<open>The two updates of an attestation and its request.\<close>

lemma att_ok_advance:
  assumes ok: "att_ok X atts reqs" and a: "a \<in> set atts" and r: "r \<in> set reqs" "rq_id r = at_request_id a"
    and step: "(at_state a = V_issued \<and> st = V_active \<and> done_flag) \<or>
        (at_state a = V_active \<and> st \<in> {V_expired, V_revoked, V_superseded} \<and> \<not> done_flag)"
    and new: "st = V_active \<and> at_supersedes_id a \<noteq> None \<longrightarrow> at_id a \<in> X'"
    and old: "\<And>b. b \<in> set atts \<Longrightarrow> at_id b \<in> X \<Longrightarrow> at_id b \<in> X' \<or> (st = V_superseded \<and> at_supersedes_id b = Some (at_id a))"
  shows "att_ok X' (update_where (\<lambda>b. at_id b = at_id a)
       (\<lambda>b. b\<lparr>at_state := st, at_issuance_complete := (if done_flag then True else at_issuance_complete b)\<rparr>) atts)
     (update_where (\<lambda>q. rq_id q = rq_id r \<and> rq_version q = rq_version r)
       (\<lambda>q. q\<lparr>rq_state := st, rq_version := rq_version q + 1\<rparr>) reqs)"
    (is "att_ok X' (update_where ?A ?f atts) (update_where ?R ?g reqs)")
proof -
  define F where "F b = (if ?A b then ?f b else b)" for b
  have atts': "update_where ?A ?f atts = map F atts" by (simp add: update_where_def F_def)
  have F: "at_id (F b) = at_id b" "at_committee_id (F b) = at_committee_id b" "at_participant_id (F b) = at_participant_id b"
    "at_version (F b) = at_version b" "at_supersedes_id (F b) = at_supersedes_id b" "at_request_id (F b) = at_request_id b"
    "at_external_reference (F b) = at_external_reference b" "attestation_row_ok (F b) = attestation_row_ok b" for b
    by (simp_all add: F_def attestation_row_ok_def)
  have only: "b = a" if "b \<in> set atts" "at_id b = at_id a" for b using distinct_map_key_eq[OF att_okD(1)[OF ok] that(1) a that(2)] .
  have Fa: "at_state (F a) = st" "at_issuance_complete (F a)" and Fb: "\<And>b. b \<in> set atts \<Longrightarrow> b \<noteq> a \<Longrightarrow> F b = b"
    using only step att_okD(9)[OF ok a] by (auto simp: F_def)
  have pred: "predecessor_ok X' (map F atts) (F b)" if b: "b \<in> set atts" for b
    unfolding predecessor_ok_def
  proof (intro allI impI)
    fix pid assume "at_supersedes_id (F b) = Some pid"
    hence pid: "at_supersedes_id b = Some pid" by (simp add: F)
    with att_okD(10)[OF ok b] obtain p where p: "p \<in> set atts" "at_id p = pid" "at_committee_id p = at_committee_id b"
        "at_participant_id p = at_participant_id b" "at_version b = at_version p + 1" "at_state p \<noteq> V_issued"
        "at_state b \<noteq> V_issued \<and> at_id b \<notin> X \<longrightarrow> at_state p = V_superseded" unfolding predecessor_ok_def by blast
    have ne: "b \<noteq> p" using p(5) by auto
    have "at_state (F p) = V_superseded" if s: "at_state (F b) \<noteq> V_issued" "at_id b \<notin> X'"
    proof (cases "b = a")
      case True
      hence "at_state b \<noteq> V_issued" using s(2) new step pid by auto
      moreover have "at_id b \<notin> X" using old[OF b] s(2) pid p(2) only[OF p(1)] ne True by auto
      ultimately show ?thesis using p(7) Fb[OF p(1)] ne True by auto
    next
      case False
      hence bi: "at_state b \<noteq> V_issued" using s(1) Fb[OF b] by simp
      show ?thesis
      proof (cases "p = a")
        case True
        hence "at_id b \<in> X" using p(7) bi step by auto
        thus ?thesis using old[OF b] s(2) Fa True by auto
      next
        case pa: False
        hence "at_id b \<notin> X" using old[OF b] s(2) pid p(2) only[OF p(1)] by auto
        thus ?thesis using p(7) bi Fb[OF p(1) pa] by simp
      qed
    qed
    moreover have "at_state (F p) \<noteq> V_issued" using p(6) Fb[OF p(1)] Fa step by (cases "p = a") auto
    ultimately show "\<exists>p \<in> set (map F atts). at_id p = pid \<and> at_committee_id p = at_committee_id (F b)
        \<and> at_participant_id p = at_participant_id (F b) \<and> at_version (F b) = at_version p + 1 \<and> at_state p \<noteq> V_issued
        \<and> (at_state (F b) \<noteq> V_issued \<and> at_id (F b) \<notin> X' \<longrightarrow> at_state p = V_superseded)"
      using p(1-5) by (intro bexI[of _ "F p"]) (simp_all add: F)
  qed
  have req: "request_ok (update_where ?R ?g reqs) (F b)" if b: "b \<in> set atts" for b
  proof -
    obtain q where q: "q \<in> set reqs" "rq_id q = at_request_id b" "rq_committee_id q = at_committee_id b"
        "rq_participant_id q = at_participant_id b" "rq_state q = at_state b"
      using att_okD(11)[OF ok b] unfolding request_ok_def by blast
    show ?thesis
    proof (cases "b = a")
      case True
      hence "q = r" using distinct_map_key_eq[OF att_okD(4)[OF ok] q(1) r(1)] q(2) r(2) by simp
      moreover have "?g r \<in> set (update_where ?R ?g reqs)" using r(1) by (auto simp: set_update_where)
      ultimately show ?thesis unfolding request_ok_def using q True Fa by (intro bexI[of _ "?g r"]) (simp_all add: F)
    next
      case False
      hence "at_request_id b \<noteq> at_request_id a" using distinct_map_key_eq[OF att_okD(3)[OF ok] b a] by blast
      hence "q \<in> set (update_where ?R ?g reqs)" using q r by (auto simp: set_update_where)
      thus ?thesis unfolding request_ok_def using q Fb[OF b False] by (intro bexI[of _ q]) simp_all
    qed
  qed
  have maps: "map k (map F atts) = map k atts" if "\<And>b. k (F b) = k b" for k :: "attestation_row \<Rightarrow> string" using that by simp
  have rows: "attestation_row_ok (F b) \<and> at_state (F b) \<in> attestation_states \<and> at_issuance_complete (F b) = (at_state (F b) \<noteq> V_issued)"
    if "b \<in> set atts" for b
    using Fa Fb[OF that] F(8)[of b] att_okD(7-9)[OF ok that] step by (cases "b = a") (auto simp: attestation_states_def)
  have same: "F b = F c" if "b \<in> set atts" "c \<in> set atts" "same_version (F b) (F c)" for b c
    using att_okD(6)[OF ok that(1,2)] that(3) by (simp add: same_version_def F)
  show ?thesis
    unfolding att_ok_def atts' maps[of at_id, OF F(1)] maps[of at_external_reference, OF F(7)] maps[of at_request_id, OF F(6)]
    using att_okD(1-5)[OF ok] pred req rows same
    by (simp add: map_update_where[of ?R rq_id] map_update_where[of ?R rq_external_reference])
qed

end
