(* ===== verification/Domain_Steps.thy ===== *)
theory Domain_Steps
  imports Attestation_Invariant
begin

text \<open>
  What a successful operation of the verification and attestation repositories did, step by step, and
  the histories of the two repositories: sequences of their public operations, successful or not.
\<close>

section \<open>Parts of the operations\<close>

lemma insert_request_Inr:
  "insert_request row db = Inr (u, db') \<longleftrightarrow>
     (\<forall>r \<in> set (db_requests db). rq_id r \<noteq> rq_id row \<and> rq_external_reference r \<noteq> rq_external_reference row)
     \<and> rq_policy_version_id row \<in> set (db_policies db) \<and> db' = db\<lparr>db_requests := db_requests db @ [row]\<rparr>"
  by (auto simp: insert_request_def)

lemma update_requests_Inr:
  "update_requests P f db = Inr (us, db') \<longleftrightarrow>
     (\<forall>r \<in> set (db_requests db). P r \<longrightarrow> request_update_ok r (f r)) \<and> us = map f (filter P (db_requests db))
     \<and> db' = db\<lparr>db_requests := update_where P f (db_requests db)\<rparr>"
  by (auto simp: update_requests_def)

lemma insert_attestation_Inr:
  "insert_attestation a db = Inr (u, db') \<longleftrightarrow>
     renewal_ok (db_attestations db) a \<and> attestation_row_ok a \<and> (\<forall>b \<in> set (db_attestations db). \<not> attestation_clash a b)
     \<and> at_policy_version_id a \<in> set (db_policies db) \<and> db' = db\<lparr>db_attestations := db_attestations db @ [a]\<rparr>"
  by (auto simp: insert_attestation_def)

lemma load_request_Inr: "load_request cid reference db = Inr (r, db') \<longleftrightarrow> db' = db \<and> find_request cid reference db = Some r"
  by (auto simp: load_request_def split: option.splits)

lemma loadRecord_Inr:
  "loadRecord cid reference replayed db = Inr (x, db') \<longleftrightarrow>
     db' = db \<and> (\<exists>r. find_request cid reference db = Some r \<and> x = request_record db replayed r)"
  by (auto simp: loadRecord_def load_request_Inr)

lemma find_request_SomeD:
  assumes "find_request cid reference db = Some r"
  shows "r \<in> set (db_requests db)" "rq_external_reference r = reference" "rq_committee_id r = cid"
    "participant_of db (rq_participant_id r) \<noteq> None" "committee_of db (rq_committee_id r) \<noteq> None"
  using select_where_SomeD[OF assms[unfolded find_request_def]] by auto

lemma replayRecord_Inr:
  "replayRecord record x db = Inr (y, db') \<Longrightarrow>
     db' = db \<and> y = record\<lparr>vr_state := the (ix_resultState x), vr_version := the (ix_resultVersion x), vr_replayed := True\<rparr>"
  by (auto simp: replayRecord_def)

lemma loadRow_Inr:
  "loadRow cid reference db = Inr (row, db') \<longleftrightarrow>
     db' = db \<and> (\<exists>a. select_where (\<lambda>a. at_committee_id a = cid \<and> at_external_reference a = reference \<and> joined db a)
        (db_attestations db) = Some a \<and> row = attestation_view db a)"
  by (auto simp: loadRow_def split: option.splits)

lemma loadRow_D:
  assumes "loadRow cid reference db = Inr (row, db')"
  shows "db' = db" "aw_attestation row \<in> set (db_attestations db)" "at_committee_id (aw_attestation row) = cid"
    "at_external_reference (aw_attestation row) = reference" "aw_request row \<in> set (db_requests db)"
    "rq_id (aw_request row) = at_request_id (aw_attestation row)" "joined db (aw_attestation row)"
    "row = attestation_view db (aw_attestation row)"
proof -
  obtain a where a: "select_where (\<lambda>a. at_committee_id a = cid \<and> at_external_reference a = reference \<and> joined db a)
        (db_attestations db) = Some a" "row = attestation_view db a" "db' = db"
    using assms by (auto simp: loadRow_Inr)
  note s = select_where_SomeD[OF a(1)]
  obtain r where "request_by_id db (at_request_id a) = Some r" using s(2) by (auto simp: joined_def)
  hence r: "request_by_id db (at_request_id a) = Some r" "r \<in> set (db_requests db)" "rq_id r = at_request_id a"
    by (auto simp: request_by_id_def dest: select_where_SomeD)
  show "db' = db" "aw_attestation row \<in> set (db_attestations db)" "at_committee_id (aw_attestation row) = cid"
    "at_external_reference (aw_attestation row) = reference" "aw_request row \<in> set (db_requests db)"
    "rq_id (aw_request row) = at_request_id (aw_attestation row)" "joined db (aw_attestation row)"
    "row = attestation_view db (aw_attestation row)"
    using a s r by (simp_all add: attestation_view_def)
qed

lemma load_db: "load cid reference replayed db = Inr (x, db') \<Longrightarrow> db' = db"
  by (auto simp: load_def dest: loadRow_D)

lemma replay_attestation_db: "replay_attestation record x db = Inr (y, db') \<Longrightarrow> db' = db"
  by (auto simp: replay_attestation_def)

lemma loadRowById_D:
  assumes "loadRowById i cid db = Inr (row, db')" "distinct (map at_external_reference (db_attestations db))"
  shows "db' = db" "at_id (aw_attestation row) = i" "aw_attestation row \<in> set (db_attestations db)"
    "aw_request row \<in> set (db_requests db)" "rq_id (aw_request row) = at_request_id (aw_attestation row)"
    "at_committee_id (aw_attestation row) = cid"
proof -
  obtain a where a: "select_where (\<lambda>a. at_id a = i \<and> at_committee_id a = cid) (db_attestations db) = Some a"
      "loadRow cid (at_external_reference a) db = Inr (row, db')"
    using assms(1) by (auto simp: loadRowById_def split: option.splits)
  note s = select_where_SomeD[OF a(1)] and l = loadRow_D[OF a(2)]
  have "aw_attestation row = a" using distinct_map_key_eq[OF assms(2) l(2) s(1) l(4)] .
  thus "db' = db" "at_id (aw_attestation row) = i" "aw_attestation row \<in> set (db_attestations db)"
    "aw_request row \<in> set (db_requests db)" "rq_id (aw_request row) = at_request_id (aw_attestation row)"
    "at_committee_id (aw_attestation row) = cid" using s l by auto
qed

lemma updateAttestationAndRequest_Inr:
  assumes "updateAttestationAndRequest row st t flag db = Inr (u, db')"
  shows "db_attestations db' = update_where (\<lambda>a. at_id a = at_id (aw_attestation row))
        (\<lambda>a. a\<lparr>at_state := st, at_issuance_complete := (if flag then True else at_issuance_complete a)\<rparr>) (db_attestations db)"
    and "db_requests db' = update_where (\<lambda>r. rq_id r = rq_id (aw_request row) \<and> rq_version r = rq_version (aw_request row))
        (\<lambda>r. r\<lparr>rq_state := st, rq_version := rq_version r + 1\<rparr>) (db_requests db)"
    and "\<forall>a \<in> set (db_attestations db). at_id a = at_id (aw_attestation row) \<longrightarrow> cbc_guard_attestation_transition (at_state a) st"
    and "\<forall>r \<in> set (db_requests db). rq_id r = rq_id (aw_request row) \<and> rq_version r = rq_version (aw_request row) \<longrightarrow>
        request_update_ok r (r\<lparr>rq_state := st, rq_version := rq_version r + 1\<rparr>)"
    and "db_idempotency db' = db_idempotency db" "db_participants db' = db_participants db" "db_committees db' = db_committees db"
    and "db_outbox db' = db_outbox db" "db_audit db' = db_audit db" "db_audit_heads db' = db_audit_heads db"
    and "db_revocations db' = db_revocations db"
  using assms unfolding updateAttestationAndRequest_def update_attestations_def update_statuses_def update_requests_def
  by (auto simp: body_Inr)

text \<open>Reading and the rows of the outbox and the audit trail leave the tables of the domain alone.\<close>

lemma events_frame [frame_rules]:
  "untouched db_requests (enqueueDomainEvent sv cid reference ty version state context)"
  "untouched db_attestations (enqueueDomainEvent sv cid reference ty version state context)"
  "untouched db_idempotency (enqueueDomainEvent sv cid reference ty version state context)"
  "untouched db_participants (enqueueDomainEvent sv cid reference ty version state context)"
  "untouched db_committees (enqueueDomainEvent sv cid reference ty version state context)"
  "untouched db_requests (enqueue_attestation_event sv cid reference ty version state context)"
  "untouched db_attestations (enqueue_attestation_event sv cid reference ty version state context)"
  "untouched db_idempotency (enqueue_attestation_event sv cid reference ty version state context)"
  "untouched db_participants (enqueue_attestation_event sv cid reference ty version state context)"
  "untouched db_committees (enqueue_attestation_event sv cid reference ty version state context)"
  unfolding enqueueDomainEvent_def enqueue_attestation_event_def by (intro frame_rules)+

lemma given_or_new_frame [frame_rules]:
  "untouched db_requests (given_or_new sv i)" "untouched db_attestations (given_or_new sv i)"
  "untouched db_idempotency (given_or_new sv i)" "untouched db_participants (given_or_new sv i)"
  "untouched db_committees (given_or_new sv i)"
  unfolding given_or_new_def by (intro frame_rules)+

lemma beginIdempotency_frame [frame_rules]:
  "untouched db_requests (beginIdempotency sv cid command context)"
  "untouched db_attestations (beginIdempotency sv cid command context)"
  "untouched db_participants (beginIdempotency sv cid command context)"
  "untouched db_committees (beginIdempotency sv cid command context)"
  "untouched db_policies (beginIdempotency sv cid command context)"
  unfolding beginIdempotency_def by (intro frame_rules)+

section \<open>Steps of the operations\<close>

lemma transition_steps:
  assumes "transition_body sv name command inp db = Inr (rec, db')"
  obtains (replayed) cid x old where "committeeId (cx_committeeReference (ti_context inp)) db = Inr (cid, db)"
      "beginIdempotency sv cid name (ti_context inp) db = Inr (x, db')" "ix_replayed x"
      "loadRecord cid (ti_requestReference inp) True db' = Inr (old, db')" "replayRecord old x db' = Inr (rec, db')"
    | (changed) cid x db1 cur st u us db2 h db3 db4 where
      "committeeId (cx_committeeReference (ti_context inp)) db = Inr (cid, db)"
      "beginIdempotency sv cid name (ti_context inp) db = Inr (x, db1)" "\<not> ix_replayed x"
      "find_request cid (ti_requestReference inp) db1 = Some cur" "num (rq_version cur) = ti_expectedVersion inp"
      "command (rq_state cur) = Inr st"
      "update_requests (\<lambda>r. rq_external_reference r = ti_requestReference inp \<and> rq_committee_id r = cid
            \<and> num (rq_version r) = ti_expectedVersion inp)
          (\<lambda>r. r\<lparr>rq_state := st, rq_version := rq_version r + 1\<rparr>) db1 = Inr (u # us, db2)"
      "appendAudit sv (ti_context inp) (Some cid) name \<lparr>tg_type = ''verification_request'', tg_reference = ti_requestReference inp,
               tg_priorState = Some (verification_state_name (rq_state cur)),
               tg_newState = Some (verification_state_name st)\<rparr> ''succeeded'' db2 = Inr (h, db3)"
      "enqueueDomainEvent sv cid (ti_requestReference inp) name (rq_version u) (verification_state_name st) (ti_context inp) db3 = Inr ((), db4)"
      "completeIdempotency sv (ix_id x) (ti_requestReference inp) (rq_version u) (verification_state_name st) db4 = Inr ((), db')"
      "rec = \<lparr>vr_externalReference = ti_requestReference inp, vr_committeeReference = cx_committeeReference (ti_context inp),
             vr_participantReference = pa_external_reference (the (participant_of db' (rq_participant_id u))),
             vr_state = verification_state_name st, vr_version = rq_version u, vr_replayed = False\<rparr>"
proof -
  from assms obtain cid x db1 where c: "committeeId (cx_committeeReference (ti_context inp)) db = Inr (cid, db)"
    and b: "beginIdempotency sv cid name (ti_context inp) db = Inr (x, db1)"
    unfolding transition_body_def by (auto simp: committeeId_Inr)
  show ?thesis
  proof (cases "ix_replayed x")
    case True
    with assms b c obtain old where o: "loadRecord cid (ti_requestReference inp) True db1 = Inr (old, db1)"
        "replayRecord old x db1 = Inr (rec, db')"
      unfolding transition_body_def by (auto simp: loadRecord_Inr)
    hence "db' = db1" using replayRecord_Inr by blast
    thus ?thesis using replayed[OF c] o b True by blast
  next
    case False
    thus ?thesis using assms b c unfolding transition_body_def
      by (auto simp: load_request_Inr neq_Nil_conv intro: changed)
  qed
qed

text \<open>The attestation an issue adds.\<close>

lemma renewal_of_Inr:
  assumes "renewal_of cid request supersedes db = Inr ((version, sid), db')"
  shows "db' = db" "sid = None \<Longrightarrow> version = 1 \<and> \<not> truthy supersedes"
    "sid = Some pid \<Longrightarrow> \<exists>p \<in> set (db_attestations db). at_id p = pid \<and> at_state p = V_active \<and> at_committee_id p = cid
       \<and> at_participant_id p = rq_participant_id request \<and> version = at_version p + 1"
  using assms by (auto simp: renewal_of_def split: if_splits option.splits dest: select_where_SomeD)

definition issued_row :: "IssueAttestationInput \<Rightarrow> string \<Rightarrow> request_row \<Rightarrow> int \<Rightarrow> string option \<Rightarrow> string \<Rightarrow> attestation_row" where
  "issued_row inp cid request version sid i = \<lparr>at_id = i, at_external_reference = ii_externalReference inp,
     at_committee_id = cid, at_participant_id = rq_participant_id request, at_request_id = rq_id request,
     at_policy_version_id = ii_policyVersionId inp, at_version = version, at_state = V_issued,
     at_valid_from = the (ii_validFrom inp), at_expires_at = the (ii_expiresAt inp),
     at_issuance_complete = False, at_supersedes_id = sid\<rparr>"

lemma issue_steps:
  assumes "issue_body sv inp db = Inr (rec, db')"
  obtains (replayed) cid x where "beginIdempotency sv cid ''issueAttestation'' (ii_context inp) db = Inr (x, db')" "ix_replayed x"
      "ar_replayed rec"
    | (issued) cid x db1 db2 request version sid i db3 db4 db5 h db6 db7 where
      "committeeId (cx_committeeReference (ii_context inp)) db = Inr (cid, db)"
      "beginIdempotency sv cid ''issueAttestation'' (ii_context inp) db = Inr (x, db1)" "\<not> ix_replayed x"
      "request \<in> set (db_requests db1)" "rq_external_reference request = ii_requestReference inp" "rq_committee_id request = cid"
      "rq_state request = V_issued" "renewal_of cid request (ii_supersedesReference inp) db1 = Inr ((version, sid), db1)"
      "given_or_new sv (ii_id inp) db1 = Inr (i, db2)" "insert_attestation (issued_row inp cid request version sid i) db2 = Inr ((), db3)"
      "insert_status \<lparr>st_attestation_id = i, st_committee_id = cid, st_state = V_issued,
          st_effective_at = the (ii_validFrom inp), st_version = 1\<rparr> db3 = Inr ((), db4)"
      "appendAudit sv (ii_context inp) (Some cid) ''issueAttestation'' \<lparr>tg_type = ''attestation'',
          tg_reference = ii_externalReference inp, tg_priorState = None, tg_newState = Some ''issued''\<rparr> ''succeeded'' db4 = Inr (h, db5)"
      "enqueue_attestation_event sv cid (ii_externalReference inp) ''AttestationIssued'' version ''issued'' (ii_context inp) db5 = Inr ((), db6)"
      "completeIdempotency sv (ix_id x) (ii_externalReference inp) 1 ''issued'' db6 = Inr ((), db7)"
      "load cid (ii_externalReference inp) False db7 = Inr (rec, db')"
proof -
  from assms obtain cid x db1 where c: "committeeId (cx_committeeReference (ii_context inp)) db = Inr (cid, db)"
    and b: "beginIdempotency sv cid ''issueAttestation'' (ii_context inp) db = Inr (x, db1)"
    unfolding issue_body_def by (auto simp: committeeId_Inr)
  show ?thesis
  proof (cases "ix_replayed x")
    case True
    hence "db' = db1" "ar_replayed rec" using assms b c unfolding issue_body_def
      by (auto simp: replay_attestation_def dest!: load_db)
    thus ?thesis using replayed b True by blast
  next
    case False
    define found where "found = select_where (\<lambda>r. rq_external_reference r = ii_requestReference inp \<and> rq_committee_id r = cid
          \<and> participant_of db1 (rq_participant_id r) \<noteq> None) (db_requests db1)"
    obtain request where f: "found = Some request" using assms b c False unfolding issue_body_def found_def
      by (cases found) (auto simp: found_def)
    have s: "request \<in> set (db_requests db1)" "rq_external_reference request = ii_requestReference inp" "rq_committee_id request = cid"
      using select_where_SomeD[OF f[unfolded found_def]] by auto
    show ?thesis using assms b c False f[unfolded found_def] unfolding issue_body_def
      by (auto simp: issued_row_def[symmetric] dest: renewal_of_Inr(1) intro!: issued[OF c b False s])
  qed
qed

lemma changeActive_steps:
  assumes "changeActiveState_body sv command activating inp db = Inr (rec, db')"
  obtains (replayed) cid x where "beginIdempotency sv cid command (mi_context inp) db = Inr (x, db')" "ix_replayed x"
    | (changed) cid x db1 row nxt db2 db3 h db4 db5 db6 where
      "committeeId (cx_committeeReference (mi_context inp)) db = Inr (cid, db)"
      "beginIdempotency sv cid command (mi_context inp) db = Inr (x, db1)" "\<not> ix_replayed x"
      "loadRow cid (mi_attestationReference inp) db1 = Inr (row, db1)" "num (aw_status_version row) = mi_expectedStatusVersion inp"
      "next_state activating inp row = Inr nxt"
      "updateAttestationAndRequest row nxt (mi_observedAt inp) activating db1 = Inr ((), db2)"
      "(if activating \<and> at_supersedes_id (aw_attestation row) \<noteq> None
        then supersede_predecessor sv cid inp (the (at_supersedes_id (aw_attestation row))) else returnT ()) db2 = Inr ((), db3)"
      "appendAudit sv (mi_context inp) (Some cid) command \<lparr>tg_type = ''attestation'', tg_reference = mi_attestationReference inp,
           tg_priorState = Some (verification_state_name (at_state (aw_attestation row))),
           tg_newState = Some (verification_state_name nxt)\<rparr> ''succeeded'' db3 = Inr (h, db4)"
      "enqueue_attestation_event sv cid (mi_attestationReference inp)
          (if activating then ''AttestationActivated'' else ''AttestationExpired'')
          (at_version (aw_attestation row)) (verification_state_name nxt) (mi_context inp) db4 = Inr ((), db5)"
      "completeIdempotency sv (ix_id x) (mi_attestationReference inp) (aw_status_version row + 1)
          (verification_state_name nxt) db5 = Inr ((), db6)"
      "load cid (mi_attestationReference inp) False db6 = Inr (rec, db')"
proof -
  from assms obtain cid x db1 where c: "committeeId (cx_committeeReference (mi_context inp)) db = Inr (cid, db)"
    and b: "beginIdempotency sv cid command (mi_context inp) db = Inr (x, db1)"
    unfolding changeActiveState_body_def by (auto simp: committeeId_Inr)
  show ?thesis
  proof (cases "ix_replayed x")
    case True
    hence "db' = db1" using assms b c unfolding changeActiveState_body_def by (auto dest!: load_db replay_attestation_db)
    thus ?thesis using replayed b True by blast
  next
    case False
    thus ?thesis using assms b c unfolding changeActiveState_body_def
      by (auto simp del: if_split simp: if_bool_eq_disj dest: loadRow_D(1) intro!: changed[OF c b False])
  qed
qed

lemma revoke_steps:
  assumes "revoke_body sv inp db = Inr (rec, db')"
  obtains (replayed) cid x where "beginIdempotency sv cid ''revokeAttestation'' (mi_context inp) db = Inr (x, db')" "ix_replayed x"
    | (changed) cid x db1 row i db2 db3 db4 h db5 db6 db7 nxt where
      "committeeId (cx_committeeReference (mi_context inp)) db = Inr (cid, db)"
      "beginIdempotency sv cid ''revokeAttestation'' (mi_context inp) db = Inr (x, db1)" "\<not> ix_replayed x"
      "loadRow cid (mi_attestationReference inp) db1 = Inr (row, db1)" "num (aw_status_version row) = mi_expectedStatusVersion inp"
      "revokeAttestation (at_state (aw_attestation row)) = Inr nxt" "given_or_new sv (mi_revocationId inp) db1 = Inr (i, db2)"
      "insert_revocation \<lparr>rv_id = i, rv_attestation_id = at_id (aw_attestation row), rv_committee_id = cid,
          rv_policy_version_id = mi_policyVersionId inp, rv_reason_category = cx_reasonCategory (mi_context inp),
          rv_effective_at = mi_observedAt inp\<rparr> db2 = Inr ((), db3)"
      "updateAttestationAndRequest row nxt (mi_observedAt inp) False db3 = Inr ((), db4)"
      "appendAudit sv (mi_context inp) (Some cid) ''revokeAttestation'' \<lparr>tg_type = ''attestation'', tg_reference = mi_attestationReference inp,
           tg_priorState = Some (verification_state_name (at_state (aw_attestation row))),
           tg_newState = Some (verification_state_name nxt)\<rparr> ''succeeded'' db4 = Inr (h, db5)"
      "enqueue_attestation_event sv cid (mi_attestationReference inp) ''AttestationRevoked''
          (at_version (aw_attestation row)) (verification_state_name nxt) (mi_context inp) db5 = Inr ((), db6)"
      "completeIdempotency sv (ix_id x) (mi_attestationReference inp) (aw_status_version row + 1)
          (verification_state_name nxt) db6 = Inr ((), db7)"
      "load cid (mi_attestationReference inp) False db7 = Inr (rec, db')"
proof -
  from assms obtain cid x db1 where c: "committeeId (cx_committeeReference (mi_context inp)) db = Inr (cid, db)"
    and b: "beginIdempotency sv cid ''revokeAttestation'' (mi_context inp) db = Inr (x, db1)"
    unfolding revoke_body_def by (auto simp: committeeId_Inr)
  show ?thesis
  proof (cases "ix_replayed x")
    case True
    hence "db' = db1" using assms b c unfolding revoke_body_def by (auto dest!: load_db replay_attestation_db)
    thus ?thesis using replayed b True by blast
  next
    case False
    thus ?thesis using assms b c unfolding revoke_body_def
      by (auto dest: loadRow_D(1) intro!: changed[OF c b False])
  qed
qed

section \<open>The operations keep the invariant\<close>

lemma domain_inv_frame:
  assumes "untouched db_attestations m" "untouched db_requests m"
  shows "keeps domain_inv m"
  using assms by (auto simp: keeps_def untouched_def domain_inv_def)

lemma tables_frame [frame_rules]:
  "untouched db_attestations (insert_status s)" "untouched db_requests (insert_status s)"
  "untouched db_attestations (insert_revocation v)" "untouched db_requests (insert_revocation v)"
  "untouched db_attestations (insert_decision d)" "untouched db_requests (insert_decision d)"
  "untouched db_attestations (committeeId ref)" "untouched db_requests (committeeId ref)"
  "untouched db_requests (insert_attestation a)" "untouched db_attestations (insert_request r)"
  unfolding insert_status_def insert_revocation_def insert_decision_def committeeId_def insert_attestation_def insert_request_def
  by (intro frame_rules untouched_writeT; simp)+

lemma reads_frame [frame_rules]:
  "untouched g (load_request cid reference)" "untouched g (loadRecord cid reference flag)" "untouched g (replayRecord old x)"
  "untouched g (load cid reference flag)" "untouched g (replay_attestation old' x)" "untouched g (loadRow cid reference)"
  by (auto simp: untouched_def load_request_Inr loadRecord_Inr dest: replayRecord_Inr load_db replay_attestation_db loadRow_D(1))

lemma create_keeps: "keeps domain_inv (createRequest_body sv inp)"
proof -
  have ins: "keeps domain_inv (insert_request row)" for row
    by (rule keepsI) (auto simp: insert_request_Inr domain_inv_def intro!: att_ok_insert_request)
  show ?thesis unfolding createRequest_body_def
    by (intro keeps_rules ins; rule domain_inv_frame; intro frame_rules)
qed

lemma decision_keeps: "keeps domain_inv (recordReviewDecision_body sv js inp)"
  unfolding recordReviewDecision_body_def by (rule domain_inv_frame; intro frame_rules)

end
