(* ===== verification/Domain_Properties.thy ===== *)
theory Domain_Properties
  imports Domain_Steps
begin

text \<open>
  What the verification and attestation repositories guarantee over every history: requests follow the
  state machine of the domain package, an attestation is in the state of its request, and a participant
  has at most one active attestation in a committee.
\<close>

section \<open>The public operations on requests\<close>

definition verification_operations ::
  "(verification_command \<times> (services \<Rightarrow> TransitionInput \<Rightarrow> VerificationRecord op)) list" where
  "verification_operations =
     [(ScheduleRequest, schedule), (CheckInParticipant, checkIn), (BeginReview, beginReview_op),
      (ApproveVerification, approve), (RejectVerification, reject), (RequestMoreInformation, requestMoreInformation_op),
      (WithdrawVerification, withdraw), (RescheduleAfterMoreInformation, rescheduleAfterMoreInformation_op),
      (RejectAfterMoreInformation, rejectAfterMoreInformation_op),
      (WithdrawAfterMoreInformation, withdrawAfterMoreInformation_op), (RequestIssuance, requestIssuance_op),
      (RecordIssuance, recordIssuance_op), (OpenAppeal, openAppeal_op), (UpholdAppeal, upholdAppeal_op),
      (DenyAppeal, denyAppeal_op), (RemandAppeal, remandAppeal_op)]"

lemma verification_operation_is_transition:
  assumes "(c, opn) \<in> set verification_operations"
  shows "opn sv inp = transition sv (verification_command_name c) (run_verification c) inp"
    "s \<in> set (verification_expected c) \<Longrightarrow> s \<notin> attestation_states"
  using assms
  by (auto simp: verification_operations_def attestation_states_def schedule_def checkIn_def beginReview_op_def approve_def
      reject_def requestMoreInformation_op_def withdraw_def rescheduleAfterMoreInformation_op_def
      rejectAfterMoreInformation_op_def withdrawAfterMoreInformation_op_def requestIssuance_op_def recordIssuance_op_def
      openAppeal_op_def upholdAppeal_op_def denyAppeal_op_def remandAppeal_op_def)

section \<open>Every operation keeps the invariant\<close>

lemma domain_inv_parts [keeps_rules]:
  "keeps domain_inv (appendAudit sv context cid command target result)"
  "keeps domain_inv (enqueueDomainEvent sv cid' reference ty version state context)"
  "keeps domain_inv (enqueue_attestation_event sv cid' reference ty version state context)"
  "keeps domain_inv (completeIdempotency sv key reference version state)"
  "keeps domain_inv (beginIdempotency sv cid' command context)"
  by (rule domain_inv_frame; intro frame_rules)+

lemma transition_keeps:
  assumes "\<And>s t. command s = Inr t \<Longrightarrow> s \<notin> attestation_states"
  shows "keeps domain_inv (transition_body sv name command inp)"
proof (rule keepsI)
  fix db x db' assume inv: "domain_inv db" and run: "transition_body sv name command inp db = Inr (x, db')"
  from run show "domain_inv db'"
  proof (cases rule: transition_steps)
    case replayed
    thus ?thesis using keepsD[OF domain_inv_parts(5) inv] by blast
  next
    case (changed cid x db1 cur st u us db2 h db3 db4)
    have inv1: "domain_inv db1" using keepsD[OF domain_inv_parts(5) inv changed(2)] .
    note cur = find_request_SomeD[OF changed(4)]
    have only: "q = cur" if "q \<in> set (db_requests db1)" "rq_external_reference q = ti_requestReference inp" for q
      by (rule distinct_map_key_eq[OF att_okD(5)[OF inv1[unfolded domain_inv_def]] that(1) cur(1)]) (simp add: that(2) cur(2))
    have "att_ok {} (db_attestations db1) (update_where (\<lambda>r. rq_external_reference r = ti_requestReference inp \<and> rq_committee_id r = cid
            \<and> num (rq_version r) = ti_expectedVersion inp) (\<lambda>r. r\<lparr>rq_state := st, rq_version := rq_version r + 1\<rparr>) (db_requests db1))"
      by (rule att_ok_update_request[OF inv1[unfolded domain_inv_def] cur(1) assms[OF changed(6)]])
         (use only in simp_all)
    hence "domain_inv db2" using changed(7) by (auto simp: update_requests_Inr domain_inv_def)
    from keepsD[OF domain_inv_parts(1) this changed(8)] have "domain_inv db3" .
    from keepsD[OF domain_inv_parts(4) keepsD[OF domain_inv_parts(2) this changed(9)] changed(10)] show ?thesis .
  qed
qed

lemma issue_keeps: "keeps domain_inv (issue_body sv inp)"
proof (rule keepsI)
  fix db x db' assume inv: "domain_inv db" and run: "issue_body sv inp db = Inr (x, db')"
  from run show "domain_inv db'"
  proof (cases rule: issue_steps)
    case replayed
    thus ?thesis using keepsD[OF domain_inv_parts(5) inv] by blast
  next
    case (issued cid x db1 db2 request version sid i db3 db4 db5 h db6 db7)
    let ?n = "issued_row inp cid request version sid i"
    have inv1: "domain_inv db1" using keepsD[OF domain_inv_parts(5) inv issued(2)] .
    have db2: "db_attestations db2 = db_attestations db1" "db_requests db2 = db_requests db1"
      using untouchedD[OF given_or_new_frame(2) issued(9)] untouchedD[OF given_or_new_frame(1) issued(9)] .
    note ins = issued(10)[unfolded insert_attestation_Inr]
    have "att_ok {} (db_attestations db1 @ [?n]) (db_requests db1)"
      by (rule att_ok_insert[OF inv1[unfolded domain_inv_def] issued(4,7)])
         (use issued(6) ins db2 renewal_of_Inr(3)[OF issued(8)] in \<open>auto simp: issued_row_def\<close>)
    hence "domain_inv db3" using ins db2 by (simp add: domain_inv_def)
    hence "domain_inv db4" using keepsD[OF domain_inv_frame[OF tables_frame(1,2)] _ issued(11)] by blast
    from keepsD[OF domain_inv_parts(1) this issued(12)] have "domain_inv db5" .
    from keepsD[OF domain_inv_parts(4) keepsD[OF domain_inv_parts(3) this issued(13)] issued(14)] have "domain_inv db7" .
    thus ?thesis using load_db[OF issued(15)] by simp
  qed
qed

text \<open>One attestation and its request move together.\<close>

lemma row_in_sync:
  assumes ok: "att_ok X atts reqs" and row: "aw_attestation row \<in> set atts" "aw_request row \<in> set reqs"
      "rq_id (aw_request row) = at_request_id (aw_attestation row)"
  shows "rq_state (aw_request row) = at_state (aw_attestation row)"
proof -
  obtain q where "q \<in> set reqs" "rq_id q = at_request_id (aw_attestation row)" "rq_state q = at_state (aw_attestation row)"
    using att_okD(11)[OF ok row(1)] unfolding request_ok_def by blast
  thus ?thesis using distinct_map_key_eq[OF att_okD(4)[OF ok] _ row(2)] row(3) by metis
qed

lemma advance_att_ok:
  assumes upd: "updateAttestationAndRequest row st t flag db = Inr ((), db')"
    and ok: "att_ok X (db_attestations db) (db_requests db)"
    and row: "aw_attestation row \<in> set (db_attestations db)" "aw_request row \<in> set (db_requests db)"
      "rq_id (aw_request row) = at_request_id (aw_attestation row)"
    and step: "(rq_state (aw_request row) = V_issued \<and> st = V_active \<and> flag) \<or>
        (rq_state (aw_request row) = V_active \<and> st \<in> {V_expired, V_revoked, V_superseded} \<and> \<not> flag)"
    and new: "st = V_active \<and> at_supersedes_id (aw_attestation row) \<noteq> None \<longrightarrow> at_id (aw_attestation row) \<in> X'"
    and old: "\<And>b. b \<in> set (db_attestations db) \<Longrightarrow> at_id b \<in> X \<Longrightarrow>
        at_id b \<in> X' \<or> (st = V_superseded \<and> at_supersedes_id b = Some (at_id (aw_attestation row)))"
  shows "att_ok X' (db_attestations db') (db_requests db')"
  unfolding updateAttestationAndRequest_Inr(1,2)[OF upd]
  using att_ok_advance[OF ok row(1,2,3) _ new old] step row_in_sync[OF ok row] by simp

lemma domain_command_simps:
  "activateAttestation s = Inr t \<longleftrightarrow> s = V_issued \<and> t = V_active"
  "expireAttestation s = Inr t \<longleftrightarrow> s = V_active \<and> t = V_expired"
  "revokeAttestation s = Inr t \<longleftrightarrow> s = V_active \<and> t = V_revoked"
  "supersedeAttestation s = Inr t \<longleftrightarrow> s = V_active \<and> t = V_superseded"
  using verification.run_eq_Inr[of ActivateAttestation s t] verification.run_eq_Inr[of ExpireAttestation s t]
    verification.run_eq_Inr[of RevokeAttestation s t] verification.run_eq_Inr[of SupersedeAttestation s t] by auto

lemma next_state_Inr:
  assumes "next_state activating inp row = Inr nxt"
  shows "if activating then rq_state (aw_request row) = V_issued \<and> nxt = V_active
           \<and> at_valid_from (aw_attestation row) \<le> mi_observedAt inp \<and> mi_observedAt inp < at_expires_at (aw_attestation row)
         else rq_state (aw_request row) = V_active \<and> nxt = V_expired \<and> at_expires_at (aw_attestation row) \<le> mi_observedAt inp"
  using assms by (auto simp: next_state_def domain_command_simps split: if_splits)

lemma supersede_att_ok:
  assumes run: "supersede_predecessor sv cid inp pid db = Inr ((), db')"
    and ok: "att_ok {i} (db_attestations db) (db_requests db)"
    and i: "\<And>b. b \<in> set (db_attestations db) \<Longrightarrow> at_id b = i \<Longrightarrow> at_supersedes_id b = Some pid"
  shows "domain_inv db'"
proof -
  from run obtain row db1 st db2 h db3 where l: "loadRowById pid cid db = Inr (row, db1)"
    and c: "supersedeAttestation (rq_state (aw_request row)) = Inr st"
    and u: "updateAttestationAndRequest row st (mi_observedAt inp) False db1 = Inr ((), db2)"
    and a: "appendAudit sv (mi_context inp) (Some cid) ''supersedePriorAttestation''
        \<lparr>tg_type = ''attestation'', tg_reference = at_external_reference (aw_attestation row),
         tg_priorState = Some (verification_state_name (at_state (aw_attestation row))),
         tg_newState = Some (verification_state_name st)\<rparr> ''succeeded'' db2 = Inr (h, db3)"
    and e: "enqueue_attestation_event sv cid (at_external_reference (aw_attestation row)) ''AttestationSuperseded''
        (at_version (aw_attestation row)) (verification_state_name st) (mi_context inp) db3 = Inr ((), db')"
    unfolding supersede_predecessor_def by auto
  note r = loadRowById_D[OF l att_okD(2)[OF ok]]
  note s = c[unfolded domain_command_simps]
  have "att_ok {} (db_attestations db2) (db_requests db2)"
    by (rule advance_att_ok[OF u]) (use ok r s i in auto)
  hence "domain_inv db2" by (simp add: domain_inv_def)
  thus ?thesis using keepsD[OF domain_inv_parts(1) _ a] keepsD[OF domain_inv_parts(3) _ e] by blast
qed

lemma changeActive_keeps: "keeps domain_inv (changeActiveState_body sv command activating inp)"
proof (rule keepsI)
  fix db x db' assume inv: "domain_inv db" and run: "changeActiveState_body sv command activating inp db = Inr (x, db')"
  from run show "domain_inv db'"
  proof (cases rule: changeActive_steps)
    case replayed
    thus ?thesis using keepsD[OF domain_inv_parts(5) inv] by blast
  next
    case (changed cid x db1 row nxt db2 db3 h db4 db5 db6)
    let ?a = "aw_attestation row"
    have ok: "att_ok {} (db_attestations db1) (db_requests db1)"
      using keepsD[OF domain_inv_parts(5) inv changed(2)] by (simp add: domain_inv_def)
    note l = loadRow_D[OF changed(4)] and n = next_state_Inr[OF changed(6)]
    have "domain_inv db3"
    proof (cases "activating \<and> at_supersedes_id ?a \<noteq> None")
      case False
      hence skip: "db3 = db2" using changed(8) by auto
      have "att_ok {} (db_attestations db2) (db_requests db2)"
        by (rule advance_att_ok[OF changed(7) ok l(2,5,6)]) (use n False in \<open>auto split: if_splits\<close>)
      thus ?thesis by (simp add: skip domain_inv_def)
    next
      case True
      then obtain pid where pid: "at_supersedes_id ?a = Some pid" by auto
      have ok2: "att_ok {at_id ?a} (db_attestations db2) (db_requests db2)"
        by (rule advance_att_ok[OF changed(7) ok l(2,5,6)]) (use n True in \<open>auto split: if_splits\<close>)
      have "supersede_predecessor sv cid inp pid db2 = Inr ((), db3)" using changed(8) True pid by simp
      thus ?thesis
      proof (rule supersede_att_ok[OF _ ok2])
        fix b assume "b \<in> set (db_attestations db2)" "at_id b = at_id ?a"
        then obtain b0 where "b0 \<in> set (db_attestations db1)" "at_id b0 = at_id ?a" "at_supersedes_id b = at_supersedes_id b0"
          unfolding updateAttestationAndRequest_Inr(1)[OF changed(7)] by (auto elim!: in_update_whereE)
        thus "at_supersedes_id b = Some pid" using distinct_map_key_eq[OF att_okD(1)[OF ok] _ l(2)] pid by auto
      qed
    qed
    from keepsD[OF domain_inv_parts(1) this changed(9)] have "domain_inv db4" .
    from keepsD[OF domain_inv_parts(4) keepsD[OF domain_inv_parts(3) this changed(10)] changed(11)] have "domain_inv db6" .
    thus ?thesis using load_db[OF changed(12)] by simp
  qed
qed

lemma revoke_keeps: "keeps domain_inv (revoke_body sv inp)"
proof (rule keepsI)
  fix db x db' assume inv: "domain_inv db" and run: "revoke_body sv inp db = Inr (x, db')"
  from run show "domain_inv db'"
  proof (cases rule: revoke_steps)
    case replayed
    thus ?thesis using keepsD[OF domain_inv_parts(5) inv] by blast
  next
    case (changed cid x db1 row i db2 db3 db4 h db5 db6 db7 nxt)
    have ok: "att_ok {} (db_attestations db1) (db_requests db1)"
      using keepsD[OF domain_inv_parts(5) inv changed(2)] by (simp add: domain_inv_def)
    note l = loadRow_D[OF changed(4)] and n = changed(6)[unfolded domain_command_simps]
    have db3: "db_attestations db3 = db_attestations db1" "db_requests db3 = db_requests db1"
      using untouchedD[OF given_or_new_frame(2) changed(7)] untouchedD[OF given_or_new_frame(1) changed(7)]
        untouchedD[OF tables_frame(3) changed(8)] untouchedD[OF tables_frame(4) changed(8)] by simp_all
    have "att_ok {} (db_attestations db4) (db_requests db4)"
      by (rule advance_att_ok[OF changed(9)]) (use ok l(2,5,6) row_in_sync[OF ok l(2,5,6)] n db3 in auto)
    hence "domain_inv db4" by (simp add: domain_inv_def)
    from keepsD[OF domain_inv_parts(1) this changed(10)] have "domain_inv db5" .
    from keepsD[OF domain_inv_parts(4) keepsD[OF domain_inv_parts(3) this changed(11)] changed(12)] have "domain_inv db7" .
    thus ?thesis using load_db[OF changed(13)] by simp
  qed
qed

section \<open>Histories\<close>

text \<open>A call in the context of a command, whatever its result.\<close>

inductive domain_call ::
  "services \<Rightarrow> (ReviewerAuthorizationDecision \<Rightarrow> string) \<Rightarrow> CommandContext \<Rightarrow> database \<Rightarrow> database \<Rightarrow> bool" for sv js where
  create: "createRequest sv inp db = (r, db') \<Longrightarrow> domain_call sv js (ci_context inp) db db'"
| change: "(c, opn) \<in> set verification_operations \<Longrightarrow> opn sv inp db = (r, db') \<Longrightarrow> domain_call sv js (ti_context inp) db db'"
| decide: "recordReviewDecision sv js inp db = (r, db') \<Longrightarrow> domain_call sv js (di_context inp) db db'"
| issue: "issue sv inp db = (r, db') \<Longrightarrow> domain_call sv js (ii_context inp) db db'"
| activate: "activate sv inp db = (r, db') \<Longrightarrow> domain_call sv js (mi_context inp) db db'"
| expire: "expire sv inp db = (r, db') \<Longrightarrow> domain_call sv js (mi_context inp) db db'"
| revoke: "revoke sv inp db = (r, db') \<Longrightarrow> domain_call sv js (mi_context inp) db db'"

definition domain_step :: "services \<Rightarrow> (ReviewerAuthorizationDecision \<Rightarrow> string) \<Rightarrow> database \<Rightarrow> database \<Rightarrow> bool" where
  "domain_step sv js db db' \<longleftrightarrow> (\<exists>context. domain_call sv js context db db')"

text \<open>What all the bodies keep, a step keeps.\<close>

lemma domain_call_invariant:
  assumes call: "domain_call sv js context db db'" and "I db"
    and "\<And>inp. ci_context inp = context \<Longrightarrow> keeps I (createRequest_body sv inp)"
    and "\<And>c opn inp. ti_context inp = context \<Longrightarrow> (c, opn) \<in> set verification_operations \<Longrightarrow>
        keeps I (transition_body sv (verification_command_name c) (run_verification c) inp)"
    and "\<And>inp. di_context inp = context \<Longrightarrow> keeps I (recordReviewDecision_body sv js inp)"
    and "\<And>inp. ii_context inp = context \<Longrightarrow> keeps I (issue_body sv inp)"
    and "\<And>command activating inp. mi_context inp = context \<Longrightarrow> keeps I (changeActiveState_body sv command activating inp)"
    and "\<And>inp. mi_context inp = context \<Longrightarrow> keeps I (revoke_body sv inp)"
  shows "I db'"
  using call
proof cases
  case (create inp r)
  thus ?thesis using transaction_keeps[OF assms(3)[OF create(1)[symmetric]] assms(2)] assms(2)
    by (auto simp: createRequest_def split: sum.splits)
next
  case (change c opn inp r)
  thus ?thesis using transaction_keeps[OF assms(4)[OF change(1)[symmetric] change(2)] assms(2)] assms(2)
    by (auto simp: verification_operation_is_transition(1)[OF change(2)] transition_def split: sum.splits)
next
  case (decide inp r)
  thus ?thesis using transaction_keeps[OF assms(5)[OF decide(1)[symmetric]] assms(2)] assms(2)
    by (auto simp: recordReviewDecision_def split: sum.splits if_splits)
next
  case (issue inp r)
  thus ?thesis using transaction_keeps[OF assms(6)[OF issue(1)[symmetric]] assms(2)] assms(2)
    by (auto simp: issue_def split: sum.splits)
next
  case (activate inp r)
  thus ?thesis using transaction_keeps[OF assms(7)[OF activate(1)[symmetric]] assms(2)] by (auto simp: activate_def changeActiveState_def)
next
  case (expire inp r)
  thus ?thesis using transaction_keeps[OF assms(7)[OF expire(1)[symmetric]] assms(2)] by (auto simp: expire_def changeActiveState_def)
next
  case (revoke inp r)
  thus ?thesis using transaction_keeps[OF assms(8)[OF revoke(1)[symmetric]] assms(2)] by (auto simp: revoke_def)
qed

lemma domain_step_invariant:
  assumes "domain_step sv js db db'" "I db" "\<And>inp. keeps I (createRequest_body sv inp)"
    and "\<And>c opn inp. (c, opn) \<in> set verification_operations \<Longrightarrow>
        keeps I (transition_body sv (verification_command_name c) (run_verification c) inp)"
    and "\<And>inp. keeps I (recordReviewDecision_body sv js inp)" "\<And>inp. keeps I (issue_body sv inp)"
    and "\<And>command activating inp. keeps I (changeActiveState_body sv command activating inp)"
    and "\<And>inp. keeps I (revoke_body sv inp)"
  shows "I db'"
proof -
  obtain ctx where "domain_call sv js ctx db db'" using assms(1) unfolding domain_step_def by blast
  thus ?thesis by (rule domain_call_invariant[of sv js _ db db' I]) (use assms(2-) in blast)+
qed

lemma operation_keeps:
  assumes "(c, opn) \<in> set verification_operations"
  shows "keeps domain_inv (transition_body sv name (run_verification c) inp)"
  by (rule transition_keeps)
     (use verification_operation_is_transition(2)[OF assms] in \<open>auto simp: verification.run_eq_Inr\<close>)

lemma domain_step_inv: "domain_step sv js db db' \<Longrightarrow> domain_inv db \<Longrightarrow> domain_inv db'"
  by (rule domain_step_invariant)
     (auto intro: create_keeps decision_keeps issue_keeps changeActive_keeps revoke_keeps operation_keeps)

lemma domain_steps_inv: "(domain_step sv js)\<^sup>*\<^sup>* db db' \<Longrightarrow> domain_inv db \<Longrightarrow> domain_inv db'"
  by (induction rule: rtranclp_induct) (auto intro: domain_step_inv)

section \<open>Requests follow the machine\<close>

definition follows_machine :: "request_row \<Rightarrow> bool" where
  "follows_machine r \<longleftrightarrow>
     (\<exists>cs. run_all run_verification cs V_requested = Inr (rq_state r) \<and> rq_version r = 1 + int (length cs))"

definition requests_follow :: "database \<Rightarrow> bool" where
  "requests_follow db \<longleftrightarrow> (\<forall>r \<in> set (db_requests db). follows_machine r)"

lemma follows_machine_step:
  assumes "follows_machine r" "request_update_ok r q"
  shows "follows_machine q"
proof -
  obtain cs where cs: "run_all run_verification cs V_requested = Inr (rq_state r)" "rq_version r = 1 + int (length cs)"
    using assms(1) by (auto simp: follows_machine_def)
  obtain c where "run_verification c (rq_state r) = Inr (rq_state q)"
    using assms(2) unfolding request_update_ok_def verification_guard_iff by blast
  hence "run_all run_verification (cs @ [c]) V_requested = Inr (rq_state q)" using cs(1) by (simp add: run_all_snoc)
  thus ?thesis using cs(2) assms(2) unfolding follows_machine_def request_update_ok_def by (intro exI[of _ "cs @ [c]"]) simp
qed

lemma requests_follow_frame: "untouched db_requests m \<Longrightarrow> keeps requests_follow m"
  by (auto simp: keeps_def untouched_def requests_follow_def)

lemma update_requests_follow [keeps_rules]: "keeps requests_follow (update_requests P f)"
  by (rule keepsI)
     (auto simp: update_requests_Inr requests_follow_def elim!: in_update_whereE intro: follows_machine_step)

lemma insert_request_follow [keeps_rules]:
  "rq_state row = V_requested \<Longrightarrow> rq_version row = 1 \<Longrightarrow> keeps requests_follow (insert_request row)"
  by (rule keepsI) (auto simp: insert_request_Inr requests_follow_def follows_machine_def intro!: exI[of _ "[]"])

lemma domain_parts_follow [keeps_rules]:
  "keeps requests_follow (appendAudit sv context cid command target result)"
  "keeps requests_follow (enqueueDomainEvent sv cid' reference ty version state context)"
  "keeps requests_follow (enqueue_attestation_event sv cid' reference ty version state context)"
  "keeps requests_follow (completeIdempotency sv key reference version state)"
  "keeps requests_follow (beginIdempotency sv cid' command context)"
  "keeps requests_follow (given_or_new sv i)" "keeps requests_follow (committeeId ref)"
  "keeps requests_follow (insert_status s)" "keeps requests_follow (insert_revocation v)"
  "keeps requests_follow (insert_decision d)" "keeps requests_follow (insert_attestation a)"
  "keeps requests_follow (load_request cid' reference)" "keeps requests_follow (loadRecord cid' reference flag)"
  "keeps requests_follow (replayRecord old x)" "keeps requests_follow (load cid' reference flag)"
  "keeps requests_follow (replay_attestation old' x)" "keeps requests_follow (loadRow cid' reference)"
  by (rule requests_follow_frame, intro frame_rules)+

lemma attestation_updates_follow [keeps_rules]:
  "keeps requests_follow (update_attestations Q g)" "keeps requests_follow (update_statuses R k)"
  "keeps requests_follow (updateAttestationAndRequest row st t flag)" "keeps requests_follow (loadRowById i cid)"
  "keeps requests_follow (renewal_of cid request prior)" "keeps requests_follow (supersede_predecessor sv cid inp pid)"
proof -
  show a: "keeps requests_follow (update_attestations Q g)" "keeps requests_follow (update_statuses R k)" for Q g R k
    unfolding update_attestations_def update_statuses_def
    by (rule requests_follow_frame; intro frame_rules untouched_writeT; simp)+
  show b: "keeps requests_follow (updateAttestationAndRequest row st t flag)" for row st t flag
    unfolding updateAttestationAndRequest_def by (intro keeps_rules a)
  show c: "keeps requests_follow (loadRowById i cid)" for i cid unfolding loadRowById_def by (intro keeps_rules)
  show "keeps requests_follow (renewal_of cid request prior)" unfolding renewal_of_def by (intro keeps_rules)
  show "keeps requests_follow (supersede_predecessor sv cid inp pid)"
    unfolding supersede_predecessor_def by (intro keeps_rules b c)
qed

lemma domain_step_follow:
  assumes "domain_step sv js db db'" "requests_follow db"
  shows "requests_follow db'"
  using assms
proof (rule domain_step_invariant)
  show "keeps requests_follow (createRequest_body sv inp)" for inp
    unfolding createRequest_body_def by (intro keeps_rules; simp)
  show "keeps requests_follow (transition_body sv name command inp)" for name command inp
    unfolding transition_body_def by (intro keeps_rules)
  show "keeps requests_follow (recordReviewDecision_body sv js inp)" for inp
    unfolding recordReviewDecision_body_def by (intro keeps_rules)
  show "keeps requests_follow (issue_body sv inp)" for inp unfolding issue_body_def by (intro keeps_rules)
  show "keeps requests_follow (changeActiveState_body sv command activating inp)" for command activating inp
    unfolding changeActiveState_body_def by (intro keeps_rules)
  show "keeps requests_follow (revoke_body sv inp)" for inp unfolding revoke_body_def by (intro keeps_rules)
qed

section \<open>Guarantees\<close>

text \<open>
  C1. A participant has at most one active attestation in a committee.  Over every history of the
  verification and attestation repositories from a consistent database, for example one without
  requests and attestations, two attestations of the same participant in the same committee that are
  both active are the same row; and every older version than an active one is superseded.
\<close>

theorem one_active_attestation:
  assumes "domain_inv db0" "(domain_step sv js)\<^sup>*\<^sup>* db0 db"
    and "a \<in> set (db_attestations db)" "b \<in> set (db_attestations db)" "at_state b = V_active"
    and "at_committee_id a = at_committee_id b" "at_participant_id a = at_participant_id b"
  shows "(at_state a = V_active \<longrightarrow> a = b) \<and> (at_version a < at_version b \<longrightarrow> at_state a = V_superseded)"
proof -
  have ok: "att_ok {} (db_attestations db) (db_requests db)"
    using domain_steps_inv[OF assms(2,1)] by (simp add: domain_inv_def)
  have old: "at_state x = V_superseded" if "x \<in> set (db_attestations db)" "y \<in> set (db_attestations db)" "at_state y = V_active"
      "at_committee_id x = at_committee_id y" "at_participant_id x = at_participant_id y" "at_version x < at_version y" for x y
    using older_superseded[OF ok that(1,2)] that by simp
  have "a = b" if act: "at_state a = V_active"
  proof -
    consider "at_version a < at_version b" | "at_version b < at_version a" | "at_version a = at_version b" by linarith
    thus ?thesis
    proof cases
      case 1 thus ?thesis using old[OF assms(3,4,5,6,7)] act by simp
    next
      case 2 thus ?thesis using old[OF assms(4,3) act] assms(5-7) by simp
    next
      case 3 thus ?thesis using att_okD(6)[OF ok assms(3,4)] assms(6,7) by (simp add: same_version_def)
    qed
  qed
  thus ?thesis using old[OF assms(3,4,5,6,7)] by blast
qed

text \<open>
  C2. Attestations and requests agree.  Over every history from a consistent database, a request has at
  most one attestation, every attestation is in the state of its request, with the same committee and
  participant, its issuance is complete exactly when it has left the state issued, and its window is at
  most 45 days; and every request was brought to its state by a sequence of commands of the domain
  package, one for each increment of its version.
\<close>

theorem attestation_follows_request:
  assumes "domain_inv db0" "requests_follow db0" "(domain_step sv js)\<^sup>*\<^sup>* db0 db"
  shows "(\<forall>a \<in> set (db_attestations db). \<exists>r \<in> set (db_requests db). rq_id r = at_request_id a \<and> rq_state r = at_state a
        \<and> rq_committee_id r = at_committee_id a \<and> rq_participant_id r = at_participant_id a
        \<and> at_issuance_complete a = (at_state a \<noteq> V_issued) \<and> at_expires_at a \<le> at_valid_from a + 45 * 86400000)
    \<and> distinct (map at_request_id (db_attestations db))
    \<and> (\<forall>r \<in> set (db_requests db). \<exists>cs. run_all run_verification cs V_requested = Inr (rq_state r)
        \<and> rq_version r = 1 + int (length cs))"
proof -
  have ok: "att_ok {} (db_attestations db) (db_requests db)"
    using domain_steps_inv[OF assms(3,1)] by (simp add: domain_inv_def)
  have "requests_follow db" using assms(3,2) by (induction rule: rtranclp_induct) (auto intro: domain_step_follow)
  moreover have "\<exists>r \<in> set (db_requests db). rq_id r = at_request_id a \<and> rq_state r = at_state a
        \<and> rq_committee_id r = at_committee_id a \<and> rq_participant_id r = at_participant_id a
        \<and> at_issuance_complete a = (at_state a \<noteq> V_issued) \<and> at_expires_at a \<le> at_valid_from a + 45 * 86400000"
    if a: "a \<in> set (db_attestations db)" for a
  proof -
    have "at_expires_at a \<le> at_valid_from a + 45 * 86400000"
      using att_okD(7)[OF ok a]
      by (simp add: attestation_row_ok_def MAX_ATTESTATION_VALIDITY_MS_def MAX_ATTESTATION_VALIDITY_DAYS_def)
    thus ?thesis using att_okD(9,11)[OF ok a] unfolding request_ok_def by blast
  qed
  ultimately show ?thesis using att_okD(3)[OF ok] unfolding requests_follow_def follows_machine_def by blast
qed

section \<open>A renewal for the examples\<close>

text \<open>A committee and a participant with an active attestation and an issued renewal of it.\<close>

definition example_request :: "string \<Rightarrow> VerificationState \<Rightarrow> int \<Rightarrow> request_row" where
  "example_request i st v = \<lparr>rq_id = i, rq_external_reference = ''request'' @ i, rq_committee_id = ''c'', rq_participant_id = ''p'',
     rq_policy_version_id = ''v'', rq_state = st, rq_version = v\<rparr>"

definition example_attestation_row :: "string \<Rightarrow> VerificationState \<Rightarrow> int \<Rightarrow> string option \<Rightarrow> attestation_row" where
  "example_attestation_row i st v prior = \<lparr>at_id = i, at_external_reference = ''attestation'' @ i, at_committee_id = ''c'',
     at_participant_id = ''p'', at_request_id = i, at_policy_version_id = ''v'', at_version = v, at_state = st,
     at_valid_from = v, at_expires_at = v + 10, at_issuance_complete = (st \<noteq> V_issued), at_supersedes_id = prior\<rparr>"

definition renewal_db :: database where
  "renewal_db = empty_database\<lparr>
     db_committees := [\<lparr>cm_id = ''c'', cm_external_reference = ''committee'', cm_state = C_active, cm_version = 1\<rparr>],
     db_participants := [\<lparr>pa_id = ''p'', pa_external_reference = ''participant''\<rparr>], db_policies := [''v''],
     db_requests := [example_request ''a'' V_active 8, example_request ''b'' V_issued 7],
     db_attestations := [example_attestation_row ''a'' V_active 1 None, example_attestation_row ''b'' V_issued 2 (Some ''a'')],
     db_statuses := [\<lparr>st_attestation_id = ''a'', st_committee_id = ''c'', st_state = V_active, st_effective_at = 1, st_version = 2\<rparr>,
       \<lparr>st_attestation_id = ''b'', st_committee_id = ''c'', st_state = V_issued, st_effective_at = 2, st_version = 1\<rparr>]\<rparr>"

definition renewal_input :: MutateAttestationInput where
  "renewal_input = \<lparr>mi_attestationReference = ''attestationb'', mi_expectedStatusVersion = num 1, mi_observedAt = 3,
     mi_context = example_context ''k''\<rparr>"

lemma renewal_db_inv: "domain_inv renewal_db"
  by (simp add: domain_inv_def renewal_db_def att_ok_def example_request_def example_attestation_row_def predecessor_ok_def
      request_ok_def same_version_def attestation_row_ok_def attestation_states_def empty_database_def
      MAX_ATTESTATION_VALIDITY_MS_def MAX_ATTESTATION_VALIDITY_DAYS_def)

lemma renewal_db_follows: "requests_follow renewal_db"
proof -
  let ?cs = "[ScheduleRequest, CheckInParticipant, BeginReview, ApproveVerification, RequestIssuance, RecordIssuance]"
  have "run_all run_verification ?cs V_requested = Inr V_issued"
    "run_all run_verification (?cs @ [ActivateAttestation]) V_requested = Inr V_active" by code_simp+
  hence "follows_machine (example_request ''a'' V_active 8)" "follows_machine (example_request ''b'' V_issued 7)"
    unfolding follows_machine_def example_request_def
    by (intro exI[of _ "?cs @ [ActivateAttestation]"] exI[of _ ?cs]; simp)+
  thus ?thesis by (simp add: requests_follow_def renewal_db_def)
qed

lemma renewal_activates:
  "map (\<lambda>a. (at_id a, at_committee_id a, at_participant_id a, at_version a, at_state a))
       (db_attestations (snd (activate example_services renewal_input renewal_db))) =
     [(''a'', ''c'', ''p'', 1, V_superseded), (''b'', ''c'', ''p'', 2, V_active)]"
  by code_simp

lemma renewal_history:
  "(domain_step example_services (\<lambda>_. []))\<^sup>*\<^sup>* renewal_db (snd (activate example_services renewal_input renewal_db))"
  using domain_call.activate[OF prod.collapse[symmetric]] unfolding domain_step_def by (intro r_into_rtranclp) blast

theorem one_active_attestation_witness:
  "\<exists>a b. db_attestations (snd (activate example_services renewal_input renewal_db)) = [a, b]
     \<and> at_state b = V_active \<and> at_state a = V_superseded"
proof -
  obtain a b where ab: "db_attestations (snd (activate example_services renewal_input renewal_db)) = [a, b]"
    "at_committee_id a = at_committee_id b" "at_participant_id a = at_participant_id b"
    "at_version a < at_version b" "at_state b = V_active"
    using renewal_activates by (auto simp: map_eq_Cons_conv)
  have "(at_state a = V_active \<longrightarrow> a = b) \<and> (at_version a < at_version b \<longrightarrow> at_state a = V_superseded)"
    by (rule one_active_attestation[OF renewal_db_inv renewal_history]) (use ab in simp_all)
  thus ?thesis using ab by blast
qed

theorem attestation_follows_request_witness:
  "distinct (map at_request_id (db_attestations (snd (activate example_services renewal_input renewal_db))))
   \<and> (\<exists>r \<in> set (db_requests (snd (activate example_services renewal_input renewal_db))). rq_state r = V_superseded)"
proof -
  note ok = attestation_follows_request[OF renewal_db_inv renewal_db_follows renewal_history]
  obtain a where a: "a \<in> set (db_attestations (snd (activate example_services renewal_input renewal_db)))" "at_state a = V_superseded"
    using renewal_activates by (force simp: map_eq_Cons_conv)
  show ?thesis using ok a by fastforce
qed

end
