(* ===== verification/Domain_Replay.thy ===== *)
theory Domain_Replay
  imports Domain_Properties
begin

text \<open>
  Repeated commands.  A command that succeeded is answered from its idempotency record whenever it is
  repeated, whatever other commands came in between, and its key refuses every other command.
\<close>

section \<open>Committees and participants stay\<close>

definition static :: "database \<Rightarrow> committee_row list \<times> participant_row list" where
  "static db = (db_committees db, db_participants db)"

lemma static_frameI: "untouched db_committees m \<Longrightarrow> untouched db_participants m \<Longrightarrow> untouched static m"
  by (auto simp: untouched_def static_def)

lemma static_parts [frame_rules]:
  "untouched static (appendAudit sv context oid command target result)"
  "untouched static (enqueueDomainEvent sv cid reference ty version state context)"
  "untouched static (enqueue_attestation_event sv cid reference ty version state context)"
  "untouched static (completeIdempotency sv key reference version state)"
  "untouched static (beginIdempotency sv cid command context)" "untouched static (given_or_new sv i)"
  by (rule static_frameI; intro frame_rules)+

lemma static_tables [frame_rules]:
  "untouched static (committeeId ref)" "untouched static (insert_request r)" "untouched static (update_requests P f)"
  "untouched static (insert_decision d)" "untouched static (insert_attestation a)" "untouched static (insert_status s)"
  "untouched static (insert_revocation v)" "untouched static (update_attestations Q g)" "untouched static (update_statuses R k)"
  unfolding committeeId_def insert_request_def update_requests_def insert_decision_def insert_attestation_def
    insert_status_def insert_revocation_def update_attestations_def update_statuses_def
  by (intro frame_rules untouched_writeT; simp add: static_def)+

lemma static_helpers [frame_rules]:
  "untouched static (updateAttestationAndRequest row st t flag)" "untouched static (loadRowById i cid)"
  "untouched static (renewal_of cid request prior)" "untouched static (supersede_predecessor sv cid inp pid)"
proof -
  show a: "untouched static (updateAttestationAndRequest row st t flag)" for row st t flag
    unfolding updateAttestationAndRequest_def by (intro frame_rules)
  show b: "untouched static (loadRowById i cid)" for i cid unfolding loadRowById_def by (intro frame_rules)
  show "untouched static (renewal_of cid request prior)" unfolding renewal_of_def by (intro frame_rules)
  show "untouched static (supersede_predecessor sv cid inp pid)"
    unfolding supersede_predecessor_def by (intro frame_rules a b)
qed

lemma static_requests:
  "untouched static (createRequest_body sv ci)" "untouched static (transition_body sv name command ti)"
  "untouched static (recordReviewDecision_body sv js di)"
  unfolding createRequest_body_def transition_body_def recordReviewDecision_body_def by (intro frame_rules)+

lemma static_issue: "untouched static (issue_body sv ii)"
  unfolding issue_body_def by (intro frame_rules)

lemma static_attestations:
  "untouched static (changeActiveState_body sv command' activating mi)" "untouched static (revoke_body sv ri)"
  unfolding changeActiveState_body_def revoke_body_def by (intro frame_rules)+

section \<open>A completed key is kept\<close>

lemma idempotency_parts [frame_rules]:
  "untouched db_idempotency (committeeId ref)" "untouched db_idempotency (insert_request r)"
  "untouched db_idempotency (update_requests P f)" "untouched db_idempotency (insert_decision d)"
  "untouched db_idempotency (insert_attestation a)" "untouched db_idempotency (insert_status s)"
  "untouched db_idempotency (insert_revocation v)" "untouched db_idempotency (update_attestations Q g)"
  "untouched db_idempotency (update_statuses R k)"
  unfolding committeeId_def insert_request_def update_requests_def insert_decision_def insert_attestation_def
    insert_status_def insert_revocation_def update_attestations_def update_statuses_def
  by (intro frame_rules untouched_writeT; simp)+

lemma idempotency_helpers [frame_rules]:
  "untouched db_idempotency (updateAttestationAndRequest row st t flag)" "untouched db_idempotency (loadRowById i cid)"
  "untouched db_idempotency (renewal_of cid request prior)" "untouched db_idempotency (supersede_predecessor sv cid inp pid)"
proof -
  show a: "untouched db_idempotency (updateAttestationAndRequest row st t flag)" for row st t flag
    unfolding updateAttestationAndRequest_def by (intro frame_rules)
  show b: "untouched db_idempotency (loadRowById i cid)" for i cid unfolding loadRowById_def by (intro frame_rules)
  show "untouched db_idempotency (renewal_of cid request prior)" unfolding renewal_of_def by (intro frame_rules)
  show "untouched db_idempotency (supersede_predecessor sv cid inp pid)"
    unfolding supersede_predecessor_def by (intro frame_rules a b)
qed

lemma remembers_parts [keeps_rules]:
  "keeps (remembers scope kh digest name ocid reference state version) (beginIdempotency sv cid command context)"
  "untouched db_idempotency m \<Longrightarrow> keeps (remembers scope kh digest name ocid reference state version) m"
  unfolding beginIdempotency_def by (intro keeps_rules, rule remembers_frame)

lemma domain_step_remembers:
  assumes "domain_step sv js db db'" "remembers scope kh digest name ocid reference state version db"
  shows "remembers scope kh digest name ocid reference state version db'"
  using assms
proof (rule domain_step_invariant)
  let ?I = "remembers scope kh digest name ocid reference state version"
  show "keeps ?I (createRequest_body sv inp)" for inp
    unfolding createRequest_body_def by (intro keeps_rules frame_rules)
  show "keeps ?I (transition_body sv name command inp)" for name command inp
    unfolding transition_body_def by (intro keeps_rules frame_rules)
  show "keeps ?I (recordReviewDecision_body sv js inp)" for inp
    unfolding recordReviewDecision_body_def by (intro keeps_rules frame_rules)
  show "keeps ?I (issue_body sv inp)" for inp unfolding issue_body_def by (intro keeps_rules frame_rules)
  show "keeps ?I (changeActiveState_body sv command activating inp)" for command activating inp
    unfolding changeActiveState_body_def by (intro keeps_rules frame_rules)
  show "keeps ?I (revoke_body sv inp)" for inp unfolding revoke_body_def by (intro keeps_rules frame_rules)
qed

section \<open>A request is kept\<close>

definition holds_request :: "string \<Rightarrow> string \<Rightarrow> string \<Rightarrow> committee_row list \<times> participant_row list \<Rightarrow> database \<Rightarrow> bool" where
  "holds_request cid reference pid tables db \<longleftrightarrow>
     static db = tables \<and> (\<exists>r. find_request cid reference db = Some r \<and> rq_participant_id r = pid)"

lemma find_request_static:
  assumes "static db' = static db"
  shows "find_request cid reference db' =
    select_where (\<lambda>r. rq_external_reference r = reference \<and> rq_committee_id r = cid
      \<and> participant_of db (rq_participant_id r) \<noteq> None \<and> committee_of db (rq_committee_id r) \<noteq> None) (db_requests db')"
  using assms by (simp add: find_request_def static_def participant_of_def committee_of_def)

lemma holds_request_frame [keeps_rules]:
  assumes "untouched static m" "untouched db_requests m"
  shows "keeps (holds_request cid reference pid tables) m"
proof (rule keepsI)
  fix db a db' assume h: "holds_request cid reference pid tables db" and run: "m db = Inr (a, db')"
  have "static db' = static db" "db_requests db' = db_requests db"
    using untouchedD[OF assms(1) run] untouchedD[OF assms(2) run] .
  hence "find_request cid reference db' = find_request cid reference db"
    by (simp add: static_def find_request_def participant_of_def committee_of_def)
  thus "holds_request cid reference pid tables db'" using h \<open>static db' = static db\<close> by (simp add: holds_request_def)
qed

lemma holds_request_writes:
  "keeps (holds_request cid reference pid tables) (insert_request row)"
  "(\<And>r. rq_external_reference (f r) = rq_external_reference r) \<Longrightarrow> (\<And>r. rq_committee_id (f r) = rq_committee_id r) \<Longrightarrow>
   (\<And>r. rq_participant_id (f r) = rq_participant_id r) \<Longrightarrow> keeps (holds_request cid reference pid tables) (update_requests P f)"
proof -
  show "keeps (holds_request cid reference pid tables) (insert_request row)"
  proof (rule keepsI)
    fix db a db' assume h: "holds_request cid reference pid tables db" and run: "insert_request row db = Inr (a, db')"
    have s: "static db' = static db" using untouchedD[OF static_tables(2) run] .
    have "db_requests db' = db_requests db @ [row]" using run by (simp add: insert_request_Inr)
    thus "holds_request cid reference pid tables db'"
      using h s unfolding holds_request_def find_request_static[OF s]
      by (auto simp: find_request_def select_where_append split: option.splits)
  qed
next
  assume f: "\<And>r. rq_external_reference (f r) = rq_external_reference r" "\<And>r. rq_committee_id (f r) = rq_committee_id r"
    "\<And>r. rq_participant_id (f r) = rq_participant_id r"
  show "keeps (holds_request cid reference pid tables) (update_requests P f)"
  proof (rule keepsI)
    fix db a db' assume h: "holds_request cid reference pid tables db" and run: "update_requests P f db = Inr (a, db')"
    have s: "static db' = static db" using untouchedD[OF static_tables(3) run] .
    have "db_requests db' = update_where P f (db_requests db)" using run by (simp add: update_requests_Inr)
    thus "holds_request cid reference pid tables db'"
      using h s f unfolding holds_request_def find_request_static[OF s]
      by (auto simp: find_request_def select_where_update_where split: option.splits)
  qed
qed

lemma holds_request_helpers:
  "keeps (holds_request cid reference pid tables) (updateAttestationAndRequest row st t flag)"
  "keeps (holds_request cid reference pid tables) (supersede_predecessor sv cid' inp i)"
proof -
  show a: "keeps (holds_request cid reference pid tables) (updateAttestationAndRequest row st t flag)" for row st t flag
    unfolding updateAttestationAndRequest_def update_attestations_def update_statuses_def
    by (intro keeps_bindT keeps_basic holds_request_writes; (rule holds_request_frame; intro untouched_writeT)?; simp add: static_def)
  show "keeps (holds_request cid reference pid tables) (supersede_predecessor sv cid' inp i)"
    unfolding supersede_predecessor_def loadRowById_def
    by (intro keeps_bindT keeps_basic keeps_option a; rule holds_request_frame; intro frame_rules)
qed

lemma domain_step_holds:
  assumes "domain_step sv js db db'" "holds_request cid reference pid tables db"
  shows "holds_request cid reference pid tables db'"
  using assms
proof (rule domain_step_invariant)
  let ?I = "holds_request cid reference pid tables"
  note writes = holds_request_writes holds_request_helpers
  show "keeps ?I (createRequest_body sv inp)" for inp
    unfolding createRequest_body_def by (intro writes keeps_rules frame_rules)
  show "keeps ?I (transition_body sv name command inp)" for name command inp
    unfolding transition_body_def by (intro writes keeps_rules frame_rules; simp)
  show "keeps ?I (recordReviewDecision_body sv js inp)" for inp
    unfolding recordReviewDecision_body_def by (intro keeps_rules frame_rules)
  show "keeps ?I (issue_body sv inp)" for inp
    unfolding issue_body_def renewal_of_def by (intro keeps_rules frame_rules)
  show "keeps ?I (changeActiveState_body sv command activating inp)" for command activating inp
    unfolding changeActiveState_body_def by (intro writes keeps_rules frame_rules)
  show "keeps ?I (revoke_body sv inp)" for inp
    unfolding revoke_body_def by (intro writes keeps_rules frame_rules)
qed

section \<open>The answer to a repeated command\<close>

definition answers :: "services \<Rightarrow> string \<Rightarrow> TransitionInput \<Rightarrow> VerificationRecord \<Rightarrow> database \<Rightarrow> bool" where
  "answers sv name inp rec db \<longleftrightarrow>
     (\<exists>cid pid tables. committeeId (cx_committeeReference (ti_context inp)) db = Inr (cid, db)
        \<and> remembers (''committee:'' @ cx_committeeReference (ti_context inp)) (sha256 sv (cx_idempotencyKey (ti_context inp)))
            (cx_requestDigest (ti_context inp)) name (Some cid) (ti_requestReference inp) (vr_state rec) (vr_version rec) db
        \<and> holds_request cid (ti_requestReference inp) pid tables db
        \<and> vr_externalReference rec = ti_requestReference inp
        \<and> vr_committeeReference rec = cm_external_reference (the (committee_of db cid))
        \<and> vr_participantReference rec = pa_external_reference (the (participant_of db pid))
        \<and> vr_state rec \<noteq> [] \<and> vr_version rec \<noteq> 0)"

lemma answers_step:
  assumes "domain_step sv' js db db'" "answers sv name inp rec db"
  shows "answers sv name inp rec db'"
proof -
  obtain cid pid tables where a: "committeeId (cx_committeeReference (ti_context inp)) db = Inr (cid, db)"
    "remembers (''committee:'' @ cx_committeeReference (ti_context inp)) (sha256 sv (cx_idempotencyKey (ti_context inp)))
       (cx_requestDigest (ti_context inp)) name (Some cid) (ti_requestReference inp) (vr_state rec) (vr_version rec) db"
    "holds_request cid (ti_requestReference inp) pid tables db" "vr_externalReference rec = ti_requestReference inp"
    "vr_committeeReference rec = cm_external_reference (the (committee_of db cid))"
    "vr_participantReference rec = pa_external_reference (the (participant_of db pid))" "vr_state rec \<noteq> []" "vr_version rec \<noteq> 0"
    using assms(2) unfolding answers_def by blast
  note h = domain_step_holds[OF assms(1) a(3)] and m = domain_step_remembers[OF assms(1) a(2)]
  have s: "db_committees db' = db_committees db" "db_participants db' = db_participants db"
    using h a(3) by (auto simp: holds_request_def static_def)
  show ?thesis unfolding answers_def
    by (rule exI[of _ cid], rule exI[of _ pid], rule exI[of _ tables])
       (use a h m s in \<open>auto simp: committeeId_Inr committee_of_def participant_of_def\<close>)
qed

lemma answers_replay:
  assumes "answers sv name inp rec db" "ti_requestReference inp \<noteq> []"
  shows "transition_body sv name command inp db = Inr (rec\<lparr>vr_replayed := True\<rparr>, db\<lparr>db_ids := Suc (db_ids db)\<rparr>)"
proof -
  obtain cid pid tables r where a: "committeeId (cx_committeeReference (ti_context inp)) db = Inr (cid, db)"
    "remembers (''committee:'' @ cx_committeeReference (ti_context inp)) (sha256 sv (cx_idempotencyKey (ti_context inp)))
       (cx_requestDigest (ti_context inp)) name (Some cid) (ti_requestReference inp) (vr_state rec) (vr_version rec) db"
    "find_request cid (ti_requestReference inp) db = Some r" "rq_participant_id r = pid" "vr_externalReference rec = ti_requestReference inp"
    "vr_committeeReference rec = cm_external_reference (the (committee_of db cid))"
    "vr_participantReference rec = pa_external_reference (the (participant_of db pid))" "vr_state rec \<noteq> []" "vr_version rec \<noteq> 0"
    using assms(1) unfolding answers_def holds_request_def by blast
  let ?db = "db\<lparr>db_ids := Suc (db_ids db)\<rparr>"
  obtain key where b: "beginIdempotency sv cid name (ti_context inp) db =
      Inr (\<lparr>ix_id = key, ix_replayed = True, ix_resultReference = Some (ti_requestReference inp), ix_resultState = Some (vr_state rec),
            ix_resultVersion = Some (vr_version rec)\<rparr>, ?db)"
    using remembered_replays[OF a(2) assms(2) a(8,9)] unfolding beginIdempotency_def by blast
  have f: "find_request cid (ti_requestReference inp) ?db = Some r"
    using a(3) by (simp add: find_request_def participant_of_def committee_of_def)
  have r: "request_record ?db True r = \<lparr>vr_externalReference = ti_requestReference inp, vr_committeeReference = vr_committeeReference rec,
      vr_participantReference = vr_participantReference rec, vr_state = verification_state_name (rq_state r),
      vr_version = rq_version r, vr_replayed = True\<rparr>"
    using find_request_SomeD(2,3)[OF a(3)] a(4,6,7) by (simp add: request_record_def committee_of_def participant_of_def)
  have "transition_body sv name command inp db =
      bindT (loadRecord cid (ti_requestReference inp) True) (\<lambda>old. replayRecord old \<lparr>ix_id = key, ix_replayed = True,
        ix_resultReference = Some (ti_requestReference inp), ix_resultState = Some (vr_state rec),
        ix_resultVersion = Some (vr_version rec)\<rparr>) ?db"
    using a(1) b by (simp add: transition_body_def bindT_def)
  also have "\<dots> = Inr (rec\<lparr>vr_replayed := True\<rparr>, ?db)"
    using f r a(5,8,9) by (simp add: loadRecord_Inr replayRecord_def)
  finally show ?thesis .
qed

lemma verification_state_name_nonempty [simp]: "verification_state_name s \<noteq> []"
  by (cases s) simp_all

lemma committee_of_found:
  assumes "distinct (map cm_id (db_committees db))" "committeeId ref db = Inr (cid, db)"
  shows "cm_external_reference (the (committee_of db cid)) = ref"
proof -
  obtain c where c: "select_where (\<lambda>c. cm_external_reference c = ref) (db_committees db) = Some c" "cm_id c = cid"
    using assms(2) by (auto simp: committeeId_Inr)
  note d = select_where_SomeD[OF c(1)]
  have "select_where (\<lambda>c. cm_id c = cid) (db_committees db) = Some c"
    by (rule select_where_unique[OF assms(1) d(1)]) (use c(2) in auto)
  thus ?thesis using d(2) by (simp add: committee_of_def)
qed

lemma begin_idempotency_same:
  assumes "beginIdempotency sv cid name context db = Inr (x, db1)"
  shows "static db1 = static db" "db_requests db1 = db_requests db"
  using untouchedD[OF static_parts(5) assms] untouchedD[OF beginIdempotency_frame(1) assms] by auto

lemma transition_answers:
  assumes run: "transition_body sv name command inp db = Inr (rec, db')"
    and ids: "distinct (map cm_id (db_committees db))" "distinct (map rq_external_reference (db_requests db))"
  shows "answers sv name inp rec db'"
  using run
proof (cases rule: transition_steps)
  case (replayed cid x old)
  note same = begin_idempotency_same[OF replayed(2)]
  obtain row where row: "\<not> refuses (Some cid) name (ti_context inp) row"
    "select_where (has_key (''committee:'' @ cx_committeeReference (ti_context inp)) (sha256 sv (cx_idempotencyKey (ti_context inp))))
       (db_idempotency db) = Some row" "ix_resultReference x = ir_result_reference row" "ix_resultState x = ir_result_state row"
    "ix_resultVersion x = ir_result_version row" "db_idempotency db' = db_idempotency db"
    using replayed(2,3) unfolding beginIdempotency_def by (auto elim: beginIdempotency_in_Inr)
  obtain r where r: "find_request cid (ti_requestReference inp) db' = Some r" "old = request_record db' True r"
    using replayed(4) by (auto simp: loadRecord_Inr)
  have x: "ix_resultReference x = Some (vr_externalReference old)" "ix_resultState x \<noteq> None" "ix_resultState x \<noteq> Some []"
      "ix_resultVersion x \<noteq> None" "ix_resultVersion x \<noteq> Some 0"
    using replayed(5) by (auto simp: replayRecord_def elim: truthy.elims)
  show ?thesis unfolding answers_def
    by (rule exI[of _ cid], rule exI[of _ "rq_participant_id r"], rule exI[of _ "static db'"])
       (use replayed(1) replayRecord_Inr[OF replayed(5)] row r x same find_request_SomeD(2,3)[OF r(1)] in
         \<open>auto simp: committeeId_Inr remembers_def holds_request_def refuses_def request_record_def static_def\<close>)
next
  case (changed cid x db1 cur st u us db2 h db3 db4)
  note same = begin_idempotency_same[OF changed(2)]
  note cur = find_request_SomeD[OF changed(4)]
  have upd: "u # us = map (\<lambda>r. r\<lparr>rq_state := st, rq_version := rq_version r + 1\<rparr>)
      (filter (\<lambda>r. rq_external_reference r = ti_requestReference inp \<and> rq_committee_id r = cid
            \<and> num (rq_version r) = ti_expectedVersion inp) (db_requests db1))"
    and ok: "\<forall>r \<in> set (db_requests db1). rq_external_reference r = ti_requestReference inp \<and> rq_committee_id r = cid
            \<and> num (rq_version r) = ti_expectedVersion inp \<longrightarrow> request_update_ok r (r\<lparr>rq_state := st, rq_version := rq_version r + 1\<rparr>)"
    using changed(7) by (simp_all add: update_requests_Inr)
  have "u \<in> set (u # us)" by simp
  then obtain r where r: "r \<in> set (db_requests db1)" "rq_external_reference r = ti_requestReference inp" "rq_committee_id r = cid"
    "num (rq_version r) = ti_expectedVersion inp" "u = r\<lparr>rq_state := st, rq_version := rq_version r + 1\<rparr>"
    unfolding upd by auto
  hence u: "rq_participant_id u = rq_participant_id cur" "rq_version u \<noteq> 0"
    using distinct_map_key_eq[OF ids(2)[folded same(2)] r(1) cur(1)] cur(2) ok by (auto simp: request_update_ok_def)
  have idem: "db_idempotency db4 = db_idempotency db1"
    using untouchedD[OF idempotency_parts(3) changed(7)] untouchedD[OF appendAudit_frame(10) changed(8)]
      untouchedD[OF events_frame(3) changed(9)] by simp
  note rem = begin_complete_remembers[OF changed(2)[unfolded beginIdempotency_def] changed(3) idem changed(10)]
  have k: "keeps (holds_request cid (ti_requestReference inp) (rq_participant_id cur) (static db)) (update_requests P
      (\<lambda>r. r\<lparr>rq_state := st, rq_version := rq_version r + 1\<rparr>))" for P by (rule holds_request_writes) simp_all
  have "holds_request cid (ti_requestReference inp) (rq_participant_id cur) (static db) db1"
    using changed(4) same by (simp add: holds_request_def)
  from keepsD[OF k this changed(7)] have "holds_request cid (ti_requestReference inp) (rq_participant_id cur) (static db) db2" .
  from keepsD[OF holds_request_frame[OF static_parts(1) appendAudit_frame(5)] this changed(8)]
  have "holds_request cid (ti_requestReference inp) (rq_participant_id cur) (static db) db3" .
  from keepsD[OF holds_request_frame[OF static_parts(2) events_frame(1)] this changed(9)]
  have "holds_request cid (ti_requestReference inp) (rq_participant_id cur) (static db) db4" .
  from keepsD[OF holds_request_frame[OF static_parts(4) idempotency_frame(19)] this changed(10)]
  have hold: "holds_request cid (ti_requestReference inp) (rq_participant_id cur) (static db) db'" .
  hence s: "db_committees db' = db_committees db" "db_participants db' = db_participants db"
    by (auto simp: holds_request_def static_def)
  have c: "committeeId (cx_committeeReference (ti_context inp)) db' = Inr (cid, db')"
    using changed(1) s by (simp add: committeeId_Inr)
  show ?thesis unfolding answers_def
    by (rule exI[of _ cid], rule exI[of _ "rq_participant_id cur"], rule exI[of _ "static db"])
       (use c rem hold u committee_of_found[OF _ c] ids(1) s in \<open>simp add: changed(11)\<close>)
qed

lemma answers_steps:
  assumes "(domain_step sv' js)\<^sup>*\<^sup>* db db'" "answers sv name inp rec db"
  shows "answers sv name inp rec db'"
  using assms by (induction rule: rtranclp_induct) (auto intro: answers_step)

text \<open>The same key with another command or another request digest.\<close>

lemma answers_refuse:
  assumes "answers sv name inp rec db" "cx_committeeReference (ti_context inp') = cx_committeeReference (ti_context inp)"
    and "cx_idempotencyKey (ti_context inp') = cx_idempotencyKey (ti_context inp)"
    and "cx_requestDigest (ti_context inp') \<noteq> cx_requestDigest (ti_context inp) \<or> name' \<noteq> name"
  shows "transition_body sv name' command inp' db = Inl IdempotencyConflictError"
proof -
  obtain cid where c: "committeeId (cx_committeeReference (ti_context inp)) db = Inr (cid, db)"
    and m: "remembers (''committee:'' @ cx_committeeReference (ti_context inp)) (sha256 sv (cx_idempotencyKey (ti_context inp)))
       (cx_requestDigest (ti_context inp)) name (Some cid) (ti_requestReference inp) (vr_state rec) (vr_version rec) db"
    using assms(1) unfolding answers_def by blast
  have "beginIdempotency sv cid name' (ti_context inp') db = Inl IdempotencyConflictError"
    unfolding beginIdempotency_def assms(2)
    by (rule remembered_refuses) (use m assms(3,4) in auto)
  thus ?thesis using c assms(2) by (simp add: transition_body_def bindT_def)
qed

text \<open>
  C16. Repeated commands are answered, not executed again.  When one of the sixteen commands on a request
  has succeeded, then after any number of further calls of both repositories, by anyone, the same call
  returns the same record, marked as replayed, and changes no table; and a call that uses the same
  idempotency key in the same committee for another command or with another request digest is refused
  and changes nothing.
\<close>

theorem repeated_command_replays:
  assumes "(c, opn) \<in> set verification_operations" "(c', opn') \<in> set verification_operations"
    and "domain_inv db" "distinct (map cm_id (db_committees db))"
    and "opn sv inp db = (Inr rec, db1)" "(domain_step sv' js)\<^sup>*\<^sup>* db1 db2"
  shows "opn sv inp db2 = (Inr (rec\<lparr>vr_replayed := True\<rparr>), db2\<lparr>db_ids := Suc (db_ids db2)\<rparr>)
    \<and> (is_opaque_reference (ti_requestReference inp')
       \<and> cx_committeeReference (ti_context inp') = cx_committeeReference (ti_context inp)
       \<and> cx_idempotencyKey (ti_context inp') = cx_idempotencyKey (ti_context inp)
       \<and> (cx_requestDigest (ti_context inp') \<noteq> cx_requestDigest (ti_context inp) \<or> c' \<noteq> c)
       \<longrightarrow> opn' sv inp' db2 = (Inl IdempotencyConflictError, db2))"
proof -
  note eq = verification_operation_is_transition(1)[OF assms(1)] and eq' = verification_operation_is_transition(1)[OF assms(2)]
  have opaque: "is_opaque_reference (ti_requestReference inp)"
    and run: "transition_body sv (verification_command_name c) (run_verification c) inp db = Inr (rec, db1)"
    using assms(5) unfolding eq
    by (auto simp: Verification_Repository.transition_def requireOpaqueReference_def transaction_Inr split: if_splits)
  have "answers sv (verification_command_name c) inp rec db1"
    by (rule transition_answers[OF run assms(4)]) (use att_okD(5) assms(3) in \<open>auto simp: domain_inv_def\<close>)
  note ans = answers_steps[OF assms(6) this]
  have ne: "ti_requestReference inp \<noteq> []" using opaque by (auto simp: is_opaque_reference_def)
  have first: "opn sv inp db2 = (Inr (rec\<lparr>vr_replayed := True\<rparr>), db2\<lparr>db_ids := Suc (db_ids db2)\<rparr>)"
    unfolding eq Verification_Repository.transition_def
    using opaque answers_replay[OF ans ne] by (simp add: requireOpaqueReference_def transaction_Inr)
  have "verification_command_name c' = verification_command_name c \<Longrightarrow> c' = c"
    by (cases c; cases c') simp_all
  hence "opn' sv inp' db2 = (Inl IdempotencyConflictError, db2)" if a: "is_opaque_reference (ti_requestReference inp')"
      "cx_committeeReference (ti_context inp') = cx_committeeReference (ti_context inp)"
      "cx_idempotencyKey (ti_context inp') = cx_idempotencyKey (ti_context inp)"
      "cx_requestDigest (ti_context inp') \<noteq> cx_requestDigest (ti_context inp) \<or> c' \<noteq> c"
    unfolding eq' Verification_Repository.transition_def
    using a answers_refuse[OF ans a(2,3)] by (auto simp: requireOpaqueReference_def transaction_Inl)
  thus ?thesis using first by blast
qed

text \<open>A request is scheduled, the participant is checked in, and the first command comes again; then its
  key comes with another command.\<close>

definition visit_db :: database where
  "visit_db = renewal_db\<lparr>db_requests := [example_request ''r'' V_requested 1], db_attestations := []\<rparr>"

definition visit_input :: "string \<Rightarrow> int \<Rightarrow> TransitionInput" where
  "visit_input key version = \<lparr>ti_requestReference = ''requestr'', ti_expectedVersion = num version, ti_context = example_context key\<rparr>"

definition after_check_in :: database where
  "after_check_in = snd (checkIn example_services (visit_input ''long'' 2) (snd (schedule example_services (visit_input ''k'' 1) visit_db)))"

lemma visit_scheduled:
  "map_sum id (\<lambda>r. (vr_state r, vr_version r)) (fst (schedule example_services (visit_input ''k'' 1) visit_db)) = Inr (''scheduled'', 2)"
  by code_simp

theorem repeated_command_replays_witness:
  "map_sum id (\<lambda>r. (vr_state r, vr_version r, vr_replayed r)) (fst (schedule example_services (visit_input ''k'' 1) after_check_in))
      = Inr (''scheduled'', 2, True)
   \<and> withdraw example_services (visit_input ''k'' 1) after_check_in = (Inl IdempotencyConflictError, after_check_in)"
proof -
  obtain rec db1 where first: "schedule example_services (visit_input ''k'' 1) visit_db = (Inr rec, db1)"
    "vr_state rec = ''scheduled''" "vr_version rec = 2"
    using visit_scheduled by (cases "schedule example_services (visit_input ''k'' 1) visit_db"; cases "fst (schedule example_services (visit_input ''k'' 1) visit_db)") auto
  have ops: "(ScheduleRequest, schedule) \<in> set verification_operations" "(WithdrawVerification, withdraw) \<in> set verification_operations"
    "(CheckInParticipant, checkIn) \<in> set verification_operations" by (simp_all add: verification_operations_def)
  have "domain_step example_services (\<lambda>_. []) db1 after_check_in"
    unfolding domain_step_def after_check_in_def first(1) snd_conv
    using domain_call.change[OF ops(3) prod.collapse[symmetric]] by blast
  moreover have "domain_inv visit_db" "distinct (map cm_id (db_committees visit_db))"
    by (simp_all add: visit_db_def renewal_db_def domain_inv_def att_ok_def example_request_def)
  moreover have "is_opaque_reference (ti_requestReference (visit_input ''k'' 1))" by (simp add: visit_input_def) code_simp
  ultimately have r: "schedule example_services (visit_input ''k'' 1) after_check_in =
      (Inr (rec\<lparr>vr_replayed := True\<rparr>), after_check_in\<lparr>db_ids := Suc (db_ids after_check_in)\<rparr>)"
    "withdraw example_services (visit_input ''k'' 1) after_check_in = (Inl IdempotencyConflictError, after_check_in)"
    using repeated_command_replays[OF ops(1,2) _ _ first(1) r_into_rtranclp, of example_services "\<lambda>_. []" after_check_in "visit_input ''k'' 1"]
    by simp_all
  thus ?thesis using first(2,3) by simp
qed

end
