(* ===== verification/Tenant_Isolation.thy ===== *)
theory Tenant_Isolation
  imports Domain_Properties
begin

text \<open>
  A call of the verification or attestation repository in the context of one committee leaves the rows of
  every other committee as they are.
\<close>

definition tenant_rows :: "string \<Rightarrow> database \<Rightarrow> request_row list \<times> attestation_row list \<times> decision_row list
    \<times> revocation_row list \<times> OutboxRow list \<times> audit_row list" where
  "tenant_rows c db =
     (filter (\<lambda>r. rq_committee_id r = c) (db_requests db), filter (\<lambda>a. at_committee_id a = c) (db_attestations db),
      filter (\<lambda>d. de_committee_id d = c) (db_decisions db), filter (\<lambda>v. rv_committee_id v = c) (db_revocations db),
      filter (\<lambda>e. ob_committee_id e = Some c) (db_outbox db), filter (\<lambda>e. au_committee_id e = Some c) (db_audit db))"

section \<open>Writes in the name of another committee\<close>

named_theorems isolation \<open>bodies that leave the rows of a committee as they are\<close>

lemma filter_update_other:
  assumes "\<And>r. r \<in> set t \<Longrightarrow> P r \<Longrightarrow> \<not> Q r \<and> \<not> Q (f r)"
  shows "filter Q (update_where P f t) = filter Q t"
  using assms by (induction t) auto

lemma isolated_writes [isolation]:
  "cid \<noteq> c \<Longrightarrow> untouched (tenant_rows c) (appendAudit sv context (Some cid) command target result)"
  "cid \<noteq> c \<Longrightarrow> untouched (tenant_rows c) (enqueueDomainEvent sv cid reference ty version state context)"
  "cid \<noteq> c \<Longrightarrow> untouched (tenant_rows c) (enqueue_attestation_event sv cid reference ty version state context)"
  by (auto simp: untouched_def tenant_rows_def appendAudit_def insert_audit_event_def newId_def body_defs Let_def
      enqueueDomainEvent_def enqueue_attestation_event_def insert_outbox_event_Inr new_outbox_event_def
      simp del: body_Inr bindT_Inr split: if_splits)

lemma isolated_idempotency [isolation]:
  "untouched (tenant_rows c) (beginIdempotency sv cid command context)"
  "untouched (tenant_rows c) (completeIdempotency sv key reference version state)"
  "untouched (tenant_rows c) (given_or_new sv i)"
proof -
  show "untouched (tenant_rows c) (beginIdempotency sv cid command context)"
    unfolding beginIdempotency_def by (rule untouchedI) (auto simp: tenant_rows_def elim: beginIdempotency_in_Inr)
  show "untouched (tenant_rows c) (completeIdempotency sv key reference version state)"
    unfolding completeIdempotency_def by (intro untouched_writeT) (simp add: tenant_rows_def)
  show "untouched (tenant_rows c) (given_or_new sv i)"
    by (auto simp: untouched_def given_or_new_def newId_def tenant_rows_def split: option.splits)
qed

lemma isolated_tables [isolation]:
  "rq_committee_id r \<noteq> c \<Longrightarrow> untouched (tenant_rows c) (insert_request r)"
  "de_committee_id d \<noteq> c \<Longrightarrow> untouched (tenant_rows c) (insert_decision d)"
  "at_committee_id a \<noteq> c \<Longrightarrow> untouched (tenant_rows c) (insert_attestation a)"
  "rv_committee_id v \<noteq> c \<Longrightarrow> untouched (tenant_rows c) (insert_revocation v)"
  "untouched (tenant_rows c) (insert_status s)"
  by (auto simp: untouched_def tenant_rows_def insert_request_Inr insert_attestation_Inr insert_decision_def
      insert_revocation_def insert_status_def)

lemma isolated_update [isolation]:
  assumes "\<And>r. P r \<Longrightarrow> rq_committee_id r \<noteq> c" "\<And>r. rq_committee_id (f r) = rq_committee_id r"
  shows "untouched (tenant_rows c) (update_requests P f)"
  by (rule untouchedI) (clarsimp simp: update_requests_Inr tenant_rows_def, rule filter_update_other, simp add: assms)

section \<open>The bodies\<close>

definition foreign :: "string \<Rightarrow> CommandContext \<Rightarrow> database \<Rightarrow> bool" where
  "foreign c context db \<longleftrightarrow> (\<forall>m \<in> set (db_committees db). cm_external_reference m = cx_committeeReference context \<longrightarrow> cm_id m \<noteq> c)"

lemma foreign_committee:
  assumes "foreign c context db" "committeeId (cx_committeeReference context) db = Inr (cid, db')"
  shows "cid \<noteq> c"
  using assms by (auto simp: foreign_def committeeId_Inr dest: select_where_SomeD)

lemma untouched_in_committee:
  assumes "\<And>cid. cid \<noteq> c \<Longrightarrow> untouched g (f cid)" "foreign c context db"
    and "bindT (committeeId (cx_committeeReference context)) f db = Inr (x, db')"
  shows "g db' = g db"
proof -
  obtain cid where c: "committeeId (cx_committeeReference context) db = Inr (cid, db)" "f cid db = Inr (x, db')"
    using assms(3) by (auto simp: committeeId_Inr)
  show ?thesis using untouchedD[OF assms(1)[OF foreign_committee[OF assms(2) c(1)]] c(2)] .
qed

lemma create_isolated:
  assumes "foreign c (ci_context inp) db" "createRequest_body sv inp db = Inr (x, db')"
  shows "tenant_rows c db' = tenant_rows c db"
  using assms(2) unfolding createRequest_body_def
  by (rule untouched_in_committee[OF _ assms(1), rotated]) (intro frame_rules isolation; simp)

lemma transition_isolated:
  assumes "foreign c (ti_context inp) db" "transition_body sv name command inp db = Inr (x, db')"
  shows "tenant_rows c db' = tenant_rows c db"
  using assms(2) unfolding transition_body_def
  by (rule untouched_in_committee[OF _ assms(1), rotated]) (intro frame_rules isolation; simp)

lemma decision_isolated:
  assumes "foreign c (di_context inp) db" "recordReviewDecision_body sv js inp db = Inr (x, db')"
  shows "tenant_rows c db' = tenant_rows c db"
  using assms(2) unfolding recordReviewDecision_body_def
  by (rule untouched_in_committee[OF _ assms(1), rotated]) (intro frame_rules isolation; simp)

lemma issue_isolated:
  assumes "foreign c (ii_context inp) db" "issue_body sv inp db = Inr (x, db')"
  shows "tenant_rows c db' = tenant_rows c db"
  using assms(2) unfolding issue_body_def renewal_of_def
  by (rule untouched_in_committee[OF _ assms(1), rotated]) (intro frame_rules isolation; simp)

section \<open>Changes of an attestation\<close>

text \<open>The identifiers determine the committee.\<close>

definition linked :: "database \<Rightarrow> bool" where
  "linked db \<longleftrightarrow> distinct (map at_id (db_attestations db)) \<and> distinct (map rq_id (db_requests db))
     \<and> (\<forall>a \<in> set (db_attestations db). \<forall>r \<in> set (db_requests db). rq_id r = at_request_id a \<longrightarrow> rq_committee_id r = at_committee_id a)"

lemma att_ok_linked:
  assumes "att_ok X (db_attestations db) (db_requests db)"
  shows "linked db"
proof -
  have "rq_committee_id r = at_committee_id a"
    if ar: "a \<in> set (db_attestations db)" "r \<in> set (db_requests db)" "rq_id r = at_request_id a" for a r
  proof -
    obtain q where "q \<in> set (db_requests db)" "rq_id q = at_request_id a" "rq_committee_id q = at_committee_id a"
      using att_okD(11)[OF assms ar(1)] unfolding request_ok_def by blast
    thus ?thesis using distinct_map_key_eq[OF att_okD(4)[OF assms] _ ar(2), of q] ar(3) by simp
  qed
  thus ?thesis using att_okD(1,4)[OF assms] by (simp add: linked_def)
qed

lemma linked_kept: "keeps linked (updateAttestationAndRequest row st t flag)"
proof (rule keepsI)
  fix db u db' assume l: "linked db" and run: "updateAttestationAndRequest row st t flag db = Inr (u, db')"
  note upd = updateAttestationAndRequest_Inr(1,2)[OF run]
  have "map at_id (db_attestations db') = map at_id (db_attestations db)" "map rq_id (db_requests db') = map rq_id (db_requests db)"
    unfolding upd by (auto intro!: map_update_where)
  thus "linked db'" using l unfolding linked_def upd by (auto elim!: in_update_whereE)
qed

lemma isolated_change:
  assumes "linked db" "updateAttestationAndRequest row st t flag db = Inr (u, db')"
    and "aw_attestation row \<in> set (db_attestations db)" "aw_request row \<in> set (db_requests db)"
    and "rq_id (aw_request row) = at_request_id (aw_attestation row)" "at_committee_id (aw_attestation row) \<noteq> c"
  shows "tenant_rows c db' = tenant_rows c db"
proof -
  note upd = updateAttestationAndRequest_Inr[OF assms(2)]
  have rc: "rq_committee_id (aw_request row) \<noteq> c" using assms(1,3-6) unfolding linked_def by metis
  have "a = aw_attestation row" if "a \<in> set (db_attestations db)" "at_id a = at_id (aw_attestation row)" for a
    using distinct_map_key_eq[of at_id, OF _ that(1) assms(3) that(2)] assms(1) by (simp add: linked_def)
  hence "filter (\<lambda>a. at_committee_id a = c) (db_attestations db') = filter (\<lambda>a. at_committee_id a = c) (db_attestations db)"
    unfolding upd(1) using assms(6) by (intro filter_update_other) auto
  moreover have "r = aw_request row" if "r \<in> set (db_requests db)" "rq_id r = rq_id (aw_request row)" for r
    using distinct_map_key_eq[of rq_id, OF _ that(1) assms(4) that(2)] assms(1) by (simp add: linked_def)
  hence "filter (\<lambda>r. rq_committee_id r = c) (db_requests db') = filter (\<lambda>r. rq_committee_id r = c) (db_requests db)"
    unfolding upd(2) using rc by (intro filter_update_other) auto
  moreover have "untouched db_decisions (updateAttestationAndRequest row st t flag)"
    unfolding updateAttestationAndRequest_def update_attestations_def update_statuses_def update_requests_def
    by (intro frame_rules untouched_writeT; simp)
  hence "db_decisions db' = db_decisions db" using assms(2) by (rule untouchedD)
  ultimately show ?thesis using upd(8,9,11) by (simp add: tenant_rows_def)
qed

lemma supersede_isolated:
  assumes run: "supersede_predecessor sv cid inp pid db = Inr (u, db')" and l: "linked db" and c: "cid \<noteq> c"
  shows "tenant_rows c db' = tenant_rows c db"
proof -
  from run obtain row db1 st db2 h db3 where l0: "loadRowById pid cid db = Inr (row, db1)"
    and u: "updateAttestationAndRequest row st (mi_observedAt inp) False db1 = Inr ((), db2)"
    and au: "appendAudit sv (mi_context inp) (Some cid) ''supersedePriorAttestation''
        \<lparr>tg_type = ''attestation'', tg_reference = at_external_reference (aw_attestation row),
         tg_priorState = Some (verification_state_name (at_state (aw_attestation row))),
         tg_newState = Some (verification_state_name st)\<rparr> ''succeeded'' db2 = Inr (h, db3)"
    and ev: "enqueue_attestation_event sv cid (at_external_reference (aw_attestation row)) ''AttestationSuperseded''
        (at_version (aw_attestation row)) (verification_state_name st) (mi_context inp) db3 = Inr ((), db')"
    unfolding supersede_predecessor_def by auto
  obtain reference where l1: "loadRow cid reference db = Inr (row, db1)"
    using l0 unfolding loadRowById_def by (auto split: option.splits)
  note r = loadRow_D[OF l1]
  have "tenant_rows c db2 = tenant_rows c db"
    using isolated_change[OF _ u, of c] l r(1,2,3,5,6) c by simp
  thus ?thesis using untouchedD[OF isolated_writes(1)[OF c] au] untouchedD[OF isolated_writes(3)[OF c] ev] by simp
qed

lemma linked_begin:
  assumes "domain_inv db" "beginIdempotency sv cid command context db = Inr (x, db1)"
  shows "linked db1"
  using att_ok_linked[of "{}" db1] keepsD[OF domain_inv_parts(5) assms] by (simp add: domain_inv_def)

lemma changeActive_isolated:
  assumes "domain_inv db" "foreign c (mi_context inp) db" "changeActiveState_body sv command activating inp db = Inr (x, db')"
  shows "tenant_rows c db' = tenant_rows c db"
  using assms(3)
proof (cases rule: changeActive_steps)
  case replayed
  thus ?thesis using untouchedD[OF isolated_idempotency(1)] by blast
next
  case (changed cid x db1 row nxt db2 db3 h db4 db5 db6)
  have c: "cid \<noteq> c" using foreign_committee[OF assms(2) changed(1)] .
  note l = linked_begin[OF assms(1) changed(2)] and r = loadRow_D[OF changed(4)]
  have "tenant_rows c db2 = tenant_rows c db1" by (rule isolated_change[OF l changed(7) r(2,5,6)]) (use r(3) c in simp)
  moreover have "tenant_rows c db3 = tenant_rows c db2"
    using changed(8) supersede_isolated[OF _ keepsD[OF linked_kept l changed(7)] c] by (auto split: if_splits)
  ultimately show ?thesis
    using untouchedD[OF isolated_idempotency(1) changed(2)] untouchedD[OF isolated_writes(1)[OF c] changed(9)]
      untouchedD[OF isolated_writes(3)[OF c] changed(10)] untouchedD[OF isolated_idempotency(2) changed(11)] load_db[OF changed(12)] by simp
qed

lemma revoke_isolated:
  assumes "domain_inv db" "foreign c (mi_context inp) db" "revoke_body sv inp db = Inr (x, db')"
  shows "tenant_rows c db' = tenant_rows c db"
  using assms(3)
proof (cases rule: revoke_steps)
  case replayed
  thus ?thesis using untouchedD[OF isolated_idempotency(1)] by blast
next
  case (changed cid x db1 row i db2 db3 db4 h db5 db6 db7 nxt)
  have c: "cid \<noteq> c" using foreign_committee[OF assms(2) changed(1)] .
  note r = loadRow_D[OF changed(4)]
  have same: "db_attestations db3 = db_attestations db1" "db_requests db3 = db_requests db1"
    using untouchedD[OF given_or_new_frame(2) changed(7)] untouchedD[OF given_or_new_frame(1) changed(7)]
      untouchedD[OF tables_frame(3) changed(8)] untouchedD[OF tables_frame(4) changed(8)] by simp_all
  hence "linked db3" using linked_begin[OF assms(1) changed(2)] by (simp add: linked_def)
  hence "tenant_rows c db4 = tenant_rows c db3" by (rule isolated_change[OF _ changed(9)]) (use r(2,3,5,6) same c in simp_all)
  moreover have "tenant_rows c db3 = tenant_rows c db2" using untouchedD[OF isolated_tables(4) changed(8)] c by simp
  ultimately show ?thesis
    using untouchedD[OF isolated_idempotency(1) changed(2)] untouchedD[OF isolated_idempotency(3) changed(7)]
      untouchedD[OF isolated_writes(1)[OF c] changed(10)] untouchedD[OF isolated_writes(3)[OF c] changed(11)]
      untouchedD[OF isolated_idempotency(2) changed(12)] load_db[OF changed(13)] by simp
qed

section \<open>Isolation\<close>

lemma transaction_isolated:
  assumes "transaction body db = (r, db')" "\<And>x db1. body db = Inr (x, db1) \<Longrightarrow> tenant_rows c db1 = tenant_rows c db"
  shows "tenant_rows c db' = tenant_rows c db"
  using assms by (auto simp: transaction_eq split: sum.splits)


text \<open>Activating the renewal of the example leaves the request of another committee alone.\<close>

definition two_tenants :: database where
  "two_tenants = renewal_db\<lparr>db_committees := db_committees renewal_db @
       [\<lparr>cm_id = ''d'', cm_external_reference = ''committee_other'', cm_state = C_active, cm_version = 1\<rparr>],
     db_requests := db_requests renewal_db @ [(example_request ''z'' V_requested 1)\<lparr>rq_committee_id := ''d''\<rparr>]\<rparr>"


end
