(* ===== verification/Attestation_Status.thy ===== *)
theory Attestation_Status
  imports Domain_Properties
begin

text \<open>
  The status that the database reports for an attestation, compared with the status function of the
  domain package, and what has to be true before an attestation can be issued.
\<close>

section \<open>Issuance\<close>

text \<open>
  When an attestation can be issued.  A successful, not replayed, issue in a committee was for a request
  of that committee in the state issued, and either the participant had no attestation in the committee
  yet, or one that is active at that moment and has no renewal.  So a participant whose last attestation
  in a committee has expired or was revoked cannot be issued another one there.
\<close>

theorem issuance_needs_first_or_active:
  assumes "domain_inv db" "issue sv inp db = (Inr rec, db')" "\<not> ar_replayed rec"
  shows "\<exists>r \<in> set (db_requests db). rq_external_reference r = ii_requestReference inp \<and> rq_state r = V_issued
    \<and> ((\<forall>a \<in> set (db_attestations db). \<not> (at_committee_id a = rq_committee_id r \<and> at_participant_id a = rq_participant_id r))
       \<or> (\<exists>p \<in> set (db_attestations db). at_committee_id p = rq_committee_id r \<and> at_participant_id p = rq_participant_id r
            \<and> at_state p = V_active \<and> (\<forall>a \<in> set (db_attestations db). at_supersedes_id a \<noteq> Some (at_id p))))"
proof -
  have "issue_body sv inp db = Inr (rec, db')"
    using assms(2) by (auto simp: issue_def transaction_Inr split: sum.splits)
  thus ?thesis
  proof (cases rule: issue_steps)
    case (replayed cid x)
    thus ?thesis using assms(3) by simp
  next
    case (issued cid x db1 db2 request version sid i db3 db4 db5 h db6 db7)
    let ?n = "issued_row inp cid request version sid i"
    have same: "db_attestations db1 = db_attestations db" "db_requests db1 = db_requests db" "db_attestations db2 = db_attestations db1"
      using untouchedD[OF beginIdempotency_frame(2) issued(2)] untouchedD[OF beginIdempotency_frame(1) issued(2)]
        untouchedD[OF given_or_new_frame(2) issued(9)] by simp_all
    have clash: "\<forall>b \<in> set (db_attestations db). \<not> attestation_clash ?n b"
      and row: "attestation_row_ok ?n" using issued(10) same by (auto simp: insert_attestation_Inr)
    have "(\<forall>a \<in> set (db_attestations db). \<not> (at_committee_id a = cid \<and> at_participant_id a = rq_participant_id request))
       \<or> (\<exists>p \<in> set (db_attestations db). at_committee_id p = cid \<and> at_participant_id p = rq_participant_id request
            \<and> at_state p = V_active \<and> (\<forall>a \<in> set (db_attestations db). at_supersedes_id a \<noteq> Some (at_id p)))"
    proof (cases sid)
      case None
      hence "version = 1" using row by (simp add: issued_row_def attestation_row_ok_def)
      hence "\<not> (at_committee_id a = cid \<and> at_participant_id a = rq_participant_id request)" if "a \<in> set (db_attestations db)" for a
        using first_version_exists[OF assms(1)[unfolded domain_inv_def] that] clash
        by (auto simp: issued_row_def attestation_clash_def)
      thus ?thesis by blast
    next
      case (Some pid)
      then obtain p where "p \<in> set (db_attestations db)" "at_id p = pid" "at_state p = V_active" "at_committee_id p = cid"
          "at_participant_id p = rq_participant_id request"
        using renewal_of_Inr(3)[OF issued(8)] same(1) by metis
      thus ?thesis using clash Some by (auto simp: issued_row_def attestation_clash_def)
    qed
    thus ?thesis using issued(4-7) same(2) by (intro bexI[of _ request]) auto
  qed
qed

text \<open>The first attestation of the participant of the example.\<close>

definition first_db :: database where
  "first_db = renewal_db\<lparr>db_requests := [example_request ''a'' V_issued 7], db_attestations := [], db_statuses := []\<rparr>"

definition first_input :: IssueAttestationInput where
  "first_input = \<lparr>ii_id = Some ''a'', ii_externalReference = ''attestationa'', ii_requestReference = ''requesta'',
     ii_policyVersionId = ''v'', ii_validFrom = Some 1, ii_expiresAt = Some 11, ii_supersedesReference = None,
     ii_context = example_context ''k''\<rparr>"

lemma first_issued: "map_sum id ar_replayed (fst (issue example_services first_input first_db)) = Inr False"
  by code_simp

theorem issuance_needs_first_or_active_witness:
  "\<exists>r \<in> set (db_requests first_db). rq_external_reference r = ''requesta'' \<and> rq_state r = V_issued"
proof -
  obtain rec db' where call: "issue example_services first_input first_db = (Inr rec, db')" "\<not> ar_replayed rec"
    using first_issued by (cases "issue example_services first_input first_db"; cases "fst (issue example_services first_input first_db)") auto
  have inv: "domain_inv first_db"
    by (simp add: domain_inv_def first_db_def renewal_db_def att_ok_def example_request_def)
  have "ii_requestReference first_input = ''requesta''" by (simp add: first_input_def)
  thus ?thesis using issuance_needs_first_or_active[OF inv call] by auto
qed

section \<open>A status that comes back\<close>

text \<open>The SQL function takes only an active successor as a reason to report superseded.  When the renewal
  of the example is activated and then revoked, the superseded attestation is reported as active again,
  although its state stays superseded; the status function of the domain package never leaves superseded.\<close>

definition revoke_input :: RevokeAttestationInput where
  "revoke_input = \<lparr>mi_attestationReference = ''attestationb'', mi_expectedStatusVersion = num 2, mi_observedAt = 4,
     mi_context = example_context ''second'', mi_revocationId = Some ''x'', mi_policyVersionId = ''v''\<rparr>"

definition renewal_active :: database where
  "renewal_active = snd (activate example_services renewal_input renewal_db)"

definition renewal_revoked :: database where
  "renewal_revoked = snd (revoke example_services revoke_input renewal_active)"

theorem superseded_status_returns:
  "statusAt ''committee'' ''attestationa'' 5 renewal_active = Inr St_superseded
   \<and> statusAt ''committee'' ''attestationa'' 5 renewal_revoked = Inr St_active
   \<and> map at_state (db_attestations renewal_revoked) = [V_superseded, V_revoked]"
  by code_simp

end
