(* ===== verification/Lifecycle_Repository.thy ===== *)
theory Lifecycle_Repository
  imports Idempotency
begin

text \<open>
  packages/db/src/lifecycle-repository.ts: one generic transition for the eight tables whose rows follow
  a lifecycle of the domain package, with the checks each table adds and the columns each new state
  fills.  The CHECK constraints of the tables are part of the update; the trigger that compares the
  participant of a consent or notification with its account reads columns no operation changes.
\<close>

section \<open>Tables, states and commands\<close>

datatype lifecycle_table =
    T_committee | T_renewal_cycle | T_wallet_challenge | T_consent_receipt | T_appeal
  | T_privacy_rights_request | T_notification | T_relying_party_client

record TableConfig =
  tc_table :: lifecycle_table
  tc_targetType :: string
  tc_eventAggregate :: string

fun table_of :: "lifecycle_state \<Rightarrow> lifecycle_table" where
  "table_of (S_committee _) = T_committee"
| "table_of (S_renewal_cycle _) = T_renewal_cycle"
| "table_of (S_wallet_challenge _) = T_wallet_challenge"
| "table_of S_wallet_cancelled = T_wallet_challenge"
| "table_of (S_consent _) = T_consent_receipt"
| "table_of (S_appeal _) = T_appeal"
| "table_of (S_privacy_request _) = T_privacy_rights_request"
| "table_of (S_notification _) = T_notification"
| "table_of (S_relying_party_client _) = T_relying_party_client"

fun lifecycle_state_name :: "lifecycle_state \<Rightarrow> string" where
  "lifecycle_state_name (S_committee s) = committee_state_name s"
| "lifecycle_state_name (S_renewal_cycle s) = renewal_cycle_state_name s"
| "lifecycle_state_name (S_wallet_challenge s) = wallet_challenge_state_name s"
| "lifecycle_state_name S_wallet_cancelled = ''cancelled''"
| "lifecycle_state_name (S_consent s) = consent_state_name s"
| "lifecycle_state_name (S_appeal s) = appeal_state_name s"
| "lifecycle_state_name (S_privacy_request s) = privacy_request_state_name s"
| "lifecycle_state_name (S_notification s) = notification_state_name s"
| "lifecycle_state_name (S_relying_party_client s) = relying_party_client_state_name s"

datatype lifecycle_command =
    L_committee committee_command | L_renewal_cycle renewal_cycle_command
  | L_wallet_challenge wallet_challenge_command | L_consent consent_command | L_appeal appeal_command
  | L_privacy_request privacy_request_command | L_notification notification_command
  | L_relying_party_client relying_party_client_command

fun lifecycle_command_name :: "lifecycle_command \<Rightarrow> string" where
  "lifecycle_command_name (L_committee c) = committee_command_name c"
| "lifecycle_command_name (L_renewal_cycle c) = renewal_cycle_command_name c"
| "lifecycle_command_name (L_wallet_challenge c) = wallet_challenge_command_name c"
| "lifecycle_command_name (L_consent c) = consent_command_name c"
| "lifecycle_command_name (L_appeal c) = appeal_command_name c"
| "lifecycle_command_name (L_privacy_request c) = privacy_request_command_name c"
| "lifecycle_command_name (L_notification c) = notification_command_name c"
| "lifecycle_command_name (L_relying_party_client c) = relying_party_client_command_name c"

fun command_aggregate :: "lifecycle_command \<Rightarrow> DomainAggregate" where
  "command_aggregate (L_committee _) = Agg_committee"
| "command_aggregate (L_renewal_cycle _) = Agg_renewal_cycle"
| "command_aggregate (L_wallet_challenge _) = Agg_wallet_challenge"
| "command_aggregate (L_consent _) = Agg_consent"
| "command_aggregate (L_appeal _) = Agg_appeal"
| "command_aggregate (L_privacy_request _) = Agg_privacy_request"
| "command_aggregate (L_notification _) = Agg_notification"
| "command_aggregate (L_relying_party_client _) = Agg_relying_party_client"

fun expected_names :: "lifecycle_command \<Rightarrow> string list" where
  "expected_names (L_committee c) = map committee_state_name (committee_expected c)"
| "expected_names (L_renewal_cycle c) = map renewal_cycle_state_name (renewal_cycle_expected c)"
| "expected_names (L_wallet_challenge c) = map wallet_challenge_state_name (wallet_challenge_expected c)"
| "expected_names (L_consent c) = map consent_state_name (consent_expected c)"
| "expected_names (L_appeal c) = map appeal_state_name (appeal_expected c)"
| "expected_names (L_privacy_request c) = map privacy_request_state_name (privacy_request_expected c)"
| "expected_names (L_notification c) = map notification_state_name (notification_expected c)"
| "expected_names (L_relying_party_client c) = map relying_party_client_state_name (relying_party_client_expected c)"

text \<open>A state that is none of the lifecycle's states, as the state cancelled of wallet_challenge: no
  command expects it.\<close>

definition foreign_state :: "lifecycle_command \<Rightarrow> lifecycle_state \<Rightarrow> InvalidTransitionError + lifecycle_state" where
  "foreign_state c s = Inl (InvalidTransitionError (command_aggregate c) (lifecycle_command_name c)
     (lifecycle_state_name s) (expected_names c))"

text \<open>applyCommittee, applyRenewal, applyWalletChallenge, the choice in transitionConsent, applyAppeal,
  applyPrivacy, applyNotification and applyRelyingParty.\<close>

definition apply_command :: "lifecycle_command \<Rightarrow> lifecycle_state \<Rightarrow> InvalidTransitionError + lifecycle_state" where
  "apply_command command s =
     (case command of
        L_committee c \<Rightarrow> (case s of S_committee x \<Rightarrow> map_sum id S_committee (run_committee c x) | _ \<Rightarrow> foreign_state command s)
      | L_renewal_cycle c \<Rightarrow>
          (case s of S_renewal_cycle x \<Rightarrow> map_sum id S_renewal_cycle (run_renewal_cycle c x) | _ \<Rightarrow> foreign_state command s)
      | L_wallet_challenge c \<Rightarrow>
          (case s of S_wallet_challenge x \<Rightarrow> map_sum id S_wallet_challenge (run_wallet_challenge c x) | _ \<Rightarrow> foreign_state command s)
      | L_consent c \<Rightarrow> (case s of S_consent x \<Rightarrow> map_sum id S_consent (run_consent c x) | _ \<Rightarrow> foreign_state command s)
      | L_appeal c \<Rightarrow> (case s of S_appeal x \<Rightarrow> map_sum id S_appeal (run_appeal c x) | _ \<Rightarrow> foreign_state command s)
      | L_privacy_request c \<Rightarrow>
          (case s of S_privacy_request x \<Rightarrow> map_sum id S_privacy_request (run_privacy_request c x) | _ \<Rightarrow> foreign_state command s)
      | L_notification c \<Rightarrow>
          (case s of S_notification x \<Rightarrow> map_sum id S_notification (run_notification c x) | _ \<Rightarrow> foreign_state command s)
      | L_relying_party_client c \<Rightarrow>
          (case s of S_relying_party_client x \<Rightarrow> map_sum id S_relying_party_client (run_relying_party_client c x)
           | _ \<Rightarrow> foreign_state command s))"

section \<open>Inputs and results\<close>

record LifecycleTransitionInput =
  li_externalReference :: string
  li_expectedVersion :: js_number
  li_observedAt :: time
  li_assignmentReference :: "string option"
  li_context :: CommandContext

record LifecycleRecord =
  lr_externalReference :: string
  lr_state :: string
  lr_version :: int
  lr_replayed :: bool

record LifecycleRow =
  lw_id :: string
  lw_external_reference :: string
  lw_committee_id :: "string option"
  lw_committee_reference :: "string option"
  lw_state :: lifecycle_state
  lw_version :: int

section \<open>Rows\<close>

text \<open>The CHECK constraints of the tables.\<close>

fun state_columns_ok :: "lifecycle_state \<Rightarrow> lifecycle_row \<Rightarrow> bool" where
  "state_columns_ok (S_wallet_challenge s) r \<longleftrightarrow>
     (s = W_consumed \<longleftrightarrow> ly_consumed_at r \<noteq> None) \<and> (s = W_rejected \<longleftrightarrow> ly_rejection_reason r \<noteq> None)"
| "state_columns_ok S_wallet_cancelled r \<longleftrightarrow> ly_consumed_at r = None \<and> ly_rejection_reason r \<noteq> None"
| "state_columns_ok (S_consent s) r \<longleftrightarrow>
     (case s of
        K_pending \<Rightarrow> ly_acknowledged_at r = None \<and> ly_withdrawn_at r = None
      | K_acknowledged \<Rightarrow> ly_acknowledged_at r \<noteq> None \<and> ly_withdrawn_at r = None
      | K_withdrawn \<Rightarrow> ly_acknowledged_at r \<noteq> None \<and> ly_withdrawn_at r \<noteq> None
          \<and> the (ly_acknowledged_at r) \<le> the (ly_withdrawn_at r))"
| "state_columns_ok (S_appeal s) r \<longleftrightarrow> (s \<in> {A_upheld, A_denied, A_remanded} \<longleftrightarrow> ly_resolved_at r \<noteq> None)"
| "state_columns_ok (S_notification s) r \<longleftrightarrow> (s = N_delivered \<longleftrightarrow> ly_delivered_at r \<noteq> None)"
| "state_columns_ok _ r \<longleftrightarrow> True"

definition lifecycle_row_ok :: "lifecycle_row \<Rightarrow> bool" where
  "lifecycle_row_ok r \<longleftrightarrow> 0 < ly_version r \<and> state_columns_ok (ly_state r) r"

definition in_table :: "lifecycle_table \<Rightarrow> string \<Rightarrow> lifecycle_row \<Rightarrow> bool" where
  "in_table tab i r \<longleftrightarrow> table_of (ly_state r) = tab \<and> ly_id r = i"

definition update_lifecycles :: "(lifecycle_row \<Rightarrow> bool) \<Rightarrow> (lifecycle_row \<Rightarrow> lifecycle_row) \<Rightarrow> int list tx" where
  "update_lifecycles P f =
     bindT (readT db_lifecycles) (\<lambda>rows.
     bindT (liftT (update_checked P f (\<lambda>old new. lifecycle_row_ok new) rows)) (\<lambda>rows'.
     bindT (writeT (\<lambda>db. db\<lparr>db_lifecycles := rows'\<rparr>)) (\<lambda>_.
     returnT (map (\<lambda>r. ly_version (f r)) (filter P rows)))))"

definition update_committees :: "(committee_row \<Rightarrow> bool) \<Rightarrow> (committee_row \<Rightarrow> committee_row) \<Rightarrow> int list tx" where
  "update_committees P f =
     bindT (readT db_committees) (\<lambda>rows.
     bindT (liftT (update_checked P f (\<lambda>old new. cbc_guard_committee_transition (cm_state old) (cm_state new)
        \<and> 0 < cm_version new) rows)) (\<lambda>rows'.
     bindT (writeT (\<lambda>db. db\<lparr>db_committees := rows'\<rparr>)) (\<lambda>_.
     returnT (map (\<lambda>r. cm_version (f r)) (filter P rows)))))"

section \<open>Private methods\<close>

definition committee_lifecycle_row :: "committee_row \<Rightarrow> LifecycleRow" where
  "committee_lifecycle_row c =
     \<lparr>lw_id = cm_id c, lw_external_reference = cm_external_reference c, lw_committee_id = Some (cm_id c),
      lw_committee_reference = Some (cm_external_reference c), lw_state = S_committee (cm_state c), lw_version = cm_version c\<rparr>"

definition table_lifecycle_row :: "lifecycle_table \<Rightarrow> database \<Rightarrow> lifecycle_row \<Rightarrow> LifecycleRow" where
  "table_lifecycle_row tab db r =
     (let hasCommittee = (tab \<noteq> T_wallet_challenge) in
      \<lparr>lw_id = ly_id r, lw_external_reference = ly_external_reference r,
       lw_committee_id = (if hasCommittee then ly_committee_id r else None),
       lw_committee_reference = (if hasCommittee
          then case ly_committee_id r of None \<Rightarrow> None
               | Some cid \<Rightarrow> map_option cm_external_reference (select_where (\<lambda>c. cm_id c = cid) (db_committees db))
          else None),
       lw_state = ly_state r, lw_version = ly_version r\<rparr>)"

definition find_lifecycle :: "TableConfig \<Rightarrow> string \<Rightarrow> database \<Rightarrow> LifecycleRow option" where
  "find_lifecycle config reference db =
     (if tc_table config = T_committee
      then map_option committee_lifecycle_row (select_where (\<lambda>c. cm_external_reference c = reference) (db_committees db))
      else map_option (table_lifecycle_row (tc_table config) db)
        (select_where (\<lambda>r. table_of (ly_state r) = tc_table config \<and> ly_external_reference r = reference) (db_lifecycles db)))"

definition load_lifecycle :: "TableConfig \<Rightarrow> string \<Rightarrow> LifecycleRow tx" where
  "load_lifecycle config reference =
     bindT (readT (find_lifecycle config reference)) (\<lambda>found.
     case found of None \<Rightarrow> throwT TenantBoundaryError | Some row \<Rightarrow> returnT row)"

definition beginIdempotency_lifecycle ::
  "services \<Rightarrow> string option \<Rightarrow> string \<Rightarrow> CommandContext \<Rightarrow> IdempotencyResult tx" where
  "beginIdempotency_lifecycle sv cid command context =
     beginIdempotency_in sv
       (if truthy cid then ''committee:'' @ cx_committeeReference context
        else ''global:'' @ ca_reference (cx_actor context))
       cid command context"

definition artifact_of :: "lifecycle_command \<Rightarrow> string option" where
  "artifact_of command =
     (if command = L_renewal_cycle CommitEligibleSnapshot then Some ''eligible_snapshot''
      else if command = L_renewal_cycle RecordRenewalSelection then Some ''cycle_selection''
      else if command = L_renewal_cycle PublishRenewalReport then Some ''cycle_report''
      else None)"

text \<open>The row of the challenge is there: the caller has just locked it.\<close>

definition validatePreconditions ::
  "TableConfig \<Rightarrow> lifecycle_command \<Rightarrow> LifecycleRow \<Rightarrow> LifecycleTransitionInput \<Rightarrow> unit tx" where
  "validatePreconditions config command row inp =
     bindT (if tc_table config = T_wallet_challenge
            then bindT (readT (\<lambda>db. ly_expires_at (the (select_where (in_table T_wallet_challenge (lw_id row)) (db_lifecycles db))))) (\<lambda>expiresAt.
                 bindT (requireT (\<not> (command = L_wallet_challenge ExpireWalletChallenge \<and> li_observedAt inp < expiresAt))
                   (RepositoryConflictError ''wallet challenge cannot expire before its boundary'')) (\<lambda>_.
                 requireT (\<not> (command \<noteq> L_wallet_challenge ExpireWalletChallenge \<and> expiresAt \<le> li_observedAt inp))
                   (RepositoryConflictError ''expired wallet challenge cannot progress'')))
            else returnT ()) (\<lambda>_.
     bindT (if tc_table config = T_appeal \<and> command = L_appeal AssignAppeal
            then bindT (requireT (truthy (li_assignmentReference inp))
                   (RepositoryConflictError ''appeal assignment requires an opaque assignee reference'')) (\<lambda>_.
                 liftT (requireOpaqueReference (the (li_assignmentReference inp)) ''appeal assignee reference''))
            else returnT ()) (\<lambda>_.
     if tc_table config = T_renewal_cycle
     then (case artifact_of command of
             None \<Rightarrow> returnT ()
           | Some artifact \<Rightarrow>
               bindT (readT (\<lambda>db. (artifact, lw_id row) \<in> set (db_artifacts db))) (\<lambda>found.
               requireT found (RepositoryConflictError (lifecycle_command_name command @ '' requires its immutable lifecycle artifact''))))
     else returnT ()))"

text \<open>The assignments of the UPDATE: the new state and version, and the column the new state fills.\<close>

fun fill_column :: "lifecycle_state \<Rightarrow> LifecycleTransitionInput \<Rightarrow> lifecycle_row \<Rightarrow> lifecycle_row" where
  "fill_column (S_wallet_challenge s) inp r = (if s = W_consumed then r\<lparr>ly_consumed_at := Some (li_observedAt inp)\<rparr> else r)"
| "fill_column (S_consent s) inp r =
     (if s = K_acknowledged then r\<lparr>ly_acknowledged_at := Some (li_observedAt inp)\<rparr>
      else if s = K_withdrawn then r\<lparr>ly_withdrawn_at := Some (li_observedAt inp)\<rparr> else r)"
| "fill_column (S_appeal s) inp r =
     (if s = A_assigned then r\<lparr>ly_assigned_reference := li_assignmentReference inp\<rparr>
      else if s \<in> {A_upheld, A_denied, A_remanded} then r\<lparr>ly_resolved_at := Some (li_observedAt inp)\<rparr> else r)"
| "fill_column (S_privacy_request s) inp r =
     (if s \<in> {P_completed, P_denied} then r\<lparr>ly_completed_at := Some (li_observedAt inp)\<rparr> else r)"
| "fill_column (S_notification s) inp r = (if s = N_delivered then r\<lparr>ly_delivered_at := Some (li_observedAt inp)\<rparr> else r)"
| "fill_column s inp r = r"

definition move_row :: "lifecycle_state \<Rightarrow> LifecycleTransitionInput \<Rightarrow> lifecycle_row \<Rightarrow> lifecycle_row" where
  "move_row nxt inp r = fill_column nxt inp (r\<lparr>ly_state := nxt, ly_version := ly_version r + 1\<rparr>)"

definition update_row ::
  "TableConfig \<Rightarrow> LifecycleRow \<Rightarrow> lifecycle_state \<Rightarrow> LifecycleTransitionInput \<Rightarrow> int list tx" where
  "update_row config row nxt inp =
     (case nxt of
        S_committee s \<Rightarrow>
          update_committees (\<lambda>c. cm_id c = lw_id row \<and> num (cm_version c) = li_expectedVersion inp)
            (\<lambda>c. c\<lparr>cm_state := s, cm_version := cm_version c + 1\<rparr>)
      | _ \<Rightarrow>
          update_lifecycles (\<lambda>r. in_table (tc_table config) (lw_id row) r \<and> num (ly_version r) = li_expectedVersion inp)
            (move_row nxt inp))"

section \<open>The transition\<close>

definition enqueue_lifecycle_event ::
  "services \<Rightarrow> TableConfig \<Rightarrow> LifecycleRow \<Rightarrow> string \<Rightarrow> int \<Rightarrow> string \<Rightarrow> LifecycleTransitionInput \<Rightarrow> unit tx" where
  "enqueue_lifecycle_event sv config row command version nextState inp =
     bindT (newId sv) (\<lambda>eventId.
     insert_outbox_event sv eventId (lw_committee_id row) command (tc_eventAggregate config)
       (li_externalReference inp) ''issue-16-v1''
       (''domain:'' @ li_externalReference inp @ '':v'' @ int_to_string version)
       (sha256 sv (command @ ''|'' @ li_externalReference inp @ ''|'' @ int_to_string version @ ''|'' @ nextState))
       (sha256 sv (cx_committeeReference (li_context inp) @ ''|'' @ cx_idempotencyKey (li_context inp) @ ''|'' @ command)))"

definition transition_lifecycle_body ::
  "services \<Rightarrow> TableConfig \<Rightarrow> lifecycle_command \<Rightarrow> LifecycleTransitionInput \<Rightarrow> LifecycleRecord tx" where
  "transition_lifecycle_body sv config command inp =
     bindT (load_lifecycle config (li_externalReference inp)) (\<lambda>row.
     bindT (requireT (\<not> (truthy (lw_committee_reference row)
        \<and> lw_committee_reference row \<noteq> Some (cx_committeeReference (li_context inp)))) TenantBoundaryError) (\<lambda>_.
     bindT (requireT (\<not> (tc_table config = T_committee
        \<and> lw_external_reference row \<noteq> cx_committeeReference (li_context inp))) TenantBoundaryError) (\<lambda>_.
     bindT (beginIdempotency_lifecycle sv (lw_committee_id row) (lifecycle_command_name command) (li_context inp)) (\<lambda>idempotency.
     if ix_replayed idempotency
     then bindT (requireT (ix_resultReference idempotency = Some (li_externalReference inp) \<and> truthy (ix_resultState idempotency)
            \<and> ix_resultVersion idempotency \<noteq> None \<and> ix_resultVersion idempotency \<noteq> Some 0) IdempotencyConflictError) (\<lambda>_.
          returnT \<lparr>lr_externalReference = the (ix_resultReference idempotency), lr_state = the (ix_resultState idempotency),
            lr_version = the (ix_resultVersion idempotency), lr_replayed = True\<rparr>)
     else
       bindT (requireT (num (lw_version row) = li_expectedVersion inp)
          (RepositoryConflictError (tc_targetType config @ '' version is stale''))) (\<lambda>_.
       bindT (liftT (map_error TransitionRejected (apply_command command (lw_state row)))) (\<lambda>nxt.
       bindT (validatePreconditions config command row inp) (\<lambda>_.
       bindT (update_row config row nxt inp) (\<lambda>updated.
       bindT (requireT (updated \<noteq> []) (RepositoryConflictError (tc_targetType config @ '' version is stale''))) (\<lambda>_.
       bindT (appendAudit sv (li_context inp) (lw_committee_id row) (lifecycle_command_name command)
          \<lparr>tg_type = tc_targetType config, tg_reference = li_externalReference inp,
           tg_priorState = Some (lifecycle_state_name (lw_state row)), tg_newState = Some (lifecycle_state_name nxt)\<rparr> ''succeeded'') (\<lambda>_.
       bindT (enqueue_lifecycle_event sv config row (lifecycle_command_name command) (hd updated) (lifecycle_state_name nxt) inp) (\<lambda>_.
       bindT (completeIdempotency sv (ix_id idempotency) (li_externalReference inp) (hd updated) (lifecycle_state_name nxt)) (\<lambda>_.
       returnT \<lparr>lr_externalReference = li_externalReference inp, lr_state = lifecycle_state_name nxt,
         lr_version = hd updated, lr_replayed = False\<rparr>))))))))))))"

definition transition_lifecycle ::
  "services \<Rightarrow> TableConfig \<Rightarrow> lifecycle_command \<Rightarrow> LifecycleTransitionInput \<Rightarrow> LifecycleRecord op" where
  "transition_lifecycle sv config command inp db =
     (case requireOpaqueReference (li_externalReference inp) (tc_targetType config @ '' reference'') of
        Inl e \<Rightarrow> (Inl e, db)
      | Inr _ \<Rightarrow> transaction (transition_lifecycle_body sv config command inp) db)"

section \<open>Public operations\<close>

definition transitionCommittee :: "services \<Rightarrow> committee_command \<Rightarrow> LifecycleTransitionInput \<Rightarrow> LifecycleRecord op" where
  "transitionCommittee sv command inp = transition_lifecycle sv
     \<lparr>tc_table = T_committee, tc_targetType = ''committee'', tc_eventAggregate = ''committee''\<rparr> (L_committee command) inp"

definition transitionRenewalCycle :: "services \<Rightarrow> renewal_cycle_command \<Rightarrow> LifecycleTransitionInput \<Rightarrow> LifecycleRecord op" where
  "transitionRenewalCycle sv command inp = transition_lifecycle sv
     \<lparr>tc_table = T_renewal_cycle, tc_targetType = ''renewal_cycle'', tc_eventAggregate = ''renewal_cycle''\<rparr> (L_renewal_cycle command) inp"

definition transitionWalletChallenge :: "services \<Rightarrow> wallet_challenge_command \<Rightarrow> LifecycleTransitionInput \<Rightarrow> LifecycleRecord op" where
  "transitionWalletChallenge sv command inp = transition_lifecycle sv
     \<lparr>tc_table = T_wallet_challenge, tc_targetType = ''wallet_challenge'', tc_eventAggregate = ''wallet_challenge''\<rparr>
     (L_wallet_challenge command) inp"

definition transitionConsent :: "services \<Rightarrow> consent_command \<Rightarrow> LifecycleTransitionInput \<Rightarrow> LifecycleRecord op" where
  "transitionConsent sv command inp = transition_lifecycle sv
     \<lparr>tc_table = T_consent_receipt, tc_targetType = ''consent_receipt'', tc_eventAggregate = ''consent''\<rparr> (L_consent command) inp"

definition transitionAppeal :: "services \<Rightarrow> appeal_command \<Rightarrow> LifecycleTransitionInput \<Rightarrow> LifecycleRecord op" where
  "transitionAppeal sv command inp = transition_lifecycle sv
     \<lparr>tc_table = T_appeal, tc_targetType = ''appeal'', tc_eventAggregate = ''appeal''\<rparr> (L_appeal command) inp"

definition transitionPrivacyRequest :: "services \<Rightarrow> privacy_request_command \<Rightarrow> LifecycleTransitionInput \<Rightarrow> LifecycleRecord op" where
  "transitionPrivacyRequest sv command inp = transition_lifecycle sv
     \<lparr>tc_table = T_privacy_rights_request, tc_targetType = ''privacy_rights_request'', tc_eventAggregate = ''privacy_request''\<rparr>
     (L_privacy_request command) inp"

definition transitionNotification :: "services \<Rightarrow> notification_command \<Rightarrow> LifecycleTransitionInput \<Rightarrow> LifecycleRecord op" where
  "transitionNotification sv command inp = transition_lifecycle sv
     \<lparr>tc_table = T_notification, tc_targetType = ''notification'', tc_eventAggregate = ''notification''\<rparr> (L_notification command) inp"

definition transitionRelyingPartyClient ::
  "services \<Rightarrow> relying_party_client_command \<Rightarrow> LifecycleTransitionInput \<Rightarrow> LifecycleRecord op" where
  "transitionRelyingPartyClient sv command inp = transition_lifecycle sv
     \<lparr>tc_table = T_relying_party_client, tc_targetType = ''relying_party_client'', tc_eventAggregate = ''relying_party_client''\<rparr>
     (L_relying_party_client command) inp"

end
