(* ===== verification/Lifecycle_Properties.thy ===== *)
theory Lifecycle_Properties
  imports Lifecycle_Repository
begin

text \<open>
  What the lifecycle repository guarantees: the effect of a transition, the evidence that the rows in
  the later states of a lifecycle have, over every history, and what cannot happen to a wallet
  challenge that has been answered.
\<close>

section \<open>Steps of a transition\<close>

lemma load_lifecycle_Inr:
  "load_lifecycle config reference db = Inr (row, db') \<longleftrightarrow> db' = db \<and> find_lifecycle config reference db = Some row"
  by (auto simp: load_lifecycle_def split: option.splits)

lemma validatePreconditions_db: "untouched g (validatePreconditions config command row inp)"
  unfolding validatePreconditions_def by (intro frame_rules)

lemma validatePreconditions_Inr:
  assumes "validatePreconditions config command row inp db = Inr (u, db')"
  shows "db' = db"
    and "tc_table config = T_wallet_challenge \<Longrightarrow>
      (command = L_wallet_challenge ExpireWalletChallenge \<longleftrightarrow>
        ly_expires_at (the (select_where (in_table T_wallet_challenge (lw_id row)) (db_lifecycles db))) \<le> li_observedAt inp)"
    and "command = L_appeal AssignAppeal \<Longrightarrow> tc_table config = T_appeal \<Longrightarrow>
      \<exists>a. li_assignmentReference inp = Some a \<and> is_opaque_reference a"
    and "tc_table config = T_renewal_cycle \<Longrightarrow> artifact_of command = Some artifact \<Longrightarrow> (artifact, lw_id row) \<in> set (db_artifacts db)"
  using assms by (auto simp: validatePreconditions_def truthy_iff split: if_splits option.splits)

lemma update_lifecycles_Inr:
  "update_lifecycles P f db = Inr (vs, db') \<longleftrightarrow>
     (\<forall>r \<in> set (db_lifecycles db). P r \<longrightarrow> lifecycle_row_ok (f r))
     \<and> vs = map (\<lambda>r. ly_version (f r)) (filter P (db_lifecycles db))
     \<and> db' = db\<lparr>db_lifecycles := update_where P f (db_lifecycles db)\<rparr>"
  by (auto simp: update_lifecycles_def)

lemma update_committees_Inr:
  "update_committees P f db = Inr (vs, db') \<longleftrightarrow>
     (\<forall>c \<in> set (db_committees db). P c \<longrightarrow> cbc_guard_committee_transition (cm_state c) (cm_state (f c)) \<and> 0 < cm_version (f c))
     \<and> vs = map (\<lambda>r. cm_version (f r)) (filter P (db_committees db))
     \<and> db' = db\<lparr>db_committees := update_where P f (db_committees db)\<rparr>"
  by (auto simp: update_committees_def)

lemma beginIdempotency_lifecycle_Inr:
  assumes "beginIdempotency_lifecycle sv cid name context db = Inr (x, db1)"
  shows "ix_replayed x \<Longrightarrow> db1 = db\<lparr>db_ids := Suc (db_ids db)\<rparr>"
    "db_lifecycles db1 = db_lifecycles db" "db_artifacts db1 = db_artifacts db" "db_committees db1 = db_committees db"
    "db_audit db1 = db_audit db" "db_outbox db1 = db_outbox db"
  using assms unfolding beginIdempotency_lifecycle_def by (auto elim: beginIdempotency_in_Inr)

lemma lifecycle_steps:
  assumes "transition_lifecycle_body sv config command inp db = Inr (rec, db')"
  obtains (replayed) "lr_replayed rec" "db' = db\<lparr>db_ids := Suc (db_ids db)\<rparr>"
    | (changed) row x db1 nxt u us db2 h db3 db4 where
      "find_lifecycle config (li_externalReference inp) db = Some row"
      "beginIdempotency_lifecycle sv (lw_committee_id row) (lifecycle_command_name command) (li_context inp) db = Inr (x, db1)"
      "num (lw_version row) = li_expectedVersion inp" "apply_command command (lw_state row) = Inr nxt"
      "validatePreconditions config command row inp db1 = Inr ((), db1)"
      "update_row config row nxt inp db1 = Inr (u # us, db2)"
      "appendAudit sv (li_context inp) (lw_committee_id row) (lifecycle_command_name command)
          \<lparr>tg_type = tc_targetType config, tg_reference = li_externalReference inp,
           tg_priorState = Some (lifecycle_state_name (lw_state row)), tg_newState = Some (lifecycle_state_name nxt)\<rparr>
          ''succeeded'' db2 = Inr (h, db3)"
      "enqueue_lifecycle_event sv config row (lifecycle_command_name command) u (lifecycle_state_name nxt) inp db3 = Inr ((), db4)"
      "completeIdempotency sv (ix_id x) (li_externalReference inp) u (lifecycle_state_name nxt) db4 = Inr ((), db')"
      "rec = \<lparr>lr_externalReference = li_externalReference inp, lr_state = lifecycle_state_name nxt, lr_version = u, lr_replayed = False\<rparr>"
      "\<not> ix_replayed x"
proof -
  from assms obtain row x db1 where l: "find_lifecycle config (li_externalReference inp) db = Some row"
    and b: "beginIdempotency_lifecycle sv (lw_committee_id row) (lifecycle_command_name command) (li_context inp) db = Inr (x, db1)"
    unfolding transition_lifecycle_body_def by (auto simp: load_lifecycle_Inr)
  show ?thesis
  proof (cases "ix_replayed x")
    case True
    with assms l b show ?thesis
      unfolding transition_lifecycle_body_def using beginIdempotency_lifecycle_Inr(1)[OF b True]
      by (auto simp: load_lifecycle_Inr intro: replayed)
  next
    case False
    with assms l b obtain db1' nxt u us db2 h db3 db4 where s: "num (lw_version row) = li_expectedVersion inp"
        "apply_command command (lw_state row) = Inr nxt" "validatePreconditions config command row inp db1 = Inr ((), db1')"
        "update_row config row nxt inp db1' = Inr (u # us, db2)"
        "appendAudit sv (li_context inp) (lw_committee_id row) (lifecycle_command_name command)
          \<lparr>tg_type = tc_targetType config, tg_reference = li_externalReference inp,
           tg_priorState = Some (lifecycle_state_name (lw_state row)), tg_newState = Some (lifecycle_state_name nxt)\<rparr>
          ''succeeded'' db2 = Inr (h, db3)"
        "enqueue_lifecycle_event sv config row (lifecycle_command_name command) u (lifecycle_state_name nxt) inp db3 = Inr ((), db4)"
        "completeIdempotency sv (ix_id x) (li_externalReference inp) u (lifecycle_state_name nxt) db4 = Inr ((), db')"
        "rec = \<lparr>lr_externalReference = li_externalReference inp, lr_state = lifecycle_state_name nxt, lr_version = u, lr_replayed = False\<rparr>"
      unfolding transition_lifecycle_body_def by (auto simp: load_lifecycle_Inr neq_Nil_conv)
    moreover have "db1' = db1" using validatePreconditions_Inr(1)[OF s(3)] .
    ultimately show ?thesis using changed[OF l b] False by blast
  qed
qed

section \<open>The eight operations\<close>

fun command_table :: "lifecycle_command \<Rightarrow> lifecycle_table" where
  "command_table (L_committee _) = T_committee"
| "command_table (L_renewal_cycle _) = T_renewal_cycle"
| "command_table (L_wallet_challenge _) = T_wallet_challenge"
| "command_table (L_consent _) = T_consent_receipt"
| "command_table (L_appeal _) = T_appeal"
| "command_table (L_privacy_request _) = T_privacy_rights_request"
| "command_table (L_notification _) = T_notification"
| "command_table (L_relying_party_client _) = T_relying_party_client"

fun lifecycle_operation :: "services \<Rightarrow> lifecycle_command \<Rightarrow> LifecycleTransitionInput \<Rightarrow> LifecycleRecord op" where
  "lifecycle_operation sv (L_committee c) = transitionCommittee sv c"
| "lifecycle_operation sv (L_renewal_cycle c) = transitionRenewalCycle sv c"
| "lifecycle_operation sv (L_wallet_challenge c) = transitionWalletChallenge sv c"
| "lifecycle_operation sv (L_consent c) = transitionConsent sv c"
| "lifecycle_operation sv (L_appeal c) = transitionAppeal sv c"
| "lifecycle_operation sv (L_privacy_request c) = transitionPrivacyRequest sv c"
| "lifecycle_operation sv (L_notification c) = transitionNotification sv c"
| "lifecycle_operation sv (L_relying_party_client c) = transitionRelyingPartyClient sv c"

lemma lifecycle_operation_is_transition:
  "\<exists>config. tc_table config = command_table c \<and> lifecycle_operation sv c = transition_lifecycle sv config c"
  by (cases c) (auto simp: fun_eq_iff transitionCommittee_def transitionRenewalCycle_def transitionWalletChallenge_def
      transitionConsent_def transitionAppeal_def transitionPrivacyRequest_def transitionNotification_def
      transitionRelyingPartyClient_def intro!: exI[of _ "TableConfig.make _ _ _"] simp: TableConfig.make_def)

lemma map_sum_eq_Inr: "map_sum f g m = Inr b \<longleftrightarrow> (\<exists>a. m = Inr a \<and> b = g a)"
  by (cases m) auto

lemma apply_command_table:
  assumes "apply_command c s = Inr t"
  shows "table_of s = command_table c" "table_of t = command_table c"
  using assms by (cases c; cases s; auto simp: apply_command_def foreign_state_def map_sum_eq_Inr)+

section \<open>The effect on the tables\<close>

lemma update_row_committee:
  assumes "update_row config row nxt inp db = Inr (vs, db')" "table_of nxt = T_committee"
  obtains s where "nxt = S_committee s" "update_committees (\<lambda>c. cm_id c = lw_id row \<and> num (cm_version c) = li_expectedVersion inp)
            (\<lambda>c. c\<lparr>cm_state := s, cm_version := cm_version c + 1\<rparr>) db = Inr (vs, db')"
  using assms by (cases nxt) (auto simp: update_row_def)

lemma update_row_table:
  assumes "update_row config row nxt inp db = Inr (vs, db')" "table_of nxt \<noteq> T_committee"
  shows "update_lifecycles (\<lambda>r. in_table (tc_table config) (lw_id row) r \<and> num (ly_version r) = li_expectedVersion inp)
            (move_row nxt inp) db = Inr (vs, db')"
  using assms by (cases nxt) (auto simp: update_row_def)

lemma enqueue_lifecycle_event_Inr:
  assumes "enqueue_lifecycle_event sv config row command version state inp db = Inr (u, db')"
  shows "db_lifecycles db' = db_lifecycles db" "db_artifacts db' = db_artifacts db" "db_committees db' = db_committees db"
    "db_audit db' = db_audit db" "length (db_outbox db') = Suc (length (db_outbox db))"
  using assms by (auto simp: enqueue_lifecycle_event_def newId_def insert_outbox_event_Inr)

lemma appendAudit_length:
  assumes "appendAudit sv context cid command target result db = Inr (h, db')"
  shows "length (db_audit db') = Suc (length (db_audit db))"
  using assms by (auto simp: appendAudit_def insert_audit_event_def newId_def body_defs Let_def split: if_splits)

lemma completeIdempotency_Inr:
  assumes "completeIdempotency sv key reference version state db = Inr (u, db')"
  shows "db_lifecycles db' = db_lifecycles db" "db_artifacts db' = db_artifacts db" "db_committees db' = db_committees db"
    "db_audit db' = db_audit db" "db_outbox db' = db_outbox db"
  using assms by (auto simp: completeIdempotency_def)

lemma lifecycle_effect:
  assumes "transition_lifecycle_body sv config command inp db = Inr (rec, db')" "tc_table config = command_table command"
  obtains (replayed) "lr_replayed rec" "db' = db\<lparr>db_ids := Suc (db_ids db)\<rparr>"
    | (committee) row s u us where "find_lifecycle config (li_externalReference inp) db = Some row"
      "num (lw_version row) = li_expectedVersion inp" "apply_command command (lw_state row) = Inr (S_committee s)"
      "update_committees (\<lambda>c. cm_id c = lw_id row \<and> num (cm_version c) = li_expectedVersion inp)
            (\<lambda>c. c\<lparr>cm_state := s, cm_version := cm_version c + 1\<rparr>) db = Inr (u # us, db\<lparr>db_committees := db_committees db'\<rparr>)"
      "db_lifecycles db' = db_lifecycles db" "db_artifacts db' = db_artifacts db"
      "length (db_audit db') = Suc (length (db_audit db))" "length (db_outbox db') = Suc (length (db_outbox db))"
      "rec = \<lparr>lr_externalReference = li_externalReference inp, lr_state = lifecycle_state_name (S_committee s), lr_version = u,
         lr_replayed = False\<rparr>"
    | (table) row nxt u us where "find_lifecycle config (li_externalReference inp) db = Some row"
      "num (lw_version row) = li_expectedVersion inp" "apply_command command (lw_state row) = Inr nxt" "table_of nxt \<noteq> T_committee"
      "validatePreconditions config command row inp db = Inr ((), db)"
      "update_lifecycles (\<lambda>r. in_table (tc_table config) (lw_id row) r \<and> num (ly_version r) = li_expectedVersion inp)
            (move_row nxt inp) db = Inr (u # us, db\<lparr>db_lifecycles := db_lifecycles db'\<rparr>)"
      "db_committees db' = db_committees db" "db_artifacts db' = db_artifacts db"
      "length (db_audit db') = Suc (length (db_audit db))" "length (db_outbox db') = Suc (length (db_outbox db))"
      "rec = \<lparr>lr_externalReference = li_externalReference inp, lr_state = lifecycle_state_name nxt, lr_version = u, lr_replayed = False\<rparr>"
  using assms(1)
proof (cases rule: lifecycle_steps)
  case replayed
  thus ?thesis using that(1) by blast
next
  case (changed row x db1 nxt u us db2 h db3 db4)
  note b = beginIdempotency_lifecycle_Inr[OF changed(2)]
  note a = appendAudit_frame[THEN untouchedD, OF changed(7)] and len = appendAudit_length[OF changed(7)]
  note e = enqueue_lifecycle_event_Inr[OF changed(8)] and c = completeIdempotency_Inr[OF changed(9)]
  have o: "db_outbox db3 = db_outbox db2" "db_committees db3 = db_committees db2" "db_lifecycles db3 = db_lifecycles db2"
    "db_artifacts db3 = db_artifacts db2" using a by auto
  show ?thesis
  proof (cases "table_of nxt = T_committee")
    case True
    from update_row_committee[OF changed(6) True] obtain s where s: "nxt = S_committee s"
      "update_committees (\<lambda>c. cm_id c = lw_id row \<and> num (cm_version c) = li_expectedVersion inp)
            (\<lambda>c. c\<lparr>cm_state := s, cm_version := cm_version c + 1\<rparr>) db1 = Inr (u # us, db2)" by blast
    show ?thesis
      by (rule committee[OF changed(1,3) changed(4)[unfolded s(1)]])
         (use s changed(10) len b c e o in \<open>auto simp: update_committees_Inr\<close>)
  next
    case False
    have v: "validatePreconditions config command row inp db = Inr ((), db)"
      using changed(5) b(2,3) by (auto simp: validatePreconditions_def body_defs split: if_splits option.splits)
    show ?thesis
      by (rule table[OF changed(1,3,4) False v])
         (use update_row_table[OF changed(6) False] changed(10) len b c e o in \<open>auto simp: update_lifecycles_Inr\<close>)
  qed
qed

lemma fill_column_simps [simp]:
  "ly_id (fill_column nxt inp r) = ly_id r" "ly_external_reference (fill_column nxt inp r) = ly_external_reference r"
  "ly_committee_id (fill_column nxt inp r) = ly_committee_id r" "ly_state (fill_column nxt inp r) = ly_state r"
  "ly_version (fill_column nxt inp r) = ly_version r" "ly_expires_at (fill_column nxt inp r) = ly_expires_at r"
  "ly_rejection_reason (fill_column nxt inp r) = ly_rejection_reason r"
  by (cases nxt; simp)+

lemma move_row_simps [simp]:
  "ly_id (move_row nxt inp r) = ly_id r" "ly_external_reference (move_row nxt inp r) = ly_external_reference r"
  "ly_committee_id (move_row nxt inp r) = ly_committee_id r" "ly_state (move_row nxt inp r) = nxt"
  "ly_version (move_row nxt inp r) = ly_version r + 1" "ly_expires_at (move_row nxt inp r) = ly_expires_at r"
  "ly_rejection_reason (move_row nxt inp r) = ly_rejection_reason r"
  by (simp_all add: move_row_def)

section \<open>Effect\<close>

text \<open>The unique indexes on the identifiers and references of the eight tables.\<close>

definition row_key :: "lifecycle_row \<Rightarrow> lifecycle_table \<times> string" where
  "row_key r = (table_of (ly_state r), ly_id r)"

definition tables_unique :: "database \<Rightarrow> bool" where
  "tables_unique db \<longleftrightarrow> distinct (map row_key (db_lifecycles db))
     \<and> distinct (map (\<lambda>r. (table_of (ly_state r), ly_external_reference r)) (db_lifecycles db))
     \<and> distinct (map cm_id (db_committees db)) \<and> distinct (map cm_external_reference (db_committees db))"

definition row_of :: "lifecycle_command \<Rightarrow> string \<Rightarrow> database \<Rightarrow> LifecycleRow option" where
  "row_of c reference db =
     find_lifecycle \<lparr>tc_table = command_table c, tc_targetType = [], tc_eventAggregate = []\<rparr> reference db"

definition other_rows :: "lifecycle_command \<Rightarrow> string \<Rightarrow> database \<Rightarrow> lifecycle_row list \<times> committee_row list" where
  "other_rows c i db =
     (filter (\<lambda>r. row_key r \<noteq> (command_table c, i)) (db_lifecycles db),
      filter (\<lambda>m. \<not> (command_table c = T_committee \<and> cm_id m = i)) (db_committees db))"

lemma row_of_config: "tc_table config = command_table c \<Longrightarrow> find_lifecycle config reference db = row_of c reference db"
  by (simp add: row_of_def find_lifecycle_def)

lemma filter_update_where:
  assumes "\<And>r. P r \<Longrightarrow> \<not> Q r \<and> \<not> Q (f r)"
  shows "filter Q (update_where P f t) = filter Q t"
  using assms by (induction t) auto

text \<open>What a successful first execution does, for the tables other than committee and for committee.\<close>

lemma table_row_moves:
  assumes uniq: "tables_unique db" and tab: "command_table c \<noteq> T_committee" and row: "row_of c reference db = Some row"
    and ver: "num (lw_version row) = v" and ap: "apply_command c (lw_state row) = Inr nxt"
    and upd: "update_lifecycles (\<lambda>r. in_table (command_table c) (lw_id row) r \<and> num (ly_version r) = v) (move_row nxt inp) db
        = Inr (u # us, db\<lparr>db_lifecycles := db_lifecycles db'\<rparr>)" and com: "db_committees db' = db_committees db"
  shows "row_of c reference db' = Some (row\<lparr>lw_state := nxt, lw_version := lw_version row + 1\<rparr>)" "u = lw_version row + 1"
    "other_rows c (lw_id row) db' = other_rows c (lw_id row) db"
proof -
  let ?P = "\<lambda>r. in_table (command_table c) (lw_id row) r \<and> num (ly_version r) = v"
  obtain r0 where r0: "select_where (\<lambda>r. table_of (ly_state r) = command_table c \<and> ly_external_reference r = reference) (db_lifecycles db) = Some r0"
    and rw: "row = table_lifecycle_row (command_table c) db r0"
    using row tab by (auto simp: row_of_def find_lifecycle_def)
  note s = select_where_SomeD[OF r0]
  have f: "lw_id row = ly_id r0" "lw_version row = ly_version r0" "lw_state row = ly_state r0"
    by (simp_all add: rw table_lifecycle_row_def Let_def)
  have only: "r = r0" if "r \<in> set (db_lifecycles db)" "?P r" for r
    using distinct_map_key_eq[of row_key "db_lifecycles db" r r0] uniq that s f by (simp add: tables_unique_def row_key_def in_table_def)
  have upd': "db_lifecycles db' = update_where ?P (move_row nxt inp) (db_lifecycles db)"
    and us: "u # us = map (\<lambda>r. ly_version (move_row nxt inp r)) (filter ?P (db_lifecycles db))"
    using upd by (auto simp: update_lifecycles_Inr dest: arg_cong[where f = db_lifecycles])
  have "u \<in> set (u # us)" by simp
  thus "u = lw_version row + 1" unfolding us using only f by auto
  have "select_where (\<lambda>r. table_of (ly_state r) = command_table c \<and> ly_external_reference r = reference) (db_lifecycles db')
      = Some (move_row nxt inp r0)"
    unfolding upd' using r0 s f ver apply_command_table(2)[OF ap]
    by (subst select_where_update_where) (auto simp: in_table_def)
  thus "row_of c reference db' = Some (row\<lparr>lw_state := nxt, lw_version := lw_version row + 1\<rparr>)"
    using tab by (simp add: row_of_def find_lifecycle_def rw table_lifecycle_row_def Let_def com split: option.split)
  show "other_rows c (lw_id row) db' = other_rows c (lw_id row) db"
    unfolding other_rows_def upd' com using apply_command_table(2)[OF ap]
    by (auto simp: in_table_def row_key_def intro!: filter_update_where)
qed

lemma committee_row_moves:
  assumes uniq: "tables_unique db" and tab: "command_table c = T_committee" and row: "row_of c reference db = Some row"
    and ver: "num (lw_version row) = v"
    and upd: "update_committees (\<lambda>m. cm_id m = lw_id row \<and> num (cm_version m) = v) (\<lambda>m. m\<lparr>cm_state := s, cm_version := cm_version m + 1\<rparr>) db
        = Inr (u # us, db\<lparr>db_committees := db_committees db'\<rparr>)" and lif: "db_lifecycles db' = db_lifecycles db"
  shows "row_of c reference db' = Some (row\<lparr>lw_state := S_committee s, lw_version := lw_version row + 1\<rparr>)" "u = lw_version row + 1"
    "other_rows c (lw_id row) db' = other_rows c (lw_id row) db"
proof -
  let ?P = "\<lambda>m. cm_id m = lw_id row \<and> num (cm_version m) = v" and ?f = "\<lambda>m. m\<lparr>cm_state := s, cm_version := cm_version m + 1\<rparr>"
  obtain m0 where m0: "select_where (\<lambda>m. cm_external_reference m = reference) (db_committees db) = Some m0"
    and rw: "row = committee_lifecycle_row m0"
    using row tab by (auto simp: row_of_def find_lifecycle_def)
  note f = select_where_SomeD[OF m0]
  have only: "m = m0" if "m \<in> set (db_committees db)" "?P m" for m
    using distinct_map_key_eq[of cm_id "db_committees db" m m0] uniq that f rw by (simp add: tables_unique_def committee_lifecycle_row_def)
  have upd': "db_committees db' = update_where ?P ?f (db_committees db)" and us: "u # us = map (\<lambda>m. cm_version (?f m)) (filter ?P (db_committees db))"
    using upd by (auto simp: update_committees_Inr dest: arg_cong[where f = db_committees])
  have "u \<in> set (u # us)" by simp
  thus "u = lw_version row + 1" unfolding us using only rw by (auto simp: committee_lifecycle_row_def)
  have "select_where (\<lambda>m. cm_external_reference m = reference) (db_committees db') = Some (?f m0)"
    unfolding upd' using m0 f ver rw by (subst select_where_update_where) (auto simp: committee_lifecycle_row_def)
  thus "row_of c reference db' = Some (row\<lparr>lw_state := S_committee s, lw_version := lw_version row + 1\<rparr>)"
    using tab by (simp add: row_of_def find_lifecycle_def rw committee_lifecycle_row_def)
  show "other_rows c (lw_id row) db' = other_rows c (lw_id row) db"
    unfolding other_rows_def upd' lif using tab by (auto intro!: filter_update_where)
qed

text \<open>
  C29. A transition does what its command says and nothing else.  An operation of the lifecycle
  repository that fails leaves the database as it was.  When it succeeds and is not a replay, the row
  with the given reference was at the expected version, the command of the domain package accepted its
  state, the row now has the state the command gives and the next version, the result reports them, no
  other row of the eight tables has changed, and exactly one audit event and one outbox event were
  written.  A row that belongs to a committee was moved in the context of that committee.
\<close>

theorem lifecycle_transition_effect:
  assumes "tables_unique db" "lifecycle_operation sv c inp db = (result, db')"
  shows "case result of
      Inl e \<Rightarrow> db' = db
    | Inr rec \<Rightarrow> (lr_replayed rec \<and> db' = db\<lparr>db_ids := Suc (db_ids db)\<rparr>) \<or>
        (\<exists>row nxt. row_of c (li_externalReference inp) db = Some row \<and> num (lw_version row) = li_expectedVersion inp
          \<and> apply_command c (lw_state row) = Inr nxt
          \<and> row_of c (li_externalReference inp) db' = Some (row\<lparr>lw_state := nxt, lw_version := lw_version row + 1\<rparr>)
          \<and> rec = \<lparr>lr_externalReference = li_externalReference inp, lr_state = lifecycle_state_name nxt,
                   lr_version = lw_version row + 1, lr_replayed = False\<rparr>
          \<and> other_rows c (lw_id row) db' = other_rows c (lw_id row) db
          \<and> length (db_audit db') = Suc (length (db_audit db)) \<and> length (db_outbox db') = Suc (length (db_outbox db))
          \<and> (truthy (lw_committee_reference row) \<longrightarrow> lw_committee_reference row = Some (cx_committeeReference (li_context inp))))"
proof -
  obtain config where config: "tc_table config = command_table c" "lifecycle_operation sv c = transition_lifecycle sv config c"
    using lifecycle_operation_is_transition by blast
  have outcome: "(case result of Inl e \<Rightarrow> db' = db | Inr rec \<Rightarrow> transition_lifecycle_body sv config c inp db = Inr (rec, db'))"
    using assms(2) unfolding config(2) transition_lifecycle_def
    by (auto simp: transaction_eq requireOpaqueReference_def split: if_splits sum.splits)
  show ?thesis
  proof (cases result)
    case (Inl e)
    thus ?thesis using outcome by simp
  next
    case (Inr rec)
    hence run: "transition_lifecycle_body sv config c inp db = Inr (rec, db')" using outcome by simp
    have tenant: "truthy (lw_committee_reference row) \<longrightarrow> lw_committee_reference row = Some (cx_committeeReference (li_context inp))"
      if "row_of c (li_externalReference inp) db = Some row" for row
      using run that row_of_config[OF config(1)] unfolding transition_lifecycle_body_def by (auto simp: load_lifecycle_Inr)
    from run config(1) show ?thesis
    proof (cases rule: lifecycle_effect)
      case replayed
      thus ?thesis using Inr by simp
    next
      case (committee row s u us)
      note row = committee(1)[unfolded row_of_config[OF config(1)]]
      have tab: "command_table c = T_committee" using apply_command_table(2)[OF committee(3)] by simp
      note moves = committee_row_moves[OF assms(1) tab row committee(2,4,5)]
      show ?thesis using row committee(2,3,7,8,9) moves tenant[OF row] Inr by auto
    next
      case (table row nxt u us)
      note row = table(1)[unfolded row_of_config[OF config(1)]]
      have tab: "command_table c \<noteq> T_committee" using apply_command_table(2)[OF table(3)] table(4) by simp
      note moves = table_row_moves[OF assms(1) tab row table(2,3) table(6)[unfolded config(1)] table(7)]
      show ?thesis using row table(2,3,9,10,11) moves tenant[OF row] Inr by auto
    qed
  qed
qed

section \<open>Evidence\<close>

text \<open>What a row in a later state of its lifecycle shows.\<close>

fun evidence :: "(string \<times> string) list \<Rightarrow> lifecycle_state \<Rightarrow> lifecycle_row \<Rightarrow> bool" where
  "evidence artifacts (S_renewal_cycle s) r \<longleftrightarrow>
     (s \<notin> {R_draft, R_cancelled} \<longrightarrow> (''eligible_snapshot'', ly_id r) \<in> set artifacts)
     \<and> (s \<in> {R_selection_ready, R_notices_pending, R_in_progress, R_reporting, R_published} \<longrightarrow> (''cycle_selection'', ly_id r) \<in> set artifacts)
     \<and> (s = R_published \<longrightarrow> (''cycle_report'', ly_id r) \<in> set artifacts)"
| "evidence artifacts (S_wallet_challenge s) r \<longleftrightarrow>
     (s = W_consumed \<longrightarrow> (\<exists>t. ly_consumed_at r = Some t \<and> t < ly_expires_at r))"
| "evidence artifacts (S_appeal s) r \<longleftrightarrow>
     (s \<notin> {A_opened, A_withdrawn} \<longrightarrow> (\<exists>a. ly_assigned_reference r = Some a \<and> is_opaque_reference a))"
| "evidence artifacts _ r \<longleftrightarrow> True"

definition lifecycle_inv :: "database \<Rightarrow> bool" where
  "lifecycle_inv db \<longleftrightarrow> tables_unique db
     \<and> (\<forall>r \<in> set (db_lifecycles db). lifecycle_row_ok r \<and> evidence (db_artifacts db) (ly_state r) r)"

lemma evidence_move:
  assumes ap: "apply_command c (ly_state r) = Inr nxt" and ev: "evidence artifacts (ly_state r) r"
    and wallet: "command_table c = T_wallet_challenge \<Longrightarrow>
        (c = L_wallet_challenge ExpireWalletChallenge \<longleftrightarrow> ly_expires_at r \<le> li_observedAt inp)"
    and appeal: "c = L_appeal AssignAppeal \<Longrightarrow> \<exists>a. li_assignmentReference inp = Some a \<and> is_opaque_reference a"
    and art: "\<And>artifact. artifact_of c = Some artifact \<Longrightarrow> (artifact, ly_id r) \<in> set artifacts"
  shows "evidence artifacts nxt (move_row nxt inp r)"
proof (cases c)
  case (L_renewal_cycle x)
  then obtain s where s: "ly_state r = S_renewal_cycle s" "run_renewal_cycle x s = Inr (renewal_cycle_target x)"
      "nxt = S_renewal_cycle (renewal_cycle_target x)"
    using ap by (cases "ly_state r") (auto simp: apply_command_def foreign_state_def map_sum_eq_Inr renewal_cycle.run_eq_Inr)
  note facts = s(2)[unfolded renewal_cycle.run_eq_Inr] ev[unfolded s(1) evidence.simps] art[unfolded artifact_of_def L_renewal_cycle]
  show ?thesis unfolding s(3) evidence.simps using facts by (cases x; simp)
next
  case (L_wallet_challenge x)
  then obtain s where s: "ly_state r = S_wallet_challenge s" "nxt = S_wallet_challenge (wallet_challenge_target x)"
    using ap by (cases "ly_state r") (auto simp: apply_command_def foreign_state_def map_sum_eq_Inr wallet_challenge.run_eq_Inr)
  show ?thesis using s wallet unfolding L_wallet_challenge by (cases x) (auto simp: move_row_def)
next
  case (L_appeal x)
  then obtain s where s: "ly_state r = S_appeal s" "run_appeal x s = Inr (appeal_target x)" "nxt = S_appeal (appeal_target x)"
    using ap by (cases "ly_state r") (auto simp: apply_command_def foreign_state_def map_sum_eq_Inr appeal.run_eq_Inr)
  note facts = s(2)[unfolded appeal.run_eq_Inr] ev[unfolded s(1) evidence.simps] appeal[unfolded L_appeal]
  show ?thesis unfolding s(3) evidence.simps using facts by (cases x; auto simp: move_row_def)
qed (use ap in \<open>cases "ly_state r"; auto simp: apply_command_def foreign_state_def map_sum_eq_Inr\<close>)+

text \<open>Calls of the repository, rows created by other code in a first state, and artifacts recorded.\<close>

definition first_states :: "lifecycle_state set" where
  "first_states = {S_renewal_cycle R_draft, S_wallet_challenge W_created, S_consent K_pending, S_consent K_acknowledged,
     S_appeal A_opened, S_privacy_request P_requested, S_notification N_pending, S_relying_party_client L_proposed}"

inductive lifecycle_event :: "services \<Rightarrow> database \<Rightarrow> database \<Rightarrow> bool" for sv where
  call: "lifecycle_operation sv c inp db = (result, db') \<Longrightarrow> lifecycle_event sv db db'"
| created: "lifecycle_row_ok r \<Longrightarrow> ly_state r \<in> first_states \<Longrightarrow> tables_unique (db\<lparr>db_lifecycles := db_lifecycles db @ [r]\<rparr>) \<Longrightarrow>
    lifecycle_event sv db (db\<lparr>db_lifecycles := db_lifecycles db @ [r]\<rparr>)"
| recorded: "lifecycle_event sv db (db\<lparr>db_artifacts := artifact # db_artifacts db\<rparr>)"

lemma evidence_more: "evidence artifacts s r \<Longrightarrow> set artifacts \<subseteq> set artifacts' \<Longrightarrow> evidence artifacts' s r"
  by (cases s) auto

lemma found_table_row:
  assumes "tables_unique db" "row_of c reference db = Some row" "command_table c \<noteq> T_committee"
  obtains r0 where "r0 \<in> set (db_lifecycles db)" "ly_state r0 = lw_state row" "ly_id r0 = lw_id row"
    "select_where (in_table (command_table c) (lw_id row)) (db_lifecycles db) = Some r0"
    "\<And>r. r \<in> set (db_lifecycles db) \<Longrightarrow> in_table (command_table c) (lw_id row) r \<Longrightarrow> r = r0"
proof -
  obtain r0 where r0: "r0 \<in> set (db_lifecycles db)" "row_key r0 = (command_table c, lw_id row)" "ly_state r0 = lw_state row" "ly_id r0 = lw_id row"
    using assms(2,3) select_where_SomeD
    by (fastforce simp: row_of_def find_lifecycle_def table_lifecycle_row_def Let_def row_key_def)
  have keys: "distinct (map row_key (db_lifecycles db))" using assms(1) by (simp add: tables_unique_def)
  have "r = r0" if "r \<in> set (db_lifecycles db)" "in_table (command_table c) (lw_id row) r" for r
    using distinct_map_key_eq[OF keys that(1) r0(1)] that(2) r0 by (simp add: in_table_def row_key_def)
  moreover have "select_where (in_table (command_table c) (lw_id row)) (db_lifecycles db) = Some r0"
    by (rule select_where_unique[OF keys r0(1)]) (use r0 in \<open>auto simp: in_table_def row_key_def\<close>)
  ultimately show ?thesis using that r0 by blast
qed

lemma table_move_inv:
  assumes inv: "lifecycle_inv db" and tab: "tc_table config = command_table c" "command_table c \<noteq> T_committee"
    and row: "row_of c reference db = Some row" and ap: "apply_command c (lw_state row) = Inr nxt"
    and pre: "validatePreconditions config c row inp db = Inr ((), db)"
    and ok: "\<forall>r \<in> set (db_lifecycles db). in_table (command_table c) (lw_id row) r \<and> num (ly_version r) = v \<longrightarrow>
        lifecycle_row_ok (move_row nxt inp r)"
    and rows: "db_lifecycles db' = update_where (\<lambda>r. in_table (command_table c) (lw_id row) r \<and> num (ly_version r) = v)
        (move_row nxt inp) (db_lifecycles db)" and com: "db_committees db' = db_committees db" and art: "db_artifacts db' = db_artifacts db"
  shows "lifecycle_inv db'"
proof -
  have uniq: "tables_unique db" using inv by (simp add: lifecycle_inv_def)
  have nxt: "table_of nxt = command_table c" using apply_command_table(2)[OF ap] .
  have "map row_key (db_lifecycles db') = map row_key (db_lifecycles db)"
    "map (\<lambda>r. (table_of (ly_state r), ly_external_reference r)) (db_lifecycles db') =
     map (\<lambda>r. (table_of (ly_state r), ly_external_reference r)) (db_lifecycles db)"
    unfolding rows using nxt by (auto simp: row_key_def in_table_def intro!: map_update_where)
  hence uniq': "tables_unique db'" using uniq com unfolding tables_unique_def by simp
  obtain r0 where r0: "r0 \<in> set (db_lifecycles db)" "ly_state r0 = lw_state row" "ly_id r0 = lw_id row"
    "select_where (in_table (command_table c) (lw_id row)) (db_lifecycles db) = Some r0"
    and only: "\<And>r. r \<in> set (db_lifecycles db) \<Longrightarrow> in_table (command_table c) (lw_id row) r \<Longrightarrow> r = r0"
    using found_table_row[OF uniq row tab(2)] by blast
  have "command_table c = T_wallet_challenge \<Longrightarrow> (c = L_wallet_challenge ExpireWalletChallenge \<longleftrightarrow> ly_expires_at r0 \<le> li_observedAt inp)"
    "c = L_appeal AssignAppeal \<Longrightarrow> \<exists>a. li_assignmentReference inp = Some a \<and> is_opaque_reference a"
    "artifact_of c = Some artifact \<Longrightarrow> (artifact, ly_id r0) \<in> set (db_artifacts db)" for artifact
    using validatePreconditions_Inr(2-4)[OF pre] tab(1) r0(3,4) by (auto simp: artifact_of_def split: if_splits)
  hence "evidence (db_artifacts db) nxt (move_row nxt inp r0)"
    using ap r0(1,2) inv by (intro evidence_move[of c]) (auto simp: lifecycle_inv_def)
  hence "lifecycle_row_ok r \<and> evidence (db_artifacts db) (ly_state r) r" if "r \<in> set (db_lifecycles db')" for r
    using that inv ok only unfolding rows by (auto simp: lifecycle_inv_def elim!: in_update_whereE)
  thus ?thesis using uniq' art by (simp add: lifecycle_inv_def)
qed

lemma lifecycle_call_inv:
  assumes inv: "lifecycle_inv db" and call: "lifecycle_operation sv c inp db = (result, db')"
  shows "lifecycle_inv db'"
proof -
  obtain config where config: "tc_table config = command_table c" "lifecycle_operation sv c = transition_lifecycle sv config c"
    using lifecycle_operation_is_transition by blast
  have "db' = db \<or> (\<exists>rec. transition_lifecycle_body sv config c inp db = Inr (rec, db'))"
    using call unfolding config(2) transition_lifecycle_def
    by (auto simp: transaction_eq requireOpaqueReference_def split: if_splits sum.splits)
  thus ?thesis
  proof
    assume "\<exists>rec. transition_lifecycle_body sv config c inp db = Inr (rec, db')"
    then obtain rec where "transition_lifecycle_body sv config c inp db = Inr (rec, db')" by blast
    from this config(1) show ?thesis
    proof (cases rule: lifecycle_effect)
      case replayed
      thus ?thesis using inv by (simp add: lifecycle_inv_def tables_unique_def)
    next
      case (committee row s u us)
      hence "map cm_id (db_committees db') = map cm_id (db_committees db)"
        "map cm_external_reference (db_committees db') = map cm_external_reference (db_committees db)"
        by (auto simp: update_committees_Inr dest!: arg_cong[where f = db_committees] intro!: map_update_where)
      thus ?thesis using inv committee(5,6) by (simp add: lifecycle_inv_def tables_unique_def)
    next
      case (table row nxt u us)
      show ?thesis
        by (rule table_move_inv[OF inv config(1) _ table(1)[unfolded row_of_config[OF config(1)]] table(3,5) _ _ table(7,8)])
           (use table(6) table(4) apply_command_table(2)[OF table(3)] config(1) in
             \<open>auto simp: update_lifecycles_Inr dest: arg_cong[where f = db_lifecycles]\<close>)
    qed
  qed (use inv in simp)
qed

lemma lifecycle_event_inv:
  assumes "lifecycle_event sv db db'" "lifecycle_inv db"
  shows "lifecycle_inv db'"
  using assms
proof cases
  case (created r)
  have "evidence (db_artifacts db) (ly_state r) r" using created(3) by (auto simp: first_states_def)
  thus ?thesis using created assms(2) by (auto simp: lifecycle_inv_def)
next
  case (recorded artifact)
  have "evidence (artifact # db_artifacts db) (ly_state r) r" if "r \<in> set (db_lifecycles db)" for r
    by (rule evidence_more[of "db_artifacts db"]) (use assms(2) that in \<open>auto simp: lifecycle_inv_def\<close>)
  thus ?thesis using recorded assms(2) by (auto simp: lifecycle_inv_def tables_unique_def)
qed (use lifecycle_call_inv in blast)

text \<open>
  C22. The later states of the lifecycles have their evidence.  Over every history of calls of the lifecycle
  repository, of rows created by other code in a first state and of artifacts recorded, starting from a
  consistent database: a renewal cycle that is published has an eligible snapshot, a selection and a
  report; a consumed wallet challenge was consumed before it expired; a withdrawn consent was
  acknowledged before; a decided appeal has an opaque assignee and the time of its decision; and a
  delivered notification has the time of its delivery.
\<close>

theorem lifecycle_states_have_evidence:
  assumes "lifecycle_inv db0" "(lifecycle_event sv)\<^sup>*\<^sup>* db0 db" "r \<in> set (db_lifecycles db)"
  shows "(ly_state r = S_renewal_cycle R_published \<longrightarrow>
        {(''eligible_snapshot'', ly_id r), (''cycle_selection'', ly_id r), (''cycle_report'', ly_id r)} \<subseteq> set (db_artifacts db))
    \<and> (ly_state r = S_wallet_challenge W_consumed \<longrightarrow> (\<exists>t < ly_expires_at r. ly_consumed_at r = Some t))
    \<and> (ly_state r = S_consent K_withdrawn \<longrightarrow> (\<exists>a w. ly_acknowledged_at r = Some a \<and> ly_withdrawn_at r = Some w \<and> a \<le> w))
    \<and> (ly_state r \<in> {S_appeal A_upheld, S_appeal A_denied, S_appeal A_remanded} \<longrightarrow>
        (\<exists>a t. ly_assigned_reference r = Some a \<and> is_opaque_reference a \<and> ly_resolved_at r = Some t))
    \<and> (ly_state r = S_notification N_delivered \<longrightarrow> ly_delivered_at r \<noteq> None)"
proof -
  have "lifecycle_inv db" using assms(2,1) by (induction rule: rtranclp_induct) (auto intro: lifecycle_event_inv)
  hence r: "state_columns_ok (ly_state r) r" "evidence (db_artifacts db) (ly_state r) r"
    using assms(3) by (auto simp: lifecycle_inv_def lifecycle_row_ok_def)
  show ?thesis by (intro conjI impI; use r in auto)
qed

section \<open>Answered wallet challenges\<close>

text \<open>
  An answered wallet challenge can only be consumed, and only before it expires.  When a challenge has
  the state response_received, the only command that moves it is consumeWalletChallenge at a time before
  its expiry: rejectWalletResponse always fails, because the constraint on wallet_challenge asks for a
  rejection reason and the repository writes none, and once the challenge has expired no command moves it
  any more.
\<close>

theorem answered_challenge_is_only_consumed:
  assumes "lifecycle_inv db" "r \<in> set (db_lifecycles db)" "ly_state r = S_wallet_challenge W_response_received"
    and "transitionWalletChallenge sv x inp db = (Inr rec, db')" "\<not> lr_replayed rec" "li_externalReference inp = ly_external_reference r"
  shows "x = ConsumeWalletChallenge \<and> li_observedAt inp < ly_expires_at r"
proof -
  let ?config = "\<lparr>tc_table = T_wallet_challenge, tc_targetType = ''wallet_challenge'', tc_eventAggregate = ''wallet_challenge''\<rparr>"
  let ?c = "L_wallet_challenge x"
  have tab: "tc_table ?config = command_table ?c" by simp
  have run: "transition_lifecycle_body sv ?config ?c inp db = Inr (rec, db')"
    using assms(4) unfolding transitionWalletChallenge_def transition_lifecycle_def
    by (auto simp: transaction_eq requireOpaqueReference_def split: if_splits sum.splits)
  have uniq: "tables_unique db" and ok: "lifecycle_row_ok r" using assms(1,2) by (auto simp: lifecycle_inv_def)
  have "select_where (\<lambda>q. table_of (ly_state q) = T_wallet_challenge \<and> ly_external_reference q = li_externalReference inp) (db_lifecycles db) = Some r"
    by (rule select_where_unique[of "\<lambda>q. (table_of (ly_state q), ly_external_reference q)", OF _ assms(2)])
       (use uniq assms(3,6) in \<open>auto simp: tables_unique_def\<close>)
  hence found: "find_lifecycle ?config (li_externalReference inp) db = Some (table_lifecycle_row T_wallet_challenge db r)"
    by (simp add: find_lifecycle_def)
  obtain row nxt u us where row: "row = table_lifecycle_row T_wallet_challenge db r"
    and ver: "num (lw_version row) = li_expectedVersion inp"
    and ap: "apply_command ?c (S_wallet_challenge W_response_received) = Inr nxt"
    and pre: "validatePreconditions ?config ?c row inp db = Inr ((), db)"
    and upd: "update_lifecycles (\<lambda>q. in_table T_wallet_challenge (lw_id row) q \<and> num (ly_version q) = li_expectedVersion inp)
            (move_row nxt inp) db = Inr (u # us, db\<lparr>db_lifecycles := db_lifecycles db'\<rparr>)"
    using run tab
  proof (cases rule: lifecycle_effect)
    case (committee row s u us)
    thus ?thesis using apply_command_table(2)[OF committee(3)] by simp
  next
    case (table row nxt u us)
    thus ?thesis using found assms(3) that by (auto simp: table_lifecycle_row_def Let_def)
  qed (use assms(5) in simp_all)
  have f: "lw_id row = ly_id r" "lw_version row = ly_version r" by (simp_all add: row table_lifecycle_row_def Let_def)
  have "select_where (in_table T_wallet_challenge (ly_id r)) (db_lifecycles db) = Some r"
    by (rule select_where_unique[of row_key, OF _ assms(2)])
       (use uniq assms(3) in \<open>auto simp: tables_unique_def row_key_def in_table_def\<close>)
  hence time: "x = ExpireWalletChallenge \<longleftrightarrow> ly_expires_at r \<le> li_observedAt inp"
    using validatePreconditions_Inr(2)[OF pre] f by simp
  have "lifecycle_row_ok (move_row nxt inp r)"
    using upd assms(2,3) f ver by (auto simp: update_lifecycles_Inr in_table_def)
  hence "x \<noteq> RejectWalletResponse" using ok assms(3) ap
    by (auto simp: lifecycle_row_ok_def apply_command_def map_sum_eq_Inr wallet_challenge.run_eq_Inr)
  moreover have expects: "W_response_received \<in> set (wallet_challenge_expected x)"
    using ap by (auto simp: apply_command_def map_sum_eq_Inr wallet_challenge.run_eq_Inr simp del: run_wallet_challenge.simps)
  moreover have "x = ConsumeWalletChallenge \<or> x = RejectWalletResponse"
    using expects by (cases x) auto
  ultimately show ?thesis using time by auto
qed

section \<open>A challenge for the examples\<close>

definition challenge_row :: lifecycle_row where
  "challenge_row = \<lparr>ly_id = ''w'', ly_external_reference = ''challenge'', ly_committee_id = None,
     ly_state = S_wallet_challenge W_response_received, ly_version = 3, ly_expires_at = 10, ly_rejection_reason = None,
     ly_consumed_at = None, ly_acknowledged_at = None, ly_withdrawn_at = None, ly_assigned_reference = None,
     ly_resolved_at = None, ly_completed_at = None, ly_delivered_at = None\<rparr>"

definition challenge_db :: database where
  "challenge_db = empty_database\<lparr>db_lifecycles := [challenge_row]\<rparr>"

definition challenge_input :: LifecycleTransitionInput where
  "challenge_input = \<lparr>li_externalReference = ''challenge'', li_expectedVersion = num 3, li_observedAt = 4,
     li_assignmentReference = None, li_context = example_context ''k''\<rparr>"

definition consumed_db :: database where
  "consumed_db = snd (transitionWalletChallenge example_services ConsumeWalletChallenge challenge_input challenge_db)"

lemma challenge_db_inv: "lifecycle_inv challenge_db"
  by (simp add: lifecycle_inv_def tables_unique_def challenge_db_def challenge_row_def empty_database_def lifecycle_row_ok_def)

lemma challenge_consumed:
  "map_sum id lr_replayed (fst (transitionWalletChallenge example_services ConsumeWalletChallenge challenge_input challenge_db)) = Inr False
   \<and> map (\<lambda>r. (ly_state r, ly_expires_at r)) (db_lifecycles consumed_db) = [(S_wallet_challenge W_consumed, 10)]"
  by code_simp

lemma challenge_call:
  obtains rec where "transitionWalletChallenge example_services ConsumeWalletChallenge challenge_input challenge_db = (Inr rec, consumed_db)"
    "\<not> lr_replayed rec"
  using challenge_consumed unfolding consumed_db_def
  by (cases "transitionWalletChallenge example_services ConsumeWalletChallenge challenge_input challenge_db"; cases "fst (transitionWalletChallenge
      example_services ConsumeWalletChallenge challenge_input challenge_db)") auto

theorem lifecycle_transition_effect_witness:
  "\<exists>row. row_of (L_wallet_challenge ConsumeWalletChallenge) ''challenge'' consumed_db = Some row
     \<and> lw_state row = S_wallet_challenge W_consumed \<and> lw_version row = 4 \<and> length (db_audit consumed_db) = 1"
proof -
  obtain rec where call: "transitionWalletChallenge example_services ConsumeWalletChallenge challenge_input challenge_db = (Inr rec, consumed_db)"
    "\<not> lr_replayed rec" by (rule challenge_call)
  have row: "row_of (L_wallet_challenge ConsumeWalletChallenge) ''challenge'' challenge_db =
      Some \<lparr>lw_id = ''w'', lw_external_reference = ''challenge'', lw_committee_id = None, lw_committee_reference = None,
        lw_state = S_wallet_challenge W_response_received, lw_version = 3\<rparr>"
    by (simp add: row_of_def find_lifecycle_def challenge_db_def challenge_row_def table_lifecycle_row_def)
  have ap: "apply_command (L_wallet_challenge ConsumeWalletChallenge) (S_wallet_challenge W_response_received) = Inr (S_wallet_challenge W_consumed)"
    by code_simp
  have "tables_unique challenge_db" using challenge_db_inv by (simp add: lifecycle_inv_def)
  from lifecycle_transition_effect[OF this, of example_services "L_wallet_challenge ConsumeWalletChallenge" challenge_input]
  show ?thesis using call row ap by (auto simp: challenge_input_def challenge_db_def empty_database_def)
qed

theorem lifecycle_states_have_evidence_witness:
  "\<exists>r t. db_lifecycles consumed_db = [r] \<and> ly_state r = S_wallet_challenge W_consumed \<and> ly_consumed_at r = Some t \<and> t < 10"
proof -
  obtain rec where call: "transitionWalletChallenge example_services ConsumeWalletChallenge challenge_input challenge_db = (Inr rec, consumed_db)"
    by (rule challenge_call)
  hence "lifecycle_event example_services challenge_db consumed_db"
    using lifecycle_event.call[of example_services "L_wallet_challenge ConsumeWalletChallenge"] by simp
  note h = r_into_rtranclp[of "lifecycle_event example_services", OF this]
  obtain r where r: "db_lifecycles consumed_db = [r]" "ly_state r = S_wallet_challenge W_consumed" "ly_expires_at r = 10"
    using challenge_consumed by (auto simp: map_eq_Cons_conv)
  thus ?thesis using lifecycle_states_have_evidence[OF challenge_db_inv h, of r] by auto
qed

theorem answered_challenge_is_only_consumed_witness:
  "li_observedAt challenge_input < ly_expires_at challenge_row"
proof -
  obtain rec where call: "transitionWalletChallenge example_services ConsumeWalletChallenge challenge_input challenge_db = (Inr rec, consumed_db)"
    "\<not> lr_replayed rec" by (rule challenge_call)
  have r: "challenge_row \<in> set (db_lifecycles challenge_db)" "ly_state challenge_row = S_wallet_challenge W_response_received"
    "li_externalReference challenge_input = ly_external_reference challenge_row"
    by (simp_all add: challenge_db_def challenge_row_def challenge_input_def)
  show ?thesis using answered_challenge_is_only_consumed[OF challenge_db_inv r(1,2) call r(3)] by blast
qed

end
