(* ===== verification/Lifecycle_Bounds.thy ===== *)
theory Lifecycle_Bounds
  imports Lifecycles Support_Lifecycles
begin

text \<open>
  How long the lifecycles of the domain package can run.  Six of them end after a fixed number of
  commands, whatever the commands are; the other four have a loop and can run for ever.
\<close>

section \<open>Lifecycles whose states only descend\<close>

context lifecycle
begin

lemma runs_are_bounded:
  assumes down: "\<And>c s. s \<in> set (expected c) \<Longrightarrow> rank (target c) < (rank s :: nat)" and "run_all run cs s = Inr t"
  shows "length cs + rank t \<le> rank s"
  using assms(2)
proof (induction cs arbitrary: s)
  case (Cons c cs)
  then obtain u where u: "run c s = Inr u" "run_all run cs u = Inr t" by auto
  hence "rank u < rank s" using down by (auto simp: run_eq_Inr)
  thus ?case using Cons.IH[OF u(2)] by simp
qed simp

lemma loops_for_ever:
  assumes "run_all run loop s = Inr s"
  shows "run_all run (concat (replicate n loop)) s = Inr s"
  using assms by (induction n) (auto simp: run_all_append)

end

text \<open>The number of commands that can follow a state.\<close>

fun committee_rank :: "CommitteeState \<Rightarrow> nat" where
  "committee_rank C_proposed = 8" | "committee_rank C_forming = 7" | "committee_rank C_policy_review = 6"
| "committee_rank C_testnet_provisioning = 5" | "committee_rank C_testnet_ready = 4" | "committee_rank C_pilot_review = 3"
| "committee_rank C_pilot_approved = 2" | "committee_rank C_suspended = 1" | "committee_rank C_active = 0"
| "committee_rank C_retired = 0"

fun renewal_cycle_rank :: "RenewalCycleState \<Rightarrow> nat" where
  "renewal_cycle_rank R_draft = 7" | "renewal_cycle_rank R_snapshot_committed = 6" | "renewal_cycle_rank R_selection_pending = 5"
| "renewal_cycle_rank R_selection_ready = 4" | "renewal_cycle_rank R_notices_pending = 3" | "renewal_cycle_rank R_in_progress = 2"
| "renewal_cycle_rank R_reporting = 1" | "renewal_cycle_rank R_published = 0" | "renewal_cycle_rank R_cancelled = 0"

fun wallet_challenge_rank :: "WalletChallengeState \<Rightarrow> nat" where
  "wallet_challenge_rank W_created = 3" | "wallet_challenge_rank W_presented = 2" | "wallet_challenge_rank W_response_received = 1"
| "wallet_challenge_rank _ = 0"

fun consent_rank :: "ConsentState \<Rightarrow> nat" where
  "consent_rank K_pending = 2" | "consent_rank K_acknowledged = 1" | "consent_rank K_withdrawn = 0"

fun appeal_rank :: "AppealState \<Rightarrow> nat" where
  "appeal_rank A_opened = 3" | "appeal_rank A_assigned = 2" | "appeal_rank A_under_review = 1" | "appeal_rank _ = 0"

fun privacy_request_rank :: "PrivacyRequestState \<Rightarrow> nat" where
  "privacy_request_rank P_requested = 3" | "privacy_request_rank P_identity_confirmed = 2" | "privacy_request_rank P_processing = 1"
| "privacy_request_rank _ = 0"

lemma ranks_descend:
  "s1 \<in> set (committee_expected c1) \<Longrightarrow> committee_rank (committee_target c1) < committee_rank s1"
  "s2 \<in> set (renewal_cycle_expected c2) \<Longrightarrow> renewal_cycle_rank (renewal_cycle_target c2) < renewal_cycle_rank s2"
  "s3 \<in> set (wallet_challenge_expected c3) \<Longrightarrow> wallet_challenge_rank (wallet_challenge_target c3) < wallet_challenge_rank s3"
  "s4 \<in> set (consent_expected c4) \<Longrightarrow> consent_rank (consent_target c4) < consent_rank s4"
  "s5 \<in> set (appeal_expected c5) \<Longrightarrow> appeal_rank (appeal_target c5) < appeal_rank s5"
  "s6 \<in> set (privacy_request_expected c6) \<Longrightarrow> privacy_request_rank (privacy_request_target c6) < privacy_request_rank s6"
  by ((cases c1; auto), (cases c2; auto), (cases c3; auto), (cases c4; auto), (cases c5; auto), (cases c6; auto))

lemmas run_bounds =
  committee.runs_are_bounded[of committee_rank, OF ranks_descend(1)] renewal_cycle.runs_are_bounded[of renewal_cycle_rank, OF ranks_descend(2)]
  wallet_challenge.runs_are_bounded[of wallet_challenge_rank, OF ranks_descend(3)] consent.runs_are_bounded[of consent_rank, OF ranks_descend(4)]
  appeal.runs_are_bounded[of appeal_rank, OF ranks_descend(5)] privacy_request.runs_are_bounded[of privacy_request_rank, OF ranks_descend(6)]

section \<open>Lifecycles with a loop\<close>

lemma lifecycle_loops:
  "run_all run_verification information_round V_scheduled = Inr V_scheduled"
  "run_all run_verus_job [ClaimVerusJob, BeginVerusPreflight, RecordRetryableVerusFailure] J_retryable_failed = Inr J_retryable_failed"
  "run_all run_notification [ClaimNotification, RecordRetryableNotificationFailure, RetryNotification] N_pending = Inr N_pending"
  "run_all run_relying_party_client [SuspendRelyingPartyClient, ActivateRelyingPartyClient] L_active = Inr L_active"
  by code_simp+

text \<open>
  C38. Which lifecycles end.  However its commands are chosen, a committee accepts at most eight of them, a
  renewal cycle seven, a wallet challenge, an appeal and a privacy request three, and a consent two; the
  bounds count from any state and every further command is refused.  The lifecycles of verification
  requests, Verus jobs, notifications and relying-party clients have runs of any length.
\<close>

theorem which_lifecycles_end:
  "(run_all run_committee cs1 s1 = Inr t1 \<longrightarrow> length cs1 \<le> 8)
   \<and> (run_all run_renewal_cycle cs2 s2 = Inr t2 \<longrightarrow> length cs2 \<le> 7)
   \<and> (run_all run_wallet_challenge cs3 s3 = Inr t3 \<longrightarrow> length cs3 \<le> 3)
   \<and> (run_all run_consent cs4 s4 = Inr t4 \<longrightarrow> length cs4 \<le> 2)
   \<and> (run_all run_appeal cs5 s5 = Inr t5 \<longrightarrow> length cs5 \<le> 3)
   \<and> (run_all run_privacy_request cs6 s6 = Inr t6 \<longrightarrow> length cs6 \<le> 3)
   \<and> (\<exists>cs. n \<le> length cs \<and> run_all run_verification cs V_scheduled = Inr V_scheduled)
   \<and> (\<exists>cs. n \<le> length cs \<and> run_all run_verus_job cs J_retryable_failed = Inr J_retryable_failed)
   \<and> (\<exists>cs. n \<le> length cs \<and> run_all run_notification cs N_pending = Inr N_pending)
   \<and> (\<exists>cs. n \<le> length cs \<and> run_all run_relying_party_client cs L_active = Inr L_active)"
proof -
  have tops: "committee_rank s1 \<le> 8" "renewal_cycle_rank s2 \<le> 7" "wallet_challenge_rank s3 \<le> 3" "consent_rank s4 \<le> 2"
    "appeal_rank s5 \<le> 3" "privacy_request_rank s6 \<le> 3"
    by ((cases s1; simp), (cases s2; simp), (cases s3; simp), (cases s4; simp), (cases s5; simp), (cases s6; simp))
  have long: "n \<le> length (concat (replicate n xs))" if "xs \<noteq> []" for xs :: "'x list"
    using that by (induction n) (auto simp: Suc_le_eq neq_Nil_conv)
  note runs = lifecycle_loops(1)[THEN verification.loops_for_ever, of n] lifecycle_loops(2)[THEN verus_job.loops_for_ever, of n]
    lifecycle_loops(3)[THEN notification.loops_for_ever, of n] lifecycle_loops(4)[THEN relying_party_client.loops_for_ever, of n]
  have "\<exists>cs. n \<le> length cs \<and> run_all run_verification cs V_scheduled = Inr V_scheduled"
    using runs(1) long[of information_round] by (auto simp: information_round_def)
  moreover have "\<exists>cs. n \<le> length cs \<and> run_all run_verus_job cs J_retryable_failed = Inr J_retryable_failed" using runs(2) long by blast
  moreover have "\<exists>cs. n \<le> length cs \<and> run_all run_notification cs N_pending = Inr N_pending" using runs(3) long by blast
  moreover have "\<exists>cs. n \<le> length cs \<and> run_all run_relying_party_client cs L_active = Inr L_active" using runs(4) long by blast
  ultimately show ?thesis
    using tops run_bounds(1)[of cs1 s1 t1] run_bounds(2)[of cs2 s2 t2] run_bounds(3)[of cs3 s3 t3] run_bounds(4)[of cs4 s4 t4]
      run_bounds(5)[of cs5 s5 t5] run_bounds(6)[of cs6 s6 t6] by (intro conjI impI; simp)
qed

theorem which_lifecycles_end_witness:
  "length [PresentWalletChallenge, RecordWalletResponse, ConsumeWalletChallenge] \<le> 3"
proof -
  have "run_all run_wallet_challenge [PresentWalletChallenge, RecordWalletResponse, ConsumeWalletChallenge] W_created = Inr W_consumed"
    by code_simp
  thus ?thesis using which_lifecycles_end by blast
qed

end
