(* ===== verification/Authorization.thy ===== *)
theory Authorization
  imports Repository
begin

text \<open>
  packages/auth/src/authorization.ts with the types of trust-domain.ts and the errors of errors.ts: the
  decision whether an actor may perform an action.  A date is None when it is invalid.  The digest of a
  decision is SHA-256 of the text JSON.stringify gives the object literal of makeDecision, which has no
  number in it.
\<close>

section \<open>Errors and trust domains\<close>

datatype AuthErrorCode =
    AUTHENTICATION_REQUIRED | AUTHENTICATION_FAILED | AUTHORIZATION_DENIED | CHALLENGE_EXPIRED
  | CHALLENGE_REPLAYED | CONSENT_INVALID | ORIGIN_REJECTED | POLICY_REQUIRED | RATE_LIMITED
  | REAUTHENTICATION_REQUIRED | SESSION_EXPIRED | SESSION_REVOKED

fun publicMessages :: "AuthErrorCode \<Rightarrow> string" where
  "publicMessages AUTHENTICATION_REQUIRED = ''Authentication is required.''"
| "publicMessages AUTHENTICATION_FAILED = ''The authentication attempt could not be completed.''"
| "publicMessages AUTHORIZATION_DENIED = ''This action is not permitted.''"
| "publicMessages CHALLENGE_EXPIRED = ''The authentication request expired. Start again.''"
| "publicMessages CHALLENGE_REPLAYED = ''The authentication request is no longer available. Start again.''"
| "publicMessages CONSENT_INVALID = ''A separate, explicit choice is required.''"
| "publicMessages ORIGIN_REJECTED = ''The request origin was rejected.''"
| "publicMessages POLICY_REQUIRED = ''A current required policy must be acknowledged.''"
| "publicMessages RATE_LIMITED = ''Too many attempts. Try again later.''"
| "publicMessages REAUTHENTICATION_REQUIRED = ''Confirm your identity again to continue.''"
| "publicMessages SESSION_EXPIRED = ''The session expired. Sign in again.''"
| "publicMessages SESSION_REVOKED = ''The session is no longer active. Sign in again.''"

datatype TrustDomain = D_participant | D_committee
datatype AuthenticationStrength = S_verified_email | S_passkey | S_recovery
datatype AccountState = U_active | U_invited | U_locked | U_suspended | U_closed

section \<open>Roles, actions and requests\<close>

datatype AuthorizationRole =
    R_scheduler | R_reviewer | R_signer | R_administrator | R_privacy | R_security | R_support
  | R_steward | R_relying_party

datatype AuthorizationAction =
    Participant_read_own | Participant_update_own | Participant_appeal | Participant_close_account
  | Participant_export_sensitive | Participant_link_verus | Participant_unlink_verus
  | Participant_publish_public_proof | Session_schedule | Session_assign | Verification_review
  | Verification_approve | Attestation_sign | Attestation_issue | Attestation_revoke
  | Privacy_fulfil_request | Security_inspect | Security_revoke_sessions | Support_recover_account
  | Committee_manage_roles | Committee_suspend | Client_rotate_key | Policy_manage | Release_manage
  | Relying_party_read_status

fun action_name :: "AuthorizationAction \<Rightarrow> string" where
  "action_name Participant_read_own = ''participant.read_own''"
| "action_name Participant_update_own = ''participant.update_own''"
| "action_name Participant_appeal = ''participant.appeal''"
| "action_name Participant_close_account = ''participant.close_account''"
| "action_name Participant_export_sensitive = ''participant.export_sensitive''"
| "action_name Participant_link_verus = ''participant.link_verus''"
| "action_name Participant_unlink_verus = ''participant.unlink_verus''"
| "action_name Participant_publish_public_proof = ''participant.publish_public_proof''"
| "action_name Session_schedule = ''session.schedule''"
| "action_name Session_assign = ''session.assign''"
| "action_name Verification_review = ''verification.review''"
| "action_name Verification_approve = ''verification.approve''"
| "action_name Attestation_sign = ''attestation.sign''"
| "action_name Attestation_issue = ''attestation.issue''"
| "action_name Attestation_revoke = ''attestation.revoke''"
| "action_name Privacy_fulfil_request = ''privacy.fulfil_request''"
| "action_name Security_inspect = ''security.inspect''"
| "action_name Security_revoke_sessions = ''security.revoke_sessions''"
| "action_name Support_recover_account = ''support.recover_account''"
| "action_name Committee_manage_roles = ''committee.manage_roles''"
| "action_name Committee_suspend = ''committee.suspend''"
| "action_name Client_rotate_key = ''client.rotate_key''"
| "action_name Policy_manage = ''policy.manage''"
| "action_name Release_manage = ''release.manage''"
| "action_name Relying_party_read_status = ''relying_party.read_status''"

datatype AuthorizationDenial =
    Account_inactive | Action_not_granted | Committee_inactive | Conflict_declared | Cross_committee
  | Feature_disabled | Four_eyes_required | Membership_inactive | Not_own_resource
  | Policy_missing_or_expired | Reauthentication_required | Session_not_assigned
  | State_precondition_failed | Wrong_trust_domain

fun denial_name :: "AuthorizationDenial \<Rightarrow> string" where
  "denial_name Account_inactive = ''account_inactive''"
| "denial_name Action_not_granted = ''action_not_granted''"
| "denial_name Committee_inactive = ''committee_inactive''"
| "denial_name Conflict_declared = ''conflict_declared''"
| "denial_name Cross_committee = ''cross_committee''"
| "denial_name Feature_disabled = ''feature_disabled''"
| "denial_name Four_eyes_required = ''four_eyes_required''"
| "denial_name Membership_inactive = ''membership_inactive''"
| "denial_name Not_own_resource = ''not_own_resource''"
| "denial_name Policy_missing_or_expired = ''policy_missing_or_expired''"
| "denial_name Reauthentication_required = ''reauthentication_required''"
| "denial_name Session_not_assigned = ''session_not_assigned''"
| "denial_name State_precondition_failed = ''state_precondition_failed''"
| "denial_name Wrong_trust_domain = ''wrong_trust_domain''"

record CurrentPolicyGate =
  pg_policyKey :: string
  pg_version :: string
  pg_effectiveAt :: date
  pg_expiresAt :: "date option"
  pg_acknowledgedVersion :: "string option"

record FourEyesApproval =
  fe_approverReference :: string
  fe_approverRoles :: "AuthorizationRole list"
  fe_active :: bool
  fe_authenticationStrength :: AuthenticationStrength
  fe_reauthenticatedAt :: "date option"

datatype ActorTrustDomain = TD_participant | TD_committee | TD_service
datatype MembershipState = M_active | M_proposed | M_suspended | M_retired
datatype ActorCommitteeState = CS_active | CS_pilot_approved | CS_testnet_ready | CS_suspended | CS_retired

record AuthorizationRequest =
  az_action :: AuthorizationAction
  az_actorReference :: string
  az_actorAccountState :: AccountState
  az_actorTrustDomain :: ActorTrustDomain
  az_roles :: "AuthorizationRole list"
  az_authenticationStrength :: AuthenticationStrength
  az_reauthenticatedAt :: "date option"
  az_now :: date
  az_reauthenticationWindowMs :: js_number
  az_actorCommitteeReference :: "string option"
  az_targetCommitteeReference :: "string option"
  az_resourceOwnerReference :: "string option"
  az_membershipState :: "MembershipState option"
  az_committeeState :: "ActorCommitteeState option"
  az_assignedToSession :: bool
  az_conflicted :: bool
  az_enabledFeatures :: "string list"
  az_requiredFeatures :: "string list"
  az_requiredPolicyKeys :: "string list"
  az_policies :: "CurrentPolicyGate list"
  az_statePreconditionsSatisfied :: bool
  az_fourEyesApproval :: "FourEyesApproval option"

record AuthorizationDecision =
  dn_allowed :: bool
  dn_action :: AuthorizationAction
  dn_denial :: "AuthorizationDenial option"
  dn_policyVersions :: "string list"
  dn_digest :: string

fun capabilities :: "AuthorizationRole \<Rightarrow> AuthorizationAction list" where
  "capabilities R_scheduler = [Session_schedule, Session_assign]"
| "capabilities R_reviewer = [Verification_review, Verification_approve]"
| "capabilities R_signer = [Attestation_sign, Attestation_issue]"
| "capabilities R_administrator = [Session_schedule, Session_assign, Attestation_issue, Attestation_revoke,
     Committee_manage_roles, Client_rotate_key]"
| "capabilities R_privacy = [Participant_export_sensitive, Privacy_fulfil_request]"
| "capabilities R_security = [Security_inspect, Security_revoke_sessions]"
| "capabilities R_support = [Support_recover_account]"
| "capabilities R_steward = [Committee_manage_roles, Committee_suspend, Client_rotate_key, Policy_manage,
     Release_manage, Security_revoke_sessions]"
| "capabilities R_relying_party = [Relying_party_read_status]"

definition ownResourceActions :: "AuthorizationAction list" where
  "ownResourceActions = [Participant_read_own, Participant_update_own, Participant_appeal,
     Participant_close_account, Participant_export_sensitive, Participant_link_verus,
     Participant_unlink_verus, Participant_publish_public_proof]"

definition privilegedActions :: "AuthorizationAction list" where
  "privilegedActions = [Participant_appeal, Participant_close_account, Participant_export_sensitive,
     Participant_link_verus, Participant_unlink_verus, Participant_publish_public_proof, Attestation_issue,
     Attestation_revoke, Committee_manage_roles, Committee_suspend, Client_rotate_key, Policy_manage,
     Release_manage, Security_revoke_sessions]"

definition decisionActions :: "AuthorizationAction list" where
  "decisionActions = [Verification_review, Verification_approve, Attestation_sign]"

definition fourEyesActions :: "AuthorizationAction list" where
  "fourEyesActions = [Committee_suspend, Policy_manage, Release_manage]"

lemmas action_lists = ownResourceActions_def privilegedActions_def decisionActions_def fourEyesActions_def

section \<open>The decision\<close>

definition decision_text :: "AuthorizationRequest \<Rightarrow> AuthorizationDenial option \<Rightarrow> string list \<Rightarrow> string" where
  "decision_text request denial versions =
     print_json (\<lambda>_. []) (JObj
       [(''action'', JStr (action_name (az_action request))),
        (''actorReference'', JStr (az_actorReference request)),
        (''targetCommitteeReference'', case az_targetCommitteeReference request of None \<Rightarrow> JNull | Some c \<Rightarrow> JStr c),
        (''allowed'', JBool (denial = None)),
        (''denial'', case denial of None \<Rightarrow> JNull | Some d \<Rightarrow> JStr (denial_name d)),
        (''policyVersions'', JArr (map JStr versions))])"

definition makeDecision :: "services \<Rightarrow> AuthorizationRequest \<Rightarrow> AuthorizationDenial option \<Rightarrow> AuthorizationDecision" where
  "makeDecision sv request denial =
     (let versions = map (\<lambda>p. pg_policyKey p @ '':'' @ pg_version p) (az_policies request) in
      \<lparr>dn_allowed = (denial = None), dn_action = az_action request, dn_denial = denial,
       dn_policyVersions = versions, dn_digest = sha256 sv (decision_text request denial versions)\<rparr>)"

text \<open>The comparison \<^verbatim>\<open><=\<close> of a finite number with a number.\<close>

fun at_most :: "int \<Rightarrow> js_number \<Rightarrow> bool" where
  "at_most i (Num r) \<longleftrightarrow> of_int i \<le> r"
| "at_most i PosInf \<longleftrightarrow> True"
| "at_most i _ \<longleftrightarrow> False"

definition recentStrong :: "AuthenticationStrength \<Rightarrow> date option \<Rightarrow> date \<Rightarrow> js_number \<Rightarrow> bool" where
  "recentStrong strength reauthenticatedAt now windowMs \<longleftrightarrow>
     strength = S_passkey
     \<and> (case (reauthenticatedAt, now) of
          (Some (Some t), Some n) \<Rightarrow> n - t \<ge> 0 \<and> at_most (n - t) windowMs
        | _ \<Rightarrow> False)"

definition date_less :: "date \<Rightarrow> date \<Rightarrow> bool" where
  "date_less a b \<longleftrightarrow> (case (a, b) of (Some x, Some y) \<Rightarrow> x < y | _ \<Rightarrow> False)"

definition currentPolicies :: "AuthorizationRequest \<Rightarrow> bool" where
  "currentPolicies request \<longleftrightarrow>
     list_all (\<lambda>key.
       case find (\<lambda>p. pg_policyKey p = key) (az_policies request) of
         None \<Rightarrow> False
       | Some policy \<Rightarrow>
           date_le (pg_effectiveAt policy) (az_now request)
           \<and> (case pg_expiresAt policy of None \<Rightarrow> True | Some e \<Rightarrow> date_less (az_now request) e)
           \<and> pg_acknowledgedVersion policy = Some (pg_version policy)) (az_requiredPolicyKeys request)"

text \<open>The first chain of conditions of authorize: the account, the trust domain, the role, the committee.\<close>

definition subject_denial :: "AuthorizationRequest \<Rightarrow> AuthorizationDenial option" where
  "subject_denial request =
     (if az_actorAccountState request \<noteq> U_active then Some Account_inactive
      else if az_action request \<in> set ownResourceActions then
        if az_actorTrustDomain request \<noteq> TD_participant then Some Wrong_trust_domain
        else if az_resourceOwnerReference request \<noteq> Some (az_actorReference request) then Some Not_own_resource
        else None
      else if az_actorTrustDomain request
          \<noteq> (if R_relying_party \<in> set (az_roles request) then TD_service else TD_committee) then Some Wrong_trust_domain
      else if \<not> list_ex (\<lambda>role. az_action request \<in> set (capabilities role)) (az_roles request) then Some Action_not_granted
      else if az_action request \<noteq> Relying_party_read_status
          \<and> az_actorCommitteeReference request \<noteq> az_targetCommitteeReference request then Some Cross_committee
      else if az_action request \<noteq> Relying_party_read_status \<and> az_committeeState request \<noteq> Some CS_active
        then Some Committee_inactive
      else if az_action request \<noteq> Relying_party_read_status \<and> az_membershipState request \<noteq> Some M_active
        then Some Membership_inactive
      else if az_action request \<in> set decisionActions \<and> az_conflicted request then Some Conflict_declared
      else if az_action request \<in> set decisionActions \<and> \<not> az_assignedToSession request then Some Session_not_assigned
      else None)"

definition approved :: "AuthorizationRequest \<Rightarrow> bool" where
  "approved request \<longleftrightarrow>
     (case az_fourEyesApproval request of
        None \<Rightarrow> False
      | Some approval \<Rightarrow>
          fe_active approval \<and> fe_approverReference approval \<noteq> az_actorReference request
          \<and> R_steward \<in> set (fe_approverRoles approval)
          \<and> recentStrong (fe_authenticationStrength approval) (fe_reauthenticatedAt approval)
              (az_now request) (az_reauthenticationWindowMs request))"

definition denial_of :: "AuthorizationRequest \<Rightarrow> AuthorizationDenial option" where
  "denial_of request =
     (case subject_denial request of
        Some d \<Rightarrow> Some d
      | None \<Rightarrow>
          if \<not> az_statePreconditionsSatisfied request then Some State_precondition_failed
          else if list_ex (\<lambda>feature. feature \<notin> set (az_enabledFeatures request)) (az_requiredFeatures request)
            then Some Feature_disabled
          else if \<not> currentPolicies request then Some Policy_missing_or_expired
          else if az_action request \<in> set privilegedActions
              \<and> \<not> recentStrong (az_authenticationStrength request) (az_reauthenticatedAt request)
                    (az_now request) (az_reauthenticationWindowMs request) then Some Reauthentication_required
          else if az_action request \<in> set fourEyesActions \<and> \<not> approved request then Some Four_eyes_required
          else None)"

definition authorize :: "services \<Rightarrow> AuthorizationRequest \<Rightarrow> AuthorizationDecision" where
  "authorize sv request = makeDecision sv request (denial_of request)"

definition requireAuthorization :: "services \<Rightarrow> AuthorizationRequest \<Rightarrow> AuthErrorCode + AuthorizationDecision" where
  "requireAuthorization sv request =
     (let decision = authorize sv request in
      if \<not> dn_allowed decision then
        if dn_denial decision = Some Reauthentication_required then Inl REAUTHENTICATION_REQUIRED
        else if dn_denial decision = Some Policy_missing_or_expired then Inl POLICY_REQUIRED
        else Inl AUTHORIZATION_DENIED
      else Inr decision)"

section \<open>What a permission implies\<close>

lemma authorize_allowed [simp]: "dn_allowed (authorize sv request) \<longleftrightarrow> denial_of request = None"
  by (simp add: authorize_def makeDecision_def Let_def)

lemma authorize_denial [simp]: "dn_denial (authorize sv request) = denial_of request"
  by (simp add: authorize_def makeDecision_def Let_def)

lemma requireAuthorization_Inr [simp]:
  "requireAuthorization sv request = Inr d \<longleftrightarrow> denial_of request = None \<and> d = authorize sv request"
  by (auto simp: requireAuthorization_def Let_def)

lemma subject_cleared:
  "subject_denial request = None \<longleftrightarrow>
     az_actorAccountState request = U_active
     \<and> (if az_action request \<in> set ownResourceActions
        then az_actorTrustDomain request = TD_participant
          \<and> az_resourceOwnerReference request = Some (az_actorReference request)
        else az_actorTrustDomain request = (if R_relying_party \<in> set (az_roles request) then TD_service else TD_committee)
          \<and> (\<exists>role \<in> set (az_roles request). az_action request \<in> set (capabilities role))
          \<and> (az_action request = Relying_party_read_status
             \<or> az_actorCommitteeReference request = az_targetCommitteeReference request
               \<and> az_committeeState request = Some CS_active \<and> az_membershipState request = Some M_active)
          \<and> (az_action request \<in> set decisionActions \<longrightarrow> \<not> az_conflicted request \<and> az_assignedToSession request))"
proof -
  have "Relying_party_read_status \<notin> set decisionActions" by (simp add: decisionActions_def)
  thus ?thesis
    unfolding subject_denial_def list_ex_iff
    by (cases "az_action request \<in> set ownResourceActions"; cases "az_action request = Relying_party_read_status";
        cases "az_action request \<in> set decisionActions"; simp)
qed

lemma denial_cleared:
  "denial_of request = None \<longleftrightarrow>
     subject_denial request = None \<and> az_statePreconditionsSatisfied request
     \<and> set (az_requiredFeatures request) \<subseteq> set (az_enabledFeatures request) \<and> currentPolicies request
     \<and> (az_action request \<in> set privilegedActions \<longrightarrow>
          recentStrong (az_authenticationStrength request) (az_reauthenticatedAt request)
            (az_now request) (az_reauthenticationWindowMs request))
     \<and> (az_action request \<in> set fourEyesActions \<longrightarrow> approved request)"
  unfolding denial_of_def by (auto simp: list_ex_iff split: option.splits if_splits)

lemma granting_role:
  "Committee_suspend \<in> set (capabilities role) \<longleftrightarrow> role = R_steward"
  "Policy_manage \<in> set (capabilities role) \<longleftrightarrow> role = R_steward"
  "Release_manage \<in> set (capabilities role) \<longleftrightarrow> role = R_steward"
  "Verification_review \<in> set (capabilities role) \<longleftrightarrow> role = R_reviewer"
  "Verification_approve \<in> set (capabilities role) \<longleftrightarrow> role = R_reviewer"
  "Attestation_sign \<in> set (capabilities role) \<longleftrightarrow> role = R_signer"
  "Relying_party_read_status \<in> set (capabilities role) \<longleftrightarrow> role = R_relying_party"
  by (cases role; simp)+

text \<open>The roles that an action is granted to, read off the table of capabilities.\<close>

definition granted_to :: "AuthorizationAction \<Rightarrow> AuthorizationRole set" where
  "granted_to action = {role. action \<in> set (capabilities role)}"

lemma granted_to_roles:
  "granted_to Committee_suspend = {R_steward}" "granted_to Policy_manage = {R_steward}"
  "granted_to Release_manage = {R_steward}" "granted_to Verification_review = {R_reviewer}"
  "granted_to Verification_approve = {R_reviewer}" "granted_to Attestation_sign = {R_signer}"
  "granted_to Relying_party_read_status = {R_relying_party}"
  by (auto simp: granted_to_def granting_role)

text \<open>
  C9. Dual control.  A permission to suspend a committee, or to manage its policies or releases, is only
  given to an active steward of the same, active committee who has confirmed a passkey within the window,
  and only with the active approval of another steward who has confirmed a passkey within the window; all
  required policies are in force and acknowledged in their version.
\<close>

theorem dual_control:
  assumes "dn_allowed (authorize sv request)"
    and "az_action request \<in> {Committee_suspend, Policy_manage, Release_manage}"
  shows "az_actorAccountState request = U_active \<and> R_steward \<in> set (az_roles request)
     \<and> az_membershipState request = Some M_active \<and> az_committeeState request = Some CS_active
     \<and> az_actorCommitteeReference request = az_targetCommitteeReference request
     \<and> (\<exists>approval confirmed first second.
          az_fourEyesApproval request = Some approval \<and> az_now request = Some confirmed
          \<and> fe_active approval \<and> R_steward \<in> set (fe_approverRoles approval)
          \<and> fe_approverReference approval \<noteq> az_actorReference request
          \<and> az_authenticationStrength request = S_passkey \<and> fe_authenticationStrength approval = S_passkey
          \<and> az_reauthenticatedAt request = Some (Some first) \<and> fe_reauthenticatedAt approval = Some (Some second)
          \<and> first \<le> confirmed \<and> second \<le> confirmed
          \<and> at_most (confirmed - first) (az_reauthenticationWindowMs request)
          \<and> at_most (confirmed - second) (az_reauthenticationWindowMs request))
     \<and> currentPolicies request"
proof -
  have strong: "\<exists>t n. re = Some (Some t) \<and> now = Some n \<and> t \<le> n \<and> at_most (n - t) w \<and> st = S_passkey"
    if "recentStrong st re now w" for st re now w
    using that by (auto simp: recentStrong_def split: option.splits)
  have kinds: "az_action request \<notin> set ownResourceActions" "az_action request \<in> set privilegedActions"
    "az_action request \<in> set fourEyesActions" "az_action request \<noteq> Relying_party_read_status"
    using assms(2) by (auto simp: action_lists)
  have cleared: "subject_denial request = None" "currentPolicies request" "approved request"
    "recentStrong (az_authenticationStrength request) (az_reauthenticatedAt request) (az_now request)
       (az_reauthenticationWindowMs request)"
    using assms(1) kinds by (auto simp: denial_cleared)
  obtain approval where approval: "az_fourEyesApproval request = Some approval" "fe_active approval"
      "fe_approverReference approval \<noteq> az_actorReference request" "R_steward \<in> set (fe_approverRoles approval)"
      "recentStrong (fe_authenticationStrength approval) (fe_reauthenticatedAt approval) (az_now request)
         (az_reauthenticationWindowMs request)"
    using cleared(3) by (auto simp: approved_def split: option.splits)
  have "R_steward \<in> set (az_roles request)"
    using cleared(1) kinds assms(2) by (auto simp: subject_cleared granting_role)
  thus ?thesis
    using cleared(1,2) kinds approval strong[OF cleared(4)] strong[OF approval(5)] by (auto simp: subject_cleared)
qed

definition steward_request :: AuthorizationRequest where
  "steward_request = \<lparr>az_action = Committee_suspend, az_actorReference = ''member:first'',
     az_actorAccountState = U_active, az_actorTrustDomain = TD_committee, az_roles = [R_steward],
     az_authenticationStrength = S_passkey, az_reauthenticatedAt = Some (Some 900), az_now = Some 1000,
     az_reauthenticationWindowMs = num 300, az_actorCommitteeReference = Some ''committee:one'',
     az_targetCommitteeReference = Some ''committee:one'', az_resourceOwnerReference = None,
     az_membershipState = Some M_active, az_committeeState = Some CS_active, az_assignedToSession = False,
     az_conflicted = False, az_enabledFeatures = [''pilot''], az_requiredFeatures = [''pilot''],
     az_requiredPolicyKeys = [''charter''],
     az_policies = [\<lparr>pg_policyKey = ''charter'', pg_version = ''v1'', pg_effectiveAt = Some 0, pg_expiresAt = None,
       pg_acknowledgedVersion = Some ''v1''\<rparr>],
     az_statePreconditionsSatisfied = True,
     az_fourEyesApproval = Some \<lparr>fe_approverReference = ''member:second'', fe_approverRoles = [R_steward],
       fe_active = True, fe_authenticationStrength = S_passkey, fe_reauthenticatedAt = Some (Some 950)\<rparr>\<rparr>"

lemma steward_request_allowed: "denial_of steward_request = None"
  by (simp add: denial_of_def subject_denial_def steward_request_def action_lists currentPolicies_def
      recentStrong_def approved_def num_def)

theorem dual_control_witness:
  "\<exists>approval. az_fourEyesApproval steward_request = Some approval
     \<and> fe_approverReference approval \<noteq> az_actorReference steward_request"
proof -
  have "dn_allowed (authorize sample_services steward_request)" by (simp add: steward_request_allowed)
  moreover have "az_action steward_request \<in> {Committee_suspend, Policy_manage, Release_manage}"
    by (simp add: steward_request_def)
  ultimately show ?thesis using dual_control[of sample_services steward_request] by blast
qed

text \<open>
  The privacy role cannot export.  The table of capabilities grants the export of sensitive data to the
  privacy role, but the action is also an action on one's own resource, and for these the roles are not
  looked at: only the participant who owns the data is ever permitted to export it.
\<close>

theorem export_is_for_the_owner_only:
  assumes "dn_allowed (authorize sv request)" "az_action request = Participant_export_sensitive"
  shows "az_actorTrustDomain request = TD_participant
     \<and> az_resourceOwnerReference request = Some (az_actorReference request)
     \<and> Participant_export_sensitive \<in> set (capabilities R_privacy)
     \<and> dn_denial (authorize sv (request\<lparr>az_actorTrustDomain := TD_committee, az_roles := [R_privacy]\<rparr>))
         = Some Wrong_trust_domain"
proof -
  have "subject_denial request = None" using assms(1) by (simp add: denial_cleared)
  hence own: "az_actorAccountState request = U_active" "az_actorTrustDomain request = TD_participant"
      "az_resourceOwnerReference request = Some (az_actorReference request)"
    using assms(2) by (simp_all add: subject_cleared ownResourceActions_def)
  hence "subject_denial (request\<lparr>az_actorTrustDomain := TD_committee, az_roles := [R_privacy]\<rparr>) = Some Wrong_trust_domain"
    using assms(2) by (simp add: subject_denial_def ownResourceActions_def)
  thus ?thesis using own by (simp add: denial_of_def)
qed

definition export_request :: AuthorizationRequest where
  "export_request = steward_request\<lparr>az_action := Participant_export_sensitive, az_actorTrustDomain := TD_participant,
     az_roles := [], az_resourceOwnerReference := Some ''member:first''\<rparr>"

theorem export_is_for_the_owner_only_witness:
  "dn_denial (authorize sample_services (export_request\<lparr>az_actorTrustDomain := TD_committee, az_roles := [R_privacy]\<rparr>))
     = Some Wrong_trust_domain"
proof -
  have "denial_of export_request = None"
    by (simp add: denial_of_def subject_denial_def export_request_def steward_request_def action_lists
        currentPolicies_def recentStrong_def num_def)
  moreover have "az_action export_request = Participant_export_sensitive" by (simp add: export_request_def)
  ultimately show ?thesis using export_is_for_the_owner_only[of sample_services export_request] by simp
qed

end
