(* ===== verification/Auth_Tables.thy ===== *)
theory Auth_Tables
  imports Authorization Effect
begin

text \<open>
  The tables of packages/db/src/auth-repository.ts, with the constraints and triggers of the migration
  that creates them.  The state has the database of the other repositories beside them, because accounts
  refer to participants and committees and the security operations append to the same audit trail.  A
  RAISE EXCEPTION of a trigger has the SQLSTATE P0001, a violated CHECK 23514, a unique index 23505.
  A column that nothing reads (the timestamps created_at and updated_at of an account, the counters of
  a policy) is left out.
\<close>

section \<open>Rows\<close>

record auth_account_row =
  ac_id :: string
  ac_external_reference :: string
  ac_trust_domain :: TrustDomain
  ac_state :: AccountState
  ac_participant_id :: "string option"
  ac_version :: int
  ac_locked_at :: "time option"
  ac_suspended_at :: "time option"
  ac_recovered_at :: "time option"
  ac_closed_at :: "time option"

datatype SessionState = Z_active | Z_revoked | Z_expired

record SessionRow =
  se_id :: string
  se_account_id :: string
  se_trust_domain :: TrustDomain
  se_audience :: string
  se_token_digest :: string
  se_csrf_digest :: string
  se_key_version :: string
  se_authentication_strength :: AuthenticationStrength
  se_state :: SessionState
  se_device_label :: string
  se_authenticated_at :: time
  se_reauthenticated_at :: "time option"
  se_last_seen_at :: time
  se_idle_expires_at :: time
  se_absolute_expires_at :: time
  se_revoked_at :: "time option"
  se_revocation_reason :: "string option"
  se_created_at :: time

datatype AuthChallengeKind =
    Passkey_registration | Passkey_authentication | Email_sign_in | Account_recovery | Recovery_grant | Email_change

datatype ChallengeState = H_pending | H_consumed | H_expired | H_rejected

record ChallengeRow =
  ch_id :: string
  ch_account_id :: "string option"
  ch_trust_domain :: TrustDomain
  ch_kind :: AuthChallengeKind
  ch_state :: ChallengeState
  ch_secret_digest :: string
  ch_destination_reference :: "string option"
  ch_lookup_digest :: "string option"
  ch_attempt_count :: int
  ch_maximum_attempts :: int
  ch_expires_at :: time
  ch_consumed_at :: "time option"
  ch_created_at :: time

record bucket_row =
  bu_key_digest :: string
  bu_bucket :: string
  bu_attempt_count :: int
  bu_window_started_at :: time
  bu_expires_at :: time

datatype AccessState = X_invited | X_approved | X_active | X_suspended | X_revoked

record access_row =
  ax_id :: string
  ax_account_id :: string
  ax_committee_id :: string
  ax_member_id :: "string option"
  ax_state :: AccessState
  ax_invited_by_reference :: string
  ax_approved_by_reference :: "string option"
  ax_invited_at :: time
  ax_approved_at :: "time option"
  ax_activated_at :: "time option"

record assignment_row =
  as_id :: string
  as_committee_id :: string
  as_session_id :: string
  as_member_id :: string
  as_policy_version_id :: string
  as_state :: string
  as_assigned_by_reference :: string
  as_assigned_at :: time

record contact_row =
  ct_id :: string
  ct_participant_id :: "string option"
  ct_auth_account_id :: string
  ct_channel :: string
  ct_destination_reference :: string
  ct_lookup_digest :: string
  ct_verified_at :: "time option"
  ct_disabled_at :: "time option"

datatype PasskeyState = PK_active | PK_disabled | PK_revoked
datatype DeviceType = SingleDevice | MultiDevice

record PasskeyRow =
  pk_id :: string
  pk_participant_id :: "string option"
  pk_auth_account_id :: string
  pk_credential_reference :: string
  pk_relying_party_id :: string
  pk_public_key :: "nat list"
  pk_transports :: "string list"
  pk_credential_device_type :: DeviceType
  pk_backed_up :: bool
  pk_device_label :: string
  pk_state :: PasskeyState
  pk_sign_count :: int
  pk_created_at :: time
  pk_last_used_at :: "time option"
  pk_revoked_at :: "time option"

datatype ConsentAction = Accepted | Declined | Withdrawn

datatype ConsentPurpose =
    Privacy_notice | Evidence_non_retention | Session_attendance | Optional_verus_link
  | Optional_public_identity_proof | Relying_party_disclosure | Material_policy_change
  | Committee_covenants_training

text \<open>The columns of consent_receipt that the lifecycle repository does not read; the others are in a row
  of the field db_lifecycles with the same identifier.\<close>

record consent_row =
  cr_id :: string
  cr_participant_id :: "string option"
  cr_auth_account_id :: string
  cr_policy_version_id :: string
  cr_purpose :: ConsentPurpose
  cr_presentation_reference :: string
  cr_presentation_digest :: string
  cr_action :: ConsentAction
  cr_presented_at :: time
  cr_acted_at :: time

record role_row =
  ro_id :: string
  ro_role_key :: string
  ro_state :: string

record member_role_row =
  mr_member_id :: string
  mr_role_id :: string
  mr_state :: string

record verification_session_row =
  vs_id :: string
  vs_external_reference :: string
  vs_committee_id :: string

record auth_database =
  ad_domain :: database
  ad_accounts :: "auth_account_row list"
  ad_sessions :: "SessionRow list"
  ad_challenges :: "ChallengeRow list"
  ad_buckets :: "bucket_row list"
  ad_access :: "access_row list"
  ad_assignments :: "assignment_row list"
  ad_contacts :: "contact_row list"
  ad_passkeys :: "PasskeyRow list"
  ad_consents :: "consent_row list"
  ad_roles :: "role_row list"
  ad_member_roles :: "member_role_row list"
  ad_verification_sessions :: "verification_session_row list"

definition empty_auth_database :: auth_database where
  "empty_auth_database = \<lparr>ad_domain = empty_database, ad_accounts = [], ad_sessions = [], ad_challenges = [],
     ad_buckets = [], ad_access = [], ad_assignments = [], ad_contacts = [], ad_passkeys = [], ad_consents = [],
     ad_roles = [], ad_member_roles = [], ad_verification_sessions = []\<rparr>"

type_synonym 'a auth_tx = "(auth_database, repo_error, 'a) body"
type_synonym 'a auth_op = "(auth_database, repo_error, 'a) computation"

text \<open>A step on the tables of the other repositories.\<close>

definition inDomain :: "'a tx \<Rightarrow> 'a auth_tx" where
  "inDomain m ad = bind_result (m (ad_domain ad)) (\<lambda>(a, db). Inr (a, ad\<lparr>ad_domain := db\<rparr>))"

section \<open>Constraints\<close>

definition account_row_ok :: "auth_account_row \<Rightarrow> bool" where
  "account_row_ok r \<longleftrightarrow>
     0 < ac_version r
     \<and> (ac_trust_domain r = D_participant \<longleftrightarrow> ac_participant_id r \<noteq> None)
     \<and> (ac_state r = U_locked \<longrightarrow> ac_locked_at r \<noteq> None)
     \<and> (ac_state r = U_suspended \<longrightarrow> ac_suspended_at r \<noteq> None)
     \<and> (ac_state r = U_closed \<longrightarrow> ac_closed_at r \<noteq> None)"

definition account_clash :: "auth_account_row \<Rightarrow> auth_account_row \<Rightarrow> bool" where
  "account_clash r q \<longleftrightarrow>
     ac_id q = ac_id r \<or> ac_external_reference q = ac_external_reference r
     \<or> (ac_participant_id r \<noteq> None \<and> ac_participant_id q = ac_participant_id r \<and> ac_trust_domain q = ac_trust_domain r)"

definition session_row_ok :: "SessionRow \<Rightarrow> bool" where
  "session_row_ok r \<longleftrightarrow>
     se_authenticated_at r \<le> se_last_seen_at r \<and> se_last_seen_at r < se_absolute_expires_at r
     \<and> se_idle_expires_at r \<le> se_absolute_expires_at r
     \<and> (if se_state r = Z_active then se_revoked_at r = None \<and> se_revocation_reason r = None
        else se_revoked_at r \<noteq> None \<and> se_revocation_reason r \<noteq> None)
     \<and> (se_trust_domain r = D_committee \<longrightarrow> se_authentication_strength r = S_passkey)"

definition challenge_row_ok :: "ChallengeRow \<Rightarrow> bool" where
  "challenge_row_ok r \<longleftrightarrow>
     0 \<le> ch_attempt_count r \<and> 0 < ch_maximum_attempts r \<and> ch_attempt_count r \<le> ch_maximum_attempts r
     \<and> ch_created_at r < ch_expires_at r
     \<and> (ch_kind r = Passkey_authentication \<longleftrightarrow> ch_account_id r = None)
     \<and> (ch_kind r \<in> {Email_sign_in, Account_recovery, Email_change} \<longleftrightarrow> ch_destination_reference r \<noteq> None)
     \<and> (ch_kind r = Email_change \<longleftrightarrow> ch_lookup_digest r \<noteq> None)
     \<and> (ch_state r = H_pending \<longleftrightarrow> ch_consumed_at r = None)"

definition access_row_ok :: "access_row \<Rightarrow> bool" where
  "access_row_ok r \<longleftrightarrow>
     (ax_state r \<noteq> X_invited \<longrightarrow>
        (\<exists>approver. ax_approved_by_reference r = Some approver \<and> approver \<noteq> ax_invited_by_reference r)
        \<and> ax_approved_at r \<noteq> None)
     \<and> (ax_state r = X_active \<longrightarrow> ax_member_id r \<noteq> None \<and> ax_activated_at r \<noteq> None)"

lemma access_row_ok_code [code]:
  "access_row_ok r \<longleftrightarrow>
     (ax_state r \<noteq> X_invited \<longrightarrow>
        (case ax_approved_by_reference r of None \<Rightarrow> False | Some approver \<Rightarrow> approver \<noteq> ax_invited_by_reference r)
        \<and> ax_approved_at r \<noteq> None)
     \<and> (ax_state r = X_active \<longrightarrow> ax_member_id r \<noteq> None \<and> ax_activated_at r \<noteq> None)"
  by (auto simp: access_row_ok_def split: option.splits)

text \<open>The trust domain, and the participant, of the account with an identifier; None when there is none.\<close>

definition account_domain :: "auth_database \<Rightarrow> string \<Rightarrow> TrustDomain option" where
  "account_domain ad i = map_option ac_trust_domain (select_where (\<lambda>a. ac_id a = i) (ad_accounts ad))"

definition account_participant :: "auth_database \<Rightarrow> string \<Rightarrow> string option" where
  "account_participant ad i =
     (case select_where (\<lambda>a. ac_id a = i) (ad_accounts ad) of None \<Rightarrow> None | Some a \<Rightarrow> ac_participant_id a)"

section \<open>Statements on the tables\<close>

definition insert_account :: "auth_account_row \<Rightarrow> unit auth_tx" where
  "insert_account r =
     bindT (requireT (account_row_ok r) (DatabaseError ''23514'')) (\<lambda>_.
     bindT (readT ad_accounts) (\<lambda>rows.
     bindT (liftT (insert_unique (account_clash r) r rows)) (\<lambda>rows'.
     writeT (\<lambda>ad. ad\<lparr>ad_accounts := rows'\<rparr>))))"

definition update_accounts :: "(auth_account_row \<Rightarrow> bool) \<Rightarrow> (auth_account_row \<Rightarrow> auth_account_row) \<Rightarrow> nat auth_tx" where
  "update_accounts P f =
     bindT (readT ad_accounts) (\<lambda>rows.
     bindT (liftT (update_checked P f (\<lambda>old new. account_row_ok new) rows)) (\<lambda>rows'.
     bindT (writeT (\<lambda>ad. ad\<lparr>ad_accounts := rows'\<rparr>)) (\<lambda>_.
     returnT (length (filter P rows)))))"

definition insert_session :: "SessionRow \<Rightarrow> unit auth_tx" where
  "insert_session r =
     bindT (readT (\<lambda>ad. account_domain ad (se_account_id r) = Some (se_trust_domain r))) (\<lambda>matches.
     bindT (requireT matches (DatabaseError ''P0001'')) (\<lambda>_.
     bindT (requireT (session_row_ok r) (DatabaseError ''23514'')) (\<lambda>_.
     bindT (readT ad_sessions) (\<lambda>rows.
     bindT (liftT (insert_unique (\<lambda>q. se_id q = se_id r \<or> se_token_digest q = se_token_digest r) r rows)) (\<lambda>rows'.
     writeT (\<lambda>ad. ad\<lparr>ad_sessions := rows'\<rparr>))))))"

text \<open>No update of the code assigns a column that the trigger auth_session_identity_immutable protects.\<close>

definition update_sessions :: "(SessionRow \<Rightarrow> bool) \<Rightarrow> (SessionRow \<Rightarrow> SessionRow) \<Rightarrow> nat auth_tx" where
  "update_sessions P f =
     bindT (readT ad_sessions) (\<lambda>rows.
     bindT (readT (\<lambda>ad. list_all (\<lambda>r. P r \<longrightarrow> account_domain ad (se_account_id r) = Some (se_trust_domain r)) rows)) (\<lambda>matches.
     bindT (requireT matches (DatabaseError ''P0001'')) (\<lambda>_.
     bindT (liftT (update_checked P f (\<lambda>old new. session_row_ok new) rows)) (\<lambda>rows'.
     bindT (writeT (\<lambda>ad. ad\<lparr>ad_sessions := rows'\<rparr>)) (\<lambda>_.
     returnT (length (filter P rows)))))))"

definition challenge_domain_ok :: "auth_database \<Rightarrow> ChallengeRow \<Rightarrow> bool" where
  "challenge_domain_ok ad r \<longleftrightarrow>
     (case ch_account_id r of None \<Rightarrow> True | Some i \<Rightarrow> account_domain ad i = Some (ch_trust_domain r))"

definition insert_challenge :: "ChallengeRow \<Rightarrow> unit auth_tx" where
  "insert_challenge r =
     bindT (readT (\<lambda>ad. challenge_domain_ok ad r)) (\<lambda>matches.
     bindT (requireT matches (DatabaseError ''P0001'')) (\<lambda>_.
     bindT (requireT (challenge_row_ok r) (DatabaseError ''23514'')) (\<lambda>_.
     bindT (readT ad_challenges) (\<lambda>rows.
     bindT (liftT (insert_unique (\<lambda>q. ch_id q = ch_id r \<or> ch_secret_digest q = ch_secret_digest r) r rows)) (\<lambda>rows'.
     writeT (\<lambda>ad. ad\<lparr>ad_challenges := rows'\<rparr>))))))"

text \<open>The trigger auth_challenge_identity_immutable refuses every update of a row that is not pending.\<close>

definition update_challenges :: "(ChallengeRow \<Rightarrow> bool) \<Rightarrow> (ChallengeRow \<Rightarrow> ChallengeRow) \<Rightarrow> ChallengeRow list auth_tx" where
  "update_challenges P f =
     bindT (readT ad_challenges) (\<lambda>rows.
     bindT (readT (\<lambda>ad. list_all (\<lambda>r. P r \<longrightarrow> ch_state r = H_pending \<and> challenge_domain_ok ad r) rows)) (\<lambda>allowed.
     bindT (requireT allowed (DatabaseError ''P0001'')) (\<lambda>_.
     bindT (liftT (update_checked P f (\<lambda>old new. challenge_row_ok new) rows)) (\<lambda>rows'.
     bindT (writeT (\<lambda>ad. ad\<lparr>ad_challenges := rows'\<rparr>)) (\<lambda>_.
     returnT (map f (filter P rows)))))))"

definition insert_access :: "access_row \<Rightarrow> unit auth_tx" where
  "insert_access r =
     bindT (readT (\<lambda>ad. account_domain ad (ax_account_id r) = Some D_committee)) (\<lambda>committee.
     bindT (requireT committee (DatabaseError ''P0001'')) (\<lambda>_.
     bindT (requireT (access_row_ok r) (DatabaseError ''23514'')) (\<lambda>_.
     bindT (readT ad_access) (\<lambda>rows.
     bindT (liftT (insert_unique (\<lambda>q. ax_id q = ax_id r
        \<or> (ax_account_id q = ax_account_id r \<and> ax_committee_id q = ax_committee_id r)) r rows)) (\<lambda>rows'.
     writeT (\<lambda>ad. ad\<lparr>ad_access := rows'\<rparr>))))))"

definition update_access :: "(access_row \<Rightarrow> bool) \<Rightarrow> (access_row \<Rightarrow> access_row) \<Rightarrow> nat auth_tx" where
  "update_access P f =
     bindT (readT ad_access) (\<lambda>rows.
     bindT (readT (\<lambda>ad. list_all (\<lambda>r. P r \<longrightarrow> account_domain ad (ax_account_id r) = Some D_committee) rows)) (\<lambda>committee.
     bindT (requireT committee (DatabaseError ''P0001'')) (\<lambda>_.
     bindT (liftT (update_checked P f (\<lambda>old new. access_row_ok new) rows)) (\<lambda>rows'.
     bindT (writeT (\<lambda>ad. ad\<lparr>ad_access := rows'\<rparr>)) (\<lambda>_.
     returnT (length (filter P rows)))))))"

definition insert_contact :: "contact_row \<Rightarrow> unit auth_tx" where
  "insert_contact r =
     bindT (readT (\<lambda>ad. account_participant ad (ct_auth_account_id r) = ct_participant_id r)) (\<lambda>matches.
     bindT (requireT matches (DatabaseError ''P0001'')) (\<lambda>_.
     bindT (readT ad_contacts) (\<lambda>rows.
     bindT (liftT (insert_unique (\<lambda>q. ct_id q = ct_id r \<or> ct_lookup_digest q = ct_lookup_digest r
        \<or> (ct_participant_id r \<noteq> None \<and> ct_participant_id q = ct_participant_id r \<and> ct_channel q = ct_channel r
           \<and> ct_destination_reference q = ct_destination_reference r)) r rows)) (\<lambda>rows'.
     writeT (\<lambda>ad. ad\<lparr>ad_contacts := rows'\<rparr>)))))"

definition update_contacts :: "(contact_row \<Rightarrow> bool) \<Rightarrow> (contact_row \<Rightarrow> contact_row) \<Rightarrow> unit auth_tx" where
  "update_contacts P f =
     bindT (readT ad_contacts) (\<lambda>rows.
     bindT (readT (\<lambda>ad. list_all (\<lambda>r. P r \<longrightarrow> account_participant ad (ct_auth_account_id r) = ct_participant_id r) rows)) (\<lambda>matches.
     bindT (requireT matches (DatabaseError ''P0001'')) (\<lambda>_.
     writeT (\<lambda>ad. ad\<lparr>ad_contacts := update_where P f rows\<rparr>))))"

definition insert_passkey :: "PasskeyRow \<Rightarrow> unit auth_tx" where
  "insert_passkey r =
     bindT (readT (\<lambda>ad. account_participant ad (pk_auth_account_id r) = pk_participant_id r)) (\<lambda>matches.
     bindT (requireT matches (DatabaseError ''P0001'')) (\<lambda>_.
     bindT (requireT (0 \<le> pk_sign_count r) (DatabaseError ''23514'')) (\<lambda>_.
     bindT (readT ad_passkeys) (\<lambda>rows.
     bindT (liftT (insert_unique (\<lambda>q. pk_id q = pk_id r \<or> pk_credential_reference q = pk_credential_reference r) r rows)) (\<lambda>rows'.
     writeT (\<lambda>ad. ad\<lparr>ad_passkeys := rows'\<rparr>))))))"

definition update_passkeys :: "(PasskeyRow \<Rightarrow> bool) \<Rightarrow> (PasskeyRow \<Rightarrow> PasskeyRow) \<Rightarrow> nat auth_tx" where
  "update_passkeys P f =
     bindT (readT ad_passkeys) (\<lambda>rows.
     bindT (readT (\<lambda>ad. list_all (\<lambda>r. P r \<longrightarrow> account_participant ad (pk_auth_account_id r) = pk_participant_id r) rows)) (\<lambda>matches.
     bindT (requireT matches (DatabaseError ''P0001'')) (\<lambda>_.
     bindT (liftT (update_checked P f (\<lambda>old new. 0 \<le> pk_sign_count new) rows)) (\<lambda>rows'.
     bindT (writeT (\<lambda>ad. ad\<lparr>ad_passkeys := rows'\<rparr>)) (\<lambda>_.
     returnT (length (filter P rows)))))))"

end
