(* ===== verification/Auth_Repository.thy ===== *)
theory Auth_Repository
  imports Auth_Tables Lifecycle_Repository
begin

text \<open>
  packages/db/src/auth-repository.ts: accounts, sessions, challenges, rate limits, verified addresses,
  passkeys, committee access and consents.  A method that runs one statement on the pool commits it at once
  (\<open>statement\<close>), even when the code raises an error afterwards; the others are serializable transactions.
  A condition of a join is a condition on the row it finds; a SELECT takes its first row.  Identifiers are
  not checked to have the form of a UUID, and the dates of the inputs are valid.
\<close>

section \<open>Records\<close>

record SessionRecord =
  sr_id :: string
  sr_accountReference :: string
  sr_trustDomain :: TrustDomain
  sr_audience :: string
  sr_tokenDigest :: string
  sr_csrfDigest :: string
  sr_authenticationStrength :: AuthenticationStrength
  sr_authenticatedAt :: time
  sr_reauthenticatedAt :: "time option"
  sr_idleExpiresAt :: time
  sr_absoluteExpiresAt :: time
  sr_revokedAt :: "time option"
  sr_deviceLabel :: string

record AuthChallengeRecord =
  hr_id :: string
  hr_accountReference :: "string option"
  hr_trustDomain :: TrustDomain
  hr_kind :: AuthChallengeKind
  hr_secretDigest :: string
  hr_destinationReference :: "string option"
  hr_lookupDigest :: "string option"
  hr_expiresAt :: time
  hr_createdAt :: time

record ConsumedAuthChallenge = AuthChallengeRecord +
  hr_consumedAt :: time

record StoredPasskeyCredential =
  pc_credentialReference :: string
  pc_accountReference :: string
  pc_trustDomain :: TrustDomain
  pc_relyingPartyId :: string
  pc_publicKey :: "nat list"
  pc_counter :: int
  pc_transports :: "string list"
  pc_deviceType :: DeviceType
  pc_backedUp :: bool
  pc_deviceLabel :: string
  pc_state :: PasskeyState

record VerifiedEmailAccount =
  ve_accountReference :: string
  ve_trustDomain :: TrustDomain
  ve_destinationReference :: string
  ve_accountState :: AccountState

record VersionedConsentReceipt =
  vr_accountReference :: string
  vr_committeeReference :: "string option"
  vr_purpose :: ConsentPurpose
  vr_policyVersionReference :: string
  vr_presentationReference :: string
  vr_presentationDigest :: string
  vr_action :: ConsentAction
  vr_presentedAt :: time
  vr_actedAt :: time

record SecurityMutationContext =
  sm_actorReference :: string
  sm_authenticationStrength :: AuthenticationStrength
  sm_policyVersionReference :: string
  sm_softwareVersion :: string
  sm_correlationId :: string

record CreateAuthAccountInput =
  ci_externalReference :: string
  ci_trustDomain :: TrustDomain
  ci_participantReference :: "string option"
  ci_state :: "AccountState option"

record RegisterVerifiedEmailInput =
  ri_accountReference :: string
  ri_participantReference :: "string option"
  ri_destinationReference :: string
  ri_lookupDigest :: string
  ri_verifiedAt :: time

record CommitteeInvitationInput =
  ii_accountReference :: string
  ii_committeeReference :: string
  ii_invitedByReference :: string
  ii_invitedAt :: time

record CommitteePrincipalSnapshot =
  cs_accountReference :: string
  cs_accountState :: AccountState
  cs_committeeReference :: string
  cs_committeeState :: CommitteeState
  cs_membershipState :: "string option"
  cs_roles :: "string list"
  cs_conflicted :: bool
  cs_assignedToSession :: bool

fun strength_name :: "AuthenticationStrength \<Rightarrow> string" where
  "strength_name S_verified_email = ''verified_email''"
| "strength_name S_passkey = ''passkey''"
| "strength_name S_recovery = ''recovery''"

definition mapSession :: "string \<Rightarrow> SessionRow \<Rightarrow> SessionRecord" where
  "mapSession accountReference row =
     \<lparr>sr_id = se_id row, sr_accountReference = accountReference, sr_trustDomain = se_trust_domain row,
      sr_audience = se_audience row, sr_tokenDigest = se_token_digest row, sr_csrfDigest = se_csrf_digest row,
      sr_authenticationStrength = se_authentication_strength row, sr_authenticatedAt = se_authenticated_at row,
      sr_reauthenticatedAt = se_reauthenticated_at row, sr_idleExpiresAt = se_idle_expires_at row,
      sr_absoluteExpiresAt = se_absolute_expires_at row, sr_revokedAt = se_revoked_at row,
      sr_deviceLabel = se_device_label row\<rparr>"

definition allowedTransports :: "string list" where
  "allowedTransports = [''ble'', ''cable'', ''hybrid'', ''internal'', ''nfc'', ''smart-card'', ''usb'']"

definition mapPasskey :: "auth_account_row \<Rightarrow> PasskeyRow \<Rightarrow> StoredPasskeyCredential" where
  "mapPasskey account row =
     \<lparr>pc_credentialReference = pk_credential_reference row, pc_accountReference = ac_external_reference account,
      pc_trustDomain = ac_trust_domain account, pc_relyingPartyId = pk_relying_party_id row,
      pc_publicKey = pk_public_key row, pc_counter = pk_sign_count row,
      pc_transports = filter (\<lambda>t. t \<in> set allowedTransports) (pk_transports row),
      pc_deviceType = pk_credential_device_type row, pc_backedUp = pk_backed_up row,
      pc_deviceLabel = pk_device_label row, pc_state = pk_state row\<rparr>"

section \<open>Private methods\<close>

definition account :: "string \<Rightarrow> TrustDomain option \<Rightarrow> auth_account_row auth_tx" where
  "account externalReference trustDomain =
     bindT (readT (\<lambda>ad. select_where (\<lambda>a. ac_external_reference a = externalReference
        \<and> (trustDomain = None \<or> trustDomain = Some (ac_trust_domain a))) (ad_accounts ad))) (\<lambda>found.
     case found of
       None \<Rightarrow> throwT (RepositoryConflictError ''authentication account is unavailable'')
     | Some a \<Rightarrow> returnT a)"

definition participantId :: "string \<Rightarrow> string auth_tx" where
  "participantId reference =
     bindT (readT (\<lambda>ad. select_where (\<lambda>p. pa_external_reference p = reference) (db_participants (ad_domain ad)))) (\<lambda>found.
     case found of
       None \<Rightarrow> throwT (RepositoryConflictError ''participant account is unavailable'')
     | Some p \<Rightarrow> if pa_id p = [] then throwT (RepositoryConflictError ''participant account is unavailable'') else returnT (pa_id p))"

definition participantId_of :: "string option \<Rightarrow> string option auth_tx" where
  "participantId_of reference =
     (if truthy reference then bindT (participantId (the reference)) (\<lambda>i. returnT (Some i)) else returnT None)"

definition committee :: "string \<Rightarrow> string auth_tx" where
  "committee reference =
     bindT (readT (\<lambda>ad. select_where (\<lambda>c. cm_external_reference c = reference) (db_committees (ad_domain ad)))) (\<lambda>found.
     case found of
       None \<Rightarrow> throwT (RepositoryConflictError ''committee is unavailable'')
     | Some c \<Rightarrow> returnT (cm_id c))"

definition global_auth_context ::
  "string \<Rightarrow> string \<Rightarrow> string \<Rightarrow> string \<Rightarrow> string \<Rightarrow> string \<Rightarrow> string \<Rightarrow> CommandContext" where
  "global_auth_context actorType actor strength policyVersion softwareVersion reason correlationId =
     \<lparr>cx_actor = \<lparr>ca_type = actorType, ca_reference = actor, ca_authenticationStrength = strength\<rparr>,
      cx_committeeReference = ''global-auth'', cx_policyVersionReference = policyVersion,
      cx_softwareVersion = softwareVersion, cx_reasonCategory = reason, cx_correlationId = correlationId,
      cx_idempotencyKey = correlationId, cx_requestDigest = correlationId\<rparr>"

definition appendSecurityAudit ::
  "services \<Rightarrow> string \<Rightarrow> string \<Rightarrow> string option \<Rightarrow> string \<Rightarrow> SecurityMutationContext \<Rightarrow> unit auth_tx" where
  "appendSecurityAudit sv accountReference command newState reasonCategory context =
     bindT (inDomain (appendAudit sv
        (global_auth_context ''auth_account'' (sm_actorReference context) (strength_name (sm_authenticationStrength context))
           (sm_policyVersionReference context) (sm_softwareVersion context) reasonCategory (sm_correlationId context))
        None command
        \<lparr>tg_type = ''auth_account'', tg_reference = accountReference, tg_priorState = None,
         tg_newState = (if truthy newState then newState else None)\<rparr> ''succeeded'')) (\<lambda>_. returnT ())"

section \<open>Accounts and committee access\<close>

definition createAccount_body :: "services \<Rightarrow> CreateAuthAccountInput \<Rightarrow> unit auth_tx" where
  "createAccount_body sv inp =
     bindT (participantId_of (ci_participantReference inp)) (\<lambda>pid.
     bindT (inDomain (newId sv)) (\<lambda>i.
     insert_account \<lparr>ac_id = i, ac_external_reference = ci_externalReference inp, ac_trust_domain = ci_trustDomain inp,
       ac_state = (case ci_state inp of None \<Rightarrow> U_invited | Some s \<Rightarrow> s), ac_participant_id = pid, ac_version = 1,
       ac_locked_at = None, ac_suspended_at = None, ac_recovered_at = None, ac_closed_at = None\<rparr>))"

definition createAccount :: "services \<Rightarrow> CreateAuthAccountInput \<Rightarrow> unit auth_op" where
  "createAccount sv inp ad =
     (case requireOpaqueReference (ci_externalReference inp) ''accountReference'' of
        Inl e \<Rightarrow> (Inl e, ad)
      | Inr _ \<Rightarrow> transaction (createAccount_body sv inp) ad)"

definition registerVerifiedEmail_body :: "services \<Rightarrow> RegisterVerifiedEmailInput \<Rightarrow> unit auth_tx" where
  "registerVerifiedEmail_body sv inp =
     bindT (account (ri_accountReference inp) None) (\<lambda>a.
     bindT (participantId_of (ri_participantReference inp)) (\<lambda>pid.
     bindT (inDomain (newId sv)) (\<lambda>i.
     insert_contact \<lparr>ct_id = i, ct_participant_id = pid, ct_auth_account_id = ac_id a, ct_channel = ''email'',
       ct_destination_reference = ri_destinationReference inp, ct_lookup_digest = ri_lookupDigest inp,
       ct_verified_at = Some (ri_verifiedAt inp), ct_disabled_at = None\<rparr>)))"

definition registerVerifiedEmail :: "services \<Rightarrow> RegisterVerifiedEmailInput \<Rightarrow> unit auth_op" where
  "registerVerifiedEmail sv inp ad =
     (case bind_result (requireOpaqueReference (ri_accountReference inp) ''accountReference'')
             (\<lambda>_. requireOpaqueReference (ri_destinationReference inp) ''destinationReference'') of
        Inl e \<Rightarrow> (Inl e, ad)
      | Inr _ \<Rightarrow> transaction (registerVerifiedEmail_body sv inp) ad)"

definition inviteCommittee :: "services \<Rightarrow> CommitteeInvitationInput \<Rightarrow> unit auth_op" where
  "inviteCommittee sv inp =
     transaction
       (bindT (account (ii_accountReference inp) (Some D_committee)) (\<lambda>a.
        bindT (committee (ii_committeeReference inp)) (\<lambda>cid.
        bindT (inDomain (newId sv)) (\<lambda>i.
        insert_access \<lparr>ax_id = i, ax_account_id = ac_id a, ax_committee_id = cid, ax_member_id = None,
          ax_state = X_invited, ax_invited_by_reference = ii_invitedByReference inp, ax_approved_by_reference = None,
          ax_invited_at = ii_invitedAt inp, ax_approved_at = None, ax_activated_at = None\<rparr>))))"

text \<open>The condition that an access row is joined with the account and the committee of two references.\<close>

definition access_of :: "auth_database \<Rightarrow> string \<Rightarrow> string \<Rightarrow> access_row \<Rightarrow> bool" where
  "access_of ad accountReference committeeReference x \<longleftrightarrow>
     list_ex (\<lambda>a. ac_id a = ax_account_id x \<and> ac_external_reference a = accountReference) (ad_accounts ad)
     \<and> list_ex (\<lambda>c. cm_id c = ax_committee_id x \<and> cm_external_reference c = committeeReference) (db_committees (ad_domain ad))"

definition approveCommittee :: "string \<Rightarrow> string \<Rightarrow> string \<Rightarrow> time \<Rightarrow> unit auth_op" where
  "approveCommittee accountReference committeeReference approvedBy approvedAt =
     bindE (statement (bindT (readT (\<lambda>ad. access_of ad accountReference committeeReference)) (\<lambda>joined.
        update_access (\<lambda>x. joined x \<and> ax_state x = X_invited)
          (\<lambda>x. x\<lparr>ax_state := X_approved, ax_approved_by_reference := Some approvedBy, ax_approved_at := Some approvedAt\<rparr>)))) (\<lambda>rowCount.
     requireE (rowCount = 1) (RepositoryConflictError ''committee invitation is unavailable''))"

definition active_member :: "auth_database \<Rightarrow> string \<Rightarrow> access_row \<Rightarrow> member_row option" where
  "active_member ad memberReference x =
     select_where (\<lambda>m. me_committee_id m = ax_committee_id x \<and> me_external_reference m = memberReference
        \<and> me_state m = ''active'') (db_members (ad_domain ad))"

definition activateCommittee_body :: "string \<Rightarrow> string \<Rightarrow> string \<Rightarrow> time \<Rightarrow> unit auth_tx" where
  "activateCommittee_body accountReference committeeReference memberReference activatedAt =
     bindT (readT (\<lambda>ad. (access_of ad accountReference committeeReference, active_member ad memberReference))) (\<lambda>(joined, member).
     bindT (update_access (\<lambda>x. joined x \<and> member x \<noteq> None \<and> ax_state x = X_approved)
        (\<lambda>x. x\<lparr>ax_state := X_active, ax_member_id := map_option me_id (member x), ax_activated_at := Some activatedAt\<rparr>)) (\<lambda>rowCount.
     bindT (requireT (rowCount = 1) (RepositoryConflictError ''committee access cannot be activated'')) (\<lambda>_.
     bindT (update_accounts (\<lambda>a. ac_external_reference a = accountReference \<and> ac_trust_domain a = D_committee)
        (\<lambda>a. a\<lparr>ac_state := U_active, ac_version := ac_version a + 1\<rparr>)) (\<lambda>_.
     returnT ()))))"

definition activateCommittee_access :: "string \<Rightarrow> string \<Rightarrow> string \<Rightarrow> time \<Rightarrow> unit auth_op" where
  "activateCommittee_access accountReference committeeReference memberReference activatedAt =
     transaction (activateCommittee_body accountReference committeeReference memberReference activatedAt)"

definition active_roles :: "auth_database \<Rightarrow> string \<Rightarrow> string list" where
  "active_roles ad memberId =
     sort (remdups (concat (map (\<lambda>mr.
        if mr_member_id mr = memberId \<and> mr_state mr = ''active''
        then map ro_role_key (filter (\<lambda>r. ro_id r = mr_role_id mr \<and> ro_state r = ''active'') (ad_roles ad))
        else []) (ad_member_roles ad))))"

definition has_conflict :: "auth_database \<Rightarrow> string \<Rightarrow> string \<Rightarrow> string \<Rightarrow> bool" where
  "has_conflict ad memberId targetType targetReference \<longleftrightarrow>
     list_ex (\<lambda>c. cf_member_id c = memberId \<and> cf_target_type c = targetType \<and> cf_target_reference c = targetReference
        \<and> cf_resolved_at c = None) (db_conflicts (ad_domain ad))"

definition is_assigned :: "auth_database \<Rightarrow> string \<Rightarrow> string \<Rightarrow> string option \<Rightarrow> bool" where
  "is_assigned ad memberId cid sessionReference \<longleftrightarrow>
     (case sessionReference of
        None \<Rightarrow> False
      | Some reference \<Rightarrow>
          list_ex (\<lambda>g. as_member_id g = memberId \<and> as_committee_id g = cid \<and> as_state g = ''active''
             \<and> list_ex (\<lambda>s. vs_id s = as_session_id g \<and> vs_committee_id s = as_committee_id g
                  \<and> vs_external_reference s = reference) (ad_verification_sessions ad)) (ad_assignments ad))"

text \<open>The SELECT of loadCommitteePrincipal groups by the account, the committee and the member, so that an
  active access row of the account in the committee gives one row.\<close>

definition loadCommitteePrincipal ::
  "string \<Rightarrow> string \<Rightarrow> string \<Rightarrow> string \<Rightarrow> string option \<Rightarrow> auth_database \<Rightarrow> CommitteePrincipalSnapshot option" where
  "loadCommitteePrincipal accountReference committeeReference targetType targetReference sessionReference ad =
     (case select_where (\<lambda>a. ac_external_reference a = accountReference \<and> ac_trust_domain a = D_committee) (ad_accounts ad) of
        None \<Rightarrow> None
      | Some a \<Rightarrow>
         (case select_where (\<lambda>c. cm_external_reference c = committeeReference) (db_committees (ad_domain ad)) of
            None \<Rightarrow> None
          | Some c \<Rightarrow>
             (case select_where (\<lambda>x. ax_account_id x = ac_id a \<and> ax_committee_id x = cm_id c \<and> ax_state x = X_active) (ad_access ad) of
                None \<Rightarrow> None
              | Some x \<Rightarrow>
                  let member = select_where (\<lambda>m. Some (me_id m) = ax_member_id x) (db_members (ad_domain ad)) in
                  Some \<lparr>cs_accountReference = ac_external_reference a, cs_accountState = ac_state a,
                    cs_committeeReference = cm_external_reference c, cs_committeeState = cm_state c,
                    cs_membershipState = map_option me_state member,
                    cs_roles = (case member of None \<Rightarrow> [] | Some m \<Rightarrow> active_roles ad (me_id m)),
                    cs_conflicted = (case member of None \<Rightarrow> False | Some m \<Rightarrow> has_conflict ad (me_id m) targetType targetReference),
                    cs_assignedToSession = (case member of None \<Rightarrow> False | Some m \<Rightarrow> is_assigned ad (me_id m) (cm_id c) sessionReference)\<rparr>)))"

text \<open>The rows of the INSERT ... SELECT of assignReviewer: committee, session and member.\<close>

definition assignable :: "auth_database \<Rightarrow> string \<Rightarrow> string \<Rightarrow> string \<Rightarrow> (string \<times> string \<times> string) list" where
  "assignable ad committeeReference sessionReference memberReference =
     concat (map (\<lambda>c. concat (map (\<lambda>s. map (\<lambda>m. (cm_id c, vs_id s, me_id m))
        (filter (\<lambda>m. me_committee_id m = cm_id c \<and> me_external_reference m = memberReference \<and> me_state m = ''active'')
           (db_members (ad_domain ad))))
        (filter (\<lambda>s. vs_committee_id s = cm_id c \<and> vs_external_reference s = sessionReference) (ad_verification_sessions ad))))
        (filter (\<lambda>c. cm_external_reference c = committeeReference) (db_committees (ad_domain ad))))"

fun insert_assignments :: "assignment_row list \<Rightarrow> assignment_row list \<Rightarrow> repo_error + assignment_row list" where
  "insert_assignments [] rows = Inr rows"
| "insert_assignments (r # rs) rows =
     bind_result (insert_unique (\<lambda>q. as_id q = as_id r
        \<or> (as_session_id q = as_session_id r \<and> as_member_id q = as_member_id r)) r rows) (insert_assignments rs)"

definition assignReviewer ::
  "services \<Rightarrow> string \<Rightarrow> string \<Rightarrow> string \<Rightarrow> string \<Rightarrow> string \<Rightarrow> time \<Rightarrow> unit auth_op" where
  "assignReviewer sv committeeReference sessionReference memberReference policyVersionId assignedBy assignedAt =
     bindE (statement (bindT (inDomain (newId sv)) (\<lambda>i.
        bindT (readT (\<lambda>ad. assignable ad committeeReference sessionReference memberReference)) (\<lambda>found.
        bindT (readT ad_assignments) (\<lambda>rows.
        bindT (liftT (insert_assignments (map (\<lambda>(c, s, m). \<lparr>as_id = i, as_committee_id = c, as_session_id = s,
           as_member_id = m, as_policy_version_id = policyVersionId, as_state = ''active'',
           as_assigned_by_reference = assignedBy, as_assigned_at = assignedAt\<rparr>) found) rows)) (\<lambda>rows'.
        bindT (readT (\<lambda>ad. found = [] \<or> policyVersionId \<in> set (db_policies (ad_domain ad)))) (\<lambda>policy.
        bindT (requireT policy (DatabaseError ''23503'')) (\<lambda>_.
        bindT (writeT (\<lambda>ad. ad\<lparr>ad_assignments := rows'\<rparr>)) (\<lambda>_.
        returnT (length found)))))))))) (\<lambda>rowCount.
     requireE (rowCount = 1) (RepositoryConflictError ''reviewer session assignment is unavailable''))"

section \<open>Sessions\<close>

definition createSession_body :: "(TrustDomain \<Rightarrow> string) \<Rightarrow> SessionRecord \<Rightarrow> unit auth_tx" where
  "createSession_body sessionKeyVersions rec =
     bindT (account (sr_accountReference rec) (Some (sr_trustDomain rec))) (\<lambda>a.
     bindT (requireT (ac_state a = U_active) (RepositoryConflictError ''authentication account is not active'')) (\<lambda>_.
     insert_session \<lparr>se_id = sr_id rec, se_account_id = ac_id a, se_trust_domain = sr_trustDomain rec,
       se_audience = sr_audience rec, se_token_digest = sr_tokenDigest rec, se_csrf_digest = sr_csrfDigest rec,
       se_key_version = sessionKeyVersions (sr_trustDomain rec),
       se_authentication_strength = sr_authenticationStrength rec, se_state = Z_active,
       se_device_label = sr_deviceLabel rec, se_authenticated_at = sr_authenticatedAt rec,
       se_reauthenticated_at = sr_reauthenticatedAt rec, se_last_seen_at = sr_authenticatedAt rec,
       se_idle_expires_at = sr_idleExpiresAt rec, se_absolute_expires_at = sr_absoluteExpiresAt rec,
       se_revoked_at = None, se_revocation_reason = None, se_created_at = sr_authenticatedAt rec\<rparr>))"

definition createSession :: "(TrustDomain \<Rightarrow> string) \<Rightarrow> SessionRecord \<Rightarrow> unit auth_op" where
  "createSession sessionKeyVersions rec = transaction (createSession_body sessionKeyVersions rec)"

definition findByTokenDigest :: "TrustDomain \<Rightarrow> string \<Rightarrow> auth_database \<Rightarrow> SessionRecord option" where
  "findByTokenDigest trustDomain tokenDigest ad =
     (case select_where (\<lambda>s. se_trust_domain s = trustDomain \<and> se_token_digest s = tokenDigest
         \<and> list_ex (\<lambda>a. ac_id a = se_account_id s \<and> ac_state a = U_active) (ad_accounts ad)) (ad_sessions ad) of
        None \<Rightarrow> None
      | Some s \<Rightarrow> map_option (\<lambda>a. mapSession (ac_external_reference a) s)
          (select_where (\<lambda>a. ac_id a = se_account_id s \<and> ac_state a = U_active) (ad_accounts ad)))"

definition revoke_row :: "time \<Rightarrow> string \<Rightarrow> SessionRow \<Rightarrow> SessionRow" where
  "revoke_row moment reasonCategory s =
     s\<lparr>se_state := Z_revoked, se_revoked_at := Some moment, se_revocation_reason := Some reasonCategory\<rparr>"

definition revoke_session :: "string \<Rightarrow> string \<Rightarrow> time \<Rightarrow> unit auth_op" where
  "revoke_session sessionId reasonCategory moment =
     bindE (statement (update_sessions (\<lambda>s. se_id s = sessionId \<and> se_state s = Z_active)
        (revoke_row moment reasonCategory))) (\<lambda>_. returnE ())"

definition revokeAll :: "string \<Rightarrow> TrustDomain \<Rightarrow> string \<Rightarrow> time \<Rightarrow> nat auth_op" where
  "revokeAll accountReference trustDomain reasonCategory moment =
     statement (bindT (readT (\<lambda>ad s. list_ex (\<lambda>a. ac_id a = se_account_id s \<and> ac_external_reference a = accountReference) (ad_accounts ad))) (\<lambda>owned.
       update_sessions (\<lambda>s. owned s \<and> se_trust_domain s = trustDomain \<and> se_state s = Z_active) (revoke_row moment reasonCategory)))"

definition touch :: "string \<Rightarrow> time \<Rightarrow> time \<Rightarrow> unit auth_op" where
  "touch sessionId idleExpiresAt moment =
     bindE (statement (update_sessions (\<lambda>s. se_id s = sessionId \<and> se_state s = Z_active)
        (\<lambda>s. s\<lparr>se_idle_expires_at := idleExpiresAt, se_last_seen_at := moment\<rparr>))) (\<lambda>_. returnE ())"

definition list_sessions :: "string \<Rightarrow> TrustDomain \<Rightarrow> auth_database \<Rightarrow> SessionRecord list" where
  "list_sessions accountReference trustDomain ad =
     map (mapSession accountReference) (sort_key (\<lambda>s. - se_created_at s) (filter (\<lambda>s. se_trust_domain s = trustDomain
        \<and> list_ex (\<lambda>a. ac_id a = se_account_id s \<and> ac_external_reference a = accountReference) (ad_accounts ad)) (ad_sessions ad)))"

section \<open>Challenges and rate limits\<close>

definition createChallenge_body :: "AuthChallengeRecord \<Rightarrow> unit auth_tx" where
  "createChallenge_body rec =
     bindT (if truthy (hr_accountReference rec)
            then bindT (account (the (hr_accountReference rec)) (Some (hr_trustDomain rec))) (\<lambda>a. returnT (Some (ac_id a)))
            else returnT None) (\<lambda>accountId.
     insert_challenge \<lparr>ch_id = hr_id rec, ch_account_id = accountId, ch_trust_domain = hr_trustDomain rec,
       ch_kind = hr_kind rec, ch_state = H_pending, ch_secret_digest = hr_secretDigest rec,
       ch_destination_reference = hr_destinationReference rec, ch_lookup_digest = hr_lookupDigest rec,
       ch_attempt_count = 0, ch_maximum_attempts = 1, ch_expires_at = hr_expiresAt rec, ch_consumed_at = None,
       ch_created_at = hr_createdAt rec\<rparr>)"

definition createChallenge :: "AuthChallengeRecord \<Rightarrow> unit auth_op" where
  "createChallenge rec = transaction (createChallenge_body rec)"

definition consumable ::
  "string option \<Rightarrow> string option \<Rightarrow> AuthChallengeKind \<Rightarrow> TrustDomain \<Rightarrow> time \<Rightarrow> ChallengeRow \<Rightarrow> bool" where
  "consumable challengeId secretDigest kind trustDomain moment r \<longleftrightarrow>
     (challengeId = None \<or> challengeId = Some (ch_id r)) \<and> (secretDigest = None \<or> secretDigest = Some (ch_secret_digest r))
     \<and> ch_kind r = kind \<and> ch_trust_domain r = trustDomain \<and> ch_state r = H_pending \<and> ch_expires_at r > moment
     \<and> ch_attempt_count r < ch_maximum_attempts r"

definition consume_row :: "time \<Rightarrow> ChallengeRow \<Rightarrow> ChallengeRow" where
  "consume_row moment r = r\<lparr>ch_state := H_consumed, ch_consumed_at := Some moment, ch_attempt_count := ch_attempt_count r + 1\<rparr>"

definition consumed_record :: "auth_database \<Rightarrow> ChallengeRow \<Rightarrow> ConsumedAuthChallenge" where
  "consumed_record ad r =
     \<lparr>hr_id = ch_id r,
      hr_accountReference = (case ch_account_id r of None \<Rightarrow> None
        | Some i \<Rightarrow> map_option ac_external_reference (select_where (\<lambda>a. ac_id a = i) (ad_accounts ad))),
      hr_trustDomain = ch_trust_domain r, hr_kind = ch_kind r, hr_secretDigest = ch_secret_digest r,
      hr_destinationReference = ch_destination_reference r, hr_lookupDigest = ch_lookup_digest r,
      hr_expiresAt = ch_expires_at r, hr_createdAt = ch_created_at r, hr_consumedAt = the (ch_consumed_at r)\<rparr>"

definition consume ::
  "string option \<Rightarrow> string option \<Rightarrow> AuthChallengeKind \<Rightarrow> TrustDomain \<Rightarrow> time \<Rightarrow> ConsumedAuthChallenge option auth_op" where
  "consume challengeId secretDigest kind trustDomain moment =
     statement (bindT (update_challenges (consumable challengeId secretDigest kind trustDomain moment) (consume_row moment)) (\<lambda>rows.
       readT (\<lambda>ad. case rows of [] \<Rightarrow> None | r # _ \<Rightarrow> Some (consumed_record ad r))))"

definition increment_body :: "string \<Rightarrow> string \<Rightarrow> time \<Rightarrow> time \<Rightarrow> int auth_tx" where
  "increment_body keyDigest bucket windowStartedAt expiresAt =
     bindT (requireT (windowStartedAt < expiresAt) (DatabaseError ''23514'')) (\<lambda>_.
     bindT (readT ad_buckets) (\<lambda>rows.
     case select_where (\<lambda>b. bu_key_digest b = keyDigest) rows of
       None \<Rightarrow>
         bindT (writeT (\<lambda>ad. ad\<lparr>ad_buckets := rows @ [\<lparr>bu_key_digest = keyDigest, bu_bucket = bucket,
           bu_attempt_count = 1, bu_window_started_at = windowStartedAt, bu_expires_at = expiresAt\<rparr>]\<rparr>)) (\<lambda>_. returnT 1)
     | Some b \<Rightarrow>
         bindT (writeT (\<lambda>ad. ad\<lparr>ad_buckets := update_where (\<lambda>q. bu_key_digest q = keyDigest)
           (\<lambda>q. q\<lparr>bu_attempt_count := bu_attempt_count q + 1\<rparr>) rows\<rparr>)) (\<lambda>_. returnT (bu_attempt_count b + 1))))"

definition increment :: "string \<Rightarrow> string \<Rightarrow> time \<Rightarrow> time \<Rightarrow> int auth_op" where
  "increment keyDigest bucket windowStartedAt expiresAt = statement (increment_body keyDigest bucket windowStartedAt expiresAt)"

section \<open>Verified addresses and account security\<close>

definition findByLookupDigest :: "TrustDomain \<Rightarrow> string \<Rightarrow> auth_database \<Rightarrow> VerifiedEmailAccount option" where
  "findByLookupDigest trustDomain lookupDigest ad =
     (let owner = (\<lambda>c. select_where (\<lambda>a. ac_id a = ct_auth_account_id c \<and> ac_trust_domain a = trustDomain) (ad_accounts ad)) in
      case select_where (\<lambda>c. ct_lookup_digest c = lookupDigest \<and> ct_verified_at c \<noteq> None \<and> ct_disabled_at c = None
          \<and> owner c \<noteq> None) (ad_contacts ad) of
        None \<Rightarrow> None
      | Some c \<Rightarrow> map_option (\<lambda>a. \<lparr>ve_accountReference = ac_external_reference a, ve_trustDomain = ac_trust_domain a,
          ve_destinationReference = ct_destination_reference c, ve_accountState = ac_state a\<rparr>) (owner c))"

definition recoverAndRevokeSessions_body ::
  "services \<Rightarrow> string \<Rightarrow> TrustDomain \<Rightarrow> bool \<Rightarrow> string \<Rightarrow> string \<Rightarrow> string \<Rightarrow> time \<Rightarrow> nat auth_tx" where
  "recoverAndRevokeSessions_body sv accountReference trustDomain reviewRequired policyVersion softwareVersion correlationId moment =
     bindT (account accountReference (Some trustDomain)) (\<lambda>a.
     bindT (requireT (ac_state a = U_active \<or> ac_state a = U_locked)
        (RepositoryConflictError ''authentication account cannot be recovered'')) (\<lambda>_.
     bindT (update_sessions (\<lambda>s. se_account_id s = ac_id a \<and> se_state s = Z_active) (revoke_row moment ''account_recovery'')) (\<lambda>rowCount.
     bindT (update_accounts (\<lambda>b. ac_id b = ac_id a)
        (\<lambda>b. b\<lparr>ac_state := (if reviewRequired then U_suspended else U_active), ac_recovered_at := Some moment,
           ac_suspended_at := (if reviewRequired then Some moment else None), ac_locked_at := None, ac_version := ac_version b + 1\<rparr>)) (\<lambda>_.
     bindT (inDomain (appendAudit sv
        (global_auth_context ''account_recovery'' accountReference ''recovery'' policyVersion softwareVersion
           (if reviewRequired then ''committee_recovery_suspended'' else ''participant_recovered'') correlationId)
        None ''recoverAccount''
        \<lparr>tg_type = ''auth_account'', tg_reference = accountReference, tg_priorState = None,
         tg_newState = Some (if reviewRequired then ''suspended'' else ''active'')\<rparr> ''succeeded'')) (\<lambda>_.
     returnT rowCount)))))"

definition recoverAndRevokeSessions ::
  "services \<Rightarrow> string \<Rightarrow> TrustDomain \<Rightarrow> bool \<Rightarrow> string \<Rightarrow> string \<Rightarrow> string \<Rightarrow> time \<Rightarrow> nat auth_op" where
  "recoverAndRevokeSessions sv accountReference trustDomain reviewRequired policyVersion softwareVersion correlationId moment =
     transaction (recoverAndRevokeSessions_body sv accountReference trustDomain reviewRequired policyVersion softwareVersion correlationId moment)"

definition lockAndRevokeSessions_body ::
  "services \<Rightarrow> string \<Rightarrow> TrustDomain \<Rightarrow> string \<Rightarrow> SecurityMutationContext \<Rightarrow> time \<Rightarrow> nat auth_tx" where
  "lockAndRevokeSessions_body sv accountReference trustDomain reasonCategory context moment =
     bindT (account accountReference (Some trustDomain)) (\<lambda>a.
     bindT (requireT (ac_state a = U_active) (RepositoryConflictError ''authentication account cannot be locked'')) (\<lambda>_.
     bindT (update_sessions (\<lambda>s. se_account_id s = ac_id a \<and> se_state s = Z_active) (revoke_row moment reasonCategory)) (\<lambda>rowCount.
     bindT (update_accounts (\<lambda>b. ac_id b = ac_id a)
        (\<lambda>b. b\<lparr>ac_state := U_locked, ac_locked_at := Some moment, ac_version := ac_version b + 1\<rparr>)) (\<lambda>_.
     bindT (appendSecurityAudit sv accountReference ''lockAccount'' (Some ''locked'') reasonCategory context) (\<lambda>_.
     returnT rowCount)))))"

definition lockAndRevokeSessions ::
  "services \<Rightarrow> string \<Rightarrow> TrustDomain \<Rightarrow> string \<Rightarrow> SecurityMutationContext \<Rightarrow> time \<Rightarrow> nat auth_op" where
  "lockAndRevokeSessions sv accountReference trustDomain reasonCategory context moment =
     transaction (lockAndRevokeSessions_body sv accountReference trustDomain reasonCategory context moment)"

definition live_email :: "auth_account_row \<Rightarrow> contact_row \<Rightarrow> bool" where
  "live_email a c \<longleftrightarrow> ct_auth_account_id c = ac_id a \<and> ct_channel c = ''email'' \<and> ct_disabled_at c = None"

definition changeVerifiedEmail_body ::
  "services \<Rightarrow> string \<Rightarrow> TrustDomain \<Rightarrow> string \<Rightarrow> string \<Rightarrow> SecurityMutationContext \<Rightarrow> time \<Rightarrow> (string list \<times> nat) auth_tx" where
  "changeVerifiedEmail_body sv accountReference trustDomain newDestination newLookupDigest context moment =
     bindT (account accountReference (Some trustDomain)) (\<lambda>a.
     bindT (requireT (ac_state a = U_active) (RepositoryConflictError ''verified email cannot be changed'')) (\<lambda>_.
     bindT (readT (\<lambda>ad. map ct_destination_reference (filter (live_email a) (ad_contacts ad)))) (\<lambda>prior.
     bindT (update_contacts (live_email a) (\<lambda>c. c\<lparr>ct_disabled_at := Some moment\<rparr>)) (\<lambda>_.
     bindT (inDomain (newId sv)) (\<lambda>i.
     bindT (insert_contact \<lparr>ct_id = i, ct_participant_id = ac_participant_id a, ct_auth_account_id = ac_id a,
        ct_channel = ''email'', ct_destination_reference = newDestination, ct_lookup_digest = newLookupDigest,
        ct_verified_at = Some moment, ct_disabled_at = None\<rparr>) (\<lambda>_.
     bindT (update_sessions (\<lambda>s. se_account_id s = ac_id a \<and> se_state s = Z_active) (revoke_row moment ''verified_email_changed'')) (\<lambda>rowCount.
     bindT (appendSecurityAudit sv accountReference ''changeVerifiedEmail'' None ''verified_email_changed'' context) (\<lambda>_.
     returnT (prior, rowCount)))))))))"

definition changeVerifiedEmail ::
  "services \<Rightarrow> string \<Rightarrow> TrustDomain \<Rightarrow> string \<Rightarrow> string \<Rightarrow> SecurityMutationContext \<Rightarrow> time \<Rightarrow> (string list \<times> nat) auth_op" where
  "changeVerifiedEmail sv accountReference trustDomain newDestination newLookupDigest context moment ad =
     (case requireOpaqueReference newDestination ''newDestinationReference'' of
        Inl e \<Rightarrow> (Inl e, ad)
      | Inr _ \<Rightarrow> transaction (changeVerifiedEmail_body sv accountReference trustDomain newDestination newLookupDigest context moment) ad)"

section \<open>Passkeys\<close>

definition listActive :: "string \<Rightarrow> TrustDomain \<Rightarrow> auth_database \<Rightarrow> StoredPasskeyCredential list" where
  "listActive accountReference trustDomain ad =
     concat (map (\<lambda>p. map (\<lambda>a. mapPasskey a p)
        (filter (\<lambda>a. ac_id a = pk_auth_account_id p \<and> ac_external_reference a = accountReference
           \<and> ac_trust_domain a = trustDomain) (ad_accounts ad)))
        (sort_key pk_created_at (filter (\<lambda>p. pk_state p = PK_active) (ad_passkeys ad))))"

definition findActive :: "string \<Rightarrow> TrustDomain \<Rightarrow> auth_database \<Rightarrow> StoredPasskeyCredential option" where
  "findActive credentialReference trustDomain ad =
     (let owner = (\<lambda>p. select_where (\<lambda>a. ac_id a = pk_auth_account_id p \<and> ac_trust_domain a = trustDomain
         \<and> ac_state a = U_active) (ad_accounts ad)) in
      case select_where (\<lambda>p. pk_credential_reference p = credentialReference \<and> pk_state p = PK_active
          \<and> owner p \<noteq> None) (ad_passkeys ad) of
        None \<Rightarrow> None
      | Some p \<Rightarrow> map_option (\<lambda>a. mapPasskey a p) (owner p))"

definition save_body :: "services \<Rightarrow> StoredPasskeyCredential \<Rightarrow> time \<Rightarrow> unit auth_tx" where
  "save_body sv credential createdAt =
     bindT (account (pc_accountReference credential) (Some (pc_trustDomain credential))) (\<lambda>a.
     bindT (requireT (ac_state a = U_active) (RepositoryConflictError ''authentication account is not active'')) (\<lambda>_.
     bindT (inDomain (newId sv)) (\<lambda>i.
     insert_passkey \<lparr>pk_id = i, pk_participant_id = ac_participant_id a, pk_auth_account_id = ac_id a,
       pk_credential_reference = pc_credentialReference credential, pk_relying_party_id = pc_relyingPartyId credential,
       pk_public_key = pc_publicKey credential, pk_transports = pc_transports credential,
       pk_credential_device_type = pc_deviceType credential, pk_backed_up = pc_backedUp credential,
       pk_device_label = pc_deviceLabel credential, pk_state = PK_active, pk_sign_count = pc_counter credential,
       pk_created_at = createdAt, pk_last_used_at = None, pk_revoked_at = None\<rparr>)))"

definition save :: "services \<Rightarrow> StoredPasskeyCredential \<Rightarrow> time \<Rightarrow> unit auth_op" where
  "save sv credential createdAt = transaction (save_body sv credential createdAt)"

definition updateUsage :: "string \<Rightarrow> int \<Rightarrow> DeviceType \<Rightarrow> bool \<Rightarrow> time \<Rightarrow> unit auth_op" where
  "updateUsage credentialReference counter deviceType backedUp usedAt =
     bindE (statement (update_passkeys (\<lambda>p. pk_credential_reference p = credentialReference \<and> pk_state p = PK_active
          \<and> pk_sign_count p \<le> counter)
        (\<lambda>p. p\<lparr>pk_sign_count := counter, pk_credential_device_type := deviceType, pk_backed_up := backedUp,
             pk_last_used_at := Some usedAt\<rparr>))) (\<lambda>rowCount.
     requireE (rowCount = 1) (RepositoryConflictError ''passkey counter update was rejected''))"

definition revokeCredential_stored :: "string \<Rightarrow> string \<Rightarrow> time \<Rightarrow> unit auth_op" where
  "revokeCredential_stored credentialReference accountReference revokedAt =
     bindE (statement (bindT (readT (\<lambda>ad p. list_ex (\<lambda>a. ac_id a = pk_auth_account_id p
          \<and> ac_external_reference a = accountReference) (ad_accounts ad))) (\<lambda>owned.
        update_passkeys (\<lambda>p. owned p \<and> pk_credential_reference p = credentialReference \<and> pk_state p = PK_active)
          (\<lambda>p. p\<lparr>pk_state := PK_revoked, pk_revoked_at := Some revokedAt\<rparr>)))) (\<lambda>rowCount.
     requireE (rowCount = 1) (RepositoryConflictError ''passkey is unavailable''))"

section \<open>Consents\<close>

definition recordConsent_body ::
  "services \<Rightarrow> VersionedConsentReceipt \<Rightarrow> string \<Rightarrow> string option \<Rightarrow> time option \<Rightarrow> unit auth_tx" where
  "recordConsent_body sv receipt policyVersionId participantReference acknowledgedAt =
     bindT (account (vr_accountReference receipt) None) (\<lambda>a.
     bindT (participantId_of participantReference) (\<lambda>pid.
     bindT (if truthy (vr_committeeReference receipt)
            then bindT (committee (the (vr_committeeReference receipt))) (\<lambda>c. returnT (Some c)) else returnT None) (\<lambda>cid.
     bindT (inDomain (newId sv)) (\<lambda>i.
     bindT (inDomain (newId sv)) (\<lambda>j.
     let row = \<lparr>ly_id = i, ly_external_reference = ''consent:'' @ j, ly_committee_id = cid,
           ly_state = S_consent (if vr_action receipt = Withdrawn then K_withdrawn else K_acknowledged), ly_version = 1,
           ly_expires_at = 0, ly_rejection_reason = None, ly_consumed_at = None, ly_acknowledged_at = acknowledgedAt,
           ly_withdrawn_at = (if vr_action receipt = Withdrawn then Some (vr_actedAt receipt) else None),
           ly_assigned_reference = None, ly_resolved_at = None, ly_completed_at = None, ly_delivered_at = None\<rparr>;
         columns = \<lparr>cr_id = i, cr_participant_id = pid, cr_auth_account_id = ac_id a, cr_policy_version_id = policyVersionId,
           cr_purpose = vr_purpose receipt, cr_presentation_reference = vr_presentationReference receipt,
           cr_presentation_digest = vr_presentationDigest receipt, cr_action = vr_action receipt,
           cr_presented_at = vr_presentedAt receipt, cr_acted_at = vr_actedAt receipt\<rparr> in
     bindT (readT (\<lambda>ad. account_participant ad (ac_id a) = pid)) (\<lambda>matches.
     bindT (requireT matches (DatabaseError ''P0001'')) (\<lambda>_.
     bindT (requireT (lifecycle_row_ok row) (DatabaseError ''23514'')) (\<lambda>_.
     bindT (readT ad_consents) (\<lambda>rows.
     bindT (liftT (insert_unique (\<lambda>q. cr_id q = i \<or> (cr_auth_account_id q = ac_id a
        \<and> cr_policy_version_id q = policyVersionId \<and> cr_purpose q = vr_purpose receipt \<and> cr_action q = vr_action receipt)) columns rows)) (\<lambda>rows'.
     bindT (readT (\<lambda>ad. db_lifecycles (ad_domain ad))) (\<lambda>lifecycles.
     bindT (liftT (insert_unique (\<lambda>q. table_of (ly_state q) = T_consent_receipt
        \<and> ly_external_reference q = ly_external_reference row) row lifecycles)) (\<lambda>lifecycles'.
     bindT (readT (\<lambda>ad. policyVersionId \<in> set (db_policies (ad_domain ad)))) (\<lambda>policy.
     bindT (requireT policy (DatabaseError ''23503'')) (\<lambda>_.
     writeT (\<lambda>ad. ad\<lparr>ad_consents := rows',
        ad_domain := (ad_domain ad)\<lparr>db_lifecycles := lifecycles'\<rparr>\<rparr>)))))))))))))))"

definition recordConsent ::
  "services \<Rightarrow> VersionedConsentReceipt \<Rightarrow> string \<Rightarrow> string option \<Rightarrow> time option \<Rightarrow> unit auth_op" where
  "recordConsent sv receipt policyVersionId participantReference acknowledgedAt =
     transaction (recordConsent_body sv receipt policyVersionId participantReference acknowledgedAt)"

end
