(* ===== verification/Auth_Services.thy ===== *)
theory Auth_Services
  imports Auth_Repository
begin

text \<open>
  The services of packages/auth/src over the repository that implements all their stores: sessions
  (session.ts), rate limits (rate-limit.ts), sign-in and recovery by email (email-recovery.ts), account
  security (account-security.ts), passkeys (passkey.ts), trust domains and cookies (trust-domain.ts) and
  consents (consent.ts).

  The state of a service has the database, the number of tokens and identifiers drawn so far, and the state
  of what is outside the program.  From there come, in the record \<open>environment\<close>: the keyed digest HMAC-SHA-256,
  the random tokens, the identifiers of the factory newId, the normal form of an email address (trimmed,
  NFKC, lower case), the sink for notifications and the functions of the package @simplewebauthn/server.
\<close>

section \<open>The environment\<close>

datatype NotificationKind =
    Email_sign_in_requested | Account_recovery_requested | Account_recovered | Sessions_revoked
  | Account_locked | Email_change_requested | Email_changed

record SecurityNotification =
  sn_accountReference :: string
  sn_destinationReference :: string
  sn_kind :: NotificationKind
  sn_secret :: "string option"
  sn_expiresAt :: "time option"

text \<open>The options object of WebAuthn: its challenge, and the rest as a text.\<close>

record CredentialOptions =
  co_challenge :: string
  co_rest :: string

record RegistrationOptionsInput =
  go_rpName :: string
  go_rpID :: string
  go_userName :: string
  go_excludeCredentials :: "(string \<times> string list) list"

record VerifiedRegistration =
  vg_verified :: bool
  vg_id :: string
  vg_publicKey :: "nat list"
  vg_counter :: int
  vg_transports :: "string list option"
  vg_deviceType :: DeviceType
  vg_backedUp :: bool

record VerifiedAuthentication =
  va_verified :: bool
  va_userVerified :: bool
  va_newCounter :: int
  va_deviceType :: DeviceType
  va_backedUp :: bool

record WebAuthnCredential =
  wc_id :: string
  wc_publicKey :: "nat list"
  wc_counter :: int
  wc_transports :: "string list"

text \<open>A response of a browser: the field id, and the rest as a text.\<close>

record CredentialResponse =
  cp_id :: string
  cp_rest :: string

record 'x WebAuthnAdapter =
  wa_generateRegistrationOptions :: "RegistrationOptionsInput \<Rightarrow> ('x, string, CredentialOptions) computation"
  wa_generateAuthenticationOptions :: "string \<Rightarrow> ('x, string, CredentialOptions) computation"
  wa_verifyRegistrationResponse ::
    "CredentialResponse \<Rightarrow> (string \<Rightarrow> bool) \<Rightarrow> string \<Rightarrow> string \<Rightarrow> ('x, string, VerifiedRegistration) computation"
  wa_verifyAuthenticationResponse ::
    "CredentialResponse \<Rightarrow> (string \<Rightarrow> bool) \<Rightarrow> string \<Rightarrow> string \<Rightarrow> WebAuthnCredential
       \<Rightarrow> ('x, string, VerifiedAuthentication) computation"

record 'x environment =
  en_services :: services
  en_keyedDigest :: "string \<Rightarrow> string \<Rightarrow> string"
  en_token :: "nat \<Rightarrow> string"
  en_newId :: "nat \<Rightarrow> string"
  en_normalized :: "string \<Rightarrow> string"
  en_keyVersions :: "TrustDomain \<Rightarrow> string"
  en_enqueue :: "SecurityNotification \<Rightarrow> ('x, string, unit) computation"
  en_webAuthn :: "'x WebAuthnAdapter"

record 'x auth_world =
  aw_store :: auth_database
  aw_tokens :: nat
  aw_ids :: nat
  aw_outside :: 'x

datatype auth_failure = AuthError AuthErrorCode | StoreError repo_error | OutsideError string

type_synonym ('x, 'a) auth_service = "('x auth_world, auth_failure, 'a) computation"

definition inStore :: "'a auth_op \<Rightarrow> ('x, 'a) auth_service" where
  "inStore m w = (case m (aw_store w) of (r, ad) \<Rightarrow> (map_error StoreError r, w\<lparr>aw_store := ad\<rparr>))"

definition outside :: "('x, string, 'a) computation \<Rightarrow> ('x, 'a) auth_service" where
  "outside m w = (case m (aw_outside w) of (r, x) \<Rightarrow> (map_error OutsideError r, w\<lparr>aw_outside := x\<rparr>))"

definition fromStore :: "(auth_database \<Rightarrow> 'a) \<Rightarrow> ('x, 'a) auth_service" where
  "fromStore f = readE (\<lambda>w. f (aw_store w))"

definition generateOpaqueToken :: "'x environment \<Rightarrow> ('x, string) auth_service" where
  "generateOpaqueToken en w = (Inr (en_token en (aw_tokens w)), w\<lparr>aw_tokens := Suc (aw_tokens w)\<rparr>)"

definition draw_id :: "'x environment \<Rightarrow> ('x, string) auth_service" where
  "draw_id en w = (Inr (en_newId en (aw_ids w)), w\<lparr>aw_ids := Suc (aw_ids w)\<rparr>)"

abbreviation keyedDigest :: "'x environment \<Rightarrow> string \<Rightarrow> string \<Rightarrow> string" where
  "keyedDigest en \<equiv> en_keyedDigest en"

definition digestMatches :: "string \<Rightarrow> string \<Rightarrow> bool" where
  "digestMatches expected actual \<longleftrightarrow>
     length (utf8_encode expected) = length (utf8_encode actual) \<and> utf8_encode expected = utf8_encode actual"

lemma digestMatches_eq [simp]: "digestMatches expected actual \<longleftrightarrow> expected = actual"
  by (auto simp: digestMatches_def utf8_encode_inj)

definition normalizeEmailForLookup :: "'x environment \<Rightarrow> string \<Rightarrow> string \<Rightarrow> string" where
  "normalizeEmailForLookup en email secret = keyedDigest en secret (en_normalized en email)"

section \<open>Trust domains and cookies\<close>

datatype SameSite = Lax | Strict

record TrustDomainConfig =
  td_domain :: TrustDomain
  td_audience :: string
  td_cookieName :: string
  td_origin :: string
  td_relyingPartyId :: string
  td_sessionSecret :: string
  td_idleTimeoutMs :: int
  td_absoluteTimeoutMs :: int
  td_privilegedReauthenticationMs :: int
  td_sameSite :: SameSite

definition domain_config_bad :: "(string \<Rightarrow> (string \<times> string) option) \<Rightarrow> TrustDomainConfig \<Rightarrow> auth_failure option" where
  "domain_config_bad parse_url config =
     (case parse_url (td_origin config) of
        None \<Rightarrow> Some (OutsideError ''TypeError'')
      | Some (protocol, hostname) \<Rightarrow>
          let secureLocalhost = protocol = ''http:'' \<and> hostname \<in> set [''localhost'', ''127.0.0.1'', ''::1''] in
          if \<not> prefix ''__Host-'' (td_cookieName config) \<or> length (td_sessionSecret config) < 32
             \<or> (protocol \<noteq> ''https:'' \<and> \<not> secureLocalhost)
          then Some (AuthError AUTHORIZATION_DENIED) else None)"

text \<open>The argument \<open>parse_url\<close> is the protocol and the host name of a URL, or None when its constructor raises.\<close>

definition validateTrustDomains ::
  "(string \<Rightarrow> (string \<times> string) option) \<Rightarrow> TrustDomainConfig \<Rightarrow> TrustDomainConfig \<Rightarrow> auth_failure + unit" where
  "validateTrustDomains parse_url forParticipant forCommittee =
     (if td_domain forParticipant \<noteq> D_participant \<or> td_domain forCommittee \<noteq> D_committee
         \<or> td_audience forParticipant = td_audience forCommittee \<or> td_cookieName forParticipant = td_cookieName forCommittee
         \<or> td_sessionSecret forParticipant = td_sessionSecret forCommittee \<or> td_origin forParticipant = td_origin forCommittee
      then Inl (AuthError AUTHORIZATION_DENIED)
      else case domain_config_bad parse_url forParticipant of
        Some e \<Rightarrow> Inl e
      | None \<Rightarrow> (case domain_config_bad parse_url forCommittee of Some e \<Rightarrow> Inl e | None \<Rightarrow> Inr ()))"

text \<open>The text of the maximum of 0 and the integer below a number, in the range printed without an exponent.\<close>

fun max_age_text :: "js_number \<Rightarrow> string" where
  "max_age_text (Num r) = int_to_string (max 0 \<lfloor>r\<rfloor>)"
| "max_age_text NaN = ''NaN''"
| "max_age_text PosInf = ''Infinity''"
| "max_age_text NegInf = ''0''"

fun same_site_name :: "SameSite \<Rightarrow> string" where
  "same_site_name Lax = ''Lax''"
| "same_site_name Strict = ''Strict''"

definition sessionCookie :: "TrustDomainConfig \<Rightarrow> string \<Rightarrow> js_number \<Rightarrow> string" where
  "sessionCookie config token maxAgeSeconds =
     td_cookieName config @ ''='' @ token @ ''; Path=/; Max-Age='' @ max_age_text maxAgeSeconds
     @ ''; Secure; HttpOnly; SameSite='' @ same_site_name (td_sameSite config)"

definition expiredSessionCookie :: "TrustDomainConfig \<Rightarrow> string" where
  "expiredSessionCookie config =
     td_cookieName config @ ''=; Path=/; Max-Age=0; Secure; HttpOnly; SameSite='' @ same_site_name (td_sameSite config)"

section \<open>SessionService\<close>

record IssueInput =
  is_accountReference :: string
  is_trustDomain :: TrustDomain
  is_authenticationStrength :: AuthenticationStrength
  is_deviceLabel :: string
  is_now :: time
  is_priorSessionId :: "string option"

record IssuedSession =
  id_record :: SessionRecord
  id_token :: string
  id_csrfToken :: string

definition issue_session :: "'x environment \<Rightarrow> (TrustDomain \<Rightarrow> TrustDomainConfig) \<Rightarrow> IssueInput \<Rightarrow> ('x, IssuedSession) auth_service" where
  "issue_session en configs inp =
     (let config = configs (is_trustDomain inp) in
      bindE (requireE (\<not> (is_trustDomain inp = D_committee \<and> is_authenticationStrength inp \<noteq> S_passkey))
        (AuthError AUTHENTICATION_FAILED)) (\<lambda>_.
      bindE (if truthy (is_priorSessionId inp)
             then inStore (revoke_session (the (is_priorSessionId inp)) ''session_rotated'' (is_now inp)) else returnE ()) (\<lambda>_.
      bindE (generateOpaqueToken en) (\<lambda>token.
      bindE (generateOpaqueToken en) (\<lambda>csrfToken.
      bindE (draw_id en) (\<lambda>i.
      let rec = \<lparr>sr_id = i, sr_accountReference = is_accountReference inp, sr_trustDomain = is_trustDomain inp,
            sr_audience = td_audience config, sr_tokenDigest = keyedDigest en (td_sessionSecret config) token,
            sr_csrfDigest = keyedDigest en (td_sessionSecret config) csrfToken,
            sr_authenticationStrength = is_authenticationStrength inp, sr_authenticatedAt = is_now inp,
            sr_reauthenticatedAt = (if is_authenticationStrength inp = S_passkey then Some (is_now inp) else None),
            sr_idleExpiresAt = is_now inp + td_idleTimeoutMs config,
            sr_absoluteExpiresAt = is_now inp + td_absoluteTimeoutMs config,
            sr_revokedAt = None, sr_deviceLabel = is_deviceLabel inp\<rparr> in
      bindE (inStore (createSession (en_keyVersions en) rec)) (\<lambda>_.
      returnE \<lparr>id_record = rec, id_token = token, id_csrfToken = csrfToken\<rparr>)))))))"

definition authenticate ::
  "'x environment \<Rightarrow> (TrustDomain \<Rightarrow> TrustDomainConfig) \<Rightarrow> TrustDomain \<Rightarrow> string option \<Rightarrow> time \<Rightarrow> ('x, SessionRecord) auth_service" where
  "authenticate en configs trustDomain token now =
     bindE (requireE (truthy token) (AuthError AUTHENTICATION_REQUIRED)) (\<lambda>_.
     let config = configs trustDomain in
     bindE (fromStore (findByTokenDigest trustDomain (keyedDigest en (td_sessionSecret config) (the token)))) (\<lambda>found.
     case found of
       None \<Rightarrow> throwE (AuthError AUTHENTICATION_FAILED)
     | Some rec \<Rightarrow>
         bindE (requireE (sr_audience rec = td_audience config) (AuthError AUTHENTICATION_FAILED)) (\<lambda>_.
         bindE (requireE (sr_revokedAt rec = None) (AuthError SESSION_REVOKED)) (\<lambda>_.
         if sr_idleExpiresAt rec \<le> now \<or> sr_absoluteExpiresAt rec \<le> now
         then bindE (inStore (revoke_session (sr_id rec) ''session_expired'' now)) (\<lambda>_. throwE (AuthError SESSION_EXPIRED))
         else
           let nextIdle = min (now + td_idleTimeoutMs config) (sr_absoluteExpiresAt rec) in
           bindE (inStore (touch (sr_id rec) nextIdle now)) (\<lambda>_.
           returnE (rec\<lparr>sr_idleExpiresAt := nextIdle\<rparr>))))))"

definition requireRecentStrongAuthentication ::
  "(TrustDomain \<Rightarrow> TrustDomainConfig) \<Rightarrow> SessionRecord \<Rightarrow> time \<Rightarrow> AuthErrorCode + unit" where
  "requireRecentStrongAuthentication configs session now =
     (let config = configs (sr_trustDomain session) in
      if sr_authenticationStrength session \<noteq> S_passkey
         \<or> (case sr_reauthenticatedAt session of None \<Rightarrow> True | Some t \<Rightarrow> now - t > td_privilegedReauthenticationMs config)
      then Inl REAUTHENTICATION_REQUIRED else Inr ())"

text \<open>No character up to 255 outside a to z has an upper case that is a letter of GET, HEAD or OPTIONS.\<close>

definition upper_ascii :: "string \<Rightarrow> string" where
  "upper_ascii s = map (\<lambda>c. if is_lower c then char_of (code c - 32) else c) s"

definition requireCsrf ::
  "'x environment \<Rightarrow> (TrustDomain \<Rightarrow> TrustDomainConfig) \<Rightarrow> SessionRecord \<Rightarrow> string \<Rightarrow> string option \<Rightarrow> string option
     \<Rightarrow> AuthErrorCode + unit" where
  "requireCsrf en configs session http_method origin csrfToken =
     (if upper_ascii http_method \<in> set [''GET'', ''HEAD'', ''OPTIONS''] then Inr ()
      else
        let config = configs (sr_trustDomain session) in
        if origin \<noteq> Some (td_origin config) \<or> \<not> truthy csrfToken then Inl ORIGIN_REJECTED
        else if \<not> digestMatches (sr_csrfDigest session) (keyedDigest en (td_sessionSecret config) (the csrfToken))
        then Inl ORIGIN_REJECTED else Inr ())"

section \<open>RateLimiter\<close>

datatype RateBucket =
    Login_network | Login_account | Recovery_network | Recovery_account | Wallet_callback_network | Wallet_link_account

fun bucket_name :: "RateBucket \<Rightarrow> string" where
  "bucket_name Login_network = ''login_network''"
| "bucket_name Login_account = ''login_account''"
| "bucket_name Recovery_network = ''recovery_network''"
| "bucket_name Recovery_account = ''recovery_account''"
| "bucket_name Wallet_callback_network = ''wallet_callback_network''"
| "bucket_name Wallet_link_account = ''wallet_link_account''"

text \<open>The text that identifies a bucket, a subject and a window.  The window is not 0.\<close>

definition rate_key :: "'x environment \<Rightarrow> string \<Rightarrow> RateBucket \<Rightarrow> string \<Rightarrow> int \<Rightarrow> string" where
  "rate_key en secret bucket subject windowNumber =
     keyedDigest en secret (bucket_name bucket @ '':'' @ subject @ '':'' @ int_to_string windowNumber)"

definition requireWithinLimit ::
  "'x environment \<Rightarrow> string \<Rightarrow> RateBucket \<Rightarrow> string \<Rightarrow> time \<Rightarrow> int \<Rightarrow> int \<Rightarrow> ('x, unit) auth_service" where
  "requireWithinLimit en secret bucket subject now windowMs limit =
     (let windowNumber = now div windowMs; windowStartedAt = windowNumber * windowMs in
      bindE (inStore (increment (rate_key en secret bucket subject windowNumber) (bucket_name bucket)
        windowStartedAt (windowStartedAt + windowMs))) (\<lambda>count.
      requireE (count \<le> limit) (AuthError RATE_LIMITED)))"

section \<open>EmailRecoveryService\<close>

datatype EmailChallengeKind = For_sign_in | For_recovery

definition genericResponse :: string where
  "genericResponse = ''If the account is eligible, instructions will be sent.''"

definition eligible :: "EmailChallengeKind \<Rightarrow> TrustDomain \<Rightarrow> VerifiedEmailAccount option \<Rightarrow> bool" where
  "eligible kind trustDomain found \<longleftrightarrow>
     (case found of
        None \<Rightarrow> False
      | Some a \<Rightarrow> (case kind of
          For_sign_in \<Rightarrow> trustDomain = D_participant \<and> ve_accountState a = U_active
        | For_recovery \<Rightarrow> ve_accountState a = U_active \<or> ve_accountState a = U_locked))"

text \<open>The try block around the second limit: a call over the limit gets the generic response.\<close>

definition catch_rate_limited :: "('x, 'a) auth_service \<Rightarrow> ('x, 'a option) auth_service" where
  "catch_rate_limited m w =
     (case m w of
        (Inl (AuthError RATE_LIMITED), w') \<Rightarrow> (Inr None, w')
      | (Inl e, w') \<Rightarrow> (Inl e, w')
      | (Inr a, w') \<Rightarrow> (Inr (Some a), w'))"

definition send_challenge ::
  "'x environment \<Rightarrow> string \<Rightarrow> EmailChallengeKind \<Rightarrow> TrustDomain \<Rightarrow> VerifiedEmailAccount \<Rightarrow> time \<Rightarrow> int \<Rightarrow> ('x, string) auth_service" where
  "send_challenge en secret kind trustDomain found now lifetimeMs =
     bindE (generateOpaqueToken en) (\<lambda>token.
     let expiresAt = now + lifetimeMs in
     bindE (draw_id en) (\<lambda>i.
     bindE (inStore (createChallenge \<lparr>hr_id = i, hr_accountReference = Some (ve_accountReference found),
        hr_trustDomain = trustDomain, hr_kind = (case kind of For_sign_in \<Rightarrow> Email_sign_in | For_recovery \<Rightarrow> Account_recovery),
        hr_secretDigest = keyedDigest en secret token, hr_destinationReference = Some (ve_destinationReference found),
        hr_lookupDigest = None, hr_expiresAt = expiresAt, hr_createdAt = now\<rparr>)) (\<lambda>_.
     bindE (outside (en_enqueue en \<lparr>sn_accountReference = ve_accountReference found,
        sn_destinationReference = ve_destinationReference found,
        sn_kind = (case kind of For_sign_in \<Rightarrow> Email_sign_in_requested | For_recovery \<Rightarrow> Account_recovery_requested),
        sn_secret = Some token, sn_expiresAt = Some expiresAt\<rparr>)) (\<lambda>_.
     returnE genericResponse))))"

definition begin_email ::
  "'x environment \<Rightarrow> string \<Rightarrow> (TrustDomain \<Rightarrow> string) \<Rightarrow> EmailChallengeKind \<Rightarrow> TrustDomain \<Rightarrow> string \<Rightarrow> string
     \<Rightarrow> time \<Rightarrow> int \<Rightarrow> ('x, string) auth_service" where
  "begin_email en limiterSecret secrets kind trustDomain email networkReference now lifetimeMs =
     (let secret = secrets trustDomain; lookupDigest = normalizeEmailForLookup en email secret in
      bindE (requireWithinLimit en limiterSecret (case kind of For_sign_in \<Rightarrow> Login_network | For_recovery \<Rightarrow> Recovery_network)
         networkReference now (15 * 60000) 20) (\<lambda>_.
      bindE (catch_rate_limited (requireWithinLimit en limiterSecret
         (case kind of For_sign_in \<Rightarrow> Login_account | For_recovery \<Rightarrow> Recovery_account) lookupDigest now (15 * 60000) 5)) (\<lambda>passed.
      case passed of
        None \<Rightarrow> returnE genericResponse
      | Some _ \<Rightarrow>
          bindE (fromStore (findByLookupDigest trustDomain lookupDigest)) (\<lambda>found.
          if \<not> eligible kind trustDomain found then returnE genericResponse
          else send_challenge en secret kind trustDomain (the found) now lifetimeMs))))"

definition completeEmailSignIn ::
  "'x environment \<Rightarrow> (TrustDomain \<Rightarrow> string) \<Rightarrow> TrustDomain \<Rightarrow> string \<Rightarrow> time \<Rightarrow> ('x, string) auth_service" where
  "completeEmailSignIn en secrets trustDomain token now =
     bindE (inStore (consume None (Some (keyedDigest en (secrets trustDomain) token)) Email_sign_in trustDomain now)) (\<lambda>challenge.
     case challenge of
       None \<Rightarrow> throwE (AuthError AUTHENTICATION_FAILED)
     | Some c \<Rightarrow>
         bindE (requireE (truthy (hr_accountReference c)) (AuthError AUTHENTICATION_FAILED)) (\<lambda>_.
         bindE (requireE (trustDomain \<noteq> D_committee) (AuthError AUTHENTICATION_FAILED)) (\<lambda>_.
         returnE (the (hr_accountReference c)))))"

record RecoveryResult =
  rr_accountReference :: string
  rr_recoveryGrant :: "string option"
  rr_committeeReviewRequired :: bool

definition completeRecovery ::
  "'x environment \<Rightarrow> (TrustDomain \<Rightarrow> string) \<Rightarrow> TrustDomain \<Rightarrow> string \<Rightarrow> time \<Rightarrow> int \<Rightarrow> string \<Rightarrow> string \<Rightarrow> string
     \<Rightarrow> ('x, RecoveryResult) auth_service" where
  "completeRecovery en secrets trustDomain token now grantLifetimeMs policyVersion softwareVersion correlationId =
     (let secret = secrets trustDomain in
      bindE (inStore (consume None (Some (keyedDigest en secret token)) Account_recovery trustDomain now)) (\<lambda>challenge.
      case challenge of
        None \<Rightarrow> throwE (AuthError AUTHENTICATION_FAILED)
      | Some c \<Rightarrow>
          bindE (requireE (truthy (hr_accountReference c) \<and> truthy (hr_destinationReference c)) (AuthError AUTHENTICATION_FAILED)) (\<lambda>_.
          let committeeReviewRequired = (trustDomain = D_committee); reference = the (hr_accountReference c) in
          bindE (inStore (recoverAndRevokeSessions (en_services en) reference trustDomain committeeReviewRequired
             policyVersion softwareVersion correlationId now)) (\<lambda>_.
          bindE (outside (en_enqueue en \<lparr>sn_accountReference = reference, sn_destinationReference = the (hr_destinationReference c),
             sn_kind = Account_recovered, sn_secret = None, sn_expiresAt = None\<rparr>)) (\<lambda>_.
          if committeeReviewRequired
          then returnE \<lparr>rr_accountReference = reference, rr_recoveryGrant = None, rr_committeeReviewRequired = True\<rparr>
          else
            bindE (generateOpaqueToken en) (\<lambda>recoveryGrant.
            bindE (draw_id en) (\<lambda>i.
            bindE (inStore (createChallenge \<lparr>hr_id = i, hr_accountReference = Some reference, hr_trustDomain = trustDomain,
               hr_kind = Recovery_grant, hr_secretDigest = keyedDigest en secret recoveryGrant,
               hr_destinationReference = None, hr_lookupDigest = None, hr_expiresAt = now + grantLifetimeMs, hr_createdAt = now\<rparr>)) (\<lambda>_.
            returnE \<lparr>rr_accountReference = reference, rr_recoveryGrant = Some recoveryGrant, rr_committeeReviewRequired = False\<rparr>))))))))"

definition consumeRecoveryGrant ::
  "'x environment \<Rightarrow> (TrustDomain \<Rightarrow> string) \<Rightarrow> TrustDomain \<Rightarrow> string \<Rightarrow> time \<Rightarrow> ('x, string) auth_service" where
  "consumeRecoveryGrant en secrets trustDomain recoveryGrant now =
     bindE (inStore (consume None (Some (keyedDigest en (secrets trustDomain) recoveryGrant)) Recovery_grant trustDomain now)) (\<lambda>challenge.
     case challenge of
       None \<Rightarrow> throwE (AuthError AUTHENTICATION_FAILED)
     | Some c \<Rightarrow>
         bindE (requireE (truthy (hr_accountReference c)) (AuthError AUTHENTICATION_FAILED)) (\<lambda>_.
         returnE (the (hr_accountReference c))))"

section \<open>AccountSecurityService\<close>

definition lockAccount ::
  "'x environment \<Rightarrow> string \<Rightarrow> TrustDomain \<Rightarrow> string \<Rightarrow> string \<Rightarrow> SecurityMutationContext \<Rightarrow> time \<Rightarrow> ('x, nat) auth_service" where
  "lockAccount en accountReference trustDomain destinationReference reasonCategory context now =
     bindE (inStore (lockAndRevokeSessions (en_services en) accountReference trustDomain reasonCategory context now)) (\<lambda>revoked.
     bindE (outside (en_enqueue en \<lparr>sn_accountReference = accountReference, sn_destinationReference = destinationReference,
        sn_kind = Account_locked, sn_secret = None, sn_expiresAt = None\<rparr>)) (\<lambda>_.
     returnE revoked))"

definition beginEmailChange ::
  "'x environment \<Rightarrow> (TrustDomain \<Rightarrow> string) \<Rightarrow> string \<Rightarrow> TrustDomain \<Rightarrow> string \<Rightarrow> string \<Rightarrow> bool \<Rightarrow> time \<Rightarrow> int
     \<Rightarrow> ('x, unit) auth_service" where
  "beginEmailChange en secrets accountReference trustDomain newEmail newDestination recentlyReauthenticated now lifetimeMs =
     bindE (requireE recentlyReauthenticated (AuthError REAUTHENTICATION_REQUIRED)) (\<lambda>_.
     bindE (generateOpaqueToken en) (\<lambda>token.
     let expiresAt = now + lifetimeMs in
     bindE (draw_id en) (\<lambda>i.
     bindE (inStore (createChallenge \<lparr>hr_id = i, hr_accountReference = Some accountReference, hr_trustDomain = trustDomain,
        hr_kind = Email_change, hr_secretDigest = keyedDigest en (secrets trustDomain) token,
        hr_destinationReference = Some newDestination,
        hr_lookupDigest = Some (normalizeEmailForLookup en newEmail (secrets trustDomain)),
        hr_expiresAt = expiresAt, hr_createdAt = now\<rparr>)) (\<lambda>_.
     outside (en_enqueue en \<lparr>sn_accountReference = accountReference, sn_destinationReference = newDestination,
        sn_kind = Email_change_requested, sn_secret = Some token, sn_expiresAt = Some expiresAt\<rparr>)))))"

fun announce_change :: "'x environment \<Rightarrow> string \<Rightarrow> string list \<Rightarrow> ('x, unit) auth_service" where
  "announce_change en accountReference [] = returnE ()"
| "announce_change en accountReference (d # ds) =
     bindE (outside (en_enqueue en \<lparr>sn_accountReference = accountReference, sn_destinationReference = d,
        sn_kind = Email_changed, sn_secret = None, sn_expiresAt = None\<rparr>)) (\<lambda>_. announce_change en accountReference ds)"

definition confirmEmailChange ::
  "'x environment \<Rightarrow> (TrustDomain \<Rightarrow> string) \<Rightarrow> TrustDomain \<Rightarrow> string \<Rightarrow> SecurityMutationContext \<Rightarrow> time \<Rightarrow> ('x, unit) auth_service" where
  "confirmEmailChange en secrets trustDomain token context now =
     bindE (inStore (consume None (Some (keyedDigest en (secrets trustDomain) token)) Email_change trustDomain now)) (\<lambda>challenge.
     case challenge of
       None \<Rightarrow> throwE (AuthError AUTHENTICATION_FAILED)
     | Some c \<Rightarrow>
         bindE (requireE (truthy (hr_accountReference c) \<and> truthy (hr_destinationReference c) \<and> truthy (hr_lookupDigest c))
           (AuthError AUTHENTICATION_FAILED)) (\<lambda>_.
         bindE (inStore (changeVerifiedEmail (en_services en) (the (hr_accountReference c)) trustDomain
           (the (hr_destinationReference c)) (the (hr_lookupDigest c)) context now)) (\<lambda>(old, _).
         announce_change en (the (hr_accountReference c)) (old @ [the (hr_destinationReference c)]))))"

section \<open>PasskeyService\<close>

record PasskeyDomainConfig =
  pd_relyingPartyName :: string
  pd_relyingPartyId :: string
  pd_origin :: string
  pd_challengeSecret :: string
  pd_challengeLifetimeMs :: int

datatype RegistrationAuthority = Initial_verified_email | Recent_passkey | By_recovery_grant | Approved_invitation

record PasskeyStart =
  ps_challengeReference :: string
  ps_options :: CredentialOptions

definition registration_authorized :: "TrustDomain \<Rightarrow> RegistrationAuthority \<Rightarrow> StoredPasskeyCredential list \<Rightarrow> bool" where
  "registration_authorized trustDomain authorizedBy existing \<longleftrightarrow>
     (existing = [] \<and> (trustDomain = D_participant \<and> authorizedBy = Initial_verified_email
        \<or> trustDomain = D_committee \<and> authorizedBy = Approved_invitation))
     \<or> authorizedBy = Recent_passkey \<or> (trustDomain = D_participant \<and> authorizedBy = By_recovery_grant)"

definition beginRegistration ::
  "'x environment \<Rightarrow> (TrustDomain \<Rightarrow> PasskeyDomainConfig) \<Rightarrow> string \<Rightarrow> TrustDomain \<Rightarrow> RegistrationAuthority \<Rightarrow> time
     \<Rightarrow> ('x, PasskeyStart) auth_service" where
  "beginRegistration en configs accountReference trustDomain authorizedBy now =
     (let config = configs trustDomain in
      bindE (fromStore (listActive accountReference trustDomain)) (\<lambda>existing.
      bindE (requireE (registration_authorized trustDomain authorizedBy existing) (AuthError REAUTHENTICATION_REQUIRED)) (\<lambda>_.
      bindE (outside (wa_generateRegistrationOptions (en_webAuthn en) \<lparr>go_rpName = pd_relyingPartyName config,
         go_rpID = pd_relyingPartyId config, go_userName = accountReference,
         go_excludeCredentials = map (\<lambda>c. (pc_credentialReference c, pc_transports c)) existing\<rparr>)) (\<lambda>options.
      bindE (draw_id en) (\<lambda>challengeReference.
      bindE (inStore (createChallenge \<lparr>hr_id = challengeReference, hr_accountReference = Some accountReference,
         hr_trustDomain = trustDomain, hr_kind = Passkey_registration,
         hr_secretDigest = keyedDigest en (pd_challengeSecret config) (co_challenge options),
         hr_destinationReference = None, hr_lookupDigest = None, hr_expiresAt = now + pd_challengeLifetimeMs config,
         hr_createdAt = now\<rparr>)) (\<lambda>_.
      returnE \<lparr>ps_challengeReference = challengeReference, ps_options = options\<rparr>))))))"

text \<open>The catch blocks around the verification: every error of it becomes one error.\<close>

definition failing_as :: "auth_failure \<Rightarrow> ('x, 'a) auth_service \<Rightarrow> ('x, 'a) auth_service" where
  "failing_as e m = map_errorE (\<lambda>_. e) m"

definition finishRegistration ::
  "'x environment \<Rightarrow> (TrustDomain \<Rightarrow> PasskeyDomainConfig) \<Rightarrow> TrustDomain \<Rightarrow> string \<Rightarrow> CredentialResponse \<Rightarrow> string \<Rightarrow> time
     \<Rightarrow> ('x, StoredPasskeyCredential) auth_service" where
  "finishRegistration en configs trustDomain challengeReference response deviceLabel now =
     (let config = configs trustDomain in
      bindE (inStore (consume (Some challengeReference) None Passkey_registration trustDomain now)) (\<lambda>challenge.
      case challenge of
        None \<Rightarrow> throwE (AuthError CHALLENGE_REPLAYED)
      | Some c \<Rightarrow>
          bindE (requireE (truthy (hr_accountReference c)) (AuthError CHALLENGE_REPLAYED)) (\<lambda>_.
          bindE (failing_as (AuthError AUTHENTICATION_FAILED) (outside (wa_verifyRegistrationResponse (en_webAuthn en) response
             (\<lambda>v. digestMatches (hr_secretDigest c) (keyedDigest en (pd_challengeSecret config) v))
             (pd_origin config) (pd_relyingPartyId config)))) (\<lambda>result.
          bindE (requireE (vg_verified result) (AuthError AUTHENTICATION_FAILED)) (\<lambda>_.
          let credential = \<lparr>pc_credentialReference = vg_id result, pc_accountReference = the (hr_accountReference c),
                pc_trustDomain = trustDomain, pc_relyingPartyId = pd_relyingPartyId config,
                pc_publicKey = vg_publicKey result, pc_counter = vg_counter result,
                pc_transports = (case vg_transports result of None \<Rightarrow> [] | Some ts \<Rightarrow> ts),
                pc_deviceType = vg_deviceType result, pc_backedUp = vg_backedUp result, pc_deviceLabel = deviceLabel,
                pc_state = PK_active\<rparr> in
          bindE (inStore (save (en_services en) credential now)) (\<lambda>_.
          returnE credential))))))"

definition beginAuthentication ::
  "'x environment \<Rightarrow> (TrustDomain \<Rightarrow> PasskeyDomainConfig) \<Rightarrow> TrustDomain \<Rightarrow> time \<Rightarrow> ('x, PasskeyStart) auth_service" where
  "beginAuthentication en configs trustDomain now =
     (let config = configs trustDomain in
      bindE (outside (wa_generateAuthenticationOptions (en_webAuthn en) (pd_relyingPartyId config))) (\<lambda>options.
      bindE (draw_id en) (\<lambda>challengeReference.
      bindE (inStore (createChallenge \<lparr>hr_id = challengeReference, hr_accountReference = None, hr_trustDomain = trustDomain,
         hr_kind = Passkey_authentication, hr_secretDigest = keyedDigest en (pd_challengeSecret config) (co_challenge options),
         hr_destinationReference = None, hr_lookupDigest = None, hr_expiresAt = now + pd_challengeLifetimeMs config,
         hr_createdAt = now\<rparr>)) (\<lambda>_.
      returnE \<lparr>ps_challengeReference = challengeReference, ps_options = options\<rparr>))))"

definition finishAuthentication ::
  "'x environment \<Rightarrow> (TrustDomain \<Rightarrow> PasskeyDomainConfig) \<Rightarrow> TrustDomain \<Rightarrow> string \<Rightarrow> CredentialResponse \<Rightarrow> time
     \<Rightarrow> ('x, string \<times> string) auth_service" where
  "finishAuthentication en configs trustDomain challengeReference response now =
     (let config = configs trustDomain in
      bindE (inStore (consume (Some challengeReference) None Passkey_authentication trustDomain now)) (\<lambda>challenge.
      case challenge of
        None \<Rightarrow> throwE (AuthError CHALLENGE_REPLAYED)
      | Some c \<Rightarrow>
          bindE (fromStore (findActive (cp_id response) trustDomain)) (\<lambda>found.
          case found of
            None \<Rightarrow> throwE (AuthError AUTHENTICATION_FAILED)
          | Some credential \<Rightarrow>
              bindE (requireE (pc_relyingPartyId credential = pd_relyingPartyId config) (AuthError AUTHENTICATION_FAILED)) (\<lambda>_.
              bindE (failing_as (AuthError AUTHENTICATION_FAILED) (outside (wa_verifyAuthenticationResponse (en_webAuthn en) response
                 (\<lambda>v. digestMatches (hr_secretDigest c) (keyedDigest en (pd_challengeSecret config) v))
                 (pd_origin config) (pd_relyingPartyId config)
                 \<lparr>wc_id = pc_credentialReference credential, wc_publicKey = pc_publicKey credential,
                  wc_counter = pc_counter credential, wc_transports = pc_transports credential\<rparr>))) (\<lambda>result.
              bindE (requireE (va_verified result \<and> va_userVerified result) (AuthError AUTHENTICATION_FAILED)) (\<lambda>_.
              bindE (inStore (updateUsage (pc_credentialReference credential) (va_newCounter result) (va_deviceType result)
                 (va_backedUp result) now)) (\<lambda>_.
              returnE (pc_accountReference credential, pc_credentialReference credential))))))))"

definition revokeCredential ::
  "string \<Rightarrow> string \<Rightarrow> TrustDomain \<Rightarrow> bool \<Rightarrow> bool \<Rightarrow> time \<Rightarrow> ('x, unit) auth_service" where
  "revokeCredential credentialReference accountReference trustDomain recentlyReauthenticated alternateRecoveryAvailable now =
     bindE (requireE recentlyReauthenticated (AuthError REAUTHENTICATION_REQUIRED)) (\<lambda>_.
     bindE (fromStore (listActive accountReference trustDomain)) (\<lambda>active.
     bindE (requireE (\<not> (length active \<le> 1 \<and> \<not> alternateRecoveryAvailable)) (AuthError AUTHORIZATION_DENIED)) (\<lambda>_.
     inStore (revokeCredential_stored credentialReference accountReference now))))"

section \<open>Consents\<close>

definition OPTIONAL_CONSENT_PURPOSES :: "ConsentPurpose list" where
  "OPTIONAL_CONSENT_PURPOSES = [Optional_verus_link, Optional_public_identity_proof, Relying_party_disclosure]"

record ConsentPresentation =
  cn_presentationReference :: string
  cn_purpose :: ConsentPurpose
  cn_policyVersionReference :: string
  cn_contentDigest :: string
  cn_presentedAt :: time
  cn_preselected :: bool
  cn_bundledPurposes :: "ConsentPurpose list"

record ConsentChoice =
  cc_action :: ConsentAction
  cc_actedAt :: time

record RequiredPolicy =
  rp_purpose :: ConsentPurpose
  rp_policyVersionReference :: string
  rp_effectiveAt :: time
  rp_expiresAt :: "time option"
  rp_optional :: bool

fun purpose_name :: "ConsentPurpose \<Rightarrow> string" where
  "purpose_name Privacy_notice = ''privacy_notice''"
| "purpose_name Evidence_non_retention = ''evidence_non_retention''"
| "purpose_name Session_attendance = ''session_attendance''"
| "purpose_name Optional_verus_link = ''optional_verus_link''"
| "purpose_name Optional_public_identity_proof = ''optional_public_identity_proof''"
| "purpose_name Relying_party_disclosure = ''relying_party_disclosure''"
| "purpose_name Material_policy_change = ''material_policy_change''"
| "purpose_name Committee_covenants_training = ''committee_covenants_training''"

definition presentationDigest :: "services \<Rightarrow> ConsentPresentation \<Rightarrow> string" where
  "presentationDigest sv p = sha256 sv (print_json (\<lambda>_. []) (JObj
     [(''presentationReference'', JStr (cn_presentationReference p)), (''purpose'', JStr (purpose_name (cn_purpose p))),
      (''policyVersionReference'', JStr (cn_policyVersionReference p)), (''contentDigest'', JStr (cn_contentDigest p)),
      (''presentedAt'', JStr (toISOString (cn_presentedAt p)))]))"

definition recordConsentChoice ::
  "services \<Rightarrow> string \<Rightarrow> string option \<Rightarrow> ConsentPresentation \<Rightarrow> ConsentChoice \<Rightarrow> AuthErrorCode + VersionedConsentReceipt" where
  "recordConsentChoice sv accountReference committeeReference presentation choice =
     (if cn_preselected presentation \<or> length (cn_bundledPurposes presentation) \<noteq> 1
         \<or> hd (cn_bundledPurposes presentation) \<noteq> cn_purpose presentation
         \<or> cc_actedAt choice < cn_presentedAt presentation
         \<or> (cn_purpose presentation \<notin> set OPTIONAL_CONSENT_PURPOSES \<and> cc_action choice = Declined)
      then Inl CONSENT_INVALID
      else Inr \<lparr>vr_accountReference = accountReference, vr_committeeReference = committeeReference,
        vr_purpose = cn_purpose presentation, vr_policyVersionReference = cn_policyVersionReference presentation,
        vr_presentationReference = cn_presentationReference presentation,
        vr_presentationDigest = presentationDigest sv presentation, vr_action = cc_action choice,
        vr_presentedAt = cn_presentedAt presentation, vr_actedAt = cc_actedAt choice\<rparr>)"

fun requireCurrentPolicyReceipts :: "RequiredPolicy list \<Rightarrow> VersionedConsentReceipt list \<Rightarrow> time \<Rightarrow> AuthErrorCode + unit" where
  "requireCurrentPolicyReceipts [] receipts now = Inr ()"
| "requireCurrentPolicyReceipts (r # rs) receipts now =
     (if rp_optional r then requireCurrentPolicyReceipts rs receipts now
      else if rp_effectiveAt r \<le> now \<and> (case rp_expiresAt r of None \<Rightarrow> True | Some e \<Rightarrow> e > now)
         \<and> find (\<lambda>c. vr_purpose c = rp_purpose r \<and> vr_policyVersionReference c = rp_policyVersionReference r
              \<and> vr_action c = Accepted) receipts \<noteq> None
      then requireCurrentPolicyReceipts rs receipts now
      else Inl POLICY_REQUIRED)"

end
