(* ===== verification/Auth_Invariant.thy ===== *)
theory Auth_Invariant
  imports Auth_Services
begin

text \<open>
  Histories of the authentication store.  A step is any call of any method of the repository with any
  arguments, successful or not, or any change of the tables that other parts of the program own.  What a
  predicate has to satisfy to hold throughout a history is the interface \<open>auth_invariant\<close>: that the single
  statements on the tables keep it, for the updates that the code makes (an update of an account leaves its
  identity, an update of a session or a challenge touches only live rows, a counter of a passkey only
  grows).  The locale derives that every step keeps it; the predicates of the properties are its instances.
\<close>

section \<open>Steps\<close>

inductive auth_event :: "auth_database \<Rightarrow> auth_database \<Rightarrow> bool" where
  ev_createAccount: "auth_event ad (snd (createAccount sv inp1 ad))"
| ev_registerVerifiedEmail: "auth_event ad (snd (registerVerifiedEmail sv inp2 ad))"
| ev_inviteCommittee: "auth_event ad (snd (inviteCommittee sv inp3 ad))"
| ev_approveCommittee: "auth_event ad (snd (approveCommittee ar cr who t ad))"
| ev_activateCommittee: "auth_event ad (snd (activateCommittee_access ar cr mr t ad))"
| ev_assignReviewer: "auth_event ad (snd (assignReviewer sv cr sr mr pv who t ad))"
| ev_createSession: "auth_event ad (snd (createSession versions rec ad))"
| ev_revoke: "auth_event ad (snd (revoke_session sid reason t ad))"
| ev_revokeAll: "auth_event ad (snd (revokeAll ar d reason t ad))"
| ev_touch: "auth_event ad (snd (touch sid idle t ad))"
| ev_createChallenge: "auth_event ad (snd (createChallenge ch ad))"
| ev_consume: "auth_event ad (snd (consume cid digest kind d t ad))"
| ev_increment: "auth_event ad (snd (increment key bucket t t' ad))"
| ev_recover: "auth_event ad (snd (recoverAndRevokeSessions sv ar d review pv soft corr t ad))"
| ev_lock: "auth_event ad (snd (lockAndRevokeSessions sv ar d reason ctx t ad))"
| ev_changeEmail: "auth_event ad (snd (changeVerifiedEmail sv ar d dest lookup ctx t ad))"
| ev_save: "auth_event ad (snd (save sv cred t ad))"
| ev_updateUsage: "auth_event ad (snd (updateUsage cref counter dev backed t ad))"
| ev_revokeCredential: "auth_event ad (snd (revokeCredential_stored cref ar t ad))"
| ev_recordConsent: "auth_event ad (snd (recordConsent sv receipt pv pref ack ad))"
| ev_elsewhere: "auth_event ad (ad\<lparr>ad_domain := db, ad_roles := roles, ad_member_roles := mroles,
     ad_verification_sessions := vsessions, ad_assignments := assignments\<rparr>)"

section \<open>What identifies a row\<close>

definition account_identity :: "auth_account_row \<Rightarrow> string \<times> string \<times> TrustDomain \<times> string option" where
  "account_identity a = (ac_id a, ac_external_reference a, ac_trust_domain a, ac_participant_id a)"

definition session_identity :: "SessionRow \<Rightarrow> string \<times> string \<times> TrustDomain \<times> string \<times> string" where
  "session_identity s = (se_id s, se_account_id s, se_trust_domain s, se_audience s, se_token_digest s)"

definition challenge_identity :: "ChallengeRow \<Rightarrow> string \<times> string \<times> AuthChallengeKind \<times> TrustDomain \<times> string option" where
  "challenge_identity c = (ch_id c, ch_secret_digest c, ch_kind c, ch_trust_domain c, ch_account_id c)"

definition passkey_identity :: "PasskeyRow \<Rightarrow> string \<times> string \<times> string" where
  "passkey_identity p = (pk_id p, pk_auth_account_id p, pk_credential_reference p)"

definition access_identity :: "access_row \<Rightarrow> string \<times> string \<times> string \<times> string" where
  "access_identity x = (ax_id x, ax_account_id x, ax_committee_id x, ax_invited_by_reference x)"

lemmas row_identities = account_identity_def session_identity_def challenge_identity_def passkey_identity_def
  access_identity_def

section \<open>The interface of an invariant\<close>

lemma transaction_statement: "transaction m = statement m"
  by (rule ext) (simp add: transaction_eq statement_def split: sum.splits)

lemma keeps_inDomain: "(\<And>ad db. I ad \<Longrightarrow> I (ad\<lparr>ad_domain := db\<rparr>)) \<Longrightarrow> keeps I (inDomain m)"
  by (auto simp: keeps_def inDomain_def)

locale auth_invariant =
  fixes I :: "auth_database \<Rightarrow> bool"
  assumes domain: "\<And>ad db. I ad \<Longrightarrow> I (ad\<lparr>ad_domain := db\<rparr>)"
    and roles: "\<And>ad x. I ad \<Longrightarrow> I (ad\<lparr>ad_roles := x\<rparr>)"
    and member_roles: "\<And>ad x. I ad \<Longrightarrow> I (ad\<lparr>ad_member_roles := x\<rparr>)"
    and verification_sessions: "\<And>ad x. I ad \<Longrightarrow> I (ad\<lparr>ad_verification_sessions := x\<rparr>)"
    and assignments: "\<And>ad x. I ad \<Longrightarrow> I (ad\<lparr>ad_assignments := x\<rparr>)"
    and consents: "\<And>ad x. I ad \<Longrightarrow> I (ad\<lparr>ad_consents := x\<rparr>)"
    and contacts: "\<And>ad x. I ad \<Longrightarrow> I (ad\<lparr>ad_contacts := x\<rparr>)"
    and new_account: "\<And>r. is_opaque_reference (ac_external_reference r) \<Longrightarrow> keeps I (insert_account r)"
    and change_accounts: "\<And>P f. (\<And>a. account_identity (f a) = account_identity a) \<Longrightarrow> keeps I (update_accounts P f)"
    and new_session: "\<And>r. se_state r = Z_active \<Longrightarrow> keeps I (insert_session r)"
    and change_sessions: "\<And>P f. (\<And>s. P s \<Longrightarrow> se_state s = Z_active) \<Longrightarrow> (\<And>s. session_identity (f s) = session_identity s)
       \<Longrightarrow> keeps I (update_sessions P f)"
    and new_challenge: "\<And>r. ch_state r = H_pending \<Longrightarrow> keeps I (insert_challenge r)"
    and change_challenges: "\<And>P f. (\<And>c. challenge_identity (f c) = challenge_identity c) \<Longrightarrow> keeps I (update_challenges P f)"
    and new_access: "\<And>r. ax_state r = X_invited \<Longrightarrow> keeps I (insert_access r)"
    and change_access: "\<And>P f. (\<And>x. access_identity (f x) = access_identity x) \<Longrightarrow> keeps I (update_access P f)"
    and new_passkey: "\<And>r. keeps I (insert_passkey r)"
    and change_passkeys: "\<And>P f. (\<And>p. P p \<Longrightarrow> pk_state p = PK_active \<and> pk_sign_count p \<le> pk_sign_count (f p))
       \<Longrightarrow> (\<And>p. passkey_identity (f p) = passkey_identity p) \<Longrightarrow> keeps I (update_passkeys P f)"
    and count: "\<And>key bucket t t'. keeps I (increment_body key bucket t t')"
begin

lemma keeps_write_contacts: "keeps I (writeT (\<lambda>ad. ad\<lparr>ad_contacts := x\<rparr>))"
  by (auto simp: keeps_def intro: contacts)

lemma table_statements:
  "keeps I (inDomain m)" "keeps I (insert_contact r)" "keeps I (update_contacts P f)"
  "keeps I (writeT (\<lambda>ad. ad\<lparr>ad_assignments := x\<rparr>))"
  "keeps I (writeT (\<lambda>ad. ad\<lparr>ad_consents := y, ad_domain := (ad_domain ad)\<lparr>db_lifecycles := z\<rparr>\<rparr>))"
proof -
  show "keeps I (inDomain m)" by (rule keeps_inDomain) (rule domain)
  show "keeps I (insert_contact r)" "keeps I (update_contacts P f)"
    unfolding insert_contact_def update_contacts_def by (intro keeps_rules keeps_write_contacts)+
  show "keeps I (writeT (\<lambda>ad. ad\<lparr>ad_assignments := x\<rparr>))" by (auto simp: keeps_def intro: assignments)
  show "keeps I (writeT (\<lambda>ad. ad\<lparr>ad_consents := y, ad_domain := (ad_domain ad)\<lparr>db_lifecycles := z\<rparr>\<rparr>))"
  proof (rule keepsI)
    fix ad a ad' assume "I ad" "writeT (\<lambda>ad. ad\<lparr>ad_consents := y, ad_domain := (ad_domain ad)\<lparr>db_lifecycles := z\<rparr>\<rparr>) ad = Inr (a, ad')"
    thus "I ad'" using domain[OF consents[of ad y]] by simp
  qed
qed

lemma keeps_lookups:
  "keeps I (account ref d)" "keeps I (participantId p)" "keeps I (participantId_of q)" "keeps I (committee c)"
  "keeps I (appendSecurityAudit sv ref command st reason ctx)"
  unfolding account_def participantId_def participantId_of_def committee_def appendSecurityAudit_def
  by (intro keeps_rules table_statements)+

lemma keeps_revocation: "keeps I (update_sessions (\<lambda>s. Q s \<and> se_state s = Z_active) (revoke_row t reason))"
  "keeps I (update_sessions (\<lambda>s. Q s \<and> R s \<and> se_state s = Z_active) (revoke_row t reason))"
  by (rule change_sessions; simp add: revoke_row_def session_identity_def)+

lemmas body_rules = keeps_rules keeps_lookups table_statements keeps_revocation

lemma account_bodies:
  "is_opaque_reference (ci_externalReference inp) \<Longrightarrow> keeps I (createAccount_body sv inp)"
  "keeps I (registerVerifiedEmail_body sv inp2)"
  "keeps I (activateCommittee_body ar cr mr t)"
  "keeps I (createSession_body versions rec)"
  "keeps I (createChallenge_body ch)"
  "keeps I (save_body sv cred t)"
  unfolding createAccount_body_def registerVerifiedEmail_body_def activateCommittee_body_def createSession_body_def
    createChallenge_body_def save_body_def
  by (intro body_rules new_account new_session new_challenge new_passkey change_access change_accounts;
      simp add: row_identities)+

lemma security_bodies:
  "keeps I (recoverAndRevokeSessions_body sv ar d review pv soft corr t)"
  "keeps I (lockAndRevokeSessions_body sv ar d reason ctx t)"
  "keeps I (changeVerifiedEmail_body sv ar d dest lookup ctx t)"
  "keeps I (recordConsent_body sv receipt pv pref ack)"
  unfolding recoverAndRevokeSessions_body_def lockAndRevokeSessions_body_def changeVerifiedEmail_body_def
    recordConsent_body_def Let_def
  by (intro body_rules change_accounts; simp add: row_identities)+

lemma preserves_statementI: "keeps I m \<Longrightarrow> preserves I (statement m)"
  by (rule preserves_statement)

lemma challenge_statements:
  "keeps I (bindT (update_challenges (consumable cid digest kind d t) (consume_row t)) (\<lambda>rows. readT (g rows)))"
  by (intro body_rules change_challenges) (simp add: consume_row_def challenge_identity_def)

lemma single_statements:
  "keeps I (bindT (readT g) (\<lambda>joined. update_access (\<lambda>x. joined x \<and> ax_state x = X_invited)
     (\<lambda>x. x\<lparr>ax_state := X_approved, ax_approved_by_reference := w, ax_approved_at := t\<rparr>)))"
  "keeps I (update_sessions (\<lambda>s. se_id s = sid \<and> se_state s = Z_active)
     (\<lambda>s. s\<lparr>se_idle_expires_at := idle, se_last_seen_at := t1\<rparr>))"
  "keeps I (update_passkeys (\<lambda>p. pk_credential_reference p = cref \<and> pk_state p = PK_active \<and> pk_sign_count p \<le> counter)
     (\<lambda>p. p\<lparr>pk_sign_count := counter, pk_credential_device_type := dev, pk_backed_up := backed, pk_last_used_at := u\<rparr>))"
  "keeps I (bindT (readT h) (\<lambda>owned. update_passkeys (\<lambda>p. owned p \<and> pk_credential_reference p = cref \<and> pk_state p = PK_active)
     (\<lambda>p. p\<lparr>pk_state := PK_revoked, pk_revoked_at := v\<rparr>)))"
  by (intro body_rules change_access change_sessions change_passkeys; simp add: row_identities)+

lemma store_operations:
  "preserves I (inviteCommittee sv inp3)" "preserves I (approveCommittee ar cr who t)"
  "preserves I (assignReviewer sv cr sr mr pv who t)" "preserves I (revoke_session sid reason t)"
  "preserves I (revokeAll ar d reason t)" "preserves I (touch sid idle t)"
  "preserves I (consume cid digest kind d t)" "preserves I (updateUsage cref counter dev backed t)"
  "preserves I (revokeCredential_stored cref ar t)"
  unfolding inviteCommittee_def approveCommittee_def assignReviewer_def revoke_session_def revokeAll_def touch_def
    consume_def updateUsage_def revokeCredential_stored_def transaction_statement
  by (intro preserves_rules preserves_statementI challenge_statements single_statements body_rules new_access; simp)+

text \<open>Every step keeps the predicate, and so does every history.\<close>

lemma event:
  assumes "auth_event ad ad'" "I ad"
  shows "I ad'"
proof -
  have run: "I (snd (m ad))" if "preserves I m" for m :: "'b auth_op"
    using that assms(2) by (simp add: preserves_def)
  have tx: "preserves I (transaction m)" if "keeps I m" for m :: "'b auth_tx"
    using that by (simp add: transaction_statement preserves_statement)
  show ?thesis
    using assms(1)
  proof cases
    case ev_createAccount
    thus ?thesis using run[OF tx[OF account_bodies(1)]] assms(2)
      by (auto simp: createAccount_def requireOpaqueReference_def)
  next
    case ev_registerVerifiedEmail
    thus ?thesis using run[OF tx[OF account_bodies(2)]] assms(2)
      by (auto simp: registerVerifiedEmail_def split: sum.splits)
  next
    case ev_changeEmail
    thus ?thesis using run[OF tx[OF security_bodies(3)]] assms(2)
      by (auto simp: changeVerifiedEmail_def split: sum.splits)
  next
    case ev_increment
    thus ?thesis using run[OF preserves_statement[OF count]] by (simp add: increment_def)
  next
    case ev_elsewhere
    thus ?thesis using assms(2)
      by (simp add: assignments[OF verification_sessions[OF member_roles[OF roles[OF domain]]]])
  qed (auto intro!: run store_operations tx account_bodies security_bodies
       simp: activateCommittee_access_def createSession_def createChallenge_def recoverAndRevokeSessions_def
         lockAndRevokeSessions_def save_def recordConsent_def)
qed

lemma history: "auth_event\<^sup>*\<^sup>* ad ad' \<Longrightarrow> I ad \<Longrightarrow> I ad'"
  by (induction rule: rtranclp_induct) (auto intro: event)

end

end
