(* ===== verification/Auth_Reachable.thy ===== *)
theory Auth_Reachable
  imports Auth_Invariant
begin

text \<open>
  What holds of the authentication store after every history: the keys of the tables are unique and the
  constraints of the rows hold (\<open>auth_inv\<close>); a session that has ended, a challenge that is no longer pending
  and the identity of an account never change, and counters never decrease.
\<close>

section \<open>What the statements do\<close>

lemma insert_account_Inr [simp]:
  "insert_account r ad = Inr (u, ad') \<longleftrightarrow> account_row_ok r \<and> (\<forall>q \<in> set (ad_accounts ad). \<not> account_clash r q)
     \<and> ad' = ad\<lparr>ad_accounts := ad_accounts ad @ [r]\<rparr>"
  by (auto simp: insert_account_def)

lemma update_accounts_Inr [simp]:
  "update_accounts P f ad = Inr (n, ad') \<longleftrightarrow> (\<forall>a \<in> set (ad_accounts ad). P a \<longrightarrow> account_row_ok (f a))
     \<and> ad' = ad\<lparr>ad_accounts := update_where P f (ad_accounts ad)\<rparr> \<and> n = length (filter P (ad_accounts ad))"
  by (auto simp: update_accounts_def)

lemma insert_session_Inr [simp]:
  "insert_session r ad = Inr (u, ad') \<longleftrightarrow> account_domain ad (se_account_id r) = Some (se_trust_domain r) \<and> session_row_ok r
     \<and> (\<forall>q \<in> set (ad_sessions ad). se_id q \<noteq> se_id r \<and> se_token_digest q \<noteq> se_token_digest r)
     \<and> ad' = ad\<lparr>ad_sessions := ad_sessions ad @ [r]\<rparr>"
  by (auto simp: insert_session_def)

lemma update_sessions_Inr [simp]:
  "update_sessions P f ad = Inr (n, ad') \<longleftrightarrow>
     (\<forall>s \<in> set (ad_sessions ad). P s \<longrightarrow> account_domain ad (se_account_id s) = Some (se_trust_domain s) \<and> session_row_ok (f s))
     \<and> ad' = ad\<lparr>ad_sessions := update_where P f (ad_sessions ad)\<rparr> \<and> n = length (filter P (ad_sessions ad))"
  by (auto simp: update_sessions_def list_all_iff)

lemma insert_challenge_Inr [simp]:
  "insert_challenge r ad = Inr (u, ad') \<longleftrightarrow> challenge_domain_ok ad r \<and> challenge_row_ok r
     \<and> (\<forall>q \<in> set (ad_challenges ad). ch_id q \<noteq> ch_id r \<and> ch_secret_digest q \<noteq> ch_secret_digest r)
     \<and> ad' = ad\<lparr>ad_challenges := ad_challenges ad @ [r]\<rparr>"
  by (auto simp: insert_challenge_def)

lemma update_challenges_Inr [simp]:
  "update_challenges P f ad = Inr (rows, ad') \<longleftrightarrow>
     (\<forall>c \<in> set (ad_challenges ad). P c \<longrightarrow> ch_state c = H_pending \<and> challenge_domain_ok ad c \<and> challenge_row_ok (f c))
     \<and> ad' = ad\<lparr>ad_challenges := update_where P f (ad_challenges ad)\<rparr> \<and> rows = map f (filter P (ad_challenges ad))"
  by (auto simp: update_challenges_def list_all_iff)

lemma insert_access_Inr [simp]:
  "insert_access r ad = Inr (u, ad') \<longleftrightarrow> account_domain ad (ax_account_id r) = Some D_committee \<and> access_row_ok r
     \<and> (\<forall>q \<in> set (ad_access ad). ax_id q \<noteq> ax_id r
          \<and> \<not> (ax_account_id q = ax_account_id r \<and> ax_committee_id q = ax_committee_id r))
     \<and> ad' = ad\<lparr>ad_access := ad_access ad @ [r]\<rparr>"
  by (auto simp: insert_access_def)

lemma update_access_Inr [simp]:
  "update_access P f ad = Inr (n, ad') \<longleftrightarrow>
     (\<forall>x \<in> set (ad_access ad). P x \<longrightarrow> account_domain ad (ax_account_id x) = Some D_committee \<and> access_row_ok (f x))
     \<and> ad' = ad\<lparr>ad_access := update_where P f (ad_access ad)\<rparr> \<and> n = length (filter P (ad_access ad))"
  by (auto simp: update_access_def list_all_iff)

lemma insert_passkey_Inr [simp]:
  "insert_passkey r ad = Inr (u, ad') \<longleftrightarrow> account_participant ad (pk_auth_account_id r) = pk_participant_id r
     \<and> 0 \<le> pk_sign_count r
     \<and> (\<forall>q \<in> set (ad_passkeys ad). pk_id q \<noteq> pk_id r \<and> pk_credential_reference q \<noteq> pk_credential_reference r)
     \<and> ad' = ad\<lparr>ad_passkeys := ad_passkeys ad @ [r]\<rparr>"
  by (auto simp: insert_passkey_def)

lemma update_passkeys_Inr [simp]:
  "update_passkeys P f ad = Inr (n, ad') \<longleftrightarrow>
     (\<forall>p \<in> set (ad_passkeys ad). P p \<longrightarrow> account_participant ad (pk_auth_account_id p) = pk_participant_id p
          \<and> 0 \<le> pk_sign_count (f p))
     \<and> ad' = ad\<lparr>ad_passkeys := update_where P f (ad_passkeys ad)\<rparr> \<and> n = length (filter P (ad_passkeys ad))"
  by (auto simp: update_passkeys_def list_all_iff)

definition bucket_count :: "auth_database \<Rightarrow> string \<Rightarrow> int" where
  "bucket_count ad key =
     (case select_where (\<lambda>b. bu_key_digest b = key) (ad_buckets ad) of None \<Rightarrow> 0 | Some b \<Rightarrow> bu_attempt_count b)"

section \<open>The invariant of the tables\<close>

definition accounts_ok :: "auth_database \<Rightarrow> bool" where
  "accounts_ok ad \<longleftrightarrow> distinct (map ac_id (ad_accounts ad)) \<and> distinct (map ac_external_reference (ad_accounts ad))
     \<and> (\<forall>a \<in> set (ad_accounts ad). ac_external_reference a \<noteq> [] \<and> account_row_ok a)"

definition sessions_ok :: "auth_database \<Rightarrow> bool" where
  "sessions_ok ad \<longleftrightarrow> distinct (map se_id (ad_sessions ad)) \<and> distinct (map se_token_digest (ad_sessions ad))
     \<and> (\<forall>s \<in> set (ad_sessions ad). session_row_ok s)"

definition challenges_ok :: "auth_database \<Rightarrow> bool" where
  "challenges_ok ad \<longleftrightarrow> distinct (map ch_id (ad_challenges ad)) \<and> distinct (map ch_secret_digest (ad_challenges ad))
     \<and> (\<forall>c \<in> set (ad_challenges ad). challenge_row_ok c)"

definition access_ok :: "auth_database \<Rightarrow> bool" where
  "access_ok ad \<longleftrightarrow> (\<forall>x \<in> set (ad_access ad). access_row_ok x \<and> account_domain ad (ax_account_id x) = Some D_committee)"

definition buckets_ok :: "auth_database \<Rightarrow> bool" where
  "buckets_ok ad \<longleftrightarrow> (\<forall>b \<in> set (ad_buckets ad). 0 < bu_attempt_count b)"

definition auth_inv :: "auth_database \<Rightarrow> bool" where
  "auth_inv ad \<longleftrightarrow> accounts_ok ad \<and> sessions_ok ad \<and> challenges_ok ad \<and> access_ok ad \<and> buckets_ok ad"

lemmas auth_inv_defs = accounts_ok_def sessions_ok_def challenges_ok_def access_ok_def buckets_ok_def

lemma account_domain_update:
  assumes "\<And>a. account_identity (f a) = account_identity a"
  shows "account_domain (ad\<lparr>ad_accounts := update_where P f (ad_accounts ad)\<rparr>) i = account_domain ad i"
proof -
  have "ac_id (f a) = ac_id a" "ac_trust_domain (f a) = ac_trust_domain a" for a
    using assms[of a] by (simp_all add: account_identity_def)
  thus ?thesis by (simp add: account_domain_def select_where_update_where split: option.splits)
qed

lemma account_domain_insert:
  "account_domain ad i = Some d \<Longrightarrow> account_domain (ad\<lparr>ad_accounts := ad_accounts ad @ [r]\<rparr>) i = Some d"
  by (auto simp: account_domain_def select_where_append split: option.splits)

lemma account_domain_other [simp]:
  "account_domain (ad\<lparr>ad_domain := db\<rparr>) i = account_domain ad i"
  "account_domain (ad\<lparr>ad_access := x\<rparr>) i = account_domain ad i"
  "account_domain (ad\<lparr>ad_sessions := ss\<rparr>) i = account_domain ad i"
  "account_domain (ad\<lparr>ad_challenges := cs\<rparr>) i = account_domain ad i"
  "account_domain (ad\<lparr>ad_contacts := k\<rparr>) i = account_domain ad i"
  "account_domain (ad\<lparr>ad_passkeys := ps\<rparr>) i = account_domain ad i"
  "account_domain (ad\<lparr>ad_buckets := bs\<rparr>) i = account_domain ad i"
  "account_domain (ad\<lparr>ad_roles := a\<rparr>) i = account_domain ad i"
  "account_domain (ad\<lparr>ad_member_roles := b\<rparr>) i = account_domain ad i"
  "account_domain (ad\<lparr>ad_verification_sessions := c\<rparr>) i = account_domain ad i"
  "account_domain (ad\<lparr>ad_assignments := e\<rparr>) i = account_domain ad i"
  "account_domain (ad\<lparr>ad_consents := g\<rparr>) i = account_domain ad i"
  by (simp_all add: account_domain_def)

text \<open>Each statement keeps the part of the invariant that is about its table, and the others are about
  other tables.\<close>

lemma keeps_accounts:
  "is_opaque_reference (ac_external_reference r) \<Longrightarrow> keeps accounts_ok (insert_account r)"
  "(\<And>a. account_identity (f a) = account_identity a) \<Longrightarrow> keeps accounts_ok (update_accounts P f)"
proof -
  assume "is_opaque_reference (ac_external_reference r)"
  hence "ac_external_reference r \<noteq> []" by (auto simp: is_opaque_reference_def)
  thus "keeps accounts_ok (insert_account r)" by (fastforce simp: keeps_def accounts_ok_def account_clash_def)
next
  assume "\<And>a. account_identity (f a) = account_identity a"
  hence f: "ac_id (f a) = ac_id a" "ac_external_reference (f a) = ac_external_reference a" for a
    by (simp_all add: account_identity_def)
  show "keeps accounts_ok (update_accounts P f)"
    by (auto simp: keeps_def accounts_ok_def map_update_where f elim!: in_update_whereE)
qed

lemma keeps_sessions:
  "keeps sessions_ok (insert_session s)"
  "(\<And>s. session_identity (h s) = session_identity s) \<Longrightarrow> keeps sessions_ok (update_sessions Q h)"
proof -
  show "keeps sessions_ok (insert_session s)" by (fastforce simp: keeps_def sessions_ok_def)
next
  assume "\<And>s. session_identity (h s) = session_identity s"
  hence h: "se_id (h s) = se_id s" "se_token_digest (h s) = se_token_digest s" for s
    by (simp_all add: session_identity_def)
  show "keeps sessions_ok (update_sessions Q h)"
    by (auto simp: keeps_def sessions_ok_def map_update_where h elim!: in_update_whereE)
qed

lemma keeps_challenges:
  "keeps challenges_ok (insert_challenge c)"
  "(\<And>c. challenge_identity (h c) = challenge_identity c) \<Longrightarrow> keeps challenges_ok (update_challenges Q h)"
proof -
  show "keeps challenges_ok (insert_challenge c)" by (fastforce simp: keeps_def challenges_ok_def)
next
  assume "\<And>c. challenge_identity (h c) = challenge_identity c"
  hence h: "ch_id (h c) = ch_id c" "ch_secret_digest (h c) = ch_secret_digest c" for c
    by (simp_all add: challenge_identity_def)
  show "keeps challenges_ok (update_challenges Q h)"
    by (auto simp: keeps_def challenges_ok_def map_update_where h elim!: in_update_whereE)
qed

lemma keeps_access:
  "keeps access_ok (insert_access x)"
  "(\<And>x. access_identity (h x) = access_identity x) \<Longrightarrow> keeps access_ok (update_access Q h)"
  "keeps access_ok (insert_account r)"
  "(\<And>a. account_identity (f a) = account_identity a) \<Longrightarrow> keeps access_ok (update_accounts P f)"
proof -
  show "keeps access_ok (insert_access x)" by (auto simp: keeps_def access_ok_def)
next
  assume "\<And>x. access_identity (h x) = access_identity x"
  hence h: "ax_account_id (h x) = ax_account_id x" for x by (simp add: access_identity_def)
  show "keeps access_ok (update_access Q h)" by (auto simp: keeps_def access_ok_def h elim!: in_update_whereE)
next
  show "keeps access_ok (insert_account r)" by (auto simp: keeps_def access_ok_def intro: account_domain_insert)
next
  assume f: "\<And>a. account_identity (f a) = account_identity a"
  show "keeps access_ok (update_accounts P f)"
    by (auto simp: keeps_def access_ok_def account_domain_update[OF f])
qed

text \<open>A statement on one table leaves what is said about the others.\<close>

lemma keeps_elsewhere:
  "keeps accounts_ok (insert_session s)" "keeps accounts_ok (update_sessions Qs hs)" "keeps accounts_ok (insert_challenge c)"
  "keeps accounts_ok (update_challenges Qc hc)" "keeps accounts_ok (insert_access x)" "keeps accounts_ok (update_access Qx hx)"
  "keeps accounts_ok (insert_passkey p)" "keeps accounts_ok (update_passkeys Qp hp)" "keeps accounts_ok (increment_body k b t t')"
  "keeps sessions_ok (insert_account r)" "keeps sessions_ok (update_accounts P f)" "keeps sessions_ok (insert_challenge c)"
  "keeps sessions_ok (update_challenges Qc hc)" "keeps sessions_ok (insert_access x)" "keeps sessions_ok (update_access Qx hx)"
  "keeps sessions_ok (insert_passkey p)" "keeps sessions_ok (update_passkeys Qp hp)" "keeps sessions_ok (increment_body k b t t')"
  "keeps challenges_ok (insert_account r)" "keeps challenges_ok (update_accounts P f)" "keeps challenges_ok (insert_session s)"
  "keeps challenges_ok (update_sessions Qs hs)" "keeps challenges_ok (insert_access x)" "keeps challenges_ok (update_access Qx hx)"
  "keeps challenges_ok (insert_passkey p)" "keeps challenges_ok (update_passkeys Qp hp)" "keeps challenges_ok (increment_body k b t t')"
  "keeps access_ok (insert_session s)" "keeps access_ok (update_sessions Qs hs)" "keeps access_ok (insert_challenge c)"
  "keeps access_ok (update_challenges Qc hc)" "keeps access_ok (insert_passkey p)" "keeps access_ok (update_passkeys Qp hp)"
  "keeps access_ok (increment_body k b t t')"
  "keeps buckets_ok (insert_account r)" "keeps buckets_ok (update_accounts P f)" "keeps buckets_ok (insert_session s)"
  "keeps buckets_ok (update_sessions Qs hs)" "keeps buckets_ok (insert_challenge c)" "keeps buckets_ok (update_challenges Qc hc)"
  "keeps buckets_ok (insert_access x)" "keeps buckets_ok (update_access Qx hx)" "keeps buckets_ok (insert_passkey p)"
  "keeps buckets_ok (update_passkeys Qp hp)"
  by (auto simp: keeps_def auth_inv_defs increment_body_def split: option.splits)

lemma keeps_count: "keeps buckets_ok (increment_body k b t t')"
  by (auto simp: keeps_def buckets_ok_def increment_body_def split: option.splits elim!: in_update_whereE)

lemmas table_invariants = keeps_accounts keeps_sessions keeps_challenges keeps_access keeps_elsewhere keeps_count

interpretation tables: auth_invariant auth_inv
proof unfold_locales
  have conj: "keeps auth_inv m"
    if "keeps accounts_ok m" "keeps sessions_ok m" "keeps challenges_ok m" "keeps access_ok m" "keeps buckets_ok m"
    for m :: "'b auth_tx"
    using that unfolding keeps_def auth_inv_def by blast
  show "keeps auth_inv (insert_account r)" if "is_opaque_reference (ac_external_reference r)" for r
    using that by (intro conj table_invariants)
  show "keeps auth_inv (update_accounts P f)" if "\<And>a. account_identity (f a) = account_identity a" for P f
    using that by (intro conj table_invariants)
  show "keeps auth_inv (insert_session r)" for r by (intro conj table_invariants)
  show "keeps auth_inv (update_sessions P f)" if "\<And>s. session_identity (f s) = session_identity s" for P f
    using that by (intro conj table_invariants)
  show "keeps auth_inv (insert_challenge r)" for r by (intro conj table_invariants)
  show "keeps auth_inv (update_challenges P f)" if "\<And>c. challenge_identity (f c) = challenge_identity c" for P f
    using that by (intro conj table_invariants)
  show "keeps auth_inv (insert_access r)" for r by (intro conj table_invariants)
  show "keeps auth_inv (update_access P f)" if "\<And>x. access_identity (f x) = access_identity x" for P f
    using that by (intro conj table_invariants)
  show "keeps auth_inv (insert_passkey r)" for r by (intro conj table_invariants)
  show "keeps auth_inv (update_passkeys P f)" for P f by (intro conj table_invariants)
  show "keeps auth_inv (increment_body key bucket t t')" for key bucket t t' by (intro conj table_invariants)
qed (auto simp: auth_inv_def auth_inv_defs)

lemma empty_auth_inv: "auth_inv empty_auth_database"
  by (simp add: auth_inv_def auth_inv_defs empty_auth_database_def)

lemma reachable_inv: "auth_event\<^sup>*\<^sup>* empty_auth_database ad \<Longrightarrow> auth_inv ad"
  by (rule tables.history[OF _ empty_auth_inv])

end
