(* ===== verification/Auth_Sessions.thy ===== *)
theory Auth_Sessions
  imports Auth_Reachable
begin

text \<open>
  Sessions and challenges over every history of the store: a session that has ended is never accepted
  again, a session that is accepted is live, and a challenge is consumed at most once.
\<close>

section \<open>What never changes\<close>

lemma persists_session: "se_state s \<noteq> Z_active \<Longrightarrow> auth_invariant (\<lambda>ad. s \<in> set (ad_sessions ad))"
  by unfold_locales (auto simp: keeps_def set_update_where increment_body_def split: option.splits)

lemma persists_challenge: "ch_state c \<noteq> H_pending \<Longrightarrow> auth_invariant (\<lambda>ad. c \<in> set (ad_challenges ad))"
  by unfold_locales (auto simp: keeps_def set_update_where increment_body_def split: option.splits)

lemma persists_account: "auth_invariant (\<lambda>ad. i \<in> account_identity ` set (ad_accounts ad))"
proof unfold_locales
  fix P f assume f: "\<And>a. account_identity (f a) = account_identity a"
  have "account_identity ` set (update_where P f t) = account_identity ` set t" for t
    using map_update_where[of P account_identity f t, OF f] by (metis set_map)
  thus "keeps (\<lambda>ad. i \<in> account_identity ` set (ad_accounts ad)) (update_accounts P f)"
    by (auto simp: keeps_def)
qed (auto simp: keeps_def increment_body_def split: option.splits)

section \<open>Sessions\<close>

lemma found_session:
  assumes "findByTokenDigest d digest ad = Some r"
  obtains s a where "s \<in> set (ad_sessions ad)" "se_trust_domain s = d" "se_token_digest s = digest"
    "a \<in> set (ad_accounts ad)" "ac_id a = se_account_id s" "ac_state a = U_active"
    "r = mapSession (ac_external_reference a) s"
  using assms by (fastforce simp: findByTokenDigest_def dest: select_where_SomeD split: option.splits)

text \<open>A session that has ended is refused, and the attempt changes nothing.\<close>

lemma ended_session_refused:
  assumes inv: "auth_inv (aw_store w)" and s: "s \<in> set (ad_sessions (aw_store w))" "se_state s \<noteq> Z_active"
    and digest: "keyedDigest en (td_sessionSecret (configs d)) token = se_token_digest s"
  shows "\<exists>e. authenticate en configs d (Some token) now w = (Inl (AuthError e), w)"
proof (cases "token = [] \<or> findByTokenDigest d (se_token_digest s) (aw_store w) = None")
  case True
  thus ?thesis using digest by (auto simp: authenticate_def computation_defs fromStore_def Let_def)
next
  case False
  then obtain r where r: "findByTokenDigest d (se_token_digest s) (aw_store w) = Some r" by auto
  then obtain q a where q: "q \<in> set (ad_sessions (aw_store w))" "se_token_digest q = se_token_digest s"
    "a \<in> set (ad_accounts (aw_store w))" "r = mapSession (ac_external_reference a) q"
    by (rule found_session) blast
  have "q = s" using inv q(1,2) s(1) distinct_map_key_eq by (fastforce simp: auth_inv_def sessions_ok_def)
  moreover have "se_revoked_at s \<noteq> None" using inv s by (auto simp: auth_inv_def sessions_ok_def session_row_ok_def)
  ultimately have "sr_revokedAt r \<noteq> None" using q(4) by (simp add: mapSession_def)
  thus ?thesis using False r digest by (auto simp: authenticate_def computation_defs fromStore_def Let_def)
qed

text \<open>The operations that end the sessions of an account leave none of them active.\<close>

definition ends_sessions :: "string \<Rightarrow> TrustDomain \<Rightarrow> auth_database \<Rightarrow> auth_database \<Rightarrow> bool" where
  "ends_sessions ref d ad ad' \<longleftrightarrow>
     (\<exists>sv reason ctx t n. lockAndRevokeSessions sv ref d reason ctx t ad = (Inr n, ad'))
     \<or> (\<exists>sv review pv soft corr t n. recoverAndRevokeSessions sv ref d review pv soft corr t ad = (Inr n, ad'))
     \<or> (\<exists>sv dest lookup ctx t r. changeVerifiedEmail sv ref d dest lookup ctx t ad = (Inr r, ad'))
     \<or> (\<exists>reason t n. revokeAll ref d reason t ad = (Inr n, ad'))"

lemma account_Inr:
  "account ref d ad = Inr (a, ad') \<longleftrightarrow> ad' = ad \<and> select_where (\<lambda>a. ac_external_reference a = ref
     \<and> (d = None \<or> d = Some (ac_trust_domain a))) (ad_accounts ad) = Some a"
  by (auto simp: account_def split: option.splits)

lemma account_found:
  assumes "accounts_ok ad" "account ref (Some d) ad = Inr (b, ad')" "a \<in> set (ad_accounts ad)" "ac_external_reference a = ref"
  shows "b = a"
proof -
  have "b \<in> set (ad_accounts ad)" "ac_external_reference b = ref"
    using assms(2) by (auto simp: account_Inr dest: select_where_SomeD)
  thus ?thesis using assms(1,3,4) distinct_map_key_eq by (fastforce simp: accounts_ok_def)
qed

lemma inDomain_sessions: "untouched ad_sessions (inDomain m)"
  by (auto simp: untouched_def inDomain_def)

lemma revocation_sessions:
  "update_sessions P (revoke_row t reason) ad = Inr (n, ad') \<Longrightarrow>
     ad_sessions ad' = update_where P (revoke_row t reason) (ad_sessions ad)"
  by simp

lemma other_tables_sessions:
  "untouched ad_sessions (update_accounts P f)" "untouched ad_sessions (update_contacts Q g)"
  "untouched ad_sessions (insert_contact r)" "untouched ad_sessions (appendSecurityAudit sv ref command st reason ctx)"
proof -
  show "untouched ad_sessions (update_accounts P f)" by (auto simp: untouched_def)
  show "untouched ad_sessions (update_contacts Q g)" "untouched ad_sessions (insert_contact r)"
    "untouched ad_sessions (appendSecurityAudit sv ref command st reason ctx)"
    unfolding update_contacts_def insert_contact_def appendSecurityAudit_def
    by (intro frame_rules inDomain_sessions untouched_writeT; simp)+
qed

lemma ending_effect:
  assumes "accounts_ok ad" "ends_sessions ref d ad ad'" "a \<in> set (ad_accounts ad)" "ac_external_reference a = ref"
  shows "\<exists>t reason. ad_sessions ad' = update_where (\<lambda>s. se_account_id s = ac_id a \<and> se_state s = Z_active)
     (revoke_row t reason) (ad_sessions ad)
   \<or> ad_sessions ad' = update_where (\<lambda>s. list_ex (\<lambda>b. ac_id b = se_account_id s \<and> ac_external_reference b = ref) (ad_accounts ad)
       \<and> se_trust_domain s = d \<and> se_state s = Z_active) (revoke_row t reason) (ad_sessions ad)"
proof -
  note found = account_found[OF assms(1) _ assms(3,4)]
  have finish: ?thesis
    if 1: "account ref (Some d) ad = Inr (b, ad)"
      and 2: "update_sessions (\<lambda>s. se_account_id s = ac_id b \<and> se_state s = Z_active) (revoke_row t reason) ad1 = Inr (k, ad2)"
      and 3: "ad_sessions ad1 = ad_sessions ad" "ad_sessions ad' = ad_sessions ad2" for b t reason ad1 ad2 k
  proof -
    have "ad_sessions ad' = update_where (\<lambda>s. se_account_id s = ac_id a \<and> se_state s = Z_active)
        (revoke_row t reason) (ad_sessions ad)"
      using revocation_sessions[OF 2] 3 found[OF 1] by simp
    thus ?thesis by blast
  qed
  note same = other_tables_sessions[THEN untouchedD] inDomain_sessions[THEN untouchedD]
  from assms(2) consider
      (lock) sv reason ctx t n where "lockAndRevokeSessions_body sv ref d reason ctx t ad = Inr (n, ad')"
    | (recover) sv review pv soft corr t n where "recoverAndRevokeSessions_body sv ref d review pv soft corr t ad = Inr (n, ad')"
    | (email) sv dest lookup ctx t r where "changeVerifiedEmail_body sv ref d dest lookup ctx t ad = Inr (r, ad')"
    | (all) reason t n where "revokeAll ref d reason t ad = (Inr n, ad')"
    unfolding ends_sessions_def lockAndRevokeSessions_def recoverAndRevokeSessions_def changeVerifiedEmail_def
    by (auto simp: transaction_Inr requireOpaqueReference_def split: sum.splits if_splits)
  thus ?thesis
  proof cases
    case lock
    then obtain b ad1 ad2 ad3 k where 1: "account ref (Some d) ad = Inr (b, ad)"
      and 2: "update_sessions (\<lambda>s. se_account_id s = ac_id b \<and> se_state s = Z_active) (revoke_row t reason) ad = Inr (k, ad1)"
      and 3: "ad_sessions ad' = ad_sessions ad1"
      unfolding lockAndRevokeSessions_body_def
      by (auto simp: account_Inr simp del: update_sessions_Inr update_accounts_Inr dest!: same)
    show ?thesis by (rule finish[OF 1 2 refl 3])
  next
    case recover
    then obtain b ad1 k where 1: "account ref (Some d) ad = Inr (b, ad)"
      and 2: "update_sessions (\<lambda>s. se_account_id s = ac_id b \<and> se_state s = Z_active) (revoke_row t ''account_recovery'') ad = Inr (k, ad1)"
      and 3: "ad_sessions ad' = ad_sessions ad1"
      unfolding recoverAndRevokeSessions_body_def
      by (auto simp: account_Inr simp del: update_sessions_Inr update_accounts_Inr dest!: same)
    show ?thesis by (rule finish[OF 1 2 refl 3])
  next
    case email
    then obtain b ad1 ad2 k where 1: "account ref (Some d) ad = Inr (b, ad)"
      and 2: "update_sessions (\<lambda>s. se_account_id s = ac_id b \<and> se_state s = Z_active) (revoke_row t ''verified_email_changed'') ad1 = Inr (k, ad2)"
      and 3: "ad_sessions ad1 = ad_sessions ad" "ad_sessions ad' = ad_sessions ad2"
      unfolding changeVerifiedEmail_body_def
      by (auto simp: account_Inr simp del: update_sessions_Inr update_accounts_Inr dest!: same)
    show ?thesis by (rule finish[OF 1 2 3])
  next
    case all
    thus ?thesis by (auto simp: revokeAll_def)
  qed
qed

lemma ended_counterpart:
  assumes "accounts_ok ad" "ends_sessions ref d ad ad'" "a \<in> set (ad_accounts ad)" "ac_external_reference a = ref"
    and s: "s \<in> set (ad_sessions ad)" "se_account_id s = ac_id a" "se_trust_domain s = d"
  shows "\<exists>s' \<in> set (ad_sessions ad'). se_state s' \<noteq> Z_active \<and> se_token_digest s' = se_token_digest s"
proof -
  have move: "\<exists>s' \<in> set (update_where P (revoke_row t reason) (ad_sessions ad)). se_state s' \<noteq> Z_active
      \<and> se_token_digest s' = se_token_digest s" if "se_state s = Z_active \<longrightarrow> P s" for P t reason
  proof (rule bexI)
    show "(if P s then revoke_row t reason s else s) \<in> set (update_where P (revoke_row t reason) (ad_sessions ad))"
      using s(1) by (auto simp: update_where_def)
  qed (use that in \<open>auto simp: revoke_row_def\<close>)
  have owner: "list_ex (\<lambda>b. ac_id b = se_account_id s \<and> ac_external_reference b = ref) (ad_accounts ad)"
    using assms(3,4) s(2) by (auto simp: list_ex_iff)
  obtain P t reason where "ad_sessions ad' = update_where P (revoke_row t reason) (ad_sessions ad)"
    "se_state s = Z_active \<longrightarrow> P s"
    using ending_effect[OF assms(1-4)] s(2,3) owner by blast
  thus ?thesis using move by metis
qed

text \<open>
  C4. Ended sessions stay ended.  After the lock of an account, its recovery, a change of its verified
  address or the revocation of all its sessions, no token of a session that the account had before is
  accepted again, whatever calls follow, in whatever order, and whatever domain the token is presented to;
  the refused attempt changes nothing.
\<close>

theorem ended_sessions_never_authenticate:
  assumes "auth_event\<^sup>*\<^sup>* empty_auth_database ad" "ends_sessions ref d ad ad'"
    and "a \<in> set (ad_accounts ad)" "ac_external_reference a = ref"
    and "s \<in> set (ad_sessions ad)" "se_account_id s = ac_id a" "se_trust_domain s = d"
    and "auth_event\<^sup>*\<^sup>* ad' (aw_store w)"
    and "keyedDigest en (td_sessionSecret (configs d')) token = se_token_digest s"
  shows "\<exists>e. authenticate en configs d' (Some token) now w = (Inl (AuthError e), w)"
proof -
  have inv: "auth_inv ad" by (rule reachable_inv[OF assms(1)])
  have "auth_event ad ad'"
    using assms(2) auth_event.ev_lock auth_event.ev_recover auth_event.ev_changeEmail auth_event.ev_revokeAll
    unfolding ends_sessions_def by (metis snd_conv)
  hence "auth_inv (aw_store w)"
    using inv assms(8) by (meson tables.event tables.history)
  moreover obtain s' where s': "s' \<in> set (ad_sessions ad')" "se_state s' \<noteq> Z_active" "se_token_digest s' = se_token_digest s"
    using ended_counterpart[OF _ assms(2-7)] inv by (auto simp: auth_inv_def)
  moreover have "s' \<in> set (ad_sessions (aw_store w))"
    using auth_invariant.history[OF persists_session[OF s'(2)] assms(8) s'(1)] .
  ultimately show ?thesis using ended_session_refused[of w s' en configs d' token now] assms(9) by simp
qed

lemma inStore_Inr [simp]:
  "inStore m w = (Inr a, w') \<longleftrightarrow> (\<exists>ad. m (aw_store w) = (Inr a, ad) \<and> w' = w\<lparr>aw_store := ad\<rparr>)"
  by (auto simp: inStore_def split: prod.splits)

lemma fromStore_Inr [simp]: "fromStore f w = (Inr a, w') \<longleftrightarrow> a = f (aw_store w) \<and> w' = w"
  by (simp add: fromStore_def)

text \<open>
  C20. An accepted session is live.  The service accepts a token only for a session of the same trust domain
  and audience that is active, whose idle and absolute limits both lie ahead, and whose account is active; a
  session of the committee domain was opened with a passkey.  The accepted session is extended by the idle
  time, never beyond its absolute limit, and nothing else in the store changes.
\<close>

theorem accepted_session_is_live:
  assumes "auth_event\<^sup>*\<^sup>* empty_auth_database (aw_store w)" "authenticate en configs d token now w = (Inr r, w')"
  shows "\<exists>s \<in> set (ad_sessions (aw_store w)). \<exists>a \<in> set (ad_accounts (aw_store w)).
     token \<noteq> None \<and> se_token_digest s = keyedDigest en (td_sessionSecret (configs d)) (the token)
     \<and> se_state s = Z_active \<and> se_trust_domain s = d \<and> se_audience s = td_audience (configs d)
     \<and> now < se_idle_expires_at s \<and> now < se_absolute_expires_at s
     \<and> ac_id a = se_account_id s \<and> ac_state a = U_active \<and> sr_accountReference r = ac_external_reference a
     \<and> (d = D_committee \<longrightarrow> se_authentication_strength s = S_passkey)
     \<and> sr_idleExpiresAt r = min (now + td_idleTimeoutMs (configs d)) (se_absolute_expires_at s)
     \<and> aw_store w' = (aw_store w)\<lparr>ad_sessions := update_where (\<lambda>q. se_id q = se_id s \<and> se_state q = Z_active)
          (\<lambda>q. q\<lparr>se_idle_expires_at := sr_idleExpiresAt r, se_last_seen_at := now\<rparr>) (ad_sessions (aw_store w))\<rparr>"
proof -
  let ?ad = "aw_store w"
  have inv: "auth_inv ?ad" by (rule reachable_inv[OF assms(1)])
  obtain rec ad' where t: "truthy token"
    and found: "findByTokenDigest d (keyedDigest en (td_sessionSecret (configs d)) (the token)) ?ad = Some rec"
    and ok: "sr_audience rec = td_audience (configs d)" "sr_revokedAt rec = None"
      "now < sr_idleExpiresAt rec" "now < sr_absoluteExpiresAt rec"
    and touched: "touch (sr_id rec) (min (now + td_idleTimeoutMs (configs d)) (sr_absoluteExpiresAt rec)) now ?ad = (Inr (), ad')"
    and r: "r = rec\<lparr>sr_idleExpiresAt := min (now + td_idleTimeoutMs (configs d)) (sr_absoluteExpiresAt rec)\<rparr>" "w' = w\<lparr>aw_store := ad'\<rparr>"
    using assms(2) by (auto simp: authenticate_def Let_def split: option.splits if_splits)
  obtain s a where s: "s \<in> set (ad_sessions ?ad)" "se_trust_domain s = d"
      "se_token_digest s = keyedDigest en (td_sessionSecret (configs d)) (the token)"
    and a: "a \<in> set (ad_accounts ?ad)" "ac_id a = se_account_id s" "ac_state a = U_active"
    and rec: "rec = mapSession (ac_external_reference a) s"
    by (rule found_session[OF found]) blast
  have row: "session_row_ok s" using inv s(1) by (simp add: auth_inv_def sessions_ok_def)
  have "se_state s = Z_active" using row ok(2) rec by (auto simp: session_row_ok_def mapSession_def split: if_splits)
  moreover have "d = D_committee \<longrightarrow> se_authentication_strength s = S_passkey" using row s(2) by (auto simp: session_row_ok_def)
  moreover have "token \<noteq> None" using t by (auto simp: truthy_iff)
  moreover have "ad' = ?ad\<lparr>ad_sessions := update_where (\<lambda>q. se_id q = se_id s \<and> se_state q = Z_active)
      (\<lambda>q. q\<lparr>se_idle_expires_at := sr_idleExpiresAt r, se_last_seen_at := now\<rparr>) (ad_sessions ?ad)\<rparr>"
    using touched r(1) rec by (auto simp: touch_def mapSession_def)
  ultimately show ?thesis using s a ok r rec by (intro bexI[of _ s] bexI[of _ a]) (auto simp: mapSession_def)
qed

section \<open>An example store\<close>

text \<open>A store with one active participant account and one session, in an environment whose digests and tokens
  are readable and whose sink collects the notifications.\<close>

definition example_web_authn :: "SecurityNotification list WebAuthnAdapter" where
  "example_web_authn = \<lparr>wa_generateRegistrationOptions = (\<lambda>_. returnE \<lparr>co_challenge = ''reg'', co_rest = []\<rparr>),
     wa_generateAuthenticationOptions = (\<lambda>_. returnE \<lparr>co_challenge = ''auth'', co_rest = []\<rparr>),
     wa_verifyRegistrationResponse = (\<lambda>_ _ _ _. throwE ''unsupported''),
     wa_verifyAuthenticationResponse = (\<lambda>_ _ _ _ _. throwE ''unsupported'')\<rparr>"

definition example_env :: "SecurityNotification list environment" where
  "example_env = \<lparr>en_services = sample_services, en_keyedDigest = (\<lambda>k v. k @ ''/'' @ v),
     en_token = (\<lambda>n. ''token-'' @ nat_to_string n), en_newId = (\<lambda>n. ''id-'' @ nat_to_string n),
     en_normalized = (\<lambda>s. s), en_keyVersions = (\<lambda>_. ''v1''), en_enqueue = (\<lambda>n sent. (Inr (), sent @ [n])),
     en_webAuthn = example_web_authn\<rparr>"

definition example_domains :: "TrustDomain \<Rightarrow> TrustDomainConfig" where
  "example_domains d = \<lparr>td_domain = d, td_audience = (case d of D_participant \<Rightarrow> ''participants'' | D_committee \<Rightarrow> ''committees''),
     td_cookieName = ''__Host-cbc'', td_origin = ''https://cbc.example'', td_relyingPartyId = ''cbc.example'',
     td_sessionSecret = (case d of D_participant \<Rightarrow> ''ps'' | D_committee \<Rightarrow> ''cs''), td_idleTimeoutMs = 1000,
     td_absoluteTimeoutMs = 5000, td_privilegedReauthenticationMs = 300, td_sameSite = Lax\<rparr>"

definition example_store :: auth_database where
  "example_store = snd (createAccount sample_services
     \<lparr>ci_externalReference = ''account:one'', ci_trustDomain = D_participant,
      ci_participantReference = Some ''participant:one'', ci_state = Some U_active\<rparr>
     (empty_auth_database\<lparr>ad_domain := empty_database\<lparr>db_participants :=
        [\<lparr>pa_id = ''p1'', pa_external_reference = ''participant:one''\<rparr>]\<rparr>\<rparr>))"

definition example_session_record :: SessionRecord where
  "example_session_record = \<lparr>sr_id = ''s1'', sr_accountReference = ''account:one'', sr_trustDomain = D_participant,
     sr_audience = ''participants'', sr_tokenDigest = ''ps/token-0'', sr_csrfDigest = ''ps/token-1'',
     sr_authenticationStrength = S_passkey, sr_authenticatedAt = 100, sr_reauthenticatedAt = Some 100,
     sr_idleExpiresAt = 1100, sr_absoluteExpiresAt = 5100, sr_revokedAt = None, sr_deviceLabel = ''phone''\<rparr>"

definition example_signed_in :: auth_database where
  "example_signed_in = snd (createSession (en_keyVersions example_env) example_session_record example_store)"

definition security_context :: SecurityMutationContext where
  "security_context = \<lparr>sm_actorReference = ''account:one'', sm_authenticationStrength = S_passkey,
     sm_policyVersionReference = ''p1'', sm_softwareVersion = ''s1'', sm_correlationId = ''c''\<rparr>"

definition example_world :: "auth_database \<Rightarrow> SecurityNotification list auth_world" where
  "example_world ad = \<lparr>aw_store = ad, aw_tokens = 2, aw_ids = 1, aw_outside = []\<rparr>"

lemma example_store_reachable: "auth_event\<^sup>*\<^sup>* empty_auth_database example_store"
proof -
  have "auth_event empty_auth_database (empty_auth_database\<lparr>ad_domain := empty_database\<lparr>db_participants :=
        [\<lparr>pa_id = ''p1'', pa_external_reference = ''participant:one''\<rparr>]\<rparr>\<rparr>)" (is "auth_event _ ?ad")
    using auth_event.ev_elsewhere[where ad = empty_auth_database and db = "ad_domain ?ad" and roles = "[]" and mroles = "[]"
      and vsessions = "[]" and assignments = "[]"]
    by (simp add: empty_auth_database_def)
  moreover have "auth_event ?ad example_store" unfolding example_store_def by (rule auth_event.ev_createAccount)
  ultimately show ?thesis by (meson converse_rtranclp_into_rtranclp rtranclp.rtrancl_refl)
qed

lemma example_signed_in_reachable: "auth_event\<^sup>*\<^sup>* empty_auth_database example_signed_in"
  unfolding example_signed_in_def
  by (rule rtranclp.rtrancl_into_rtrancl[OF example_store_reachable auth_event.ev_createSession])

lemma example_rows:
  "map (\<lambda>a. (ac_id a, ac_external_reference a, ac_state a)) (ad_accounts example_signed_in) = [(''uuid-0'', ''account:one'', U_active)]"
  "map (\<lambda>s. (se_account_id s, se_trust_domain s, se_token_digest s)) (ad_sessions example_signed_in)
     = [(''uuid-0'', D_participant, ''ps/token-0'')]"
  by code_simp+

theorem ended_sessions_never_authenticate_witness:
  "\<exists>ad' e. lockAndRevokeSessions sample_services ''account:one'' D_participant ''stolen'' security_context 200 example_signed_in
       = (Inr 1, ad')
     \<and> authenticate example_env example_domains D_participant (Some ''token-0'') 300 (example_world ad')
       = (Inl (AuthError e), example_world ad')"
proof -
  have "fst (lockAndRevokeSessions sample_services ''account:one'' D_participant ''stolen'' security_context 200 example_signed_in) = Inr 1"
    by code_simp
  then obtain ad' where ad': "lockAndRevokeSessions sample_services ''account:one'' D_participant ''stolen'' security_context 200
      example_signed_in = (Inr 1, ad')" by (metis prod.collapse)
  have ends: "ends_sessions ''account:one'' D_participant example_signed_in ad'"
    unfolding ends_sessions_def by (intro disjI1 exI) (rule ad')
  obtain a where a: "ad_accounts example_signed_in = [a]" "ac_id a = ''uuid-0''" "ac_external_reference a = ''account:one''"
    using example_rows(1) by auto
  obtain s where s: "ad_sessions example_signed_in = [s]" "se_account_id s = ''uuid-0''" "se_trust_domain s = D_participant"
      "se_token_digest s = ''ps/token-0''"
    using example_rows(2) by auto
  have "\<exists>e. authenticate example_env example_domains D_participant (Some ''token-0'') 300 (example_world ad')
       = (Inl (AuthError e), example_world ad')"
    by (rule ended_sessions_never_authenticate[OF example_signed_in_reachable ends, of a s])
       (use a s in \<open>simp_all add: example_world_def example_env_def example_domains_def\<close>)
  thus ?thesis using ad' by blast
qed

theorem accepted_session_is_live_witness:
  "\<exists>r w'. authenticate example_env example_domains D_participant (Some ''token-0'') 300 (example_world example_signed_in) = (Inr r, w')
     \<and> sr_accountReference r = ''account:one'' \<and> sr_idleExpiresAt r = 1300"
proof -
  have "map_sum id (\<lambda>r. (sr_accountReference r, sr_idleExpiresAt r))
      (fst (authenticate example_env example_domains D_participant (Some ''token-0'') 300 (example_world example_signed_in)))
      = Inr (''account:one'', 1300)"
    by code_simp
  then obtain r w' where run: "authenticate example_env example_domains D_participant (Some ''token-0'') 300
      (example_world example_signed_in) = (Inr r, w')"
    by (cases "fst (authenticate example_env example_domains D_participant (Some ''token-0'') 300 (example_world example_signed_in))")
       (auto, metis prod.collapse)
  have "auth_event\<^sup>*\<^sup>* empty_auth_database (aw_store (example_world example_signed_in))"
    using example_signed_in_reachable by (simp add: example_world_def)
  from accepted_session_is_live[OF this run] obtain s a where
    "a \<in> set (ad_accounts example_signed_in)" "sr_accountReference r = ac_external_reference a"
    "sr_idleExpiresAt r = min (300 + td_idleTimeoutMs (example_domains D_participant)) (se_absolute_expires_at s)"
    "s \<in> set (ad_sessions example_signed_in)"
    by (auto simp: example_world_def)
  moreover have "map ac_external_reference (ad_accounts example_signed_in) = [''account:one'']"
    "map se_absolute_expires_at (ad_sessions example_signed_in) = [5100]"
    by code_simp+
  ultimately show ?thesis using run by (auto simp: example_domains_def)
qed

end
