(* ===== verification/Auth_Recovery.thy ===== *)
theory Auth_Recovery
  imports Auth_Sessions
begin

text \<open>
  Challenges, rate limits and the sign-in by email: a challenge is consumed at most once in every history, a
  limit bounds the admitted calls of a window, and the answer to a request does not tell whether an account
  exists.
\<close>

section \<open>Challenges\<close>

lemma consumed_row:
  assumes "consume cid digest kind d t ad = (Inr (Some c), ad')"
  obtains r where "r \<in> set (ad_challenges ad)" "consumable cid digest kind d t r" "c = consumed_record ad' (consume_row t r)"
    "consume_row t r \<in> set (ad_challenges ad')"
proof -
  let ?P = "consumable cid digest kind d t"
  have run: "ad' = ad\<lparr>ad_challenges := update_where ?P (consume_row t) (ad_challenges ad)\<rparr>"
    and c: "(case map (consume_row t) (filter ?P (ad_challenges ad)) of [] \<Rightarrow> None | r # _ \<Rightarrow> Some (consumed_record ad' r)) = Some c"
    using assms by (auto simp: consume_def)
  then obtain r rs where r: "filter ?P (ad_challenges ad) = r # rs" "c = consumed_record ad' (consume_row t r)"
    by (cases "filter ?P (ad_challenges ad)") auto
  have "r \<in> set (filter ?P (ad_challenges ad))" by (simp add: r(1))
  hence "r \<in> set (ad_challenges ad)" "?P r" by auto
  thus thesis using that r(2) run by (force simp: set_update_where)
qed

text \<open>
  C6. One use.  A challenge that was consumed is of the requested kind and domain and had not expired, and no
  later call consumes it again, nor another challenge with the same secret, whatever happens in between.
\<close>

theorem challenge_consumed_once:
  assumes "auth_event\<^sup>*\<^sup>* empty_auth_database ad" "consume cid digest kind d t ad = (Inr (Some c), ad1)"
    and "auth_event\<^sup>*\<^sup>* ad1 ad2" "consume cid' digest' kind' d' t' ad2 = (Inr (Some c'), ad3)"
  shows "hr_kind c = kind \<and> hr_trustDomain c = d \<and> t < hr_expiresAt c \<and> hr_consumedAt c = t
     \<and> hr_id c' \<noteq> hr_id c \<and> hr_secretDigest c' \<noteq> hr_secretDigest c"
proof -
  obtain r where r: "consumable cid digest kind d t r" "c = consumed_record ad1 (consume_row t r)"
      "consume_row t r \<in> set (ad_challenges ad1)"
    by (rule consumed_row[OF assms(2)]) blast
  obtain q where q: "q \<in> set (ad_challenges ad2)" "consumable cid' digest' kind' d' t' q" "c' = consumed_record ad3 (consume_row t' q)"
    by (rule consumed_row[OF assms(4)]) blast
  have "auth_event ad ad1" using auth_event.ev_consume[of ad cid digest kind d t] assms(2) by simp
  hence inv: "auth_inv ad2" using reachable_inv[OF assms(1)] assms(3) by (meson tables.event tables.history)
  have "ch_state (consume_row t r) \<noteq> H_pending" by (simp add: consume_row_def)
  from auth_invariant.history[OF persists_challenge[OF this] assms(3) r(3)]
  have r2: "consume_row t r \<in> set (ad_challenges ad2)" .
  have "consume_row t r \<noteq> q" using q(2) by (auto simp: consume_row_def consumable_def)
  hence "ch_id (consume_row t r) \<noteq> ch_id q" "ch_secret_digest (consume_row t r) \<noteq> ch_secret_digest q"
    using inv r2 q(1) distinct_map_key_eq by (fastforce simp: auth_inv_def challenges_ok_def)+
  thus ?thesis using r(1,2) q(3) by (auto simp: consumed_record_def consume_row_def consumable_def)
qed

definition example_challenge :: AuthChallengeRecord where
  "example_challenge = \<lparr>hr_id = ''c1'', hr_accountReference = Some ''account:one'', hr_trustDomain = D_participant,
     hr_kind = Email_sign_in, hr_secretDigest = ''ps/link'', hr_destinationReference = Some ''inbox:one'',
     hr_lookupDigest = None, hr_expiresAt = 900, hr_createdAt = 100\<rparr>"

definition second_challenge :: AuthChallengeRecord where
  "second_challenge = example_challenge\<lparr>hr_id := ''c2'', hr_secretDigest := ''ps/other''\<rparr>"

definition challenged :: auth_database where
  "challenged = snd (createChallenge second_challenge (snd (createChallenge example_challenge example_signed_in)))"

lemma challenged_reachable: "auth_event\<^sup>*\<^sup>* empty_auth_database challenged"
  unfolding challenged_def
  by (meson example_signed_in_reachable auth_event.ev_createChallenge rtranclp.rtrancl_into_rtrancl)

lemma result_some:
  assumes "map_sum id (map_option f) (fst m) = Inr (Some x)"
  obtains c s where "m = (Inr (Some c), s)" "f c = x"
proof -
  obtain r s where m: "m = (r, s)" by (rule prod.exhaust)
  with assms obtain c where "r = Inr (Some c)" "f c = x" by (cases r) auto
  thus thesis using that m by simp
qed

theorem challenge_consumed_once_witness:
  "\<exists>c c' ad1 ad2. consume None (Some ''ps/link'') Email_sign_in D_participant 200 challenged = (Inr (Some c), ad1)
     \<and> consume None (Some ''ps/other'') Email_sign_in D_participant 300 ad1 = (Inr (Some c'), ad2)
     \<and> hr_id c' \<noteq> hr_id c"
proof -
  let ?first = "consume None (Some ''ps/link'') Email_sign_in D_participant 200 challenged"
  have "map_sum id (map_option hr_id) (fst ?first) = Inr (Some ''c1'')" by code_simp
  then obtain c ad1 where 1: "?first = (Inr (Some c), ad1)" by (rule result_some)
  have "map_sum id (map_option hr_id) (fst (consume None (Some ''ps/other'') Email_sign_in D_participant 300 (snd ?first))) = Inr (Some ''c2'')"
    by code_simp
  hence "map_sum id (map_option hr_id) (fst (consume None (Some ''ps/other'') Email_sign_in D_participant 300 ad1)) = Inr (Some ''c2'')"
    unfolding 1 by simp
  then obtain c' ad2 where 2: "consume None (Some ''ps/other'') Email_sign_in D_participant 300 ad1 = (Inr (Some c'), ad2)"
    by (rule result_some)
  show ?thesis using challenge_consumed_once[OF challenged_reachable 1 rtranclp.rtrancl_refl 2] 1 2 by blast
qed

lemma email_change_frame:
  "untouched ad_challenges (changeVerifiedEmail_body sv ref d dest lookup ctx t)"
  "untouched ad_accounts (changeVerifiedEmail_body sv ref d dest lookup ctx t)"
proof -
  have dom: "untouched g (inDomain m)" if "\<And>ad db. g (ad\<lparr>ad_domain := db\<rparr>) = g ad" for g :: "auth_database \<Rightarrow> 'g" and m :: "'b tx"
    using that by (auto simp: untouched_def inDomain_def)
  show "untouched ad_challenges (changeVerifiedEmail_body sv ref d dest lookup ctx t)"
    "untouched ad_accounts (changeVerifiedEmail_body sv ref d dest lookup ctx t)"
    unfolding changeVerifiedEmail_body_def account_def update_contacts_def insert_contact_def update_sessions_def appendSecurityAudit_def
    by (intro frame_rules dom untouched_writeT; simp)+
qed

lemma consume_depends:
  assumes "ad_challenges ad' = ad_challenges ad" "ad_accounts ad' = ad_accounts ad"
  shows "fst (consume cid digest kind d t ad') = fst (consume cid digest kind d t ad)"
proof -
  have "challenge_domain_ok ad' = challenge_domain_ok ad" "\<And>x. consumed_record (ad'\<lparr>ad_challenges := x\<rparr>) = consumed_record (ad\<lparr>ad_challenges := x\<rparr>)"
    using assms(2) by (auto simp: fun_eq_iff challenge_domain_ok_def account_domain_def consumed_record_def split: option.splits)
  thus ?thesis using assms(1)
    by (simp add: consume_def statement_def body_defs update_challenges_def update_checked_def split: sum.splits list.splits)
qed

text \<open>
  C39. Old links outlive a change of the address.  A change of the verified address ends the sessions of the
  account but not its pending challenges: a sign-in link that was sent to the old address before the change
  still signs in to the account after it.
\<close>

theorem old_links_outlive_email_change:
  assumes "completeEmailSignIn en secrets d token now (w\<lparr>aw_store := ad\<rparr>) = (Inr ref, w1)"
    and "changeVerifiedEmail sv ref d dest lookup ctx t ad = (Inr r, ad')"
  shows "fst (completeEmailSignIn en secrets d token now (w\<lparr>aw_store := ad'\<rparr>)) = Inr ref"
proof -
  have "changeVerifiedEmail_body sv ref d dest lookup ctx t ad = Inr (r, ad')"
    using assms(2) by (auto simp: changeVerifiedEmail_def transaction_Inr requireOpaqueReference_def split: if_splits)
  hence "ad_challenges ad' = ad_challenges ad" "ad_accounts ad' = ad_accounts ad"
    using email_change_frame[THEN untouchedD] by blast+
  hence same: "fst (consume cid digest kind d t ad') = fst (consume cid digest kind d t ad)" for cid digest kind d t
    by (rule consume_depends)
  have result: "fst (completeEmailSignIn en secrets d token now (w\<lparr>aw_store := x\<rparr>)) =
      (case fst (consume None (Some (keyedDigest en (secrets d) token)) Email_sign_in d now x) of
         Inl e \<Rightarrow> Inl (StoreError e)
       | Inr None \<Rightarrow> Inl (AuthError AUTHENTICATION_FAILED)
       | Inr (Some c) \<Rightarrow> if truthy (hr_accountReference c) \<and> d \<noteq> D_committee then Inr (the (hr_accountReference c))
           else Inl (AuthError AUTHENTICATION_FAILED))" for x
  proof -
    obtain r x' where "consume None (Some (keyedDigest en (secrets d) token)) Email_sign_in d now x = (r, x')" by (rule prod.exhaust)
    thus ?thesis by (cases r) (simp_all add: completeEmailSignIn_def computation_defs inStore_def split: option.split)
  qed
  have "fst (completeEmailSignIn en secrets d token now (w\<lparr>aw_store := ad'\<rparr>))
      = fst (completeEmailSignIn en secrets d token now (w\<lparr>aw_store := ad\<rparr>))"
    by (simp only: result same)
  thus ?thesis using assms(1) by simp
qed

theorem old_links_outlive_email_change_witness:
  "\<exists>r ad'. changeVerifiedEmail sample_services ''account:one'' D_participant ''inbox:two'' ''ps/new'' security_context 150 challenged
       = (Inr r, ad')
     \<and> fst (completeEmailSignIn example_env (\<lambda>_. ''ps'') D_participant ''link'' 200 (example_world ad')) = Inr ''account:one''"
proof -
  let ?change = "changeVerifiedEmail sample_services ''account:one'' D_participant ''inbox:two'' ''ps/new'' security_context 150 challenged"
  let ?sign_in = "completeEmailSignIn example_env (\<lambda>_. ''ps'') D_participant ''link'' 200"
  have "fst ?change = Inr ([], 1)" by code_simp
  then obtain ad' where change: "?change = (Inr ([], 1), ad')" by (metis prod.collapse)
  have "fst (?sign_in (example_world challenged)) = Inr ''account:one''" by code_simp
  then obtain w1 where link: "?sign_in (example_world challenged) = (Inr ''account:one'', w1)" by (metis prod.collapse)
  have worlds: "example_world ad = (example_world challenged)\<lparr>aw_store := ad\<rparr>" for ad
    by (simp add: example_world_def)
  have "fst (?sign_in ((example_world challenged)\<lparr>aw_store := ad'\<rparr>)) = Inr ''account:one''"
    by (rule old_links_outlive_email_change[OF _ change]) (use link in \<open>simp add: worlds[symmetric]\<close>)
  thus ?thesis using change worlds by metis
qed

section \<open>Rate limits\<close>

lemma increment_count:
  assumes "increment_body key bucket t t' ad = Inr (k, ad')"
  shows "k = bucket_count ad key + 1" "bucket_count ad' key' = (if key' = key then k else bucket_count ad key')"
  using assms
  by (auto simp: increment_body_def bucket_count_def select_where_append select_where_update_where split: option.splits
      dest: select_where_SomeD)

lemma persists_count: "auth_invariant (\<lambda>ad. n \<le> bucket_count ad key)"
proof unfold_locales
  fix key' bucket t t'
  show "keeps (\<lambda>ad. n \<le> bucket_count ad key) (increment_body key' bucket t t')"
  proof (rule keepsI)
    fix ad k ad' assume "n \<le> bucket_count ad key" "increment_body key' bucket t t' ad = Inr (k, ad')"
    thus "n \<le> bucket_count ad' key" using increment_count[of key' bucket t t' ad k ad'] by auto
  qed
qed (auto simp: keeps_def bucket_count_def)

lemma count_nonneg: "buckets_ok ad \<Longrightarrow> 0 \<le> bucket_count ad key"
  by (force simp: bucket_count_def buckets_ok_def dest: select_where_SomeD(1) split: option.splits)

text \<open>A history with \<open>n\<close> calls for one bucket, subject and window that were admitted, and anything else in between.\<close>

inductive admitted ::
  "'x environment \<Rightarrow> string \<Rightarrow> RateBucket \<Rightarrow> string \<Rightarrow> int \<Rightarrow> int \<Rightarrow> int \<Rightarrow> nat \<Rightarrow> 'x auth_world \<Rightarrow> 'x auth_world \<Rightarrow> bool"
  for en secret bucket subject windowMs limit window where
  start: "admitted en secret bucket subject windowMs limit window 0 w w"
| elsewhere: "admitted en secret bucket subject windowMs limit window n w w' \<Longrightarrow> auth_event\<^sup>*\<^sup>* (aw_store w') (aw_store w'')
    \<Longrightarrow> admitted en secret bucket subject windowMs limit window n w w''"
| admit: "admitted en secret bucket subject windowMs limit window n w w'
    \<Longrightarrow> requireWithinLimit en secret bucket subject now windowMs limit w' = (Inr (), w'') \<Longrightarrow> now div windowMs = window
    \<Longrightarrow> admitted en secret bucket subject windowMs limit window (Suc n) w w''"

text \<open>
  C17. The limit holds.  In every history, at most \<open>limit\<close> calls of the rate limiter for one bucket, one
  subject and one window are admitted, however calls of other operations are interleaved.
\<close>

theorem rate_limit_holds:
  assumes "admitted en secret bucket subject windowMs limit window n w w'"
    and "auth_event\<^sup>*\<^sup>* empty_auth_database (aw_store w)" "0 \<le> limit"
  shows "int n \<le> limit"
proof -
  let ?key = "rate_key en secret bucket subject window"
  have "int n \<le> bucket_count (aw_store w') ?key \<and> int n \<le> limit"
    using assms(1,2)
  proof (induction rule: admitted.induct)
    case (start w)
    thus ?case using assms(3) count_nonneg reachable_inv by (auto simp: auth_inv_def)
  next
    case (elsewhere n w w' w'')
    thus ?case using auth_invariant.history[OF persists_count elsewhere.hyps(2)] by blast
  next
    case (admit n w w' now w'')
    let ?start = "now div windowMs * windowMs"
    obtain k where k: "increment_body ?key (bucket_name bucket) ?start (?start + windowMs) (aw_store w') = Inr (k, aw_store w'')"
        "k \<le> limit"
      using admit.hyps(2,3) by (auto simp: requireWithinLimit_def Let_def increment_def)
    have "int n \<le> bucket_count (aw_store w') ?key" using admit.IH admit.prems by blast
    thus ?case using increment_count[OF k(1)] k(2) by simp
  qed
  thus ?thesis ..
qed

definition one_admission :: "SecurityNotification list auth_world" where
  "one_admission = snd (requireWithinLimit example_env ''rl'' Login_network ''net'' 100 1000 20 (example_world example_store))"

theorem rate_limit_holds_witness:
  "admitted example_env ''rl'' Login_network ''net'' 1000 20 0 1 (example_world example_store) one_admission \<and> (1::int) \<le> 20"
proof -
  have "fst (requireWithinLimit example_env ''rl'' Login_network ''net'' 100 1000 20 (example_world example_store)) = Inr ()"
    by code_simp
  hence "requireWithinLimit example_env ''rl'' Login_network ''net'' 100 1000 20 (example_world example_store) = (Inr (), one_admission)"
    unfolding one_admission_def by (metis prod.collapse)
  from admitted.admit[OF admitted.start this]
  have run: "admitted example_env ''rl'' Login_network ''net'' 1000 20 0 1 (example_world example_store) one_admission" by simp
  have "int 1 \<le> 20"
    by (rule rate_limit_holds[OF run]) (use example_store_reachable in \<open>simp_all add: example_world_def\<close>)
  thus ?thesis using run by simp
qed

section \<open>Requests by email\<close>

text \<open>What the service relies on: the sink takes every notification, and the next token and identifier are new.\<close>

definition sink_accepts :: "'x environment \<Rightarrow> bool" where
  "sink_accepts en \<longleftrightarrow> (\<forall>n x. fst (en_enqueue en n x) = Inr ())"

definition fresh_challenge :: "'x environment \<Rightarrow> string \<Rightarrow> 'x auth_world \<Rightarrow> bool" where
  "fresh_challenge en secret w \<longleftrightarrow>
     (\<forall>c \<in> set (ad_challenges (aw_store w)). ch_id c \<noteq> en_newId en (aw_ids w)
        \<and> ch_secret_digest c \<noteq> keyedDigest en secret (en_token en (aw_tokens w)))"

lemma limiter_depends:
  assumes "ad_buckets (aw_store w1) = ad_buckets (aw_store w2)"
  obtains r b where
    "requireWithinLimit en secret bucket subject now windowMs limit w1 = (r, w1\<lparr>aw_store := (aw_store w1)\<lparr>ad_buckets := b\<rparr>\<rparr>)"
    "requireWithinLimit en secret bucket subject now windowMs limit w2 = (r, w2\<lparr>aw_store := (aw_store w2)\<lparr>ad_buckets := b\<rparr>\<rparr>)"
proof -
  have "\<exists>r b. \<forall>w. ad_buckets (aw_store w) = ad_buckets (aw_store w1) \<longrightarrow>
      requireWithinLimit en secret bucket subject now windowMs limit w = (r, w\<lparr>aw_store := (aw_store w)\<lparr>ad_buckets := b\<rparr>\<rparr>)"
    (is "\<exists>r b. \<forall>w. ?same w \<longrightarrow> ?run w = ?result r b w")
  proof -
    let ?start = "now div windowMs * windowMs"
    let ?key = "rate_key en secret bucket subject (now div windowMs)"
    show ?thesis
    proof (cases "?start < ?start + windowMs")
      case False
      have "?run w = ?result (Inl (StoreError (DatabaseError ''23514''))) (ad_buckets (aw_store w1)) w" if "?same w" for w
        using False that
        by (simp add: requireWithinLimit_def Let_def increment_def increment_body_def inStore_def computation_defs body_defs that[symmetric])
      thus ?thesis by blast
    next
      case True
      define b where "b = (case select_where (\<lambda>b. bu_key_digest b = ?key) (ad_buckets (aw_store w1)) of
         None \<Rightarrow> ad_buckets (aw_store w1) @ [\<lparr>bu_key_digest = ?key, bu_bucket = bucket_name bucket,
           bu_attempt_count = 1, bu_window_started_at = ?start, bu_expires_at = ?start + windowMs\<rparr>]
       | Some _ \<Rightarrow> update_where (\<lambda>q. bu_key_digest q = ?key) (\<lambda>q. q\<lparr>bu_attempt_count := bu_attempt_count q + 1\<rparr>) (ad_buckets (aw_store w1)))"
      define k where "k = bucket_count (aw_store w1) ?key + 1"
      have "?run w = ?result (if k \<le> limit then Inr () else Inl (AuthError RATE_LIMITED)) b w" if "?same w" for w
        using True that
        by (simp add: requireWithinLimit_def Let_def increment_def increment_body_def inStore_def computation_defs body_defs
            b_def k_def bucket_count_def split: option.splits)
      thus ?thesis by blast
    qed
  qed
  thus thesis using that assms by metis
qed

lemma send_challenge_answers:
  assumes inv: "accounts_ok (aw_store w)" and "sink_accepts en" "fresh_challenge en secret w" "0 < lifetimeMs"
    and found: "findByLookupDigest d lookup (aw_store w) = Some v"
  shows "fst (send_challenge en secret kind d v now lifetimeMs w) = Inr genericResponse"
proof -
  let ?ad = "aw_store w"
  obtain a c where a: "a \<in> set (ad_accounts ?ad)" "ac_trust_domain a = d" "ve_accountReference v = ac_external_reference a"
    using found by (fastforce simp: findByLookupDigest_def Let_def dest: select_where_SomeD split: option.splits)
  obtain b where b: "select_where (\<lambda>b. ac_external_reference b = ac_external_reference a \<and> ac_trust_domain b = d) (ad_accounts ?ad) = Some b"
    using a by (cases "select_where (\<lambda>b. ac_external_reference b = ac_external_reference a \<and> ac_trust_domain b = d) (ad_accounts ?ad)")
       (auto simp: select_where_None_iff)
  hence b': "b \<in> set (ad_accounts ?ad)" "ac_external_reference b = ac_external_reference a" "ac_trust_domain b = d"
    by (auto dest: select_where_SomeD)
  have "select_where (\<lambda>x. ac_id x = ac_id b) (ad_accounts ?ad) = Some b"
    using inv b'(1) by (intro select_where_unique[where key = ac_id]) (auto simp: accounts_ok_def)
  hence dom: "account_domain ?ad (ac_id b) = Some d" using b' by (simp add: account_domain_def)
  have ne: "truthy (Some (ac_external_reference a))" using inv a(1) by (simp add: accounts_ok_def)
  have sink: "\<exists>x'. en_enqueue en n x = (Inr (), x')" for n x
    using assms(2) by (metis sink_accepts_def prod.collapse)
  define rec where "rec = \<lparr>hr_id = en_newId en (aw_ids w), hr_accountReference = Some (ve_accountReference v), hr_trustDomain = d,
    hr_kind = (case kind of For_sign_in \<Rightarrow> Email_sign_in | For_recovery \<Rightarrow> Account_recovery),
    hr_secretDigest = keyedDigest en secret (en_token en (aw_tokens w)), hr_destinationReference = Some (ve_destinationReference v),
    hr_lookupDigest = None, hr_expiresAt = now + lifetimeMs, hr_createdAt = now\<rparr>"
  have "\<exists>ad'. createChallenge_body rec ?ad = Inr ((), ad')"
    using b dom ne assms(3,4)
    by (auto simp: createChallenge_body_def rec_def a(3) account_Inr challenge_domain_ok_def challenge_row_ok_def
        fresh_challenge_def eq_commute[of d] split: EmailChallengeKind.splits)
  then obtain ad' where create: "createChallenge rec ?ad = (Inr (), ad')"
    by (auto simp: createChallenge_def transaction_Inr)
  define message where "message = \<lparr>sn_accountReference = ve_accountReference v, sn_destinationReference = ve_destinationReference v,
    sn_kind = (case kind of For_sign_in \<Rightarrow> Email_sign_in_requested | For_recovery \<Rightarrow> Account_recovery_requested),
    sn_secret = Some (en_token en (aw_tokens w)), sn_expiresAt = Some (now + lifetimeMs)\<rparr>"
  obtain x' where sent: "en_enqueue en message (aw_outside w) = (Inr (), x')" using sink by blast
  show ?thesis
    by (simp add: send_challenge_def generateOpaqueToken_def draw_id_def bindE_def Let_def inStore_def outside_def
        create[unfolded rec_def] sent[unfolded message_def] returnE_def)
qed

text \<open>
  C18. A request reveals nothing.  Two stores that agree on the counters of the rate limiter give the same
  answer to a request for a sign-in or recovery link, whether or not the address belongs to an account,
  whatever the state of the account: the generic response, or the refusal of the network's limit.
\<close>

theorem email_request_reveals_nothing:
  assumes "auth_event\<^sup>*\<^sup>* empty_auth_database (aw_store w1)" "auth_event\<^sup>*\<^sup>* empty_auth_database (aw_store w2)"
    and "ad_buckets (aw_store w1) = ad_buckets (aw_store w2)" "sink_accepts en" "0 < lifetimeMs"
    and "fresh_challenge en (secrets d) w1" "fresh_challenge en (secrets d) w2"
  shows "fst (begin_email en limiterSecret secrets kind d email network now lifetimeMs w1)
       = fst (begin_email en limiterSecret secrets kind d email network now lifetimeMs w2)"
proof -
  let ?lookup = "normalizeEmailForLookup en email (secrets d)"
  define answer where "answer w = (if \<not> eligible kind d (findByLookupDigest d ?lookup (aw_store w)) then returnE genericResponse
     else send_challenge en (secrets d) kind d (the (findByLookupDigest d ?lookup (aw_store w))) now lifetimeMs) w" for w
  have answer: "fst (answer (w\<lparr>aw_store := (aw_store w)\<lparr>ad_buckets := b\<rparr>\<rparr>)) = Inr genericResponse"
    if "auth_inv (aw_store w)" "fresh_challenge en (secrets d) w" for w b
  proof -
    let ?w = "w\<lparr>aw_store := (aw_store w)\<lparr>ad_buckets := b\<rparr>\<rparr>"
    have "accounts_ok (aw_store ?w)" "fresh_challenge en (secrets d) ?w"
      using that by (simp_all add: auth_inv_def accounts_ok_def fresh_challenge_def)
    thus ?thesis using send_challenge_answers[of ?w en "secrets d" lifetimeMs d ?lookup] assms(4,5)
      by (auto simp: answer_def eligible_def returnE_def split: option.splits)
  qed
  define first where "first = requireWithinLimit en limiterSecret
    (case kind of For_sign_in \<Rightarrow> Login_network | For_recovery \<Rightarrow> Recovery_network) network now (15 * 60000) 20"
  define second where "second = requireWithinLimit en limiterSecret
    (case kind of For_sign_in \<Rightarrow> Login_account | For_recovery \<Rightarrow> Recovery_account) ?lookup now (15 * 60000) 5"
  have run: "begin_email en limiterSecret secrets kind d email network now lifetimeMs w =
      bindE first (\<lambda>_. bindE (catch_rate_limited second) (\<lambda>passed. case passed of None \<Rightarrow> returnE genericResponse | Some _ \<Rightarrow> answer)) w" for w
    unfolding begin_email_def Let_def first_def second_def
    by (auto simp: bindE_def fun_eq_iff answer_def fromStore_def readE_def split: prod.splits sum.splits option.splits)
  obtain r b where 1: "first w1 = (r, w1\<lparr>aw_store := (aw_store w1)\<lparr>ad_buckets := b\<rparr>\<rparr>)"
      "first w2 = (r, w2\<lparr>aw_store := (aw_store w2)\<lparr>ad_buckets := b\<rparr>\<rparr>)"
    unfolding first_def using limiter_depends[OF assms(3)] by metis
  obtain r' b' where 2: "second (w1\<lparr>aw_store := (aw_store w1)\<lparr>ad_buckets := b\<rparr>\<rparr>) = (r', w1\<lparr>aw_store := (aw_store w1)\<lparr>ad_buckets := b'\<rparr>\<rparr>)"
      "second (w2\<lparr>aw_store := (aw_store w2)\<lparr>ad_buckets := b\<rparr>\<rparr>) = (r', w2\<lparr>aw_store := (aw_store w2)\<lparr>ad_buckets := b'\<rparr>\<rparr>)"
  proof (rule limiter_depends)
    show "ad_buckets (aw_store (w1\<lparr>aw_store := (aw_store w1)\<lparr>ad_buckets := b\<rparr>\<rparr>))
        = ad_buckets (aw_store (w2\<lparr>aw_store := (aw_store w2)\<lparr>ad_buckets := b\<rparr>\<rparr>))" by simp
  qed (use that in \<open>simp add: second_def\<close>)
  note answers = answer[OF reachable_inv[OF assms(1)] assms(6), of b'] answer[OF reachable_inv[OF assms(2)] assms(7), of b']
  show ?thesis
    unfolding run
    using 1 2 answers by (auto simp: bindE_def catch_rate_limited_def returnE_def split: sum.splits auth_failure.splits AuthErrorCode.splits)
qed

text \<open>The verified address of the account, as the environment of the example digests it.\<close>

definition addressed :: auth_database where
  "addressed = snd (changeVerifiedEmail sample_services ''account:one'' D_participant ''inbox:one'' ''ps/one@mail''
     security_context 150 example_store)"

lemma addressed_reachable: "auth_event\<^sup>*\<^sup>* empty_auth_database addressed"
  unfolding addressed_def
  by (rule rtranclp.rtrancl_into_rtrancl[OF example_store_reachable auth_event.ev_changeEmail])

theorem email_request_reveals_nothing_witness:
  "findByLookupDigest D_participant ''ps/one@mail'' addressed \<noteq> None
   \<and> findByLookupDigest D_participant ''ps/one@mail'' example_store = None
   \<and> fst (begin_email example_env ''rl'' (\<lambda>_. ''ps'') For_sign_in D_participant ''one@mail'' ''net'' 200 900 (example_world addressed))
     = fst (begin_email example_env ''rl'' (\<lambda>_. ''ps'') For_sign_in D_participant ''one@mail'' ''net'' 200 900 (example_world example_store))"
proof -
  have found: "findByLookupDigest D_participant ''ps/one@mail'' addressed \<noteq> None" by code_simp
  have missing: "findByLookupDigest D_participant ''ps/one@mail'' example_store = None" by code_simp
  have tables: "ad_buckets addressed = []" "ad_buckets example_store = []" "ad_challenges addressed = []" "ad_challenges example_store = []"
    by code_simp+
  have "fst (begin_email example_env ''rl'' (\<lambda>_. ''ps'') For_sign_in D_participant ''one@mail'' ''net'' 200 900 (example_world addressed))
     = fst (begin_email example_env ''rl'' (\<lambda>_. ''ps'') For_sign_in D_participant ''one@mail'' ''net'' 200 900 (example_world example_store))"
    by (rule email_request_reveals_nothing)
       (simp_all add: example_world_def addressed_reachable example_store_reachable tables sink_accepts_def example_env_def fresh_challenge_def)
  thus ?thesis using found missing by blast
qed

end
