(* ===== verification/Auth_Access.thy ===== *)
theory Auth_Access
  imports Auth_Recovery
begin

text \<open>
  Passkeys and committee access over every history of the store: a sign-in by passkey needs a live credential
  of an active account and a fresh challenge, a revoked credential never signs in again, the last credential
  of an account is not removed without another way to recover, and the access of an account to a committee
  was invited and approved by two different people.
\<close>

section \<open>Credentials\<close>

definition passkeys_ok :: "auth_database \<Rightarrow> bool" where
  "passkeys_ok ad \<longleftrightarrow> distinct (map pk_credential_reference (ad_passkeys ad))"

interpretation passkeys: auth_invariant passkeys_ok
proof unfold_locales
  show "keeps passkeys_ok (update_passkeys P f)" if "\<And>p. passkey_identity (f p) = passkey_identity p" for P f
  proof -
    have "pk_credential_reference (f p) = pk_credential_reference p" for p
      using that[of p] by (simp add: passkey_identity_def)
    thus ?thesis by (auto simp: keeps_def passkeys_ok_def map_update_where)
  qed
qed (auto simp: keeps_def passkeys_ok_def increment_body_def split: option.splits)

lemma reachable_passkeys: "auth_event\<^sup>*\<^sup>* empty_auth_database ad \<Longrightarrow> passkeys_ok ad"
  by (erule passkeys.history) (simp add: passkeys_ok_def empty_auth_database_def)

lemma persists_passkey: "pk_state p \<noteq> PK_active \<Longrightarrow> auth_invariant (\<lambda>ad. p \<in> set (ad_passkeys ad))"
  by unfold_locales (auto simp: keeps_def set_update_where increment_body_def split: option.splits)

lemma found_passkey:
  assumes "findActive credentialReference d ad = Some c"
  obtains p a where "p \<in> set (ad_passkeys ad)" "pk_credential_reference p = credentialReference" "pk_state p = PK_active"
    "a \<in> set (ad_accounts ad)" "ac_id a = pk_auth_account_id p" "ac_trust_domain a = d" "ac_state a = U_active"
    "c = mapPasskey a p"
  using assms by (fastforce simp: findActive_def Let_def dest: select_where_SomeD split: option.splits)

lemma passkey_row_unique:
  "passkeys_ok ad \<Longrightarrow> p \<in> set (ad_passkeys ad) \<Longrightarrow> q \<in> set (ad_passkeys ad)
     \<Longrightarrow> pk_credential_reference p = pk_credential_reference q \<Longrightarrow> p = q"
  by (auto simp: passkeys_ok_def dest: distinct_map_key_eq)

lemma outside_Inr [simp]:
  "outside m w = (Inr a, w') \<longleftrightarrow> (\<exists>x. m (aw_outside w) = (Inr a, x) \<and> w' = w\<lparr>aw_outside := x\<rparr>)"
  by (auto simp: outside_def split: prod.splits)

lemma failing_as_Inr [simp]: "failing_as e m w = (Inr a, w') \<longleftrightarrow> m w = (Inr a, w')"
  by (auto simp: failing_as_def map_errorE_def split: prod.splits sum.splits)

lemma consume_frame:
  "consume cid digest kind d t ad = (r, ad') \<Longrightarrow> ad_passkeys ad' = ad_passkeys ad \<and> ad_accounts ad' = ad_accounts ad"
  by (auto simp: consume_def statement_def split: sum.splits)

lemma findActive_frame:
  "ad_passkeys ad' = ad_passkeys ad \<Longrightarrow> ad_accounts ad' = ad_accounts ad \<Longrightarrow> findActive c d ad' = findActive c d ad"
  by (simp add: findActive_def)

lemma passkey_run:
  assumes "finishAuthentication en configs d challengeReference response now w = (Inr (reference, credential), w')"
  obtains c ad1 cred and result :: VerifiedAuthentication where
    "consume (Some challengeReference) None Passkey_authentication d now (aw_store w) = (Inr (Some c), ad1)"
    "findActive (cp_id response) d (aw_store w) = Some cred" "pc_relyingPartyId cred = pd_relyingPartyId (configs d)"
    "updateUsage (pc_credentialReference cred) (va_newCounter result) (va_deviceType result) (va_backedUp result) now ad1
       = (Inr (), aw_store w')"
    "reference = pc_accountReference cred" "credential = pc_credentialReference cred"
proof -
  obtain c ad1 cred and result :: VerifiedAuthentication where
    1: "consume (Some challengeReference) None Passkey_authentication d now (aw_store w) = (Inr (Some c), ad1)"
    and 2: "findActive (cp_id response) d ad1 = Some cred" "pc_relyingPartyId cred = pd_relyingPartyId (configs d)"
    and 3: "updateUsage (pc_credentialReference cred) (va_newCounter result) (va_deviceType result) (va_backedUp result) now ad1
       = (Inr (), aw_store w')" "reference = pc_accountReference cred" "credential = pc_credentialReference cred"
    using assms by (auto simp: finishAuthentication_def Let_def split: option.splits)
  have "findActive (cp_id response) d (aw_store w) = Some cred"
    using 2(1) consume_frame[OF 1] findActive_frame by metis
  thus thesis using that 1 2(2) 3 by blast
qed



lemma stored_revocation:
  assumes "revokeCredential_stored credentialReference accountReference t ad = (Inr (), ad')"
  obtains p where "p \<in> set (ad_passkeys ad')" "pk_credential_reference p = credentialReference" "pk_state p = PK_revoked"
proof -
  let ?P = "\<lambda>p. list_ex (\<lambda>a. ac_id a = pk_auth_account_id p \<and> ac_external_reference a = accountReference) (ad_accounts ad)
    \<and> pk_credential_reference p = credentialReference \<and> pk_state p = PK_active"
  let ?f = "\<lambda>p. p\<lparr>pk_state := PK_revoked, pk_revoked_at := Some t\<rparr>"
  have upd: "ad_passkeys ad' = update_where ?P ?f (ad_passkeys ad)" "length (filter ?P (ad_passkeys ad)) = 1"
    using assms by (auto simp: revokeCredential_stored_def)
  then obtain q where "filter ?P (ad_passkeys ad) = [q]" by (auto simp: length_Suc_conv)
  hence "q \<in> set (filter ?P (ad_passkeys ad))" by simp
  hence "?f q \<in> set (ad_passkeys ad')" "pk_credential_reference q = credentialReference"
    using upd(1) by (force simp: set_update_where)+
  thus thesis using that[of "?f q"] by simp
qed

text \<open>
  C19. A revoked credential never signs in again: after its revocation, in every later state of the store,
  every attempt to sign in with it fails, in whatever domain and with whatever challenge.
\<close>

theorem revoked_passkey_never_signs_in:
  assumes "auth_event\<^sup>*\<^sup>* empty_auth_database ad"
    and "revokeCredential_stored credentialReference accountReference t ad = (Inr (), ad')"
    and "auth_event\<^sup>*\<^sup>* ad' (aw_store w)" "cp_id response = credentialReference"
  shows "\<exists>e. fst (finishAuthentication en configs d challengeReference response now w) = Inl e"
proof -
  obtain p where p: "p \<in> set (ad_passkeys ad')" "pk_credential_reference p = credentialReference" "pk_state p = PK_revoked"
    by (rule stored_revocation[OF assms(2)])
  have "pk_state p \<noteq> PK_active" using p(3) by simp
  from auth_invariant.history[OF persists_passkey[OF this] assms(3) p(1)] have later: "p \<in> set (ad_passkeys (aw_store w))" .
  have "auth_event ad ad'" using auth_event.ev_revokeCredential[of ad credentialReference accountReference t] assms(2) by simp
  hence reach: "auth_event\<^sup>*\<^sup>* empty_auth_database (aw_store w)" using assms(1,3) by (meson rtranclp.rtrancl_into_rtrancl rtranclp_trans)
  show ?thesis
  proof (cases "fst (finishAuthentication en configs d challengeReference response now w)")
    case (Inr v)
    then obtain w' where "finishAuthentication en configs d challengeReference response now w = (Inr (fst v, snd v), w')"
      by (metis prod.collapse)
    then obtain cred where "findActive (cp_id response) d (aw_store w) = Some cred" by (rule passkey_run)
    then obtain q where "q \<in> set (ad_passkeys (aw_store w))" "pk_credential_reference q = cp_id response" "pk_state q = PK_active"
      by (rule found_passkey)
    thus ?thesis using passkey_row_unique[OF reachable_passkeys[OF reach] later] p assms(4) by auto
  qed simp
qed


section \<open>The last credential\<close>

lemma one_of_key: "distinct (map key xs) \<Longrightarrow> length (filter (\<lambda>a. key a = k \<and> R a) xs) \<le> 1"
proof (induction xs)
  case (Cons x xs)
  have "key x = k \<Longrightarrow> filter (\<lambda>a. key a = k \<and> R a) xs = []" using Cons.prems by (auto simp: filter_empty_conv) (metis image_eqI)
  thus ?case using Cons by auto
qed simp

lemma another_row:
  assumes "2 \<le> length (concat (map g ps))" "\<forall>p \<in> set ps. length (g p) \<le> 1" "distinct (map key ps)"
  shows "\<exists>p \<in> set ps. g p \<noteq> [] \<and> key p \<noteq> k"
  using assms
proof (induction ps)
  case (Cons p ps)
  show ?case
  proof (cases "g p = []")
    case False
    hence "length (g p) = 1" using Cons.prems(2) by (cases "g p") auto
    hence "1 \<le> length (concat (map g ps))" using Cons.prems(1) by simp
    hence "concat (map g ps) \<noteq> []" by (metis list.size(3) not_one_le_zero)
    then obtain q where "q \<in> set ps" "g q \<noteq> []" by auto
    moreover from this have "key q \<noteq> key p" using Cons.prems(3) by (metis distinct.simps(2) image_eqI list.set_map list.simps(9))
    ultimately show ?thesis using False by auto
  qed (use Cons in auto)
qed simp

text \<open>
  The last credential stays.  Without another way to recover the account, a credential is revoked only
  after a recent reauthentication and only when the account keeps a live one.
\<close>

theorem last_passkey_stays:
  assumes "auth_event\<^sup>*\<^sup>* empty_auth_database (aw_store w)"
    and "revokeCredential credentialReference reference d recent False now w = (Inr (), w')"
  shows "recent \<and> listActive reference d (aw_store w') \<noteq> []"
proof -
  let ?ad = "aw_store w"
  define g where "g ad p = map (\<lambda>a. mapPasskey a p) (filter (\<lambda>a. ac_id a = pk_auth_account_id p
    \<and> ac_external_reference a = reference \<and> ac_trust_domain a = d) (ad_accounts ad))" for ad :: auth_database and p
  define live where "live ad = sort_key pk_created_at (filter (\<lambda>p. pk_state p = PK_active) (ad_passkeys ad))" for ad :: auth_database
  have active: "listActive reference d ad = concat (map (g ad) (live ad))" for ad
    by (simp add: listActive_def g_def[abs_def] live_def)
  let ?P = "\<lambda>p. list_ex (\<lambda>a. ac_id a = pk_auth_account_id p \<and> ac_external_reference a = reference) (ad_accounts ?ad)
    \<and> pk_credential_reference p = credentialReference \<and> pk_state p = PK_active"
  have run: recent "2 \<le> length (listActive reference d ?ad)"
    "ad_passkeys (aw_store w') = update_where ?P (\<lambda>p. p\<lparr>pk_state := PK_revoked, pk_revoked_at := Some now\<rparr>) (ad_passkeys ?ad)"
    "ad_accounts (aw_store w') = ad_accounts ?ad"
    using assms(2) by (auto simp: revokeCredential_def revokeCredential_stored_def)
  have ok: "passkeys_ok ?ad" "accounts_ok ?ad"
    using reachable_passkeys[OF assms(1)] reachable_inv[OF assms(1)] by (auto simp: auth_inv_def)
  have "\<forall>p \<in> set (live ?ad). length (g ?ad p) \<le> 1" unfolding g_def length_map using ok(2) one_of_key by (auto simp: accounts_ok_def)
  moreover have "distinct (map pk_credential_reference (live ?ad))"
    using ok(1) by (auto simp: live_def passkeys_ok_def distinct_map inj_on_def)
  ultimately obtain p where p: "p \<in> set (live ?ad)" "g ?ad p \<noteq> []" "pk_credential_reference p \<noteq> credentialReference"
    using another_row[of "g ?ad" "live ?ad" pk_credential_reference credentialReference] run(2) by (auto simp: active)
  have "p \<in> set (live (aw_store w'))" using p(1,3) run(3) by (force simp: live_def set_update_where)
  moreover have "g (aw_store w') p \<noteq> []" using p(2) run(4) by (simp add: g_def)
  ultimately show ?thesis using run(1) by (auto simp: active)
qed

section \<open>Committee access\<close>

text \<open>
  C34. Two people behind every access.  Whenever the store has an account for a committee to load, the account
  is one of the committee domain, its access is active and bound to a member, and the person who approved it
  is not the one who invited; the loaded state, roles and conflicts are those of that member.
\<close>

theorem committee_access_has_two_approvals:
  assumes "auth_event\<^sup>*\<^sup>* empty_auth_database ad"
    and "loadCommitteePrincipal accountReference committeeReference targetType targetReference sessionReference ad = Some snapshot"
  shows "\<exists>x \<in> set (ad_access ad). \<exists>a \<in> set (ad_accounts ad). \<exists>c \<in> set (db_committees (ad_domain ad)). \<exists>memberId approver.
     ac_id a = ax_account_id x \<and> ac_external_reference a = accountReference \<and> ac_trust_domain a = D_committee
     \<and> cm_id c = ax_committee_id x \<and> cm_external_reference c = committeeReference
     \<and> ax_state x = X_active \<and> ax_member_id x = Some memberId
     \<and> ax_approved_by_reference x = Some approver \<and> approver \<noteq> ax_invited_by_reference x
     \<and> cs_accountState snapshot = ac_state a \<and> cs_committeeState snapshot = cm_state c
     \<and> cs_membershipState snapshot = map_option me_state (select_where (\<lambda>m. me_id m = memberId) (db_members (ad_domain ad)))
     \<and> (cs_roles snapshot \<noteq> [] \<longrightarrow> cs_roles snapshot = active_roles ad memberId)
     \<and> (cs_conflicted snapshot \<longrightarrow> has_conflict ad memberId targetType targetReference)"
proof -
  note load = assms(2)[unfolded loadCommitteePrincipal_def]
  obtain a where sa: "select_where (\<lambda>a. ac_external_reference a = accountReference \<and> ac_trust_domain a = D_committee) (ad_accounts ad) = Some a"
    using load by (auto split: option.splits)
  obtain c where sc: "select_where (\<lambda>c. cm_external_reference c = committeeReference) (db_committees (ad_domain ad)) = Some c"
    using load sa by (auto split: option.splits)
  obtain x where sx: "select_where (\<lambda>x. ax_account_id x = ac_id a \<and> ax_committee_id x = cm_id c \<and> ax_state x = X_active) (ad_access ad) = Some x"
    using load sa sc by (auto split: option.splits)
  have a: "a \<in> set (ad_accounts ad)" "ac_external_reference a = accountReference" "ac_trust_domain a = D_committee"
    and c: "c \<in> set (db_committees (ad_domain ad))" "cm_external_reference c = committeeReference"
    and x: "x \<in> set (ad_access ad)" "ax_account_id x = ac_id a" "ax_committee_id x = cm_id c" "ax_state x = X_active"
    using sa sc sx by (auto dest: select_where_SomeD)
  have "access_row_ok x" using reachable_inv[OF assms(1)] x(1) by (simp add: auth_inv_def access_ok_def)
  then obtain memberId approver where ok: "ax_member_id x = Some memberId" "ax_approved_by_reference x = Some approver"
      "approver \<noteq> ax_invited_by_reference x"
    using x(4) by (auto simp: access_row_ok_def)
  have member: "(Some i = ax_member_id x) = (i = memberId)" for i using ok(1) by auto
  show ?thesis
    using a c x ok load[unfolded sa sc sx option.case member Let_def]
    by (intro bexI[of _ x] bexI[of _ a] bexI[of _ c] exI[of _ memberId] exI[of _ approver])
       (auto split: option.splits dest: select_where_SomeD)
qed


text \<open>
  Activation overrides a suspension.  The activation of an access makes the account active whatever its
  state was: a committee account that its recovery suspended until a review, or that was locked, is active
  again as soon as one of its approved accesses is activated.
\<close>

theorem activation_overrides_suspension:
  assumes "activateCommittee_access reference committeeReference memberReference t ad = (Inr (), ad')"
    and "a \<in> set (ad_accounts ad)" "ac_external_reference a = reference" "ac_trust_domain a = D_committee"
  shows "\<exists>a' \<in> set (ad_accounts ad'). account_identity a' = account_identity a \<and> ac_state a' = U_active"
proof -
  let ?f = "\<lambda>a. a\<lparr>ac_state := U_active, ac_version := ac_version a + 1\<rparr>"
  have "ad_accounts ad' = update_where (\<lambda>a. ac_external_reference a = reference \<and> ac_trust_domain a = D_committee) ?f (ad_accounts ad)"
    using assms(1) by (auto simp: activateCommittee_access_def activateCommittee_body_def transaction_Inr)
  hence "?f a \<in> set (ad_accounts ad')" using assms(2-4) by (force simp: set_update_where)
  thus ?thesis by (intro bexI[of _ "?f a"]) (simp_all add: account_identity_def)
qed

section \<open>An example\<close>

text \<open>The account of the example with two credentials and an open challenge, and WebAuthn functions that accept every
  response and count seven uses.\<close>

definition example_credential :: "string \<Rightarrow> StoredPasskeyCredential" where
  "example_credential reference = \<lparr>pc_credentialReference = reference, pc_accountReference = ''account:one'',
     pc_trustDomain = D_participant, pc_relyingPartyId = ''cbc.example'', pc_publicKey = [1, 2], pc_counter = 3,
     pc_transports = [''usb''], pc_deviceType = SingleDevice, pc_backedUp = False, pc_deviceLabel = ''key'', pc_state = PK_active\<rparr>"

definition passkey_challenge :: AuthChallengeRecord where
  "passkey_challenge = \<lparr>hr_id = ''c1'', hr_accountReference = None, hr_trustDomain = D_participant,
     hr_kind = Passkey_authentication, hr_secretDigest = ''ps/auth'', hr_destinationReference = None,
     hr_lookupDigest = None, hr_expiresAt = 900, hr_createdAt = 100\<rparr>"

definition passkey_store :: auth_database where
  "passkey_store = snd (createChallenge passkey_challenge (snd (save sample_services (example_credential ''key:2'') 60
     (snd (save sample_services (example_credential ''key:1'') 50 example_store)))))"

lemma passkey_store_reachable: "auth_event\<^sup>*\<^sup>* empty_auth_database passkey_store"
  unfolding passkey_store_def
  by (meson example_store_reachable auth_event.ev_createChallenge auth_event.ev_save rtranclp.rtrancl_into_rtrancl)

definition passkey_env :: "SecurityNotification list environment" where
  "passkey_env = example_env\<lparr>en_webAuthn := example_web_authn\<lparr>wa_verifyAuthenticationResponse := (\<lambda>_ _ _ _ _. returnE
     \<lparr>va_verified = True, va_userVerified = True, va_newCounter = 7, va_deviceType = SingleDevice, va_backedUp = True\<rparr>)\<rparr>\<rparr>"

definition passkey_domains :: "TrustDomain \<Rightarrow> PasskeyDomainConfig" where
  "passkey_domains d = \<lparr>pd_relyingPartyName = ''CBC'', pd_relyingPartyId = ''cbc.example'', pd_origin = ''https://cbc.example'',
     pd_challengeSecret = ''ps'', pd_challengeLifetimeMs = 600\<rparr>"

definition example_response :: CredentialResponse where
  "example_response = \<lparr>cp_id = ''key:1'', cp_rest = []\<rparr>"

lemma example_world_store [simp]: "aw_store (example_world ad) = ad"
  by (simp add: example_world_def)

lemma run_of:
  assumes "fst m = r" obtains s where "m = (r, s)"
  using assms by (cases m) auto


theorem revoked_passkey_never_signs_in_witness:
  "\<exists>ad' e. revokeCredential_stored ''key:1'' ''account:one'' 150 passkey_store = (Inr (), ad')
     \<and> fst (finishAuthentication passkey_env passkey_domains D_participant ''c1'' example_response 200 (example_world ad')) = Inl e"
proof -
  have "fst (revokeCredential_stored ''key:1'' ''account:one'' 150 passkey_store) = Inr ()" by code_simp
  then obtain ad' where revoked: "revokeCredential_stored ''key:1'' ''account:one'' 150 passkey_store = (Inr (), ad')"
    by (rule run_of)
  have "\<exists>e. fst (finishAuthentication passkey_env passkey_domains D_participant ''c1'' example_response 200 (example_world ad')) = Inl e"
    by (rule revoked_passkey_never_signs_in[OF passkey_store_reachable revoked])
       (simp_all add: example_response_def)
  thus ?thesis using revoked by blast
qed

theorem last_passkey_stays_witness:
  "\<exists>w'. revokeCredential ''key:1'' ''account:one'' D_participant True False 150 (example_world passkey_store) = (Inr (), w')
     \<and> listActive ''account:one'' D_participant (aw_store w') \<noteq> []"
proof -
  have "fst (revokeCredential ''key:1'' ''account:one'' D_participant True False 150 (example_world passkey_store)) = Inr ()" by code_simp
  then obtain w' where run: "revokeCredential ''key:1'' ''account:one'' D_participant True False 150 (example_world passkey_store)
      = (Inr (), w')" by (rule run_of)
  have "auth_event\<^sup>*\<^sup>* empty_auth_database (aw_store (example_world passkey_store))" using passkey_store_reachable by simp
  from last_passkey_stays[OF this run] show ?thesis using run by blast
qed

text \<open>An account that was invited by one person, approved by another and activated for a member.\<close>

definition committee_world :: auth_database where
  "committee_world = empty_auth_database\<lparr>ad_domain := empty_database\<lparr>
     db_committees := [\<lparr>cm_id = ''k1'', cm_external_reference = ''committee:one'', cm_state = C_active, cm_version = 1\<rparr>],
     db_members := [\<lparr>me_id = ''m1'', me_external_reference = ''member:one'', me_committee_id = ''k1'', me_state = ''active''\<rparr>]\<rparr>\<rparr>"

definition with_access :: auth_database where
  "with_access = snd (activateCommittee_access ''account:c'' ''committee:one'' ''member:one'' 300
     (snd (approveCommittee ''account:c'' ''committee:one'' ''officer:two'' 200
     (snd (inviteCommittee sample_services \<lparr>ii_accountReference = ''account:c'', ii_committeeReference = ''committee:one'',
        ii_invitedByReference = ''officer:one'', ii_invitedAt = 100\<rparr>
     (snd (createAccount sample_services \<lparr>ci_externalReference = ''account:c'', ci_trustDomain = D_committee,
        ci_participantReference = None, ci_state = None\<rparr> committee_world)))))))"

lemma with_access_reachable: "auth_event\<^sup>*\<^sup>* empty_auth_database with_access"
proof -
  have "auth_event empty_auth_database committee_world"
    using auth_event.ev_elsewhere[where ad = empty_auth_database and db = "ad_domain committee_world" and roles = "[]"
      and mroles = "[]" and vsessions = "[]" and assignments = "[]"]
    by (simp add: empty_auth_database_def committee_world_def)
  thus ?thesis unfolding with_access_def
    by (meson r_into_rtranclp auth_event.ev_createAccount auth_event.ev_inviteCommittee auth_event.ev_approveCommittee
        auth_event.ev_activateCommittee rtranclp.rtrancl_into_rtrancl)
qed

theorem committee_access_has_two_approvals_witness:
  "\<exists>snapshot. loadCommitteePrincipal ''account:c'' ''committee:one'' ''session'' ''t'' None with_access = Some snapshot
     \<and> (\<exists>x \<in> set (ad_access with_access). \<exists>approver. ax_approved_by_reference x = Some approver \<and> approver \<noteq> ax_invited_by_reference x)"
proof -
  have "loadCommitteePrincipal ''account:c'' ''committee:one'' ''session'' ''t'' None with_access \<noteq> None" by code_simp
  then obtain snapshot where load: "loadCommitteePrincipal ''account:c'' ''committee:one'' ''session'' ''t'' None with_access = Some snapshot"
    by blast
  from committee_access_has_two_approvals[OF with_access_reachable this] show ?thesis using load by blast
qed


definition suspended_access :: auth_database where
  "suspended_access = snd (recoverAndRevokeSessions sample_services ''account:c'' D_committee True ''p1'' ''s1'' ''c'' 250
     (snd (approveCommittee ''account:c'' ''committee:one'' ''officer:two'' 200
     (snd (inviteCommittee sample_services \<lparr>ii_accountReference = ''account:c'', ii_committeeReference = ''committee:one'',
        ii_invitedByReference = ''officer:one'', ii_invitedAt = 100\<rparr>
     (snd (createAccount sample_services \<lparr>ci_externalReference = ''account:c'', ci_trustDomain = D_committee,
        ci_participantReference = None, ci_state = Some U_active\<rparr> committee_world)))))))"

theorem activation_overrides_suspension_witness:
  "\<exists>ad'. map ac_state (ad_accounts suspended_access) = [U_suspended]
     \<and> activateCommittee_access ''account:c'' ''committee:one'' ''member:one'' 300 suspended_access = (Inr (), ad')
     \<and> (\<exists>a' \<in> set (ad_accounts ad'). ac_external_reference a' = ''account:c'' \<and> ac_state a' = U_active)"
proof -
  have rows: "map (\<lambda>a. (ac_external_reference a, ac_trust_domain a, ac_state a)) (ad_accounts suspended_access)
      = [(''account:c'', D_committee, U_suspended)]" by code_simp
  then obtain a where a: "ad_accounts suspended_access = [a]" "ac_external_reference a = ''account:c''" "ac_trust_domain a = D_committee"
      "ac_state a = U_suspended" by auto
  have "fst (activateCommittee_access ''account:c'' ''committee:one'' ''member:one'' 300 suspended_access) = Inr ()" by code_simp
  then obtain ad' where run: "activateCommittee_access ''account:c'' ''committee:one'' ''member:one'' 300 suspended_access = (Inr (), ad')"
    by (rule run_of)
  obtain a' where a': "a' \<in> set (ad_accounts ad')" "account_identity a' = account_identity a" "ac_state a' = U_active"
    using activation_overrides_suspension[OF run, of a] a by auto
  hence "ac_external_reference a' = ''account:c''" using a(2) by (simp add: account_identity_def)
  thus ?thesis using a run a' by auto
qed

end
