(* ===== verification/Link_Repository.thy ===== *)
theory Link_Repository
  imports Auth_Repository
begin

text \<open>
  packages/db/src/verus-link-repository.ts: the ceremonies that link a VerusID to an account (rows of
  wallet_challenge with the purpose of a link) and the links (verus_identity_link), with the constraints of
  the migrations of the two tables.  A ceremony is the row it was written as; the changes that the lifecycle
  repository makes to other rows of wallet_challenge are apart from it.  The state has the authentication
  store beside the two tables.  Columns that nothing reads (created_at, updated_at) are left out.
\<close>

section \<open>Data\<close>

datatype WalletLinkPurpose = Link_verusid | Revalidate_verusid

datatype PersistedWalletChallengeState = LC_presented | LC_consumed | LC_expired | LC_cancelled | LC_rejected

datatype PersistedIdentityLinkState = IL_active | IL_revalidation_required | IL_unlinked

fun purpose_text :: "WalletLinkPurpose \<Rightarrow> string" where
  "purpose_text Link_verusid = ''link_verusid''"
| "purpose_text Revalidate_verusid = ''revalidate_verusid''"

fun link_state_name :: "PersistedIdentityLinkState \<Rightarrow> string" where
  "link_state_name IL_active = ''active''"
| "link_state_name IL_revalidation_required = ''revalidation_required''"
| "link_state_name IL_unlinked = ''unlinked''"

record CreateWalletLinkChallengeInput =
  wi_externalReference :: string
  wi_accountReference :: string
  wi_trustDomain :: TrustDomain
  wi_purpose :: WalletLinkPurpose
  wi_network :: string
  wi_nonceHash :: string
  wi_requestId :: string
  wi_requestDigest :: string
  wi_pollingTokenDigest :: string
  wi_audience :: string
  wi_callbackUrl :: string
  wi_applicationIdentityAddress :: string
  wi_consentedScopes :: "string list"
  wi_issuedAt :: time
  wi_expiresAt :: time

record WalletLinkChallengeRecord =
  wr_externalReference :: string
  wr_accountReference :: string
  wr_participantReference :: "string option"
  wr_trustDomain :: TrustDomain
  wr_purpose :: WalletLinkPurpose
  wr_state :: PersistedWalletChallengeState
  wr_network :: string
  wr_nonceHash :: string
  wr_requestId :: string
  wr_requestDigest :: string
  wr_audience :: string
  wr_callbackUrl :: string
  wr_applicationIdentityAddress :: string
  wr_consentedScopes :: "string list"
  wr_issuedAt :: time
  wr_expiresAt :: time
  wr_responseDigest :: "string option"
  wr_linkedIdentityAddress :: "string option"
  wr_version :: int

record CompleteWalletLinkChallengeInput =
  wk_requestId :: string
  wk_responseDigest :: string
  wk_identityAddress :: string
  wk_displayNameSnapshot :: "string option"
  wk_proofDigest :: string
  wk_proofMethod :: string
  wk_requestSignerIdentity :: string
  wk_observedIdentityStatus :: string
  wk_observedIdentityBlockHeight :: int
  wk_observedIdentityTxid :: string
  wk_completedAt :: time

record CompletedWalletLink =
  wd_replayed :: bool
  wd_linkReference :: string
  wd_identityAddress :: string
  wd_state :: PersistedIdentityLinkState

datatype completion = Completed CompletedWalletLink | ExpiredWalletLinkChallenge

record WalletLinkPollResult =
  wp_challengeReference :: string
  wp_state :: PersistedWalletChallengeState
  wp_expiresAt :: time
  wp_linkReference :: "string option"
  wp_identityAddress :: "string option"

record WalletChallengeRow =
  wl_id :: string
  wl_external_reference :: string
  wl_auth_account_id :: string
  wl_participant_id :: "string option"
  wl_trust_domain :: TrustDomain
  wl_state :: PersistedWalletChallengeState
  wl_network :: string
  wl_purpose :: WalletLinkPurpose
  wl_nonce_hash :: string
  wl_request_id :: string
  wl_request_digest :: string
  wl_polling_token_digest :: string
  wl_audience :: string
  wl_callback_url :: string
  wl_application_identity_address :: string
  wl_consented_scopes :: "string list"
  wl_issued_at :: time
  wl_expires_at :: time
  wl_response_digest :: "string option"
  wl_linked_identity_address :: "string option"
  wl_consumed_at :: "time option"
  wl_rejection_reason :: "string option"
  wl_version :: int

record link_row =
  il_id :: string
  il_external_reference :: string
  il_auth_account_id :: string
  il_participant_id :: "string option"
  il_trust_domain :: TrustDomain
  il_identity_address :: string
  il_display_name_snapshot :: "string option"
  il_network :: string
  il_proof_method :: string
  il_proof_digest :: string
  il_request_signer_identity :: string
  il_observed_identity_status :: string
  il_observed_identity_block_height :: int
  il_observed_identity_txid :: string
  il_consented_scopes :: "string list"
  il_state :: PersistedIdentityLinkState
  il_linked_at :: time
  il_revalidated_at :: "time option"
  il_revalidation_reason :: "string option"
  il_unlinked_at :: "time option"
  il_version :: int

record link_database =
  ld_store :: auth_database
  ld_challenges :: "WalletChallengeRow list"
  ld_links :: "link_row list"

definition empty_link_database :: link_database where
  "empty_link_database = \<lparr>ld_store = empty_auth_database, ld_challenges = [], ld_links = []\<rparr>"

type_synonym 'a link_tx = "(link_database, repo_error, 'a) body"
type_synonym 'a link_op = "(link_database, repo_error, 'a) computation"

definition inAuth :: "'a auth_tx \<Rightarrow> 'a link_tx" where
  "inAuth m ld = bind_result (m (ld_store ld)) (\<lambda>(a, ad). Inr (a, ld\<lparr>ld_store := ad\<rparr>))"

section \<open>Constraints and statements\<close>

definition wallet_row_ok :: "WalletChallengeRow \<Rightarrow> bool" where
  "wallet_row_ok r \<longleftrightarrow>
     0 < wl_version r \<and> (wl_state r = LC_consumed \<longleftrightarrow> wl_consumed_at r \<noteq> None)
     \<and> wl_issued_at r < wl_expires_at r
     \<and> wl_callback_url r \<noteq> ''https://invalid.local/legacy'' \<and> wl_application_identity_address r \<noteq> ''legacy_unapproved''
     \<and> wl_consented_scopes r = [''verusid:link''] \<and> wl_network r = ''VRSCTEST''
     \<and> is_digest (wl_request_digest r) \<and> is_digest (wl_nonce_hash r)
     \<and> (case wl_response_digest r of None \<Rightarrow> True | Some d \<Rightarrow> is_digest d)
     \<and> prefix ''https://'' (wl_callback_url r)
     \<and> (wl_state r \<in> {LC_rejected, LC_cancelled} \<longleftrightarrow> wl_rejection_reason r \<noteq> None)"

definition wallet_clash :: "WalletChallengeRow \<Rightarrow> WalletChallengeRow \<Rightarrow> bool" where
  "wallet_clash r q \<longleftrightarrow>
     wl_id q = wl_id r \<or> wl_external_reference q = wl_external_reference r \<or> wl_nonce_hash q = wl_nonce_hash r
     \<or> wl_request_id q = wl_request_id r \<or> wl_polling_token_digest q = wl_polling_token_digest r"

definition link_row_ok :: "link_row \<Rightarrow> bool" where
  "link_row_ok r \<longleftrightarrow>
     0 < il_version r \<and> is_digest (il_proof_digest r) \<and> is_digest (il_observed_identity_txid r)
     \<and> (il_state r = IL_unlinked \<longleftrightarrow> il_unlinked_at r \<noteq> None)"

definition link_clash :: "link_row \<Rightarrow> link_row \<Rightarrow> bool" where
  "link_clash r q \<longleftrightarrow>
     il_id q = il_id r \<or> il_external_reference q = il_external_reference r
     \<or> (il_auth_account_id q = il_auth_account_id r \<and> il_network q = il_network r
        \<and> il_identity_address q = il_identity_address r)"

definition insert_wallet :: "WalletChallengeRow \<Rightarrow> unit link_tx" where
  "insert_wallet r =
     bindT (requireT (wallet_row_ok r) (DatabaseError ''23514'')) (\<lambda>_.
     bindT (readT ld_challenges) (\<lambda>rows.
     bindT (liftT (insert_unique (wallet_clash r) r rows)) (\<lambda>rows'.
     writeT (\<lambda>ld. ld\<lparr>ld_challenges := rows'\<rparr>))))"

definition update_wallet :: "(WalletChallengeRow \<Rightarrow> bool) \<Rightarrow> (WalletChallengeRow \<Rightarrow> WalletChallengeRow) \<Rightarrow> unit link_tx" where
  "update_wallet P f =
     bindT (readT ld_challenges) (\<lambda>rows.
     bindT (liftT (update_checked P f (\<lambda>old new. wallet_row_ok new) rows)) (\<lambda>rows'.
     writeT (\<lambda>ld. ld\<lparr>ld_challenges := rows'\<rparr>)))"

definition insert_link :: "link_row \<Rightarrow> unit link_tx" where
  "insert_link r =
     bindT (requireT (link_row_ok r) (DatabaseError ''23514'')) (\<lambda>_.
     bindT (readT ld_links) (\<lambda>rows.
     bindT (liftT (insert_unique (link_clash r) r rows)) (\<lambda>rows'.
     writeT (\<lambda>ld. ld\<lparr>ld_links := rows'\<rparr>))))"

definition update_links :: "(link_row \<Rightarrow> bool) \<Rightarrow> (link_row \<Rightarrow> link_row) \<Rightarrow> unit link_tx" where
  "update_links P f =
     bindT (readT ld_links) (\<lambda>rows.
     bindT (liftT (update_checked P f (\<lambda>old new. link_row_ok new) rows)) (\<lambda>rows'.
     writeT (\<lambda>ld. ld\<lparr>ld_links := rows'\<rparr>)))"

section \<open>Private functions\<close>

definition requireDigest :: "string \<Rightarrow> string \<Rightarrow> repo_error + unit" where
  "requireDigest val field =
     (if \<not> is_digest val then Inl (RepositoryConflictError (field @ '' must be a lowercase SHA-256 digest'')) else Inr ())"

lemma requireDigest_Inr [simp]: "requireDigest val field = Inr u \<longleftrightarrow> is_digest val"
  by (auto simp: requireDigest_def)

definition account_reference_of :: "auth_database \<Rightarrow> string \<Rightarrow> string option" where
  "account_reference_of ad i = map_option ac_external_reference (select_where (\<lambda>a. ac_id a = i) (ad_accounts ad))"

definition participant_reference_of :: "auth_database \<Rightarrow> string option \<Rightarrow> string option" where
  "participant_reference_of ad pid =
     (case pid of None \<Rightarrow> None
      | Some i \<Rightarrow> map_option pa_external_reference (select_where (\<lambda>p. pa_id p = i) (db_participants (ad_domain ad))))"

text \<open>The row of the SELECT with its account: the columns of the challenge, the reference of the account and
  the reference of the participant.\<close>

record ChallengeView =
  cv_row :: WalletChallengeRow
  cv_account_reference :: string
  cv_participant_reference :: "string option"

definition challengeSelect :: "(string \<Rightarrow> WalletChallengeRow \<Rightarrow> bool) \<Rightarrow> link_database \<Rightarrow> ChallengeView option" where
  "challengeSelect P ld =
     (let reference = (\<lambda>r. account_reference_of (ld_store ld) (wl_auth_account_id r)) in
      case select_where (\<lambda>r. case reference r of None \<Rightarrow> False | Some a \<Rightarrow> P a r) (ld_challenges ld) of
        None \<Rightarrow> None
      | Some r \<Rightarrow> Some \<lparr>cv_row = r, cv_account_reference = the (reference r),
          cv_participant_reference = participant_reference_of (ld_store ld) (wl_participant_id r)\<rparr>)"

definition non_empty :: "string option \<Rightarrow> string option" where
  "non_empty x = (if truthy x then x else None)"

definition mapChallenge :: "ChallengeView \<Rightarrow> WalletLinkChallengeRecord" where
  "mapChallenge v =
     (let row = cv_row v in
      \<lparr>wr_externalReference = wl_external_reference row, wr_accountReference = cv_account_reference v,
       wr_participantReference = non_empty (cv_participant_reference v), wr_trustDomain = wl_trust_domain row,
       wr_purpose = wl_purpose row, wr_state = wl_state row, wr_network = wl_network row, wr_nonceHash = wl_nonce_hash row,
       wr_requestId = wl_request_id row, wr_requestDigest = wl_request_digest row, wr_audience = wl_audience row,
       wr_callbackUrl = wl_callback_url row, wr_applicationIdentityAddress = wl_application_identity_address row,
       wr_consentedScopes = wl_consented_scopes row, wr_issuedAt = wl_issued_at row, wr_expiresAt = wl_expires_at row,
       wr_responseDigest = non_empty (wl_response_digest row),
       wr_linkedIdentityAddress = non_empty (wl_linked_identity_address row), wr_version = wl_version row\<rparr>)"

definition selected_challenge :: "(string \<Rightarrow> WalletChallengeRow \<Rightarrow> bool) \<Rightarrow> ChallengeView link_tx" where
  "selected_challenge P =
     bindT (readT (challengeSelect P)) (\<lambda>found.
     case found of None \<Rightarrow> throwT (RepositoryConflictError ''wallet challenge is unavailable'') | Some v \<Rightarrow> returnT v)"

definition challengeById :: "string \<Rightarrow> WalletLinkChallengeRecord link_tx" where
  "challengeById challengeId =
     bindT (selected_challenge (\<lambda>_ r. wl_id r = challengeId)) (\<lambda>v. returnT (mapChallenge v))"

definition account_link :: "string \<Rightarrow> TrustDomain \<Rightarrow> auth_account_row link_tx" where
  "account_link accountReference trustDomain =
     bindT (readT (\<lambda>ld. select_where (\<lambda>a. ac_external_reference a = accountReference \<and> ac_trust_domain a = trustDomain
        \<and> ac_state a = U_active) (ad_accounts (ld_store ld)))) (\<lambda>found.
     case found of
       None \<Rightarrow> throwT (RepositoryConflictError ''account is unavailable'')
     | Some a \<Rightarrow>
         bindT (requireT (\<not> (trustDomain = D_participant \<and> \<not> truthy (ac_participant_id a)))
           (RepositoryConflictError ''participant account binding is unavailable'')) (\<lambda>_.
         returnT a))"

definition participantId_link :: "string \<Rightarrow> string link_tx" where
  "participantId_link reference =
     bindT (readT (\<lambda>ld. select_where (\<lambda>p. pa_external_reference p = reference) (db_participants (ad_domain (ld_store ld))))) (\<lambda>found.
     case found of
       None \<Rightarrow> throwT (RepositoryConflictError ''participant is unavailable'')
     | Some p \<Rightarrow> returnT (pa_id p))"

text \<open>The condition on verus_identity_link that two statements share.\<close>

definition link_of :: "string \<Rightarrow> string \<Rightarrow> link_database \<Rightarrow> link_row option" where
  "link_of accountId identityAddress ld =
     select_where (\<lambda>l. il_auth_account_id l = accountId \<and> il_network l = ''VRSCTEST'' \<and> il_identity_address l = identityAddress)
       (ld_links ld)"

definition linkForAccountAndIdentity :: "string \<Rightarrow> string \<Rightarrow> link_row link_tx" where
  "linkForAccountAndIdentity accountId identityAddress =
     bindT (readT (link_of accountId identityAddress)) (\<lambda>found.
     case found of
       None \<Rightarrow> throwT (RepositoryConflictError ''Verus identity link is unavailable'')
     | Some l \<Rightarrow> returnT l)"

definition link_audit :: "services \<Rightarrow> CommandContext \<Rightarrow> string \<Rightarrow> string \<Rightarrow> string \<Rightarrow> string option \<Rightarrow> string \<Rightarrow> unit link_tx" where
  "link_audit sv context command type reference prior new =
     bindT (inAuth (inDomain (appendAudit sv context None command
        \<lparr>tg_type = type, tg_reference = reference, tg_priorState = prior, tg_newState = Some new\<rparr> ''succeeded''))) (\<lambda>_.
     returnT ())"

definition new_id :: "services \<Rightarrow> string link_tx" where
  "new_id sv = inAuth (inDomain (newId sv))"

text \<open>The step that three operations share: a presented challenge at or after its expiry becomes expired.\<close>

definition expire_row :: "WalletChallengeRow \<Rightarrow> WalletChallengeRow" where
  "expire_row r = r\<lparr>wl_state := LC_expired, wl_version := wl_version r + 1\<rparr>"

definition expire_challenge :: "services \<Rightarrow> CommandContext \<Rightarrow> WalletChallengeRow \<Rightarrow> unit link_tx" where
  "expire_challenge sv context challenge =
     bindT (update_wallet (\<lambda>r. wl_id r = wl_id challenge) expire_row) (\<lambda>_.
     link_audit sv context ''expireWalletLinkChallenge'' ''wallet_challenge'' (wl_external_reference challenge)
       (Some ''presented'') ''expired'')"

section \<open>Operations\<close>

definition new_challenge :: "CreateWalletLinkChallengeInput \<Rightarrow> auth_account_row \<Rightarrow> string \<Rightarrow> WalletChallengeRow" where
  "new_challenge inp a challengeId =
     \<lparr>wl_id = challengeId, wl_external_reference = wi_externalReference inp, wl_auth_account_id = ac_id a,
      wl_participant_id = ac_participant_id a, wl_trust_domain = wi_trustDomain inp, wl_state = LC_presented,
      wl_network = ''VRSCTEST'', wl_purpose = wi_purpose inp, wl_nonce_hash = wi_nonceHash inp,
      wl_request_id = wi_requestId inp, wl_request_digest = wi_requestDigest inp,
      wl_polling_token_digest = wi_pollingTokenDigest inp, wl_audience = wi_audience inp,
      wl_callback_url = wi_callbackUrl inp, wl_application_identity_address = wi_applicationIdentityAddress inp,
      wl_consented_scopes = sort (wi_consentedScopes inp), wl_issued_at = wi_issuedAt inp, wl_expires_at = wi_expiresAt inp,
      wl_response_digest = None, wl_linked_identity_address = None, wl_consumed_at = None, wl_rejection_reason = None,
      wl_version = 1\<rparr>"

definition createChallenge_link_body ::
  "services \<Rightarrow> CreateWalletLinkChallengeInput \<Rightarrow> CommandContext \<Rightarrow> WalletLinkChallengeRecord link_tx" where
  "createChallenge_link_body sv inp context =
     bindT (account_link (wi_accountReference inp) (wi_trustDomain inp)) (\<lambda>a.
     bindT (new_id sv) (\<lambda>challengeId.
     bindT (insert_wallet (new_challenge inp a challengeId)) (\<lambda>_.
     bindT (link_audit sv context ''createWalletLinkChallenge'' ''wallet_challenge'' (wi_externalReference inp) None ''presented'') (\<lambda>_.
     challengeById challengeId))))"

definition createChallenge_link_checks :: "CreateWalletLinkChallengeInput \<Rightarrow> repo_error + unit" where
  "createChallenge_link_checks inp =
     bind_result (requireOpaqueReference (wi_externalReference inp) ''wallet challenge reference'') (\<lambda>_.
     bind_result (requireOpaqueReference (wi_accountReference inp) ''account reference'') (\<lambda>_.
     bind_result (requireDigest (wi_nonceHash inp) ''nonce hash'') (\<lambda>_.
     bind_result (requireDigest (wi_requestDigest inp) ''request digest'') (\<lambda>_.
     bind_result (requireDigest (wi_pollingTokenDigest inp) ''polling token digest'') (\<lambda>_.
     bind_result (require (\<not> wi_expiresAt inp \<le> wi_issuedAt inp)
        (RepositoryConflictError ''wallet challenge expiry must follow issuance'')) (\<lambda>_.
     require (wi_network inp = ''VRSCTEST'') (RepositoryConflictError ''wallet challenge network is unsupported'')))))))"

text \<open>The checks of the arguments precede the transaction.\<close>

definition checked :: "repo_error + unit \<Rightarrow> 'a link_op \<Rightarrow> 'a link_op" where
  "checked c m ld = (case c of Inl e \<Rightarrow> (Inl e, ld) | Inr _ \<Rightarrow> m ld)"

lemma checked_Inr [simp]: "checked c m ld = (Inr a, ld') \<longleftrightarrow> c = Inr () \<and> m ld = (Inr a, ld')"
  by (cases c) (auto simp: checked_def)

definition createChallenge_link ::
  "services \<Rightarrow> CreateWalletLinkChallengeInput \<Rightarrow> CommandContext \<Rightarrow> WalletLinkChallengeRecord link_op" where
  "createChallenge_link sv inp context =
     checked (createChallenge_link_checks inp) (transaction (createChallenge_link_body sv inp context))"

definition references_account :: "string \<Rightarrow> string \<Rightarrow> string \<Rightarrow> WalletChallengeRow \<Rightarrow> bool" where
  "references_account accountReference pollingTokenDigest a r \<longleftrightarrow>
     a = accountReference \<and> wl_polling_token_digest r = pollingTokenDigest"

definition poll_checks :: "string \<Rightarrow> string \<Rightarrow> repo_error + unit" where
  "poll_checks accountReference pollingTokenDigest =
     bind_result (requireOpaqueReference accountReference ''account reference'') (\<lambda>_.
     requireDigest pollingTokenDigest ''polling token digest'')"

definition challengeForPoll :: "string \<Rightarrow> string \<Rightarrow> WalletLinkChallengeRecord link_op" where
  "challengeForPoll accountReference pollingTokenDigest =
     checked (poll_checks accountReference pollingTokenDigest) (statement
       (bindT (selected_challenge (references_account accountReference pollingTokenDigest)) (\<lambda>v. returnT (mapChallenge v))))"

definition refresh_link :: "CompleteWalletLinkChallengeInput \<Rightarrow> WalletChallengeRow \<Rightarrow> link_row \<Rightarrow> link_row" where
  "refresh_link inp challenge l =
     l\<lparr>il_display_name_snapshot := wk_displayNameSnapshot inp, il_proof_method := wk_proofMethod inp,
       il_proof_digest := wk_proofDigest inp, il_request_signer_identity := wk_requestSignerIdentity inp,
       il_observed_identity_status := wk_observedIdentityStatus inp,
       il_observed_identity_block_height := wk_observedIdentityBlockHeight inp,
       il_observed_identity_txid := wk_observedIdentityTxid inp, il_consented_scopes := wl_consented_scopes challenge,
       il_state := IL_active, il_revalidated_at := Some (wk_completedAt inp), il_revalidation_reason := None,
       il_unlinked_at := None, il_version := il_version l + 1\<rparr>"

definition new_link ::
  "CompleteWalletLinkChallengeInput \<Rightarrow> WalletChallengeRow \<Rightarrow> string \<Rightarrow> string \<Rightarrow> string option \<Rightarrow> link_row" where
  "new_link inp challenge linkId linkReference pid =
     \<lparr>il_id = linkId, il_external_reference = linkReference, il_auth_account_id = wl_auth_account_id challenge,
      il_participant_id = pid, il_trust_domain = wl_trust_domain challenge, il_identity_address = wk_identityAddress inp,
      il_display_name_snapshot = wk_displayNameSnapshot inp, il_network = ''VRSCTEST'', il_proof_method = wk_proofMethod inp,
      il_proof_digest = wk_proofDigest inp, il_request_signer_identity = wk_requestSignerIdentity inp,
      il_observed_identity_status = wk_observedIdentityStatus inp,
      il_observed_identity_block_height = wk_observedIdentityBlockHeight inp,
      il_observed_identity_txid = wk_observedIdentityTxid inp, il_consented_scopes = wl_consented_scopes challenge,
      il_state = IL_active, il_linked_at = wk_completedAt inp, il_revalidated_at = None, il_revalidation_reason = None,
      il_unlinked_at = None, il_version = 1\<rparr>"

text \<open>The reference of the link: that of the existing row, or a new one after its row is written.\<close>

definition write_link ::
  "services \<Rightarrow> CompleteWalletLinkChallengeInput \<Rightarrow> ChallengeView \<Rightarrow> link_row option \<Rightarrow> string link_tx" where
  "write_link sv inp view existing =
     (let challenge = cv_row view in
      case existing of
        Some l \<Rightarrow>
          bindT (update_links (\<lambda>q. il_id q = il_id l) (refresh_link inp challenge)) (\<lambda>_.
          returnT (il_external_reference l))
      | None \<Rightarrow>
          bindT (new_id sv) (\<lambda>linkId.
          bindT (new_id sv) (\<lambda>i.
          let linkReference = ''verus_link_'' @ filter (\<lambda>c. c \<noteq> CHR ''-'') i in
          bindT (if truthy (cv_participant_reference view)
                 then bindT (participantId_link (the (cv_participant_reference view))) (\<lambda>p. returnT (Some p))
                 else returnT None) (\<lambda>pid.
          bindT (insert_link (new_link inp challenge linkId linkReference pid)) (\<lambda>_.
          returnT linkReference)))))"

definition consume_challenge_row :: "CompleteWalletLinkChallengeInput \<Rightarrow> WalletChallengeRow \<Rightarrow> WalletChallengeRow" where
  "consume_challenge_row inp r =
     r\<lparr>wl_state := LC_consumed, wl_response_digest := Some (wk_responseDigest inp),
       wl_linked_identity_address := Some (wk_identityAddress inp), wl_consumed_at := Some (wk_completedAt inp),
       wl_version := wl_version r + 1\<rparr>"

definition complete_presented ::
  "services \<Rightarrow> CompleteWalletLinkChallengeInput \<Rightarrow> CommandContext \<Rightarrow> ChallengeView \<Rightarrow> completion link_tx" where
  "complete_presented sv inp context view =
     (let challenge = cv_row view in
      bindT (readT (link_of (wl_auth_account_id challenge) (wk_identityAddress inp))) (\<lambda>existing.
      bindT (write_link sv inp view existing) (\<lambda>linkReference.
      bindT (update_wallet (\<lambda>r. wl_id r = wl_id challenge) (consume_challenge_row inp)) (\<lambda>_.
      bindT (link_audit sv context ''consumeWalletLinkChallenge'' ''wallet_challenge'' (wl_external_reference challenge)
         (Some ''presented'') ''consumed'') (\<lambda>_.
      bindT (link_audit sv context (if existing = None then ''createVerusIdentityLink'' else ''revalidateVerusIdentityLink'')
         ''verus_identity_link'' linkReference (map_option (\<lambda>l. link_state_name (il_state l)) existing) ''active'') (\<lambda>_.
      returnT (Completed \<lparr>wd_replayed = False, wd_linkReference = linkReference, wd_identityAddress = wk_identityAddress inp,
        wd_state = IL_active\<rparr>)))))))"

definition completeChallenge_body ::
  "services \<Rightarrow> CompleteWalletLinkChallengeInput \<Rightarrow> CommandContext \<Rightarrow> completion link_tx" where
  "completeChallenge_body sv inp context =
     bindT (selected_challenge (\<lambda>_ r. wl_request_id r = wk_requestId inp)) (\<lambda>view.
     let challenge = cv_row view in
     if wl_state challenge = LC_consumed then
       bindT (requireT (wl_response_digest challenge = Some (wk_responseDigest inp)
          \<and> wl_linked_identity_address challenge = Some (wk_identityAddress inp))
          (RepositoryConflictError ''wallet challenge was already consumed'')) (\<lambda>_.
       bindT (linkForAccountAndIdentity (wl_auth_account_id challenge) (wk_identityAddress inp)) (\<lambda>link.
       returnT (Completed \<lparr>wd_replayed = True, wd_linkReference = il_external_reference link,
         wd_identityAddress = wk_identityAddress inp, wd_state = IL_active\<rparr>)))
     else
       bindT (requireT (wl_state challenge = LC_presented) (RepositoryConflictError ''wallet challenge is unavailable'')) (\<lambda>_.
       if wk_completedAt inp \<ge> wl_expires_at challenge
       then bindT (expire_challenge sv context challenge) (\<lambda>_. returnT ExpiredWalletLinkChallenge)
       else complete_presented sv inp context view))"

definition completeChallenge ::
  "services \<Rightarrow> CompleteWalletLinkChallengeInput \<Rightarrow> CommandContext \<Rightarrow> completion link_op" where
  "completeChallenge sv inp context =
     checked (bind_result (requireDigest (wk_responseDigest inp) ''response digest'') (\<lambda>_.
        bind_result (requireDigest (wk_proofDigest inp) ''proof digest'') (\<lambda>_.
        requireDigest (wk_observedIdentityTxid inp) ''observed identity transaction identifier'')))
       (transaction (completeChallenge_body sv inp context))"

definition pollChallenge_body :: "services \<Rightarrow> string \<Rightarrow> string \<Rightarrow> time \<Rightarrow> CommandContext \<Rightarrow> WalletLinkPollResult link_tx" where
  "pollChallenge_body sv accountReference pollingTokenDigest now context =
     bindT (selected_challenge (references_account accountReference pollingTokenDigest)) (\<lambda>view.
     let challenge = cv_row view; lapsed = wl_state challenge = LC_presented \<and> now \<ge> wl_expires_at challenge;
         state = (if lapsed then LC_expired else wl_state challenge) in
     bindT (if lapsed then expire_challenge sv context challenge else returnT ()) (\<lambda>_.
     bindT (if state = LC_consumed \<and> truthy (wl_linked_identity_address challenge)
            then bindT (linkForAccountAndIdentity (wl_auth_account_id challenge) (the (wl_linked_identity_address challenge)))
                   (\<lambda>l. returnT (Some l))
            else returnT None) (\<lambda>link.
     returnT \<lparr>wp_challengeReference = wl_external_reference challenge, wp_state = state, wp_expiresAt = wl_expires_at challenge,
       wp_linkReference = map_option il_external_reference link,
       wp_identityAddress = (if link = None then None else wl_linked_identity_address challenge)\<rparr>)))"

definition pollChallenge :: "services \<Rightarrow> string \<Rightarrow> string \<Rightarrow> time \<Rightarrow> CommandContext \<Rightarrow> WalletLinkPollResult link_op" where
  "pollChallenge sv accountReference pollingTokenDigest now context =
     checked (poll_checks accountReference pollingTokenDigest)
       (transaction (pollChallenge_body sv accountReference pollingTokenDigest now context))"

definition cancel_row :: "WalletChallengeRow \<Rightarrow> WalletChallengeRow" where
  "cancel_row r = r\<lparr>wl_state := LC_cancelled, wl_rejection_reason := Some ''user_cancelled'', wl_version := wl_version r + 1\<rparr>"

definition cancelChallenge_body :: "services \<Rightarrow> string \<Rightarrow> string \<Rightarrow> time \<Rightarrow> CommandContext \<Rightarrow> unit link_tx" where
  "cancelChallenge_body sv accountReference challengeReference cancelledAt context =
     bindT (selected_challenge (\<lambda>a r. a = accountReference \<and> wl_external_reference r = challengeReference)) (\<lambda>view.
     let challenge = cv_row view in
     if wl_state challenge = LC_cancelled then returnT ()
     else
       bindT (requireT (wl_state challenge = LC_presented) (RepositoryConflictError ''wallet challenge is unavailable'')) (\<lambda>_.
       if cancelledAt \<ge> wl_expires_at challenge then expire_challenge sv context challenge
       else
         bindT (update_wallet (\<lambda>r. wl_id r = wl_id challenge) cancel_row) (\<lambda>_.
         link_audit sv context ''cancelWalletLinkChallenge'' ''wallet_challenge'' (wl_external_reference challenge)
           (Some ''presented'') ''cancelled'')))"

definition cancelChallenge :: "services \<Rightarrow> string \<Rightarrow> string \<Rightarrow> time \<Rightarrow> CommandContext \<Rightarrow> unit link_op" where
  "cancelChallenge sv accountReference challengeReference cancelledAt context =
     checked (bind_result (requireOpaqueReference accountReference ''account reference'') (\<lambda>_.
        requireOpaqueReference challengeReference ''wallet challenge reference''))
       (transaction (cancelChallenge_body sv accountReference challengeReference cancelledAt context))"

definition unlink_row :: "time \<Rightarrow> link_row \<Rightarrow> link_row" where
  "unlink_row unlinkedAt l = l\<lparr>il_state := IL_unlinked, il_unlinked_at := Some unlinkedAt, il_version := il_version l + 1\<rparr>"

definition unlink_body :: "services \<Rightarrow> string \<Rightarrow> string \<Rightarrow> time \<Rightarrow> CommandContext \<Rightarrow> unit link_tx" where
  "unlink_body sv accountReference linkReference unlinkedAt context =
     bindT (readT (\<lambda>ld. select_where (\<lambda>l. account_reference_of (ld_store ld) (il_auth_account_id l) = Some accountReference
        \<and> il_external_reference l = linkReference) (ld_links ld))) (\<lambda>found.
     case found of
       None \<Rightarrow> throwT (RepositoryConflictError ''Verus identity link is unavailable'')
     | Some link \<Rightarrow>
         bindT (requireT (il_state link \<noteq> IL_unlinked) (RepositoryConflictError ''Verus identity link is unavailable'')) (\<lambda>_.
         bindT (update_links (\<lambda>l. il_id l = il_id link) (unlink_row unlinkedAt)) (\<lambda>_.
         link_audit sv context ''unlinkVerusIdentity'' ''verus_identity_link'' linkReference
           (Some (link_state_name (il_state link))) ''unlinked'')))"

definition unlink :: "services \<Rightarrow> string \<Rightarrow> string \<Rightarrow> time \<Rightarrow> CommandContext \<Rightarrow> unit link_op" where
  "unlink sv accountReference linkReference unlinkedAt context =
     checked (bind_result (requireOpaqueReference accountReference ''account reference'') (\<lambda>_.
        requireOpaqueReference linkReference ''Verus identity link reference''))
       (transaction (unlink_body sv accountReference linkReference unlinkedAt context))"

datatype RevalidationReason = Identity_recovered | Identity_revoked | Identity_revision_changed

fun reason_name :: "RevalidationReason \<Rightarrow> string" where
  "reason_name Identity_recovered = ''identity_recovered''"
| "reason_name Identity_revoked = ''identity_revoked''"
| "reason_name Identity_revision_changed = ''identity_revision_changed''"

definition revalidate_row :: "RevalidationReason \<Rightarrow> link_row \<Rightarrow> link_row" where
  "revalidate_row reason l = l\<lparr>il_state := IL_revalidation_required, il_revalidation_reason := Some (reason_name reason),
     il_version := il_version l + 1\<rparr>"

fun revalidate_each :: "services \<Rightarrow> RevalidationReason \<Rightarrow> CommandContext \<Rightarrow> link_row list \<Rightarrow> unit link_tx" where
  "revalidate_each sv reason context [] = returnT ()"
| "revalidate_each sv reason context (link # links) =
     bindT (update_links (\<lambda>l. il_id l = il_id link) (revalidate_row reason)) (\<lambda>_.
     bindT (link_audit sv context ''requireVerusIdentityRevalidation'' ''verus_identity_link'' (il_external_reference link)
        (Some ''active'') ''revalidation_required'') (\<lambda>_.
     revalidate_each sv reason context links))"

definition requireRevalidation_body :: "services \<Rightarrow> string \<Rightarrow> RevalidationReason \<Rightarrow> CommandContext \<Rightarrow> nat link_tx" where
  "requireRevalidation_body sv identityAddress reason context =
     bindT (readT (\<lambda>ld. filter (\<lambda>l. il_network l = ''VRSCTEST'' \<and> il_identity_address l = identityAddress
        \<and> il_state l = IL_active) (ld_links ld))) (\<lambda>links.
     bindT (revalidate_each sv reason context links) (\<lambda>_.
     returnT (length links)))"

definition requireRevalidation :: "services \<Rightarrow> string \<Rightarrow> RevalidationReason \<Rightarrow> CommandContext \<Rightarrow> nat link_op" where
  "requireRevalidation sv identityAddress reason context =
     transaction (requireRevalidation_body sv identityAddress reason context)"

end
