(* ===== verification/Link_Service.thy ===== *)
theory Link_Service
  imports Link_Repository Auth_Services Verus_Node
begin

text \<open>
  packages/verus-linking/src/service.ts: the service that links a VerusID to an account, over the link
  repository and the rate limiter of the authentication package.  The hosted identity service is the record
  \<open>HostedVerusIdAuthClient\<close> of functions on the state of what is outside, beside the adapter of the Verus
  node; HMAC-SHA-256 in the alphabet base64url is an argument.
\<close>

section \<open>Data\<close>

datatype HostedAuthErrorCode = H_UNAVAILABLE | H_INCOMPATIBLE | H_INVALID_RESPONSE | H_INVALID_TOKEN

text \<open>What a call of the hosted client rejects with: an error of its class, or any other.\<close>

datatype hosted_error = HostedAuthError HostedAuthErrorCode | OtherHostedError string

record CreateHostedChallengeInput =
  hc_state :: string
  hc_audience :: string
  hc_purpose :: WalletLinkPurpose
  hc_issuedAt :: time
  hc_expiresAt :: time

record HostedChallenge =
  hg_challengeId :: string
  hg_deepLink :: string
  hg_presentationDigest :: string
  hg_signerIdentityAddress :: string
  hg_callbackUrl :: string
  hg_issuedAt :: time
  hg_expiresAt :: time

record GetHostedResultInput =
  gr_challengeId :: string
  gr_state :: string
  gr_audience :: string
  gr_issuedAt :: time
  gr_expiresAt :: time
  gr_now :: time

record VerifiedHostedResult =
  vh_identityAddress :: string
  vh_displayNameSnapshot :: "string option"
  vh_proofDigest :: string
  vh_tokenIssuedAt :: time
  vh_tokenExpiresAt :: time

datatype HostedResult = Pending | Verified VerifiedHostedResult

record 'x HostedVerusIdAuthClient =
  hosted_createChallenge :: "CreateHostedChallengeInput \<Rightarrow> ('x, hosted_error, HostedChallenge) computation"
  hosted_getResult :: "GetHostedResultInput \<Rightarrow> ('x, hosted_error, HostedResult) computation"
  hosted_acknowledgeResult :: "string \<Rightarrow> string \<Rightarrow> ('x, hosted_error, unit) computation"

datatype WalletLinkErrorCode =
    FEATURE_DISABLED | MAINNET_BLOCKED | INVALID_REQUEST | CHALLENGE_UNAVAILABLE | CHALLENGE_EXPIRED
  | AUTH_SERVICE_UNAVAILABLE | AUTH_SERVICE_INCOMPATIBLE

fun publicMessage :: "WalletLinkErrorCode \<Rightarrow> string" where
  "publicMessage FEATURE_DISABLED = ''Optional VRSCTEST VerusID linking is not enabled.''"
| "publicMessage MAINNET_BLOCKED = ''VerusID linking is available on VRSCTEST only.''"
| "publicMessage CHALLENGE_EXPIRED = ''The VerusID linking request expired. Start again.''"
| "publicMessage CHALLENGE_UNAVAILABLE = ''The VerusID linking request is unavailable. Start again.''"
| "publicMessage AUTH_SERVICE_UNAVAILABLE = ''The VRSCTEST identity service is temporarily unavailable.''"
| "publicMessage AUTH_SERVICE_INCOMPATIBLE = ''The VRSCTEST identity service did not meet the approved compatibility contract.''"
| "publicMessage INVALID_REQUEST = ''The VerusID linking result could not be accepted.''"

record WalletLinkServiceConfig =
  lf_enabled :: bool
  lf_network :: string
  lf_applicationIdentityAddress :: string
  lf_authServiceCallbackUrl :: string
  lf_participantAudience :: string
  lf_committeeAudience :: string
  lf_bindingSecret :: string
  lf_pollingTokenSecret :: string

record WalletLinkPrincipal =
  lp_accountReference :: string
  lp_trustDomain :: TrustDomain
  lp_authenticationStrength :: string

record BeginWalletLinkInput =
  lb_principal :: WalletLinkPrincipal
  lb_purpose :: "WalletLinkPurpose option"
  lb_scopes :: "string list"
  lb_now :: time
  lb_correlationId :: string

record WalletLinkPresentation =
  lq_challengeReference :: string
  lq_network :: string
  lq_requesterIdentity :: string
  lq_purpose :: WalletLinkPurpose
  lq_scopes :: "string list"
  lq_expiresAt :: string
  lq_sameDeviceUrl :: string
  lq_qrPayload :: string
  lq_pollingToken :: string
  lq_operational :: bool
  lq_limitations :: "string list"

record PollInput =
  po_principal :: WalletLinkPrincipal
  po_pollingToken :: string
  po_now :: time
  po_correlationId :: string

section \<open>The world of the service\<close>

record 'x link_world =
  lw_store :: link_database
  lw_tokens :: nat
  lw_ids :: nat
  lw_outside :: 'x

datatype link_failure =
  WalletLinkError WalletLinkErrorCode | LinkStoreError repo_error | LinkAuthFailure auth_failure | LinkNodeError worker_error

type_synonym ('x, 'a) link_service = "('x link_world, link_failure, 'a) computation"

text \<open>What the service is built with.\<close>

record 'x link_setup =
  ls_config :: WalletLinkServiceConfig
  ls_env :: "'x environment"
  ls_rateSecret :: string
  ls_hosted :: "'x HostedVerusIdAuthClient"
  ls_adapter :: "'x VerusRpcAdapter"
  ls_hmac64 :: "string \<Rightarrow> string \<Rightarrow> string"

definition inLinks :: "'a link_op \<Rightarrow> ('x, 'a) link_service" where
  "inLinks m w = (case m (lw_store w) of (r, ld) \<Rightarrow> (map_error LinkStoreError r, w\<lparr>lw_store := ld\<rparr>))"

definition inAuthWorld :: "('x, 'a) auth_service \<Rightarrow> ('x, 'a) link_service" where
  "inAuthWorld m w =
     (case m \<lparr>aw_store = ld_store (lw_store w), aw_tokens = lw_tokens w, aw_ids = lw_ids w, aw_outside = lw_outside w\<rparr> of
        (r, aw) \<Rightarrow> (map_error LinkAuthFailure r,
          \<lparr>lw_store = (lw_store w)\<lparr>ld_store := aw_store aw\<rparr>, lw_tokens = aw_tokens aw, lw_ids = aw_ids aw,
           lw_outside = aw_outside aw\<rparr>))"

definition hostedError :: "hosted_error \<Rightarrow> WalletLinkErrorCode" where
  "hostedError e = (if e = HostedAuthError H_INCOMPATIBLE then AUTH_SERVICE_INCOMPATIBLE else AUTH_SERVICE_UNAVAILABLE)"

definition inHosted :: "('x, hosted_error, 'a) computation \<Rightarrow> ('x, 'a) link_service" where
  "inHosted m w = (case m (lw_outside w) of (r, x) \<Rightarrow>
     (map_error (\<lambda>e. WalletLinkError (hostedError e)) r, w\<lparr>lw_outside := x\<rparr>))"

text \<open>Promise.all of two calls: both are made, and the first error is the error of the pair.\<close>

definition both :: "('x, 'a) effect \<Rightarrow> ('x, 'b) effect \<Rightarrow> ('x, 'a \<times> 'b) effect" where
  "both m n x = (case m x of (r, x1) \<Rightarrow> (case n x1 of (q, x2) \<Rightarrow> (bind_result r (\<lambda>a. bind_result q (\<lambda>b. Inr (a, b))), x2)))"

definition inNode :: "('x, 'a) effect \<Rightarrow> ('x, 'a) link_service" where
  "inNode m w = (case m (lw_outside w) of (r, x) \<Rightarrow> (map_error LinkNodeError r, w\<lparr>lw_outside := x\<rparr>))"

section \<open>Helpers\<close>

definition CHALLENGE_LIFETIME_MS :: int where "CHALLENGE_LIFETIME_MS = 5 * 60000"

definition REQUEST_WINDOW_MS :: int where "REQUEST_WINDOW_MS = 15 * 60000"

definition REQUEST_LIMIT :: int where "REQUEST_LIMIT = 10"

definition ALLOWED_SCOPES :: "string list" where "ALLOWED_SCOPES = [''verusid:link'']"

fun trust_domain_name :: "TrustDomain \<Rightarrow> string" where
  "trust_domain_name D_participant = ''participant''"
| "trust_domain_name D_committee = ''committee''"

record HostedStateBinding =
  hb_accountReference :: string
  hb_trustDomain :: TrustDomain
  hb_purpose :: WalletLinkPurpose
  hb_audience :: string
  hb_issuedAt :: time
  hb_expiresAt :: time

definition hosted_state_material :: "HostedStateBinding \<Rightarrow> string" where
  "hosted_state_material b = join [char_of (31::nat)]
     [''cbc.hosted-verusid-link.state.v1'', hb_accountReference b, trust_domain_name (hb_trustDomain b),
      purpose_text (hb_purpose b), hb_audience b, toISOString (hb_issuedAt b), toISOString (hb_expiresAt b)]"

definition deriveHostedState :: "(string \<Rightarrow> string \<Rightarrow> string) \<Rightarrow> string \<Rightarrow> HostedStateBinding \<Rightarrow> string" where
  "deriveHostedState hmac64 secret b = hmac64 secret (hosted_state_material b)"

definition normalizeScopes :: "string list \<Rightarrow> WalletLinkErrorCode + string list" where
  "normalizeScopes scopes =
     (let normalized = sort (remdups scopes) in
      if normalized = [] \<or> list_ex (\<lambda>s. s \<notin> set ALLOWED_SCOPES) normalized then Inl INVALID_REQUEST else Inr normalized)"

definition linked_identity_invalid :: "VerusIdentityResult \<Rightarrow> string \<Rightarrow> bool" where
  "linked_identity_invalid identity expectedAddress \<longleftrightarrow>
     vi_identityAddress (ir_identity identity) \<noteq> expectedAddress
     \<or> vi_systemId (ir_identity identity) \<noteq> VRSCTEST_CHAIN_ID \<or> ir_status identity \<noteq> ''active''"

definition contextFor :: "WalletLinkPrincipal \<Rightarrow> string \<Rightarrow> string \<Rightarrow> string \<Rightarrow> CommandContext" where
  "contextFor caller correlationId requestDigest reasonCategory =
     \<lparr>cx_actor = \<lparr>ca_type = ''auth_account'', ca_reference = lp_accountReference caller,
        ca_authenticationStrength = lp_authenticationStrength caller\<rparr>,
      cx_committeeReference = ''global_wallet_linking'', cx_policyVersionReference = ''cbc-wallet-link-policy-v1'',
      cx_softwareVersion = ''issue-19'', cx_reasonCategory = reasonCategory, cx_correlationId = correlationId,
      cx_idempotencyKey = reasonCategory @ '':'' @ requestDigest, cx_requestDigest = requestDigest\<rparr>"

definition enabled_error :: "WalletLinkServiceConfig \<Rightarrow> WalletLinkErrorCode option" where
  "enabled_error config =
     (if \<not> lf_enabled config then Some FEATURE_DISABLED
      else if lf_network config \<noteq> ''VRSCTEST'' then Some MAINNET_BLOCKED
      else if length (lf_bindingSecret config) < 32 \<or> length (lf_pollingTokenSecret config) < 32 then Some FEATURE_DISABLED
      else None)"

definition requireEnabled :: "'x link_setup \<Rightarrow> ('x, unit) link_service" where
  "requireEnabled su =
     (case enabled_error (ls_config su) of None \<Rightarrow> returnE () | Some e \<Rightarrow> throwE (WalletLinkError e))"

definition audience_for :: "WalletLinkServiceConfig \<Rightarrow> TrustDomain \<Rightarrow> string" where
  "audience_for config d = (case d of D_participant \<Rightarrow> lf_participantAudience config | D_committee \<Rightarrow> lf_committeeAudience config)"

definition limitations :: "string list" where
  "limitations =
     [''This optional VRSCTEST link proves control of the selected VerusID only.'',
      ''It does not prove identity, presence, locality, uniqueness, eligibility, or committee role.'',
      ''Never enter or send a seed phrase, private key, WIF, wallet file, or spending key.'']"

section \<open>begin\<close>

definition begin_link :: "'x link_setup \<Rightarrow> BeginWalletLinkInput \<Rightarrow> ('x, WalletLinkPresentation) link_service" where
  "begin_link su inp =
     (let config = ls_config su; caller = lb_principal inp in
      bindE (requireEnabled su) (\<lambda>_.
      bindE (inAuthWorld (requireWithinLimit (ls_env su) (ls_rateSecret su) Wallet_link_account (lp_accountReference caller)
         (lb_now inp) REQUEST_WINDOW_MS REQUEST_LIMIT)) (\<lambda>_.
      let purpose = (case lb_purpose inp of None \<Rightarrow> Link_verusid | Some p \<Rightarrow> p) in
      case normalizeScopes (lb_scopes inp) of
        Inl e \<Rightarrow> throwE (WalletLinkError e)
      | Inr scopes \<Rightarrow>
          let issuedAt = lb_now inp; expiresAt = issuedAt + CHALLENGE_LIFETIME_MS;
              audience = audience_for config (lp_trustDomain caller);
              state = deriveHostedState (ls_hmac64 su) (lf_bindingSecret config)
                \<lparr>hb_accountReference = lp_accountReference caller, hb_trustDomain = lp_trustDomain caller,
                 hb_purpose = purpose, hb_audience = audience, hb_issuedAt = issuedAt, hb_expiresAt = expiresAt\<rparr> in
          bindE (inHosted (hosted_createChallenge (ls_hosted su) \<lparr>hc_state = state, hc_audience = audience,
             hc_purpose = purpose, hc_issuedAt = issuedAt, hc_expiresAt = expiresAt\<rparr>)) (\<lambda>hosted.
          bindE (requireE (hg_signerIdentityAddress hosted = lf_applicationIdentityAddress config
             \<and> hg_callbackUrl hosted = lf_authServiceCallbackUrl config) (WalletLinkError AUTH_SERVICE_INCOMPATIBLE)) (\<lambda>_.
          bindE (inAuthWorld (generateOpaqueToken (ls_env su))) (\<lambda>pollingToken.
          bindE (inAuthWorld (draw_id (ls_env su))) (\<lambda>i.
          let challengeReference = ''wallet_challenge_'' @ filter (\<lambda>c. c \<noteq> CHR ''-'') i in
          bindE (inLinks (createChallenge_link (en_services (ls_env su))
             \<lparr>wi_externalReference = challengeReference, wi_accountReference = lp_accountReference caller,
              wi_trustDomain = lp_trustDomain caller, wi_purpose = purpose, wi_network = ''VRSCTEST'',
              wi_nonceHash = sha256 (en_services (ls_env su)) state, wi_requestId = hg_challengeId hosted,
              wi_requestDigest = hg_presentationDigest hosted,
              wi_pollingTokenDigest = keyedDigest (ls_env su) (lf_pollingTokenSecret config) pollingToken,
              wi_audience = audience, wi_callbackUrl = hg_callbackUrl hosted,
              wi_applicationIdentityAddress = hg_signerIdentityAddress hosted, wi_consentedScopes = scopes,
              wi_issuedAt = hg_issuedAt hosted, wi_expiresAt = hg_expiresAt hosted\<rparr>
             (contextFor caller (lb_correlationId inp) (hg_presentationDigest hosted) ''wallet_link_requested''))) (\<lambda>_.
          returnE \<lparr>lq_challengeReference = challengeReference, lq_network = ''VRSCTEST'',
            lq_requesterIdentity = lf_applicationIdentityAddress config, lq_purpose = purpose, lq_scopes = scopes,
            lq_expiresAt = toISOString (hg_expiresAt hosted), lq_sameDeviceUrl = hg_deepLink hosted,
            lq_qrPayload = hg_deepLink hosted, lq_pollingToken = pollingToken, lq_operational = False,
            lq_limitations = limitations\<rparr>))))))))"

section \<open>poll\<close>

text \<open>Three attempts; every error is dropped.\<close>

fun acknowledge_attempts :: "'x HostedVerusIdAuthClient \<Rightarrow> string \<Rightarrow> string \<Rightarrow> nat \<Rightarrow> 'x \<Rightarrow> 'x" where
  "acknowledge_attempts client challengeId proofDigest 0 x = x"
| "acknowledge_attempts client challengeId proofDigest (Suc n) x =
     (case hosted_acknowledgeResult client challengeId proofDigest x of
        (Inr _, x') \<Rightarrow> x'
      | (Inl _, x') \<Rightarrow> acknowledge_attempts client challengeId proofDigest n x')"

definition acknowledgeHostedResult :: "'x link_setup \<Rightarrow> string \<Rightarrow> string \<Rightarrow> ('x, unit) link_service" where
  "acknowledgeHostedResult su challengeId proofDigest w =
     (Inr (), w\<lparr>lw_outside := acknowledge_attempts (ls_hosted su) challengeId proofDigest 3 (lw_outside w)\<rparr>)"

definition challenge_binding :: "WalletLinkChallengeRecord \<Rightarrow> HostedStateBinding" where
  "challenge_binding c =
     \<lparr>hb_accountReference = wr_accountReference c, hb_trustDomain = wr_trustDomain c, hb_purpose = wr_purpose c,
      hb_audience = wr_audience c, hb_issuedAt = wr_issuedAt c, hb_expiresAt = wr_expiresAt c\<rparr>"

definition completion_input ::
  "PollInput \<Rightarrow> WalletLinkChallengeRecord \<Rightarrow> VerifiedHostedResult \<Rightarrow> VerusIdentityResult \<Rightarrow> CompleteWalletLinkChallengeInput" where
  "completion_input inp challenge result identity =
     \<lparr>wk_requestId = wr_requestId challenge, wk_responseDigest = vh_proofDigest result,
      wk_identityAddress = vh_identityAddress result,
      wk_displayNameSnapshot = non_empty (Some (ir_fullyQualifiedName identity)),
      wk_proofDigest = vh_proofDigest result, wk_proofMethod = ''hosted_verusid_login_consent_v1'',
      wk_requestSignerIdentity = wr_applicationIdentityAddress challenge,
      wk_observedIdentityStatus = ir_status identity, wk_observedIdentityBlockHeight = ir_blockHeight identity,
      wk_observedIdentityTxid = ir_transactionId identity, wk_completedAt = po_now inp\<rparr>"

text \<open>What follows a verified result: the identity is read from the node and the challenge completed.\<close>

definition complete_verified ::
  "'x link_setup \<Rightarrow> PollInput \<Rightarrow> WalletLinkChallengeRecord \<Rightarrow> VerifiedHostedResult \<Rightarrow> ('x, unit) link_service" where
  "complete_verified su inp challenge result =
     bindE (inNode (both (getInfo (ls_adapter su)) (getIdentity (ls_adapter su) (vh_identityAddress result)))) (\<lambda>(info, identity).
     bindE (requireE (in_chainId info = VRSCTEST_CHAIN_ID \<and> in_name info = ''VRSCTEST'' \<and> in_testnet info)
        (LinkNodeError (IntegrationError (VerusError WRONG_NETWORK ''Identity readback is not VRSCTEST'' False)))) (\<lambda>_.
     bindE (requireE (\<not> linked_identity_invalid identity (vh_identityAddress result))
        (LinkNodeError (IntegrationError (VerusError IDENTITY_STATE_INVALID
           ''Selected identity is not currently active on VRSCTEST'' False)))) (\<lambda>_.
     bindE (inLinks (completeChallenge (en_services (ls_env su))
        (completion_input inp challenge result identity)
        (contextFor (po_principal inp) (po_correlationId inp) (vh_proofDigest result) ''wallet_link_verified''))) (\<lambda>completed.
     requireE (completed \<noteq> ExpiredWalletLinkChallenge) (WalletLinkError CHALLENGE_EXPIRED)))))"

definition poll_presented :: "'x link_setup \<Rightarrow> PollInput \<Rightarrow> string \<Rightarrow> CommandContext \<Rightarrow> WalletLinkPollResult \<Rightarrow> ('x, WalletLinkPollResult) link_service" where
  "poll_presented su inp tokenDigest context current =
     (let reference = lp_accountReference (po_principal inp) in
      bindE (inLinks (challengeForPoll reference tokenDigest)) (\<lambda>challenge.
      let state = deriveHostedState (ls_hmac64 su) (lf_bindingSecret (ls_config su)) (challenge_binding challenge) in
      bindE (requireE (sha256 (en_services (ls_env su)) state = wr_nonceHash challenge) (WalletLinkError INVALID_REQUEST)) (\<lambda>_.
      bindE (inHosted (hosted_getResult (ls_hosted su) \<lparr>gr_challengeId = wr_requestId challenge, gr_state = state,
         gr_audience = wr_audience challenge, gr_issuedAt = wr_issuedAt challenge, gr_expiresAt = wr_expiresAt challenge,
         gr_now = po_now inp\<rparr>)) (\<lambda>result.
      case result of
        Pending \<Rightarrow> returnE current
      | Verified verified \<Rightarrow>
          bindE (complete_verified su inp challenge verified) (\<lambda>_.
          bindE (acknowledgeHostedResult su (wr_requestId challenge) (vh_proofDigest verified)) (\<lambda>_.
          inLinks (pollChallenge (en_services (ls_env su)) reference tokenDigest (po_now inp) context)))))))"

definition poll :: "'x link_setup \<Rightarrow> PollInput \<Rightarrow> ('x, WalletLinkPollResult) link_service" where
  "poll su inp =
     bindE (requireEnabled su) (\<lambda>_.
     let tokenDigest = keyedDigest (ls_env su) (lf_pollingTokenSecret (ls_config su)) (po_pollingToken inp);
         context = contextFor (po_principal inp) (po_correlationId inp) tokenDigest ''wallet_link_polled'' in
     bindE (inLinks (pollChallenge (en_services (ls_env su)) (lp_accountReference (po_principal inp)) tokenDigest (po_now inp) context)) (\<lambda>current.
     if wp_state current \<noteq> LC_presented then returnE current
     else poll_presented su inp tokenDigest context current))"

section \<open>unlink and cancel\<close>

definition unlink_identity :: "'x link_setup \<Rightarrow> WalletLinkPrincipal \<Rightarrow> string \<Rightarrow> time \<Rightarrow> string \<Rightarrow> ('x, unit) link_service" where
  "unlink_identity su caller linkReference now correlationId =
     bindE (requireEnabled su) (\<lambda>_.
     inLinks (unlink (en_services (ls_env su)) (lp_accountReference caller) linkReference now
       (contextFor caller correlationId (sha256 (en_services (ls_env su)) linkReference) ''wallet_link_unlinked'')))"

definition cancel_link :: "'x link_setup \<Rightarrow> WalletLinkPrincipal \<Rightarrow> string \<Rightarrow> time \<Rightarrow> string \<Rightarrow> ('x, unit) link_service" where
  "cancel_link su caller challengeReference now correlationId =
     bindE (requireEnabled su) (\<lambda>_.
     inLinks (cancelChallenge (en_services (ls_env su)) (lp_accountReference caller) challengeReference now
       (contextFor caller correlationId (sha256 (en_services (ls_env su)) challengeReference) ''wallet_link_cancelled'')))"

end
