(* ===== verification/Link_Steps.thy ===== *)
theory Link_Steps
  imports Link_Repository Auth_Reachable
begin

text \<open>
  The tables of the links as a state machine.  A step of \<open>link_step\<close> opens a ceremony, closes a presented
  one, completes a presented one before its expiry together with its link, unlinks, or requires the
  revalidation of the links of an identity, while anything may happen in the authentication store.  Every call
  of the repository, successful or not, is one such step, so that what the steps keep holds over every
  history of calls.
\<close>

section \<open>Successful statements\<close>

lemma link_tables_Inr [simp]:
  "insert_wallet r ld = Inr (u, ld') \<longleftrightarrow> wallet_row_ok r \<and> (\<forall>q \<in> set (ld_challenges ld). \<not> wallet_clash r q)
     \<and> ld' = ld\<lparr>ld_challenges := ld_challenges ld @ [r]\<rparr>"
  "update_wallet P f ld = Inr (u, ld') \<longleftrightarrow> (\<forall>r \<in> set (ld_challenges ld). P r \<longrightarrow> wallet_row_ok (f r))
     \<and> ld' = ld\<lparr>ld_challenges := update_where P f (ld_challenges ld)\<rparr>"
  "insert_link l ld = Inr (u, ld') \<longleftrightarrow> link_row_ok l \<and> (\<forall>q \<in> set (ld_links ld). \<not> link_clash l q)
     \<and> ld' = ld\<lparr>ld_links := ld_links ld @ [l]\<rparr>"
  "update_links Q g ld = Inr (u, ld') \<longleftrightarrow> (\<forall>l \<in> set (ld_links ld). Q l \<longrightarrow> link_row_ok (g l))
     \<and> ld' = ld\<lparr>ld_links := update_where Q g (ld_links ld)\<rparr>"
  by (auto simp: insert_wallet_def update_wallet_def insert_link_def update_links_def)

lemma inAuth_store: "inAuth m ld = Inr (a, ld') \<Longrightarrow> \<exists>ad. ld' = ld\<lparr>ld_store := ad\<rparr>"
  by (auto simp: inAuth_def)

lemma store_only:
  "new_id sv ld = Inr (i, ld') \<Longrightarrow> \<exists>ad. ld' = ld\<lparr>ld_store := ad\<rparr>"
  "link_audit sv context command ty ref prior new ld = Inr (u, ld') \<Longrightarrow> \<exists>ad. ld' = ld\<lparr>ld_store := ad\<rparr>"
  by (auto simp: new_id_def link_audit_def dest: inAuth_store)

lemma reads_only:
  "selected_challenge P ld = Inr (v, ld') \<Longrightarrow> ld' = ld \<and> challengeSelect P ld = Some v"
  "challengeById i ld = Inr (w, ld') \<Longrightarrow> ld' = ld"
  "account_link ref d ld = Inr (a, ld') \<Longrightarrow> ld' = ld"
  "participantId_link p ld = Inr (pid, ld') \<Longrightarrow> ld' = ld"
  "linkForAccountAndIdentity acc addr ld = Inr (l, ld') \<Longrightarrow> ld' = ld \<and> link_of acc addr ld = Some l"
proof -
  show 1: "ld' = ld \<and> challengeSelect P ld = Some v" if "selected_challenge P ld = Inr (v, ld')" for P ld v ld'
    using that by (cases "challengeSelect P ld") (auto simp: selected_challenge_def)
  show "ld' = ld" if "challengeById i ld = Inr (w, ld')" for i w
    using that 1 unfolding challengeById_def bindT_Inr body_Inr by blast
  show "ld' = ld" if "account_link ref d ld = Inr (a, ld')" for ref d a
    using that unfolding account_link_def by (auto split: option.splits)
  show "ld' = ld" if "participantId_link p ld = Inr (pid, ld')" for p pid
    using that unfolding participantId_link_def by (auto split: option.splits)
  show "ld' = ld \<and> link_of acc addr ld = Some l" if "linkForAccountAndIdentity acc addr ld = Inr (l, ld')" for acc addr l
    using that by (cases "link_of acc addr ld") (auto simp: linkForAccountAndIdentity_def)
qed

lemma selected_row:
  assumes "challengeSelect P ld = Some v"
  obtains a where "cv_row v \<in> set (ld_challenges ld)" "P a (cv_row v)"
    "account_reference_of (ld_store ld) (wl_auth_account_id (cv_row v)) = Some a" "cv_account_reference v = a"
proof -
  let ?reference = "\<lambda>r. account_reference_of (ld_store ld) (wl_auth_account_id r)"
  obtain r where r: "select_where (\<lambda>r. case ?reference r of None \<Rightarrow> False | Some a \<Rightarrow> P a r) (ld_challenges ld) = Some r"
    and v: "cv_row v = r" "cv_account_reference v = the (?reference r)"
    using assms by (auto simp: challengeSelect_def split: option.splits)
  have "r \<in> set (ld_challenges ld)" "case ?reference r of None \<Rightarrow> False | Some a \<Rightarrow> P a r"
    using select_where_SomeD[OF r] by simp_all
  thus thesis using that v by (cases "?reference r") auto
qed

section \<open>Steps\<close>

inductive link_step :: "link_database \<Rightarrow> link_database \<Rightarrow> bool" where
  elsewhere: "link_step ld (ld\<lparr>ld_store := ad\<rparr>)"
| opened: "wallet_row_ok r \<Longrightarrow> wl_state r = LC_presented \<Longrightarrow> (\<forall>q \<in> set (ld_challenges ld). \<not> wallet_clash r q)
    \<Longrightarrow> link_step ld (ld\<lparr>ld_challenges := ld_challenges ld @ [r], ld_store := ad\<rparr>)"
| closed: "c \<in> set (ld_challenges ld) \<Longrightarrow> wl_state c = LC_presented \<Longrightarrow> f \<in> {expire_row, cancel_row}
    \<Longrightarrow> (\<forall>r \<in> set (ld_challenges ld). wl_id r = wl_id c \<longrightarrow> wallet_row_ok (f r))
    \<Longrightarrow> link_step ld (ld\<lparr>ld_challenges := update_where (\<lambda>r. wl_id r = wl_id c) f (ld_challenges ld), ld_store := ad\<rparr>)"
| linked: "c \<in> set (ld_challenges ld) \<Longrightarrow> wl_state c = LC_presented \<Longrightarrow> wk_requestId inp = wl_request_id c
    \<Longrightarrow> wk_completedAt inp < wl_expires_at c
    \<Longrightarrow> (\<forall>r \<in> set (ld_challenges ld). wl_id r = wl_id c \<longrightarrow> wallet_row_ok (consume_challenge_row inp r))
    \<Longrightarrow> link_of (wl_auth_account_id c) (wk_identityAddress inp) ld = None
    \<Longrightarrow> link_row_ok (new_link inp c i ref pid) \<Longrightarrow> (\<forall>q \<in> set (ld_links ld). \<not> link_clash (new_link inp c i ref pid) q)
    \<Longrightarrow> link_step ld (ld\<lparr>ld_links := ld_links ld @ [new_link inp c i ref pid],
          ld_challenges := update_where (\<lambda>r. wl_id r = wl_id c) (consume_challenge_row inp) (ld_challenges ld), ld_store := ad\<rparr>)"
| relinked: "c \<in> set (ld_challenges ld) \<Longrightarrow> wl_state c = LC_presented \<Longrightarrow> wk_requestId inp = wl_request_id c
    \<Longrightarrow> wk_completedAt inp < wl_expires_at c
    \<Longrightarrow> (\<forall>r \<in> set (ld_challenges ld). wl_id r = wl_id c \<longrightarrow> wallet_row_ok (consume_challenge_row inp r))
    \<Longrightarrow> link_of (wl_auth_account_id c) (wk_identityAddress inp) ld = Some l
    \<Longrightarrow> (\<forall>q \<in> set (ld_links ld). il_id q = il_id l \<longrightarrow> link_row_ok (refresh_link inp c q))
    \<Longrightarrow> link_step ld (ld\<lparr>ld_links := update_where (\<lambda>q. il_id q = il_id l) (refresh_link inp c) (ld_links ld),
          ld_challenges := update_where (\<lambda>r. wl_id r = wl_id c) (consume_challenge_row inp) (ld_challenges ld), ld_store := ad\<rparr>)"
| unlinked: "l \<in> set (ld_links ld) \<Longrightarrow> il_state l \<noteq> IL_unlinked
    \<Longrightarrow> link_step ld (ld\<lparr>ld_links := update_where (\<lambda>q. il_id q = il_id l) (unlink_row t) (ld_links ld), ld_store := ad\<rparr>)"
| revalidation: "link_step ld (ld\<lparr>ld_links := update_where (\<lambda>l. il_network l = ''VRSCTEST'' \<and> il_identity_address l = address
       \<and> il_state l = IL_active) (revalidate_row reason) (ld_links ld), ld_store := ad\<rparr>)"

section \<open>What the steps keep\<close>

definition wallet_identity :: "WalletChallengeRow \<Rightarrow> string \<times> string \<times> string \<times> TrustDomain \<times> time" where
  "wallet_identity r = (wl_id r, wl_request_id r, wl_auth_account_id r, wl_trust_domain r, wl_expires_at r)"

definition link_identity :: "link_row \<Rightarrow> string \<times> string \<times> string \<times> string \<times> string \<times> TrustDomain" where
  "link_identity l = (il_id l, il_external_reference l, il_auth_account_id l, il_network l, il_identity_address l, il_trust_domain l)"

lemma row_changes [simp]:
  "wallet_identity (expire_row r) = wallet_identity r" "wallet_identity (cancel_row r) = wallet_identity r"
  "wallet_identity (consume_challenge_row inp r) = wallet_identity r"
  "link_identity (refresh_link inp c l) = link_identity l" "link_identity (unlink_row t l) = link_identity l"
  "link_identity (revalidate_row reason l) = link_identity l"
  by (simp_all add: wallet_identity_def link_identity_def expire_row_def cancel_row_def consume_challenge_row_def
      refresh_link_def unlink_row_def revalidate_row_def)

text \<open>The ceremony that a link came from: consumed before its expiry, by the same account for the same identity.\<close>

definition ceremony_of :: "link_row \<Rightarrow> WalletChallengeRow \<Rightarrow> bool" where
  "ceremony_of l c \<longleftrightarrow> wl_state c = LC_consumed \<and> wl_auth_account_id c = il_auth_account_id l
     \<and> wl_trust_domain c = il_trust_domain l
     \<and> wl_linked_identity_address c = Some (il_identity_address l) \<and> (\<exists>t. wl_consumed_at c = Some t \<and> t < wl_expires_at c)"

lemma ceremony_of_identity: "link_identity l = link_identity l' \<Longrightarrow> ceremony_of l c = ceremony_of l' c"
  by (auto simp: ceremony_of_def link_identity_def)

definition link_ok :: "link_database \<Rightarrow> bool" where
  "link_ok ld \<longleftrightarrow> distinct (map wl_id (ld_challenges ld)) \<and> distinct (map wl_request_id (ld_challenges ld))
     \<and> distinct (map il_id (ld_links ld))
     \<and> distinct (map (\<lambda>l. (il_auth_account_id l, il_network l, il_identity_address l)) (ld_links ld))
     \<and> (\<forall>c \<in> set (ld_challenges ld). wallet_row_ok c) \<and> (\<forall>l \<in> set (ld_links ld). link_row_ok l)
     \<and> (\<forall>l \<in> set (ld_links ld). \<exists>c \<in> set (ld_challenges ld). ceremony_of l c)"

lemma map_wallet_update:
  assumes "\<And>r. wallet_identity (f r) = wallet_identity r"
  shows "map wl_id (update_where P f t) = map wl_id t" "map wl_request_id (update_where P f t) = map wl_request_id t"
  using assms by (auto simp: wallet_identity_def intro!: map_update_where)

lemma map_link_update:
  assumes "\<And>l. link_identity (f l) = link_identity l"
  shows "map il_id (update_where P f t) = map il_id t"
    "map (\<lambda>l. (il_auth_account_id l, il_network l, il_identity_address l)) (update_where P f t)
       = map (\<lambda>l. (il_auth_account_id l, il_network l, il_identity_address l)) t"
  using assms by (auto simp: link_identity_def intro!: map_update_where)

text \<open>A change of one presented row leaves every row that is not presented.\<close>

lemma settled_stays:
  assumes "distinct (map wl_id t)" "c \<in> set t" "wl_state c = LC_presented" "r \<in> set t" "wl_state r \<noteq> LC_presented"
  shows "r \<in> set (update_where (\<lambda>q. wl_id q = wl_id c) f t)"
proof -
  have "wl_id r \<noteq> wl_id c" using assms distinct_map_key_eq by fastforce
  thus ?thesis using assms(4) by (auto simp: set_update_where)
qed

lemma settled_step:
  assumes "link_step ld ld'" "link_ok ld" "r \<in> set (ld_challenges ld)" "wl_state r \<noteq> LC_presented"
  shows "r \<in> set (ld_challenges ld')"
  using assms(1) assms(2-4) settled_stays by cases (auto simp: link_ok_def)

lemma link_identity_step:
  assumes "link_step ld ld'" "i \<in> link_identity ` set (ld_links ld)"
  shows "i \<in> link_identity ` set (ld_links ld')"
proof -
  have same: "link_identity ` set (update_where P f t) = link_identity ` set t"
    if "\<And>l. link_identity (f l) = link_identity l" for P f t
    using map_update_where[of P link_identity f t, OF that] by (metis set_map)
  show ?thesis using assms by cases (auto simp: same)
qed

lemma ceremonies_kept:
  assumes "link_step ld ld'" "link_ok ld" "l \<in> set (ld_links ld)"
  shows "\<exists>c \<in> set (ld_challenges ld'). ceremony_of l c"
proof -
  obtain c where c: "c \<in> set (ld_challenges ld)" "ceremony_of l c" using assms(2,3) by (auto simp: link_ok_def)
  hence "wl_state c \<noteq> LC_presented" by (simp add: ceremony_of_def)
  from settled_step[OF assms(1,2) c(1) this] c(2) show ?thesis by blast
qed

lemma consumed_ceremony:
  assumes "c \<in> set t" "wk_completedAt inp < wl_expires_at c" "wl_auth_account_id c = il_auth_account_id l"
    "wl_trust_domain c = il_trust_domain l" "il_identity_address l = wk_identityAddress inp"
  shows "\<exists>r \<in> set (update_where (\<lambda>q. wl_id q = wl_id c) (consume_challenge_row inp) t). ceremony_of l r"
proof (rule bexI)
  show "consume_challenge_row inp c \<in> set (update_where (\<lambda>q. wl_id q = wl_id c) (consume_challenge_row inp) t)"
    using assms(1) by (force simp: set_update_where)
  show "ceremony_of l (consume_challenge_row inp c)"
    using assms(2-) by (simp add: ceremony_of_def consume_challenge_row_def)
qed

lemma changed_links_have_ceremonies:
  assumes "\<forall>l \<in> set t. \<exists>c \<in> C. ceremony_of l c" "\<And>l. link_identity (f l) = link_identity l" "l \<in> set (update_where P f t)"
  shows "\<exists>c \<in> C. ceremony_of l c"
proof -
  obtain l0 where "l0 \<in> set t" "link_identity l = link_identity l0"
    using assms(2,3) by (auto elim!: in_update_whereE)
  thus ?thesis using assms(1) ceremony_of_identity by blast
qed

lemma rows_ok_step:
  assumes "link_step ld ld'" "\<forall>c \<in> set (ld_challenges ld). wallet_row_ok c"
  shows "\<forall>c \<in> set (ld_challenges ld'). wallet_row_ok c"
  using assms by cases (auto elim!: in_update_whereE)

lemma link_rows_ok_step:
  assumes "link_step ld ld'" "\<forall>l \<in> set (ld_links ld). link_row_ok l"
  shows "\<forall>l \<in> set (ld_links ld'). link_row_ok l"
proof -
  have facts: "link_row_ok l \<Longrightarrow> link_row_ok (unlink_row t l)" "link_row_ok l \<Longrightarrow> il_state l = IL_active \<Longrightarrow> link_row_ok (revalidate_row reason l)"
    for l t reason by (auto simp: link_row_ok_def unlink_row_def revalidate_row_def)
  show ?thesis using assms by cases (auto simp: facts elim!: in_update_whereE)
qed

lemma link_ok_step:
  assumes "link_step ld ld'" "link_ok ld"
  shows "link_ok ld'"
proof -
  have rows: "\<forall>c \<in> set (ld_challenges ld'). wallet_row_ok c"
    using rows_ok_step[OF assms(1)] assms(2) by (simp add: link_ok_def)
  have kept: "\<forall>l \<in> set (ld_links ld). \<exists>c \<in> set (ld_challenges ld'). ceremony_of l c"
    using ceremonies_kept[OF assms] by blast
  have links: "\<forall>l \<in> set (ld_links ld'). \<exists>c \<in> set (ld_challenges ld'). ceremony_of l c"
    using assms(1)
  proof cases
    case (linked c inp i ref pid ad)
    have "\<exists>r \<in> set (ld_challenges ld'). ceremony_of (new_link inp c i ref pid) r"
      unfolding linked(1) using linked by (auto intro!: consumed_ceremony simp: new_link_def)
    thus ?thesis using kept linked(1) by auto
  next
    case (relinked c inp l ad)
    thus ?thesis using changed_links_have_ceremonies[OF kept, of "refresh_link inp c"] by simp
  next
    case (unlinked l ad t)
    thus ?thesis using changed_links_have_ceremonies[OF kept, of "unlink_row t"] by simp
  next
    case (revalidation ad address reason)
    thus ?thesis using changed_links_have_ceremonies[OF kept, of "revalidate_row reason"] by simp
  qed (use kept in auto)
  have ids: "distinct (map wl_id (ld_challenges ld'))" "distinct (map wl_request_id (ld_challenges ld'))"
    using assms by (cases; force simp: link_ok_def map_wallet_update wallet_clash_def)+
  have lids: "distinct (map il_id (ld_links ld'))"
    "distinct (map (\<lambda>l. (il_auth_account_id l, il_network l, il_identity_address l)) (ld_links ld'))"
    using assms by (cases; force simp: link_ok_def map_link_update link_clash_def)+
  have "\<forall>l \<in> set (ld_links ld'). link_row_ok l" using link_rows_ok_step[OF assms(1)] assms(2) by (simp add: link_ok_def)
  thus ?thesis using rows links ids lids by (simp add: link_ok_def)
qed

end
