(* ===== verification/Link_Refinement.thy ===== *)
theory Link_Refinement
  imports Link_Steps
begin

text \<open>
  Every call of the link repository is one step of its tables, and what the steps keep holds over every
  history of calls of the link repository and of the authentication repository.
\<close>

section \<open>Calls\<close>

inductive link_event :: "link_database \<Rightarrow> link_database \<Rightarrow> bool" where
  le_create: "link_event ld (snd (createChallenge_link sv inp1 ctx ld))"
| le_complete: "link_event ld (snd (completeChallenge sv inp2 ctx ld))"
| le_poll: "link_event ld (snd (pollChallenge sv ar digest t ctx ld))"
| le_cancel: "link_event ld (snd (cancelChallenge sv ar cr t ctx ld))"
| le_unlink: "link_event ld (snd (unlink sv ar lr t ctx ld))"
| le_revalidate: "link_event ld (snd (requireRevalidation sv address reason ctx ld))"
| le_auth: "auth_event (ld_store ld) ad \<Longrightarrow> link_event ld (ld\<lparr>ld_store := ad\<rparr>)"

lemma step_refl: "link_step ld ld"
  using link_step.elsewhere[of ld "ld_store ld"] by simp

lemma step_of_call:
  assumes "\<And>a ld'. m ld = Inr (a, ld') \<Longrightarrow> link_step ld ld'"
  shows "link_step ld (snd (transaction m ld))" "link_step ld (snd (checked c (transaction m) ld))"
  using assms step_refl by (auto simp: transaction_statement statement_def checked_def split: sum.splits)

section \<open>Each body is a step\<close>

lemma create_step:
  assumes "createChallenge_link_body sv inp context ld = Inr (a, ld')"
  shows "link_step ld ld'"
proof -
  obtain acc i ld1 ld3 where 1: "new_id sv ld = Inr (i, ld1)"
    and row: "wallet_row_ok (new_challenge inp acc i)" "\<forall>q \<in> set (ld_challenges ld1). \<not> wallet_clash (new_challenge inp acc i) q"
    and 2: "link_audit sv context ''createWalletLinkChallenge'' ''wallet_challenge'' (wi_externalReference inp) None ''presented''
       (ld1\<lparr>ld_challenges := ld_challenges ld1 @ [new_challenge inp acc i]\<rparr>) = Inr ((), ld3)" and 3: "challengeById i ld3 = Inr (a, ld')"
    using assms unfolding createChallenge_link_body_def by (auto dest: reads_only(3))
  define r where "r = new_challenge inp acc i"
  obtain ad1 ad2 where "ld1 = ld\<lparr>ld_store := ad1\<rparr>" "ld3 = ld1\<lparr>ld_challenges := ld_challenges ld1 @ [r], ld_store := ad2\<rparr>" "ld' = ld3"
    using store_only(1)[OF 1] store_only(2)[OF 2] reads_only(2)[OF 3] by (auto simp: r_def)
  moreover have "wl_state r = LC_presented" by (simp add: r_def new_challenge_def)
  ultimately show ?thesis using link_step.opened[of r ld ad2] row by (simp add: r_def)
qed

lemma expire_step:
  assumes "expire_challenge sv context c ld = Inr (u, ld')" "c \<in> set (ld_challenges ld)" "wl_state c = LC_presented"
  shows "link_step ld ld'"
proof -
  obtain ad where "ld' = ld\<lparr>ld_challenges := update_where (\<lambda>r. wl_id r = wl_id c) expire_row (ld_challenges ld), ld_store := ad\<rparr>"
    "\<forall>r \<in> set (ld_challenges ld). wl_id r = wl_id c \<longrightarrow> wallet_row_ok (expire_row r)"
    using assms(1) unfolding expire_challenge_def by (auto dest!: store_only(2))
  thus ?thesis using link_step.closed[of c ld expire_row ad] assms(2,3) by simp
qed

lemma cancel_step:
  assumes "cancelChallenge_body sv ar cr t context ld = Inr (u, ld')"
  shows "link_step ld ld'"
proof -
  obtain v where v: "challengeSelect (\<lambda>a r. a = ar \<and> wl_external_reference r = cr) ld = Some v"
    and rest: "(if wl_state (cv_row v) = LC_cancelled then returnT ()
      else bindT (requireT (wl_state (cv_row v) = LC_presented) (RepositoryConflictError ''wallet challenge is unavailable'')) (\<lambda>_.
       if t \<ge> wl_expires_at (cv_row v) then expire_challenge sv context (cv_row v)
       else bindT (update_wallet (\<lambda>r. wl_id r = wl_id (cv_row v)) cancel_row) (\<lambda>_.
         link_audit sv context ''cancelWalletLinkChallenge'' ''wallet_challenge'' (wl_external_reference (cv_row v))
           (Some ''presented'') ''cancelled''))) ld = Inr (u, ld')"
    using assms unfolding cancelChallenge_body_def Let_def bindT_Inr by (blast dest: reads_only(1))
  obtain a where row: "cv_row v \<in> set (ld_challenges ld)" by (rule selected_row[OF v])
  consider (same) "ld' = ld" | (expired) "wl_state (cv_row v) = LC_presented" "expire_challenge sv context (cv_row v) ld = Inr (u, ld')"
    | (cancelled) ad where "wl_state (cv_row v) = LC_presented"
        "\<forall>r \<in> set (ld_challenges ld). wl_id r = wl_id (cv_row v) \<longrightarrow> wallet_row_ok (cancel_row r)"
        "ld' = ld\<lparr>ld_challenges := update_where (\<lambda>r. wl_id r = wl_id (cv_row v)) cancel_row (ld_challenges ld), ld_store := ad\<rparr>"
    using rest by (auto split: if_splits dest!: store_only(2))
  thus ?thesis
  proof cases
    case cancelled
    thus ?thesis using link_step.closed[of "cv_row v" ld cancel_row ad] row by simp
  qed (use row expire_step step_refl in auto)
qed

lemma poll_step:
  assumes "pollChallenge_body sv ar digest t context ld = Inr (u, ld')"
  shows "link_step ld ld'"
proof -
  obtain v where v: "challengeSelect (references_account ar digest) ld = Some v"
    and rest: "(let lapsed = wl_state (cv_row v) = LC_presented \<and> t \<ge> wl_expires_at (cv_row v) in
      bindT (if lapsed then expire_challenge sv context (cv_row v) else returnT ()) (\<lambda>_.
      bindT (if (if lapsed then LC_expired else wl_state (cv_row v)) = LC_consumed \<and> truthy (wl_linked_identity_address (cv_row v))
            then bindT (linkForAccountAndIdentity (wl_auth_account_id (cv_row v)) (the (wl_linked_identity_address (cv_row v))))
                   (\<lambda>l. returnT (Some l))
            else returnT None) (\<lambda>link.
     returnT \<lparr>wp_challengeReference = wl_external_reference (cv_row v), wp_state = (if lapsed then LC_expired else wl_state (cv_row v)),
       wp_expiresAt = wl_expires_at (cv_row v), wp_linkReference = map_option il_external_reference link,
       wp_identityAddress = (if link = None then None else wl_linked_identity_address (cv_row v))\<rparr>))) ld = Inr (u, ld')"
    using assms unfolding pollChallenge_body_def Let_def bindT_Inr by (blast dest: reads_only(1))
  obtain a where row: "cv_row v \<in> set (ld_challenges ld)" by (rule selected_row[OF v])
  obtain ld1 where first: "ld1 = ld \<or> wl_state (cv_row v) = LC_presented \<and> expire_challenge sv context (cv_row v) ld = Inr ((), ld1)"
    and "ld' = ld1"
    using rest by (auto simp: Let_def split: if_splits dest!: reads_only(5))
  thus ?thesis using row expire_step step_refl by auto
qed

lemma write_link_effect:
  assumes "write_link sv inp v existing ld = Inr (ref, ld')"
  obtains (new) i pid ad where "existing = None" "link_row_ok (new_link inp (cv_row v) i ref pid)"
      "\<forall>q \<in> set (ld_links ld). \<not> link_clash (new_link inp (cv_row v) i ref pid) q"
      "ld' = ld\<lparr>ld_links := ld_links ld @ [new_link inp (cv_row v) i ref pid], ld_store := ad\<rparr>"
  | (old) l where "existing = Some l" "ref = il_external_reference l"
      "\<forall>q \<in> set (ld_links ld). il_id q = il_id l \<longrightarrow> link_row_ok (refresh_link inp (cv_row v) q)"
      "ld' = ld\<lparr>ld_links := update_where (\<lambda>q. il_id q = il_id l) (refresh_link inp (cv_row v)) (ld_links ld)\<rparr>"
proof (cases existing)
  case None
  then obtain i ld1 j ld2 pid ld3 where 1: "new_id sv ld = Inr (i, ld1)" and 2: "new_id sv ld1 = Inr (j, ld2)"
    and 3: "(if truthy (cv_participant_reference v)
                 then bindT (participantId_link (the (cv_participant_reference v))) (\<lambda>p. returnT (Some p))
                 else returnT None) ld2 = Inr (pid, ld3)"
    and ref: "ref = ''verus_link_'' @ filter (\<lambda>c. c \<noteq> CHR ''-'') j"
    and row: "link_row_ok (new_link inp (cv_row v) i ref pid)" "\<forall>q \<in> set (ld_links ld3). \<not> link_clash (new_link inp (cv_row v) i ref pid) q"
    and ld': "ld' = ld3\<lparr>ld_links := ld_links ld3 @ [new_link inp (cv_row v) i ref pid]\<rparr>"
    using assms unfolding write_link_def Let_def by auto
  have "ld3 = ld2" using 3 by (auto split: if_splits dest: reads_only(4))
  then obtain ad where ld3: "ld3 = ld\<lparr>ld_store := ad\<rparr>" using store_only(1)[OF 1] store_only(1)[OF 2] by auto
  show thesis by (rule new[of i pid ad]) (use None row ld' ld3 in simp_all)
next
  case (Some l)
  show thesis by (rule old[of l]) (use Some assms in \<open>auto simp: write_link_def Let_def\<close>)
qed

lemma presented_step:
  assumes "complete_presented sv inp context v ld = Inr (u, ld')" "cv_row v \<in> set (ld_challenges ld)" "wl_state (cv_row v) = LC_presented"
    "wl_request_id (cv_row v) = wk_requestId inp" "wk_completedAt inp < wl_expires_at (cv_row v)"
  shows "link_step ld ld'"
proof -
  let ?c = "cv_row v"
  obtain ref ld1 ad2 where 1: "write_link sv inp v (link_of (wl_auth_account_id ?c) (wk_identityAddress inp) ld) ld = Inr (ref, ld1)"
    and 2: "\<forall>r \<in> set (ld_challenges ld1). wl_id r = wl_id ?c \<longrightarrow> wallet_row_ok (consume_challenge_row inp r)"
    and 3: "ld' = ld1\<lparr>ld_challenges := update_where (\<lambda>r. wl_id r = wl_id ?c) (consume_challenge_row inp) (ld_challenges ld1), ld_store := ad2\<rparr>"
    using assms(1) unfolding complete_presented_def Let_def by (auto dest!: store_only(2))
  from 1 show ?thesis
  proof (cases rule: write_link_effect)
    case (new i pid ad)
    thus ?thesis using link_step.linked[of ?c ld inp i ref pid ad2] assms(2-5) 2 3 by simp
  next
    case (old l)
    thus ?thesis using link_step.relinked[of ?c ld inp l ad2] assms(2-5) 2 3 by simp
  qed
qed

lemma complete_step:
  assumes "completeChallenge_body sv inp context ld = Inr (u, ld')"
  shows "link_step ld ld'"
proof -
  obtain v where v: "challengeSelect (\<lambda>_ r. wl_request_id r = wk_requestId inp) ld = Some v"
    and rest: "ld' = ld \<or> wl_state (cv_row v) = LC_presented \<and>
      (if wk_completedAt inp \<ge> wl_expires_at (cv_row v)
       then expire_challenge sv context (cv_row v) ld = Inr ((), ld') else complete_presented sv inp context v ld = Inr (u, ld'))"
    using assms unfolding completeChallenge_body_def Let_def
    by (auto split: if_splits dest!: reads_only(1,5))
  obtain a where row: "cv_row v \<in> set (ld_challenges ld)" "wl_request_id (cv_row v) = wk_requestId inp" by (rule selected_row[OF v])
  show ?thesis using rest row expire_step presented_step[OF _ row(1)] step_refl by (auto split: if_splits)
qed

lemma unlink_step:
  assumes "unlink_body sv ar lr t context ld = Inr (u, ld')"
  shows "link_step ld ld'"
proof -
  let ?P = "\<lambda>l. account_reference_of (ld_store ld) (il_auth_account_id l) = Some ar \<and> il_external_reference l = lr"
  obtain l ad where l: "select_where ?P (ld_links ld) = Some l" "il_state l \<noteq> IL_unlinked"
    "ld' = ld\<lparr>ld_links := update_where (\<lambda>q. il_id q = il_id l) (unlink_row t) (ld_links ld), ld_store := ad\<rparr>"
    using assms unfolding unlink_body_def
    by (cases "select_where ?P (ld_links ld)") (auto dest!: store_only(2))
  have "l \<in> set (ld_links ld)" using select_where_SomeD[OF l(1)] by simp
  thus ?thesis using link_step.unlinked l(2,3) by simp
qed

text \<open>The loop changes the rows with the identifiers of the list, each once.\<close>

lemma revalidate_each_effect:
  assumes "revalidate_each sv reason context ls ld = Inr (u, ld')" "distinct (map il_id ls)"
  shows "\<exists>ad. ld' = ld\<lparr>ld_links := update_where (\<lambda>q. il_id q \<in> il_id ` set ls) (revalidate_row reason) (ld_links ld), ld_store := ad\<rparr>"
  using assms
proof (induction ls arbitrary: ld)
  case Nil
  thus ?case by (auto simp: update_where_none intro: exI[of _ "ld_store ld"])
next
  case (Cons l ls)
  let ?f = "revalidate_row reason"
  obtain ad1 where "revalidate_each sv reason context ls
      (ld\<lparr>ld_links := update_where (\<lambda>q. il_id q = il_id l) ?f (ld_links ld), ld_store := ad1\<rparr>) = Inr (u, ld')"
    using Cons.prems(1) by (auto dest!: store_only(2))
  from Cons.IH[OF this] Cons.prems(2) obtain ad where ad: "ld' = ld\<lparr>ld_links :=
      update_where (\<lambda>q. il_id q \<in> il_id ` set ls) ?f (update_where (\<lambda>q. il_id q = il_id l) ?f (ld_links ld)), ld_store := ad\<rparr>"
    by auto
  have "update_where (\<lambda>q. il_id q \<in> il_id ` set ls) ?f (update_where (\<lambda>q. il_id q = il_id l) ?f t)
      = update_where (\<lambda>q. il_id q \<in> il_id ` set (l # ls)) ?f t" for t
    using Cons.prems(2) by (induction t) (auto simp: revalidate_row_def)
  thus ?case using ad by auto
qed

lemma revalidation_effect:
  assumes "link_ok ld" "requireRevalidation_body sv address reason context ld = Inr (n, ld')"
  shows "\<exists>ad. ld' = ld\<lparr>ld_links := update_where (\<lambda>l. il_network l = ''VRSCTEST'' \<and> il_identity_address l = address
       \<and> il_state l = IL_active) (revalidate_row reason) (ld_links ld), ld_store := ad\<rparr>"
proof -
  let ?P = "\<lambda>l. il_network l = ''VRSCTEST'' \<and> il_identity_address l = address \<and> il_state l = IL_active"
  have ids: "distinct (map il_id (ld_links ld))" using assms(1) by (simp add: link_ok_def)
  obtain ld1 where "revalidate_each sv reason context (filter ?P (ld_links ld)) ld = Inr ((), ld1)" "ld' = ld1"
    using assms(2) unfolding requireRevalidation_body_def by auto
  moreover have "distinct (map il_id (filter ?P (ld_links ld)))" using ids by (rule distinct_map_filter)
  ultimately obtain ad where "ld' = ld\<lparr>ld_links := update_where (\<lambda>q. il_id q \<in> il_id ` set (filter ?P (ld_links ld)))
      (revalidate_row reason) (ld_links ld), ld_store := ad\<rparr>"
    using revalidate_each_effect by blast
  moreover have "update_where (\<lambda>q. il_id q \<in> il_id ` set (filter ?P (ld_links ld))) (revalidate_row reason) (ld_links ld)
      = update_where ?P (revalidate_row reason) (ld_links ld)"
    by (rule update_where_cong) (use ids distinct_map_key_eq in fastforce)
  ultimately show ?thesis by auto
qed

lemma revalidation_step:
  assumes "link_ok ld" "requireRevalidation_body sv address reason context ld = Inr (n, ld')"
  shows "link_step ld ld'"
  using revalidation_effect[OF assms] link_step.revalidation by auto

lemma event_is_step:
  assumes "link_event ld ld'" "link_ok ld"
  shows "link_step ld ld'"
  using assms(1)
proof cases
  case le_create
  show ?thesis unfolding le_create createChallenge_link_def by (rule step_of_call(2)) (erule create_step)
next
  case le_complete
  show ?thesis unfolding le_complete completeChallenge_def by (rule step_of_call(2)) (erule complete_step)
next
  case le_poll
  show ?thesis unfolding le_poll pollChallenge_def by (rule step_of_call(2)) (erule poll_step)
next
  case le_cancel
  show ?thesis unfolding le_cancel cancelChallenge_def by (rule step_of_call(2)) (erule cancel_step)
next
  case le_unlink
  show ?thesis unfolding le_unlink unlink_def by (rule step_of_call(2)) (erule unlink_step)
next
  case le_revalidate
  show ?thesis unfolding le_revalidate requireRevalidation_def by (rule step_of_call(1)) (erule revalidation_step[OF assms(2)])
next
  case le_auth
  thus ?thesis by (simp add: link_step.elsewhere)
qed

lemma empty_link_ok: "link_ok empty_link_database"
  by (simp add: link_ok_def empty_link_database_def)

lemma link_history:
  assumes "link_event\<^sup>*\<^sup>* ld ld'" "link_ok ld"
  shows "link_ok ld' \<and> link_step\<^sup>*\<^sup>* ld ld'"
  using assms
proof (induction rule: rtranclp_induct)
  case (step y z)
  hence "link_step y z" using event_is_step by blast
  thus ?case using step link_ok_step by (meson rtranclp.rtrancl_into_rtrancl)
qed simp

end
