(* ===== verification/Link_Example.thy ===== *)
theory Link_Example
  imports Link_Refinement Auth_Sessions
begin

text \<open>
  A history of the link repository: an account opens a ceremony, completes it and opens another one.  The
  properties of the links are instantiated on its states.
\<close>

abbreviation digest_of :: "char \<Rightarrow> string" where
  "digest_of c \<equiv> replicate 64 c"

definition link_services :: services where
  "link_services = sample_services\<lparr>sv_sha := (\<lambda>_. digest_of (CHR ''a''))\<rparr>"

definition link_context :: CommandContext where
  "link_context = \<lparr>cx_actor = \<lparr>ca_type = ''auth_account'', ca_reference = ''account:one'', ca_authenticationStrength = ''passkey''\<rparr>,
     cx_committeeReference = ''global_wallet_linking'', cx_policyVersionReference = ''cbc-wallet-link-policy-v1'',
     cx_softwareVersion = ''issue-19'', cx_reasonCategory = ''wallet_link_requested'', cx_correlationId = ''c'',
     cx_idempotencyKey = ''k'', cx_requestDigest = ''d''\<rparr>"

definition example_ceremony :: "string \<Rightarrow> string \<Rightarrow> char \<Rightarrow> char \<Rightarrow> CreateWalletLinkChallengeInput" where
  "example_ceremony ref request c d =
     \<lparr>wi_externalReference = ref, wi_accountReference = ''account:one'', wi_trustDomain = D_participant, wi_purpose = Link_verusid,
      wi_network = ''VRSCTEST'', wi_nonceHash = digest_of c, wi_requestId = request, wi_requestDigest = digest_of c,
      wi_pollingTokenDigest = digest_of d, wi_audience = ''participants'', wi_callbackUrl = ''https://cbc.example/callback'',
      wi_applicationIdentityAddress = ''iApplication'', wi_consentedScopes = [''verusid:link''], wi_issuedAt = 100, wi_expiresAt = 400\<rparr>"

definition example_answer :: "string \<Rightarrow> time \<Rightarrow> CompleteWalletLinkChallengeInput" where
  "example_answer request t =
     \<lparr>wk_requestId = request, wk_responseDigest = digest_of (CHR ''c''), wk_identityAddress = ''iTargetTargetTargetTarget'',
      wk_displayNameSnapshot = Some ''target@'', wk_proofDigest = digest_of (CHR ''c''), wk_proofMethod = ''hosted_verusid_login_consent_v1'',
      wk_requestSignerIdentity = ''iApplication'', wk_observedIdentityStatus = ''active'', wk_observedIdentityBlockHeight = 7,
      wk_observedIdentityTxid = digest_of (CHR ''a''), wk_completedAt = t\<rparr>"

definition link_opened :: link_database where
  "link_opened = snd (createChallenge_link link_services (example_ceremony ''wallet_challenge_1'' ''request-1'' (CHR ''a'') (CHR ''b''))
     link_context (empty_link_database\<lparr>ld_store := example_store\<rparr>))"

definition link_linked :: link_database where
  "link_linked = snd (completeChallenge link_services (example_answer ''request-1'' 200) link_context link_opened)"

definition link_reopened :: link_database where
  "link_reopened = snd (createChallenge_link link_services (example_ceremony ''wallet_challenge_2'' ''request-2'' (CHR ''c'') (CHR ''d''))
     link_context link_linked)"

text \<open>The links, the ceremonies and the reference of the account of the example.\<close>

definition link_summary :: "link_database \<Rightarrow> (string \<times> string \<times> string \<times> PersistedIdentityLinkState) list
   \<times> (string \<times> PersistedWalletChallengeState \<times> string \<times> time) list \<times> string option" where
  "link_summary ld =
     (map (\<lambda>l. (il_auth_account_id l, il_network l, il_identity_address l, il_state l)) (ld_links ld),
      map (\<lambda>c. (wl_auth_account_id c, wl_state c, wl_request_id c, wl_expires_at c)) (ld_challenges ld),
      account_reference_of (ld_store ld) ''uuid-0'')"

lemma auth_part_reachable:
  assumes "auth_event\<^sup>*\<^sup>* empty_auth_database ad"
  shows "link_event\<^sup>*\<^sup>* empty_link_database (empty_link_database\<lparr>ld_store := ad\<rparr>)"
  using assms
proof (induction rule: rtranclp_induct)
  case base
  thus ?case by (simp add: empty_link_database_def)
next
  case (step ad ad')
  have "link_event (empty_link_database\<lparr>ld_store := ad\<rparr>) (empty_link_database\<lparr>ld_store := ad\<rparr>\<lparr>ld_store := ad'\<rparr>)"
    by (rule link_event.le_auth) (use step in simp)
  thus ?case using step.IH by simp
qed

lemma link_examples_reachable:
  "link_event\<^sup>*\<^sup>* empty_link_database link_opened" "link_event\<^sup>*\<^sup>* empty_link_database link_linked"
  "link_event\<^sup>*\<^sup>* empty_link_database link_reopened"
proof -
  show 1: "link_event\<^sup>*\<^sup>* empty_link_database link_opened" unfolding link_opened_def
    by (rule rtranclp.rtrancl_into_rtrancl[OF auth_part_reachable[OF example_store_reachable] link_event.le_create])
  show 2: "link_event\<^sup>*\<^sup>* empty_link_database link_linked" unfolding link_linked_def
    by (rule rtranclp.rtrancl_into_rtrancl[OF 1 link_event.le_complete])
  show "link_event\<^sup>*\<^sup>* empty_link_database link_reopened" unfolding link_reopened_def
    by (rule rtranclp.rtrancl_into_rtrancl[OF 2 link_event.le_create])
qed

lemma example_completes:
  obtains d where "completeChallenge link_services (example_answer ''request-1'' 200) link_context link_opened = (Inr (Completed d), link_linked)"
    "\<not> wd_replayed d"
proof -
  have "case fst (completeChallenge link_services (example_answer ''request-1'' 200) link_context link_opened) of
      Inr (Completed d) \<Rightarrow> \<not> wd_replayed d | _ \<Rightarrow> False" by code_simp
  thus thesis using that by (cases "completeChallenge link_services (example_answer ''request-1'' 200) link_context link_opened")
      (auto simp: link_linked_def split: sum.splits completion.splits)
qed

lemma example_replays:
  obtains d ld where "completeChallenge link_services (example_answer ''request-1'' 300) link_context link_linked = (Inr (Completed d), ld)"
proof -
  have "case fst (completeChallenge link_services (example_answer ''request-1'' 300) link_context link_linked) of
      Inr (Completed d) \<Rightarrow> True | _ \<Rightarrow> False" by code_simp
  thus thesis using that by (cases "completeChallenge link_services (example_answer ''request-1'' 300) link_context link_linked")
      (auto split: sum.splits completion.splits)
qed

lemma example_summary: "link_summary link_reopened =
    ([(''uuid-0'', ''VRSCTEST'', ''iTargetTargetTargetTarget'', IL_active)],
     [(''uuid-0'', LC_consumed, ''request-1'', 400), (''uuid-0'', LC_presented, ''request-2'', 400)], Some ''account:one'')"
  by code_simp

end
