(* ===== verification/Link_Properties.thy ===== *)
theory Link_Properties
  imports Link_Example
begin

text \<open>
  What holds of the links between accounts and VerusIDs over every history of calls: where a link comes from,
  that a ceremony links once, and what a revalidation does to open ceremonies.
\<close>

section \<open>Calls and steps\<close>

text \<open>
  C23. The repository refines its tables.  In every history, a call of any operation of the link repository,
  with any arguments, successful or not, changes the ceremonies and the links by exactly one step of the
  state machine \<open>link_step\<close>: it opens one ceremony, closes a presented one, completes a presented one before
  its expiry together with the one link of that account and identity, unlinks one link, requires the
  revalidation of the active links of one identity, or changes neither table.
\<close>

theorem link_calls_refine_steps:
  assumes "link_event\<^sup>*\<^sup>* empty_link_database ld" "link_event ld ld'"
  shows "link_step ld ld'"
  using event_is_step[OF assms(2)] link_history[OF assms(1) empty_link_ok] by blast

text \<open>
  C13. Links come from ceremonies.  In every history, an account has at most one link for an identity, and for
  every link there is a ceremony of the same account and trust domain that was consumed for this identity
  before it expired.
\<close>

theorem links_come_from_ceremonies:
  assumes "link_event\<^sup>*\<^sup>* empty_link_database ld" "l \<in> set (ld_links ld)"
  shows "(\<exists>c \<in> set (ld_challenges ld). wl_state c = LC_consumed \<and> wl_auth_account_id c = il_auth_account_id l
       \<and> wl_trust_domain c = il_trust_domain l \<and> wl_linked_identity_address c = Some (il_identity_address l)
       \<and> (\<exists>t. wl_consumed_at c = Some t \<and> t < wl_expires_at c))
     \<and> filter (\<lambda>q. il_auth_account_id q = il_auth_account_id l \<and> il_network q = il_network l
           \<and> il_identity_address q = il_identity_address l) (ld_links ld) = [l]"
proof -
  have ok: "link_ok ld" using link_history[OF assms(1) empty_link_ok] by blast
  let ?key = "\<lambda>l. (il_auth_account_id l, il_network l, il_identity_address l)"
  have single: "distinct (map key xs) \<Longrightarrow> x \<in> set xs \<Longrightarrow> filter (\<lambda>q. key q = key x) xs = [x]" for key :: "link_row \<Rightarrow> string \<times> string \<times> string" and x xs
  proof (induction xs)
    case (Cons y ys)
    thus ?case by (cases "x = y") (auto simp: filter_empty_conv image_iff)
  qed simp
  have "filter (\<lambda>q. ?key q = ?key l) (ld_links ld) = [l]" using single[of ?key "ld_links ld" l] ok assms(2) by (simp add: link_ok_def)
  moreover have "\<exists>c \<in> set (ld_challenges ld). ceremony_of l c" using ok assms(2) by (simp add: link_ok_def)
  ultimately show ?thesis by (simp add: ceremony_of_def conj_assoc)
qed

section \<open>One completion\<close>

lemma link_of_unique:
  assumes "link_ok ld" "l \<in> set (ld_links ld)" "il_network l = ''VRSCTEST''"
  shows "link_of (il_auth_account_id l) (il_identity_address l) ld = Some l"
proof -
  have d: "distinct (map (\<lambda>l. (il_auth_account_id l, il_network l, il_identity_address l)) (ld_links ld))"
    using assms(1) by (simp add: link_ok_def)
  have "link_of (il_auth_account_id l) (il_identity_address l) ld \<noteq> None"
    using assms(2,3) unfolding link_of_def select_where_None_iff by blast
  then obtain q where q: "link_of (il_auth_account_id l) (il_identity_address l) ld = Some q" by blast
  hence "q \<in> set (ld_links ld)" "il_auth_account_id q = il_auth_account_id l" "il_network q = ''VRSCTEST''"
    "il_identity_address q = il_identity_address l"
    unfolding link_of_def by (auto dest: select_where_SomeD)
  hence "q = l" using distinct_map_key_eq[OF d _ assms(2)] assms(3) by simp
  thus ?thesis using q by simp
qed

lemma first_completion:
  assumes "completeChallenge sv inp context ld = (Inr (Completed d), ld')" "\<not> wd_replayed d"
  obtains v where "challengeSelect (\<lambda>_ r. wl_request_id r = wk_requestId inp) ld = Some v" "wl_state (cv_row v) = LC_presented"
    "wk_completedAt inp < wl_expires_at (cv_row v)" "complete_presented sv inp context v ld = Inr (Completed d, ld')"
proof -
  have "completeChallenge_body sv inp context ld = Inr (Completed d, ld')"
    using assms(1) by (auto simp: completeChallenge_def transaction_Inr)
  thus thesis using that assms(2) unfolding completeChallenge_body_def Let_def
    by (auto split: if_splits dest!: reads_only(1,5))
qed

lemma completion_effect:
  assumes "complete_presented sv inp context v ld = Inr (Completed d, ld')" "cv_row v \<in> set (ld_challenges ld)"
  shows "consume_challenge_row inp (cv_row v) \<in> set (ld_challenges ld')"
    "\<exists>l \<in> set (ld_links ld'). il_external_reference l = wd_linkReference d \<and> il_auth_account_id l = wl_auth_account_id (cv_row v)
       \<and> il_network l = ''VRSCTEST'' \<and> il_identity_address l = wk_identityAddress inp \<and> il_state l = IL_active"
proof -
  let ?c = "cv_row v"
  obtain ref ld1 ad2 where 1: "write_link sv inp v (link_of (wl_auth_account_id ?c) (wk_identityAddress inp) ld) ld = Inr (ref, ld1)"
    and ld': "ld' = ld1\<lparr>ld_challenges := update_where (\<lambda>r. wl_id r = wl_id ?c) (consume_challenge_row inp) (ld_challenges ld1), ld_store := ad2\<rparr>"
    and ref: "wd_linkReference d = ref"
    using assms(1) unfolding complete_presented_def Let_def by (auto dest!: store_only(2))
  from 1 have "ld_challenges ld1 = ld_challenges ld \<and> (\<exists>l \<in> set (ld_links ld1). il_external_reference l = ref
      \<and> il_auth_account_id l = wl_auth_account_id ?c \<and> il_network l = ''VRSCTEST''
      \<and> il_identity_address l = wk_identityAddress inp \<and> il_state l = IL_active)"
  proof (cases rule: write_link_effect)
    case (new i pid ad)
    thus ?thesis by (auto simp: new_link_def)
  next
    case (old l)
    hence "l \<in> set (ld_links ld)" "il_auth_account_id l = wl_auth_account_id ?c" "il_network l = ''VRSCTEST''"
      "il_identity_address l = wk_identityAddress inp"
      by (auto simp: link_of_def dest: select_where_SomeD)
    moreover from this have "refresh_link inp ?c l \<in> set (ld_links ld1)" using old(4) by (force simp: set_update_where)
    ultimately show ?thesis using old by (intro conjI bexI[of _ "refresh_link inp ?c l"]) (auto simp: refresh_link_def)
  qed
  thus "consume_challenge_row inp ?c \<in> set (ld_challenges ld')"
    "\<exists>l \<in> set (ld_links ld'). il_external_reference l = wd_linkReference d \<and> il_auth_account_id l = wl_auth_account_id ?c
       \<and> il_network l = ''VRSCTEST'' \<and> il_identity_address l = wk_identityAddress inp \<and> il_state l = IL_active"
    using ld' ref assms(2) by (force simp: set_update_where)+
qed

lemma settled_history:
  assumes "link_event\<^sup>*\<^sup>* ld ld'" "link_ok ld" "r \<in> set (ld_challenges ld)" "wl_state r \<noteq> LC_presented"
  shows "r \<in> set (ld_challenges ld')"
  using assms
proof (induction rule: rtranclp_induct)
  case (step y z)
  hence "link_ok y" "r \<in> set (ld_challenges y)" using link_history by blast+
  thus ?case using settled_step event_is_step step by blast
qed

lemma link_identity_history:
  assumes "link_event\<^sup>*\<^sup>* ld ld'" "link_ok ld" "i \<in> link_identity ` set (ld_links ld)"
  shows "i \<in> link_identity ` set (ld_links ld')"
  using assms
proof (induction rule: rtranclp_induct)
  case (step y z)
  hence "link_ok y" using link_history by blast
  thus ?case using link_identity_step event_is_step step by blast
qed

text \<open>
  C12. A ceremony links once.  After a ceremony was completed, in every later state a completion of the same
  request either fails or is recognised as a repetition of the same answer for the same identity; it then
  returns the same link and changes nothing.
\<close>

theorem ceremony_completes_once:
  assumes "link_event\<^sup>*\<^sup>* empty_link_database ld" "completeChallenge sv inp context ld = (Inr (Completed d), ld1)" "\<not> wd_replayed d"
    and "link_event\<^sup>*\<^sup>* ld1 ld2" "wk_requestId inp' = wk_requestId inp"
    and "completeChallenge sv' inp' context' ld2 = (Inr r, ld3)"
  shows "ld3 = ld2 \<and> wk_responseDigest inp' = wk_responseDigest inp \<and> wk_identityAddress inp' = wk_identityAddress inp
     \<and> (\<exists>d'. r = Completed d' \<and> wd_replayed d' \<and> wd_linkReference d' = wd_linkReference d)"
proof -
  obtain v where v: "challengeSelect (\<lambda>_ r. wl_request_id r = wk_requestId inp) ld = Some v"
    and run: "complete_presented sv inp context v ld = Inr (Completed d, ld1)"
    by (rule first_completion[OF assms(2,3)])
  obtain a where row: "cv_row v \<in> set (ld_challenges ld)" "wl_request_id (cv_row v) = wk_requestId inp" by (rule selected_row[OF v])
  let ?c = "consume_challenge_row inp (cv_row v)"
  obtain l where l: "l \<in> set (ld_links ld1)" "il_external_reference l = wd_linkReference d"
      "il_auth_account_id l = wl_auth_account_id (cv_row v)" "il_network l = ''VRSCTEST''" "il_identity_address l = wk_identityAddress inp"
    using completion_effect(2)[OF run row(1)] by blast
  have c: "wl_state ?c = LC_consumed" "wl_response_digest ?c = Some (wk_responseDigest inp)" "wl_request_id ?c = wk_requestId inp"
      "wl_linked_identity_address ?c = Some (wk_identityAddress inp)" "wl_auth_account_id ?c = wl_auth_account_id (cv_row v)"
    using row(2) by (simp_all add: consume_challenge_row_def)
  have "link_event ld ld1" using link_event.le_complete[of ld sv inp "context"] assms(2) by simp
  hence "link_event\<^sup>*\<^sup>* empty_link_database ld1" using assms(1) by (meson rtranclp.rtrancl_into_rtrancl)
  hence ok1: "link_ok ld1" using link_history[OF _ empty_link_ok] by blast
  hence ok2: "link_ok ld2" using link_history assms(4) by blast
  have later: "?c \<in> set (ld_challenges ld2)"
    using settled_history[OF assms(4) ok1 completion_effect(1)[OF run row(1)]] c(1) by simp
  obtain l2 where l2: "l2 \<in> set (ld_links ld2)" "link_identity l2 = link_identity l"
    using link_identity_history[OF assms(4) ok1] l(1) by (metis imageE imageI)
  have link2: "link_of (wl_auth_account_id (cv_row v)) (wk_identityAddress inp) ld2 = Some l2" "il_external_reference l2 = wd_linkReference d"
    using link_of_unique[OF ok2 l2(1)] l2(2) l by (simp_all add: link_identity_def)
  have body: "completeChallenge_body sv' inp' context' ld2 = Inr (r, ld3)"
    using assms(6) by (auto simp: completeChallenge_def transaction_Inr)
  then obtain v2 where v2: "challengeSelect (\<lambda>_ r. wl_request_id r = wk_requestId inp') ld2 = Some v2"
    unfolding completeChallenge_body_def bindT_Inr by (blast dest: reads_only(1))
  obtain a2 where row2: "cv_row v2 \<in> set (ld_challenges ld2)" "wl_request_id (cv_row v2) = wk_requestId inp'" by (rule selected_row[OF v2])
  have "cv_row v2 = ?c"
    using distinct_map_key_eq[of wl_request_id "ld_challenges ld2" "cv_row v2" ?c] ok2 row2 later c(3) assms(5)
    by (simp add: link_ok_def)
  thus ?thesis using body v2 c link2 unfolding completeChallenge_body_def Let_def
    by (auto dest!: reads_only(1,5))
qed

section \<open>Revalidation\<close>

lemma link_audit_runs:
  obtains ad where "link_audit sv context command ty ref prior new ld = Inr ((), ld\<lparr>ld_store := ad\<rparr>)"
    "ad_accounts ad = ad_accounts (ld_store ld)"
proof -
  obtain h db where "appendAudit sv context None command
      \<lparr>tg_type = ty, tg_reference = ref, tg_priorState = prior, tg_newState = Some new\<rparr> ''succeeded'' (ad_domain (ld_store ld)) = Inr (h, db)"
    using appendAudit_succeeds by blast
  hence "link_audit sv context command ty ref prior new ld = Inr ((), ld\<lparr>ld_store := (ld_store ld)\<lparr>ad_domain := db\<rparr>\<rparr>)"
    by (simp add: link_audit_def inAuth_def inDomain_def)
  thus thesis using that by simp
qed

lemma link_audit_accounts:
  "link_audit sv context command ty ref prior new ld = Inr (u, ld') \<Longrightarrow> ad_accounts (ld_store ld') = ad_accounts (ld_store ld)"
  using link_audit_runs[of sv "context" command ty ref prior new ld] by (metis Inr_inject Pair_inject link_database.select_convs(1) link_database.surjective link_database.update_convs(1))

lemma revalidate_each_accounts:
  "revalidate_each sv reason context ls ld = Inr (u, ld') \<Longrightarrow> ad_accounts (ld_store ld') = ad_accounts (ld_store ld)"
  by (induction ls arbitrary: ld) (auto dest!: link_audit_accounts)

text \<open>A presented ceremony of an account completes before its expiry whatever state the link is in.\<close>

lemma presented_completes:
  assumes "link_ok ld" "c \<in> set (ld_challenges ld)" "wl_state c = LC_presented" "wl_request_id c = wk_requestId inp"
    and "account_reference_of (ld_store ld) (wl_auth_account_id c) \<noteq> None" "wk_completedAt inp < wl_expires_at c"
    and "link_of (wl_auth_account_id c) (wk_identityAddress inp) ld = Some l"
    and "is_digest (wk_responseDigest inp)" "is_digest (wk_proofDigest inp)" "is_digest (wk_observedIdentityTxid inp)"
  shows "\<exists>d ld'. completeChallenge sv inp context ld = (Inr (Completed d), ld')
     \<and> link_of (wl_auth_account_id c) (wk_identityAddress inp) ld' = Some (refresh_link inp c l)"
proof -
  let ?P = "\<lambda>r. case account_reference_of (ld_store ld) (wl_auth_account_id r) of None \<Rightarrow> False | Some a \<Rightarrow> wl_request_id r = wk_requestId inp"
  have ok: "distinct (map wl_request_id (ld_challenges ld))" "wallet_row_ok c" using assms(1,2) by (auto simp: link_ok_def)
  have "select_where ?P (ld_challenges ld) = Some c"
    using assms(2,4,5) by (intro select_where_unique[OF ok(1)]) (auto split: option.splits)
  then obtain v where v: "challengeSelect (\<lambda>_ r. wl_request_id r = wk_requestId inp) ld = Some v" "cv_row v = c"
    by (auto simp: challengeSelect_def)
  have l: "l \<in> set (ld_links ld)" using assms(7) by (auto simp: link_of_def dest: select_where_SomeD)
  have lok: "link_row_ok (refresh_link inp c q)" if "q \<in> set (ld_links ld)" for q
    using assms(1,9,10) that by (auto simp: link_ok_def link_row_ok_def refresh_link_def)
  have cok: "wallet_row_ok (consume_challenge_row inp r)" if "r \<in> set (ld_challenges ld)" "wl_id r = wl_id c" for r
  proof -
    have "r = c" using distinct_map_key_eq[of wl_id] assms(1,2) that by (auto simp: link_ok_def)
    thus ?thesis using ok(2) assms(3,8) by (simp add: wallet_row_ok_def consume_challenge_row_def)
  qed
  define ld1 where "ld1 = ld\<lparr>ld_links := update_where (\<lambda>q. il_id q = il_id l) (refresh_link inp c) (ld_links ld),
     ld_challenges := update_where (\<lambda>r. wl_id r = wl_id c) (consume_challenge_row inp) (ld_challenges ld)\<rparr>"
  obtain ad1 where a1: "link_audit sv context ''consumeWalletLinkChallenge'' ''wallet_challenge'' (wl_external_reference c)
      (Some ''presented'') ''consumed'' ld1 = Inr ((), ld1\<lparr>ld_store := ad1\<rparr>)" by (rule link_audit_runs)
  obtain ad2 where a2: "link_audit sv context ''revalidateVerusIdentityLink'' ''verus_identity_link'' (il_external_reference l)
      (Some (link_state_name (il_state l))) ''active'' (ld1\<lparr>ld_store := ad1\<rparr>) = Inr ((), ld1\<lparr>ld_store := ad1\<rparr>\<lparr>ld_store := ad2\<rparr>)"
    by (rule link_audit_runs)
  have "\<exists>d. complete_presented sv inp context v ld = Inr (Completed d, ld1\<lparr>ld_store := ad2\<rparr>)"
    using a1 a2 lok cok assms(7) by (auto simp: complete_presented_def write_link_def v(2) ld1_def)
  then obtain d where "completeChallenge_body sv inp context ld = Inr (Completed d, ld1\<lparr>ld_store := ad2\<rparr>)"
    using v assms(3,6) by (auto simp: completeChallenge_body_def selected_challenge_def)
  hence "completeChallenge sv inp context ld = (Inr (Completed d), ld1\<lparr>ld_store := ad2\<rparr>)"
    using assms(8-10) by (simp add: completeChallenge_def transaction_Inr)
  moreover have "link_of (wl_auth_account_id c) (wk_identityAddress inp) (ld1\<lparr>ld_store := ad2\<rparr>) = Some (refresh_link inp c l)"
    using assms(7) unfolding link_of_def ld1_def by (simp add: select_where_update_where refresh_link_def)
  ultimately show ?thesis by blast
qed

text \<open>A revalidation always succeeds on the states of a history.\<close>

lemma revalidate_each_runs:
  assumes "\<forall>q \<in> set (ld_links ld). link_row_ok q \<and> (il_id q \<in> il_id ` set ls \<longrightarrow> il_state q \<noteq> IL_unlinked)"
  shows "\<exists>ld'. revalidate_each sv reason context ls ld = Inr ((), ld')"
  using assms
proof (induction ls arbitrary: ld)
  case (Cons l ls)
  let ?f = "revalidate_row reason"
  have row: "link_row_ok (?f q) \<and> il_state (?f q) \<noteq> IL_unlinked \<and> il_id (?f q) = il_id q" if "link_row_ok q" "il_state q \<noteq> IL_unlinked" for q
    using that by (simp add: link_row_ok_def revalidate_row_def)
  define ld1 where "ld1 = ld\<lparr>ld_links := update_where (\<lambda>q. il_id q = il_id l) ?f (ld_links ld)\<rparr>"
  obtain ad where audit: "link_audit sv context ''requireVerusIdentityRevalidation'' ''verus_identity_link'' (il_external_reference l)
      (Some ''active'') ''revalidation_required'' ld1 = Inr ((), ld1\<lparr>ld_store := ad\<rparr>)" by (rule link_audit_runs)
  have "\<forall>q \<in> set (ld_links (ld1\<lparr>ld_store := ad\<rparr>)). link_row_ok q \<and> (il_id q \<in> il_id ` set ls \<longrightarrow> il_state q \<noteq> IL_unlinked)"
    using Cons.prems row by (auto simp: ld1_def elim!: in_update_whereE)
  from Cons.IH[OF this] obtain ld' where "revalidate_each sv reason context ls (ld1\<lparr>ld_store := ad\<rparr>) = Inr ((), ld')" by blast
  moreover have "update_links (\<lambda>q. il_id q = il_id l) ?f ld = Inr ((), ld1)" using Cons.prems row by (auto simp: ld1_def)
  ultimately show ?case using audit by auto
qed simp

lemma revalidation_runs:
  assumes "link_ok ld"
  obtains n ld' where "requireRevalidation sv address reason context ld = (Inr n, ld')"
proof -
  let ?ls = "filter (\<lambda>l. il_network l = ''VRSCTEST'' \<and> il_identity_address l = address \<and> il_state l = IL_active) (ld_links ld)"
  have "q = l" if "q \<in> set (ld_links ld)" "l \<in> set (ld_links ld)" "il_id q = il_id l" for q l
    using distinct_map_key_eq[of il_id] assms that by (auto simp: link_ok_def)
  hence "\<forall>q \<in> set (ld_links ld). link_row_ok q \<and> (il_id q \<in> il_id ` set ?ls \<longrightarrow> il_state q \<noteq> IL_unlinked)"
    using assms by (fastforce simp: link_ok_def)
  from revalidate_each_runs[OF this] obtain ld' where "revalidate_each sv reason context ?ls ld = Inr ((), ld')" by blast
  hence "requireRevalidation_body sv address reason context ld = Inr (length ?ls, ld')" by (simp add: requireRevalidation_body_def)
  thus thesis using that by (simp add: requireRevalidation_def transaction_Inr)
qed

text \<open>
  C40. A revalidation leaves the open ceremonies.  After the links of an identity were marked for
  revalidation, a ceremony of the account that was opened before completes like one that is opened after it:
  the link, which was waiting for its revalidation, is active again and its reason is cleared.
\<close>

theorem ceremony_outlives_revalidation:
  assumes "link_event\<^sup>*\<^sup>* empty_link_database ld" "c \<in> set (ld_challenges ld)" "wl_state c = LC_presented"
    and "account_reference_of (ld_store ld) (wl_auth_account_id c) \<noteq> None"
    and "link_of (wl_auth_account_id c) address ld = Some l" "il_state l = IL_active"
    and "requireRevalidation sv address reason context ld = (Inr n, ld1)"
    and "wk_requestId inp = wl_request_id c" "wk_identityAddress inp = address" "wk_completedAt inp < wl_expires_at c"
    and "is_digest (wk_responseDigest inp)" "is_digest (wk_proofDigest inp)" "is_digest (wk_observedIdentityTxid inp)"
  shows "\<exists>l1 d ld2 l2. link_of (wl_auth_account_id c) address ld1 = Some l1
     \<and> il_state l1 = IL_revalidation_required \<and> il_revalidation_reason l1 = Some (reason_name reason)
     \<and> completeChallenge sv' inp context' ld1 = (Inr (Completed d), ld2)
     \<and> link_of (wl_auth_account_id c) address ld2 = Some l2 \<and> il_state l2 = IL_active \<and> il_revalidation_reason l2 = None"
proof -
  have ok: "link_ok ld" using link_history[OF assms(1) empty_link_ok] by blast
  have body: "requireRevalidation_body sv address reason context ld = Inr (n, ld1)"
    using assms(7) by (simp add: requireRevalidation_def transaction_Inr)
  hence accounts: "ad_accounts (ld_store ld1) = ad_accounts (ld_store ld)"
    by (auto simp: requireRevalidation_body_def dest!: revalidate_each_accounts)
  obtain ad where ld1: "ld1 = ld\<lparr>ld_links := update_where (\<lambda>l. il_network l = ''VRSCTEST'' \<and> il_identity_address l = address
       \<and> il_state l = IL_active) (revalidate_row reason) (ld_links ld), ld_store := ad\<rparr>"
    using revalidation_effect[OF ok body] by blast
  have l: "il_network l = ''VRSCTEST''" "il_identity_address l = address" using assms(5) by (auto simp: link_of_def dest: select_where_SomeD)
  hence l1: "link_of (wl_auth_account_id c) address ld1 = Some (revalidate_row reason l)"
    using assms(5,6) unfolding link_of_def ld1 by (simp add: select_where_update_where revalidate_row_def)
  have "link_event ld ld1" using link_event.le_revalidate[of ld sv address reason "context"] assms(7) by simp
  hence ok1: "link_ok ld1" using link_ok_step[OF event_is_step] ok by blast
  obtain d ld2 where run: "completeChallenge sv' inp context' ld1 = (Inr (Completed d), ld2)"
    and l2: "link_of (wl_auth_account_id c) address ld2 = Some (refresh_link inp c (revalidate_row reason l))"
    using presented_completes[OF ok1, of c inp "revalidate_row reason l" sv' context'] assms l1 accounts
    by (auto simp: ld1 account_reference_of_def)
  show ?thesis
    by (rule exI[of _ "revalidate_row reason l"]) (use l1 run l2 in \<open>auto simp: revalidate_row_def refresh_link_def\<close>)
qed

section \<open>Examples\<close>

theorem link_calls_refine_steps_witness: "link_step link_opened link_linked"
proof -
  have "link_event link_opened link_linked" unfolding link_linked_def by (rule link_event.le_complete)
  from link_calls_refine_steps[OF link_examples_reachable(1) this] show ?thesis .
qed

theorem links_come_from_ceremonies_witness:
  "\<exists>l. ld_links link_reopened = [l] \<and> (\<exists>c \<in> set (ld_challenges link_reopened). wl_linked_identity_address c = Some (il_identity_address l))"
proof -
  obtain l where l: "ld_links link_reopened = [l]" using example_summary by (auto simp: link_summary_def)
  from links_come_from_ceremonies[OF link_examples_reachable(3), of l] l show ?thesis by auto
qed

theorem ceremony_completes_once_witness:
  "\<exists>d ld. completeChallenge link_services (example_answer ''request-1'' 300) link_context link_linked = (Inr (Completed d), ld)
     \<and> wd_replayed d \<and> ld = link_linked"
proof -
  obtain d where first: "completeChallenge link_services (example_answer ''request-1'' 200) link_context link_opened
      = (Inr (Completed d), link_linked)" "\<not> wd_replayed d" by (rule example_completes)
  obtain d2 ld where second: "completeChallenge link_services (example_answer ''request-1'' 300) link_context link_linked
      = (Inr (Completed d2), ld)" by (rule example_replays)
  from ceremony_completes_once[OF link_examples_reachable(1) first rtranclp.rtrancl_refl _ second]
  show ?thesis using second by (auto simp: example_answer_def)
qed

theorem ceremony_outlives_revalidation_witness:
  "\<exists>n ld1 d ld2 l2. requireRevalidation link_services ''iTargetTargetTargetTarget'' Identity_revoked link_context link_reopened = (Inr n, ld1)
     \<and> completeChallenge link_services (example_answer ''request-2'' 300) link_context ld1 = (Inr (Completed d), ld2)
     \<and> link_of ''uuid-0'' ''iTargetTargetTargetTarget'' ld2 = Some l2 \<and> il_state l2 = IL_active"
proof -
  obtain l c c2 where rows: "ld_links link_reopened = [l]" "ld_challenges link_reopened = [c2, c]"
      "il_auth_account_id l = ''uuid-0''" "il_network l = ''VRSCTEST''" "il_identity_address l = ''iTargetTargetTargetTarget''" "il_state l = IL_active"
      "wl_auth_account_id c = ''uuid-0''" "wl_state c = LC_presented" "wl_request_id c = ''request-2''" "wl_expires_at c = 400"
    and account: "account_reference_of (ld_store link_reopened) ''uuid-0'' = Some ''account:one''"
    using example_summary by (auto simp: link_summary_def map_eq_Cons_conv)
  obtain n ld1 where run: "requireRevalidation link_services ''iTargetTargetTargetTarget'' Identity_revoked link_context link_reopened = (Inr n, ld1)"
    by (rule revalidation_runs) (use link_history[OF link_examples_reachable(3) empty_link_ok] in blast)
  have digests: "is_digest (digest_of (CHR ''a''))" "is_digest (digest_of (CHR ''c''))" by code_simp+
  from ceremony_outlives_revalidation[OF link_examples_reachable(3), of c "''iTargetTargetTargetTarget''" l link_services Identity_revoked
      link_context n ld1 "example_answer ''request-2'' 300" link_services link_context] rows account run digests
  show ?thesis by (fastforce simp: example_answer_def link_of_def)
qed

end
