(* ===== verification/Link_Poll.thy ===== *)
theory Link_Poll
  imports Link_Service Link_Properties
begin

text \<open>
  What the service of the links adds to its repository: a poll changes the links only after the hosted
  service verified the identity for the state of the ceremony and the node confirmed it.
\<close>

section \<open>Computations that change a part of the state\<close>

text \<open>If a part of the state changed, and not in the first computation, that one succeeded and the part
  changed in the second.\<close>

lemma bindE_changed:
  assumes "bindE m f s = (r, s')" "g s' \<noteq> g s" "\<And>x y. m s = (x, y) \<Longrightarrow> g y = g s"
  obtains a s1 where "m s = (Inr a, s1)" "f a s1 = (r, s')" "g s' \<noteq> g s1"
  using assms by (cases "m s"; cases "fst (m s)") (auto simp: bindE_def)

lemma bindE_kept:
  assumes "bindE m f s = (r, s')" "\<And>a x s1 s2. f a s1 = (x, s2) \<Longrightarrow> g s2 = g s1"
  shows "\<exists>q s1. m s = (q, s1) \<and> g s1 = g s'"
  using assms by (cases "m s"; cases "fst (m s)") (auto simp: bindE_def dest: sym)

abbreviation links_of :: "'x link_world \<Rightarrow> link_row list" where
  "links_of w \<equiv> ld_links (lw_store w)"

lemma links_elsewhere:
  "inHosted m w = (r, w') \<Longrightarrow> links_of w' = links_of w"
  "inNode n w = (q, w') \<Longrightarrow> links_of w' = links_of w"
  "requireEnabled su w = (u, w') \<Longrightarrow> w' = w"
  "requireE b e w = (u', w') \<Longrightarrow> links_of w' = links_of w"
  "acknowledgeHostedResult su i d w = (u'', w') \<Longrightarrow> links_of w' = links_of w"
  by (auto simp: inHosted_def inNode_def requireEnabled_def requireE_def acknowledgeHostedResult_def returnE_def throwE_def
      split: prod.splits option.splits if_splits)

lemma inLinks_Inr [simp]:
  "inLinks m w = (Inr a, w') \<longleftrightarrow> (\<exists>ld. m (lw_store w) = (Inr a, ld) \<and> w' = w\<lparr>lw_store := ld\<rparr>)"
  by (cases "m (lw_store w)"; cases "fst (m (lw_store w))") (auto simp: inLinks_def)

lemma inHosted_Inr [simp]:
  "inHosted m w = (Inr a, w') \<longleftrightarrow> (\<exists>x. m (lw_outside w) = (Inr a, x) \<and> w' = w\<lparr>lw_outside := x\<rparr>)"
  by (cases "m (lw_outside w)"; cases "fst (m (lw_outside w))") (auto simp: inHosted_def)

lemma inNode_Inr [simp]:
  "inNode m w = (Inr a, w') \<longleftrightarrow> (\<exists>x. m (lw_outside w) = (Inr a, x) \<and> w' = w\<lparr>lw_outside := x\<rparr>)"
  by (cases "m (lw_outside w)"; cases "fst (m (lw_outside w))") (auto simp: inNode_def)

lemma both_Inr [simp]:
  "both m n x = (Inr (a, b), x2) \<longleftrightarrow> (\<exists>x1. m x = (Inr a, x1) \<and> n x1 = (Inr b, x2))"
  by (cases "m x"; cases "fst (m x)"; cases "n (snd (m x))"; cases "fst (n (snd (m x)))") (auto simp: both_def)

section \<open>The calls of the repository\<close>

lemma inLinks_links:
  assumes "inLinks m w = (r, w')" "\<And>x ld'. m (lw_store w) = (x, ld') \<Longrightarrow> ld_links ld' = ld_links (lw_store w)"
  shows "links_of w' = links_of w"
  using assms by (auto simp: inLinks_def split: prod.splits)

lemma op_result:
  assumes "checked c (transaction m) ld = (x, ld')"
  obtains "ld' = ld" | a where "x = Inr a" "m ld = Inr (a, ld')"
  using assms by (auto simp: checked_def transaction_statement statement_def split: sum.splits)

lemma pollChallenge_body_effect:
  assumes "pollChallenge_body sv ar digest t context ld = Inr (p, ld')"
  shows "ld_links ld' = ld_links ld"
    "wp_state p = LC_presented \<Longrightarrow> ld' = ld \<and> (\<exists>v. challengeSelect (references_account ar digest) ld = Some v
       \<and> wl_state (cv_row v) = LC_presented \<and> t < wl_expires_at (cv_row v))"
  using assms unfolding pollChallenge_body_def Let_def expire_challenge_def
  by (auto split: if_splits dest!: reads_only(1,5) store_only(2))

lemma pollChallenge_links: "pollChallenge sv ar digest t context ld = (x, ld') \<Longrightarrow> ld_links ld' = ld_links ld"
  unfolding pollChallenge_def using pollChallenge_body_effect(1) by (metis op_result)

lemma poll_tail_links:
  assumes "bindE (acknowledgeHostedResult su i d) (\<lambda>_. inLinks (pollChallenge sv ar digest t cx)) w = (r, w')"
  shows "links_of w' = links_of w"
  using assms pollChallenge_links by (fastforce simp: bindE_def acknowledgeHostedResult_def inLinks_def split: prod.splits)

lemma challengeForPoll_effect:
  "challengeForPoll ar digest ld = (x, ld') \<Longrightarrow> ld' = ld"
  "challengeForPoll ar digest ld = (Inr c, ld') \<Longrightarrow> \<exists>v. challengeSelect (references_account ar digest) ld = Some v \<and> c = mapChallenge v"
  by (auto simp: challengeForPoll_def checked_def statement_def selected_challenge_def body_defs split: sum.splits option.splits)

text \<open>A completion changes only the link of the account and the identity, which is then active.\<close>

lemma completion_links:
  assumes "completeChallenge sv inp context ld = (x, ld')" "ld_links ld' \<noteq> ld_links ld" "link_ok ld"
  obtains v where "challengeSelect (\<lambda>_ r. wl_request_id r = wk_requestId inp) ld = Some v"
    "\<forall>l \<in> set (ld_links ld') - set (ld_links ld). il_auth_account_id l = wl_auth_account_id (cv_row v)
       \<and> il_identity_address l = wk_identityAddress inp \<and> il_state l = IL_active"
proof -
  obtain a where "completeChallenge_body sv inp context ld = Inr (a, ld')"
    using assms op_result unfolding completeChallenge_def by metis
  with assms(2) obtain v where v: "challengeSelect (\<lambda>_ r. wl_request_id r = wk_requestId inp) ld = Some v"
    and run: "complete_presented sv inp context v ld = Inr (a, ld')"
    unfolding completeChallenge_body_def Let_def expire_challenge_def by (auto split: if_splits dest!: reads_only(1,5) store_only(2))
  let ?c = "cv_row v"
  obtain ref ld1 where 1: "write_link sv inp v (link_of (wl_auth_account_id ?c) (wk_identityAddress inp) ld) ld = Inr (ref, ld1)"
    and ld': "ld_links ld' = ld_links ld1"
    using run unfolding complete_presented_def Let_def by (auto dest!: store_only(2))
  from 1 have "\<forall>l \<in> set (ld_links ld1) - set (ld_links ld). il_auth_account_id l = wl_auth_account_id ?c
       \<and> il_identity_address l = wk_identityAddress inp \<and> il_state l = IL_active"
  proof (cases rule: write_link_effect)
    case (new i pid ad)
    thus ?thesis by (auto simp: new_link_def)
  next
    case (old l)
    hence l: "l \<in> set (ld_links ld)" "il_auth_account_id l = wl_auth_account_id ?c" "il_identity_address l = wk_identityAddress inp"
      by (auto simp: link_of_def dest: select_where_SomeD)
    have "il_auth_account_id q = wl_auth_account_id ?c \<and> il_identity_address q = wk_identityAddress inp"
      if "q \<in> set (ld_links ld)" "il_id q = il_id l" for q
      using l distinct_map_key_eq[of il_id] assms(3) l(1) that by (auto simp: link_ok_def)
    thus ?thesis using old(4) by (auto simp: refresh_link_def elim!: in_update_whereE)
  qed
  thus thesis using that v ld' by simp
qed

section \<open>poll\<close>

text \<open>The ceremony of a polling token, as it is when the hosted service is asked.\<close>

definition polled_ceremony :: "'x link_setup \<Rightarrow> PollInput \<Rightarrow> link_database \<Rightarrow> WalletChallengeRow \<Rightarrow> bool" where
  "polled_ceremony su inp ld c \<longleftrightarrow> c \<in> set (ld_challenges ld) \<and> wl_state c = LC_presented \<and> po_now inp < wl_expires_at c
     \<and> account_reference_of (ld_store ld) (wl_auth_account_id c) = Some (lp_accountReference (po_principal inp))
     \<and> wl_polling_token_digest c = keyedDigest (ls_env su) (lf_pollingTokenSecret (ls_config su)) (po_pollingToken inp)"

text \<open>The question to the hosted service: the state is derived again from the ceremony and its account.\<close>

definition hosted_question :: "'x link_setup \<Rightarrow> PollInput \<Rightarrow> WalletChallengeRow \<Rightarrow> GetHostedResultInput" where
  "hosted_question su inp c =
     \<lparr>gr_challengeId = wl_request_id c,
      gr_state = deriveHostedState (ls_hmac64 su) (lf_bindingSecret (ls_config su))
        \<lparr>hb_accountReference = lp_accountReference (po_principal inp), hb_trustDomain = wl_trust_domain c,
         hb_purpose = wl_purpose c, hb_audience = wl_audience c, hb_issuedAt = wl_issued_at c, hb_expiresAt = wl_expires_at c\<rparr>,
      gr_audience = wl_audience c, gr_issuedAt = wl_issued_at c, gr_expiresAt = wl_expires_at c, gr_now = po_now inp\<rparr>"

lemma complete_verified_changed:
  assumes "complete_verified su inp ch vh w = (r, w')" "links_of w' \<noteq> links_of w" "link_ok (lw_store w)"
  obtains v info identity x2 x3 where "getInfo (ls_adapter su) (lw_outside w) = (Inr info, x2)"
    "getIdentity (ls_adapter su) (vh_identityAddress vh) x2 = (Inr identity, x3)"
    "in_chainId info = VRSCTEST_CHAIN_ID" "in_name info = ''VRSCTEST''" "in_testnet info"
    "\<not> linked_identity_invalid identity (vh_identityAddress vh)"
    "challengeSelect (\<lambda>_ r. wl_request_id r = wr_requestId ch) (lw_store w) = Some v"
    "\<forall>l \<in> set (links_of w') - set (links_of w). il_auth_account_id l = wl_auth_account_id (cv_row v)
       \<and> il_identity_address l = vh_identityAddress vh \<and> il_state l = IL_active"
proof -
  let ?sv = "en_services (ls_env su)"
  obtain info identity w1 x w2 where node: "inNode (both (getInfo (ls_adapter su)) (getIdentity (ls_adapter su) (vh_identityAddress vh))) w
      = (Inr (info, identity), w1)"
    and checks: "in_chainId info = VRSCTEST_CHAIN_ID" "in_name info = ''VRSCTEST''" "in_testnet info"
      "\<not> linked_identity_invalid identity (vh_identityAddress vh)"
    and run: "inLinks (completeChallenge ?sv (completion_input inp ch vh identity)
       (contextFor (po_principal inp) (po_correlationId inp) (vh_proofDigest vh) ''wallet_link_verified'')) w1 = (x, w2)"
      "links_of w2 = links_of w'"
    using assms(1,2) unfolding complete_verified_def
    by (auto simp: bindE_def requireE_def simp del: inLinks_Inr inNode_Inr split: prod.splits sum.splits if_splits dest: links_elsewhere(2))
  obtain x2 x3 where outside: "getInfo (ls_adapter su) (lw_outside w) = (Inr info, x2)"
      "getIdentity (ls_adapter su) (vh_identityAddress vh) x2 = (Inr identity, x3)" "w1 = w\<lparr>lw_outside := x3\<rparr>"
    using node by auto
  obtain y ld' where complete: "completeChallenge ?sv (completion_input inp ch vh identity)
       (contextFor (po_principal inp) (po_correlationId inp) (vh_proofDigest vh) ''wallet_link_verified'') (lw_store w) = (y, ld')"
      "ld_links ld' = links_of w'"
    using run outside(3) by (auto simp: inLinks_def split: prod.splits)
  show thesis
    by (rule completion_links[OF complete(1) _ assms(3)])
      (use assms(2) complete(2) checks outside that in \<open>auto simp: completion_input_def\<close>)
qed

lemma poll_changed:
  assumes "poll su inp w = (r, w')" "links_of w' \<noteq> links_of w"
  defines "digest \<equiv> keyedDigest (ls_env su) (lf_pollingTokenSecret (ls_config su)) (po_pollingToken inp)"
  obtains v current cx where "challengeSelect (references_account (lp_accountReference (po_principal inp)) digest) (lw_store w) = Some v"
    "wl_state (cv_row v) = LC_presented" "po_now inp < wl_expires_at (cv_row v)"
    "poll_presented su inp digest cx current w = (r, w')"
proof -
  let ?cx = "contextFor (po_principal inp) (po_correlationId inp) digest ''wallet_link_polled''"
  obtain x ld1 where first: "pollChallenge (en_services (ls_env su)) (lp_accountReference (po_principal inp)) digest
      (po_now inp) ?cx (lw_store w) = (x, ld1)" by (rule prod.exhaust)
  have same: "ld_links ld1 = links_of w" using pollChallenge_links[OF first] .
  then obtain current where current: "x = Inr current" "wp_state current = LC_presented"
    and rest: "poll_presented su inp digest ?cx current (w\<lparr>lw_store := ld1\<rparr>) = (r, w')"
    using assms(1,2) first unfolding poll_def digest_def[symmetric] Let_def
    by (cases x) (auto simp: bindE_def inLinks_def returnE_def split: prod.splits sum.splits if_splits dest!: links_elsewhere(3))
  have body: "pollChallenge_body (en_services (ls_env su)) (lp_accountReference (po_principal inp)) digest
      (po_now inp) ?cx (lw_store w) = Inr (current, ld1)"
    using first current(1) by (simp add: pollChallenge_def transaction_Inr)
  show thesis using pollChallenge_body_effect(2)[OF body current(2)] rest that by auto
qed

lemma poll_presented_changed:
  assumes "poll_presented su inp digest cx current w = (r, w')" "links_of w' \<noteq> links_of w"
    and "challengeSelect (references_account (lp_accountReference (po_principal inp)) digest) (lw_store w) = Some v"
  obtains vh x1 q w2 where "sha256 (en_services (ls_env su)) (gr_state (hosted_question su inp (cv_row v))) = wl_nonce_hash (cv_row v)"
    "hosted_getResult (ls_hosted su) (hosted_question su inp (cv_row v)) (lw_outside w) = (Inr (Verified vh), x1)"
    "complete_verified su inp (mapChallenge v) vh (w\<lparr>lw_outside := x1\<rparr>) = (q, w2)" "links_of w2 = links_of w'"
proof -
  have "cv_account_reference v = lp_accountReference (po_principal inp)"
    using selected_row[OF assms(3)] by (auto simp: references_account_def)
  hence question: "hosted_question su inp (cv_row v) = \<lparr>gr_challengeId = wr_requestId (mapChallenge v),
      gr_state = deriveHostedState (ls_hmac64 su) (lf_bindingSecret (ls_config su)) (challenge_binding (mapChallenge v)),
      gr_audience = wr_audience (mapChallenge v), gr_issuedAt = wr_issuedAt (mapChallenge v),
      gr_expiresAt = wr_expiresAt (mapChallenge v), gr_now = po_now inp\<rparr>"
    by (simp add: hosted_question_def challenge_binding_def mapChallenge_def Let_def)
  obtain x where read: "challengeForPoll (lp_accountReference (po_principal inp)) digest (lw_store w) = (x, lw_store w)"
    using challengeForPoll_effect(1) by (metis surj_pair)
  then obtain c where "x = Inr c" using assms(1,2) by (cases x) (auto simp: poll_presented_def Let_def bindE_def inLinks_def)
  hence x: "x = Inr (mapChallenge v)" using challengeForPoll_effect(2) read assms(3) by fastforce
  have nonce: "wr_nonceHash (mapChallenge v) = wl_nonce_hash (cv_row v)" by (simp add: mapChallenge_def Let_def)
  obtain y x1 where asked: "hosted_getResult (ls_hosted su) (hosted_question su inp (cv_row v)) (lw_outside w) = (y, x1)"
    by (rule prod.exhaust)
  let ?tail = "\<lambda>vh. bindE (acknowledgeHostedResult su (wr_requestId (mapChallenge v)) (vh_proofDigest vh)) (\<lambda>_.
      inLinks (pollChallenge (en_services (ls_env su)) (lp_accountReference (po_principal inp)) digest (po_now inp) cx))"
  obtain vh where vh: "sha256 (en_services (ls_env su)) (gr_state (hosted_question su inp (cv_row v))) = wl_nonce_hash (cv_row v)"
      "y = Inr (Verified vh)" "bindE (complete_verified su inp (mapChallenge v) vh) (\<lambda>_. ?tail vh) (w\<lparr>lw_outside := x1\<rparr>) = (r, w')"
    using assms(1,2) read x asked nonce unfolding poll_presented_def question Let_def
    by (cases y; cases "projr y") (auto simp: bindE_def[of "inLinks (challengeForPoll _ _)"] bindE_def[of "inHosted _"] bindE_def[of "requireE _ _"]
      inLinks_def[of "challengeForPoll _ _"] inHosted_def requireE_def returnE_def split: if_splits)
  have "\<exists>q s1. complete_verified su inp (mapChallenge v) vh (w\<lparr>lw_outside := x1\<rparr>) = (q, s1) \<and> links_of s1 = links_of w'"
    by (rule bindE_kept[OF vh(3)]) (rule poll_tail_links)
  thus thesis using that vh(1,2) asked by blast
qed

text \<open>
  C10. A link rests on a verified identity.  If a poll changes the links of the database, whether it returns or
  fails afterwards, then its token is that of a presented ceremony of the caller's account before its expiry,
  the hosted service answered for the state derived from this ceremony and this account that an identity is
  verified, the state is the one whose hash was stored when the ceremony was opened, the node is on VRSCTEST
  and reports this identity as active there, and every link that is new or changed is an active link of this
  account to this identity.
\<close>

theorem poll_links_verified_identities:
  assumes "link_event\<^sup>*\<^sup>* empty_link_database (lw_store w)" "poll su inp w = (r, w')" "ld_links (lw_store w') \<noteq> ld_links (lw_store w)"
  shows "\<exists>c vh x1 info x2 identity x3. polled_ceremony su inp (lw_store w) c
     \<and> sha256 (en_services (ls_env su)) (gr_state (hosted_question su inp c)) = wl_nonce_hash c
     \<and> hosted_getResult (ls_hosted su) (hosted_question su inp c) (lw_outside w) = (Inr (Verified vh), x1)
     \<and> getInfo (ls_adapter su) x1 = (Inr info, x2) \<and> in_chainId info = VRSCTEST_CHAIN_ID \<and> in_testnet info
     \<and> getIdentity (ls_adapter su) (vh_identityAddress vh) x2 = (Inr identity, x3)
     \<and> vi_identityAddress (ir_identity identity) = vh_identityAddress vh \<and> ir_status identity = ''active''
     \<and> (\<forall>l \<in> set (ld_links (lw_store w')) - set (ld_links (lw_store w)). il_auth_account_id l = wl_auth_account_id c
          \<and> il_identity_address l = vh_identityAddress vh \<and> il_state l = IL_active)"
proof -
  have ok: "link_ok (lw_store w)" using link_history[OF assms(1) empty_link_ok] by blast
  obtain v current cx where v: "challengeSelect (references_account (lp_accountReference (po_principal inp))
       (keyedDigest (ls_env su) (lf_pollingTokenSecret (ls_config su)) (po_pollingToken inp))) (lw_store w) = Some v"
    and presented: "wl_state (cv_row v) = LC_presented" "po_now inp < wl_expires_at (cv_row v)"
    and rest: "poll_presented su inp (keyedDigest (ls_env su) (lf_pollingTokenSecret (ls_config su)) (po_pollingToken inp)) cx current w = (r, w')"
    by (rule poll_changed[OF assms(2,3)])
  let ?c = "cv_row v"
  have ceremony: "polled_ceremony su inp (lw_store w) ?c"
    using selected_row[OF v] presented by (auto simp: polled_ceremony_def references_account_def)
  obtain vh x1 q w2 where hosted: "sha256 (en_services (ls_env su)) (gr_state (hosted_question su inp ?c)) = wl_nonce_hash ?c"
      "hosted_getResult (ls_hosted su) (hosted_question su inp ?c) (lw_outside w) = (Inr (Verified vh), x1)"
    and complete: "complete_verified su inp (mapChallenge v) vh (w\<lparr>lw_outside := x1\<rparr>) = (q, w2)" "links_of w2 = links_of w'"
    by (rule poll_presented_changed[OF rest assms(3) v])
  obtain v2 info identity x2 x3 where node: "getInfo (ls_adapter su) x1 = (Inr info, x2)"
      "getIdentity (ls_adapter su) (vh_identityAddress vh) x2 = (Inr identity, x3)"
      "in_chainId info = VRSCTEST_CHAIN_ID" "in_testnet info" "\<not> linked_identity_invalid identity (vh_identityAddress vh)"
    and v2: "challengeSelect (\<lambda>_ r. wl_request_id r = wr_requestId (mapChallenge v)) (lw_store w) = Some v2"
    and links: "\<forall>l \<in> set (links_of w2) - set (links_of w). il_auth_account_id l = wl_auth_account_id (cv_row v2)
       \<and> il_identity_address l = vh_identityAddress vh \<and> il_state l = IL_active"
    by (rule complete_verified_changed[OF complete(1)]) (use complete(2) assms(3) ok in auto)
  have "cv_row v2 = ?c"
    using distinct_map_key_eq[of wl_request_id "ld_challenges (lw_store w)" "cv_row v2" ?c] selected_row[OF v2] ceremony ok
    by (auto simp: link_ok_def polled_ceremony_def mapChallenge_def Let_def)
  thus ?thesis using ceremony hosted node links complete(2) by (fastforce simp: linked_identity_invalid_def)
qed

section \<open>Example\<close>

definition link_env :: "sample_node environment" where
  "link_env = \<lparr>en_services = link_services, en_keyedDigest = (\<lambda>k v. digest_of (CHR ''b'')), en_token = (\<lambda>n. ''token-'' @ nat_to_string n),
     en_newId = (\<lambda>n. ''id-'' @ nat_to_string n), en_normalized = (\<lambda>s. s), en_keyVersions = (\<lambda>_. ''v1''),
     en_enqueue = (\<lambda>_. returnE ()), en_webAuthn = \<lparr>wa_generateRegistrationOptions = (\<lambda>_. returnE \<lparr>co_challenge = ''reg'', co_rest = []\<rparr>),
     wa_generateAuthenticationOptions = (\<lambda>_. returnE \<lparr>co_challenge = ''auth'', co_rest = []\<rparr>),
     wa_verifyRegistrationResponse = (\<lambda>_ _ _ _. throwE ''unsupported''),
     wa_verifyAuthenticationResponse = (\<lambda>_ _ _ _ _. throwE ''unsupported'')\<rparr>\<rparr>"

definition verified_answer :: VerifiedHostedResult where
  "verified_answer = \<lparr>vh_identityAddress = ''iTargetTargetTargetTarget'', vh_displayNameSnapshot = None,
     vh_proofDigest = digest_of (CHR ''c''), vh_tokenIssuedAt = 150, vh_tokenExpiresAt = 350\<rparr>"

definition link_setup_example :: "sample_node link_setup" where
  "link_setup_example = \<lparr>ls_config = \<lparr>lf_enabled = True, lf_network = ''VRSCTEST'', lf_applicationIdentityAddress = ''iApplication'',
       lf_authServiceCallbackUrl = ''https://cbc.example/callback'', lf_participantAudience = ''participants'',
       lf_committeeAudience = ''committees'', lf_bindingSecret = replicate 32 (CHR ''s''), lf_pollingTokenSecret = replicate 32 (CHR ''t'')\<rparr>,
     ls_env = link_env, ls_rateSecret = ''rl'',
     ls_hosted = \<lparr>hosted_createChallenge = (\<lambda>_. throwE (HostedAuthError H_UNAVAILABLE)), hosted_getResult = (\<lambda>_. returnE (Verified verified_answer)),
       hosted_acknowledgeResult = (\<lambda>_ _. throwE (HostedAuthError H_UNAVAILABLE))\<rparr>,
     ls_adapter = sample_adapter, ls_hmac64 = (\<lambda>_ _. ''state'')\<rparr>"

definition poll_example :: PollInput where
  "poll_example = \<lparr>po_principal = \<lparr>lp_accountReference = ''account:one'', lp_trustDomain = D_participant, lp_authenticationStrength = ''passkey''\<rparr>,
     po_pollingToken = ''token-0'', po_now = 200, po_correlationId = ''c''\<rparr>"

definition poll_world :: "sample_node link_world" where
  "poll_world = \<lparr>lw_store = link_opened, lw_tokens = 1, lw_ids = 1, lw_outside = fresh_node\<rparr>"

theorem poll_links_verified_identities_witness:
  "\<exists>c. polled_ceremony link_setup_example poll_example link_opened c
     \<and> (\<forall>l \<in> set (ld_links (lw_store (snd (poll link_setup_example poll_example poll_world)))) - set (ld_links link_opened).
          il_auth_account_id l = wl_auth_account_id c \<and> il_state l = IL_active)"
proof -
  have "ld_links (lw_store (snd (poll link_setup_example poll_example poll_world))) \<noteq> []" by code_simp
  moreover have "ld_links link_opened = []" by code_simp
  ultimately have "ld_links (lw_store (snd (poll link_setup_example poll_example poll_world))) \<noteq> ld_links (lw_store poll_world)"
    by (simp add: poll_world_def)
  moreover have "link_event\<^sup>*\<^sup>* empty_link_database (lw_store poll_world)" using link_examples_reachable(1) by (simp add: poll_world_def)
  moreover have "poll link_setup_example poll_example poll_world = (fst (poll link_setup_example poll_example poll_world),
      snd (poll link_setup_example poll_example poll_world))" by simp
  ultimately show ?thesis using poll_links_verified_identities[of poll_world link_setup_example poll_example]
    by (fastforce simp: poll_world_def)
qed

end
