(* ===== verification/Base64url.thy ===== *)
theory Base64url
  imports Json
begin

text \<open>
  What the code uses of the language for tokens: the base64url alphabet of Buffer, String.split at a
  character and encodeURIComponent.  Bytes are numbers below 256.  Decoding reads back what was encoded.
\<close>

section \<open>Six bits\<close>

definition sextet_char :: "nat \<Rightarrow> char" where
  "sextet_char d =
     (if d < 26 then char_of (65 + d) else if d < 52 then char_of (71 + d) else if d < 62 then char_of (d - 4)
      else if d = 62 then CHR ''-'' else CHR ''_'')"

definition sextet :: "char \<Rightarrow> nat" where
  "sextet c =
     (if is_upper c then code c - 65 else if is_lower c then code c - 71 else if is_digit c then code c + 4
      else if c = CHR ''-'' then 62 else 63)"

text \<open>The class \<^verbatim>\<open>[A-Za-z0-9_-]\<close>.\<close>

definition base64url_char :: "char \<Rightarrow> bool" where
  "base64url_char c \<longleftrightarrow> is_upper c \<or> is_lower c \<or> is_digit c \<or> c = CHR ''_'' \<or> c = CHR ''-''"

lemma sextet_sextet_char [simp]: "d < 64 \<Longrightarrow> sextet (sextet_char d) = d"
  by (auto simp: sextet_def sextet_char_def is_upper_def is_lower_def is_digit_def code_Char)

lemma base64url_sextet_char [simp]: "d < 64 \<Longrightarrow> base64url_char (sextet_char d)"
  by (auto simp: base64url_char_def sextet_char_def is_upper_def is_lower_def is_digit_def code_Char)

section \<open>Bytes\<close>

fun base64url_encode :: "nat list \<Rightarrow> string" where
  "base64url_encode [] = []"
| "base64url_encode [a] = map sextet_char [a div 4, a mod 4 * 16]"
| "base64url_encode [a, b] = map sextet_char [a div 4, a mod 4 * 16 + b div 16, b mod 16 * 4]"
| "base64url_encode (a # b # c # r) =
     map sextet_char [a div 4, a mod 4 * 16 + b div 16, b mod 16 * 4 + c div 64, c mod 64] @ base64url_encode r"

text \<open>Buffer.from(value, 'base64url') for a value of the alphabet: the bits of each group of four characters,
  and of the two or three that may remain; a single last character has too few bits for a byte.\<close>

fun sextets_to_bytes :: "nat list \<Rightarrow> nat list" where
  "sextets_to_bytes (w # x # y # z # r) =
     (w * 4 + x div 16) # (x mod 16 * 16 + y div 4) # (y mod 4 * 64 + z) # sextets_to_bytes r"
| "sextets_to_bytes [w, x, y] = [w * 4 + x div 16, x mod 16 * 16 + y div 4]"
| "sextets_to_bytes [w, x] = [w * 4 + x div 16]"
| "sextets_to_bytes _ = []"

definition base64url_decode :: "string \<Rightarrow> nat list" where
  "base64url_decode s = sextets_to_bytes (map sextet s)"

theorem base64url_roundtrip:
  assumes "\<forall>b \<in> set bs. b < 256"
  shows "base64url_decode (base64url_encode bs) = bs"
  using assms
proof (induction bs rule: base64url_encode.induct)
  case (4 a b c r)
  have "a div 4 < 64" "a mod 4 * 16 + b div 16 < 64" "b mod 16 * 4 + c div 64 < 64" "c mod 64 < 64" "b div 16 < 16" "c div 64 < 4"
    using 4 by auto
  thus ?case using 4 by (simp add: base64url_decode_def)
next
  case (3 a b)
  have "a div 4 < 64" "a mod 4 * 16 + b div 16 < 64" "b mod 16 * 4 < 64" "b div 16 < 16" using 3 by auto
  thus ?case using 3 by (simp add: base64url_decode_def)
next
  case (2 a)
  have "a div 4 < 64" "a mod 4 * 16 < 64" using 2 by auto
  thus ?case using 2 by (simp add: base64url_decode_def)
qed (simp add: base64url_decode_def)

lemma base64url_encode_chars:
  assumes "\<forall>b \<in> set bs. b < 256"
  shows "list_all base64url_char (base64url_encode bs)"
  using assms
proof (induction bs rule: base64url_encode.induct)
  case (4 a b c r)
  have "a div 4 < 64" "a mod 4 * 16 + b div 16 < 64" "b mod 16 * 4 + c div 64 < 64" "c mod 64 < 64" using 4 by auto
  thus ?case using 4 by simp
next
  case (3 a b)
  have "a div 4 < 64" "a mod 4 * 16 + b div 16 < 64" "b mod 16 * 4 < 64" using 3 by auto
  thus ?case by simp
next
  case (2 a)
  have "a div 4 < 64" "a mod 4 * 16 < 64" using 2 by auto
  thus ?case by simp
qed simp

lemma base64url_encode_Nil [simp]: "base64url_encode bs = [] \<longleftrightarrow> bs = []"
  by (cases bs rule: base64url_encode.cases) auto

section \<open>Splitting\<close>

fun split_char :: "char \<Rightarrow> string \<Rightarrow> string list" where
  "split_char d [] = [[]]"
| "split_char d (c # cs) =
     (if c = d then [] # split_char d cs
      else case split_char d cs of p # ps \<Rightarrow> (c # p) # ps | [] \<Rightarrow> [[c]])"

lemma split_char_nonempty [simp]: "split_char d s \<noteq> []"
  by (induction s) (auto split: list.splits)

lemma split_char_free: "d \<notin> set s \<Longrightarrow> split_char d s = [s]"
  by (induction s) auto

lemma split_char_append: "d \<notin> set s \<Longrightarrow> split_char d (s @ d # t) = s # split_char d t"
  by (induction s) auto

lemma join_split_char [simp]: "join [d] (split_char d s) = s"
proof (induction s)
  case (Cons c cs)
  show ?case
  proof (cases "split_char d cs")
    case (Cons p ps)
    thus ?thesis using Cons.IH by (cases ps) auto
  qed simp
qed simp

section \<open>encodeURIComponent\<close>

definition uri_unreserved :: "char \<Rightarrow> bool" where
  "uri_unreserved c \<longleftrightarrow> is_upper c \<or> is_lower c \<or> is_digit c \<or> c \<in> set ''-_.!~*()'' \<or> c = CHR 0x27"

definition upper_hex :: "nat \<Rightarrow> char" where
  "upper_hex d = (if d < 10 then char_of (48 + d) else char_of (55 + d))"

definition encodeURIComponent :: "string \<Rightarrow> string" where
  "encodeURIComponent s = concat (map (\<lambda>c. if uri_unreserved c then [c]
     else concat (map (\<lambda>b. [CHR ''%'', upper_hex (b div 16), upper_hex (b mod 16)]) (utf8_char c))) s)"

lemma encodeURIComponent_id: "list_all uri_unreserved s \<Longrightarrow> encodeURIComponent s = s"
  by (induction s) (auto simp: encodeURIComponent_def)

end
