(* ===== verification/Hosted_Client.thy ===== *)
theory Hosted_Client
  imports Link_Service Base64url
begin

text \<open>
  packages/verus-linking/src/hosted-auth-client.ts: the HTTP client of the hosted identity service.  What it
  takes from the language and the network is in the record \<open>client_library\<close>: new URL, JSON.parse,
  JSON.stringify, new Date of a text, SHA-256 and HMAC-SHA-256 on bytes; fetch is a function on the state of
  what is outside.  A text with characters above 255 in a token counts as one that cannot be read.
\<close>

section \<open>Data\<close>

record url =
  ur_protocol :: string
  ur_username :: string
  ur_password :: string
  ur_search :: string
  ur_hash :: string
  ur_pathname :: string

record client_library =
  cl_parseUrl :: "string \<Rightarrow> url option"
  cl_parseJson :: "string \<Rightarrow> json option"
  cl_stringify :: "json \<Rightarrow> string"
  cl_parseDate :: "string \<Rightarrow> date"
  cl_sha :: "nat list \<Rightarrow> string"
  cl_hmac :: "string \<Rightarrow> nat list \<Rightarrow> nat list"

text \<open>A request to the service and its answer.  The length is the header content-length, or 0 without it, as
  Number reads it; reading the text may fail.\<close>

record http_request =
  rq_method :: string
  rq_base :: string
  rq_path :: string
  rq_body :: "string option"
  rq_redirect :: string
  rq_timeoutMs :: int
  rq_headers :: "(string \<times> string) list"

record http_response =
  rs_status :: int
  rs_length :: js_number
  rs_text :: "string + string"

type_synonym 'x fetch = "http_request \<Rightarrow> ('x, string, http_response) computation"

definition rs_ok :: "http_response \<Rightarrow> bool" where
  "rs_ok response \<longleftrightarrow> 200 \<le> rs_status response \<and> rs_status response \<le> 299"

record HostedAuthClientConfig =
  hf_baseUrl :: string
  hf_contractVersion :: string
  hf_serviceVersion :: string
  hf_serviceSourceRevision :: string
  hf_imageDigest :: string
  hf_sdkCommit :: string
  hf_primitivesCommit :: string
  hf_rpcClientCommit :: string
  hf_bitgoCommit :: string
  hf_daemonVersion :: string
  hf_applicationIdentityAddress :: string
  hf_callbackUrl :: string
  hf_issuer :: string
  hf_clientSecret :: string
  hf_jwtSecret :: string
  hf_timeoutMs :: "int option"

record 'x hosted_http_client =
  hx_config :: HostedAuthClientConfig
  hx_library :: client_library
  hx_fetch :: "'x fetch"
  hx_timeoutMs :: int

definition MAX_JSON_BYTES :: nat where "MAX_JSON_BYTES = 64 * 1024"

definition MAX_DEEP_LINK_BYTES :: nat where "MAX_DEEP_LINK_BYTES = 16 * 1024"

definition MAX_TOKEN_BYTES :: nat where "MAX_TOKEN_BYTES = 16 * 1024"

text \<open>The pattern \<^verbatim>\<open>^i[1-9A-HJ-NP-Za-km-z]{24,34}$\<close>.\<close>

definition IADDRESS_PATTERN :: "string \<Rightarrow> bool" where
  "IADDRESS_PATTERN s \<longleftrightarrow> matches_head (\<lambda>c. c = CHR ''i'') base58_char 24 34 s"

definition LOGIN_CONSENT_SCHEME :: string where
  "LOGIN_CONSENT_SCHEME = ''i5jtwbp6zymeay9llnraglgjqgdrffsau4:''"

definition APPROVED_CHAIN_READ_URL :: string where
  "APPROVED_CHAIN_READ_URL = ''https://api.verustest.net''"

type_synonym 'a hosted_result = "hosted_error + 'a"

text \<open>A pure part of a call.\<close>

definition pureE :: "'e + 'a \<Rightarrow> ('x, 'e, 'a) computation" where
  "pureE r x = (r, x)"

lemma pureE_Inr [simp]: "pureE r x = (Inr a, x') \<longleftrightarrow> r = Inr a \<and> x' = x"
  by (auto simp: pureE_def)

abbreviation hosted_fail :: "HostedAuthErrorCode \<Rightarrow> 'a hosted_result" where
  "hosted_fail e \<equiv> Inl (HostedAuthError e)"

section \<open>Reading values\<close>

definition field :: "(string \<times> json) list \<Rightarrow> string \<Rightarrow> json option" where
  "field source key = map_of source key"

definition objectValue :: "(string \<times> json) list \<Rightarrow> string \<Rightarrow> (string \<times> json) list option" where
  "objectValue source key = (case field source key of Some (JObj es) \<Rightarrow> Some es | _ \<Rightarrow> None)"

definition hasControlCharacter :: "string \<Rightarrow> bool" where
  "hasControlCharacter val \<longleftrightarrow> list_ex (\<lambda>c. code c \<le> 31 \<or> code c = 127) val"

definition stringValue :: "(string \<times> json) list \<Rightarrow> string \<Rightarrow> nat \<Rightarrow> string hosted_result" where
  "stringValue source key maxLength =
     (case field source key of
        Some (JStr val) \<Rightarrow>
          if val = [] \<or> length (utf8_encode val) > maxLength \<or> hasControlCharacter val
          then hosted_fail H_INVALID_RESPONSE else Inr val
      | _ \<Rightarrow> hosted_fail H_INVALID_RESPONSE)"

definition optionalStringValue :: "(string \<times> json) list \<Rightarrow> string \<Rightarrow> nat \<Rightarrow> string option hosted_result" where
  "optionalStringValue source key maxLength =
     (case field source key of
        None \<Rightarrow> Inr None
      | Some JNull \<Rightarrow> Inr None
      | _ \<Rightarrow> bind_result (stringValue source key maxLength) (\<lambda>v. Inr (Some v)))"

definition isSafeInteger :: "js_number \<Rightarrow> bool" where
  "isSafeInteger n \<longleftrightarrow> isInteger n \<and> (case n of Num r \<Rightarrow> \<bar>r\<bar> \<le> 9007199254740991 | _ \<Rightarrow> False)"

definition integerValue :: "(string \<times> json) list \<Rightarrow> string \<Rightarrow> int hosted_result" where
  "integerValue source key =
     (case field source key of
        Some (JNum (Num r)) \<Rightarrow>
          if \<not> isSafeInteger (Num r) \<or> r \<le> 0 then hosted_fail H_INVALID_TOKEN else Inr \<lfloor>r\<rfloor>
      | _ \<Rightarrow> hosted_fail H_INVALID_TOKEN)"

definition dateValue :: "client_library \<Rightarrow> (string \<times> json) list \<Rightarrow> string \<Rightarrow> time hosted_result" where
  "dateValue lib source key =
     bind_result (stringValue source key 64) (\<lambda>val.
     case cl_parseDate lib val of
       None \<Rightarrow> hosted_fail H_INVALID_RESPONSE
     | Some parsed \<Rightarrow> if toISOString parsed \<noteq> val then hosted_fail H_INVALID_RESPONSE else Inr parsed)"

definition readJson :: "client_library \<Rightarrow> http_response \<Rightarrow> (string \<times> json) list hosted_result" where
  "readJson lib response =
     (if js_less (num (int MAX_JSON_BYTES)) (rs_length response) then hosted_fail H_INVALID_RESPONSE
      else case rs_text response of
        Inl e \<Rightarrow> Inl (OtherHostedError e)
      | Inr text \<Rightarrow>
          if length (utf8_encode text) > MAX_JSON_BYTES then hosted_fail H_INVALID_RESPONSE
          else case cl_parseJson lib text of
            Some (JObj es) \<Rightarrow> Inr es
          | _ \<Rightarrow> hosted_fail H_INVALID_RESPONSE)"

section \<open>The constructor\<close>

definition requireHttpsBaseUrl :: "client_library \<Rightarrow> string \<Rightarrow> url hosted_result" where
  "requireHttpsBaseUrl lib val =
     (case cl_parseUrl lib val of
        None \<Rightarrow> hosted_fail H_INCOMPATIBLE
      | Some u \<Rightarrow>
          if ur_protocol u \<noteq> ''https:'' \<or> ur_username u \<noteq> [] \<or> ur_password u \<noteq> [] \<or> ur_search u \<noteq> [] \<or> ur_hash u \<noteq> []
             \<or> (ur_pathname u \<noteq> ''/'' \<and> ur_pathname u \<noteq> [])
          then hosted_fail H_INCOMPATIBLE else Inr u)"

definition requireHttpsCallback :: "client_library \<Rightarrow> string \<Rightarrow> unit hosted_result" where
  "requireHttpsCallback lib val =
     (case cl_parseUrl lib val of
        None \<Rightarrow> hosted_fail H_INCOMPATIBLE
      | Some u \<Rightarrow>
          if ur_protocol u \<noteq> ''https:'' \<or> ur_username u \<noteq> [] \<or> ur_password u \<noteq> [] \<or> ur_hash u \<noteq> []
          then hosted_fail H_INCOMPATIBLE else Inr ())"

definition requireSecret :: "string \<Rightarrow> unit hosted_result" where
  "requireSecret val = (if length val < 32 then hosted_fail H_INCOMPATIBLE else Inr ())"

text \<open>The patterns \<^verbatim>\<open>^\d+\.\d+\.\d+$\<close>, \<^verbatim>\<open>^[a-f0-9]{40}$\<close> and \<^verbatim>\<open>^sha256:[a-f0-9]{64}$\<close>.\<close>

definition is_release :: "string \<Rightarrow> bool" where
  "is_release s \<longleftrightarrow> (let parts = split_char (CHR ''.'') s in
     length parts = 3 \<and> list_all (\<lambda>p. p \<noteq> [] \<and> list_all is_digit p) parts)"

definition is_commit :: "string \<Rightarrow> bool" where
  "is_commit s \<longleftrightarrow> matches_all is_hex 40 40 s"

definition is_image :: "string \<Rightarrow> bool" where
  "is_image s \<longleftrightarrow> prefix ''sha256:'' s \<and> is_digest (drop 7 s)"

definition requireReleaseMetadata :: "HostedAuthClientConfig \<Rightarrow> unit hosted_result" where
  "requireReleaseMetadata config =
     (let commits = [hf_serviceSourceRevision config, hf_sdkCommit config, hf_primitivesCommit config,
         hf_rpcClientCommit config, hf_bitgoCommit config] in
      if \<not> is_release (hf_serviceVersion config) \<or> list_ex (\<lambda>v. \<not> is_commit v) commits
         \<or> \<not> is_image (hf_imageDigest config) \<or> hf_daemonVersion config = []
      then hosted_fail H_INCOMPATIBLE else Inr ())"

definition HostedVerusIdAuthHttpClient ::
  "HostedAuthClientConfig \<Rightarrow> client_library \<Rightarrow> 'x fetch \<Rightarrow> 'x hosted_http_client hosted_result" where
  "HostedVerusIdAuthHttpClient config lib fetch =
     bind_result (requireHttpsBaseUrl lib (hf_baseUrl config)) (\<lambda>_.
     bind_result (requireHttpsCallback lib (hf_callbackUrl config)) (\<lambda>_.
     bind_result (requireSecret (hf_clientSecret config)) (\<lambda>_.
     bind_result (requireSecret (hf_jwtSecret config)) (\<lambda>_.
     bind_result (requireReleaseMetadata config) (\<lambda>_.
     if \<not> IADDRESS_PATTERN (hf_applicationIdentityAddress config) then hosted_fail H_INCOMPATIBLE
     else Inr \<lparr>hx_config = config, hx_library = lib, hx_fetch = fetch,
       hx_timeoutMs = (case hf_timeoutMs config of None \<Rightarrow> 8000 | Some t \<Rightarrow> t)\<rparr>)))))"

section \<open>Tokens\<close>

record ExpectedJwt =
  ej_issuer :: string
  ej_audience :: string
  ej_challengeId :: string
  ej_state :: string
  ej_identityAddress :: string
  ej_issuedAt :: time
  ej_expiresAt :: time
  ej_now :: time

definition decodeBase64Url :: "string \<Rightarrow> nat list hosted_result" where
  "decodeBase64Url val =
     (if val = [] \<or> \<not> list_all base64url_char val then hosted_fail H_INVALID_TOKEN else Inr (base64url_decode val))"

definition parseBase64UrlJson :: "client_library \<Rightarrow> string \<Rightarrow> (string \<times> json) list hosted_result" where
  "parseBase64UrlJson lib val =
     bind_result (decodeBase64Url val) (\<lambda>bytes.
     case utf8_decode bytes of
       None \<Rightarrow> hosted_fail H_INVALID_TOKEN
     | Some text \<Rightarrow>
         (case cl_parseJson lib text of
            Some (JObj es) \<Rightarrow> Inr es
          | _ \<Rightarrow> hosted_fail H_INVALID_TOKEN))"

definition claims_refused :: "(string \<times> json) list \<Rightarrow> ExpectedJwt \<Rightarrow> int \<Rightarrow> int \<Rightarrow> bool" where
  "claims_refused claims expected iat expires \<longleftrightarrow>
     (let nowSeconds = ej_now expected div 1000;
          earliestSeconds = ej_issuedAt expected div 1000 - 60;
          latestSeconds = ej_expiresAt expected div 1000 + 60 in
      field claims ''iss'' \<noteq> Some (JStr (ej_issuer expected))
      \<or> field claims ''aud'' \<noteq> Some (JStr (ej_audience expected))
      \<or> field claims ''challengeID'' \<noteq> Some (JStr (ej_challengeId expected))
      \<or> field claims ''state'' \<noteq> Some (JStr (ej_state expected))
      \<or> field claims ''idLoggedIn'' \<noteq> Some (JStr (ej_identityAddress expected))
      \<or> (case field claims ''jti'' of Some (JStr jti) \<Rightarrow> length jti < 16 | _ \<Rightarrow> True)
      \<or> \<not> IADDRESS_PATTERN (ej_identityAddress expected)
      \<or> iat < earliestSeconds \<or> iat > nowSeconds + 60 \<or> expires \<le> nowSeconds \<or> expires > latestSeconds \<or> expires \<le> iat)"

definition verifyJwt :: "client_library \<Rightarrow> string \<Rightarrow> string \<Rightarrow> ExpectedJwt \<Rightarrow> (int \<times> int) hosted_result" where
  "verifyJwt lib token secret expected =
     (case split_char (CHR ''.'') token of
        [encodedHeader, encodedClaims, encodedSignature] \<Rightarrow>
          if encodedHeader = [] \<or> encodedClaims = [] \<or> encodedSignature = [] then hosted_fail H_INVALID_TOKEN
          else
            bind_result (parseBase64UrlJson lib encodedHeader) (\<lambda>header.
            bind_result (parseBase64UrlJson lib encodedClaims) (\<lambda>claims.
            if field header ''alg'' \<noteq> Some (JStr ''HS256'') \<or> field header ''typ'' \<noteq> Some (JStr ''JWT'')
            then hosted_fail H_INVALID_TOKEN
            else
              bind_result (decodeBase64Url encodedSignature) (\<lambda>suppliedSignature.
              if suppliedSignature \<noteq> cl_hmac lib secret (utf8_encode (encodedHeader @ ''.'' @ encodedClaims))
              then hosted_fail H_INVALID_TOKEN
              else
                bind_result (integerValue claims ''iat'') (\<lambda>iat.
                bind_result (integerValue claims ''exp'') (\<lambda>expires.
                if claims_refused claims expected iat expires then hosted_fail H_INVALID_TOKEN
                else Inr (iat, expires))))))
      | _ \<Rightarrow> hosted_fail H_INVALID_TOKEN)"

section \<open>Calls\<close>

definition request :: "'x hosted_http_client \<Rightarrow> string \<Rightarrow> string \<Rightarrow> string option \<Rightarrow> ('x, hosted_error, http_response) computation" where
  "request client method path body =
     map_errorE (\<lambda>_. HostedAuthError H_UNAVAILABLE) (hx_fetch client
       \<lparr>rq_method = method, rq_base = hf_baseUrl (hx_config client), rq_path = path, rq_body = body, rq_redirect = ''error'',
        rq_timeoutMs = hx_timeoutMs client,
        rq_headers = [(''accept'', ''application/json''), (''authorization'', ''Bearer '' @ hf_clientSecret (hx_config client)),
          (''content-type'', ''application/json''), (''x-cbc-auth-contract-version'', hf_contractVersion (hx_config client))]\<rparr>)"

definition health_matches :: "HostedAuthClientConfig \<Rightarrow> (string \<times> json) list \<Rightarrow> bool" where
  "health_matches config health \<longleftrightarrow>
     list_all (\<lambda>(key, expected). field health key = Some (JStr expected))
       [(''status'', ''ok''), (''service'', ''verusid-auth''), (''version'', hf_serviceVersion config),
        (''service_source_revision'', hf_serviceSourceRevision config), (''image_digest'', hf_imageDigest config),
        (''verusid_ts_client_commit'', hf_sdkCommit config), (''verus_primitives_commit'', hf_primitivesCommit config),
        (''verusd_rpc_client_commit'', hf_rpcClientCommit config), (''verus_bitgo_commit'', hf_bitgoCommit config),
        (''daemon_version'', hf_daemonVersion config), (''chain_read_url'', APPROVED_CHAIN_READ_URL), (''chain'', ''vrsctest''),
        (''contract_version'', hf_contractVersion config), (''signing_identity'', hf_applicationIdentityAddress config),
        (''callback_url'', hf_callbackUrl config), (''jwt_issuer'', hf_issuer config),
        (''result_authentication'', ''client_secret''), (''result_delivery'', ''idempotent_until_ack'')]
     \<and> list_all (\<lambda>key. field health key = Some (JBool True)) [''signing_identity_configured'', ''chain_configured'', ''sdk_ready'']"

definition preflight :: "'x hosted_http_client \<Rightarrow> ('x, hosted_error, unit) computation" where
  "preflight client =
     bindE (request client ''GET'' ''/health'' None) (\<lambda>response.
     bindE (requireE (rs_ok response) (HostedAuthError H_UNAVAILABLE)) (\<lambda>_.
     bindE (pureE (readJson (hx_library client) response)) (\<lambda>health.
     requireE (health_matches (hx_config client) health) (HostedAuthError H_INCOMPATIBLE))))"

definition challenge_body :: "CreateHostedChallengeInput \<Rightarrow> json" where
  "challenge_body inp = JObj
     [(''state'', JStr (hc_state inp)), (''audience'', JStr (hc_audience inp)), (''purpose'', JStr (purpose_text (hc_purpose inp))),
      (''issuedAt'', JStr (toISOString (hc_issuedAt inp))), (''expiresAt'', JStr (toISOString (hc_expiresAt inp))),
      (''requestedAccess'', JArr [JStr ''identity_view''])]"

definition read_challenge ::
  "HostedAuthClientConfig \<Rightarrow> client_library \<Rightarrow> CreateHostedChallengeInput \<Rightarrow> (string \<times> json) list \<Rightarrow> HostedChallenge hosted_result" where
  "read_challenge config lib inp body =
     (case objectValue body ''data'' of
        None \<Rightarrow> hosted_fail H_INVALID_RESPONSE
      | Some data \<Rightarrow>
          if field body ''success'' \<noteq> Some (JBool True) then hosted_fail H_INVALID_RESPONSE
          else
            bind_result (stringValue data ''challengeID'' 100) (\<lambda>challengeId.
            bind_result (stringValue data ''deepLink'' MAX_DEEP_LINK_BYTES) (\<lambda>deepLink.
            bind_result (stringValue data ''requestDigest'' 64) (\<lambda>reportedDigest.
            bind_result (stringValue data ''signingIdentity'' 64) (\<lambda>signer.
            bind_result (stringValue data ''callbackUrl'' 2048) (\<lambda>callbackUrl.
            bind_result (stringValue data ''network'' 32) (\<lambda>network.
            bind_result (stringValue data ''contractVersion'' 64) (\<lambda>contractVersion.
            bind_result (dateValue lib data ''issuedAt'') (\<lambda>issuedAt.
            bind_result (dateValue lib data ''expiresAt'') (\<lambda>expiresAt.
            let presentationDigest = cl_sha lib (utf8_encode deepLink) in
            case cl_parseUrl lib deepLink of
              None \<Rightarrow> hosted_fail H_INVALID_RESPONSE
            | Some parsed \<Rightarrow>
                if \<not> IADDRESS_PATTERN challengeId \<or> ur_protocol parsed \<noteq> LOGIN_CONSENT_SCHEME
                   \<or> reportedDigest \<noteq> presentationDigest \<or> signer \<noteq> hf_applicationIdentityAddress config
                   \<or> callbackUrl \<noteq> hf_callbackUrl config \<or> network \<noteq> ''VRSCTEST''
                   \<or> contractVersion \<noteq> hf_contractVersion config \<or> issuedAt \<noteq> hc_issuedAt inp \<or> expiresAt \<noteq> hc_expiresAt inp
                then hosted_fail H_INCOMPATIBLE
                else Inr \<lparr>hg_challengeId = challengeId, hg_deepLink = deepLink, hg_presentationDigest = presentationDigest,
                  hg_signerIdentityAddress = signer, hg_callbackUrl = callbackUrl, hg_issuedAt = issuedAt,
                  hg_expiresAt = expiresAt\<rparr>))))))))))"

definition client_createChallenge ::
  "'x hosted_http_client \<Rightarrow> CreateHostedChallengeInput \<Rightarrow> ('x, hosted_error, HostedChallenge) computation" where
  "client_createChallenge client inp =
     bindE (preflight client) (\<lambda>_.
     bindE (requireE (\<not> (hc_expiresAt inp \<le> hc_issuedAt inp \<or> hc_expiresAt inp - hc_issuedAt inp > 5 * 60000))
        (HostedAuthError H_INVALID_RESPONSE)) (\<lambda>_.
     bindE (request client ''POST'' ''/api/auth/verusid/challenge'' (Some (cl_stringify (hx_library client) (challenge_body inp)))) (\<lambda>response.
     bindE (requireE (rs_ok response) (HostedAuthError H_UNAVAILABLE)) (\<lambda>_.
     bindE (pureE (readJson (hx_library client) response)) (\<lambda>body.
     pureE (read_challenge (hx_config client) (hx_library client) inp body))))))"

definition expected_jwt :: "HostedAuthClientConfig \<Rightarrow> GetHostedResultInput \<Rightarrow> string \<Rightarrow> ExpectedJwt" where
  "expected_jwt config inp identityAddress =
     \<lparr>ej_issuer = hf_issuer config, ej_audience = gr_audience inp, ej_challengeId = gr_challengeId inp,
      ej_state = gr_state inp, ej_identityAddress = identityAddress, ej_issuedAt = gr_issuedAt inp,
      ej_expiresAt = gr_expiresAt inp, ej_now = gr_now inp\<rparr>"

definition read_result ::
  "HostedAuthClientConfig \<Rightarrow> client_library \<Rightarrow> GetHostedResultInput \<Rightarrow> (string \<times> json) list \<Rightarrow> HostedResult hosted_result" where
  "read_result config lib inp body =
     (if field body ''success'' \<noteq> Some (JBool True) then hosted_fail H_INVALID_RESPONSE
      else
        bind_result (stringValue body ''JWT'' MAX_TOKEN_BYTES) (\<lambda>token.
        bind_result (stringValue body ''iaddress'' 64) (\<lambda>identityAddress.
        bind_result (verifyJwt lib token (hf_jwtSecret config) (expected_jwt config inp identityAddress)) (\<lambda>(iat, expires).
        bind_result (optionalStringValue body ''name'' 200) (\<lambda>displayName.
        Inr (Verified \<lparr>vh_identityAddress = identityAddress, vh_displayNameSnapshot = displayName,
          vh_proofDigest = cl_sha lib (utf8_encode token), vh_tokenIssuedAt = iat * 1000, vh_tokenExpiresAt = expires * 1000\<rparr>))))))"

definition client_getResult ::
  "'x hosted_http_client \<Rightarrow> GetHostedResultInput \<Rightarrow> ('x, hosted_error, HostedResult) computation" where
  "client_getResult client inp =
     bindE (requireE (IADDRESS_PATTERN (gr_challengeId inp)) (HostedAuthError H_INVALID_RESPONSE)) (\<lambda>_.
     bindE (request client ''GET'' (''/api/auth/verusid/result/'' @ encodeURIComponent (gr_challengeId inp)) None) (\<lambda>response.
     if rs_status response = 404 \<or> rs_status response = 202 then returnE Pending
     else
       bindE (requireE (rs_ok response) (HostedAuthError H_UNAVAILABLE)) (\<lambda>_.
       bindE (pureE (readJson (hx_library client) response)) (\<lambda>body.
       pureE (read_result (hx_config client) (hx_library client) inp body)))))"

definition client_acknowledgeResult ::
  "'x hosted_http_client \<Rightarrow> string \<Rightarrow> string \<Rightarrow> ('x, hosted_error, unit) computation" where
  "client_acknowledgeResult client challengeId proofDigest =
     bindE (requireE (IADDRESS_PATTERN challengeId \<and> is_digest proofDigest) (HostedAuthError H_INVALID_RESPONSE)) (\<lambda>_.
     bindE (request client ''POST'' (''/api/auth/verusid/result/'' @ encodeURIComponent challengeId @ ''/ack'')
        (Some (cl_stringify (hx_library client) (JObj [(''proofDigest'', JStr proofDigest)])))) (\<lambda>response.
     requireE (rs_ok response) (HostedAuthError H_UNAVAILABLE)))"

text \<open>The client as the link service uses it.\<close>

definition http_client :: "'x hosted_http_client \<Rightarrow> 'x HostedVerusIdAuthClient" where
  "http_client client =
     \<lparr>hosted_createChallenge = client_createChallenge client, hosted_getResult = client_getResult client,
      hosted_acknowledgeResult = client_acknowledgeResult client\<rparr>"

end
