(* ===== verification/Hosted_Store.thy ===== *)
theory Hosted_Store
  imports Hosted_Client
begin

text \<open>
  services/verusid/src/store.js: the two stores of the hosted identity service, one in memory and one in
  Redis, and the interface that both provide.  A challenge and a result carry the texts of their times; here
  they carry the times themselves, which Date.parse reads back from the text of toISOString.  Every
  operation has the time at which it reads the clock as an argument.  The commands of Redis are the record
  \<open>redis_commands\<close>, and what its documentation promises of them is \<open>redis_laws\<close>.
\<close>

section \<open>Data\<close>

record hosted_challenge =
  hs_challengeID :: string
  hs_state :: json
  hs_audience :: string
  hs_purpose :: WalletLinkPurpose
  hs_issuedAt :: time
  hs_expiresAt :: time
  hs_signingIdentity :: string
  hs_callbackUrl :: string
  hs_network :: string
  hs_requestDigest :: string
  hs_requestObjectDigest :: string

record stored_result =
  sx_token :: string
  sx_identityAddress :: string
  sx_displayName :: "string option"
  sx_proofDigest :: string
  sx_expiresAt :: time

datatype put_reply = Put_stored | Put_same | Put_conflict | Put_consumed

record 's store_ops =
  so_ping :: "'s \<Rightarrow> (string + bool) \<times> 's"
  so_createChallenge :: "time \<Rightarrow> hosted_challenge \<Rightarrow> 's \<Rightarrow> bool \<times> 's"
  so_getChallenge :: "time \<Rightarrow> string \<Rightarrow> 's \<Rightarrow> hosted_challenge option \<times> 's"
  so_putResult :: "time \<Rightarrow> string \<Rightarrow> stored_result \<Rightarrow> 's \<Rightarrow> put_reply \<times> 's"
  so_getResult :: "time \<Rightarrow> string \<Rightarrow> 's \<Rightarrow> stored_result option \<times> 's"
  so_acknowledge :: "time \<Rightarrow> string \<Rightarrow> string \<Rightarrow> time \<Rightarrow> 's \<Rightarrow> bool \<times> 's"

section \<open>MemoryStore\<close>

record memory_store =
  ms_challenges :: "string \<rightharpoonup> hosted_challenge"
  ms_results :: "string \<rightharpoonup> stored_result"
  ms_consumed :: "string \<rightharpoonup> time"

definition empty_memory_store :: memory_store where
  "empty_memory_store = \<lparr>ms_challenges = (\<lambda>_. None), ms_results = (\<lambda>_. None), ms_consumed = (\<lambda>_. None)\<rparr>"

definition live_at :: "('v \<Rightarrow> time) \<Rightarrow> time \<Rightarrow> (string \<rightharpoonup> 'v) \<Rightarrow> string \<rightharpoonup> 'v" where
  "live_at expiry now m = (\<lambda>k. case m k of None \<Rightarrow> None | Some v \<Rightarrow> if expiry v \<le> now then None else Some v)"

definition cleanup :: "time \<Rightarrow> memory_store \<Rightarrow> memory_store" where
  "cleanup now s = \<lparr>ms_challenges = live_at hs_expiresAt now (ms_challenges s),
     ms_results = live_at sx_expiresAt now (ms_results s), ms_consumed = live_at (\<lambda>t. t) now (ms_consumed s)\<rparr>"

definition memory_createChallenge :: "time \<Rightarrow> hosted_challenge \<Rightarrow> memory_store \<Rightarrow> bool \<times> memory_store" where
  "memory_createChallenge now challenge s0 =
     (let s = cleanup now s0 in
      if ms_challenges s (hs_challengeID challenge) \<noteq> None then (False, s)
      else (True, s\<lparr>ms_challenges := (ms_challenges s)(hs_challengeID challenge \<mapsto> challenge)\<rparr>))"

definition memory_getChallenge :: "time \<Rightarrow> string \<Rightarrow> memory_store \<Rightarrow> hosted_challenge option \<times> memory_store" where
  "memory_getChallenge now challengeID s0 = (let s = cleanup now s0 in (ms_challenges s challengeID, s))"

definition memory_putResult :: "time \<Rightarrow> string \<Rightarrow> stored_result \<Rightarrow> memory_store \<Rightarrow> put_reply \<times> memory_store" where
  "memory_putResult now challengeID result s0 =
     (let s = cleanup now s0 in
      if ms_consumed s challengeID \<noteq> None \<or> ms_challenges s challengeID = None then (Put_consumed, s)
      else case ms_results s challengeID of
        Some existing \<Rightarrow> (if sx_proofDigest existing = sx_proofDigest result then Put_same else Put_conflict, s)
      | None \<Rightarrow> (Put_stored, s\<lparr>ms_results := (ms_results s)(challengeID \<mapsto> result)\<rparr>))"

definition memory_getResult :: "time \<Rightarrow> string \<Rightarrow> memory_store \<Rightarrow> stored_result option \<times> memory_store" where
  "memory_getResult now challengeID s0 = (let s = cleanup now s0 in (ms_results s challengeID, s))"

definition memory_acknowledge :: "time \<Rightarrow> string \<Rightarrow> string \<Rightarrow> time \<Rightarrow> memory_store \<Rightarrow> bool \<times> memory_store" where
  "memory_acknowledge now challengeID proofDigest tombstoneExpiresAt s0 =
     (let s = cleanup now s0 in
      case ms_results s challengeID of
        None \<Rightarrow> (False, s)
      | Some result \<Rightarrow>
          if sx_proofDigest result \<noteq> proofDigest then (False, s)
          else (True, \<lparr>ms_challenges = (ms_challenges s)(challengeID := None), ms_results = (ms_results s)(challengeID := None),
            ms_consumed = (ms_consumed s)(challengeID \<mapsto> tombstoneExpiresAt)\<rparr>))"

definition MemoryStore :: "memory_store store_ops" where
  "MemoryStore = \<lparr>so_ping = (\<lambda>s. (Inr True, s)), so_createChallenge = memory_createChallenge, so_getChallenge = memory_getChallenge,
     so_putResult = memory_putResult, so_getResult = memory_getResult, so_acknowledge = memory_acknowledge\<rparr>"

section \<open>RedisStore\<close>

datatype redis_value = Stored_challenge hosted_challenge | Stored_result stored_result | Mark

record 'r redis_commands =
  rd_ping :: "'r \<Rightarrow> (string + bool) \<times> 'r"
  rd_get :: "time \<Rightarrow> string \<Rightarrow> 'r \<Rightarrow> redis_value option"
  rd_set :: "time \<Rightarrow> string \<Rightarrow> redis_value \<Rightarrow> int \<Rightarrow> 'r \<Rightarrow> 'r"
  rd_del :: "string \<Rightarrow> 'r \<Rightarrow> 'r"

definition redis_key :: "string \<Rightarrow> string \<Rightarrow> string" where
  "redis_key kind challengeID = ''cbc:verusid-auth:v1:'' @ kind @ '':'' @ challengeID"

fun as_challenge :: "redis_value option \<Rightarrow> hosted_challenge option" where
  "as_challenge (Some (Stored_challenge c)) = Some c"
| "as_challenge _ = None"

fun as_result :: "redis_value option \<Rightarrow> stored_result option" where
  "as_result (Some (Stored_result r)) = Some r"
| "as_result _ = None"

definition redis_createChallenge :: "'r redis_commands \<Rightarrow> time \<Rightarrow> hosted_challenge \<Rightarrow> 'r \<Rightarrow> bool \<times> 'r" where
  "redis_createChallenge rc now challenge s =
     (let ttl = hs_expiresAt challenge - now; k = redis_key ''challenge'' (hs_challengeID challenge) in
      if ttl \<le> 0 then (False, s)
      else if rd_get rc now k s \<noteq> None then (False, s)
      else (True, rd_set rc now k (Stored_challenge challenge) ttl s))"

definition redis_getChallenge :: "'r redis_commands \<Rightarrow> time \<Rightarrow> string \<Rightarrow> 'r \<Rightarrow> hosted_challenge option \<times> 'r" where
  "redis_getChallenge rc now challengeID s = (as_challenge (rd_get rc now (redis_key ''challenge'' challengeID) s), s)"

definition redis_putResult :: "'r redis_commands \<Rightarrow> time \<Rightarrow> string \<Rightarrow> stored_result \<Rightarrow> 'r \<Rightarrow> put_reply \<times> 'r" where
  "redis_putResult rc now challengeID result s =
     (let ttl = sx_expiresAt result - now in
      if ttl \<le> 0 then (Put_consumed, s)
      else if rd_get rc now (redis_key ''consumed'' challengeID) s \<noteq> None
        \<or> rd_get rc now (redis_key ''challenge'' challengeID) s = None then (Put_consumed, s)
      else case rd_get rc now (redis_key ''result'' challengeID) s of
        Some current \<Rightarrow> (if current = Stored_result result then Put_same else Put_conflict, s)
      | None \<Rightarrow> (Put_stored, rd_set rc now (redis_key ''result'' challengeID) (Stored_result result) ttl s))"

definition redis_getResult :: "'r redis_commands \<Rightarrow> time \<Rightarrow> string \<Rightarrow> 'r \<Rightarrow> stored_result option \<times> 'r" where
  "redis_getResult rc now challengeID s = (as_result (rd_get rc now (redis_key ''result'' challengeID) s), s)"

definition redis_acknowledge :: "'r redis_commands \<Rightarrow> time \<Rightarrow> string \<Rightarrow> string \<Rightarrow> time \<Rightarrow> 'r \<Rightarrow> bool \<times> 'r" where
  "redis_acknowledge rc now challengeID proofDigest tombstoneExpiresAt s =
     (let ttl = max 1 (tombstoneExpiresAt - now) in
      case as_result (rd_get rc now (redis_key ''result'' challengeID) s) of
        None \<Rightarrow> (False, s)
      | Some current \<Rightarrow>
          if sx_proofDigest current \<noteq> proofDigest then (False, s)
          else (True, rd_set rc now (redis_key ''consumed'' challengeID) Mark ttl
            (rd_del rc (redis_key ''challenge'' challengeID) (rd_del rc (redis_key ''result'' challengeID) s))))"

definition RedisStore :: "'r redis_commands \<Rightarrow> 'r store_ops" where
  "RedisStore rc = \<lparr>so_ping = rd_ping rc, so_createChallenge = redis_createChallenge rc, so_getChallenge = redis_getChallenge rc,
     so_putResult = redis_putResult rc, so_getResult = redis_getResult rc, so_acknowledge = redis_acknowledge rc\<rparr>"

text \<open>The documented behaviour of the commands: SET with PX replaces the value and its expiry, DEL removes a
  key, GET returns a value until its expiry and changes nothing else, and neither does PING.\<close>

definition redis_laws :: "'r redis_commands \<Rightarrow> bool" where
  "redis_laws rc \<longleftrightarrow>
     (\<forall>t t' k k' v ttl r. t \<le> t' \<longrightarrow> 0 < ttl \<longrightarrow> rd_get rc t' k' (rd_set rc t k v ttl r) =
        (if k' = k then if t' < t + ttl then Some v else None else rd_get rc t' k' r))
     \<and> (\<forall>t k k' r. rd_get rc t k' (rd_del rc k r) = (if k' = k then None else rd_get rc t k' r))
     \<and> (\<forall>t k r. rd_get rc t k (snd (rd_ping rc r)) = rd_get rc t k r)"

lemma redis_key_inject [simp]:
  "redis_key kind i = redis_key kind j \<longleftrightarrow> i = j"
  "redis_key ''challenge'' i \<noteq> redis_key ''result'' j" "redis_key ''result'' j \<noteq> redis_key ''challenge'' i"
  "redis_key ''challenge'' i \<noteq> redis_key ''consumed'' j" "redis_key ''consumed'' j \<noteq> redis_key ''challenge'' i"
  "redis_key ''result'' i \<noteq> redis_key ''consumed'' j" "redis_key ''consumed'' j \<noteq> redis_key ''result'' i"
  by (simp_all add: redis_key_def)

end
