(* ===== verification/Hosted_Delivery.thy ===== *)
theory Hosted_Delivery
  imports Hosted_Store
begin

text \<open>
  The promise of a store of the hosted service, as the locale \<open>result_store\<close>: what is visible of the
  challenges and the results at a time, and how each operation changes it.  Inside it, for every sequence of
  calls at times that do not decrease: a stored result is delivered unchanged until it is acknowledged or
  expires, and an acknowledged one never comes back.  Both stores of the service keep the promise.
\<close>

section \<open>Sequences of calls\<close>

datatype store_call =
    SC_ping | SC_create hosted_challenge | SC_challenge string | SC_put string stored_result | SC_result string
  | SC_ack string string time

fun store_step :: "'s store_ops \<Rightarrow> time \<Rightarrow> store_call \<Rightarrow> 's \<Rightarrow> 's" where
  "store_step ops t SC_ping s = snd (so_ping ops s)"
| "store_step ops t (SC_create c) s = snd (so_createChallenge ops t c s)"
| "store_step ops t (SC_challenge i) s = snd (so_getChallenge ops t i s)"
| "store_step ops t (SC_put i r) s = snd (so_putResult ops t i r s)"
| "store_step ops t (SC_result i) s = snd (so_getResult ops t i s)"
| "store_step ops t (SC_ack i d u) s = snd (so_acknowledge ops t i d u s)"

fun store_run :: "'s store_ops \<Rightarrow> (time \<times> store_call) list \<Rightarrow> 's \<Rightarrow> 's" where
  "store_run ops [] s = s"
| "store_run ops ((t, c) # cs) s = store_run ops cs (store_step ops t c s)"

definition times_from :: "time \<Rightarrow> (time \<times> store_call) list \<Rightarrow> time \<Rightarrow> bool" where
  "times_from t cs t' \<longleftrightarrow> sorted (t # map fst cs @ [t'])"

lemma times_from_simps [simp]:
  "times_from t [] t' \<longleftrightarrow> t \<le> t'"
  "times_from t ((u, c) # cs) t' \<longleftrightarrow> t \<le> u \<and> times_from u cs t'"
  by (auto simp: times_from_def)

lemma times_from_le: "times_from t cs t' \<Longrightarrow> t \<le> t'"
  by (simp add: times_from_def)

section \<open>The promise\<close>

locale result_store =
  fixes ops :: "'s store_ops" and ok :: "time \<Rightarrow> 's \<Rightarrow> bool"
    and chal :: "'s \<Rightarrow> time \<Rightarrow> string \<Rightarrow> hosted_challenge option"
    and res :: "'s \<Rightarrow> time \<Rightarrow> string \<Rightarrow> stored_result option"
  assumes later: "ok t s \<Longrightarrow> t \<le> t' \<Longrightarrow> ok t' s"
    and own_key: "ok t s \<Longrightarrow> chal s t i = Some c \<Longrightarrow> hs_challengeID c = i"
    and ping: "ok t s \<Longrightarrow> so_ping ops s = (x, s') \<Longrightarrow> t \<le> t' \<Longrightarrow> ok t s' \<and> chal s' t' i = chal s t' i \<and> res s' t' i = res s t' i"
    and create: "ok t s \<Longrightarrow> so_createChallenge ops t c s = (b, s') \<Longrightarrow> t \<le> t' \<Longrightarrow>
      ok t s' \<and> (b \<longrightarrow> chal s t (hs_challengeID c) = None) \<and> res s' t' i = res s t' i
      \<and> chal s' t' i = (if b \<and> i = hs_challengeID c then if t' < hs_expiresAt c then Some c else None else chal s t' i)"
    and getc: "ok t s \<Longrightarrow> so_getChallenge ops t i s = (y, s') \<Longrightarrow> t \<le> t' \<Longrightarrow>
      y = chal s t i \<and> ok t s' \<and> chal s' t' j = chal s t' j \<and> res s' t' j = res s t' j"
    and put: "ok t s \<Longrightarrow> so_putResult ops t i r s = (reply, s') \<Longrightarrow> t \<le> t' \<Longrightarrow>
      ok t s' \<and> (reply = Put_stored \<longrightarrow> chal s t i \<noteq> None \<and> res s t i = None)
      \<and> (reply = Put_same \<longrightarrow> (\<exists>q. res s t i = Some q \<and> sx_proofDigest q = sx_proofDigest r))
      \<and> (chal s t i = None \<longrightarrow> reply = Put_consumed) \<and> chal s' t' j = chal s t' j
      \<and> res s' t' j = (if reply = Put_stored \<and> j = i then if t' < sx_expiresAt r then Some r else None else res s t' j)"
    and getr: "ok t s \<Longrightarrow> so_getResult ops t i s = (z, s') \<Longrightarrow> t \<le> t' \<Longrightarrow>
      z = res s t i \<and> ok t s' \<and> chal s' t' j = chal s t' j \<and> res s' t' j = res s t' j"
    and ack: "ok t s \<Longrightarrow> so_acknowledge ops t i d u s = (b, s') \<Longrightarrow> t \<le> t' \<Longrightarrow>
      ok t s' \<and> (b \<longleftrightarrow> (\<exists>r. res s t i = Some r \<and> sx_proofDigest r = d))
      \<and> chal s' t' j = (if b \<and> j = i then None else chal s t' j) \<and> res s' t' j = (if b \<and> j = i then None else res s t' j)"
begin

lemma step_ok:
  assumes "ok t s"
  shows "ok t (store_step ops t c s)"
proof (cases c)
  case SC_ping
  thus ?thesis using ping[OF assms surjective_pairing order.refl] by simp
next
  case (SC_create x)
  thus ?thesis using create[OF assms surjective_pairing order.refl] by simp
next
  case (SC_challenge i)
  thus ?thesis using getc[OF assms surjective_pairing order.refl] by simp
next
  case (SC_put i r)
  thus ?thesis using put[OF assms surjective_pairing order.refl] by simp
next
  case (SC_result i)
  thus ?thesis using getr[OF assms surjective_pairing order.refl] by simp
next
  case (SC_ack i d u)
  thus ?thesis using ack[OF assms surjective_pairing order.refl] by simp
qed

text \<open>What a call leaves of a challenge that is gone, and of a result that is there.\<close>

lemma gone_step:
  assumes "ok t s" "t \<le> t'" "\<And>u. t \<le> u \<Longrightarrow> chal s u i = None \<and> res s u i = None" "\<forall>c. call = SC_create c \<longrightarrow> hs_challengeID c \<noteq> i"
  shows "chal (store_step ops t call s) t' i = None \<and> res (store_step ops t call s) t' i = None"
proof (cases call)
  case SC_ping
  thus ?thesis using ping[OF assms(1) surjective_pairing assms(2)] assms by simp
next
  case (SC_create c)
  thus ?thesis using create[OF assms(1) surjective_pairing assms(2)] assms by auto
next
  case (SC_challenge j)
  thus ?thesis using getc[OF assms(1) surjective_pairing assms(2)] assms by auto
next
  case (SC_put j r)
  thus ?thesis using put[OF assms(1) surjective_pairing assms(2), where i = j and r = r and j = i] assms by auto
next
  case (SC_result j)
  thus ?thesis using getr[OF assms(1) surjective_pairing assms(2)] assms by auto
next
  case (SC_ack j d u)
  thus ?thesis using ack[OF assms(1) surjective_pairing assms(2)] assms by auto
qed

lemma kept_step:
  assumes "ok t s" "t \<le> t'" "t' < sx_expiresAt r" "\<And>u. t \<le> u \<Longrightarrow> u < sx_expiresAt r \<Longrightarrow> res s u i = Some r"
    and "\<forall>u. call \<noteq> SC_ack i (sx_proofDigest r) u"
  shows "res (store_step ops t call s) t' i = Some r"
proof (cases call)
  case SC_ping
  thus ?thesis using ping[OF assms(1) surjective_pairing assms(2)] assms by simp
next
  case (SC_create c)
  thus ?thesis using create[OF assms(1) surjective_pairing assms(2)] assms by auto
next
  case (SC_challenge j)
  thus ?thesis using getc[OF assms(1) surjective_pairing assms(2)] assms by auto
next
  case (SC_put j q)
  thus ?thesis using put[OF assms(1) surjective_pairing assms(2), where i = j and r = q and j = i] assms by force
next
  case (SC_result j)
  thus ?thesis using getr[OF assms(1) surjective_pairing assms(2)] assms by auto
next
  case (SC_ack j d u)
  thus ?thesis using ack[OF assms(1) surjective_pairing assms(2), where i = j and d = d and u = u and j = i] assms by force
qed

lemma gone_run:
  assumes "ok t s" "\<And>u. t \<le> u \<Longrightarrow> chal s u i = None \<and> res s u i = None" "times_from t cs t'"
    and "\<forall>t0 c. (t0, SC_create c) \<in> set cs \<longrightarrow> hs_challengeID c \<noteq> i"
  shows "chal (store_run ops cs s) t' i = None \<and> res (store_run ops cs s) t' i = None"
  using assms
proof (induction cs arbitrary: s t)
  case Nil
  thus ?case by simp
next
  case (Cons tc cs)
  obtain t0 call where tc: "tc = (t0, call)" by force
  have "chal (store_step ops t0 call s) v i = None \<and> res (store_step ops t0 call s) v i = None" if "t0 \<le> v" for v
    using gone_step[OF later[OF Cons.prems(1)] that, of i call] Cons.prems tc by force
  hence "chal (store_run ops cs (store_step ops t0 call s)) t' i = None \<and> res (store_run ops cs (store_step ops t0 call s)) t' i = None"
    by (intro Cons.IH[OF step_ok[OF later[OF Cons.prems(1)]], where t = t0]) (use Cons.prems tc in auto)
  thus ?case by (simp add: tc)
qed

lemma kept_run:
  assumes "ok t s" "\<And>u. t \<le> u \<Longrightarrow> u < sx_expiresAt r \<Longrightarrow> res s u i = Some r" "times_from t cs t'" "t' < sx_expiresAt r"
    and "\<forall>t0 u. (t0, SC_ack i (sx_proofDigest r) u) \<notin> set cs"
  shows "res (store_run ops cs s) t' i = Some r"
  using assms
proof (induction cs arbitrary: s t)
  case Nil
  thus ?case by simp
next
  case (Cons tc cs)
  obtain t0 call where tc: "tc = (t0, call)" by force
  have "res (store_step ops t0 call s) v i = Some r" if "t0 \<le> v" "v < sx_expiresAt r" for v
    using kept_step[OF later[OF Cons.prems(1)] that, of i call] Cons.prems tc by force
  hence "res (store_run ops cs (store_step ops t0 call s)) t' i = Some r"
    by (intro Cons.IH[OF step_ok[OF later[OF Cons.prems(1)]], where t = t0]) (use Cons.prems tc in auto)
  thus ?case by (simp add: tc)
qed

lemma run_ok: "ok t s \<Longrightarrow> times_from t cs t' \<Longrightarrow> ok t' (store_run ops cs s)"
proof (induction cs arbitrary: s t)
  case Nil
  thus ?case using later by simp
next
  case (Cons tc cs)
  obtain t0 call where tc: "tc = (t0, call)" by force
  show ?case using Cons.IH[OF step_ok[OF later[OF Cons.prems(1)]]] Cons.prems(2) by (simp add: tc)
qed

lemma run_getResult:
  assumes "ok t s" "times_from t cs t'"
  shows "fst (so_getResult ops t' i (store_run ops cs s)) = res (store_run ops cs s) t' i"
  using getr[OF run_ok[OF assms] surjective_pairing order.refl] by simp

lemma acknowledged_stays_gone:
  assumes "ok t s" "so_acknowledge ops t i d u s = (True, s1)" "times_from t cs t'"
    and "\<forall>t0 c. (t0, SC_create c) \<in> set cs \<longrightarrow> hs_challengeID c \<noteq> i"
  shows "fst (so_getResult ops t' i (store_run ops cs s1)) = None"
proof -
  have gone: "chal s1 v i = None \<and> res s1 v i = None" if "t \<le> v" for v using ack[OF assms(1,2) that, of i] by simp
  have "ok t s1" using ack[OF assms(1,2), of t] by simp
  thus ?thesis using run_getResult assms(3) gone_run[OF _ gone assms(3,4)] by simp
qed

lemma stored_is_delivered:
  assumes "ok t s" "so_putResult ops t i r s = (Put_stored, s1)" "times_from t cs t'" "t' < sx_expiresAt r"
    and "\<forall>t0 u. (t0, SC_ack i (sx_proofDigest r) u) \<notin> set cs"
  shows "fst (so_getResult ops t' i (store_run ops cs s1)) = Some r"
proof -
  have kept: "res s1 v i = Some r" if "t \<le> v" "v < sx_expiresAt r" for v using put[OF assms(1,2) that(1), of i] that(2) by simp
  have "ok t s1" using put[OF assms(1,2), of t] by simp
  thus ?thesis using run_getResult assms(3) kept_run[OF _ kept assms(3-5)] by simp
qed

end

section \<open>Both stores keep it\<close>

definition memory_ok :: "memory_store \<Rightarrow> bool" where
  "memory_ok s \<longleftrightarrow> (\<forall>i c. ms_challenges s i = Some c \<longrightarrow> hs_challengeID c = i)"

definition memory_challenge :: "memory_store \<Rightarrow> time \<Rightarrow> string \<Rightarrow> hosted_challenge option" where
  "memory_challenge s t = live_at hs_expiresAt t (ms_challenges s)"

definition memory_result :: "memory_store \<Rightarrow> time \<Rightarrow> string \<Rightarrow> stored_result option" where
  "memory_result s t = live_at sx_expiresAt t (ms_results s)"

lemma live_at_later [simp]: "t \<le> t' \<Longrightarrow> live_at e t' (live_at e t m) = live_at e t' m"
  by (auto simp: live_at_def fun_eq_iff split: option.splits)

lemma live_at_Some [simp]: "live_at e t m k = Some v \<longleftrightarrow> m k = Some v \<and> t < e v"
  by (auto simp: live_at_def split: option.splits)

lemma live_at_None [simp]: "live_at e t m k = None \<longleftrightarrow> (\<forall>v. m k = Some v \<longrightarrow> e v \<le> t)"
  by (auto simp: live_at_def split: option.splits)

lemma live_at_upd [simp]:
  "live_at e t (m(k \<mapsto> v)) i = (if i = k then if t < e v then Some v else None else live_at e t m i)"
  "live_at e t (m(k := None)) i = (if i = k then None else live_at e t m i)"
  by (auto simp: live_at_def split: option.splits)

interpretation memory: result_store MemoryStore "\<lambda>t. memory_ok" memory_challenge memory_result
proof
  fix s s' :: memory_store and t t' :: time and i :: string and r and reply and j
  assume "memory_ok s" "so_putResult MemoryStore t i r s = (reply, s')" "t \<le> t'"
  thus "memory_ok s' \<and> (reply = Put_stored \<longrightarrow> memory_challenge s t i \<noteq> None \<and> memory_result s t i = None)
      \<and> (reply = Put_same \<longrightarrow> (\<exists>q. memory_result s t i = Some q \<and> sx_proofDigest q = sx_proofDigest r))
      \<and> (memory_challenge s t i = None \<longrightarrow> reply = Put_consumed) \<and> memory_challenge s' t' j = memory_challenge s t' j
      \<and> memory_result s' t' j = (if reply = Put_stored \<and> j = i then if t' < sx_expiresAt r then Some r else None else memory_result s t' j)"
    by (auto simp: MemoryStore_def memory_putResult_def cleanup_def memory_ok_def memory_challenge_def memory_result_def Let_def
        split: option.splits if_splits)
qed (auto simp: MemoryStore_def memory_createChallenge_def memory_getChallenge_def memory_getResult_def memory_acknowledge_def
    cleanup_def memory_ok_def memory_challenge_def memory_result_def Let_def split: option.splits if_splits)

definition redis_ok :: "'r redis_commands \<Rightarrow> time \<Rightarrow> 'r \<Rightarrow> bool" where
  "redis_ok rc t s \<longleftrightarrow>
     (\<forall>u i v. t \<le> u \<longrightarrow> rd_get rc u (redis_key ''challenge'' i) s = Some v \<longrightarrow> (\<exists>c. v = Stored_challenge c \<and> hs_challengeID c = i))
     \<and> (\<forall>u i v. t \<le> u \<longrightarrow> rd_get rc u (redis_key ''result'' i) s = Some v \<longrightarrow> (\<exists>r. v = Stored_result r))"

definition redis_challenge :: "'r redis_commands \<Rightarrow> 'r \<Rightarrow> time \<Rightarrow> string \<Rightarrow> hosted_challenge option" where
  "redis_challenge rc s t i = as_challenge (rd_get rc t (redis_key ''challenge'' i) s)"

definition redis_result :: "'r redis_commands \<Rightarrow> 'r \<Rightarrow> time \<Rightarrow> string \<Rightarrow> stored_result option" where
  "redis_result rc s t i = as_result (rd_get rc t (redis_key ''result'' i) s)"

lemma as_challenge_Some [simp]: "as_challenge v = Some c \<longleftrightarrow> v = Some (Stored_challenge c)"
  by (cases v rule: as_challenge.cases) auto

lemma as_result_Some [simp]: "as_result v = Some r \<longleftrightarrow> v = Some (Stored_result r)"
  by (cases v rule: as_result.cases) auto

lemma redis_lawsD:
  assumes "redis_laws rc"
  shows "t \<le> t' \<Longrightarrow> 0 < ttl \<Longrightarrow> rd_get rc t' k' (rd_set rc t k v ttl r) =
        (if k' = k then if t' < t + ttl then Some v else None else rd_get rc t' k' r)"
    "rd_get rc t k' (rd_del rc k r) = (if k' = k then None else rd_get rc t k' r)"
    "rd_ping rc r = (x, r') \<Longrightarrow> rd_get rc t k r' = rd_get rc t k r"
  using assms unfolding redis_laws_def by (blast, blast, metis snd_conv)

lemma redis_typed:
  assumes "redis_ok rc t s"
  shows "rd_get rc t (redis_key ''challenge'' i) s = None \<longleftrightarrow> redis_challenge rc s t i = None"
    "rd_get rc t (redis_key ''result'' i) s = None \<longleftrightarrow> redis_result rc s t i = None"
proof -
  show "rd_get rc t (redis_key ''challenge'' i) s = None \<longleftrightarrow> redis_challenge rc s t i = None"
    using assms by (cases "rd_get rc t (redis_key ''challenge'' i) s") (fastforce simp: redis_ok_def redis_challenge_def)+
  show "rd_get rc t (redis_key ''result'' i) s = None \<longleftrightarrow> redis_result rc s t i = None"
    using assms by (cases "rd_get rc t (redis_key ''result'' i) s") (fastforce simp: redis_ok_def redis_result_def)+
qed

lemma redis_set_get:
  assumes "redis_laws rc" "rd_get rc u k' (rd_set rc t k v ttl s) = Some w" "t \<le> u" "0 < ttl"
  shows "k' = k \<and> w = v \<or> rd_get rc u k' s = Some w"
  using assms(2) redis_lawsD(1)[OF assms(1,3,4)] by (auto split: if_splits)

lemma redis_ok_changes:
  assumes "redis_laws rc" "redis_ok rc t s"
  shows "0 < ttl \<Longrightarrow> redis_ok rc t (rd_set rc t (redis_key ''challenge'' (hs_challengeID c)) (Stored_challenge c) ttl s)"
    "0 < ttl \<Longrightarrow> redis_ok rc t (rd_set rc t (redis_key ''result'' i) (Stored_result r) ttl s)"
    "0 < ttl \<Longrightarrow> redis_ok rc t (rd_set rc t (redis_key ''consumed'' i) Mark ttl s)"
    "redis_ok rc t (rd_del rc k s)"
    "rd_ping rc s = (x, s') \<Longrightarrow> redis_ok rc t s'"
  using assms(2) unfolding redis_ok_def
  by (auto simp: redis_lawsD(2,3)[OF assms(1)] split: if_splits dest: redis_set_get[OF assms(1)])

lemma redis_views:
  assumes "redis_laws rc" "t \<le> t'"
  shows "0 < ttl \<Longrightarrow> redis_challenge rc (rd_set rc t (redis_key ''challenge'' j) v ttl s) t' i =
       (if i = j then as_challenge (if t' < t + ttl then Some v else None) else redis_challenge rc s t' i)"
    "0 < ttl \<Longrightarrow> redis_result rc (rd_set rc t (redis_key ''result'' j) v ttl s) t' i =
       (if i = j then as_result (if t' < t + ttl then Some v else None) else redis_result rc s t' i)"
    "0 < ttl \<Longrightarrow> redis_challenge rc (rd_set rc t (redis_key ''result'' j) v ttl s) t' i = redis_challenge rc s t' i"
    "0 < ttl \<Longrightarrow> redis_result rc (rd_set rc t (redis_key ''challenge'' j) v ttl s) t' i = redis_result rc s t' i"
    "0 < ttl \<Longrightarrow> redis_challenge rc (rd_set rc t (redis_key ''consumed'' j) v ttl s) t' i = redis_challenge rc s t' i"
    "0 < ttl \<Longrightarrow> redis_result rc (rd_set rc t (redis_key ''consumed'' j) v ttl s) t' i = redis_result rc s t' i"
    "redis_challenge rc (rd_del rc (redis_key ''challenge'' j) s) t' i = (if i = j then None else redis_challenge rc s t' i)"
    "redis_result rc (rd_del rc (redis_key ''result'' j) s) t' i = (if i = j then None else redis_result rc s t' i)"
    "redis_challenge rc (rd_del rc (redis_key ''result'' j) s) t' i = redis_challenge rc s t' i"
    "redis_result rc (rd_del rc (redis_key ''challenge'' j) s) t' i = redis_result rc s t' i"
    "rd_ping rc s = (x, s') \<Longrightarrow> redis_challenge rc s' t' i = redis_challenge rc s t' i"
    "rd_ping rc s = (x, s') \<Longrightarrow> redis_result rc s' t' i = redis_result rc s t' i"
  using assms(2) redis_lawsD[OF assms(1)] by (auto simp: redis_challenge_def redis_result_def)

lemma redis_result_store:
  assumes "redis_laws rc"
  shows "result_store (RedisStore rc) (redis_ok rc) (redis_challenge rc) (redis_result rc)"
proof -
  note facts = redis_ok_changes[OF assms] redis_views[OF assms]
  note defs = RedisStore_def redis_createChallenge_def redis_getChallenge_def redis_putResult_def redis_getResult_def
    redis_acknowledge_def Let_def
  show ?thesis
  proof
    show "redis_ok rc t s \<Longrightarrow> t \<le> t' \<Longrightarrow> redis_ok rc t' s" for t t' s
      unfolding redis_ok_def by (meson order.trans)
    show "redis_ok rc t s \<Longrightarrow> redis_challenge rc s t i = Some c \<Longrightarrow> hs_challengeID c = i" for t s i c
      by (fastforce simp: redis_ok_def redis_challenge_def)
    show "redis_ok rc t s \<Longrightarrow> so_ping (RedisStore rc) s = (x, s') \<Longrightarrow> t \<le> t' \<Longrightarrow> redis_ok rc t s'
        \<and> redis_challenge rc s' t' i = redis_challenge rc s t' i \<and> redis_result rc s' t' i = redis_result rc s t' i" for t s x s' t' i
      using facts by (simp add: defs)
    show "redis_ok rc t s'
        \<and> (b \<longrightarrow> redis_challenge rc s t (hs_challengeID c) = None) \<and> redis_result rc s' t' i = redis_result rc s t' i
        \<and> redis_challenge rc s' t' i = (if b \<and> i = hs_challengeID c then if t' < hs_expiresAt c then Some c else None else redis_challenge rc s t' i)"
      if "redis_ok rc t s" "so_createChallenge (RedisStore rc) t c s = (b, s')" "t \<le> t'" for t s c b s' t' i
      using that redis_typed[OF that(1)] by (auto simp: defs facts split: if_splits)
    show "y = redis_challenge rc s t i \<and> redis_ok rc t s' \<and> redis_challenge rc s' t' j = redis_challenge rc s t' j \<and> redis_result rc s' t' j = redis_result rc s t' j"
      if "redis_ok rc t s" "so_getChallenge (RedisStore rc) t i s = (y, s')" "t \<le> t'" for t s i y s' t' j
      using that by (auto simp: defs redis_challenge_def)
    show "redis_ok rc t s' \<and> (reply = Put_stored \<longrightarrow> redis_challenge rc s t i \<noteq> None \<and> redis_result rc s t i = None)
        \<and> (reply = Put_same \<longrightarrow> (\<exists>q. redis_result rc s t i = Some q \<and> sx_proofDigest q = sx_proofDigest r))
        \<and> (redis_challenge rc s t i = None \<longrightarrow> reply = Put_consumed) \<and> redis_challenge rc s' t' j = redis_challenge rc s t' j
        \<and> redis_result rc s' t' j = (if reply = Put_stored \<and> j = i then if t' < sx_expiresAt r then Some r else None else redis_result rc s t' j)"
      if "redis_ok rc t s" "so_putResult (RedisStore rc) t i r s = (reply, s')" "t \<le> t'" for t s i r reply s' t' j
      using that redis_typed[OF that(1)] by (auto simp: defs facts redis_result_def[of rc s t] split: if_splits option.splits)
    show "z = redis_result rc s t i \<and> redis_ok rc t s' \<and> redis_challenge rc s' t' j = redis_challenge rc s t' j \<and> redis_result rc s' t' j = redis_result rc s t' j"
      if "redis_ok rc t s" "so_getResult (RedisStore rc) t i s = (z, s')" "t \<le> t'" for t s i z s' t' j
      using that by (auto simp: defs redis_result_def)
    show "redis_ok rc t s' \<and> b = (\<exists>r. redis_result rc s t i = Some r \<and> sx_proofDigest r = d)
        \<and> redis_challenge rc s' t' j = (if b \<and> j = i then None else redis_challenge rc s t' j)
        \<and> redis_result rc s' t' j = (if b \<and> j = i then None else redis_result rc s t' j)"
      if "redis_ok rc t s" "so_acknowledge (RedisStore rc) t i d u s = (b, s')" "t \<le> t'" for t s i d u b s' t' j
      using that by (auto simp: defs facts redis_result_def[of rc s t] split: if_splits option.splits)
  qed
qed

end
