(* ===== verification/Hosted_Service.thy ===== *)
theory Hosted_Service
  imports Hosted_Delivery
begin

text \<open>
  services/verusid/src/app.js and contract.js, with the check of an identity in verus-verify.js: the hosted
  identity service.  A handler is a computation on the store, on what is outside and on the counters of the
  clock and of the random identifiers; the middleware of the application turns its error into a response.
  Express, its rate limiter, jsonwebtoken and the Verus SDK are third-party code: the limiter, the signing of
  a token and the functions of the adapter are parameters, and a request is what Express hands to a handler.
\<close>

section \<open>contract.js\<close>

definition CONTRACT_VERSION :: string where "CONTRACT_VERSION = ''cbc-verusid-auth.v1''"

definition SERVICE_NAME :: string where "SERVICE_NAME = ''verusid-auth''"

definition NETWORK :: string where "NETWORK = ''VRSCTEST''"

definition REQUESTED_ACCESS :: "string list" where "REQUESTED_ACCESS = [''identity_view'']"

definition PURPOSES :: "(string \<times> WalletLinkPurpose) list" where
  "PURPOSES = [(''link_verusid'', Link_verusid), (''revalidate_verusid'', Revalidate_verusid)]"

definition constantTimeEqual :: "string \<Rightarrow> string \<Rightarrow> bool" where
  "constantTimeEqual left right \<longleftrightarrow> utf8_encode left = utf8_encode right"

section \<open>Data\<close>

record service_config =
  sc_chain :: string
  sc_chainId :: string
  sc_signingIdentity :: string
  sc_callbackUrl :: string
  sc_contractVersion :: string
  sc_jwtIssuer :: string
  sc_jwtSecret :: string
  sc_clientSecret :: string
  sc_allowedAudiences :: "string list"
  sc_rpcUrl :: string
  sc_serviceVersion :: string
  sc_serviceSourceRevision :: string
  sc_imageDigest :: string
  sc_sdkCommit :: string
  sc_primitivesCommit :: string
  sc_rpcClientCommit :: string
  sc_bitgoCommit :: string
  sc_daemonVersion :: string
  sc_challengeLifetimeMs :: int
  sc_resultTokenMaxLifetimeSeconds :: int

record validated_input =
  cn_state :: json
  cn_audience :: string
  cn_purpose :: WalletLinkPurpose
  cn_issuedAt :: time
  cn_expiresAt :: time

record presentation =
  pr_challengeID :: string
  pr_deepLink :: string
  pr_requestObjectDigest :: string

record verified_callback =
  vc_challengeID :: string
  vc_decisionID :: string
  vc_identityAddress :: string
  vc_responseSystemID :: string
  vc_requestSystemID :: string
  vc_requestSigningIdentity :: string
  vc_requestObjectDigest :: string
  vc_decisionCreatedAt :: js_number
  vc_identity :: json

record checked_identity =
  ck_identityAddress :: string
  ck_displayName :: "string option"

text \<open>The adapter of the Verus SDK.\<close>

record 'x verus_ops =
  vx_preflight :: "('x, string, bool) computation"
  vx_createChallenge :: "validated_input \<Rightarrow> ('x, string, presentation) computation"
  vx_verifyCallback :: "(string \<times> json) list \<Rightarrow> ('x, string, verified_callback) computation"
  vx_checkIdentity :: "string \<Rightarrow> json \<Rightarrow> ('x, string, checked_identity) computation"

record jwt_options =
  jo_audience :: string
  jo_expiresIn :: int
  jo_issuer :: string
  jo_jwtid :: string

text \<open>What the application is created with; \<open>ho_jwtSign\<close> has the time in seconds at which it is called.\<close>

record ('s, 'x) hosted_setup =
  ho_config :: service_config
  ho_store :: "'s store_ops"
  ho_verus :: "'x verus_ops"
  ho_library :: client_library
  ho_clock :: "nat \<Rightarrow> time"
  ho_uuid :: "nat \<Rightarrow> string"
  ho_jwtSign :: "string \<Rightarrow> (string \<times> json) list \<Rightarrow> jwt_options \<Rightarrow> int \<Rightarrow> string"
  ho_admit :: "string \<Rightarrow> 'x \<Rightarrow> bool \<times> 'x"

record ('s, 'x) hosted_world =
  hw_store :: 's
  hw_outside :: 'x
  hw_clock :: nat
  hw_ids :: nat

record service_request =
  sq_authorization :: "string option"
  sq_version :: "string option"
  sq_body :: "json option"

record service_response =
  sp_status :: int
  sp_body :: "json option"

datatype service_error = PublicError int string | OtherServiceError string

type_synonym ('s, 'x, 'a) handler = "(('s, 'x) hosted_world, service_error, 'a) computation"

section \<open>Steps of a handler\<close>

definition read_clock :: "('s, 'x) hosted_setup \<Rightarrow> ('s, 'x, time) handler" where
  "read_clock su w = (Inr (ho_clock su (hw_clock w)), w\<lparr>hw_clock := hw_clock w + 1\<rparr>)"

definition onStore :: "('s, 'x) hosted_setup \<Rightarrow> (time \<Rightarrow> 's \<Rightarrow> 'a \<times> 's) \<Rightarrow> ('s, 'x, 'a) handler" where
  "onStore su f =
     bindE (read_clock su) (\<lambda>t w. case f t (hw_store w) of (a, s) \<Rightarrow> (Inr a, w\<lparr>hw_store := s\<rparr>))"

definition inVerus :: "(string \<Rightarrow> service_error) \<Rightarrow> ('x, string, 'a) computation \<Rightarrow> ('s, 'x, 'a) handler" where
  "inVerus err m w = (case m (hw_outside w) of (r, x) \<Rightarrow> (map_error err r, w\<lparr>hw_outside := x\<rparr>))"

definition next_uuid :: "('s, 'x) hosted_setup \<Rightarrow> ('s, 'x, string) handler" where
  "next_uuid su w = (Inr (ho_uuid su (hw_ids w)), w\<lparr>hw_ids := hw_ids w + 1\<rparr>)"

definition admitted_by :: "('s, 'x) hosted_setup \<Rightarrow> string \<Rightarrow> ('s, 'x, unit) handler" where
  "admitted_by su limiter w = (case ho_admit su limiter (hw_outside w) of (b, x) \<Rightarrow>
     (if b then Inr () else Inl (PublicError 429 ''Request limit exceeded''), w\<lparr>hw_outside := x\<rparr>))"

definition json_response :: "int \<Rightarrow> (string \<times> json) list \<Rightarrow> service_response" where
  "json_response status es = \<lparr>sp_status = status, sp_body = Some (JObj es)\<rparr>"

definition requireServiceAuth :: "('s, 'x) hosted_setup \<Rightarrow> service_request \<Rightarrow> ('s, 'x, unit) handler" where
  "requireServiceAuth su rq =
     requireE (default [] (sq_version rq) = CONTRACT_VERSION
       \<and> constantTimeEqual (default [] (sq_authorization rq)) (''Bearer '' @ sc_clientSecret (ho_config su)))
       (PublicError 401 ''Unauthorized'')"

definition respond :: "('s, 'x, service_response) handler \<Rightarrow> ('s, 'x) hosted_world \<Rightarrow> service_response \<times> ('s, 'x) hosted_world" where
  "respond m w = (case m w of
       (Inr response, w') \<Rightarrow> (response, w')
     | (Inl (PublicError status message), w') \<Rightarrow>
         (json_response status [(''success'', JBool False), (''error'', JStr message)], w')
     | (Inl (OtherServiceError e), w') \<Rightarrow>
         (json_response 503 [(''success'', JBool False), (''error'', JStr ''Service unavailable'')], w'))"

section \<open>Input of a challenge\<close>

definition parseIso :: "client_library \<Rightarrow> json option \<Rightarrow> service_error + time" where
  "parseIso lib val =
     (case val of
        Some (JStr s) \<Rightarrow>
          (case cl_parseDate lib s of
             None \<Rightarrow> Inl (PublicError 400 ''Invalid timestamp'')
           | Some parsed \<Rightarrow> if toISOString parsed \<noteq> s then Inl (PublicError 400 ''Invalid timestamp'') else Inr parsed)
      | _ \<Rightarrow> Inl (PublicError 400 ''Invalid timestamp''))"

text \<open>The text of a value that the pattern is tested on, where it can fit the pattern: that of an array with one
  element is the text of the element; every other text is too short or has a character outside the class.\<close>

fun pattern_text :: "json \<Rightarrow> string" where
  "pattern_text (JStr s) = s"
| "pattern_text (JArr [x]) = pattern_text x"
| "pattern_text _ = []"

text \<open>The pattern \<^verbatim>\<open>^[A-Za-z0-9_-]{32,128}$\<close>.\<close>

definition STATE_PATTERN :: "string \<Rightarrow> bool" where
  "STATE_PATTERN s \<longleftrightarrow> matches_all base64url_char 32 128 s"

text \<open>The fields that must have a type for the request to be accepted.\<close>

definition binding_fields :: "(string \<times> json) list \<Rightarrow> (json \<times> string \<times> string \<times> json list) option" where
  "binding_fields es =
     (case (field es ''state'', field es ''audience'', field es ''purpose'', field es ''requestedAccess'') of
        (Some state, Some (JStr audience), Some (JStr purpose), Some (JArr access)) \<Rightarrow> Some (state, audience, purpose, access)
      | _ \<Rightarrow> None)"

definition validateChallengeInput :: "client_library \<Rightarrow> json option \<Rightarrow> service_config \<Rightarrow> time \<Rightarrow> service_error + validated_input" where
  "validateChallengeInput lib body config currentTime =
     (case body of
        Some (JObj es) \<Rightarrow>
          if sort (map fst es) \<noteq> sort [''audience'', ''expiresAt'', ''issuedAt'', ''purpose'', ''requestedAccess'', ''state'']
          then Inl (PublicError 400 ''Invalid request fields'')
          else
            bind_result (parseIso lib (field es ''issuedAt'')) (\<lambda>issuedAt.
            bind_result (parseIso lib (field es ''expiresAt'')) (\<lambda>expiresAt.
            case binding_fields es of
              None \<Rightarrow> Inl (PublicError 400 ''Invalid request binding'')
            | Some (state, audience, purpose, access) \<Rightarrow>
                (case map_of PURPOSES purpose of
                   None \<Rightarrow> Inl (PublicError 400 ''Invalid request binding'')
                 | Some p \<Rightarrow>
                     if \<not> STATE_PATTERN (pattern_text state) \<or> audience \<notin> set (sc_allowedAudiences config)
                        \<or> access \<noteq> map JStr REQUESTED_ACCESS
                        \<or> issuedAt < currentTime - 60000 \<or> issuedAt > currentTime + 60000
                        \<or> expiresAt \<le> issuedAt \<or> expiresAt - issuedAt > sc_challengeLifetimeMs config
                     then Inl (PublicError 400 ''Invalid request binding'')
                     else Inr \<lparr>cn_state = state, cn_audience = audience, cn_purpose = p, cn_issuedAt = issuedAt,
                       cn_expiresAt = expiresAt\<rparr>)))
      | _ \<Rightarrow> Inl (PublicError 400 ''Invalid request''))"

section \<open>Routes\<close>

definition health_body :: "service_config \<Rightarrow> string \<Rightarrow> bool \<Rightarrow> bool \<Rightarrow> time \<Rightarrow> (string \<times> json) list" where
  "health_body config status sdkReady storeReady t =
     [(''status'', JStr status), (''service'', JStr SERVICE_NAME), (''version'', JStr (sc_serviceVersion config)),
      (''chain'', JStr (sc_chain config)), (''network'', JStr NETWORK), (''contract_version'', JStr (sc_contractVersion config)),
      (''signing_identity'', JStr (sc_signingIdentity config)), (''signing_identity_configured'', JBool True),
      (''chain_configured'', JBool True), (''sdk_ready'', JBool sdkReady), (''store_ready'', JBool storeReady),
      (''result_authentication'', JStr ''client_secret''), (''result_delivery'', JStr ''idempotent_until_ack''),
      (''callback_url'', JStr (sc_callbackUrl config)), (''jwt_issuer'', JStr (sc_jwtIssuer config)),
      (''service_source_revision'', JStr (sc_serviceSourceRevision config)), (''image_digest'', JStr (sc_imageDigest config)),
      (''verusid_ts_client_commit'', JStr (sc_sdkCommit config)), (''verus_primitives_commit'', JStr (sc_primitivesCommit config)),
      (''verusd_rpc_client_commit'', JStr (sc_rpcClientCommit config)), (''verus_bitgo_commit'', JStr (sc_bitgoCommit config)),
      (''daemon_version'', JStr (sc_daemonVersion config)), (''chain_read_url'', JStr (sc_rpcUrl config)),
      (''timestamp'', JStr (toISOString t))]"

definition false_on_error :: "string + bool \<Rightarrow> bool" where
  "false_on_error r = (case r of Inr b \<Rightarrow> b | Inl _ \<Rightarrow> False)"

definition health :: "('s, 'x) hosted_setup \<Rightarrow> ('s, 'x, service_response) handler" where
  "health su w =
     (case so_ping (ho_store su) (hw_store w) of (p, s) \<Rightarrow>
      case vx_preflight (ho_verus su) (hw_outside w) of (q, x) \<Rightarrow>
      let storeReady = false_on_error p; sdkReady = false_on_error q; ready = storeReady \<and> sdkReady;
          status = (if ready then ''ok'' else ''degraded'') in
      bindE (read_clock su) (\<lambda>t. returnE (json_response (if ready then 200 else 503)
        (health_body (ho_config su) status sdkReady storeReady t))) (w\<lparr>hw_store := s, hw_outside := x\<rparr>))"

definition new_hosted_challenge :: "('s, 'x) hosted_setup \<Rightarrow> validated_input \<Rightarrow> presentation \<Rightarrow> hosted_challenge" where
  "new_hosted_challenge su inp pr =
     \<lparr>hs_challengeID = pr_challengeID pr, hs_state = cn_state inp, hs_audience = cn_audience inp, hs_purpose = cn_purpose inp,
      hs_issuedAt = cn_issuedAt inp, hs_expiresAt = cn_expiresAt inp, hs_signingIdentity = sc_signingIdentity (ho_config su),
      hs_callbackUrl = sc_callbackUrl (ho_config su), hs_network = NETWORK,
      hs_requestDigest = cl_sha (ho_library su) (utf8_encode (pr_deepLink pr)),
      hs_requestObjectDigest = pr_requestObjectDigest pr\<rparr>"

definition challenge_response :: "service_config \<Rightarrow> string \<Rightarrow> hosted_challenge \<Rightarrow> service_response" where
  "challenge_response config deepLink c = json_response 201 [(''success'', JBool True), (''data'', JObj
     [(''deepLink'', JStr deepLink), (''challengeID'', JStr (hs_challengeID c)), (''requestDigest'', JStr (hs_requestDigest c)),
      (''signingIdentity'', JStr (hs_signingIdentity c)), (''callbackUrl'', JStr (hs_callbackUrl c)), (''network'', JStr (hs_network c)),
      (''contractVersion'', JStr (sc_contractVersion config)), (''issuedAt'', JStr (toISOString (hs_issuedAt c))),
      (''expiresAt'', JStr (toISOString (hs_expiresAt c)))])]"

text \<open>From a valid input on.\<close>

definition allocate_challenge :: "('s, 'x) hosted_setup \<Rightarrow> validated_input \<Rightarrow> ('s, 'x, service_response) handler" where
  "allocate_challenge su inp =
     bindE (inVerus OtherServiceError (vx_createChallenge (ho_verus su) inp)) (\<lambda>pr.
     bindE (requireE (IADDRESS_PATTERN (pr_challengeID pr) \<and> length (utf8_encode (pr_deepLink pr)) \<le> MAX_DEEP_LINK_BYTES
        \<and> is_digest (pr_requestObjectDigest pr)) (PublicError 503 ''The signing dependency returned an invalid request'')) (\<lambda>_.
     let challenge = new_hosted_challenge su inp pr in
     bindE (onStore su (\<lambda>t. so_createChallenge (ho_store su) t challenge)) (\<lambda>created.
     bindE (requireE created (PublicError 503 ''Could not allocate a one-time request'')) (\<lambda>_.
     returnE (challenge_response (ho_config su) (pr_deepLink pr) challenge)))))"

definition post_challenge :: "('s, 'x) hosted_setup \<Rightarrow> service_request \<Rightarrow> ('s, 'x, service_response) handler" where
  "post_challenge su rq =
     bindE (requireServiceAuth su rq) (\<lambda>_.
     bindE (admitted_by su ''challenge'') (\<lambda>_.
     bindE (read_clock su) (\<lambda>t.
     case validateChallengeInput (ho_library su) (sq_body rq) (ho_config su) t of
       Inl e \<Rightarrow> throwE e
     | Inr inp \<Rightarrow> allocate_challenge su inp)))"

definition safeDisplayName :: "string option \<Rightarrow> string option" where
  "safeDisplayName val =
     (case val of
        None \<Rightarrow> None
      | Some s \<Rightarrow> if s = [] \<or> length (utf8_encode s) > 200 \<or> hasControlCharacter s then None else Some s)"

definition decision_mismatch :: "service_config \<Rightarrow> hosted_challenge \<Rightarrow> verified_callback \<Rightarrow> bool" where
  "decision_mismatch config challenge verified \<longleftrightarrow>
     vc_decisionID verified \<noteq> hs_challengeID challenge
     \<or> vc_requestObjectDigest verified \<noteq> hs_requestObjectDigest challenge
     \<or> vc_requestSigningIdentity verified \<noteq> sc_signingIdentity config
     \<or> vc_requestSystemID verified \<noteq> sc_chainId config \<or> vc_responseSystemID verified \<noteq> sc_chainId config
     \<or> \<not> IADDRESS_PATTERN (vc_identityAddress verified)
     \<or> (case vc_decisionCreatedAt verified of
          Num r \<Rightarrow> \<not> isSafeInteger (Num (r * 1000)) \<or> r * 1000 < of_int (hs_issuedAt challenge - 60000)
            \<or> r * 1000 > of_int (hs_expiresAt challenge + 60000)
        | _ \<Rightarrow> True)"

definition token_claims :: "hosted_challenge \<Rightarrow> string \<Rightarrow> (string \<times> json) list" where
  "token_claims challenge identityAddress =
     [(''challengeID'', JStr (hs_challengeID challenge)), (''state'', hs_state challenge), (''idLoggedIn'', JStr identityAddress)]"

definition token_options :: "service_config \<Rightarrow> hosted_challenge \<Rightarrow> int \<Rightarrow> string \<Rightarrow> jwt_options" where
  "token_options config challenge expiresIn jti =
     \<lparr>jo_audience = hs_audience challenge, jo_expiresIn = expiresIn, jo_issuer = sc_jwtIssuer config, jo_jwtid = jti\<rparr>"

definition new_result :: "('s, 'x) hosted_setup \<Rightarrow> hosted_challenge \<Rightarrow> checked_identity \<Rightarrow> int \<Rightarrow> int \<Rightarrow> string \<Rightarrow> time \<Rightarrow> stored_result" where
  "new_result su challenge identity nowSeconds expiresIn jti t =
     (let token = ho_jwtSign su (sc_jwtSecret (ho_config su)) (token_claims challenge (ck_identityAddress identity))
            (token_options (ho_config su) challenge expiresIn jti) (t div 1000) in
      \<lparr>sx_token = token, sx_identityAddress = ck_identityAddress identity, sx_displayName = safeDisplayName (ck_displayName identity),
       sx_proofDigest = cl_sha (ho_library su) (utf8_encode token), sx_expiresAt = (nowSeconds + expiresIn) * 1000\<rparr>)"

definition ok_response :: service_response where
  "ok_response = json_response 200 [(''success'', JBool True)]"

definition token_lifetime :: "service_config \<Rightarrow> hosted_challenge \<Rightarrow> int \<Rightarrow> int" where
  "token_lifetime config challenge nowSeconds =
     min (sc_resultTokenMaxLifetimeSeconds config) (hs_expiresAt challenge div 1000 - nowSeconds)"

text \<open>What follows when no result is stored yet.\<close>

definition issue_result :: "('s, 'x) hosted_setup \<Rightarrow> hosted_challenge \<Rightarrow> checked_identity \<Rightarrow> ('s, 'x, service_response) handler" where
  "issue_result su challenge identity =
     bindE (read_clock su) (\<lambda>t.
     let nowSeconds = t div 1000;
         expiresIn = token_lifetime (ho_config su) challenge nowSeconds in
     bindE (requireE (\<not> expiresIn < 1) (PublicError 400 ''Invalid or expired wallet response'')) (\<lambda>_.
     bindE (next_uuid su) (\<lambda>jti.
     bindE (read_clock su) (\<lambda>t'.
     bindE (onStore su (\<lambda>u. so_putResult (ho_store su) u (hs_challengeID challenge)
        (new_result su challenge identity nowSeconds expiresIn jti t'))) (\<lambda>stored.
     bindE (requireE (stored \<noteq> Put_conflict) (PublicError 409 ''A different result already exists'')) (\<lambda>_.
     bindE (requireE (stored \<noteq> Put_consumed) (PublicError 409 ''Request was already consumed'')) (\<lambda>_.
     returnE ok_response)))))))"

text \<open>From the challenge of a verified wallet response on.\<close>

definition answer_challenge ::
  "('s, 'x) hosted_setup \<Rightarrow> verified_callback \<Rightarrow> hosted_challenge \<Rightarrow> time \<Rightarrow> ('s, 'x, service_response) handler" where
  "answer_challenge su verified challenge t =
     bindE (requireE (\<not> hs_expiresAt challenge \<le> t) (PublicError 400 ''Invalid or expired wallet response'')) (\<lambda>_.
     bindE (requireE (\<not> decision_mismatch (ho_config su) challenge verified)
        (PublicError 400 ''Wallet response did not match the signed request'')) (\<lambda>_.
     bindE (inVerus (\<lambda>_. PublicError 400 ''Selected identity is not active on VRSCTEST'')
        (vx_checkIdentity (ho_verus su) (vc_identityAddress verified) (vc_identity verified))) (\<lambda>identity.
     bindE (onStore su (\<lambda>u. so_getResult (ho_store su) u (hs_challengeID challenge))) (\<lambda>existing.
     case existing of
       Some r \<Rightarrow>
         bindE (requireE (sx_identityAddress r = ck_identityAddress identity)
           (PublicError 409 ''A different result already exists'')) (\<lambda>_. returnE ok_response)
     | None \<Rightarrow> issue_result su challenge identity))))"

definition match_challenge :: "('s, 'x) hosted_setup \<Rightarrow> verified_callback \<Rightarrow> ('s, 'x, service_response) handler" where
  "match_challenge su verified =
     bindE (requireE (IADDRESS_PATTERN (vc_challengeID verified)) (PublicError 400 ''Invalid wallet response'')) (\<lambda>_.
     bindE (onStore su (\<lambda>u. so_getChallenge (ho_store su) u (vc_challengeID verified))) (\<lambda>found.
     case found of
       None \<Rightarrow> throwE (PublicError 400 ''Invalid or expired wallet response'')
     | Some challenge \<Rightarrow> bindE (read_clock su) (\<lambda>t. answer_challenge su verified challenge t)))"

definition post_callback :: "('s, 'x) hosted_setup \<Rightarrow> service_request \<Rightarrow> ('s, 'x, service_response) handler" where
  "post_callback su rq =
     bindE (admitted_by su ''callback'') (\<lambda>_.
     case sq_body rq of
       Some (JObj es) \<Rightarrow>
         bindE (inVerus (\<lambda>_. PublicError 400 ''Invalid wallet response'') (vx_verifyCallback (ho_verus su) es)) (match_challenge su)
     | _ \<Rightarrow> throwE (PublicError 400 ''Invalid wallet response''))"

definition result_response :: "stored_result option \<Rightarrow> service_response" where
  "result_response found =
     (case found of
        None \<Rightarrow> json_response 202 [(''success'', JBool False), (''status'', JStr ''pending'')]
      | Some r \<Rightarrow> json_response 200 ([(''success'', JBool True), (''JWT'', JStr (sx_token r)), (''iaddress'', JStr (sx_identityAddress r))]
          @ (case sx_displayName r of None \<Rightarrow> [] | Some n \<Rightarrow> [(''name'', JStr n)])))"

definition get_result :: "('s, 'x) hosted_setup \<Rightarrow> service_request \<Rightarrow> string \<Rightarrow> ('s, 'x, service_response) handler" where
  "get_result su rq challengeID =
     bindE (requireServiceAuth su rq) (\<lambda>_.
     bindE (requireE (IADDRESS_PATTERN challengeID) (PublicError 404 ''Result not found'')) (\<lambda>_.
     bindE (onStore su (\<lambda>u. so_getResult (ho_store su) u challengeID)) (\<lambda>found.
     returnE (result_response found))))"

text \<open>A proof digest that is not a text counts as one that does not fit the pattern.\<close>

definition body_text :: "json option \<Rightarrow> string \<Rightarrow> string" where
  "body_text body key = (case body of Some (JObj es) \<Rightarrow> (case field es key of Some (JStr s) \<Rightarrow> s | _ \<Rightarrow> []) | _ \<Rightarrow> [])"

definition post_ack :: "('s, 'x) hosted_setup \<Rightarrow> service_request \<Rightarrow> string \<Rightarrow> ('s, 'x, service_response) handler" where
  "post_ack su rq challengeID =
     bindE (requireServiceAuth su rq) (\<lambda>_.
     let proofDigest = body_text (sq_body rq) ''proofDigest'' in
     bindE (requireE (IADDRESS_PATTERN challengeID \<and> is_digest proofDigest) (PublicError 400 ''Invalid acknowledgement'')) (\<lambda>_.
     bindE (read_clock su) (\<lambda>t.
     bindE (onStore su (\<lambda>u. so_acknowledge (ho_store su) u challengeID proofDigest (t + 10 * 60000))) (\<lambda>acknowledged.
     bindE (requireE acknowledged (PublicError 409 ''Result could not be acknowledged'')) (\<lambda>_.
     returnE \<lparr>sp_status = 204, sp_body = None\<rparr>)))))"

section \<open>The check of an identity\<close>

text \<open>verus-verify.js; the bit REVOKED_FLAG is read from the 32 bits of the flags.\<close>

definition validateIdentityActive :: "json \<Rightarrow> string \<Rightarrow> string \<Rightarrow> string + checked_identity" where
  "validateIdentityActive result expectedIdentity expectedSystem =
     (let refused = Inl ''Identity is not currently active on the approved chain'' in
      case result of
        JObj es \<Rightarrow>
          (case field es ''identity'' of
             Some (JObj identity) \<Rightarrow>
               (case field identity ''flags'' of
                  Some (JNum (Num r)) \<Rightarrow>
                    if field es ''status'' \<noteq> Some (JStr ''active'')
                       \<or> field identity ''identityaddress'' \<noteq> Some (JStr expectedIdentity)
                       \<or> field identity ''systemid'' \<noteq> Some (JStr expectedSystem)
                       \<or> \<not> isSafeInteger (Num r) \<or> (\<lfloor>r\<rfloor> div 65536) mod 2 \<noteq> 0
                    then refused
                    else Inr \<lparr>ck_identityAddress = expectedIdentity,
                      ck_displayName = (case field es ''fullyqualifiedname'' of Some (JStr n) \<Rightarrow> Some n | _ \<Rightarrow> None)\<rparr>
                | _ \<Rightarrow> refused)
           | _ \<Rightarrow> refused)
      | _ \<Rightarrow> refused)"

end
