(* ===== verification/Hosted_Exchange.thy ===== *)
theory Hosted_Exchange
  imports Hosted_Service
begin

text \<open>
  The client of the link service and the hosted service together: the routes of the application as the
  transport of the client, the invariant of the service over every history of requests, and what an answer
  proves that the client accepts.
\<close>

section \<open>Transport\<close>

text \<open>What the client relies on of JSON and of jsonwebtoken: a printed value is read back; a token is three
  parts in base64url, a header of the type JWT with the algorithm HS256, the claims with those of the options, and
  the HMAC of both.\<close>

fun plain_json :: "json \<Rightarrow> bool" where
  "plain_json (JNum n) = False"
| "plain_json (JArr xs) = (\<forall>x \<in> set xs. plain_json x)"
| "plain_json (JObj es) = (distinct (map fst es) \<and> (\<forall>e \<in> set es. plain_json (snd e)))"
| "plain_json v = True"

definition json_documented :: "client_library \<Rightarrow> bool" where
  "json_documented lib \<longleftrightarrow> (\<forall>v. plain_json v \<longrightarrow> cl_parseJson lib (cl_stringify lib v) = Some v)"

definition signs_token :: "client_library \<Rightarrow> string \<Rightarrow> (string \<times> json) list \<Rightarrow> jwt_options \<Rightarrow> int \<Rightarrow> string \<Rightarrow> bool" where
  "signs_token lib secret claims options iat token \<longleftrightarrow>
     (\<exists>e1 e2 e3 h cs. token = e1 @ ''.'' @ e2 @ ''.'' @ e3 \<and> CHR ''.'' \<notin> set e1 \<union> set e2 \<union> set e3
        \<and> parseBase64UrlJson lib e1 = Inr h \<and> field h ''alg'' = Some (JStr ''HS256'') \<and> field h ''typ'' = Some (JStr ''JWT'')
        \<and> parseBase64UrlJson lib e2 = Inr cs \<and> (\<forall>(k, v) \<in> set claims. field cs k = Some v)
        \<and> field cs ''iss'' = Some (JStr (jo_issuer options)) \<and> field cs ''aud'' = Some (JStr (jo_audience options))
        \<and> field cs ''jti'' = Some (JStr (jo_jwtid options)) \<and> field cs ''iat'' = Some (JNum (num iat))
        \<and> field cs ''exp'' = Some (JNum (num (iat + jo_expiresIn options)))
        \<and> decodeBase64Url e3 = Inr (cl_hmac lib secret (utf8_encode (e1 @ ''.'' @ e2))))"

definition jwt_documented :: "('s, 'x) hosted_setup \<Rightarrow> bool" where
  "jwt_documented su \<longleftrightarrow> (\<forall>secret c a options iat. plain_json (hs_state c) \<longrightarrow>
     signs_token (ho_library su) secret (token_claims c a) options iat (ho_jwtSign su secret (token_claims c a) options iat))"

text \<open>The body as express.json hands it on, at most 64 kB of an object or an array.\<close>

definition BODY_LIMIT :: nat where "BODY_LIMIT = 64 * 1024"

definition read_body :: "client_library \<Rightarrow> http_request \<Rightarrow> service_error + json option" where
  "read_body lib rq =
     (case rq_body rq of
        None \<Rightarrow> Inr None
      | Some text \<Rightarrow>
          if map_of (rq_headers rq) ''content-type'' \<noteq> Some ''application/json'' \<or> text = [] then Inr None
          else if length (utf8_encode text) > BODY_LIMIT then Inl (PublicError 413 ''Service unavailable'')
          else case cl_parseJson lib text of
            Some (JObj es) \<Rightarrow> Inr (Some (JObj es))
          | Some (JArr vs) \<Rightarrow> Inr (Some (JArr vs))
          | _ \<Rightarrow> Inl (OtherServiceError ''invalid JSON''))"

definition received :: "http_request \<Rightarrow> json option \<Rightarrow> service_request" where
  "received rq body =
     \<lparr>sq_authorization = map_of (rq_headers rq) ''authorization'', sq_version = map_of (rq_headers rq) ''x-cbc-auth-contract-version'',
      sq_body = body\<rparr>"

definition result_path :: string where "result_path = ''/api/auth/verusid/result/''"

definition route :: "('s, 'x) hosted_setup \<Rightarrow> string \<Rightarrow> string \<Rightarrow> service_request \<Rightarrow> ('s, 'x, service_response) handler" where
  "route su verb path q =
     (let rest = drop (length result_path) path in
      if verb = ''GET'' \<and> path = ''/health'' then health su
      else if verb = ''POST'' \<and> path = ''/api/auth/verusid/challenge'' then post_challenge su q
      else if verb = ''POST'' \<and> path = ''/verusidlogin'' then post_callback su q
      else if \<not> prefix result_path path then throwE (PublicError 404 ''Not found'')
      else if verb = ''GET'' \<and> CHR ''/'' \<notin> set rest then get_result su q rest
      else case split_char (CHR ''/'') rest of
        [i, a] \<Rightarrow> if verb = ''POST'' \<and> a = ''ack'' then post_ack su q i else throwE (PublicError 404 ''Not found'')
      | _ \<Rightarrow> throwE (PublicError 404 ''Not found''))"

definition serve :: "('s, 'x) hosted_setup \<Rightarrow> http_request \<Rightarrow> ('s, 'x, service_response) handler" where
  "serve su rq =
     (case read_body (ho_library su) rq of
        Inl e \<Rightarrow> throwE e
      | Inr body \<Rightarrow> route su (rq_method rq) (rq_path rq) (received rq body))"

definition delivered :: "client_library \<Rightarrow> service_response \<Rightarrow> http_response" where
  "delivered lib sp =
     (let text = (case sp_body sp of None \<Rightarrow> [] | Some v \<Rightarrow> cl_stringify lib v) in
      \<lparr>rs_status = sp_status sp, rs_length = num (int (length (utf8_encode text))), rs_text = Inr text\<rparr>)"

definition service_fetch :: "('s, 'x) hosted_setup \<Rightarrow> ('s, 'x) hosted_world fetch" where
  "service_fetch su rq w = (case respond (serve su rq) w of (sp, w') \<Rightarrow> (Inr (delivered (ho_library su) sp), w'))"

section \<open>Histories of requests\<close>

text \<open>Any request may come, from anyone; between requests the outside changes and time passes.\<close>

inductive hosted_event :: "('s, 'x) hosted_setup \<Rightarrow> ('s, 'x) hosted_world \<Rightarrow> ('s, 'x) hosted_world \<Rightarrow> bool" for su where
  he_request: "hosted_event su w (snd (service_fetch su rq w))"
| he_outside: "hosted_event su w (w\<lparr>hw_outside := x\<rparr>)"
| he_time: "hw_clock w \<le> n \<Longrightarrow> hosted_event su w (w\<lparr>hw_clock := n\<rparr>)"

definition challenge_justified :: "('s, 'x) hosted_setup \<Rightarrow> hosted_challenge \<Rightarrow> bool" where
  "challenge_justified su c \<longleftrightarrow> (\<exists>body t inp pr. validateChallengeInput (ho_library su) body (ho_config su) t = Inr inp
     \<and> c = new_hosted_challenge su inp pr)"

text \<open>Where a result comes from: a wallet response that the SDK verified for the challenge, of an identity that was
  active, and a token that was signed for both.\<close>

definition result_justified :: "('s, 'x) hosted_setup \<Rightarrow> string \<Rightarrow> stored_result \<Rightarrow> bool" where
  "result_justified su i r \<longleftrightarrow>
     (\<exists>c es x x1 verified y y1 identity options iat. challenge_justified su c \<and> hs_challengeID c = i
        \<and> vx_verifyCallback (ho_verus su) es x = (Inr verified, x1) \<and> \<not> decision_mismatch (ho_config su) c verified
        \<and> vx_checkIdentity (ho_verus su) (vc_identityAddress verified) (vc_identity verified) y = (Inr identity, y1)
        \<and> sx_identityAddress r = ck_identityAddress identity \<and> jo_audience options = hs_audience c
        \<and> sx_token r = ho_jwtSign su (sc_jwtSecret (ho_config su)) (token_claims c (ck_identityAddress identity)) options iat)"

definition store_inv where
  "store_inv ok chal res su t s \<longleftrightarrow> ok t s
     \<and> (\<forall>u i c. t \<le> u \<longrightarrow> chal s u i = Some c \<longrightarrow> challenge_justified su c)
     \<and> (\<forall>u i r. t \<le> u \<longrightarrow> res s u i = Some r \<longrightarrow> result_justified su i r)"

definition hosted_inv where
  "hosted_inv ok chal res su w \<longleftrightarrow> store_inv ok chal res su (ho_clock su (hw_clock w)) (hw_store w)"

lemma store_inv_later:
  assumes "result_store (ho_store su) ok chal res" "store_inv ok chal res su t s" "t \<le> t'"
  shows "store_inv ok chal res su t' s"
  using assms result_store.later[OF assms(1)] unfolding store_inv_def by (meson order.trans)

text \<open>What a store operation keeps, and what it returns.\<close>

lemma store_inv_steps:
  assumes rs: "result_store (ho_store su) ok chal res" and inv: "store_inv ok chal res su t s"
  shows "so_ping (ho_store su) s = (x, s') \<Longrightarrow> store_inv ok chal res su t s'"
    "so_createChallenge (ho_store su) t c s = (b, s') \<Longrightarrow> challenge_justified su c \<Longrightarrow> store_inv ok chal res su t s'"
    "so_getChallenge (ho_store su) t i s = (y, s') \<Longrightarrow> store_inv ok chal res su t s' \<and> (\<forall>c. y = Some c \<longrightarrow> challenge_justified su c)"
    "so_putResult (ho_store su) t i r s = (p, s') \<Longrightarrow> result_justified su i r \<Longrightarrow> store_inv ok chal res su t s'"
    "so_getResult (ho_store su) t i s = (z, s') \<Longrightarrow> store_inv ok chal res su t s' \<and> (\<forall>r. z = Some r \<longrightarrow> result_justified su i r)"
    "so_acknowledge (ho_store su) t i d u s = (q, s') \<Longrightarrow> store_inv ok chal res su t s'"
proof -
  have ok: "ok t s" using inv by (simp add: store_inv_def)
  have c0: "t \<le> u \<Longrightarrow> chal s u i = Some c \<Longrightarrow> challenge_justified su c" for u i c using inv by (auto simp: store_inv_def)
  have r0: "t \<le> u \<Longrightarrow> res s u i = Some r \<Longrightarrow> result_justified su i r" for u i r using inv by (auto simp: store_inv_def)
  show "store_inv ok chal res su t s'" if "so_ping (ho_store su) s = (x, s')"
    using result_store.ping[OF rs ok that] c0 r0 unfolding store_inv_def by auto
  show "store_inv ok chal res su t s'" if "so_createChallenge (ho_store su) t c s = (b, s')" "challenge_justified su c"
    using result_store.create[OF rs ok that(1)] c0 r0 that(2) unfolding store_inv_def by (auto split: if_splits)
  show "store_inv ok chal res su t s' \<and> (\<forall>c. y = Some c \<longrightarrow> challenge_justified su c)" if "so_getChallenge (ho_store su) t i s = (y, s')"
    using result_store.getc[OF rs ok that] c0[OF order.refl] c0 r0 unfolding store_inv_def by (metis order.refl)
  show "store_inv ok chal res su t s'" if "so_putResult (ho_store su) t i r s = (p, s')" "result_justified su i r"
    using result_store.put[OF rs ok that(1)] c0 r0 that(2) unfolding store_inv_def by (auto split: if_splits)
  show "store_inv ok chal res su t s' \<and> (\<forall>r. z = Some r \<longrightarrow> result_justified su i r)" if "so_getResult (ho_store su) t i s = (z, s')"
    using result_store.getr[OF rs ok that] r0[OF order.refl] c0 r0 unfolding store_inv_def by (metis order.refl)
  show "store_inv ok chal res su t s'" if "so_acknowledge (ho_store su) t i d u s = (q, s')"
    using result_store.ack[OF rs ok that] c0 r0 unfolding store_inv_def by (auto split: if_splits)
qed

section \<open>The invariant over every history\<close>

lemma preserves_respond:
  assumes "preserves I m" "I w" "respond m w = (sp, w')"
  shows "I w'"
proof -
  obtain r w1 where run: "m w = (r, w1)" by (rule prod.exhaust)
  hence "w' = w1" using assms(3) by (auto simp: respond_def split: sum.splits service_error.splits)
  thus ?thesis using preservesD[OF assms(1,2) run] by simp
qed

lemma hosted_inv_clock:
  assumes "result_store (ho_store su) ok chal res" "mono (ho_clock su)" "hosted_inv ok chal res su w"
    and "store_inv ok chal res su (ho_clock su (hw_clock w)) s"
  shows "hosted_inv ok chal res su (w\<lparr>hw_clock := hw_clock w + 1\<rparr>)" "hosted_inv ok chal res su (w\<lparr>hw_clock := hw_clock w + 1, hw_store := s\<rparr>)"
  using store_inv_later[OF assms(1)] assms(2-4) monoD[OF assms(2), of "hw_clock w" "hw_clock w + 1"]
  by (auto simp: hosted_inv_def)

lemma preserves_onStore:
  assumes "result_store (ho_store su) ok chal res" "mono (ho_clock su)"
    and "\<And>t s a s'. store_inv ok chal res su t s \<Longrightarrow> f t s = (a, s') \<Longrightarrow> store_inv ok chal res su t s'"
  shows "preserves (hosted_inv ok chal res su) (onStore su f)"
proof (rule preservesI)
  fix w r w' assume inv: "hosted_inv ok chal res su w" and run: "onStore su f w = (r, w')"
  obtain a s where f: "f (ho_clock su (hw_clock w)) (hw_store w) = (a, s)" by (rule prod.exhaust)
  have "store_inv ok chal res su (ho_clock su (hw_clock w)) s" using assms(3) f inv by (simp add: hosted_inv_def)
  thus "hosted_inv ok chal res su w'" using hosted_inv_clock[OF assms(1,2) inv] run f by (auto simp: onStore_def read_clock_def bindE_def)
qed

lemma onStore_Inr:
  assumes "onStore su f w = (Inr a, w')" "hosted_inv ok chal res su w"
  obtains t s s' where "store_inv ok chal res su t s" "f t s = (a, s')"
  using assms by (auto simp: onStore_def read_clock_def bindE_def hosted_inv_def split: prod.splits)

lemma hosted_steps:
  assumes rs: "result_store (ho_store su) ok chal res" and mono: "mono (ho_clock su)"
  defines "I \<equiv> hosted_inv ok chal res su"
  shows "preserves I (read_clock su)" "preserves I (inVerus err m)" "preserves I (next_uuid su)" "preserves I (admitted_by su l)"
    "preserves I (requireServiceAuth su rq)"
    "challenge_justified su c \<Longrightarrow> preserves I (onStore su (\<lambda>t. so_createChallenge (ho_store su) t c))"
    "result_justified su i r \<Longrightarrow> preserves I (onStore su (\<lambda>u. so_putResult (ho_store su) u i r))"
    "preserves I (onStore su (\<lambda>u. so_getChallenge (ho_store su) u i))" "preserves I (onStore su (\<lambda>u. so_getResult (ho_store su) u i))"
    "preserves I (onStore su (\<lambda>u. so_acknowledge (ho_store su) u i d tomb))"
proof -
  show "preserves I (read_clock su)" using hosted_inv_clock(1)[OF rs mono]
    by (auto simp: preserves_def I_def read_clock_def) (simp add: hosted_inv_def)
  show "preserves I (inVerus err m)" "preserves I (next_uuid su)" "preserves I (admitted_by su l)"
    by (auto simp: preserves_def I_def hosted_inv_def inVerus_def next_uuid_def admitted_by_def split: prod.splits)
  show "preserves I (requireServiceAuth su rq)" unfolding requireServiceAuth_def by (intro preserves_rules)
  note steps = store_inv_steps[OF rs]
  note stored = preserves_onStore[OF rs mono, folded I_def]
  show "challenge_justified su c \<Longrightarrow> preserves I (onStore su (\<lambda>t. so_createChallenge (ho_store su) t c))"
    by (rule stored) (rule steps(2))
  show "result_justified su i r \<Longrightarrow> preserves I (onStore su (\<lambda>u. so_putResult (ho_store su) u i r))"
    by (rule stored) (rule steps(4))
  show "preserves I (onStore su (\<lambda>u. so_getChallenge (ho_store su) u i))"
    by (rule stored) (use steps(3) in blast)
  show "preserves I (onStore su (\<lambda>u. so_getResult (ho_store su) u i))"
    by (rule stored) (use steps(5) in blast)
  show "preserves I (onStore su (\<lambda>u. so_acknowledge (ho_store su) u i d tomb))"
    by (rule stored) (rule steps(6))
qed

lemma handlers_preserve:
  assumes rs: "result_store (ho_store su) ok chal res" and mono: "mono (ho_clock su)"
  shows "preserves (hosted_inv ok chal res su) (health su)" "preserves (hosted_inv ok chal res su) (post_challenge su rq)"
    "preserves (hosted_inv ok chal res su) (get_result su rq i)" "preserves (hosted_inv ok chal res su) (post_ack su rq i)"
proof -
  let ?I = "hosted_inv ok chal res su"
  note steps = hosted_steps[OF rs mono]
  show "preserves ?I (get_result su rq i)" unfolding get_result_def by (intro preserves_rules steps)
  show "preserves ?I (post_ack su rq i)" unfolding post_ack_def Let_def by (intro preserves_rules steps)
  show "preserves ?I (health su)"
  proof (rule preservesI)
    fix w r w' assume inv: "?I w" and run: "health su w = (r, w')"
    obtain p s where ping: "so_ping (ho_store su) (hw_store w) = (p, s)" by (rule prod.exhaust)
    obtain q x where "vx_preflight (ho_verus su) (hw_outside w) = (q, x)" by (rule prod.exhaust)
    hence "w' = w\<lparr>hw_store := s, hw_outside := x\<rparr>\<lparr>hw_clock := hw_clock w + 1\<rparr>"
      using run ping by (auto simp: health_def bindE_def read_clock_def returnE_def Let_def)
    moreover have "store_inv ok chal res su (ho_clock su (hw_clock w)) s" using store_inv_steps(1)[OF rs _ ping] inv by (simp add: hosted_inv_def)
    ultimately show "?I w'" using hosted_inv_clock(2)[OF rs mono inv] by (simp add: hosted_inv_def)
  qed
  have "preserves ?I (allocate_challenge su inp)"
    if "validateChallengeInput (ho_library su) (sq_body rq) (ho_config su) t = Inr inp" for t inp
  proof -
    have "challenge_justified su (new_hosted_challenge su inp pr)" for pr using that unfolding challenge_justified_def by blast
    thus ?thesis unfolding allocate_challenge_def Let_def by (intro preserves_rules steps)
  qed
  thus "preserves ?I (post_challenge su rq)" unfolding post_challenge_def
    by (intro preserves_rules steps) (auto split: sum.splits intro: preserves_rules)
qed

lemma inVerus_Inr:
  assumes "inVerus err m w = (Inr a, w')"
  obtains x x1 where "m x = (Inr a, x1)"
  using assms by (cases "m (hw_outside w)"; cases "fst (m (hw_outside w))") (auto simp: inVerus_def)

lemma new_result_justified:
  assumes "challenge_justified su c" "vx_verifyCallback (ho_verus su) es x = (Inr verified, x1)"
    and "\<not> decision_mismatch (ho_config su) c verified"
    and "vx_checkIdentity (ho_verus su) (vc_identityAddress verified) (vc_identity verified) y = (Inr identity, y1)"
  shows "result_justified su (hs_challengeID c) (new_result su c identity n e jti t)"
  unfolding result_justified_def new_result_def Let_def
  by (rule exI[of _ c], rule exI[of _ es], rule exI[of _ x], rule exI[of _ x1], rule exI[of _ verified], rule exI[of _ y],
      rule exI[of _ y1], rule exI[of _ identity], rule exI[of _ "token_options (ho_config su) c e jti"], rule exI[of _ "t div 1000"])
    (use assms in \<open>simp add: token_options_def\<close>)

lemma answer_preserves:
  assumes rs: "result_store (ho_store su) ok chal res" and mono: "mono (ho_clock su)"
    and c: "challenge_justified su c" and verified: "vx_verifyCallback (ho_verus su) es x = (Inr verified, x1)"
  shows "preserves (hosted_inv ok chal res su) (answer_challenge su verified c t)"
proof -
  let ?I = "hosted_inv ok chal res su"
  note steps = hosted_steps[OF rs mono]
  have issue: "preserves ?I (issue_result su c identity)"
    if matches: "\<not> decision_mismatch (ho_config su) c verified"
      and run: "inVerus err (vx_checkIdentity (ho_verus su) (vc_identityAddress verified) (vc_identity verified)) w = (Inr identity, w')"
    for identity err w w'
  proof -
    obtain y y1 where "vx_checkIdentity (ho_verus su) (vc_identityAddress verified) (vc_identity verified) y = (Inr identity, y1)"
      by (rule inVerus_Inr[OF run])
    note new = new_result_justified[OF c verified matches this]
    show ?thesis unfolding issue_result_def Let_def by (intro preserves_rules steps new)
  qed
  show ?thesis unfolding answer_challenge_def
    apply (rule preserves_bindE, rule preserves_rules)
    apply (rule preserves_bindE, rule preserves_rules)
    apply (rule preserves_bindE, rule steps)
    apply (rule preserves_bindE, rule steps)
    using issue by (auto split: option.splits intro!: preserves_rules simp: requireE_def returnE_def throwE_def split: if_splits)
qed

lemma callback_preserves:
  assumes rs: "result_store (ho_store su) ok chal res" and mono: "mono (ho_clock su)"
  shows "preserves (hosted_inv ok chal res su) (post_callback su rq)"
proof -
  let ?I = "hosted_inv ok chal res su"
  note steps = hosted_steps[OF rs mono]
  have "preserves ?I (match_challenge su verified)"
    if verified: "vx_verifyCallback (ho_verus su) es x = (Inr verified, x1)" for es verified x x1
  proof -
    have "challenge_justified su c" if "?I w" "onStore su (\<lambda>u. so_getChallenge (ho_store su) u i) w = (Inr (Some c), w')" for w w' i c
      by (rule onStore_Inr[OF that(2,1)]) (use store_inv_steps(3)[OF rs] in blast)
    thus ?thesis unfolding match_challenge_def
      apply -
      apply (rule preserves_bindE, rule preserves_rules)
      apply (rule preserves_bindE, rule steps)
      using answer_preserves[OF rs mono _ verified] by (auto split: option.splits intro!: preserves_rules steps)
  qed
  hence "preserves ?I (bindE (inVerus err (vx_verifyCallback (ho_verus su) es)) (match_challenge su))" for err es
    by (intro preserves_bindE[OF steps(2)]) (auto elim!: inVerus_Inr)
  thus ?thesis unfolding post_callback_def
    by (auto split: option.splits json.splits intro!: preserves_bindE_simple[OF steps(4)] preserves_basic)
qed

lemma serve_preserves:
  assumes rs: "result_store (ho_store su) ok chal res" and mono: "mono (ho_clock su)"
  shows "preserves (hosted_inv ok chal res su) (serve su rq)"
proof -
  have "preserves (hosted_inv ok chal res su) (route su verb path q)" for verb path q
    unfolding route_def Let_def
    by (intro preserves_rules handlers_preserve[OF assms] callback_preserves[OF assms])
      (auto split: list.splits intro: preserves_rules handlers_preserve[OF assms])
  thus ?thesis unfolding serve_def by (auto split: sum.splits intro: preserves_rules)
qed

lemma hosted_event_keeps:
  assumes rs: "result_store (ho_store su) ok chal res" and mono: "mono (ho_clock su)"
    and "hosted_event su w w'" "hosted_inv ok chal res su w"
  shows "hosted_inv ok chal res su w'"
  using assms(3,4)
proof (cases rule: hosted_event.cases)
  case (he_request rq)
  obtain sp v where run: "respond (serve su rq) w = (sp, v)" by (rule prod.exhaust)
  have "hosted_inv ok chal res su v" by (rule preserves_respond[OF serve_preserves[OF rs mono] assms(4) run])
  thus ?thesis using he_request run by (simp add: service_fetch_def)
next
  case (he_time n)
  thus ?thesis using store_inv_later[OF rs _ monoD[OF mono he_time(2)]] assms(4) by (simp add: hosted_inv_def)
qed (simp add: hosted_inv_def)

lemma hosted_history_keeps:
  assumes "result_store (ho_store su) ok chal res" "mono (ho_clock su)" "(hosted_event su)\<^sup>*\<^sup>* w w'" "hosted_inv ok chal res su w"
  shows "hosted_inv ok chal res su w'"
  using assms(3,4) by induction (auto intro: hosted_event_keeps[OF assms(1,2)])

section \<open>What an accepted token says\<close>

lemma decodeBase64Url_nonempty: "decodeBase64Url v = Inr bs \<Longrightarrow> v \<noteq> []" by (auto simp: decodeBase64Url_def split: if_splits)

lemma parseBase64UrlJson_nonempty: "parseBase64UrlJson lib v = Inr es \<Longrightarrow> v \<noteq> []"
  by (auto simp: parseBase64UrlJson_def decodeBase64Url_def split: if_splits)

lemma signs_token_parts:
  assumes "signs_token lib secret claims options iat token"
  obtains e1 e2 e3 h cs where "split_char (CHR ''.'') token = [e1, e2, e3]" "e1 \<noteq> []" "e2 \<noteq> []" "e3 \<noteq> []"
    "parseBase64UrlJson lib e1 = Inr h" "parseBase64UrlJson lib e2 = Inr cs"
    "field h ''alg'' = Some (JStr ''HS256'')" "field h ''typ'' = Some (JStr ''JWT'')"
    "decodeBase64Url e3 = Inr (cl_hmac lib secret (utf8_encode (e1 @ ''.'' @ e2)))"
    "\<forall>(k, v) \<in> set claims. field cs k = Some v"
    "field cs ''iss'' = Some (JStr (jo_issuer options))" "field cs ''aud'' = Some (JStr (jo_audience options))"
    "field cs ''jti'' = Some (JStr (jo_jwtid options))" "field cs ''iat'' = Some (JNum (num iat))"
    "field cs ''exp'' = Some (JNum (num (iat + jo_expiresIn options)))"
proof -
  obtain e1 e2 e3 h cs where parts: "token = e1 @ ''.'' @ e2 @ ''.'' @ e3" "CHR ''.'' \<notin> set e1" "CHR ''.'' \<notin> set e2" "CHR ''.'' \<notin> set e3"
    and rest: "parseBase64UrlJson lib e1 = Inr h" "parseBase64UrlJson lib e2 = Inr cs"
    "field h ''alg'' = Some (JStr ''HS256'')" "field h ''typ'' = Some (JStr ''JWT'')"
    "decodeBase64Url e3 = Inr (cl_hmac lib secret (utf8_encode (e1 @ ''.'' @ e2)))"
    "\<forall>(k, v) \<in> set claims. field cs k = Some v"
    "field cs ''iss'' = Some (JStr (jo_issuer options))" "field cs ''aud'' = Some (JStr (jo_audience options))"
    "field cs ''jti'' = Some (JStr (jo_jwtid options))" "field cs ''iat'' = Some (JNum (num iat))"
    "field cs ''exp'' = Some (JNum (num (iat + jo_expiresIn options)))"
    using assms unfolding signs_token_def by blast
  have "split_char (CHR ''.'') token = [e1, e2, e3]" using parts by (simp add: split_char_append split_char_free)
  moreover have "e1 \<noteq> []" "e2 \<noteq> []" "e3 \<noteq> []"
    using rest(1,2,5) by (auto dest: parseBase64UrlJson_nonempty decodeBase64Url_nonempty)
  ultimately show thesis using rest by (rule that)
qed

lemma accepted_claims:
  assumes "signs_token lib secret (token_claims c a) options iat token" "verifyJwt lib token s ex = Inr p"
  shows "ej_challengeId ex = hs_challengeID c" "hs_state c = JStr (ej_state ex)" "ej_audience ex = jo_audience options"
    "ej_identityAddress ex = a"
proof -
  obtain e1 e2 e3 h cs where "split_char (CHR ''.'') token = [e1, e2, e3]" "parseBase64UrlJson lib e1 = Inr h"
    and cs: "parseBase64UrlJson lib e2 = Inr cs" "\<forall>(k, v) \<in> set (token_claims c a). field cs k = Some v"
    "field cs ''aud'' = Some (JStr (jo_audience options))"
    by (rule signs_token_parts[OF assms(1)])
  hence "\<exists>i e. \<not> claims_refused cs ex i e" using assms(2)
    by (auto simp: verifyJwt_def split: if_splits sum.splits)
  thus "ej_challengeId ex = hs_challengeID c" "hs_state c = JStr (ej_state ex)" "ej_audience ex = jo_audience options"
    "ej_identityAddress ex = a"
    using cs(2,3) by (auto simp: claims_refused_def token_claims_def Let_def)
qed

section \<open>Asking for a result\<close>

lemma iaddress_chars:
  assumes "IADDRESS_PATTERN i"
  shows "encodeURIComponent i = i" "CHR ''/'' \<notin> set i"
proof -
  have "is_lower c \<or> is_upper c \<or> is_digit c" if "base58_char c" for c
    using that by (auto simp: base58_char_def is_lower_def is_upper_def is_digit_def)
  moreover have "\<not> base58_char (CHR ''/'')" "base58_char (CHR ''i'')" by code_simp+
  ultimately have "uri_unreserved c \<and> c \<noteq> CHR ''/''" if "c \<in> set i" for c
    using matches_head_chars[OF assms[unfolded IADDRESS_PATTERN_def] that] by (metis uri_unreserved_def)
  thus "encodeURIComponent i = i" "CHR ''/'' \<notin> set i" by (auto intro!: encodeURIComponent_id simp: list_all_iff)
qed

lemma ask_result:
  assumes "hx_fetch client = service_fetch su" "IADDRESS_PATTERN i"
    and "request client ''GET'' (''/api/auth/verusid/result/'' @ encodeURIComponent i) None w = (Inr response, w')"
  obtains q sp where "respond (get_result su q i) w = (sp, w')" "response = delivered (ho_library su) sp"
proof -
  have serve: "serve su rq = get_result su (received rq None) i"
    if "rq_method rq = ''GET''" "rq_path rq = ''/api/auth/verusid/result/'' @ i" "rq_body rq = None" for rq
    using that iaddress_chars(2)[OF assms(2)] by (simp add: serve_def read_body_def route_def Let_def result_path_def)
  show thesis using assms(1,3) that
    by (auto simp: request_def map_errorE_def service_fetch_def serve iaddress_chars[OF assms(2)] split: prod.splits)
qed

text \<open>What the client reads of the answer.\<close>

lemma onStore_never_fails: "onStore su f w \<noteq> (Inl e, w')"
  by (simp add: onStore_def read_clock_def bindE_def split: prod.splits)

lemma get_result_error:
  assumes "get_result su q i w = (Inl e, w')"
  shows "e = PublicError 401 ''Unauthorized'' \<or> e = PublicError 404 ''Result not found''"
  using assms by (auto simp: get_result_def requireServiceAuth_def bindE_Inl requireE_def throwE_def returnE_def
    onStore_never_fails split: if_splits)

lemma result_answer:
  assumes rs: "result_store (ho_store su) ok chal res" and inv: "hosted_inv ok chal res su w"
    and run: "respond (get_result su q i) w = (sp, w')" and sp: "sp_status sp \<noteq> 202" "200 \<le> sp_status sp" "sp_status sp \<le> 299"
  obtains r where "result_justified su i r" "sp = result_response (Some r)"
proof -
  obtain r1 w1 where m: "get_result su q i w = (r1, w1)" by (rule prod.exhaust)
  show thesis
  proof (cases r1)
    case (Inl e)
    thus ?thesis using run sp get_result_error[OF m[unfolded Inl]] by (auto simp: m respond_def json_response_def)
  next
    case (Inr answer)
    then obtain found w2 where got: "onStore su (\<lambda>u. so_getResult (ho_store su) u i) w = (Inr found, w2)"
      and answer: "answer = result_response found" using m
      by (auto simp: get_result_def requireServiceAuth_def requireE_def returnE_def throwE_def split: if_splits)
    have "sp = result_response found" using run m Inr answer by (simp add: respond_def)
    moreover from this obtain r where r: "found = Some r" using sp by (cases found) (auto simp: result_response_def json_response_def)
    moreover have "result_justified su i r"
      by (rule onStore_Inr[OF got inv]) (use store_inv_steps(5)[OF rs] r in blast)
    ultimately show ?thesis using that by blast
  qed
qed

definition vouched_for where
  "vouched_for su challengeId state audience identityAddress \<longleftrightarrow>
     (\<exists>c es x x1 verified y y1 identity. challenge_justified su c \<and> hs_challengeID c = challengeId \<and> hs_state c = JStr state
        \<and> hs_audience c = audience \<and> vx_verifyCallback (ho_verus su) es x = (Inr verified, x1)
        \<and> \<not> decision_mismatch (ho_config su) c verified
        \<and> vx_checkIdentity (ho_verus su) (vc_identityAddress verified) (vc_identity verified) y = (Inr identity, y1)
        \<and> ck_identityAddress identity = identityAddress)"

lemma readJson_delivered:
  assumes "json_documented lib" "plain_json (JObj es)" "readJson lib (delivered lib (json_response status es)) = Inr body"
  shows "body = es"
  using assms by (auto simp: readJson_def delivered_def json_response_def json_documented_def Let_def simp del: plain_json.simps split: if_splits)

lemma validated_state:
  assumes "validateChallengeInput lib body config t = Inr inp"
  shows "STATE_PATTERN (pattern_text (cn_state inp))"
proof -
  obtain es where "body = Some (JObj es)" using assms by (cases body; cases "the body") (simp_all add: validateChallengeInput_def)
  thus ?thesis using assms 
    by (cases "binding_fields es"; cases "map_of PURPOSES (fst (snd (snd (the (binding_fields es)))))")
      (auto simp: validateChallengeInput_def case_prod_beta split: if_split_asm)
qed

lemma justified_state:
  assumes "challenge_justified su c"
  shows "plain_json (hs_state c)"
proof -
  have plain: "pattern_text v \<noteq> [] \<Longrightarrow> plain_json v" for v by (induction v rule: pattern_text.induct) auto
  obtain body t inp pr where "validateChallengeInput (ho_library su) body (ho_config su) t = Inr inp" "c = new_hosted_challenge su inp pr"
    using assms by (auto simp: challenge_justified_def)
  hence "STATE_PATTERN (pattern_text (hs_state c))"
    using validated_state by (simp add: new_hosted_challenge_def)
  thus ?thesis by (intro plain) (auto simp: STATE_PATTERN_def matches_all_def)
qed

lemma read_result_vouched:
  assumes "json_documented (ho_library su)" "jwt_documented su" "result_justified su (gr_challengeId inp) r"
    and body: "readJson (ho_library su) (delivered (ho_library su) (result_response (Some r))) = Inr body"
    and read: "read_result (hx_config client) (ho_library su) inp body = Inr (Verified vh)"
  shows "vouched_for su (gr_challengeId inp) (gr_state inp) (gr_audience inp) (vh_identityAddress vh)"
proof -
  let ?es = "[(''success'', JBool True), (''JWT'', JStr (sx_token r)), (''iaddress'', JStr (sx_identityAddress r))]
          @ (case sx_displayName r of None \<Rightarrow> [] | Some n \<Rightarrow> [(''name'', JStr n)])"
  have es: "body = ?es"
    by (rule readJson_delivered[OF assms(1)]) (use body in \<open>auto simp: result_response_def split: option.splits\<close>)
  have fields: "field ?es ''JWT'' = Some (JStr (sx_token r))" "field ?es ''iaddress'' = Some (JStr (sx_identityAddress r))"
    by (auto simp: field_def)
  have "stringValue body ''JWT'' n = Inr v \<Longrightarrow> v = sx_token r" "stringValue body ''iaddress'' n = Inr v \<Longrightarrow> v = sx_identityAddress r" for n v
    using fields by (auto simp: stringValue_def es split: if_splits)
  then obtain iat expires where token: "verifyJwt (ho_library su) (sx_token r) (hf_jwtSecret (hx_config client))
      (expected_jwt (hx_config client) inp (sx_identityAddress r)) = Inr (iat, expires)"
    and address: "vh_identityAddress vh = sx_identityAddress r"
    using read by (auto simp: read_result_def split: if_splits)
  obtain c es x x1 verified y y1 identity options n where c: "challenge_justified su c" "hs_challengeID c = gr_challengeId inp"
    and sdk: "vx_verifyCallback (ho_verus su) es x = (Inr verified, x1)" "\<not> decision_mismatch (ho_config su) c verified"
      "vx_checkIdentity (ho_verus su) (vc_identityAddress verified) (vc_identity verified) y = (Inr identity, y1)"
    and r: "sx_identityAddress r = ck_identityAddress identity" "jo_audience options = hs_audience c"
      "sx_token r = ho_jwtSign su (sc_jwtSecret (ho_config su)) (token_claims c (ck_identityAddress identity)) options n"
    using assms(3) unfolding result_justified_def by blast
  have "signs_token (ho_library su) (sc_jwtSecret (ho_config su)) (token_claims c (ck_identityAddress identity)) options n (sx_token r)"
    using assms(2) r(3) justified_state[OF c(1)] by (simp add: jwt_documented_def)
  from accepted_claims[OF this token] have "hs_state c = JStr (gr_state inp)" "hs_audience c = gr_audience inp"
    using r(2) by (simp_all add: expected_jwt_def)
  thus ?thesis unfolding vouched_for_def using c sdk r(1) address by metis
qed

end
