(* ===== verification/Hosted_Properties.thy ===== *)
theory Hosted_Properties
  imports Hosted_Exchange
begin

text \<open>
  What the client of the link service and the hosted identity service guarantee together, with a concrete
  library, Redis and SDK on which the hypotheses are checked.
\<close>

section \<open>Tokens\<close>

lemma integerValue_num:
  "field cs k = Some (JNum (num i)) \<Longrightarrow> 0 < i \<Longrightarrow> i \<le> 9007199254740991 \<Longrightarrow> integerValue cs k = Inr i"
  by (simp add: integerValue_def num_def isSafeInteger_def isInteger_iff abs_if flip: of_int_le_iff)

lemma signed_token_verifies:
  assumes "signs_token lib secret (token_claims c (ej_identityAddress ex)) options iat token"
    and "jo_audience options = ej_audience ex" "jo_issuer options = ej_issuer ex" "16 \<le> length (jo_jwtid options)"
    and "hs_challengeID c = ej_challengeId ex" "hs_state c = JStr (ej_state ex)" "IADDRESS_PATTERN (ej_identityAddress ex)"
    and "0 < iat" "0 < jo_expiresIn options" "iat + jo_expiresIn options \<le> 9007199254740991"
    and "ej_issuedAt ex div 1000 - 60 \<le> iat" "iat \<le> ej_now ex div 1000 + 60"
    and "ej_now ex div 1000 < iat + jo_expiresIn options" "iat + jo_expiresIn options \<le> ej_expiresAt ex div 1000 + 60"
  shows "verifyJwt lib token secret ex = Inr (iat, iat + jo_expiresIn options)"
proof -
  obtain e1 e2 e3 h cs where parts: "split_char (CHR ''.'') token = [e1, e2, e3]" "e1 \<noteq> []" "e2 \<noteq> []" "e3 \<noteq> []"
    "parseBase64UrlJson lib e1 = Inr h" "parseBase64UrlJson lib e2 = Inr cs"
    "field h ''alg'' = Some (JStr ''HS256'')" "field h ''typ'' = Some (JStr ''JWT'')"
    "decodeBase64Url e3 = Inr (cl_hmac lib secret (utf8_encode (e1 @ ''.'' @ e2)))"
    and claims: "\<forall>(k, v) \<in> set (token_claims c (ej_identityAddress ex)). field cs k = Some v"
    "field cs ''iss'' = Some (JStr (jo_issuer options))" "field cs ''aud'' = Some (JStr (jo_audience options))"
    "field cs ''jti'' = Some (JStr (jo_jwtid options))" "field cs ''iat'' = Some (JNum (num iat))"
    "field cs ''exp'' = Some (JNum (num (iat + jo_expiresIn options)))"
    by (rule signs_token_parts[OF assms(1)])
  have "integerValue cs ''iat'' = Inr iat" "integerValue cs ''exp'' = Inr (iat + jo_expiresIn options)"
    using claims(5,6) assms(8-10) by (auto intro!: integerValue_num)
  moreover have "\<not> claims_refused cs ex iat (iat + jo_expiresIn options)"
    using claims assms by (simp add: claims_refused_def token_claims_def Let_def)
  ultimately show ?thesis using parts by (simp add: verifyJwt_def)
qed

text \<open>
  C24. The token that the service signs for a result passes every check of the client of the same deployment
  until the result expires: the client has the issuer and the secret of the service and asks for the state,
  the audience and the times of the challenge, the identifier of the token has at least 16 characters, the
  service computes the lifetime at \<open>t\<close> and signs at \<open>t'\<close>, at most 59 seconds later, and the clocks differ by at
  most a minute.
\<close>

theorem issued_token_is_accepted:
  assumes "jwt_documented su" "hf_issuer config = sc_jwtIssuer (ho_config su)" "hf_jwtSecret config = sc_jwtSecret (ho_config su)"
    and "hs_challengeID c = gr_challengeId inp" "hs_state c = JStr (gr_state inp)" "hs_audience c = gr_audience inp"
    and "hs_issuedAt c = gr_issuedAt inp" "hs_expiresAt c = gr_expiresAt inp"
    and "IADDRESS_PATTERN (ck_identityAddress identity)" "16 \<le> length jti"
    and "gr_issuedAt inp - 60000 \<le> t" "t \<le> t'" "t' \<le> t + 59000" "1000 \<le> t'" "gr_expiresAt inp \<le> 2 ^ 53"
    and "e = token_lifetime (ho_config su) c (t div 1000)" "1 \<le> e" "r = new_result su c identity (t div 1000) e jti t'"
    and "t' \<le> gr_now inp + 60000" "gr_now inp < sx_expiresAt r"
  shows "verifyJwt (ho_library su) (sx_token r) (hf_jwtSecret config) (expected_jwt config inp (sx_identityAddress r))
      = Inr (t' div 1000, t' div 1000 + e)"
proof -
  let ?options = "token_options (ho_config su) c e jti" and ?ex = "expected_jwt config inp (sx_identityAddress r)"
  have address: "sx_identityAddress r = ck_identityAddress identity" and expiry: "sx_expiresAt r = (t div 1000 + e) * 1000"
    by (simp_all add: assms(18) new_result_def Let_def)
  have signed: "signs_token (ho_library su) (hf_jwtSecret config) (token_claims c (ej_identityAddress ?ex)) ?options (t' div 1000) (sx_token r)"
    using assms(1,3,5) by (simp add: jwt_documented_def assms(18) new_result_def Let_def expected_jwt_def)
  have e: "e \<le> gr_expiresAt inp div 1000 - t div 1000" using assms(8,16) by (simp add: token_lifetime_def)
  have times: "0 < t' div 1000" "t div 1000 \<le> t' div 1000" "t' div 1000 \<le> t div 1000 + 59 + 1"
    "gr_issuedAt inp div 1000 - 60 \<le> t div 1000" "t' div 1000 \<le> gr_now inp div 1000 + 60"
    using assms(11-14,19) by linarith+
  have below: "x < y * 1000 \<Longrightarrow> x div 1000 < y" for x y :: int by linarith
  have now: "gr_now inp div 1000 < t div 1000 + e" using below assms(20) expiry by metis
  have bound: "gr_expiresAt inp div 1000 + 60 \<le> 9007199254740991" using assms(15) by simp
  have fields: "jo_audience ?options = ej_audience ?ex" "jo_issuer ?options = ej_issuer ?ex" "16 \<le> length (jo_jwtid ?options)"
    "hs_challengeID c = ej_challengeId ?ex" "hs_state c = JStr (ej_state ?ex)" "IADDRESS_PATTERN (ej_identityAddress ?ex)"
    using assms(2,4-6,9,10) address by (simp_all add: expected_jwt_def token_options_def)
  have window: "0 < jo_expiresIn ?options" "t' div 1000 + jo_expiresIn ?options \<le> 9007199254740991"
    "ej_issuedAt ?ex div 1000 - 60 \<le> t' div 1000" "t' div 1000 \<le> ej_now ?ex div 1000 + 60"
    "ej_now ?ex div 1000 < t' div 1000 + jo_expiresIn ?options" "t' div 1000 + jo_expiresIn ?options \<le> ej_expiresAt ?ex div 1000 + 60"
    unfolding expected_jwt_def token_options_def ExpectedJwt.simps jwt_options.simps using assms(17) times now bound e by linarith+
  show ?thesis using signed_token_verifies[OF signed fields times(1) window] by (simp add: token_options_def)
qed

section \<open>Results\<close>


text \<open>
  C25. A stored result is delivered until it is acknowledged: after putResult has stored it, whatever calls
  follow in the order of time, getResult returns it unchanged until it expires as long as no acknowledgement
  of it comes between; the acknowledgement then succeeds, and after it no call brings the result back unless
  a challenge with the same identifier is created.
\<close>

theorem result_delivered_until_acknowledged:
  assumes "redis_laws rc" "redis_ok rc t s" "so_putResult (RedisStore rc) t i r s = (Put_stored, s1)"
    and "times_from t cs t'" "t' < sx_expiresAt r" "\<forall>t0 u. (t0, SC_ack i (sx_proofDigest r) u) \<notin> set cs"
    and "s2 = store_run (RedisStore rc) cs s1" "so_acknowledge (RedisStore rc) t' i (sx_proofDigest r) u s2 = (b, s3)"
    and "times_from t' cs' t''" "\<forall>t0 c. (t0, SC_create c) \<in> set cs' \<longrightarrow> hs_challengeID c \<noteq> i"
  shows "fst (so_getResult (RedisStore rc) t' i s2) = Some r \<and> b
    \<and> fst (so_getResult (RedisStore rc) t'' i (store_run (RedisStore rc) cs' s3)) = None"
proof -
  note store = redis_result_store[OF assms(1)]
  have got: "fst (so_getResult (RedisStore rc) t' i s2) = Some r"
    unfolding assms(7) by (rule result_store.stored_is_delivered[OF store assms(2-6)])
  have ok: "redis_ok rc t' s2"
    unfolding assms(7) by (rule result_store.run_ok[OF store _ assms(4)]) (use result_store.put[OF store assms(2,3) order.refl] in blast)
  have "redis_result rc s2 t' i = Some r" using got result_store.getr[OF store ok surjective_pairing order.refl] by metis
  hence b: b using result_store.ack[OF store ok assms(8) order.refl] by simp
  show ?thesis using got b result_store.acknowledged_stays_gone[OF store ok _ assms(9,10)] assms(8) by simp
qed

section \<open>A library\<close>

text \<open>A printing of values with a reader that works on a stack: a text is its characters, each behind a mark; an
  integer is its absolute value in unary; arrays and objects are their elements between brackets.\<close>

datatype reading = Opened | Partial string | Complete json

fun print_value :: "json \<Rightarrow> string" where
  "print_value JNull = ''n''"
| "print_value (JBool b) = (if b then ''t'' else ''f'')"
| "print_value (JNum (Num r)) = ''#'' @ replicate (nat \<lfloor>r\<rfloor>) (CHR ''i'') @ replicate (nat (- \<lfloor>r\<rfloor>)) (CHR ''d'')"
| "print_value (JNum _) = []"
| "print_value (JStr s) = ''s'' @ concat (map (\<lambda>c. [CHR ''c'', c]) s) @ ''e''"
| "print_value (JArr vs) = ''['' @ concat (map print_value vs) @ '']''"
| "print_value (JObj es) = ''{'' @ concat (map (\<lambda>(k, v). print_value (JStr k) @ print_value v) es) @ ''}''"

fun gather :: "reading list \<Rightarrow> json list \<Rightarrow> (json list \<times> reading list) option" where
  "gather (Complete v # st) acc = gather st (v # acc)"
| "gather (Opened # st) acc = Some (acc, st)"
| "gather _ acc = None"

fun pair_up :: "json list \<Rightarrow> (string \<times> json) list" where
  "pair_up (JStr k # v # r) = (k, v) # pair_up r"
| "pair_up _ = []"

fun add_number :: "rat \<Rightarrow> reading list \<Rightarrow> reading list option" where
  "add_number d (Complete (JNum (Num r)) # st) = Some (Complete (JNum (Num (r + d))) # st)"
| "add_number d _ = None"

fun end_text :: "reading list \<Rightarrow> reading list option" where
  "end_text (Partial b # st) = Some (Complete (JStr b) # st)"
| "end_text _ = None"

fun add_char :: "char \<Rightarrow> reading list \<Rightarrow> reading list option" where
  "add_char c (Partial b # st) = Some (Partial (b @ [c]) # st)"
| "add_char c _ = None"

definition read_mark :: "char \<Rightarrow> reading list \<Rightarrow> reading list option" where
  "read_mark m st =
     (if m = CHR ''n'' then Some (Complete JNull # st) else if m = CHR ''t'' then Some (Complete (JBool True) # st)
      else if m = CHR ''f'' then Some (Complete (JBool False) # st)
      else if m = CHR ''#'' then Some (Complete (JNum (Num 0)) # st)
      else if m = CHR ''i'' then add_number 1 st else if m = CHR ''d'' then add_number (- 1) st
      else if m = CHR ''s'' then Some (Partial [] # st) else if m = CHR ''e'' then end_text st
      else if m = CHR ''['' \<or> m = CHR ''{'' then Some (Opened # st)
      else if m = CHR '']'' then map_option (\<lambda>(vs, st'). Complete (JArr vs) # st') (gather st [])
      else if m = CHR ''}'' then map_option (\<lambda>(vs, st'). Complete (JObj (pair_up vs)) # st') (gather st [])
      else None)"

fun read_text :: "string \<Rightarrow> reading list \<Rightarrow> reading list option" where
  "read_text [] st = Some st"
| "read_text [m] st = read_mark m st"
| "read_text (m # c # r) st =
     (if m = CHR ''c'' then Option.bind (add_char c st) (read_text r) else Option.bind (read_mark m st) (read_text (c # r)))"

lemma read_text_mark: "m \<noteq> CHR ''c'' \<Longrightarrow> read_text (m # r) st = Option.bind (read_mark m st) (read_text r)"
  by (cases r) (auto split: option.splits cong: Option.bind_cong)

lemma read_text_char: "read_text (CHR ''c'' # c # r) (Partial b # st) = read_text r (Partial (b @ [c]) # st)"
  by simp

lemma read_text_chars: "read_text (concat (map (\<lambda>c. [CHR ''c'', c]) s) @ r) (Partial b # st) = read_text r (Partial (b @ s) # st)"
  by (induction s arbitrary: b) auto

lemma read_text_numbers:
  "read_text (replicate n (CHR ''i'') @ r) (Complete (JNum (Num x)) # st) = read_text r (Complete (JNum (Num (x + of_nat n))) # st)"
  "read_text (replicate n (CHR ''d'') @ r) (Complete (JNum (Num x)) # st) = read_text r (Complete (JNum (Num (x - of_nat n))) # st)"
  by (induction n arbitrary: x) (simp_all add: read_text_mark read_mark_def algebra_simps)

function (sequential) integral :: "json \<Rightarrow> bool" where
  "integral (JNum (Num r)) = (of_int \<lfloor>r\<rfloor> = r)"
| "integral (JNum _) = False"
| "integral (JArr xs) = (\<forall>x \<in> set xs. integral x)"
| "integral (JObj es) = (\<forall>e \<in> set es. integral (snd e))"
| "integral v = True"
  by pat_completeness auto

termination
  by (relation "measure size") (auto dest: size_entry_less size_item_less)

lemma gather_values: "gather (map Complete (rev vs) @ Opened # st) acc = Some (vs @ acc, st)"
  by (induction vs arbitrary: acc rule: rev_induct) auto

lemma read_string: "read_text (print_value (JStr s) @ r) st = read_text r (Complete (JStr s) # st)"
  using read_text_chars[of s "''e'' @ r" "[]" st] by (simp add: read_text_mark read_mark_def)

lemma read_values:
  assumes "\<And>v r st. v \<in> set vs \<Longrightarrow> read_text (print_value v @ r) st = read_text r (Complete v # st)"
  shows "read_text (concat (map print_value vs) @ r) st = read_text r (map Complete (rev vs) @ st)"
  using assms by (induction vs arbitrary: st) simp_all

definition flat_entries :: "(string \<times> json) list \<Rightarrow> json list" where
  "flat_entries es = concat (map (\<lambda>(k, v). [JStr k, v]) es)"

lemma pair_up_flat: "pair_up (flat_entries es) = es"
  by (induction es) (auto simp: flat_entries_def)

lemma print_object: "print_value (JObj es) = ''{'' @ concat (map print_value (flat_entries es)) @ ''}''"
proof -
  have "concat (map (\<lambda>(k, v). print_value (JStr k) @ print_value v) es) = concat (map print_value (flat_entries es))"
    by (induction es) (auto simp: flat_entries_def)
  thus ?thesis by (simp only: print_value.simps)
qed

lemma read_integer:
  assumes "of_int \<lfloor>x\<rfloor> = x"
  shows "read_text (print_value (JNum (Num x)) @ r) st = read_text r (Complete (JNum (Num x)) # st)"
proof -
  have "of_nat (nat \<lfloor>x\<rfloor>) - of_nat (nat (- \<lfloor>x\<rfloor>)) = (of_int \<lfloor>x\<rfloor> :: rat)" by (cases "0 \<le> \<lfloor>x\<rfloor>") simp_all
  thus ?thesis using assms by (simp add: read_text_mark read_mark_def read_text_numbers)
qed

lemma read_print: "integral v \<Longrightarrow> read_text (print_value v @ r) st = read_text r (Complete v # st)"
proof (induction v arbitrary: r st rule: integral.induct)
  case (1 x)
  thus ?case using read_integer by simp
next
  case (3 vs)
  have "read_text (concat (map print_value vs) @ '']'' @ r) (Opened # st) = read_text ('']'' @ r) (map Complete (rev vs) @ Opened # st)"
    by (rule read_values) (use 3 in auto)
  thus ?case using gather_values[of vs st "[]"] by (simp add: read_text_mark read_mark_def)
next
  case (4 es)
  have "read_text (concat (map print_value (flat_entries es)) @ ''}'' @ r) (Opened # st)
      = read_text (''}'' @ r) (map Complete (rev (flat_entries es)) @ Opened # st)"
    by (rule read_values) (use 4 read_string in \<open>auto simp: flat_entries_def\<close>)
  thus ?case unfolding print_object using gather_values[of "flat_entries es" st "[]"]
    by (simp add: read_text_mark read_mark_def pair_up_flat)
qed (rule read_string | simp add: read_text_mark read_mark_def)+

fun whole_value :: "reading list \<Rightarrow> json option" where
  "whole_value [Complete v] = Some v"
| "whole_value _ = None"

definition read_value :: "string \<Rightarrow> json option" where
  "read_value text = Option.bind (read_text text []) whole_value"

lemma read_value_print: "integral v \<Longrightarrow> read_value (print_value v) = Some v"
  using read_print[of v "[]" "[]"] by (simp add: read_value_def)

lemma plain_integral: "plain_json v \<Longrightarrow> integral v"
  by (induction v rule: integral.induct) auto

definition sample_hmac :: "string \<Rightarrow> nat list \<Rightarrow> nat list" where
  "sample_hmac secret bytes = [(sum_list bytes + length secret) mod 256]"

definition sample_library :: client_library where
  "sample_library = \<lparr>cl_parseUrl = (\<lambda>_. None), cl_parseJson = read_value, cl_stringify = print_value,
     cl_parseDate = (\<lambda>s. if s = toISOString 70000 then Some 70000 else if s = toISOString 72000 then Some 72000 else None),
     cl_sha = (\<lambda>_. replicate 64 (CHR ''a'')), cl_hmac = sample_hmac\<rparr>"

definition sample_part :: "(string \<times> json) list \<Rightarrow> string" where
  "sample_part es = base64url_encode (utf8_encode (print_value (JObj es)))"

definition sample_header :: string where
  "sample_header = sample_part [(''alg'', JStr ''HS256''), (''typ'', JStr ''JWT'')]"

definition sample_sign :: "string \<Rightarrow> (string \<times> json) list \<Rightarrow> jwt_options \<Rightarrow> int \<Rightarrow> string" where
  "sample_sign secret claims options iat =
     (let body = sample_header @ ''.'' @ sample_part (claims @ [(''iat'', JNum (num iat)), (''exp'', JNum (num (iat + jo_expiresIn options))),
        (''aud'', JStr (jo_audience options)), (''iss'', JStr (jo_issuer options)), (''jti'', JStr (jo_jwtid options))])
      in body @ ''.'' @ base64url_encode (sample_hmac secret (utf8_encode body)))"

lemma no_dot: "\<forall>b \<in> set bs. b < 256 \<Longrightarrow> CHR ''.'' \<notin> set (base64url_encode bs)"
  using base64url_encode_chars[of bs]
  by (auto simp: list_all_iff base64url_char_def is_upper_def is_lower_def is_digit_def code_Char)

lemma decode_encoded: "\<forall>b \<in> set bs. b < 256 \<Longrightarrow> bs \<noteq> [] \<Longrightarrow> decodeBase64Url (base64url_encode bs) = Inr bs"
  by (simp add: decodeBase64Url_def base64url_roundtrip base64url_encode_chars)

lemma utf8_bytes: "\<forall>b \<in> set (utf8_encode s). b < 256"
  using utf8_encode_bytes by blast

lemma parse_sample_part:
  assumes "integral (JObj es)"
  shows "parseBase64UrlJson sample_library (sample_part es) = Inr es"
proof -
  have "utf8_encode (print_value (JObj es)) \<noteq> []" by (simp add: utf8_encode_def utf8_char_def)
  moreover have "cl_parseJson sample_library (print_value (JObj es)) = Some (JObj es)"
    using read_value_print[OF assms] by (simp add: sample_library_def del: print_value.simps)
  ultimately show ?thesis by (simp add: parseBase64UrlJson_def sample_part_def decode_encoded[OF utf8_bytes] del: print_value.simps)
qed

lemma sample_signs_token:
  assumes "plain_json (hs_state c)"
  shows "signs_token sample_library secret (token_claims c a) options iat (sample_sign secret (token_claims c a) options iat)"
proof -
  let ?claims = "token_claims c a @ [(''iat'', JNum (num iat)), (''exp'', JNum (num (iat + jo_expiresIn options))),
        (''aud'', JStr (jo_audience options)), (''iss'', JStr (jo_issuer options)), (''jti'', JStr (jo_jwtid options))]"
  let ?e2 = "sample_part ?claims"
  let ?mac = "sample_hmac secret (utf8_encode (sample_header @ ''.'' @ ?e2))"
  have mac: "\<forall>b \<in> set ?mac. b < 256" "?mac \<noteq> []" by (simp_all add: sample_hmac_def)
  have "integral (JObj ?claims)" using plain_integral[OF assms] by (simp add: token_claims_def num_def)
  hence claims: "parseBase64UrlJson sample_library ?e2 = Inr ?claims" by (rule parse_sample_part)
  have header: "parseBase64UrlJson sample_library sample_header = Inr [(''alg'', JStr ''HS256''), (''typ'', JStr ''JWT'')]"
    unfolding sample_header_def by (rule parse_sample_part) simp
  have dots: "CHR ''.'' \<notin> set (sample_part es)" for es unfolding sample_part_def by (rule no_dot[OF utf8_bytes])
  show ?thesis unfolding signs_token_def
    by (rule exI[of _ sample_header], rule exI[of _ ?e2], rule exI[of _ "base64url_encode ?mac"], rule exI[of _ "[(''alg'', JStr ''HS256''), (''typ'', JStr ''JWT'')]"],
        rule exI[of _ ?claims])
      (use claims header dots no_dot[OF mac(1)] decode_encoded[OF mac] in \<open>simp add: sample_sign_def Let_def field_def token_claims_def
         sample_header_def sample_library_def\<close>)
qed

section \<open>A Redis and an SDK\<close>

type_synonym timed_keys = "string \<rightharpoonup> redis_value \<times> time"

definition sample_redis :: "timed_keys redis_commands" where
  "sample_redis = \<lparr>rd_ping = (\<lambda>s. (Inr True, s)),
     rd_get = (\<lambda>t k s. case s k of None \<Rightarrow> None | Some (v, e) \<Rightarrow> if t < e then Some v else None),
     rd_set = (\<lambda>t k v ttl s. s(k \<mapsto> (v, t + ttl))), rd_del = (\<lambda>k s. s(k := None))\<rparr>"

lemma sample_redis_laws: "redis_laws sample_redis"
  by (auto simp: redis_laws_def sample_redis_def split: option.splits if_splits)

definition sample_request_id :: string where "sample_request_id = ''i7LaXD2cdy1zeh33eHzZaEPyueT4yQmBfW''"

definition sample_user :: string where "sample_user = ''iJhCezBExJHvtyH3fGhNnt2NhU4Ztkf2yq''"

definition sample_session :: string where "sample_session = replicate 32 (CHR ''s'')"

definition hosted_config :: service_config where
  "hosted_config = \<lparr>sc_chain = ''vrsctest'', sc_chainId = ''chain'', sc_signingIdentity = ''signer'', sc_callbackUrl = ''callback'',
     sc_contractVersion = CONTRACT_VERSION, sc_jwtIssuer = ''issuer'', sc_jwtSecret = ''jwt'', sc_clientSecret = ''client'',
     sc_allowedAudiences = [''app''], sc_rpcUrl = ''rpc'', sc_serviceVersion = ''1'', sc_serviceSourceRevision = ''r'', sc_imageDigest = ''i'',
     sc_sdkCommit = ''c'', sc_primitivesCommit = ''c'', sc_rpcClientCommit = ''c'', sc_bitgoCommit = ''c'', sc_daemonVersion = ''1'',
     sc_challengeLifetimeMs = 300000, sc_resultTokenMaxLifetimeSeconds = 300\<rparr>"

definition hosted_callback :: verified_callback where
  "hosted_callback = \<lparr>vc_challengeID = sample_request_id, vc_decisionID = sample_request_id, vc_identityAddress = sample_user,
     vc_responseSystemID = ''chain'', vc_requestSystemID = ''chain'', vc_requestSigningIdentity = ''signer'',
     vc_requestObjectDigest = replicate 64 (CHR ''b''), vc_decisionCreatedAt = num 70, vc_identity = JNull\<rparr>"

definition hosted_verus :: "unit verus_ops" where
  "hosted_verus = \<lparr>vx_preflight = returnE True,
     vx_createChallenge = (\<lambda>inp. returnE \<lparr>pr_challengeID = sample_request_id, pr_deepLink = ''link'',
       pr_requestObjectDigest = replicate 64 (CHR ''b'')\<rparr>),
     vx_verifyCallback = (\<lambda>es. returnE hosted_callback),
     vx_checkIdentity = (\<lambda>a v. returnE \<lparr>ck_identityAddress = a, ck_displayName = None\<rparr>)\<rparr>"

definition sample_hosted :: "(timed_keys, unit) hosted_setup" where
  "sample_hosted = \<lparr>ho_config = hosted_config, ho_store = RedisStore sample_redis, ho_verus = hosted_verus, ho_library = sample_library,
     ho_clock = (\<lambda>_. 70000), ho_uuid = (\<lambda>_. replicate 36 (CHR ''u'')), ho_jwtSign = sample_sign, ho_admit = (\<lambda>_ x. (True, x))\<rparr>"

definition hosted_start :: "(timed_keys, unit) hosted_world" where
  "hosted_start = \<lparr>hw_store = (\<lambda>_. None), hw_outside = (), hw_clock = 0, hw_ids = 0\<rparr>"

definition sample_link_config :: HostedAuthClientConfig where
  "sample_link_config = \<lparr>hf_baseUrl = ''https://auth'', hf_contractVersion = CONTRACT_VERSION, hf_serviceVersion = ''1'',
     hf_serviceSourceRevision = ''r'', hf_imageDigest = ''i'', hf_sdkCommit = ''c'', hf_primitivesCommit = ''c'', hf_rpcClientCommit = ''c'',
     hf_bitgoCommit = ''c'', hf_daemonVersion = ''1'', hf_applicationIdentityAddress = ''signer'', hf_callbackUrl = ''callback'',
     hf_issuer = ''issuer'', hf_clientSecret = ''client'', hf_jwtSecret = ''jwt'', hf_timeoutMs = None\<rparr>"

definition sample_http_client :: "(timed_keys, unit) hosted_world hosted_http_client" where
  "sample_http_client = \<lparr>hx_config = sample_link_config, hx_library = sample_library, hx_fetch = service_fetch sample_hosted,
     hx_timeoutMs = 8000\<rparr>"

definition hosted_ask :: GetHostedResultInput where
  "hosted_ask = \<lparr>gr_challengeId = sample_request_id, gr_state = sample_session, gr_audience = ''app'', gr_issuedAt = 70000,
     gr_expiresAt = 72000, gr_now = 70000\<rparr>"

text \<open>The request of the challenge and the response of the wallet, as they arrive at the service.\<close>

definition challenge_arrives :: http_request where
  "challenge_arrives = \<lparr>rq_method = ''POST'', rq_base = ''https://auth'', rq_path = ''/api/auth/verusid/challenge'',
     rq_body = Some (print_value (challenge_body \<lparr>hc_state = sample_session, hc_audience = ''app'', hc_purpose = Link_verusid,
       hc_issuedAt = 70000, hc_expiresAt = 72000\<rparr>)), rq_redirect = ''error'', rq_timeoutMs = 8000,
     rq_headers = [(''content-type'', ''application/json''), (''authorization'', ''Bearer client''), (''x-cbc-auth-contract-version'', CONTRACT_VERSION)]\<rparr>"

definition callback_arrives :: http_request where
  "callback_arrives = \<lparr>rq_method = ''POST'', rq_base = ''https://auth'', rq_path = ''/verusidlogin'',
     rq_body = Some (print_value (JObj [])), rq_redirect = ''error'', rq_timeoutMs = 8000,
     rq_headers = [(''content-type'', ''application/json'')]\<rparr>"

definition hosted_input :: validated_input where
  "hosted_input = \<lparr>cn_state = JStr sample_session, cn_audience = ''app'', cn_purpose = Link_verusid, cn_issuedAt = 70000, cn_expiresAt = 72000\<rparr>"

definition hosted_sample_challenge :: hosted_challenge where
  "hosted_sample_challenge = new_hosted_challenge sample_hosted hosted_input
     \<lparr>pr_challengeID = sample_request_id, pr_deepLink = ''link'', pr_requestObjectDigest = replicate 64 (CHR ''b'')\<rparr>"

definition hosted_sample_result :: stored_result where
  "hosted_sample_result = new_result sample_hosted hosted_sample_challenge \<lparr>ck_identityAddress = sample_user, ck_displayName = None\<rparr> 70 2
     (replicate 36 (CHR ''u'')) 70000"

lemmas sample_hosted_defs = sample_hosted_def hosted_config_def hosted_verus_def sample_link_config_def hosted_ask_def
  hosted_input_def hosted_sample_challenge_def new_hosted_challenge_def

lemma sample_documented: "jwt_documented sample_hosted" "json_documented sample_library"
  using sample_signs_token plain_integral read_value_print
  by (simp_all add: jwt_documented_def json_documented_def sample_hosted_def) (simp add: sample_library_def)

lemma sample_addresses: "IADDRESS_PATTERN sample_user" "IADDRESS_PATTERN sample_request_id"
  by code_simp+

theorem issued_token_is_accepted_witness:
  "verifyJwt sample_library (sx_token hosted_sample_result) ''jwt'' (expected_jwt sample_link_config hosted_ask sample_user) = Inr (70, 72)"
proof -
  have "verifyJwt (ho_library sample_hosted) (sx_token hosted_sample_result) (hf_jwtSecret sample_link_config)
      (expected_jwt sample_link_config hosted_ask (sx_identityAddress hosted_sample_result)) = Inr (70000 div 1000, 70000 div 1000 + 2)"
    by (rule issued_token_is_accepted[OF sample_documented(1), where c = hosted_sample_challenge and t = 70000 and t' = 70000
          and identity = "\<lparr>ck_identityAddress = sample_user, ck_displayName = None\<rparr>" and jti = "replicate 36 (CHR ''u'')"])
      (simp_all add: sample_hosted_defs sample_addresses token_lifetime_def hosted_sample_result_def new_result_def Let_def)
  thus ?thesis by (simp add: sample_hosted_defs hosted_sample_result_def new_result_def Let_def)
qed

section \<open>A challenge and its answer\<close>

lemma sample_times: "toISOString 72000 \<noteq> toISOString 70000" by code_simp

lemma sample_input_read:
  "validateChallengeInput sample_library (Some (challenge_body \<lparr>hc_state = sample_session, hc_audience = ''app'', hc_purpose = Link_verusid,
     hc_issuedAt = 70000, hc_expiresAt = 72000\<rparr>)) hosted_config 70000 = Inr hosted_input"
proof -
  let ?es = "[(''state'', JStr sample_session), (''audience'', JStr ''app''), (''purpose'', JStr ''link_verusid''),
      (''issuedAt'', JStr (toISOString 70000)), (''expiresAt'', JStr (toISOString 72000)), (''requestedAccess'', JArr [JStr ''identity_view''])]"
  have body: "challenge_body \<lparr>hc_state = sample_session, hc_audience = ''app'', hc_purpose = Link_verusid, hc_issuedAt = 70000, hc_expiresAt = 72000\<rparr> = JObj ?es"
    by (simp add: challenge_body_def)
  have keys: "sort (map fst ?es) = sort [''audience'', ''expiresAt'', ''issuedAt'', ''purpose'', ''requestedAccess'', ''state'']"
    by (simp only: list.map fst_conv) code_simp
  have fields: "binding_fields ?es = Some (JStr sample_session, ''app'', ''link_verusid'', [JStr ''identity_view''])"
    "field ?es ''issuedAt'' = Some (JStr (toISOString 70000))" "field ?es ''expiresAt'' = Some (JStr (toISOString 72000))"
    by (simp_all add: binding_fields_def field_def)
  have times: "parseIso sample_library (Some (JStr (toISOString 70000))) = Inr 70000" "parseIso sample_library (Some (JStr (toISOString 72000))) = Inr 72000"
    using sample_times by (simp_all add: parseIso_def sample_library_def)
  have "map_of PURPOSES ''link_verusid'' = Some Link_verusid" by (simp add: PURPOSES_def)
  moreover have "STATE_PATTERN sample_session" by code_simp
  moreover have "map JStr REQUESTED_ACCESS = [JStr ''identity_view'']" by (simp add: REQUESTED_ACCESS_def)
  ultimately show ?thesis unfolding validateChallengeInput_def body
    by (simp add: keys fields times hosted_config_def hosted_input_def del: sort_key_simps list.map map_of.simps)
qed

lemma utf8_length: "length (utf8_encode s) \<le> 2 * length s"
  by (induction s) (auto simp: utf8_encode_def utf8_char_def)

lemma sample_digests: "is_digest (replicate 64 (CHR ''b''))" "length (utf8_encode ''link'') \<le> MAX_DEEP_LINK_BYTES"
  by code_simp+

lemma sample_parts [simp]:
  "ho_config sample_hosted = hosted_config" "ho_store sample_hosted = RedisStore sample_redis" "ho_verus sample_hosted = hosted_verus"
  "ho_library sample_hosted = sample_library" "ho_clock sample_hosted n = 70000" "ho_uuid sample_hosted n = replicate 36 (CHR ''u'')"
  "ho_admit sample_hosted l x = (True, x)" "cl_parseJson sample_library = read_value" "cl_stringify sample_library = print_value"
  by (simp_all add: sample_hosted_def sample_library_def)

lemma sample_challenge_parts [simp]:
  "hs_challengeID hosted_sample_challenge = sample_request_id" "hs_expiresAt hosted_sample_challenge = 72000"
  by (simp_all add: hosted_sample_challenge_def new_hosted_challenge_def hosted_input_def)

definition with_challenge :: timed_keys where
  "with_challenge = [redis_key ''challenge'' sample_request_id \<mapsto> (Stored_challenge hosted_sample_challenge, 72000)]"

definition with_result :: timed_keys where
  "with_result = with_challenge(redis_key ''result'' sample_request_id \<mapsto> (Stored_result hosted_sample_result, 72000))"

definition challenge_stored :: "(timed_keys, unit) hosted_world" where
  "challenge_stored = hosted_start\<lparr>hw_store := with_challenge, hw_clock := 2\<rparr>"

definition result_stored :: "(timed_keys, unit) hosted_world" where
  "result_stored = challenge_stored\<lparr>hw_store := with_result, hw_clock := 8, hw_ids := 1\<rparr>"

lemma sample_result_parts [simp]: "sx_expiresAt hosted_sample_result = 72000" "sx_identityAddress hosted_sample_result = sample_user"
    "sx_displayName hosted_sample_result = None"
  by (simp_all add: hosted_sample_result_def new_result_def Let_def safeDisplayName_def)

text \<open>The steps of the store.\<close>

lemma sample_store_steps:
  "so_createChallenge (RedisStore sample_redis) 70000 hosted_sample_challenge (\<lambda>_. None) = (True, with_challenge)"
  "so_getChallenge (RedisStore sample_redis) 70000 sample_request_id with_challenge = (Some hosted_sample_challenge, with_challenge)"
  "so_getResult (RedisStore sample_redis) 70000 sample_request_id with_challenge = (None, with_challenge)"
  "so_putResult (RedisStore sample_redis) 70000 sample_request_id hosted_sample_result with_challenge = (Put_stored, with_result)"
  "so_getResult (RedisStore sample_redis) 70000 sample_request_id with_result = (Some hosted_sample_result, with_result)"
  by (simp_all add: RedisStore_def redis_createChallenge_def redis_getChallenge_def redis_getResult_def redis_putResult_def
    sample_redis_def with_challenge_def with_result_def Let_def)

lemmas handler_steps = bindE_def admitted_by_def read_clock_def inVerus_def next_uuid_def onStore_def requireE_def returnE_def Let_def

lemma challenge_arrives_read: "read_value (print_value (challenge_body inp)) = Some (challenge_body inp)"
  by (simp add: challenge_body_def read_value_print del: print_value.simps)

lemma challenge_body_short: "length (utf8_encode (print_value (challenge_body \<lparr>hc_state = sample_session, hc_audience = ''app'',
    hc_purpose = Link_verusid, hc_issuedAt = 70000, hc_expiresAt = 72000\<rparr>))) \<le> BODY_LIMIT"
proof -
  have "length (toISOString 70000) = 24" "length (toISOString 72000) = 24" by code_simp+
  hence "length (print_value (challenge_body \<lparr>hc_state = sample_session, hc_audience = ''app'',
    hc_purpose = Link_verusid, hc_issuedAt = 70000, hc_expiresAt = 72000\<rparr>)) \<le> 1000"
    by (simp add: challenge_body_def sample_session_def length_concat comp_def sum_list_triv sum_list_replicate)
  thus ?thesis using utf8_length[of "print_value (challenge_body \<lparr>hc_state = sample_session, hc_audience = ''app'',
    hc_purpose = Link_verusid, hc_issuedAt = 70000, hc_expiresAt = 72000\<rparr>)"] by (simp add: BODY_LIMIT_def)
qed

lemma challenge_kept: "snd (service_fetch sample_hosted challenge_arrives hosted_start) = challenge_stored"
proof -
  let ?b = "challenge_body \<lparr>hc_state = sample_session, hc_audience = ''app'', hc_purpose = Link_verusid, hc_issuedAt = 70000, hc_expiresAt = 72000\<rparr>"
  let ?q = "received challenge_arrives (Some ?b)"
  have "\<exists>es. ?b = JObj es" by (simp add: challenge_body_def)
  moreover have "print_value ?b \<noteq> []" by (simp add: challenge_body_def)
  ultimately have "read_body sample_library challenge_arrives = Inr (Some ?b)"
    using challenge_body_short by (auto simp: read_body_def challenge_arrives_def challenge_arrives_read)
  hence serve: "serve sample_hosted challenge_arrives = post_challenge sample_hosted ?q"
    by (simp add: serve_def route_def challenge_arrives_def)
  have q: "sq_body ?q = Some ?b" "sq_version ?q = Some CONTRACT_VERSION" "sq_authorization ?q = Some ''Bearer client''"
    by (simp_all add: received_def challenge_arrives_def)
  have auth: "requireServiceAuth sample_hosted ?q w = (Inr (), w)" for w
    by (simp add: requireServiceAuth_def q default_def constantTimeEqual_def hosted_config_def requireE_def returnE_def)
  have "post_challenge sample_hosted ?q hosted_start = (Inr (challenge_response hosted_config ''link'' hosted_sample_challenge), challenge_stored)"
    using sample_input_read sample_digests sample_addresses(2)
    by (simp add: post_challenge_def allocate_challenge_def handler_steps auth q hosted_start_def challenge_stored_def hosted_verus_def
      sample_store_steps flip: hosted_sample_challenge_def)
  thus ?thesis by (simp add: service_fetch_def serve respond_def)
qed

lemma result_kept: "snd (service_fetch sample_hosted callback_arrives challenge_stored) = result_stored"
proof -
  let ?q = "received callback_arrives (Some (JObj []))"
  have "read_body sample_library callback_arrives = Inr (Some (JObj []))"
    using read_value_print[of "JObj []"] by (simp add: read_body_def callback_arrives_def BODY_LIMIT_def utf8_encode_def utf8_char_def code_Char)
  hence serve: "serve sample_hosted callback_arrives = post_callback sample_hosted ?q"
    by (simp add: serve_def route_def callback_arrives_def)
  have q: "sq_body ?q = Some (JObj [])" by (simp add: received_def)
  have fits: "\<not> decision_mismatch hosted_config hosted_sample_challenge hosted_callback"
    using sample_addresses(1)
    by (simp add: decision_mismatch_def hosted_config_def hosted_callback_def num_def isSafeInteger_def isInteger_iff)
      (simp add: hosted_sample_challenge_def new_hosted_challenge_def hosted_input_def hosted_config_def num_def)
  have new: "new_result sample_hosted hosted_sample_challenge \<lparr>ck_identityAddress = sample_user, ck_displayName = None\<rparr> 70 2
     (replicate 36 (CHR ''u'')) 70000 = hosted_sample_result" by (simp add: hosted_sample_result_def)
  have ids: "vc_challengeID hosted_callback = sample_request_id" "vc_identityAddress hosted_callback = sample_user"
    "sc_resultTokenMaxLifetimeSeconds hosted_config = 300" by (simp_all add: hosted_callback_def hosted_config_def)
  have "post_callback sample_hosted ?q challenge_stored = (Inr ok_response, result_stored)"
    using fits sample_addresses
    by (simp add: post_callback_def match_challenge_def answer_challenge_def issue_result_def handler_steps q challenge_stored_def
      hosted_start_def result_stored_def hosted_verus_def sample_store_steps new token_lifetime_def ids)
  thus ?thesis by (simp add: service_fetch_def serve respond_def)
qed

section \<open>The client reads the result\<close>

lemma base64url_length: "length (base64url_encode bs) \<le> 2 * length bs"
  by (induction bs rule: base64url_encode.induct) auto

lemma part_length: "length (sample_part es) \<le> 4 * length (print_value (JObj es))"
  using base64url_length[of "utf8_encode (print_value (JObj es))"] utf8_length[of "print_value (JObj es)"]
  by (simp add: sample_part_def del: print_value.simps)

lemma text_length: "length (print_value (JStr s)) = 2 * length s + 2"
  by (induction s) auto

lemma plain_token_char: "base64url_char c \<Longrightarrow> \<not> (code c \<le> 31 \<or> code c = 127)"
  by (auto simp: base64url_char_def is_upper_def is_lower_def is_digit_def code_Char)

definition sample_token :: string where "sample_token = sx_token hosted_sample_result"

definition sample_claims :: "(string \<times> json) list" where
  "sample_claims = [(''challengeID'', JStr sample_request_id), (''state'', JStr sample_session), (''idLoggedIn'', JStr sample_user),
     (''iat'', JNum (num 70)), (''exp'', JNum (num 72)), (''aud'', JStr ''app''), (''iss'', JStr ''issuer''), (''jti'', JStr (replicate 36 (CHR ''u'')))]"

lemma sample_token_eq:
  "sample_token = sample_header @ ''.'' @ sample_part sample_claims @ ''.''
     @ base64url_encode (sample_hmac ''jwt'' (utf8_encode (sample_header @ ''.'' @ sample_part sample_claims)))"
  by (simp add: sample_token_def sample_claims_def hosted_sample_result_def new_result_def Let_def sample_sign_def token_claims_def
    token_options_def sample_hosted_defs)

lemma sample_token_plain: "\<not> hasControlCharacter sample_token"
proof -
  have part: "list_all base64url_char (sample_part es)" for es unfolding sample_part_def by (rule base64url_encode_chars[OF utf8_bytes])
  have mac: "list_all base64url_char (base64url_encode (sample_hmac k bs))" for k bs by (rule base64url_encode_chars) (simp add: sample_hmac_def)
  have "c = CHR ''.'' \<or> base64url_char c" if "c \<in> set sample_token" for c
    using that part mac unfolding sample_token_eq sample_header_def by (auto simp: list_all_iff)
  moreover have "code (CHR ''.'') = 46" by code_simp
  ultimately have "\<not> (code c \<le> 31 \<or> code c = 127)" if "c \<in> set sample_token" for c
    using that plain_token_char[of c] by (cases "c = CHR ''.''") auto
  thus ?thesis by (auto simp: hasControlCharacter_def list_ex_iff)
qed

lemma sample_token_length: "length sample_token \<le> 6000" "sample_token \<noteq> []"
proof -
  have "length (print_value (JObj sample_claims)) \<le> 1000"
    by (simp add: sample_claims_def sample_request_id_def sample_session_def sample_user_def num_def text_length sum_list_replicate length_concat comp_def map_replicate_const)
  hence claims: "length (sample_part sample_claims) \<le> 4000" using part_length[of sample_claims] by linarith
  have "length (print_value (JObj [(''alg'', JStr ''HS256''), (''typ'', JStr ''JWT'')])) \<le> 100" by simp
  hence header: "length sample_header \<le> 400" unfolding sample_header_def
    by (intro order.trans[OF part_length]) linarith
  have mac: "length (base64url_encode (sample_hmac k bs)) \<le> 2" for k bs using base64url_length[of "sample_hmac k bs"] by (simp add: sample_hmac_def)
  show "length sample_token \<le> 6000" unfolding sample_token_eq length_append using claims header mac[of "''jwt''"]
    by (intro order.trans[OF add_mono[OF header add_mono[OF _ add_mono[OF claims add_mono[OF _ mac]]]]]) auto
  show "sample_token \<noteq> []" by (simp add: sample_token_eq)
qed

lemma sample_answer_read:
  defines "answer \<equiv> delivered sample_library (result_response (Some hosted_sample_result))"
  shows "rs_status answer = 200" "readJson sample_library answer = Inr [(''success'', JBool True), (''JWT'', JStr sample_token), (''iaddress'', JStr sample_user)]"
proof -
  let ?v = "JObj [(''success'', JBool True), (''JWT'', JStr sample_token), (''iaddress'', JStr sample_user)]"
  have answer: "answer = \<lparr>rs_status = 200, rs_length = num (int (length (utf8_encode (print_value ?v)))), rs_text = Inr (print_value ?v)\<rparr>"
    by (simp add: answer_def delivered_def result_response_def json_response_def sample_token_def Let_def del: print_value.simps)
  show "rs_status answer = 200" by (simp add: answer)
  have "length (print_value ?v) \<le> 16000" using sample_token_length(1) by (simp add: text_length sample_user_def length_concat comp_def sum_list_triv)
  hence "length (utf8_encode (print_value ?v)) \<le> MAX_JSON_BYTES" using utf8_length[of "print_value ?v"] by (simp add: MAX_JSON_BYTES_def del: print_value.simps)
  moreover have "read_value (print_value ?v) = Some ?v" by (rule read_value_print) simp
  ultimately show "readJson sample_library answer = Inr [(''success'', JBool True), (''JWT'', JStr sample_token), (''iaddress'', JStr sample_user)]"
    by (simp add: readJson_def answer num_def del: print_value.simps)
qed

lemma sample_token_verifies:
  "verifyJwt sample_library sample_token ''jwt'' (expected_jwt sample_link_config hosted_ask sample_user) = Inr (70, 72)"
proof -
  let ?ex = "expected_jwt sample_link_config hosted_ask sample_user" and ?options = "token_options hosted_config hosted_sample_challenge 2 (replicate 36 (CHR ''u''))"
  have "sample_token = sample_sign ''jwt'' (token_claims hosted_sample_challenge sample_user) ?options 70"
    by (simp add: sample_token_def hosted_sample_result_def new_result_def Let_def) (simp add: sample_hosted_def hosted_config_def)
  moreover have "plain_json (hs_state hosted_sample_challenge)" by (simp add: sample_hosted_defs)
  ultimately have signed: "signs_token sample_library ''jwt'' (token_claims hosted_sample_challenge (ej_identityAddress ?ex)) ?options 70 sample_token"
    using sample_signs_token[of hosted_sample_challenge "''jwt''" sample_user ?options 70] by (simp add: expected_jwt_def)
  show ?thesis using signed_token_verifies[OF signed] sample_addresses
    by (simp add: expected_jwt_def token_options_def sample_hosted_defs)
qed

lemma sample_result_read:
  "read_result sample_link_config sample_library hosted_ask [(''success'', JBool True), (''JWT'', JStr sample_token), (''iaddress'', JStr sample_user)]
     = Inr (Verified \<lparr>vh_identityAddress = sample_user, vh_displayNameSnapshot = None, vh_proofDigest = cl_sha sample_library (utf8_encode sample_token),
         vh_tokenIssuedAt = 70000, vh_tokenExpiresAt = 72000\<rparr>)"
proof -
  have "length (utf8_encode sample_token) \<le> MAX_TOKEN_BYTES" using utf8_length[of sample_token] sample_token_length(1) by (simp add: MAX_TOKEN_BYTES_def)
  moreover have "length (utf8_encode sample_user) \<le> 64 \<and> \<not> hasControlCharacter sample_user \<and> sample_user \<noteq> []" by code_simp
  moreover have "hf_jwtSecret sample_link_config = ''jwt''" by (simp add: sample_link_config_def)
  ultimately show ?thesis using sample_token_plain sample_token_length(2) sample_token_verifies
    by (simp add: read_result_def field_def stringValue_def optionalStringValue_def)
qed


theorem result_delivered_until_acknowledged_witness:
  "fst (so_getResult (RedisStore sample_redis) 71000 sample_request_id with_result) = Some hosted_sample_result
   \<and> fst (so_getResult (RedisStore sample_redis) 71500 sample_request_id
       (snd (so_acknowledge (RedisStore sample_redis) 71000 sample_request_id (sx_proofDigest hosted_sample_result) 80000 with_result))) = None"
proof -
  have ok: "redis_ok sample_redis 70000 with_challenge"
    by (auto simp: redis_ok_def sample_redis_def with_challenge_def split: if_splits)
  show ?thesis
    using result_delivered_until_acknowledged[OF sample_redis_laws ok sample_store_steps(4), where cs = "[(70500, SC_ping)]" and t' = 71000
        and cs' = "[(71000, SC_result sample_request_id)]" and t'' = 71500, OF _ _ _ refl surjective_pairing]
    by (simp add: RedisStore_def sample_redis_def redis_getResult_def)
qed

end
