(* ===== verification/Spec2Isabelle.thy ===== *)
theory Spec2Isabelle
  imports Resubmission Domain_Replay Tenant_Isolation Attestation_Status Lifecycle_Properties Lifecycle_Bounds
    Auth_Access Link_Poll Hosted_Properties
begin

text \<open>
  Verification of the checks-and-balances application: committees verify that participants are unique
  persons, issue attestations that are valid for at most 45 days, and anchor digests of what they did on
  the Verus test network.

  \<^bold>\<open>The program and its parts.\<close>  The domain package (packages/domain/src) has pure functions: ten lifecycles
  that all go through one transition function, the validity and status of an attestation, the public
  projection and the eligibility of a reviewer.  The repositories (packages/db/src) apply these functions to
  the rows of a PostgreSQL database in serializable transactions; every command leaves an idempotency
  record, an audit event chained by hashes and an outbox event.  The worker (apps/worker/src) claims outbox
  events under a lease and carries a Verus job through preflight, submission, confirmation and read-back
  with the functions of packages/verus/src, which also build the canonical payload that may be written.
  The authentication package (packages/auth/src) decides who may act: sessions, one-time challenges, sign-in
  and recovery by email, passkeys, rate limits, consents and the authorization policy, over a repository of
  its own in packages/db/src.  The linking package (packages/verus-linking/src) ties a VerusID to an account
  in a ceremony with a hosted identity service, over another repository of packages/db/src.  The hosted
  service (services/verusid/src) issues a challenge for a wallet, has the Verus SDK verify the answer of the
  wallet, signs a token for the result and keeps it until the link service has acknowledged it.

  \<^bold>\<open>Theories and what they model.\<close>
  \<^item> Prelude: words of the source language that are used everywhere (JavaScript numbers, dates, truthiness of
    strings, patterns), results as sums, tables as lists of rows with select, update and unique insert.
  \<^item> Transition, Lifecycles, Support_Lifecycles: transition.ts and the ten lifecycle modules.  The locale
    \<open>lifecycle\<close> is the interface they share; each module is an interpretation of it.  The triggers of the
    database that repeat the machines are compared with them.  Lifecycle_Bounds: which machines end.
  \<^item> Attestation: attestation.ts, public-projection.ts, reviewer-eligibility.ts.
  \<^item> Json, Canonical_Content: JSON values and UTF-8, and canonical-content.ts and errors.ts.
  \<^item> Transaction, Repository: the retry loop of serializable transactions as a locale-free monad of bodies with
    rules for invariants (\<open>keeps\<close>) and frames (\<open>untouched\<close>); the tables of the database as the record
    \<open>database\<close>, repository-types.ts, audit.ts with the trigger that computes the hashes, and the insertion of
    outbox events.
  \<^item> Outbox, Outbox_Leases: outbox-repository.ts.  Verus_Jobs, Verus_Job_Invariant, Verus_Job_Properties:
    verus-job-repository.ts with the constraints and triggers of verus_job and anchor_record.
  \<^item> Verus_Node: types.ts, preflight.ts and reconciliation.ts over an adapter that is a parameter.
    Verus_Worker, Worker_Properties, Resubmission: verus-worker.ts and verus-metrics.ts.
  \<^item> Idempotency: the idempotency records of the domain repositories.  Verification_Repository,
    Attestation_Repository: verification-repository.ts and attestation-repository.ts.  Attestation_Invariant,
    Domain_Steps, Domain_Properties, Domain_Replay, Tenant_Isolation, Attestation_Status: the invariant that
    ties attestations to requests, the steps of every operation, and what holds over every history of both
    repositories.
  \<^item> Lifecycle_Repository, Lifecycle_Properties: lifecycle-repository.ts, one generic transition for eight tables.
  \<^item> Effect: computations that commit each step at once, for code outside transactions (the worker and the
    services).  Authorization: authorization.ts and errors.ts.  Auth_Tables, Auth_Repository: the tables of
    the authentication migration and auth-repository.ts.  Auth_Services: the services of packages/auth/src.
    Auth_Invariant: the steps of the store and the locale \<open>auth_invariant\<close>, the interface of a predicate that
    every step keeps; Auth_Reachable, Auth_Sessions, Auth_Recovery, Auth_Access: its instances and what holds
    over every history of the store.
  \<^item> Link_Repository: verus-link-repository.ts with the tables of the link migration, on top of the
    authentication store.  Link_Steps: these tables as a state machine with its invariant; Link_Refinement:
    every call is a step of it; Link_Example, Link_Properties: what holds over every history of calls.
    Link_Service: service.ts of packages/verus-linking over the interface of the hosted client;
    Link_Poll: what a poll proves before it changes a link.
  \<^item> Base64url: base64url, splitting and encodeURIComponent.  Hosted_Client: hosted-auth-client.ts, the client of
    the hosted service.  Hosted_Store: store.js with both stores; Hosted_Delivery: the locale \<open>result_store\<close>, what
    they promise about challenges and results, and that both keep it.  Hosted_Service: app.js, contract.js and
    the check of an identity of verus-verify.js.  Hosted_Exchange: the routes as the transport of the client
    and the invariant of the service over every history of requests; Hosted_Properties: what client and
    service guarantee together.

  \<^bold>\<open>How code corresponds to definitions.\<close>  An operation of a repository is a function from its input and a
  database to a result and a database; a body of a transaction returns an error or a value with the new
  database, and a transaction that fails leaves the database as it was.  An error class of the source is a
  constructor of \<open>repo_error\<close>, an SQLSTATE the constructor \<open>DatabaseError\<close>.  A SELECT takes the first row
  that fits, an UPDATE changes the rows that fit and returns them, an INSERT checks the unique indexes.  The
  CHECK constraints and the triggers on the columns in the model are part of the updates.  Version columns
  and times are integers, times in milliseconds.  Strings are sequences of characters up to 255, so that
  UTF-8 and the JSON text are computed exactly for them.

  \<^bold>\<open>Parameters.\<close>  SHA-256, randomUUID, the text PostgreSQL gives an audit row and the clock of the database
  are the fields of \<open>services\<close>; a theorem that depends on one of them says so (a collision of the hash, the
  freshness of identifiers).  The node of the Verus network is the record \<open>VerusRpcAdapter\<close> of functions on
  an arbitrary state.  JSON.stringify of an authorization decision is an argument, because it depends on the
  order in which the caller built the object.  The number printer of the source is an argument of the
  canonical text.  The record \<open>environment\<close> has what the authentication services take from outside: HMAC,
  random tokens, identifiers, the normal form of an email address, the sink for notifications and the
  functions of the WebAuthn package.  The link service takes the client of the hosted identity service and
  HMAC in base64url from the record \<open>link_setup\<close>.  Its HTTP client takes URL, JSON, dates of texts and hashes
  from the record \<open>client_library\<close> and fetch as a function; the hosted service takes the adapter of the Verus
  SDK, jsonwebtoken, the rate limiter and the clock from the record \<open>hosted_setup\<close> and the commands of Redis from
  \<open>redis_commands\<close>.  What is documented of them is \<open>json_documented\<close>, \<open>jwt_documented\<close> and \<open>redis_laws\<close>.

  \<^bold>\<open>What the lemmas show.\<close>  For the domain package: which command sequences reach which state, which states
  are final, how long a lifecycle can run, when an attestation is active.  For the payloads: an accepted
  payload has only allowed fields, no prohibited field at any depth and a bounded size, and its text
  identifies its value.  For the repositories: all-or-nothing transactions, tamper evidence of the audit
  chain, exclusive leases and complete attempt histories, one active attestation for a participant in a
  committee, agreement of attestations and requests, isolation of committees, answers to repeated commands,
  evidence of the later states of the lifecycles.  For the worker: it writes only approved content to
  approved targets, its runs are sequences of complete store operations, a marked submission is never
  repeated, and what it reports is in the database.  For the authentication: ended sessions and revoked
  passkeys are never accepted again, a challenge is used once, the limits hold, a request by email does not
  tell whether an account exists, privileged actions need two people, and so does the access to a committee.
  For the links: every link comes from one ceremony of its account that was completed before it expired, for
  an identity that the hosted service verified and the node reports as active.  For the hosted service: what
  the client accepts as verified was verified for its own challenge and session, a token that is issued is
  accepted, and a result is delivered until it is acknowledged.
  The theorems on \<open>answered_challenge_is_only_consumed\<close>,
  \<open>issuance_needs_first_or_active\<close>, \<open>superseded_status_returns\<close>, \<open>later_failure_loses_the_mark\<close>,
  \<open>export_is_for_the_owner_only\<close>, \<open>old_links_outlive_email_change\<close>, \<open>activation_overrides_suspension\<close> and
  \<open>ceremony_outlives_revalidation\<close> state
  behaviour that the code probably does not intend.

  \<^bold>\<open>Bounds and fuel.\<close>  No definition takes fuel: the retry loop ends after three attempts, the other loops of
  the source run over finite lists.

  \<^bold>\<open>Not modelled.\<close>  Foreign keys other than the one to policy_version (the operations take the identifiers
  from rows they have read), the uniqueness of audit identifiers, row locks (a transaction is one step;
  interleavings are sequences of transactions), the 32-bit range of version columns, invalid dates in the
  inputs of the repositories, the time zone of the database in its check of the 45 days, the syntax of UUIDs
  in the inputs of the authentication store, a rate window of length 0.  The adapter of
  the Verus SDK, the JSON-RPC transport, the HTTP API, the configuration, the web pages, the timer of the worker and
  the scripts are input and output around the modelled parts.
\<close>

end
